(* ===== verification/Prelude.thy ===== *)
theory Prelude
  imports Main "HOL-Library.Word"
begin

text \<open>
  What the components of the events module share: results (\<open>Result<T, E>\<close> as a
  sum, errors on the left), the handful of SQL statement shapes the repositories use
  on tables kept as lists of rows, the \<open>str\<close> methods the code calls, decimal
  text, and the two interfaces several components provide: a text codec of an
  enumeration and a state that is only changed by verbs.
\<close>

named_theorems table_simps \<open>rewriting facts about the statement shapes on tables\<close>
named_theorems result_simps \<open>rewriting facts about results\<close>

type_synonym uuid = nat
type_synonym timestamp = int
type_synonym 'a table = "'a list"

section \<open>Results\<close>

text \<open>\<open>?\<close>: stop at the first error, otherwise go on with the value.\<close>

fun bind_r :: "'e + 'a \<Rightarrow> ('a \<Rightarrow> 'e + 'b) \<Rightarrow> 'e + 'b" where
  "bind_r (Inl e) f = Inl e"
| "bind_r (Inr a) f = f a"

text \<open>\<open>if !b { return Err(e) }\<close>.\<close>

definition require :: "bool \<Rightarrow> 'e \<Rightarrow> 'e + unit" where
  "require b e = (if b then Inr () else Inl e)"

text \<open>\<open>Option::ok_or\<close>.\<close>

fun ok_or :: "'a option \<Rightarrow> 'e \<Rightarrow> 'e + 'a" where
  "ok_or None e = Inl e"
| "ok_or (Some a) e = Inr a"

lemma bind_r_Inr_iff [result_simps]:
  "bind_r m f = Inr y \<longleftrightarrow> (\<exists>x. m = Inr x \<and> f x = Inr y)"
  by (cases m) auto

lemma bind_r_Inl_iff [result_simps]:
  "bind_r m f = Inl e \<longleftrightarrow> m = Inl e \<or> (\<exists>x. m = Inr x \<and> f x = Inl e)"
  by (cases m) auto

lemma require_Inr_iff [result_simps]: "require b e = Inr u \<longleftrightarrow> b"
  by (simp add: require_def)

lemma require_Inl_iff [result_simps]: "require b e = Inl e' \<longleftrightarrow> \<not> b \<and> e' = e"
  by (auto simp: require_def)

lemma isr_obtain: "\<not> isl x \<Longrightarrow> \<exists>y. x = Inr y"
  by (cases x) auto

lemma isr_obtain2: "\<not> isl x \<Longrightarrow> \<exists>a b. x = Inr (a, b)"
  by (cases x) auto

lemma isr_obtain4: "\<not> isl x \<Longrightarrow> \<exists>a b c d. x = Inr ((a, b, c), d)"
  by (cases x) auto

lemma map_sum_Inr_iff [result_simps]:
  "map_sum id snd m = Inr y \<longleftrightarrow> (\<exists>x. m = Inr (x, y))"
  by (cases m) auto

lemma ok_or_Inr_iff [result_simps]: "ok_or m e = Inr x \<longleftrightarrow> m = Some x"
  by (cases m) auto

lemma ok_or_Inl_iff [result_simps]: "ok_or m e = Inl e' \<longleftrightarrow> m = None \<and> e' = e"
  by (cases m) auto

lemma bind_r_require [simp]:
  "bind_r (require b e) f = (if b then f () else Inl e)"
  by (simp add: require_def)

section \<open>Statement shapes on tables\<close>

text \<open>
  \<open>SELECT .. WHERE p\<close>, \<open>UPDATE .. SET f WHERE p\<close>, \<open>DELETE .. WHERE p\<close>,
  \<open>SELECT count(*) .. WHERE p\<close>, \<open>EXISTS (SELECT 1 .. WHERE p)\<close>,
  \<open>fetch_optional\<close> and \<open>LIMIT\<close>.
\<close>

definition sel_rows :: "('r \<Rightarrow> bool) \<Rightarrow> 'r table \<Rightarrow> 'r table" where
  "sel_rows p t = filter p t"

definition upd_rows :: "('r \<Rightarrow> bool) \<Rightarrow> ('r \<Rightarrow> 'r) \<Rightarrow> 'r table \<Rightarrow> 'r table" where
  "upd_rows p f t = map (\<lambda>r. if p r then f r else r) t"

definition del_rows :: "('r \<Rightarrow> bool) \<Rightarrow> 'r table \<Rightarrow> 'r table" where
  "del_rows p t = filter (\<lambda>r. \<not> p r) t"

definition count_rows :: "('r \<Rightarrow> bool) \<Rightarrow> 'r table \<Rightarrow> int" where
  "count_rows p t = int (length (filter p t))"

definition exists_row :: "('r \<Rightarrow> bool) \<Rightarrow> 'r table \<Rightarrow> bool" where
  "exists_row p t \<longleftrightarrow> list_ex p t"

definition limit_rows :: "int \<Rightarrow> 'r table \<Rightarrow> 'r table" where
  "limit_rows n t = take (nat n) t"

text \<open>\<open>COALESCE(a, b)\<close> on nullable columns.\<close>

fun coalesce :: "'a option \<Rightarrow> 'a option \<Rightarrow> 'a option" where
  "coalesce (Some a) b = Some a"
| "coalesce None b = b"

lemma coalesce_None_iff [simp]: "coalesce a b = None \<longleftrightarrow> a = None \<and> b = None"
  by (cases a) auto

lemma set_upd_rows [table_simps]:
  "set (upd_rows p f t) = (\<lambda>r. if p r then f r else r) ` set t"
  by (auto simp: upd_rows_def)

lemma in_upd_rows_iff [table_simps]:
  "x \<in> set (upd_rows p f t) \<longleftrightarrow>
     (\<exists>r \<in> set t. x = (if p r then f r else r))"
  by (auto simp: upd_rows_def)

lemma length_upd_rows [table_simps]: "length (upd_rows p f t) = length t"
  by (simp add: upd_rows_def)

lemma map_upd_rows [table_simps]:
  assumes "\<And>r. p r \<Longrightarrow> g (f r) = g r"
  shows "map g (upd_rows p f t) = map g t"
  using assms by (induction t) (auto simp: upd_rows_def)

lemma upd_rows_append [table_simps]:
  "upd_rows p f (s @ t) = upd_rows p f s @ upd_rows p f t"
  by (simp add: upd_rows_def)

lemma in_del_rows_iff [table_simps]: "x \<in> set (del_rows p t) \<longleftrightarrow> x \<in> set t \<and> \<not> p x"
  by (auto simp: del_rows_def)

lemma in_sel_rows_iff [table_simps]: "x \<in> set (sel_rows p t) \<longleftrightarrow> x \<in> set t \<and> p x"
  by (auto simp: sel_rows_def)

lemma exists_row_iff [table_simps]: "exists_row p t \<longleftrightarrow> (\<exists>r \<in> set t. p r)"
  by (auto simp: exists_row_def list_ex_iff)

lemma exists_key_iff: "exists_row (\<lambda>x. k x = i) t \<longleftrightarrow> i \<in> k ` set t"
  by (auto simp: exists_row_iff)

lemma count_rows_append [table_simps]:
  "count_rows p (s @ t) = count_rows p s + count_rows p t"
  by (simp add: count_rows_def)

lemma count_rows_Cons [table_simps]:
  "count_rows p (r # t) = (if p r then 1 else 0) + count_rows p t"
  by (simp add: count_rows_def)

lemma count_rows_Nil [table_simps]: "count_rows p [] = 0"
  by (simp add: count_rows_def)

lemma count_rows_nonneg [simp]: "0 \<le> count_rows p t"
  by (simp add: count_rows_def)

lemma count_rows_mono:
  "(\<And>r. r \<in> set t \<Longrightarrow> p r \<Longrightarrow> q r) \<Longrightarrow> count_rows p t \<le> count_rows q t"
  by (induction t) (auto simp: table_simps)

lemma count_rows_cong:
  "(\<And>r. r \<in> set t \<Longrightarrow> p r = q r) \<Longrightarrow> count_rows p t = count_rows q t"
  by (induction t) (auto simp: table_simps)

lemma count_rows_upd:
  "count_rows q (upd_rows p f t) = count_rows (\<lambda>r. q (if p r then f r else r)) t"
  by (induction t) (auto simp: count_rows_def upd_rows_def)

lemma count_rows_pos_iff: "0 < count_rows p t \<longleftrightarrow> (\<exists>r \<in> set t. p r)"
  by (induction t) (auto simp: table_simps add_pos_nonneg)

text \<open>An update of the one row with a given key changes a count by at most that row.\<close>

lemma count_rows_upd_key:
  assumes "distinct (map k t)"
  shows "count_rows q (upd_rows (\<lambda>r. k r = i) f t)
    = count_rows (\<lambda>r. k r \<noteq> i \<and> q r) t + count_rows (\<lambda>r. k r = i \<and> q (f r)) t"
  using assms by (induction t) (auto simp: count_rows_def upd_rows_def)

lemma count_rows_split_key:
  "count_rows q t = count_rows (\<lambda>r. k r \<noteq> i \<and> q r) t + count_rows (\<lambda>r. k r = i \<and> q r) t"
  by (induction t) (auto simp: count_rows_def)

lemma count_rows_key_le_1:
  assumes "distinct (map k t)"
  shows "count_rows (\<lambda>r. k r = i \<and> q r) t \<le> 1"
  using assms
proof (induction t)
  case (Cons r t)
  have "count_rows (\<lambda>x. k x = i \<and> q x) t = 0" if "k r = i"
    using Cons.prems that by (fastforce simp: count_rows_def filter_empty_conv image_iff)
  with Cons show ?case by (auto simp: table_simps)
qed (simp add: table_simps)

lemma find_Some_in: "find p t = Some r \<Longrightarrow> r \<in> set t \<and> p r"
  by (auto simp: find_Some_iff)

lemma find_None_iff': "find p t = None \<longleftrightarrow> (\<forall>r \<in> set t. \<not> p r)"
  by (auto simp: find_None_iff)

text \<open>A keyed table has one row per key, so a lookup by key finds the row itself.\<close>

lemma find_key_eq:
  assumes "distinct (map k t)" and "r \<in> set t"
  shows "find (\<lambda>x. k x = k r) t = Some r"
  using assms by (induction t) auto

lemma key_unique:
  assumes "distinct (map k t)" and "r \<in> set t" and "s \<in> set t" and "k r = k s"
  shows "r = s"
  using assms by (metis distinct_map inj_onD)

section \<open>Text\<close>

text \<open>
  Texts are byte strings; the code's comparisons, trimming and lower-casing are modelled
  on their ASCII part, which is all the module's own vocabularies use.
\<close>

definition to_lower_char :: "char \<Rightarrow> char" where
  "to_lower_char c =
     (if 65 \<le> (of_char c :: nat) \<and> (of_char c :: nat) \<le> 90
      then char_of ((of_char c :: nat) + 32) else c)"

definition to_lowercase :: "string \<Rightarrow> string" where
  "to_lowercase s = map to_lower_char s"

definition is_space :: "char \<Rightarrow> bool" where
  "is_space c \<longleftrightarrow> (of_char c :: nat) = 32 \<or>
     9 \<le> (of_char c :: nat) \<and> (of_char c :: nat) \<le> 13"

definition trim :: "string \<Rightarrow> string" where
  "trim s = rev (dropWhile is_space (rev (dropWhile is_space s)))"

text \<open>The \<open>match s.to_lowercase().as_str()\<close> of the generated \<open>FromStr\<close>s.\<close>

definition match_arms :: "(string \<times> 'a) list \<Rightarrow> (string \<Rightarrow> 'e) \<Rightarrow> string \<Rightarrow> 'e + 'a" where
  "match_arms arms err s =
     (case map_of arms (to_lowercase s) of Some x \<Rightarrow> Inr x | None \<Rightarrow> Inl (err s))"

lemma match_arms_Inr_iff:
  "match_arms arms err s = Inr x \<longleftrightarrow> map_of arms (to_lowercase s) = Some x"
  by (auto simp: match_arms_def split: option.splits)

lemma match_arms_Inl_iff:
  "match_arms arms err s = Inl e \<longleftrightarrow> map_of arms (to_lowercase s) = None \<and> e = err s"
  by (auto simp: match_arms_def split: option.splits)

text \<open>The em dash the refusal texts use, in UTF-8.\<close>

definition em_dash :: string where
  "em_dash = [CHR 0xE2, CHR 0x80, CHR 0x94]"

text \<open>Decimal text of a natural number, the \<open>Display\<close> of an unsigned integer.\<close>

definition digit_char :: "nat \<Rightarrow> char" where
  "digit_char d = char_of (48 + d)"

fun show_nat :: "nat \<Rightarrow> string" where
  "show_nat n = (if n < 10 then [digit_char n] else show_nat (n div 10) @ [digit_char (n mod 10)])"

declare show_nat.simps [simp del]

definition show_int :: "int \<Rightarrow> string" where
  "show_int i = (if i < 0 then ''-'' @ show_nat (nat (- i)) else show_nat (nat i))"

definition is_digit :: "char \<Rightarrow> bool" where
  "is_digit c \<longleftrightarrow> 48 \<le> (of_char c :: nat) \<and> (of_char c :: nat) \<le> 57"

lemma is_digit_digit_char [simp]: "d < 10 \<Longrightarrow> is_digit (digit_char d)"
  by (simp add: is_digit_def digit_char_def)

lemma of_digit_char: "d < 10 \<Longrightarrow> (of_char (digit_char d) :: nat) = 48 + d"
  by (simp add: digit_char_def)

lemma digit_char_inj: "c < 10 \<Longrightarrow> d < 10 \<Longrightarrow> digit_char c = digit_char d \<Longrightarrow> c = d"
  by (metis add_left_cancel of_digit_char)

lemma show_nat_ne [simp]: "show_nat n \<noteq> []"
  by (subst show_nat.simps) simp

lemma show_nat_digits: "\<forall>c \<in> set (show_nat n). is_digit c"
proof (induction n rule: show_nat.induct)
  case (1 n)
  then show ?case by (subst show_nat.simps) (auto simp del: show_nat.simps)
qed

lemma length_show_nat_le: "n < 10 ^ k \<Longrightarrow> 0 < k \<Longrightarrow> length (show_nat n) \<le> k"
proof (induction n arbitrary: k rule: show_nat.induct)
  case (1 n)
  show ?case
  proof (cases "n < 10")
    case True
    with 1 show ?thesis by (subst show_nat.simps) simp
  next
    case False
    with 1 obtain j where k: "k = Suc j" and j: "0 < j"
      by (cases k; cases "k - 1") auto
    have "n div 10 < 10 ^ j" using 1(2) k by (simp add: less_mult_imp_div_less mult.commute)
    then have "length (show_nat (n div 10)) \<le> j" using False j 1(1) by blast
    with False k show ?thesis by (subst show_nat.simps) simp
  qed
qed

lemma show_nat_inj: "show_nat m = show_nat n \<Longrightarrow> m = n"
proof (induction m arbitrary: n rule: show_nat.induct)
  case (1 m)
  show ?case
  proof (cases "m < 10 \<or> n < 10")
    case True
    with 1(2) show ?thesis
      by (subst (asm) (1 2) show_nat.simps)
         (auto dest: digit_char_inj simp: show_nat_ne [symmetric] split: if_splits)
  next
    case False
    with 1(2) have eq: "show_nat (m div 10) = show_nat (n div 10)"
      "digit_char (m mod 10) = digit_char (n mod 10)"
      by (subst (asm) (1 2) show_nat.simps, simp)+
    with 1(1) False have "m div 10 = n div 10" by simp
    moreover have "m mod 10 = n mod 10" using eq(2) by (rule digit_char_inj [rotated 2]) simp_all
    ultimately show ?thesis by (metis div_mult_mod_eq)
  qed
qed

section \<open>Interfaces\<close>

text \<open>
  The text codec of an enumeration, as the generator emits it: \<open>Display\<close> writes the
  snake-case name and \<open>FromStr\<close> reads it back in any letter case.
\<close>

locale enum_codec =
  fixes to_str :: "'a \<Rightarrow> string"
    and from_str :: "string \<Rightarrow> 'e + 'a"
  assumes reads_iff: "from_str s = Inr x \<longleftrightarrow> to_lowercase s = to_str x"
    and lower: "to_lowercase (to_str x) = to_str x"
begin

lemma round_trip: "from_str (to_str x) = Inr x"
  by (simp add: reads_iff lower)

lemma to_str_inj: "to_str x = to_str y \<longleftrightarrow> x = y"
  by (metis Inr_inject round_trip)

lemma reads_any_case: "to_lowercase s = to_lowercase t \<Longrightarrow>
    (\<exists>x. from_str s = Inr x) \<longleftrightarrow> (\<exists>x. from_str t = Inr x)"
  by (simp add: reads_iff)

lemma refuses_iff: "(\<exists>e. from_str s = Inl e) \<longleftrightarrow> to_lowercase s \<notin> range to_str"
proof (cases "from_str s")
  case (Inl e)
  then have "to_lowercase s \<noteq> to_str x" for x using reads_iff [of s x] by simp
  with Inl show ?thesis by auto
next
  case (Inr x)
  with reads_iff [of s x] show ?thesis by auto
qed

end

text \<open>
  A state that only verbs change: a verb either refuses, and the state stays as it was
  (the transaction rolls back), or commits its new state. What every verb keeps, every
  run of verbs keeps.
\<close>

fun run_verbs :: "('c \<Rightarrow> 's \<Rightarrow> 'e + 's) \<Rightarrow> 'c list \<Rightarrow> 's \<Rightarrow> 's" where
  "run_verbs step [] s = s"
| "run_verbs step (c # cs) s =
     run_verbs step cs (case step c s of Inl e \<Rightarrow> s | Inr s' \<Rightarrow> s')"

text \<open>Every verb of the run is admissible in the state it meets.\<close>

fun run_admissible :: "('c \<Rightarrow> 's \<Rightarrow> 'e + 's) \<Rightarrow> ('c \<Rightarrow> 's \<Rightarrow> bool) \<Rightarrow> 'c list \<Rightarrow> 's \<Rightarrow> bool" where
  "run_admissible step adm [] s \<longleftrightarrow> True"
| "run_admissible step adm (c # cs) s \<longleftrightarrow>
     adm c s \<and> run_admissible step adm cs (case step c s of Inl e \<Rightarrow> s | Inr s' \<Rightarrow> s')"

locale verb_invariant =
  fixes step :: "'c \<Rightarrow> 's \<Rightarrow> 'e + 's"
    and admissible :: "'c \<Rightarrow> 's \<Rightarrow> bool"
    and inv :: "'s \<Rightarrow> bool"
  assumes keeps: "step c s = Inr s' \<Longrightarrow> admissible c s \<Longrightarrow> inv s \<Longrightarrow> inv s'"
begin

lemma run_keeps:
  "inv s \<Longrightarrow> run_admissible step admissible cs s \<Longrightarrow> inv (run_verbs step cs s)"
proof (induction cs arbitrary: s)
  case (Cons c cs)
  then show ?case by (cases "step c s") (auto dest: keeps)
qed simp

end

text \<open>Two runs one after the other.\<close>

lemma run_verbs_append: "run_verbs step (cs @ ds) s = run_verbs step ds (run_verbs step cs s)"
  by (induction cs arbitrary: s) auto

end
