(* ===== verification/Enums.thy ===== *)
theory Enums
  imports Prelude
begin

text \<open>
  The fifteen enumerations of \<open>src/src/domain/entity/event_*.rs\<close>: the datatype with the
  source's variants (prefixed, since several enumerations share a variant name), the
  \<open>Display\<close> text, the \<open>FromStr\<close> reader (which lower-cases its input first) and the
  \<open>Default\<close>. Each is an instance of the codec interface of the prelude. The same texts
  are the labels of the PostgreSQL enum types the \<open>::event_..\<close> casts read, exactly and
  in lower case only, which is what \<open>from_label\<close> models.
\<close>

text \<open>A cast of a text to a PostgreSQL enum type: the label itself, in its exact spelling.\<close>

definition from_label :: "('a \<Rightarrow> string) \<Rightarrow> 'a list \<Rightarrow> string \<Rightarrow> 'a option" where
  "from_label to_str all s = find (\<lambda>x. to_str x = s) all"

lemmas codec_reads = match_arms_Inr_iff to_lowercase_def to_lower_char_def


section \<open>\<open>EventBadgeFormat\<close>\<close>

datatype event_badge_format = Badge_A4FrenchFold | Badge_A6 | Badge_FourPerSheet

fun badge_format_to_str :: "event_badge_format \<Rightarrow> string" where
  "badge_format_to_str Badge_A4FrenchFold = ''a4_french_fold''"
| "badge_format_to_str Badge_A6 = ''a6''"
| "badge_format_to_str Badge_FourPerSheet = ''four_per_sheet''"

definition badge_format_from_str :: "string \<Rightarrow> string + event_badge_format" where
  "badge_format_from_str = match_arms
     [(''a4_french_fold'', Badge_A4FrenchFold),
      (''a6'', Badge_A6),
      (''four_per_sheet'', Badge_FourPerSheet)]
     (\<lambda>s. ''Unknown EventBadgeFormat variant: '' @ s)"

definition badge_format_default :: event_badge_format where
  "badge_format_default = Badge_A4FrenchFold"

interpretation badge_format: enum_codec badge_format_to_str badge_format_from_str
  by unfold_locales (case_tac x; auto simp: badge_format_from_str_def codec_reads split: if_splits)+

section \<open>\<open>EventBoothBookingStatus\<close>\<close>

datatype event_booth_booking_status = Booking_Pending | Booking_Confirmed

fun booth_booking_status_to_str :: "event_booth_booking_status \<Rightarrow> string" where
  "booth_booking_status_to_str Booking_Pending = ''pending''"
| "booth_booking_status_to_str Booking_Confirmed = ''confirmed''"

definition booth_booking_status_from_str :: "string \<Rightarrow> string + event_booth_booking_status" where
  "booth_booking_status_from_str = match_arms
     [(''pending'', Booking_Pending),
      (''confirmed'', Booking_Confirmed)]
     (\<lambda>s. ''Unknown EventBoothBookingStatus variant: '' @ s)"

definition booth_booking_status_default :: event_booth_booking_status where
  "booth_booking_status_default = Booking_Pending"

interpretation booth_booking_status: enum_codec booth_booking_status_to_str booth_booking_status_from_str
  by unfold_locales (case_tac x; auto simp: booth_booking_status_from_str_def codec_reads split: if_splits)+

section \<open>\<open>EventBoothState\<close>\<close>

datatype event_booth_state = Booth_Available | Booth_Unavailable

fun booth_state_to_str :: "event_booth_state \<Rightarrow> string" where
  "booth_state_to_str Booth_Available = ''available''"
| "booth_state_to_str Booth_Unavailable = ''unavailable''"

definition booth_state_from_str :: "string \<Rightarrow> string + event_booth_state" where
  "booth_state_from_str = match_arms
     [(''available'', Booth_Available),
      (''unavailable'', Booth_Unavailable)]
     (\<lambda>s. ''Unknown EventBoothState variant: '' @ s)"

definition booth_state_default :: event_booth_state where
  "booth_state_default = Booth_Available"

interpretation booth_state: enum_codec booth_state_to_str booth_state_from_str
  by unfold_locales (case_tac x; auto simp: booth_state_from_str_def codec_reads split: if_splits)+

section \<open>\<open>EventIntervalKind\<close>\<close>

datatype event_interval_kind = Interval_AfterSub | Interval_BeforeEvent | Interval_AfterEventStart | Interval_AfterEvent | Interval_BeforeEventEnd

fun interval_kind_to_str :: "event_interval_kind \<Rightarrow> string" where
  "interval_kind_to_str Interval_AfterSub = ''after_sub''"
| "interval_kind_to_str Interval_BeforeEvent = ''before_event''"
| "interval_kind_to_str Interval_AfterEventStart = ''after_event_start''"
| "interval_kind_to_str Interval_AfterEvent = ''after_event''"
| "interval_kind_to_str Interval_BeforeEventEnd = ''before_event_end''"

definition interval_kind_from_str :: "string \<Rightarrow> string + event_interval_kind" where
  "interval_kind_from_str = match_arms
     [(''after_sub'', Interval_AfterSub),
      (''before_event'', Interval_BeforeEvent),
      (''after_event_start'', Interval_AfterEventStart),
      (''after_event'', Interval_AfterEvent),
      (''before_event_end'', Interval_BeforeEventEnd)]
     (\<lambda>s. ''Unknown EventIntervalKind variant: '' @ s)"

definition interval_kind_default :: event_interval_kind where
  "interval_kind_default = Interval_AfterSub"

interpretation interval_kind: enum_codec interval_kind_to_str interval_kind_from_str
  by unfold_locales (case_tac x; auto simp: interval_kind_from_str_def codec_reads split: if_splits)+

section \<open>\<open>EventIntervalUnit\<close>\<close>

datatype event_interval_unit = Unit_Now | Unit_Hours | Unit_Days | Unit_Weeks | Unit_Months

fun interval_unit_to_str :: "event_interval_unit \<Rightarrow> string" where
  "interval_unit_to_str Unit_Now = ''now''"
| "interval_unit_to_str Unit_Hours = ''hours''"
| "interval_unit_to_str Unit_Days = ''days''"
| "interval_unit_to_str Unit_Weeks = ''weeks''"
| "interval_unit_to_str Unit_Months = ''months''"

definition interval_unit_from_str :: "string \<Rightarrow> string + event_interval_unit" where
  "interval_unit_from_str = match_arms
     [(''now'', Unit_Now),
      (''hours'', Unit_Hours),
      (''days'', Unit_Days),
      (''weeks'', Unit_Weeks),
      (''months'', Unit_Months)]
     (\<lambda>s. ''Unknown EventIntervalUnit variant: '' @ s)"

definition interval_unit_default :: event_interval_unit where
  "interval_unit_default = Unit_Now"

interpretation interval_unit: enum_codec interval_unit_to_str interval_unit_from_str
  by unfold_locales (case_tac x; auto simp: interval_unit_from_str_def codec_reads split: if_splits)+

section \<open>\<open>EventKanbanState\<close>\<close>

datatype event_kanban_state = Kanban_Normal | Kanban_Done | Kanban_Blocked | Kanban_Cancel

fun kanban_state_to_str :: "event_kanban_state \<Rightarrow> string" where
  "kanban_state_to_str Kanban_Normal = ''normal''"
| "kanban_state_to_str Kanban_Done = ''done''"
| "kanban_state_to_str Kanban_Blocked = ''blocked''"
| "kanban_state_to_str Kanban_Cancel = ''cancel''"

definition kanban_state_from_str :: "string \<Rightarrow> string + event_kanban_state" where
  "kanban_state_from_str = match_arms
     [(''normal'', Kanban_Normal),
      (''done'', Kanban_Done),
      (''blocked'', Kanban_Blocked),
      (''cancel'', Kanban_Cancel)]
     (\<lambda>s. ''Unknown EventKanbanState variant: '' @ s)"

definition kanban_state_default :: event_kanban_state where
  "kanban_state_default = Kanban_Normal"

interpretation kanban_state: enum_codec kanban_state_to_str kanban_state_from_str
  by unfold_locales (case_tac x; auto simp: kanban_state_from_str_def codec_reads split: if_splits)+

section \<open>\<open>EventLeadBasis\<close>\<close>

datatype event_lead_basis = Basis_Registration | Basis_Attendee

fun lead_basis_to_str :: "event_lead_basis \<Rightarrow> string" where
  "lead_basis_to_str Basis_Registration = ''registration''"
| "lead_basis_to_str Basis_Attendee = ''attendee''"

definition lead_basis_from_str :: "string \<Rightarrow> string + event_lead_basis" where
  "lead_basis_from_str = match_arms
     [(''registration'', Basis_Registration),
      (''attendee'', Basis_Attendee)]
     (\<lambda>s. ''Unknown EventLeadBasis variant: '' @ s)"

definition lead_basis_default :: event_lead_basis where
  "lead_basis_default = Basis_Registration"

interpretation lead_basis: enum_codec lead_basis_to_str lead_basis_from_str
  by unfold_locales (case_tac x; auto simp: lead_basis_from_str_def codec_reads split: if_splits)+

section \<open>\<open>EventLeadGrouping\<close>\<close>

datatype event_lead_grouping = Grouping_PerOrder | Grouping_PerEventDay

fun lead_grouping_to_str :: "event_lead_grouping \<Rightarrow> string" where
  "lead_grouping_to_str Grouping_PerOrder = ''per_order''"
| "lead_grouping_to_str Grouping_PerEventDay = ''per_event_day''"

definition lead_grouping_from_str :: "string \<Rightarrow> string + event_lead_grouping" where
  "lead_grouping_from_str = match_arms
     [(''per_order'', Grouping_PerOrder),
      (''per_event_day'', Grouping_PerEventDay)]
     (\<lambda>s. ''Unknown EventLeadGrouping variant: '' @ s)"

definition lead_grouping_default :: event_lead_grouping where
  "lead_grouping_default = Grouping_PerOrder"

interpretation lead_grouping: enum_codec lead_grouping_to_str lead_grouping_from_str
  by unfold_locales (case_tac x; auto simp: lead_grouping_from_str_def codec_reads split: if_splits)+

section \<open>\<open>EventLeadPredicateAxis\<close>\<close>

datatype event_lead_predicate_axis = Axis_Event | Axis_EventType | Axis_Company | Axis_QuestionAnswer

fun lead_predicate_axis_to_str :: "event_lead_predicate_axis \<Rightarrow> string" where
  "lead_predicate_axis_to_str Axis_Event = ''event''"
| "lead_predicate_axis_to_str Axis_EventType = ''event_type''"
| "lead_predicate_axis_to_str Axis_Company = ''company''"
| "lead_predicate_axis_to_str Axis_QuestionAnswer = ''question_answer''"

definition lead_predicate_axis_from_str :: "string \<Rightarrow> string + event_lead_predicate_axis" where
  "lead_predicate_axis_from_str = match_arms
     [(''event'', Axis_Event),
      (''event_type'', Axis_EventType),
      (''company'', Axis_Company),
      (''question_answer'', Axis_QuestionAnswer)]
     (\<lambda>s. ''Unknown EventLeadPredicateAxis variant: '' @ s)"

definition lead_predicate_axis_default :: event_lead_predicate_axis where
  "lead_predicate_axis_default = Axis_Event"

interpretation lead_predicate_axis: enum_codec lead_predicate_axis_to_str lead_predicate_axis_from_str
  by unfold_locales (case_tac x; auto simp: lead_predicate_axis_from_str_def codec_reads split: if_splits)+

section \<open>\<open>EventMailErrorKind\<close>\<close>

datatype event_mail_error_kind = MailErr_TemplateUnresolved | MailErr_TemplateRendererNotComposed | MailErr_RenderFailed | MailErr_EnqueueRefused | MailErr_RecipientInvalid | MailErr_SmsEnqueueRefused

fun mail_error_kind_to_str :: "event_mail_error_kind \<Rightarrow> string" where
  "mail_error_kind_to_str MailErr_TemplateUnresolved = ''template_unresolved''"
| "mail_error_kind_to_str MailErr_TemplateRendererNotComposed = ''template_renderer_not_composed''"
| "mail_error_kind_to_str MailErr_RenderFailed = ''render_failed''"
| "mail_error_kind_to_str MailErr_EnqueueRefused = ''enqueue_refused''"
| "mail_error_kind_to_str MailErr_RecipientInvalid = ''recipient_invalid''"
| "mail_error_kind_to_str MailErr_SmsEnqueueRefused = ''sms_enqueue_refused''"

definition mail_error_kind_from_str :: "string \<Rightarrow> string + event_mail_error_kind" where
  "mail_error_kind_from_str = match_arms
     [(''template_unresolved'', MailErr_TemplateUnresolved),
      (''template_renderer_not_composed'', MailErr_TemplateRendererNotComposed),
      (''render_failed'', MailErr_RenderFailed),
      (''enqueue_refused'', MailErr_EnqueueRefused),
      (''recipient_invalid'', MailErr_RecipientInvalid),
      (''sms_enqueue_refused'', MailErr_SmsEnqueueRefused)]
     (\<lambda>s. ''Unknown EventMailErrorKind variant: '' @ s)"

definition mail_error_kind_default :: event_mail_error_kind where
  "mail_error_kind_default = MailErr_TemplateUnresolved"

interpretation mail_error_kind: enum_codec mail_error_kind_to_str mail_error_kind_from_str
  by unfold_locales (case_tac x; auto simp: mail_error_kind_from_str_def codec_reads split: if_splits)+

section \<open>\<open>EventNotificationChannel\<close>\<close>

datatype event_notification_channel = Channel_Mail | Channel_Sms

fun notification_channel_to_str :: "event_notification_channel \<Rightarrow> string" where
  "notification_channel_to_str Channel_Mail = ''mail''"
| "notification_channel_to_str Channel_Sms = ''sms''"

definition notification_channel_from_str :: "string \<Rightarrow> string + event_notification_channel" where
  "notification_channel_from_str = match_arms
     [(''mail'', Channel_Mail),
      (''sms'', Channel_Sms)]
     (\<lambda>s. ''Unknown EventNotificationChannel variant: '' @ s)"

definition notification_channel_default :: event_notification_channel where
  "notification_channel_default = Channel_Mail"

interpretation notification_channel: enum_codec notification_channel_to_str notification_channel_from_str
  by unfold_locales (case_tac x; auto simp: notification_channel_from_str_def codec_reads split: if_splits)+

section \<open>\<open>EventQuestionKind\<close>\<close>

datatype event_question_kind = Question_TextBox | Question_SimpleChoice | Question_Name | Question_Email | Question_Phone | Question_CompanyName

fun question_kind_to_str :: "event_question_kind \<Rightarrow> string" where
  "question_kind_to_str Question_TextBox = ''text_box''"
| "question_kind_to_str Question_SimpleChoice = ''simple_choice''"
| "question_kind_to_str Question_Name = ''name''"
| "question_kind_to_str Question_Email = ''email''"
| "question_kind_to_str Question_Phone = ''phone''"
| "question_kind_to_str Question_CompanyName = ''company_name''"

definition question_kind_from_str :: "string \<Rightarrow> string + event_question_kind" where
  "question_kind_from_str = match_arms
     [(''text_box'', Question_TextBox),
      (''simple_choice'', Question_SimpleChoice),
      (''name'', Question_Name),
      (''email'', Question_Email),
      (''phone'', Question_Phone),
      (''company_name'', Question_CompanyName)]
     (\<lambda>s. ''Unknown EventQuestionKind variant: '' @ s)"

definition question_kind_default :: event_question_kind where
  "question_kind_default = Question_TextBox"

interpretation question_kind: enum_codec question_kind_to_str question_kind_from_str
  by unfold_locales (case_tac x; auto simp: question_kind_from_str_def codec_reads split: if_splits)+

section \<open>\<open>EventRegistrationState\<close>\<close>

datatype event_registration_state = Reg_Draft | Reg_Open | Reg_Done | Reg_Cancel

fun registration_state_to_str :: "event_registration_state \<Rightarrow> string" where
  "registration_state_to_str Reg_Draft = ''draft''"
| "registration_state_to_str Reg_Open = ''open''"
| "registration_state_to_str Reg_Done = ''done''"
| "registration_state_to_str Reg_Cancel = ''cancel''"

definition registration_state_from_str :: "string \<Rightarrow> string + event_registration_state" where
  "registration_state_from_str = match_arms
     [(''draft'', Reg_Draft),
      (''open'', Reg_Open),
      (''done'', Reg_Done),
      (''cancel'', Reg_Cancel)]
     (\<lambda>s. ''Unknown EventRegistrationState variant: '' @ s)"

definition registration_state_default :: event_registration_state where
  "registration_state_default = Reg_Open"

interpretation registration_state: enum_codec registration_state_to_str registration_state_from_str
  by unfold_locales (case_tac x; auto simp: registration_state_from_str_def codec_reads split: if_splits)+

section \<open>\<open>EventSaleOrderState\<close>\<close>

datatype event_sale_order_state = SaleOrder_Draft | SaleOrder_Sent | SaleOrder_Sale | SaleOrder_Cancel

fun sale_order_state_to_str :: "event_sale_order_state \<Rightarrow> string" where
  "sale_order_state_to_str SaleOrder_Draft = ''draft''"
| "sale_order_state_to_str SaleOrder_Sent = ''sent''"
| "sale_order_state_to_str SaleOrder_Sale = ''sale''"
| "sale_order_state_to_str SaleOrder_Cancel = ''cancel''"

definition sale_order_state_from_str :: "string \<Rightarrow> string + event_sale_order_state" where
  "sale_order_state_from_str = match_arms
     [(''draft'', SaleOrder_Draft),
      (''sent'', SaleOrder_Sent),
      (''sale'', SaleOrder_Sale),
      (''cancel'', SaleOrder_Cancel)]
     (\<lambda>s. ''Unknown EventSaleOrderState variant: '' @ s)"

definition sale_order_state_default :: event_sale_order_state where
  "sale_order_state_default = SaleOrder_Draft"

interpretation sale_order_state: enum_codec sale_order_state_to_str sale_order_state_from_str
  by unfold_locales (case_tac x; auto simp: sale_order_state_from_str_def codec_reads split: if_splits)+

section \<open>\<open>EventSaleStatus\<close>\<close>

datatype event_sale_status = Sale_Free | Sale_Sold | Sale_ToPay

fun sale_status_to_str :: "event_sale_status \<Rightarrow> string" where
  "sale_status_to_str Sale_Free = ''free''"
| "sale_status_to_str Sale_Sold = ''sold''"
| "sale_status_to_str Sale_ToPay = ''to_pay''"

definition sale_status_from_str :: "string \<Rightarrow> string + event_sale_status" where
  "sale_status_from_str = match_arms
     [(''free'', Sale_Free),
      (''sold'', Sale_Sold),
      (''to_pay'', Sale_ToPay)]
     (\<lambda>s. ''Unknown EventSaleStatus variant: '' @ s)"

definition sale_status_default :: event_sale_status where
  "sale_status_default = Sale_Free"

interpretation sale_status: enum_codec sale_status_to_str sale_status_from_str
  by unfold_locales (case_tac x; auto simp: sale_status_from_str_def codec_reads split: if_splits)+


end
