(* ===== verification/EventError.thy ===== *)
theory EventError
  imports Prelude
begin

text \<open>
  \<open>application/service/event_error.rs\<close>: the module's one error type, its stable wire
  codes, the HTTP status of each variant, the message and the response. Every verb of the
  module returns \<open>event_error + 'a\<close> (\<open>EventResult\<close>). Driver failures reach a verb only
  through \<open>Database\<close>; the ones modelled are those the schema's own constraints raise.
\<close>

datatype event_error =
    EventNotFound
  | EventSeatsExhausted uuid
  | EventSaleWindowClosed uuid
  | EventSlotRequired uuid
  | EventSlotNotOfEvent uuid
  | EventTicketNotOfEvent uuid
  | RegistrationNotFound
  | EventNotPublished
  | EventCapabilitySecretNotConfigured
  | EventThrottled nat
  | PublishRefused string
  | TemplateUnresolved
  | TemplateRendererNotComposed
  | RenderFailed string
  | EnqueueRefused string
  | RecipientInvalid string
  | BoothNotFound uuid
  | BoothBookingNotFound uuid
  | BoothAlreadyConfirmed uuid
  | BoothDeleteRefusedSaleLinked uuid
  | BoothBookingLineCrossEvent uuid
  | LeadRuleNotFound uuid
  | LeadSinkRefused string
  | LeadRequestBusy uuid
  | LeadRequestNotFound uuid
  | DeskInvalidTicket
  | DeskCanceledRegistration
  | DeskUnconfirmedRegistration
  | DeskNotOngoingEvent
  | DeskNeedManualConfirmation
  | DeskAlreadyRegistered
  | Validation string
  | Database string
  | Internal string

type_synonym 'a event_result = "event_error + 'a"

primrec code :: "event_error \<Rightarrow> string" where
   "code EventNotFound = ''event_not_found''"
| "code (EventSeatsExhausted x) = ''event_seats_exhausted''"
| "code (EventSaleWindowClosed x) = ''event_sale_window_closed''"
| "code (EventSlotRequired x) = ''event_slot_required''"
| "code (EventSlotNotOfEvent x) = ''event_slot_not_of_event''"
| "code (EventTicketNotOfEvent x) = ''event_ticket_not_of_event''"
| "code RegistrationNotFound = ''registration_not_found''"
| "code EventNotPublished = ''event_not_published''"
| "code EventCapabilitySecretNotConfigured = ''event_capability_secret_not_configured''"
| "code (EventThrottled x) = ''event_throttled''"
| "code (PublishRefused x) = ''publish_refused''"
| "code TemplateUnresolved = ''template_unresolved''"
| "code TemplateRendererNotComposed = ''template_renderer_not_composed''"
| "code (RenderFailed x) = ''render_failed''"
| "code (EnqueueRefused x) = ''enqueue_refused''"
| "code (RecipientInvalid x) = ''recipient_invalid''"
| "code (BoothNotFound x) = ''booth_not_found''"
| "code (BoothBookingNotFound x) = ''booth_booking_not_found''"
| "code (BoothAlreadyConfirmed x) = ''booth_already_confirmed''"
| "code (BoothDeleteRefusedSaleLinked x) = ''booth_delete_refused_sale_linked''"
| "code (BoothBookingLineCrossEvent x) = ''booth_booking_line_cross_event''"
| "code (LeadRuleNotFound x) = ''lead_rule_not_found''"
| "code (LeadSinkRefused x) = ''lead_sink_refused''"
| "code (LeadRequestBusy x) = ''lead_request_busy''"
| "code (LeadRequestNotFound x) = ''lead_request_not_found''"
| "code DeskInvalidTicket = ''desk_invalid_ticket''"
| "code DeskCanceledRegistration = ''desk_canceled_registration''"
| "code DeskUnconfirmedRegistration = ''desk_unconfirmed_registration''"
| "code DeskNotOngoingEvent = ''desk_not_ongoing_event''"
| "code DeskNeedManualConfirmation = ''desk_need_manual_confirmation''"
| "code DeskAlreadyRegistered = ''desk_already_registered''"
| "code (Validation x) = ''event_validation_failed''"
| "code (Database x) = ''event_database_error''"
| "code (Internal x) = ''event_internal_error''"

primrec status :: "event_error \<Rightarrow> nat" where
   "status EventNotFound = 404"
| "status (EventSeatsExhausted x) = 422"
| "status (EventSaleWindowClosed x) = 422"
| "status (EventSlotRequired x) = 422"
| "status (EventSlotNotOfEvent x) = 422"
| "status (EventTicketNotOfEvent x) = 422"
| "status RegistrationNotFound = 404"
| "status EventNotPublished = 404"
| "status EventCapabilitySecretNotConfigured = 503"
| "status (EventThrottled x) = 429"
| "status (PublishRefused x) = 422"
| "status TemplateUnresolved = 409"
| "status TemplateRendererNotComposed = 409"
| "status (RenderFailed x) = 409"
| "status (EnqueueRefused x) = 409"
| "status (RecipientInvalid x) = 409"
| "status (BoothNotFound x) = 404"
| "status (BoothBookingNotFound x) = 404"
| "status (BoothAlreadyConfirmed x) = 409"
| "status (BoothDeleteRefusedSaleLinked x) = 422"
| "status (BoothBookingLineCrossEvent x) = 422"
| "status (LeadRuleNotFound x) = 404"
| "status (LeadSinkRefused x) = 409"
| "status (LeadRequestBusy x) = 409"
| "status (LeadRequestNotFound x) = 404"
| "status DeskInvalidTicket = 422"
| "status DeskCanceledRegistration = 422"
| "status DeskUnconfirmedRegistration = 422"
| "status DeskNotOngoingEvent = 422"
| "status DeskNeedManualConfirmation = 422"
| "status DeskAlreadyRegistered = 422"
| "status (Validation x) = 422"
| "status (Database x) = 500"
| "status (Internal x) = 500"

text \<open>The derived \<open>Display\<close>.\<close>

primrec message :: "event_error \<Rightarrow> string" where
   "message EventNotFound = ''event not found''"
| "message (EventSeatsExhausted x) = ''event seats exhausted''"
| "message (EventSaleWindowClosed x) = ''event sale window closed''"
| "message (EventSlotRequired x) = ''event slot required''"
| "message (EventSlotNotOfEvent x) = ''event slot not of event''"
| "message (EventTicketNotOfEvent x) = ''event ticket not of event''"
| "message RegistrationNotFound = ''registration not found''"
| "message EventNotPublished = ''event not published''"
| "message EventCapabilitySecretNotConfigured = ''event capability secret not configured''"
| "message (EventThrottled x) = ''event throttled''"
| "message (PublishRefused x) = ''publish refused: '' @ x"
| "message TemplateUnresolved = ''template unresolved''"
| "message TemplateRendererNotComposed = ''template renderer not composed''"
| "message (RenderFailed x) = ''render failed: '' @ x"
| "message (EnqueueRefused x) = ''enqueue refused: '' @ x"
| "message (RecipientInvalid x) = ''recipient invalid: '' @ x"
| "message (BoothNotFound x) = ''booth not found''"
| "message (BoothBookingNotFound x) = ''booth booking not found''"
| "message (BoothAlreadyConfirmed x) = ''booth already confirmed''"
| "message (BoothDeleteRefusedSaleLinked x) = ''booth delete refused: sale-linked''"
| "message (BoothBookingLineCrossEvent x) = ''booth booking line crosses events''"
| "message (LeadRuleNotFound x) = ''lead rule not found''"
| "message (LeadSinkRefused x) = ''lead sink refused: '' @ x"
| "message (LeadRequestBusy x) = ''lead request busy: another generation walk holds the lease''"
| "message (LeadRequestNotFound x) = ''lead request not found: nothing armed for the event''"
| "message DeskInvalidTicket = ''desk: invalid ticket''"
| "message DeskCanceledRegistration = ''desk: canceled registration''"
| "message DeskUnconfirmedRegistration = ''desk: unconfirmed registration''"
| "message DeskNotOngoingEvent = ''desk: not ongoing event''"
| "message DeskNeedManualConfirmation = ''desk: need manual confirmation''"
| "message DeskAlreadyRegistered = ''desk: already registered''"
| "message (Validation x) = ''validation: '' @ x"
| "message (Database x) = ''database: '' @ x"
| "message (Internal x) = ''internal: '' @ x"

record response =
  resp_status :: nat
  resp_retry_after :: "string option"
  resp_code :: string
  resp_message :: string

definition into_response :: "event_error \<Rightarrow> response" where
  "into_response e =
     \<lparr>resp_status = status e,
      resp_retry_after = (case e of EventThrottled secs \<Rightarrow> Some (show_nat secs) | _ \<Rightarrow> None),
      resp_code = code e,
      resp_message = message e\<rparr>"

text \<open>The variants in the order of the declaration.\<close>

primrec variant_index :: "event_error \<Rightarrow> nat" where
   "variant_index EventNotFound = 0"
| "variant_index (EventSeatsExhausted x) = 1"
| "variant_index (EventSaleWindowClosed x) = 2"
| "variant_index (EventSlotRequired x) = 3"
| "variant_index (EventSlotNotOfEvent x) = 4"
| "variant_index (EventTicketNotOfEvent x) = 5"
| "variant_index RegistrationNotFound = 6"
| "variant_index EventNotPublished = 7"
| "variant_index EventCapabilitySecretNotConfigured = 8"
| "variant_index (EventThrottled x) = 9"
| "variant_index (PublishRefused x) = 10"
| "variant_index TemplateUnresolved = 11"
| "variant_index TemplateRendererNotComposed = 12"
| "variant_index (RenderFailed x) = 13"
| "variant_index (EnqueueRefused x) = 14"
| "variant_index (RecipientInvalid x) = 15"
| "variant_index (BoothNotFound x) = 16"
| "variant_index (BoothBookingNotFound x) = 17"
| "variant_index (BoothAlreadyConfirmed x) = 18"
| "variant_index (BoothDeleteRefusedSaleLinked x) = 19"
| "variant_index (BoothBookingLineCrossEvent x) = 20"
| "variant_index (LeadRuleNotFound x) = 21"
| "variant_index (LeadSinkRefused x) = 22"
| "variant_index (LeadRequestBusy x) = 23"
| "variant_index (LeadRequestNotFound x) = 24"
| "variant_index DeskInvalidTicket = 25"
| "variant_index DeskCanceledRegistration = 26"
| "variant_index DeskUnconfirmedRegistration = 27"
| "variant_index DeskNotOngoingEvent = 28"
| "variant_index DeskNeedManualConfirmation = 29"
| "variant_index DeskAlreadyRegistered = 30"
| "variant_index (Validation x) = 31"
| "variant_index (Database x) = 32"
| "variant_index (Internal x) = 33"

definition wire_codes :: "string list" where
  "wire_codes = [''event_not_found'',
     ''event_seats_exhausted'',
     ''event_sale_window_closed'',
     ''event_slot_required'',
     ''event_slot_not_of_event'',
     ''event_ticket_not_of_event'',
     ''registration_not_found'',
     ''event_not_published'',
     ''event_capability_secret_not_configured'',
     ''event_throttled'',
     ''publish_refused'',
     ''template_unresolved'',
     ''template_renderer_not_composed'',
     ''render_failed'',
     ''enqueue_refused'',
     ''recipient_invalid'',
     ''booth_not_found'',
     ''booth_booking_not_found'',
     ''booth_already_confirmed'',
     ''booth_delete_refused_sale_linked'',
     ''booth_booking_line_cross_event'',
     ''lead_rule_not_found'',
     ''lead_sink_refused'',
     ''lead_request_busy'',
     ''lead_request_not_found'',
     ''desk_invalid_ticket'',
     ''desk_canceled_registration'',
     ''desk_unconfirmed_registration'',
     ''desk_not_ongoing_event'',
     ''desk_need_manual_confirmation'',
     ''desk_already_registered'',
     ''event_validation_failed'',
     ''event_database_error'',
     ''event_internal_error'']"

lemma wire_codes_distinct: "distinct wire_codes"
  by (simp add: wire_codes_def)

lemma variant_index_bound: "variant_index e < length wire_codes"
  by (cases e) (simp_all add: wire_codes_def)

lemma code_nth: "code e = wire_codes ! variant_index e"
  by (cases e) (simp_all add: wire_codes_def)

lemma code_eq_iff: "code e = code e' \<longleftrightarrow> variant_index e = variant_index e'"
  by (simp add: code_nth nth_eq_iff_index_eq wire_codes_distinct variant_index_bound)

lemma status_client_or_server: "status e \<in> {404, 409, 422, 429, 500, 503}"
  by (cases e) simp_all

end
