(* ===== verification/StateMachines.thy ===== *)
theory StateMachines
  imports Enums
begin

text \<open>
  The two generated state machines, \<open>domain/state_machine/registration_state_state_machine.rs\<close>
  and \<open>booth_state_state_machine.rs\<close>, with their shared error type. A method on
  \<open>&mut self\<close> returns its \<open>Result\<close> together with the machine afterwards. The locale
  \<open>generated_machine\<close> is the contract the generator gives both: what \<open>transition\<close> does
  when it is allowed and when it is not, and which transitions \<open>transition_to_state\<close> tries.
\<close>

datatype sm_error =
    InvalidState string
  | InvalidTransition string
  | TransitionNotAllowed (sme_transition: string) (sme_from: string)
  | RoleNotAuthorized (sme_role: string) (sme_for: string)
  | GuardFailed string
  | FinalStateReached string

section \<open>The contract\<close>

locale generated_machine =
  fixes can :: "'t \<Rightarrow> 's \<Rightarrow> bool"
    and target :: "'t \<Rightarrow> 's"
    and all_transitions :: "'t list"
    and step :: "'t \<Rightarrow> 's \<Rightarrow> (sm_error + 's) \<times> 's"
    and step_to :: "'s \<Rightarrow> 's \<Rightarrow> (sm_error + 's) \<times> 's"
  assumes step_allowed: "can t s \<Longrightarrow> step t s = (Inr (target t), target t)"
    and step_refused: "\<not> can t s \<Longrightarrow> \<exists>e. step t s = (Inl e, s)"
    and lists_all: "t \<in> set all_transitions"
    and step_to_def: "step_to g s =
      (case find (\<lambda>t. target t = g) (filter (\<lambda>t. can t s) all_transitions) of
        Some t \<Rightarrow> step t s
      | None \<Rightarrow> (fst (step_to g s), s))"
    and step_to_none: "find (\<lambda>t. target t = g) (filter (\<lambda>t. can t s) all_transitions) = None
      \<Longrightarrow> \<exists>e. fst (step_to g s) = Inl e"
begin

lemma step_cases: "step t s = (Inr (target t), target t) \<and> can t s \<or>
    (\<exists>e. step t s = (Inl e, s)) \<and> \<not> can t s"
  using step_allowed step_refused by blast

lemma reports_new_state: "fst (step t s) = Inr s' \<Longrightarrow> snd (step t s) = s'"
  using step_cases [of t s] by auto

lemma refusal_keeps_state: "fst (step t s) = Inl e \<Longrightarrow> snd (step t s) = s"
  using step_cases [of t s] by auto

lemma step_to_reaches:
  "can t s \<Longrightarrow> target t = g \<Longrightarrow> step_to g s = (Inr g, g)"
proof -
  assume can: "can t s" and tgt: "target t = g"
  let ?f = "find (\<lambda>t. target t = g) (filter (\<lambda>t. can t s) all_transitions)"
  from can tgt lists_all [of t] have "?f \<noteq> None" by (auto simp: find_None_iff)
  then obtain u where u: "?f = Some u" by blast
  then have "can u s" "target u = g" using find_Some_in [OF u] by auto
  with u step_to_def [of g s] step_allowed [of u s] show ?thesis by simp
qed

lemma step_to_refuses:
  assumes "\<And>t. can t s \<Longrightarrow> target t \<noteq> g"
  shows "(\<exists>e. fst (step_to g s) = Inl e) \<and> snd (step_to g s) = s"
proof -
  have "find (\<lambda>t. target t = g) (filter (\<lambda>t. can t s) all_transitions) = None"
    using assms by (auto simp: find_None_iff)
  with step_to_none [of g s] step_to_def [of g s] show ?thesis
    by (metis option.simps(4) snd_conv)
qed

end

section \<open>\<open>RegistrationStateStateMachine\<close>\<close>

datatype regsm_state = RS_Draft | RS_Open | RS_Done | RS_Cancel
datatype regsm_transition = RT_SetDraft | RT_Confirm | RT_SetDone | RT_Cancel

fun regsm_state_to_str :: "regsm_state \<Rightarrow> string" where
  "regsm_state_to_str RS_Draft = ''draft''"
| "regsm_state_to_str RS_Open = ''open''"
| "regsm_state_to_str RS_Done = ''done''"
| "regsm_state_to_str RS_Cancel = ''cancel''"

definition regsm_state_from_str :: "string \<Rightarrow> sm_error + regsm_state" where
  "regsm_state_from_str = match_arms
     [(''draft'', RS_Draft),
      (''open'', RS_Open),
      (''done'', RS_Done),
      (''cancel'', RS_Cancel)]
     InvalidState"

definition regsm_state_default :: regsm_state where
  "regsm_state_default = RS_Open"

definition regsm_is_initial :: "regsm_state \<Rightarrow> bool" where
  "regsm_is_initial s \<longleftrightarrow> s = RS_Open"

definition regsm_is_final :: "regsm_state \<Rightarrow> bool" where
  "regsm_is_final s \<longleftrightarrow> s = RS_Done"

definition regsm_all :: "regsm_state list" where
  "regsm_all = [RS_Draft, RS_Open, RS_Done, RS_Cancel]"

fun regsm_transition_to_str :: "regsm_transition \<Rightarrow> string" where
  "regsm_transition_to_str RT_SetDraft = ''set_draft''"
| "regsm_transition_to_str RT_Confirm = ''confirm''"
| "regsm_transition_to_str RT_SetDone = ''set_done''"
| "regsm_transition_to_str RT_Cancel = ''cancel''"

definition regsm_transition_from_str :: "string \<Rightarrow> sm_error + regsm_transition" where
  "regsm_transition_from_str = match_arms
     [(''set_draft'', RT_SetDraft),
      (''confirm'', RT_Confirm),
      (''set_done'', RT_SetDone),
      (''cancel'', RT_Cancel)]
     InvalidTransition"

fun regsm_target_state :: "regsm_transition \<Rightarrow> regsm_state" where
  "regsm_target_state RT_SetDraft = RS_Draft"
| "regsm_target_state RT_Confirm = RS_Open"
| "regsm_target_state RT_SetDone = RS_Done"
| "regsm_target_state RT_Cancel = RS_Cancel"

definition regsm_transition_all :: "regsm_transition list" where
  "regsm_transition_all = [RT_SetDraft, RT_Confirm, RT_SetDone, RT_Cancel]"

fun regsm_allowed_roles :: "regsm_transition \<Rightarrow> string list" where
  "regsm_allowed_roles RT_SetDraft = []"
| "regsm_allowed_roles RT_Confirm = []"
| "regsm_allowed_roles RT_SetDone = []"
| "regsm_allowed_roles RT_Cancel = []"

record regsm_machine =
  regsm_current :: regsm_state

definition regsm_new :: regsm_machine where
  "regsm_new = \<lparr>regsm_current = regsm_state_default\<rparr>"

definition regsm_from_state :: "regsm_state \<Rightarrow> regsm_machine" where
  "regsm_from_state s = \<lparr>regsm_current = s\<rparr>"

definition regsm_can :: "regsm_state \<times> regsm_transition \<Rightarrow> bool" where
  "regsm_can p \<longleftrightarrow> p \<in> {
     (RS_Draft, RT_SetDraft),
     (RS_Open, RT_SetDraft),
     (RS_Done, RT_SetDraft),
     (RS_Cancel, RT_SetDraft),
     (RS_Draft, RT_Confirm),
     (RS_Open, RT_Confirm),
     (RS_Done, RT_Confirm),
     (RS_Cancel, RT_Confirm),
     (RS_Draft, RT_SetDone),
     (RS_Open, RT_SetDone),
     (RS_Done, RT_SetDone),
     (RS_Cancel, RT_SetDone),
     (RS_Draft, RT_Cancel),
     (RS_Open, RT_Cancel),
     (RS_Done, RT_Cancel),
     (RS_Cancel, RT_Cancel)}"

definition regsm_can_transition :: "regsm_machine \<Rightarrow> regsm_transition \<Rightarrow> bool" where
  "regsm_can_transition m t = regsm_can (regsm_current m, t)"

definition regsm_can_transition_with_role ::
    "regsm_machine \<Rightarrow> regsm_transition \<Rightarrow> string \<Rightarrow> bool" where
  "regsm_can_transition_with_role m t role =
     (if \<not> regsm_can_transition m t then False
      else if regsm_allowed_roles t = [] then True
      else list_ex (\<lambda>r. r = role \<or> r = ''*'') (regsm_allowed_roles t))"

definition regsm_transition_apply ::
    "regsm_transition \<Rightarrow> regsm_machine \<Rightarrow> (sm_error + regsm_state) \<times> regsm_machine" where
  "regsm_transition_apply t m =
     (if \<not> regsm_can_transition m t
      then (Inl (TransitionNotAllowed (regsm_transition_to_str t)
              (regsm_state_to_str (regsm_current m))), m)
      else (Inr (regsm_target_state t), m\<lparr>regsm_current := regsm_target_state t\<rparr>))"

definition regsm_transition_with_role ::
    "regsm_transition \<Rightarrow> string \<Rightarrow> regsm_machine \<Rightarrow> (sm_error + regsm_state) \<times> regsm_machine" where
  "regsm_transition_with_role t role m =
     (if \<not> regsm_can_transition m t
      then (Inl (TransitionNotAllowed (regsm_transition_to_str t)
              (regsm_state_to_str (regsm_current m))), m)
      else if \<not> regsm_can_transition_with_role m t role
      then (Inl (RoleNotAuthorized role (regsm_transition_to_str t)), m)
      else (Inr (regsm_target_state t), m\<lparr>regsm_current := regsm_target_state t\<rparr>))"

definition regsm_available_transitions :: "regsm_machine \<Rightarrow> regsm_transition list" where
  "regsm_available_transitions m = filter (regsm_can_transition m) regsm_transition_all"

definition regsm_available_transitions_for_role ::
    "regsm_machine \<Rightarrow> string \<Rightarrow> regsm_transition list" where
  "regsm_available_transitions_for_role m role =
     filter (\<lambda>t. regsm_can_transition_with_role m t role) regsm_transition_all"

definition regsm_transition_to_state ::
    "regsm_state \<Rightarrow> regsm_machine \<Rightarrow> (sm_error + regsm_state) \<times> regsm_machine" where
  "regsm_transition_to_state g m =
     (case find (\<lambda>t. regsm_target_state t = g)
        (filter (regsm_can_transition m) regsm_transition_all) of
        Some t \<Rightarrow> regsm_transition_apply t m
      | None \<Rightarrow> (Inl (TransitionNotAllowed (regsm_state_to_str g)
              (regsm_state_to_str (regsm_current m))), m))"

interpretation regsm_state: enum_codec regsm_state_to_str regsm_state_from_str
  by unfold_locales (case_tac x; auto simp: regsm_state_from_str_def codec_reads split: if_splits)+

interpretation regsm_transition: enum_codec regsm_transition_to_str regsm_transition_from_str
  by unfold_locales (case_tac x; auto simp: regsm_transition_from_str_def codec_reads split: if_splits)+

lemma regsm_transition_total: "regsm_can_transition m t"
  by (cases "regsm_current m"; cases t) (simp_all add: regsm_can_transition_def regsm_can_def)

text \<open>The machine's state is its only field, so the contract is stated on states.\<close>

definition regsm_step :: "regsm_transition \<Rightarrow> regsm_state \<Rightarrow> (sm_error + regsm_state) \<times> regsm_state" where
  "regsm_step t s = apsnd regsm_current (regsm_transition_apply t (regsm_from_state s))"

definition regsm_step_to :: "regsm_state \<Rightarrow> regsm_state \<Rightarrow> (sm_error + regsm_state) \<times> regsm_state" where
  "regsm_step_to g s = apsnd regsm_current (regsm_transition_to_state g (regsm_from_state s))"

interpretation regsm: generated_machine
    "\<lambda>t s. regsm_can_transition (regsm_from_state s) t" regsm_target_state
    regsm_transition_all regsm_step regsm_step_to
proof unfold_locales
  fix t s show "t \<in> set regsm_transition_all"
    by (cases t) (simp_all add: regsm_transition_all_def)
qed (auto simp: regsm_step_def regsm_step_to_def regsm_transition_apply_def
       regsm_transition_to_state_def regsm_from_state_def split: option.splits)

section \<open>\<open>BoothStateStateMachine\<close>\<close>

datatype boothsm_state = BS_Available | BS_Unavailable
datatype boothsm_transition = BT_Confirm | BT_Release

fun boothsm_state_to_str :: "boothsm_state \<Rightarrow> string" where
  "boothsm_state_to_str BS_Available = ''available''"
| "boothsm_state_to_str BS_Unavailable = ''unavailable''"

definition boothsm_state_from_str :: "string \<Rightarrow> sm_error + boothsm_state" where
  "boothsm_state_from_str = match_arms
     [(''available'', BS_Available),
      (''unavailable'', BS_Unavailable)]
     InvalidState"

definition boothsm_state_default :: boothsm_state where
  "boothsm_state_default = BS_Available"

definition boothsm_is_initial :: "boothsm_state \<Rightarrow> bool" where
  "boothsm_is_initial s \<longleftrightarrow> s = BS_Available"

definition boothsm_is_final :: "boothsm_state \<Rightarrow> bool" where
  "boothsm_is_final s \<longleftrightarrow> s = BS_Unavailable"

definition boothsm_all :: "boothsm_state list" where
  "boothsm_all = [BS_Available, BS_Unavailable]"

fun boothsm_transition_to_str :: "boothsm_transition \<Rightarrow> string" where
  "boothsm_transition_to_str BT_Confirm = ''confirm''"
| "boothsm_transition_to_str BT_Release = ''release''"

definition boothsm_transition_from_str :: "string \<Rightarrow> sm_error + boothsm_transition" where
  "boothsm_transition_from_str = match_arms
     [(''confirm'', BT_Confirm),
      (''release'', BT_Release)]
     InvalidTransition"

fun boothsm_target_state :: "boothsm_transition \<Rightarrow> boothsm_state" where
  "boothsm_target_state BT_Confirm = BS_Unavailable"
| "boothsm_target_state BT_Release = BS_Available"

definition boothsm_transition_all :: "boothsm_transition list" where
  "boothsm_transition_all = [BT_Confirm, BT_Release]"

fun boothsm_allowed_roles :: "boothsm_transition \<Rightarrow> string list" where
  "boothsm_allowed_roles BT_Confirm = []"
| "boothsm_allowed_roles BT_Release = []"

record boothsm_machine =
  boothsm_current :: boothsm_state

definition boothsm_new :: boothsm_machine where
  "boothsm_new = \<lparr>boothsm_current = boothsm_state_default\<rparr>"

definition boothsm_from_state :: "boothsm_state \<Rightarrow> boothsm_machine" where
  "boothsm_from_state s = \<lparr>boothsm_current = s\<rparr>"

definition boothsm_can :: "boothsm_state \<times> boothsm_transition \<Rightarrow> bool" where
  "boothsm_can p \<longleftrightarrow> p \<in> {
     (BS_Available, BT_Confirm),
     (BS_Unavailable, BT_Confirm),
     (BS_Available, BT_Release),
     (BS_Unavailable, BT_Release)}"

definition boothsm_can_transition :: "boothsm_machine \<Rightarrow> boothsm_transition \<Rightarrow> bool" where
  "boothsm_can_transition m t = boothsm_can (boothsm_current m, t)"

definition boothsm_can_transition_with_role ::
    "boothsm_machine \<Rightarrow> boothsm_transition \<Rightarrow> string \<Rightarrow> bool" where
  "boothsm_can_transition_with_role m t role =
     (if \<not> boothsm_can_transition m t then False
      else if boothsm_allowed_roles t = [] then True
      else list_ex (\<lambda>r. r = role \<or> r = ''*'') (boothsm_allowed_roles t))"

definition boothsm_transition_apply ::
    "boothsm_transition \<Rightarrow> boothsm_machine \<Rightarrow> (sm_error + boothsm_state) \<times> boothsm_machine" where
  "boothsm_transition_apply t m =
     (if \<not> boothsm_can_transition m t
      then (Inl (TransitionNotAllowed (boothsm_transition_to_str t)
              (boothsm_state_to_str (boothsm_current m))), m)
      else (Inr (boothsm_target_state t), m\<lparr>boothsm_current := boothsm_target_state t\<rparr>))"

definition boothsm_transition_with_role ::
    "boothsm_transition \<Rightarrow> string \<Rightarrow> boothsm_machine \<Rightarrow> (sm_error + boothsm_state) \<times> boothsm_machine" where
  "boothsm_transition_with_role t role m =
     (if \<not> boothsm_can_transition m t
      then (Inl (TransitionNotAllowed (boothsm_transition_to_str t)
              (boothsm_state_to_str (boothsm_current m))), m)
      else if \<not> boothsm_can_transition_with_role m t role
      then (Inl (RoleNotAuthorized role (boothsm_transition_to_str t)), m)
      else (Inr (boothsm_target_state t), m\<lparr>boothsm_current := boothsm_target_state t\<rparr>))"

definition boothsm_available_transitions :: "boothsm_machine \<Rightarrow> boothsm_transition list" where
  "boothsm_available_transitions m = filter (boothsm_can_transition m) boothsm_transition_all"

definition boothsm_available_transitions_for_role ::
    "boothsm_machine \<Rightarrow> string \<Rightarrow> boothsm_transition list" where
  "boothsm_available_transitions_for_role m role =
     filter (\<lambda>t. boothsm_can_transition_with_role m t role) boothsm_transition_all"

definition boothsm_transition_to_state ::
    "boothsm_state \<Rightarrow> boothsm_machine \<Rightarrow> (sm_error + boothsm_state) \<times> boothsm_machine" where
  "boothsm_transition_to_state g m =
     (case find (\<lambda>t. boothsm_target_state t = g)
        (filter (boothsm_can_transition m) boothsm_transition_all) of
        Some t \<Rightarrow> boothsm_transition_apply t m
      | None \<Rightarrow> (Inl (TransitionNotAllowed (boothsm_state_to_str g)
              (boothsm_state_to_str (boothsm_current m))), m))"

interpretation boothsm_state: enum_codec boothsm_state_to_str boothsm_state_from_str
  by unfold_locales (case_tac x; auto simp: boothsm_state_from_str_def codec_reads split: if_splits)+

interpretation boothsm_transition: enum_codec boothsm_transition_to_str boothsm_transition_from_str
  by unfold_locales (case_tac x; auto simp: boothsm_transition_from_str_def codec_reads split: if_splits)+

lemma boothsm_transition_total: "boothsm_can_transition m t"
  by (cases "boothsm_current m"; cases t) (simp_all add: boothsm_can_transition_def boothsm_can_def)

text \<open>The machine's state is its only field, so the contract is stated on states.\<close>

definition boothsm_step :: "boothsm_transition \<Rightarrow> boothsm_state \<Rightarrow> (sm_error + boothsm_state) \<times> boothsm_state" where
  "boothsm_step t s = apsnd boothsm_current (boothsm_transition_apply t (boothsm_from_state s))"

definition boothsm_step_to :: "boothsm_state \<Rightarrow> boothsm_state \<Rightarrow> (sm_error + boothsm_state) \<times> boothsm_state" where
  "boothsm_step_to g s = apsnd boothsm_current (boothsm_transition_to_state g (boothsm_from_state s))"

interpretation boothsm: generated_machine
    "\<lambda>t s. boothsm_can_transition (boothsm_from_state s) t" boothsm_target_state
    boothsm_transition_all boothsm_step boothsm_step_to
proof unfold_locales
  fix t s show "t \<in> set boothsm_transition_all"
    by (cases t) (simp_all add: boothsm_transition_all_def)
qed (auto simp: boothsm_step_def boothsm_step_to_def boothsm_transition_apply_def
       boothsm_transition_to_state_def boothsm_from_state_def split: option.splits)

end
