(* ===== verification/Schema.thy ===== *)
theory Schema
  imports Enums EventError
begin

text \<open>
  The tables of the module's PostgreSQL schema (\<open>src/migrations\<close> and the entity structs of
  \<open>src/src/domain/entity\<close>), as records of the columns the hand-written repositories read or
  write, and the database as one record of tables. A \<open>Uuid\<close> is a natural number in the
  order PostgreSQL compares uuids; a \<open>timestamptz\<close> is an integer of microseconds; an \<open>i32\<close>
  column is an \<open>int\<close>, since the code does no arithmetic on it. An enumeration column holds
  the enumeration, and a \<open>state::text\<close> projection is its \<open>Display\<close> text. The constraint
  an insert or update can break is checked where the statement is, and its violation is
  \<open>Database\<close> of the constraint's name. The audit trail is the list of the facts appended.
\<close>

section \<open>Audit facts\<close>

datatype json =
    JNull
  | JBool bool
  | JNum int
  | JStr string
  | JId uuid
  | JArr "json list"
  | JObj "(string \<times> json) list"

definition json_opt :: "('a \<Rightarrow> json) \<Rightarrow> 'a option \<Rightarrow> json" where
  "json_opt f m = (case m of None \<Rightarrow> JNull | Some x \<Rightarrow> f x)"

record audit_fact =
  au_action :: string
  au_actor :: "uuid option"
  au_subject_type :: string
  au_subject_id :: "uuid option"
  au_detail :: json

text \<open>\<open>audit.rs\<close>: the subject is normalised to the schema-qualified table name.\<close>

definition audit_subject :: "string \<Rightarrow> string" where
  "audit_subject subject_type =
     (if CHR ''.'' \<in> set subject_type then subject_type
      else ''event.'' @ subject_type @ ''s'')"

definition audit_entry ::
    "string \<Rightarrow> uuid option \<Rightarrow> string \<Rightarrow> uuid option \<Rightarrow> json \<Rightarrow> audit_fact" where
  "audit_entry action actor subject_type subject_id detail =
     \<lparr>au_action = action, au_actor = actor, au_subject_type = audit_subject subject_type,
      au_subject_id = subject_id, au_detail = detail\<rparr>"

section \<open>Rows\<close>

record event_rec =
  ev_id :: uuid
  ev_name :: string
  ev_type_id :: "uuid option"
  ev_stage_id :: uuid
  ev_kanban :: event_kanban_state
  ev_date_begin :: timestamp
  ev_date_end :: timestamp
  ev_date_tz :: string
  ev_multi_slots :: bool
  ev_slot_count :: int
  ev_seats_limited :: bool
  ev_seats_max :: int
  ev_address_id :: "uuid option"
  ev_organizer_id :: "uuid option"
  ev_user_id :: "uuid option"
  ev_event_url :: "string option"
  ev_badge :: event_badge_format
  ev_published :: bool
  ev_date_publish :: "timestamp option"
  ev_org_unit :: "uuid option"

record slot_rec =
  sl_id :: uuid
  sl_event_id :: uuid
  sl_name :: string
  sl_date_begin :: timestamp
  sl_date_end :: "timestamp option"

record ticket_rec =
  tk_id :: uuid
  tk_event_id :: uuid
  tk_name :: string
  tk_seats_max :: int
  tk_seats_max_per_order :: int
  tk_start_sale :: "timestamp option"
  tk_end_sale :: "timestamp option"
  tk_product_id :: "uuid option"

record reg_rec =
  rg_id :: uuid
  rg_event_id :: uuid
  rg_slot_id :: "uuid option"
  rg_ticket_id :: "uuid option"
  rg_name :: string
  rg_email :: string
  rg_phone :: "string option"
  rg_company_name :: "string option"
  rg_partner_id :: "uuid option"
  rg_state :: event_registration_state
  rg_date_closed :: "timestamp option"
  rg_sale_order_id :: "uuid option"
  rg_sale_order_state :: "event_sale_order_state option"
  rg_sale_status :: "event_sale_status option"
  rg_active :: bool
  rg_barcode :: string
  rg_org_unit :: "uuid option"
  rg_created_at :: timestamp

record mail_rec =
  ml_id :: uuid
  ml_event_id :: uuid
  ml_interval_nbr :: int
  ml_interval_unit :: event_interval_unit
  ml_interval_kind :: event_interval_kind
  ml_channel :: event_notification_channel
  ml_scheduled :: "timestamp option"
  ml_done :: bool
  ml_last_registration :: "uuid option"
  ml_template_ref :: "uuid option"
  ml_template_kind :: "string option"
  ml_error_at :: "timestamp option"
  ml_error_kind :: "event_mail_error_kind option"

record receipt_rec =
  mr_id :: uuid
  mr_scheduler_id :: uuid
  mr_registration_id :: uuid
  mr_scheduled :: "timestamp option"
  mr_sent :: bool
  mr_outcome :: "string option"

record booth_rec =
  bo_id :: uuid
  bo_event_id :: uuid
  bo_category_id :: uuid
  bo_name :: string
  bo_state :: event_booth_state
  bo_partner_id :: "uuid option"
  bo_contact_name :: "string option"
  bo_contact_email :: "string option"
  bo_contact_phone :: "string option"
  bo_line_id :: "uuid option"
  bo_paid :: bool

record booking_rec =
  bb_id :: uuid
  bb_booth_id :: uuid
  bb_line_id :: "uuid option"
  bb_status :: event_booth_booking_status
  bb_partner_id :: "uuid option"
  bb_contact_name :: "string option"
  bb_contact_email :: "string option"
  bb_contact_phone :: "string option"

record lead_request_rec =
  lq_id :: uuid
  lq_event_id :: uuid
  lq_done :: bool
  lq_error :: "string option"
  lq_claimed_at :: "timestamp option"

record lead_rule_rec =
  lr_id :: uuid
  lr_name :: string
  lr_event_id :: "uuid option"
  lr_basis :: event_lead_basis
  lr_on_create :: bool
  lr_on_confirm :: bool
  lr_on_done :: bool
  lr_active :: bool

record predicate_rec =
  lp_id :: uuid
  lp_rule_id :: uuid
  lp_axis :: event_lead_predicate_axis
  lp_question_id :: "uuid option"
  lp_values :: "uuid list"

record provenance_rec =
  pv_id :: uuid
  pv_rule_id :: uuid
  pv_event_id :: uuid
  pv_lead_id :: "uuid option"
  pv_group_key :: string
  pv_grouping :: event_lead_grouping

record junction_rec =
  pj_id :: uuid
  pj_provenance_id :: uuid
  pj_registration_id :: uuid

record stage_rec =
  st_id :: uuid
  st_name :: string
  st_sequence :: int
  st_fold :: bool
  st_pipe_end :: bool

record type_mail_rec =
  tm_id :: uuid
  tm_type_id :: uuid
  tm_interval_nbr :: int
  tm_interval_unit :: event_interval_unit
  tm_interval_kind :: event_interval_kind
  tm_channel :: event_notification_channel
  tm_template_ref :: "uuid option"
  tm_template_kind :: "string option"

record type_booth_rec =
  tb_id :: uuid
  tb_type_id :: uuid
  tb_category_id :: uuid
  tb_name :: string

record category_rec =
  bc_id :: uuid
  bc_product_id :: "uuid option"

record answer_rec =
  ra_id :: uuid
  ra_registration_id :: uuid
  ra_question_id :: uuid
  ra_value_text :: "string option"
  ra_answer_id :: "uuid option"

section \<open>The database\<close>

record db =
  events :: "event_rec table"
  slots :: "slot_rec table"
  tickets :: "ticket_rec table"
  registrations :: "reg_rec table"
  mails :: "mail_rec table"
  receipts :: "receipt_rec table"
  booths :: "booth_rec table"
  bookings :: "booking_rec table"
  lead_requests :: "lead_request_rec table"
  lead_rules :: "lead_rule_rec table"
  predicates :: "predicate_rec table"
  provenances :: "provenance_rec table"
  junctions :: "junction_rec table"
  stages :: "stage_rec table"
  event_types :: "uuid list"
  type_mails :: "type_mail_rec table"
  type_booths :: "type_booth_rec table"
  categories :: "category_rec table"
  answers :: "answer_rec table"
  seam_inbox :: "(string \<times> string) list"
  audit_trail :: "audit_fact list"

definition empty_db :: db where
  "empty_db = \<lparr>events = [], slots = [], tickets = [], registrations = [], mails = [],
     receipts = [], booths = [], bookings = [], lead_requests = [], lead_rules = [],
     predicates = [], provenances = [], junctions = [], stages = [], event_types = [],
     type_mails = [], type_booths = [], categories = [], answers = [], seam_inbox = [],
     audit_trail = []\<rparr>"

text \<open>
  \<open>record_audit\<close> in the caller's transaction and its best-effort twin on the pool append the
  same fact; they differ only in what a failing append does, which is not modelled.
\<close>

definition record_audit ::
    "string \<Rightarrow> uuid option \<Rightarrow> string \<Rightarrow> uuid option \<Rightarrow> json \<Rightarrow> db \<Rightarrow> db" where
  "record_audit action actor subject_type subject_id detail d =
     d\<lparr>audit_trail := audit_trail d @ [audit_entry action actor subject_type subject_id detail]\<rparr>"

lemma record_audit_frame [simp]:
  "events (record_audit a b c e f d) = events d"
  "slots (record_audit a b c e f d) = slots d"
  "tickets (record_audit a b c e f d) = tickets d"
  "registrations (record_audit a b c e f d) = registrations d"
  "mails (record_audit a b c e f d) = mails d"
  "receipts (record_audit a b c e f d) = receipts d"
  "booths (record_audit a b c e f d) = booths d"
  "bookings (record_audit a b c e f d) = bookings d"
  "lead_requests (record_audit a b c e f d) = lead_requests d"
  "lead_rules (record_audit a b c e f d) = lead_rules d"
  "predicates (record_audit a b c e f d) = predicates d"
  "provenances (record_audit a b c e f d) = provenances d"
  "junctions (record_audit a b c e f d) = junctions d"
  "stages (record_audit a b c e f d) = stages d"
  "event_types (record_audit a b c e f d) = event_types d"
  "type_mails (record_audit a b c e f d) = type_mails d"
  "type_booths (record_audit a b c e f d) = type_booths d"
  "categories (record_audit a b c e f d) = categories d"
  "answers (record_audit a b c e f d) = answers d"
  "seam_inbox (record_audit a b c e f d) = seam_inbox d"
  "audit_trail (record_audit a b c e f d) = audit_trail d @ [audit_entry a b c e f]"
  by (simp_all add: record_audit_def)

text \<open>
  Rows by primary key, the form of every \<open>WHERE id = $1\<close>.
\<close>

definition event_by_id :: "uuid \<Rightarrow> db \<Rightarrow> event_rec option" where
  "event_by_id i d = find (\<lambda>e. ev_id e = i) (events d)"

definition registration_by_id :: "uuid \<Rightarrow> db \<Rightarrow> reg_rec option" where
  "registration_by_id i d = find (\<lambda>r. rg_id r = i) (registrations d)"

definition booth_by_id :: "uuid \<Rightarrow> db \<Rightarrow> booth_rec option" where
  "booth_by_id i d = find (\<lambda>b. bo_id b = i) (booths d)"

definition booking_by_id :: "uuid \<Rightarrow> db \<Rightarrow> booking_rec option" where
  "booking_by_id i d = find (\<lambda>b. bb_id b = i) (bookings d)"

definition mail_by_id :: "uuid \<Rightarrow> db \<Rightarrow> mail_rec option" where
  "mail_by_id i d = find (\<lambda>m. ml_id m = i) (mails d)"

text \<open>
  The schema's keys: primary keys, the global barcode, and the unique indexes of receipts,
  queue rows, provenances and junctions.
\<close>

definition keys_ok :: "db \<Rightarrow> bool" where
  "keys_ok d \<longleftrightarrow>
     distinct (map ev_id (events d)) \<and>
     distinct (map rg_id (registrations d)) \<and>
     distinct (map rg_barcode (registrations d)) \<and>
     distinct (map ml_id (mails d)) \<and>
     distinct (map bo_id (booths d)) \<and>
     distinct (map bb_id (bookings d)) \<and>
     distinct (map lq_event_id (lead_requests d)) \<and>
     distinct (map (\<lambda>m. (mr_scheduler_id m, mr_registration_id m)) (receipts d))"

lemma keys_okD:
  assumes "keys_ok d"
  shows "distinct (map ev_id (events d))" "distinct (map rg_id (registrations d))"
    "distinct (map rg_barcode (registrations d))" "distinct (map ml_id (mails d))"
    "distinct (map bo_id (booths d))" "distinct (map bb_id (bookings d))"
    "distinct (map lq_event_id (lead_requests d))"
    "distinct (map (\<lambda>m. (mr_scheduler_id m, mr_registration_id m)) (receipts d))"
  using assms by (auto simp: keys_ok_def)

end
