(* ===== verification/Examples.thy ===== *)
theory Examples
  imports Schema
begin

text \<open>
  Concrete rows the witnesses evaluate on: a small published event with one seat-limited
  single-slot shape, a multi-slot one, their slots, a ticket tier, two schedulers, a lead
  rule, two booths and a booking.
\<close>

definition ex_event :: "uuid \<Rightarrow> bool \<Rightarrow> int \<Rightarrow> event_rec" where
  "ex_event i multi cap =
     \<lparr>ev_id = i, ev_name = ''Expo'', ev_type_id = None, ev_stage_id = 50,
      ev_kanban = Kanban_Normal, ev_date_begin = 1000, ev_date_end = 2000, ev_date_tz = ''UTC'',
      ev_multi_slots = multi, ev_slot_count = 2, ev_seats_limited = True, ev_seats_max = cap,
      ev_address_id = None, ev_organizer_id = None, ev_user_id = None, ev_event_url = None,
      ev_badge = Badge_A6, ev_published = True, ev_date_publish = Some 5, ev_org_unit = Some 7\<rparr>"

definition ex_slot :: "uuid \<Rightarrow> uuid \<Rightarrow> slot_rec" where
  "ex_slot i e = \<lparr>sl_id = i, sl_event_id = e, sl_name = ''S'', sl_date_begin = 1000, sl_date_end = Some 1500\<rparr>"

definition ex_ticket :: ticket_rec where
  "ex_ticket = \<lparr>tk_id = 20, tk_event_id = 1, tk_name = ''T'', tk_seats_max = 0,
     tk_seats_max_per_order = 0, tk_start_sale = Some 100, tk_end_sale = Some 900,
     tk_product_id = Some 60\<rparr>"

definition ex_mail :: "uuid \<Rightarrow> uuid \<Rightarrow> event_interval_kind \<Rightarrow> bool \<Rightarrow> mail_rec" where
  "ex_mail i e k fin =
     \<lparr>ml_id = i, ml_event_id = e, ml_interval_nbr = 1, ml_interval_unit = Unit_Now,
      ml_interval_kind = k, ml_channel = Channel_Mail, ml_scheduled = Some 10, ml_done = fin,
      ml_last_registration = None, ml_template_ref = Some 70, ml_template_kind = Some ''mail'',
      ml_error_at = None, ml_error_kind = None\<rparr>"

definition ex_rule :: lead_rule_rec where
  "ex_rule = \<lparr>lr_id = 40, lr_name = ''all'', lr_event_id = None, lr_basis = Basis_Registration,
     lr_on_create = True, lr_on_confirm = False, lr_on_done = False, lr_active = True\<rparr>"

definition ex_reg :: "uuid \<Rightarrow> uuid \<Rightarrow> uuid option \<Rightarrow> event_registration_state \<Rightarrow> reg_rec" where
  "ex_reg i e slot s =
     \<lparr>rg_id = i, rg_event_id = e, rg_slot_id = slot, rg_ticket_id = None, rg_name = ''Ada'',
      rg_email = ''ada@example.org'', rg_phone = None, rg_company_name = None,
      rg_partner_id = None, rg_state = s, rg_date_closed = None, rg_sale_order_id = None,
      rg_sale_order_state = None, rg_sale_status = None, rg_active = True,
      rg_barcode = [digit_char (i mod 10)], rg_org_unit = None, rg_created_at = 400\<rparr>"

definition ex_sold :: "uuid \<Rightarrow> uuid \<Rightarrow> event_sale_status \<Rightarrow> event_registration_state \<Rightarrow> reg_rec" where
  "ex_sold i order st s = (ex_reg i 1 None s)
     \<lparr>rg_sale_order_id := Some order, rg_sale_order_state := Some SaleOrder_Sale,
      rg_sale_status := Some st\<rparr>"

definition ex_booth :: "uuid \<Rightarrow> uuid \<Rightarrow> event_booth_state \<Rightarrow> booth_rec" where
  "ex_booth i e s =
     \<lparr>bo_id = i, bo_event_id = e, bo_category_id = 90, bo_name = ''A1'', bo_state = s,
      bo_partner_id = None, bo_contact_name = None, bo_contact_email = None,
      bo_contact_phone = None, bo_line_id = None, bo_paid = False\<rparr>"

definition ex_booking :: "uuid \<Rightarrow> uuid \<Rightarrow> uuid option \<Rightarrow> event_booth_booking_status \<Rightarrow> booking_rec" where
  "ex_booking i b line s =
     \<lparr>bb_id = i, bb_booth_id = b, bb_line_id = line, bb_status = s, bb_partner_id = Some 5,
      bb_contact_name = Some ''Bob'', bb_contact_email = None, bb_contact_phone = None\<rparr>"

definition ex_db :: db where
  "ex_db = empty_db
     \<lparr>events := [ex_event 1 False 1, ex_event 2 True 1],
      slots := [ex_slot 10 2, ex_slot 11 2, ex_slot 12 1, ex_slot 13 1],
      tickets := [ex_ticket],
      mails := [ex_mail 30 1 Interval_AfterSub True, ex_mail 31 1 Interval_BeforeEvent False],
      lead_rules := [ex_rule],
      categories := [\<lparr>bc_id = 90, bc_product_id = Some 61\<rparr>],
      booths := [ex_booth 80 1 Booth_Available, ex_booth 81 2 Booth_Available],
      bookings := [ex_booking 85 80 (Some 95) Booking_Pending, ex_booking 86 80 None Booking_Pending],
      stages := [\<lparr>st_id = 50, st_name = ''New'', st_sequence = 1, st_fold = False, st_pipe_end = False\<rparr>,
                 \<lparr>st_id = 51, st_name = ''Ended'', st_sequence = 2, st_fold = True, st_pipe_end = True\<rparr>]\<rparr>"

text \<open>The same database with some registrations in it.\<close>

definition ex_db_with :: "reg_rec list \<Rightarrow> db" where
  "ex_db_with rs = ex_db\<lparr>registrations := rs\<rparr>"

lemmas ex_defs = ex_event_def ex_slot_def ex_ticket_def ex_mail_def ex_rule_def ex_reg_def
  ex_sold_def ex_booth_def ex_booking_def ex_db_def ex_db_with_def empty_db_def

end
