(* ===== verification/Seats.thy ===== *)
theory Seats
  imports Examples
begin

text \<open>
  The seat-truth component: \<open>infrastructure/persistence/seat_repository.rs\<close> with the two
  services over it, \<open>application/service/registration_service.rs\<close> and \<open>seat_service.rs\<close>.
  A verb is one transaction: \<open>env \<Rightarrow> .. \<Rightarrow> db \<Rightarrow> event_error + ('row \<times> db)\<close>, where the error
  is a rollback. The environment supplies what the code takes from outside: \<open>now()\<close> of the
  transaction, the process clock, fresh ids and random bytes, whether the composing
  service added the tenancy column, and the declared CHECKs of the registrations table.
\<close>

section \<open>Data\<close>

record register_cmd =
  rc_event_id :: uuid
  rc_slot_id :: "uuid option"
  rc_ticket_id :: "uuid option"
  rc_name :: string
  rc_email :: string
  rc_phone :: "string option"
  rc_company_name :: "string option"
  rc_partner_id :: "uuid option"
  rc_actor :: "uuid option"
  rc_lead_rule_skip :: bool

record sale_link =
  sk_order_id :: uuid
  sk_order_state :: string
  sk_status :: string
  sk_initial_state :: string

record seat_counts =
  sc_limited :: bool
  sc_capacity :: int
  sc_taken :: int

record seat_env =
  se_now :: timestamp
  se_clock :: timestamp
  se_id :: uuid
  se_bytes :: "8 word list"
  se_request_id :: uuid
  se_org_axis :: bool
  se_checks :: "reg_rec \<Rightarrow> bool"

section \<open>Seat counts and barcodes\<close>

definition i64_max :: int where
  "i64_max = 2 ^ 63 - 1"

definition sc_available :: "seat_counts \<Rightarrow> int" where
  "sc_available c =
     (if \<not> sc_limited c \<or> sc_capacity c = 0 then i64_max
      else max (sc_capacity c - sc_taken c) 0)"

text \<open>\<open>u64::from_le_bytes\<close>.\<close>

definition from_le_bytes :: "8 word list \<Rightarrow> 64 word" where
  "from_le_bytes bs = word_of_nat (foldr (\<lambda>b n. unat b + 256 * n) bs 0)"

definition mint_barcode :: "8 word list \<Rightarrow> string" where
  "mint_barcode bytes = show_nat (unat (from_le_bytes bytes))"

text \<open>The counting domain, \<open>state IN ('open','done') AND active\<close>.\<close>

definition holds_seat :: "reg_rec \<Rightarrow> bool" where
  "holds_seat r \<longleftrightarrow> (rg_state r = Reg_Open \<or> rg_state r = Reg_Done) \<and> rg_active r"

definition in_scope :: "uuid \<Rightarrow> uuid option \<Rightarrow> reg_rec \<Rightarrow> bool" where
  "in_scope event slot r \<longleftrightarrow> rg_event_id r = event \<and>
     (case slot of Some s \<Rightarrow> rg_slot_id r = Some s | None \<Rightarrow> True)"

definition seats_taken :: "uuid \<Rightarrow> uuid option \<Rightarrow> db \<Rightarrow> int" where
  "seats_taken event slot d =
     count_rows (\<lambda>r. in_scope event slot r \<and> holds_seat r) (registrations d)"

text \<open>The count of \<open>transition\<close>: the same domain without the row under transition.\<close>

definition seats_taken_by_others :: "uuid \<Rightarrow> uuid option \<Rightarrow> uuid \<Rightarrow> db \<Rightarrow> int" where
  "seats_taken_by_others event slot i d =
     count_rows (\<lambda>r. in_scope event slot r \<and> rg_id r \<noteq> i \<and> holds_seat r) (registrations d)"

definition seats_full :: "event_rec \<Rightarrow> int \<Rightarrow> bool" where
  "seats_full e taken \<longleftrightarrow> ev_seats_limited e \<and> ev_seats_max e > 0 \<and> taken \<ge> ev_seats_max e"

section \<open>Arming\<close>

text \<open>The two cheap row writes a seat verb leaves behind for the passes.\<close>

definition arm_after_sub :: "timestamp \<Rightarrow> uuid \<Rightarrow> db \<Rightarrow> db" where
  "arm_after_sub now event d =
     d\<lparr>mails := upd_rows
         (\<lambda>m. ml_event_id m = event \<and> ml_interval_kind m = Interval_AfterSub)
         (\<lambda>m. m\<lparr>ml_scheduled := Some now, ml_done := False\<rparr>) (mails d)\<rparr>"

text \<open>
  \<open>INSERT INTO lead_requests (event_id) .. ON CONFLICT (event_id) DO UPDATE SET done = false
  WHERE lead_requests.done\<close>.
\<close>

definition upsert_lead_request :: "uuid \<Rightarrow> uuid \<Rightarrow> db \<Rightarrow> db" where
  "upsert_lead_request fresh event d =
     (if exists_row (\<lambda>q. lq_event_id q = event) (lead_requests d)
      then d\<lparr>lead_requests := upd_rows (\<lambda>q. lq_event_id q = event \<and> lq_done q)
             (\<lambda>q. q\<lparr>lq_done := False\<rparr>) (lead_requests d)\<rparr>
      else d\<lparr>lead_requests := lead_requests d @
             [\<lparr>lq_id = fresh, lq_event_id = event, lq_done = False, lq_error = None,
               lq_claimed_at = None\<rparr>]\<rparr>)"

definition rule_in_scope :: "uuid \<Rightarrow> lead_rule_rec \<Rightarrow> bool" where
  "rule_in_scope event lr \<longleftrightarrow>
     lr_active lr \<and> (lr_event_id lr = None \<or> lr_event_id lr = Some event)"

definition arm_lead_queue ::
    "(lead_rule_rec \<Rightarrow> bool) \<Rightarrow> uuid \<Rightarrow> uuid \<Rightarrow> db \<Rightarrow> db" where
  "arm_lead_queue trigger fresh event d =
     (if exists_row (\<lambda>lr. rule_in_scope event lr \<and> trigger lr) (lead_rules d)
      then upsert_lead_request fresh event d else d)"

section \<open>The one register head\<close>

text \<open>\<open>LockedEvent\<close> is the event row itself; the multi-slot slot is mandatory and checked.\<close>

definition resolve_slot :: "register_cmd \<Rightarrow> event_rec \<Rightarrow> db \<Rightarrow> event_error + uuid option" where
  "resolve_slot cmd e d =
     (if ev_multi_slots e then
        bind_r (ok_or (rc_slot_id cmd) (EventSlotRequired (rc_event_id cmd))) (\<lambda>slot.
        if exists_row (\<lambda>s. sl_id s = slot \<and> sl_event_id s = rc_event_id cmd) (slots d)
        then Inr (Some slot)
        else Inl (EventSlotNotOfEvent slot))
      else Inr (rc_slot_id cmd))"

definition window_shut :: "timestamp \<Rightarrow> ticket_rec \<Rightarrow> bool" where
  "window_shut now t \<longleftrightarrow>
     (case tk_start_sale t of Some s \<Rightarrow> now < s | None \<Rightarrow> False) \<or>
     (case tk_end_sale t of Some e \<Rightarrow> now > e | None \<Rightarrow> False)"

definition check_ticket :: "timestamp \<Rightarrow> register_cmd \<Rightarrow> db \<Rightarrow> event_error + unit" where
  "check_ticket clock cmd d =
     (case rc_ticket_id cmd of
        None \<Rightarrow> Inr ()
      | Some ticket \<Rightarrow>
          bind_r (ok_or (find (\<lambda>t. tk_id t = ticket \<and> tk_event_id t = rc_event_id cmd) (tickets d))
                    (EventTicketNotOfEvent ticket)) (\<lambda>t.
          if window_shut clock t then Inl (EventSaleWindowClosed ticket) else Inr ()))"

text \<open>The registrations table's trigger and constraints on an inserted row.\<close>

definition belonging_ok :: "reg_rec \<Rightarrow> db \<Rightarrow> bool" where
  "belonging_ok r d \<longleftrightarrow>
     (case event_by_id (rg_event_id r) d of
        None \<Rightarrow> False
      | Some e \<Rightarrow> \<not> (ev_multi_slots e \<and> rg_slot_id r = None)) \<and>
     (case rg_slot_id r of
        None \<Rightarrow> True
      | Some s \<Rightarrow> exists_row (\<lambda>x. sl_id x = s \<and> sl_event_id x = rg_event_id r) (slots d)) \<and>
     (case rg_ticket_id r of
        None \<Rightarrow> True
      | Some t \<Rightarrow> exists_row (\<lambda>x. tk_id x = t \<and> tk_event_id x = rg_event_id r) (tickets d))"

definition barcode_shape_ok :: "string \<Rightarrow> bool" where
  "barcode_shape_ok b \<longleftrightarrow> 1 \<le> length b \<and> length b \<le> 32 \<and> list_all is_digit b"

definition insert_registration ::
    "(reg_rec \<Rightarrow> bool) \<Rightarrow> reg_rec \<Rightarrow> db \<Rightarrow> event_error + db" where
  "insert_registration checks r d =
     bind_r (require (belonging_ok r d) (Database ''registrations_belonging'')) (\<lambda>_.
     bind_r (require (checks r) (Database ''declared_check'')) (\<lambda>_.
     bind_r (require (barcode_shape_ok (rg_barcode r)) (Database ''registrations_barcode_shape'')) (\<lambda>_.
     bind_r (require (\<not> exists_row (\<lambda>x. rg_id x = rg_id r) (registrations d))
               (Database ''registrations_pkey'')) (\<lambda>_.
     bind_r (require (\<not> exists_row (\<lambda>x. rg_barcode x = rg_barcode r) (registrations d))
               (Database ''idx_registrations_barcode'')) (\<lambda>_.
     Inr (d\<lparr>registrations := registrations d @ [r]\<rparr>))))))"

text \<open>The \<open>::event_..\<close> casts of bound texts.\<close>

definition reg_states :: "event_registration_state list" where
  "reg_states = [Reg_Draft, Reg_Open, Reg_Done, Reg_Cancel]"

definition cast_reg_state :: "string \<Rightarrow> event_error + event_registration_state" where
  "cast_reg_state s = ok_or (from_label registration_state_to_str reg_states s)
     (Database ''invalid input value for enum'')"

definition cast_order_state :: "string option \<Rightarrow> event_error + event_sale_order_state option" where
  "cast_order_state m = (case m of None \<Rightarrow> Inr None | Some s \<Rightarrow>
     bind_r (ok_or (from_label sale_order_state_to_str
                      [SaleOrder_Draft, SaleOrder_Sent, SaleOrder_Sale, SaleOrder_Cancel] s)
               (Database ''invalid input value for enum'')) (\<lambda>x. Inr (Some x)))"

definition cast_sale_status :: "string option \<Rightarrow> event_error + event_sale_status option" where
  "cast_sale_status m = (case m of None \<Rightarrow> Inr None | Some s \<Rightarrow>
     bind_r (ok_or (from_label sale_status_to_str [Sale_Free, Sale_Sold, Sale_ToPay] s)
               (Database ''invalid input value for enum'')) (\<lambda>x. Inr (Some x)))"

definition born_state :: "sale_link option \<Rightarrow> string" where
  "born_state link = (case link of None \<Rightarrow> ''open'' | Some l \<Rightarrow> sk_initial_state l)"

definition new_registration ::
    "seat_env \<Rightarrow> register_cmd \<Rightarrow> sale_link option \<Rightarrow> event_rec \<Rightarrow> uuid option \<Rightarrow> event_error + reg_rec" where
  "new_registration env cmd link e slot =
     bind_r (cast_reg_state (born_state link)) (\<lambda>state.
     bind_r (cast_order_state (map_option sk_order_state link)) (\<lambda>order_state.
     bind_r (cast_sale_status (map_option sk_status link)) (\<lambda>status.
     Inr \<lparr>rg_id = se_id env, rg_event_id = rc_event_id cmd, rg_slot_id = slot,
          rg_ticket_id = rc_ticket_id cmd, rg_name = rc_name cmd, rg_email = rc_email cmd,
          rg_phone = rc_phone cmd, rg_company_name = rc_company_name cmd,
          rg_partner_id = rc_partner_id cmd, rg_state = state, rg_date_closed = None,
          rg_sale_order_id = map_option sk_order_id link, rg_sale_order_state = order_state,
          rg_sale_status = status, rg_active = True, rg_barcode = mint_barcode (se_bytes env),
          rg_org_unit = (if se_org_axis env then ev_org_unit e else None),
          rg_created_at = se_now env\<rparr>)))"

text \<open>What follows the insert: arms and the creation fact.\<close>

definition after_insert ::
    "seat_env \<Rightarrow> register_cmd \<Rightarrow> sale_link option \<Rightarrow> reg_rec \<Rightarrow> db \<Rightarrow> db" where
  "after_insert env cmd link r d =
     (let d = (if born_state link = ''open''
               then arm_after_sub (se_now env) (rc_event_id cmd) d else d);
          d = (if rc_lead_rule_skip cmd then d
               else arm_lead_queue (\<lambda>lr. lr_on_create lr \<or> lr_on_confirm lr)
                      (se_request_id env) (rc_event_id cmd) d)
      in record_audit ''registration_created'' (rc_actor cmd) ''registration'' (Some (rg_id r))
           (JObj [(''event_id'', JId (rc_event_id cmd)), (''email'', JStr (rc_email cmd)),
                  (''state'', JStr (born_state link)), (''sale_minted'', JBool (link \<noteq> None))]) d)"

definition cancelled_event_refusal :: event_error where
  "cancelled_event_refusal =
     Validation (''event is cancelled '' @ em_dash @ '' registrations refused'')"

definition register_core ::
    "seat_env \<Rightarrow> register_cmd \<Rightarrow> sale_link option \<Rightarrow> db \<Rightarrow> event_error + (reg_rec \<times> db)" where
  "register_core env cmd link d =
     bind_r (ok_or (event_by_id (rc_event_id cmd) d) EventNotFound) (\<lambda>e.
     bind_r (require (ev_kanban e \<noteq> Kanban_Cancel) cancelled_event_refusal) (\<lambda>_.
     bind_r (resolve_slot cmd e d) (\<lambda>slot.
     bind_r (check_ticket (se_clock env) cmd d) (\<lambda>_.
     bind_r (require (\<not> seats_full e (seats_taken (rc_event_id cmd) slot d))
               (EventSeatsExhausted (rc_event_id cmd))) (\<lambda>_.
     bind_r (new_registration env cmd link e slot) (\<lambda>r.
     bind_r (insert_registration (se_checks env) r d) (\<lambda>d'.
     Inr (r, after_insert env cmd link r d'))))))))"

definition register :: "seat_env \<Rightarrow> register_cmd \<Rightarrow> db \<Rightarrow> event_error + (reg_rec \<times> db)" where
  "register env cmd d = register_core env cmd None d"

definition register_sale_linked ::
    "seat_env \<Rightarrow> register_cmd \<Rightarrow> sale_link \<Rightarrow> db \<Rightarrow> event_error + (reg_rec \<times> db)" where
  "register_sale_linked env cmd link d = register_core env cmd (Some link) d"

section \<open>Reads\<close>

definition seat_counts :: "uuid \<Rightarrow> uuid option \<Rightarrow> db \<Rightarrow> event_error + seat_counts" where
  "seat_counts event slot d =
     bind_r (ok_or (event_by_id event d) EventNotFound) (\<lambda>e.
     Inr \<lparr>sc_limited = ev_seats_limited e, sc_capacity = ev_seats_max e,
          sc_taken = seats_taken event slot d\<rparr>)"

definition find_by_barcode :: "string \<Rightarrow> db \<Rightarrow> reg_rec option" where
  "find_by_barcode b d = find (\<lambda>r. rg_barcode r = b) (registrations d)"

definition find_registration :: "uuid \<Rightarrow> db \<Rightarrow> event_error + reg_rec" where
  "find_registration i d = ok_or (registration_by_id i d) RegistrationNotFound"

definition list_registrations :: "uuid \<Rightarrow> int \<Rightarrow> uuid option \<Rightarrow> db \<Rightarrow> event_error + reg_rec list" where
  "list_registrations event limit after d =
     bind_r (require (0 \<le> limit) (Database ''LIMIT must not be negative'')) (\<lambda>_.
     Inr (limit_rows limit (sort_key rg_id
       (sel_rows (\<lambda>r. rg_event_id r = event \<and>
          (case after of None \<Rightarrow> True | Some a \<Rightarrow> rg_id r > a)) (registrations d)))))"

section \<open>The state verb\<close>

definition set_state :: "timestamp \<Rightarrow> event_registration_state \<Rightarrow> reg_rec \<Rightarrow> reg_rec" where
  "set_state now s r =
     r\<lparr>rg_state := s,
       rg_date_closed := (if s = Reg_Done \<and> rg_date_closed r = None then Some now
                          else rg_date_closed r)\<rparr>"

definition takes_seat :: "event_registration_state \<Rightarrow> event_registration_state \<Rightarrow> bool \<Rightarrow> bool" where
  "takes_seat before after active \<longleftrightarrow>
     active \<and> (after = Reg_Open \<or> after = Reg_Done) \<and> (before = Reg_Draft \<or> before = Reg_Cancel)"

text \<open>The seat head of the state verb, on the database with the new state already staged.\<close>

definition seat_head :: "reg_rec \<Rightarrow> db \<Rightarrow> event_error + unit" where
  "seat_head r d =
     bind_r (ok_or (event_by_id (rg_event_id r) d) EventNotFound) (\<lambda>e.
     require (\<not> seats_full e
                 (seats_taken_by_others (rg_event_id r) (rg_slot_id r) (rg_id r) d))
       (EventSeatsExhausted (rg_event_id r)))"

definition transition_arms ::
    "seat_env \<Rightarrow> reg_rec \<Rightarrow> event_registration_state \<Rightarrow> event_registration_state \<Rightarrow> db \<Rightarrow> db" where
  "transition_arms env r before after d =
     (let active = rg_active r;
          d = (if active \<and> after = Reg_Open \<and> (before = Reg_Draft \<or> before = Reg_Cancel)
               then arm_after_sub (se_now env) (rg_event_id r) d else d)
      in if active \<and> (after = Reg_Open \<or> after = Reg_Done) \<and> before \<noteq> after
         then arm_lead_queue (\<lambda>lr. if after = Reg_Done then lr_on_done lr else lr_on_confirm lr)
                (se_request_id env) (rg_event_id r) d
         else d)"

definition transition_audit ::
    "uuid option \<Rightarrow> uuid \<Rightarrow> event_registration_state \<Rightarrow> event_registration_state \<Rightarrow> db \<Rightarrow> db" where
  "transition_audit actor i before after d =
     (if before \<noteq> after
      then record_audit ''registration_state_changed'' actor ''registration'' (Some i)
             (JObj [(''before'', JStr (registration_state_to_str before)),
                    (''after'', JStr (registration_state_to_str after))]) d
      else d)"

definition transition ::
    "seat_env \<Rightarrow> uuid \<Rightarrow> string \<Rightarrow> uuid option \<Rightarrow> db \<Rightarrow> event_error +
       ((event_registration_state \<times> event_registration_state \<times> bool) \<times> db)" where
  "transition env i to_text actor d =
     bind_r (ok_or (registration_by_id i d) RegistrationNotFound) (\<lambda>r.
     bind_r (cast_reg_state to_text) (\<lambda>after.
     let before = rg_state r;
         staged = d\<lparr>registrations := upd_rows (\<lambda>x. rg_id x = i) (set_state (se_now env) after)
                     (registrations d)\<rparr>
     in bind_r (if takes_seat before after (rg_active r) then seat_head r staged else Inr ()) (\<lambda>_.
        Inr ((before, after, rg_active r),
             transition_audit actor i before after (transition_arms env r before after staged)))))"

section \<open>Filling identity fields\<close>

definition sync_row ::
    "uuid \<Rightarrow> string option \<Rightarrow> string option \<Rightarrow> reg_rec \<Rightarrow> reg_rec" where
  "sync_row partner phone company r =
     r\<lparr>rg_partner_id := coalesce (rg_partner_id r) (Some partner),
       rg_phone := coalesce (rg_phone r) phone,
       rg_company_name := coalesce (rg_company_name r) company\<rparr>"

text \<open>
  \<open>name\<close> is NOT NULL, so \<open>COALESCE(name, $3)\<close> is the stored name: the \<open>name\<close> argument
  never reaches the row.
\<close>

definition sync_from_partner ::
    "seat_env \<Rightarrow> uuid \<Rightarrow> uuid \<Rightarrow> string option \<Rightarrow> string option \<Rightarrow> string option \<Rightarrow> uuid option \<Rightarrow> db \<Rightarrow>
       event_error + (reg_rec \<times> db)" where
  "sync_from_partner env i partner name phone company actor d =
     bind_r (ok_or (find (\<lambda>r. rg_id r = i \<and> rg_active r) (registrations d)) RegistrationNotFound) (\<lambda>r.
     let r' = sync_row partner phone company r
     in bind_r (require (se_checks env r') (Database ''declared_check'')) (\<lambda>_.
        Inr (r', record_audit ''registration_updated'' actor ''registration'' (Some i)
               (JObj [(''verb'', JStr ''sync_from_partner''), (''partner_id'', JId partner)])
               (d\<lparr>registrations := upd_rows (\<lambda>x. rg_id x = i \<and> rg_active x)
                    (sync_row partner phone company) (registrations d)\<rparr>))))"

section \<open>The services\<close>

text \<open>
  \<open>RegistrationCommandService::register\<close>: a refusal is recorded after the rollback, so the
  database it leaves has the fact although the verb failed.
\<close>

definition service_register ::
    "seat_env \<Rightarrow> register_cmd \<Rightarrow> db \<Rightarrow> (event_error + reg_rec) \<times> db" where
  "service_register env cmd d =
     (case register env cmd d of
        Inr (r, d') \<Rightarrow> (Inr r, d')
      | Inl refusal \<Rightarrow>
          (Inl refusal,
           record_audit ''registration_refused'' (rc_actor cmd) ''event'' (Some (rc_event_id cmd))
             (JObj [(''email'', JStr (rc_email cmd)), (''code'', JStr (code refusal))]) d))"

definition service_transition ::
    "seat_env \<Rightarrow> uuid \<Rightarrow> string \<Rightarrow> uuid option \<Rightarrow> db \<Rightarrow> event_error + (reg_rec \<times> db)" where
  "service_transition env i to_text actor d =
     bind_r (transition env i to_text actor d) (\<lambda>(_, d').
     bind_r (find_registration i d') (\<lambda>r. Inr (r, d')))"

definition confirm_reg where "confirm_reg env i actor d = service_transition env i ''open'' actor d"
definition set_draft where "set_draft env i actor d = service_transition env i ''draft'' actor d"
definition set_done where "set_done env i actor d = service_transition env i ''done'' actor d"
definition cancel_reg where "cancel_reg env i actor d = service_transition env i ''cancel'' actor d"

record seat_availability =
  sa_event_id :: uuid
  sa_slot_id :: "uuid option"
  sa_limited :: bool
  sa_capacity :: int
  sa_taken :: int
  sa_available :: "int option"

definition from_counts :: "uuid \<Rightarrow> uuid option \<Rightarrow> seat_counts \<Rightarrow> seat_availability" where
  "from_counts event slot c =
     \<lparr>sa_event_id = event, sa_slot_id = slot, sa_limited = sc_limited c,
      sa_capacity = sc_capacity c, sa_taken = sc_taken c,
      sa_available = (if sc_limited c \<and> sc_capacity c > 0 then Some (sc_available c) else None)\<rparr>"

definition availability :: "uuid \<Rightarrow> uuid option \<Rightarrow> db \<Rightarrow> event_error + seat_availability" where
  "availability event slot d =
     bind_r (ok_or (event_by_id event d) EventNotFound) (\<lambda>_.
     bind_r (seat_counts event slot d) (\<lambda>c. Inr (from_counts event slot c)))"

section \<open>Facts about the verbs\<close>

subsection \<open>Barcodes\<close>

lemma byte_bound: "unat (b :: 8 word) < 256"
proof -
  have "unat b < 2 ^ LENGTH(8)" by (rule unsigned_less)
  then show ?thesis by simp
qed

lemma le_fold_bound: "foldr (\<lambda>b n. unat (b :: 8 word) + 256 * n) bs 0 < 256 ^ length bs"
proof (induction bs)
  case (Cons b bs)
  from Cons byte_bound [of b] show ?case by simp
qed simp

lemma le_fold_inj:
  "length bs = length cs \<Longrightarrow>
   foldr (\<lambda>b n. unat (b :: 8 word) + 256 * n) bs 0 = foldr (\<lambda>b n. unat b + 256 * n) cs 0 \<Longrightarrow>
   bs = cs"
proof (induction bs cs rule: list_induct2)
  case (Cons b bs c cs)
  let ?f = "\<lambda>bs. foldr (\<lambda>b n. unat (b :: 8 word) + 256 * n) bs 0"
  have lt: "unat b < 256" "unat c < 256" using byte_bound by simp_all
  from Cons.prems have eq: "unat b + 256 * ?f bs = unat c + 256 * ?f cs" by simp
  have "unat b = unat c" using arg_cong [OF eq, of "\<lambda>n. n mod 256"] lt by simp
  moreover from this eq have "?f bs = ?f cs" by simp
  ultimately show ?case using Cons.IH by (simp add: unsigned_word_eqI)
qed simp

lemma unat_from_le_bytes:
  "length bs = 8 \<Longrightarrow>
   unat (from_le_bytes bs) = foldr (\<lambda>b n. unat (b :: 8 word) + 256 * n) bs 0"
  using le_fold_bound [of bs] by (simp add: from_le_bytes_def unsigned_of_nat take_bit_nat_eq_self)

lemma mint_barcode_shape: "barcode_shape_ok (mint_barcode bs)"
proof -
  have "unat (from_le_bytes bs) < 2 ^ LENGTH(64)" by (rule unsigned_less)
  then have "unat (from_le_bytes bs) < 10 ^ 32" by simp
  from length_show_nat_le [OF this] have "length (mint_barcode bs) \<le> 32"
    by (simp add: mint_barcode_def)
  moreover have "mint_barcode bs \<noteq> []" by (simp add: mint_barcode_def)
  ultimately show ?thesis using show_nat_digits
    by (auto simp: barcode_shape_ok_def mint_barcode_def list_all_iff Suc_le_eq)
qed

subsection \<open>Frames\<close>

named_theorems frame_simps \<open>which tables a statement leaves alone\<close>

lemma arm_after_sub_frame [frame_simps]:
  "events (arm_after_sub now e d) = events d"
  "slots (arm_after_sub now e d) = slots d"
  "tickets (arm_after_sub now e d) = tickets d"
  "registrations (arm_after_sub now e d) = registrations d"
  "receipts (arm_after_sub now e d) = receipts d"
  "booths (arm_after_sub now e d) = booths d"
  "bookings (arm_after_sub now e d) = bookings d"
  "lead_requests (arm_after_sub now e d) = lead_requests d"
  "lead_rules (arm_after_sub now e d) = lead_rules d"
  "audit_trail (arm_after_sub now e d) = audit_trail d"
  "seam_inbox (arm_after_sub now e d) = seam_inbox d"
  by (simp_all add: arm_after_sub_def)

lemma arm_after_sub_ids [frame_simps]: "map ml_id (mails (arm_after_sub now e d)) = map ml_id (mails d)"
  by (simp add: arm_after_sub_def table_simps)

lemma upsert_lead_request_frame [frame_simps]:
  "events (upsert_lead_request i e d) = events d"
  "slots (upsert_lead_request i e d) = slots d"
  "tickets (upsert_lead_request i e d) = tickets d"
  "registrations (upsert_lead_request i e d) = registrations d"
  "mails (upsert_lead_request i e d) = mails d"
  "receipts (upsert_lead_request i e d) = receipts d"
  "booths (upsert_lead_request i e d) = booths d"
  "bookings (upsert_lead_request i e d) = bookings d"
  "lead_rules (upsert_lead_request i e d) = lead_rules d"
  "audit_trail (upsert_lead_request i e d) = audit_trail d"
  "seam_inbox (upsert_lead_request i e d) = seam_inbox d"
  by (simp_all add: upsert_lead_request_def)

lemma upsert_lead_request_keys:
  "distinct (map lq_event_id (lead_requests d)) \<Longrightarrow>
   distinct (map lq_event_id (lead_requests (upsert_lead_request i e d)))"
  by (auto simp: upsert_lead_request_def table_simps)

text \<open>The queue row an arm leaves: there is one for the event, and it is not done.\<close>

lemma upsert_lead_request_armed:
  "\<exists>q \<in> set (lead_requests (upsert_lead_request i e d)). lq_event_id q = e \<and> \<not> lq_done q"
proof (cases "exists_row (\<lambda>q. lq_event_id q = e) (lead_requests d)")
  case True
  then obtain q where "q \<in> set (lead_requests d)" "lq_event_id q = e" by (auto simp: table_simps)
  then have "(if lq_event_id q = e \<and> lq_done q then q\<lparr>lq_done := False\<rparr> else q)
      \<in> set (lead_requests (upsert_lead_request i e d))"
    using True by (simp add: upsert_lead_request_def set_upd_rows image_iff) blast
  with \<open>lq_event_id q = e\<close> show ?thesis
    by (cases "lq_done q") (force intro: bexI [rotated])+
qed (simp add: upsert_lead_request_def)

lemma arm_lead_queue_frame [frame_simps]:
  "events (arm_lead_queue t i e d) = events d"
  "slots (arm_lead_queue t i e d) = slots d"
  "tickets (arm_lead_queue t i e d) = tickets d"
  "registrations (arm_lead_queue t i e d) = registrations d"
  "mails (arm_lead_queue t i e d) = mails d"
  "receipts (arm_lead_queue t i e d) = receipts d"
  "booths (arm_lead_queue t i e d) = booths d"
  "bookings (arm_lead_queue t i e d) = bookings d"
  "lead_rules (arm_lead_queue t i e d) = lead_rules d"
  "audit_trail (arm_lead_queue t i e d) = audit_trail d"
  "seam_inbox (arm_lead_queue t i e d) = seam_inbox d"
  by (simp_all add: arm_lead_queue_def frame_simps)

lemma arm_lead_queue_keys:
  "distinct (map lq_event_id (lead_requests d)) \<Longrightarrow>
   distinct (map lq_event_id (lead_requests (arm_lead_queue t i e d)))"
  by (simp add: arm_lead_queue_def upsert_lead_request_keys)

subsection \<open>Counts\<close>

lemma holds_seat_sync [simp]: "holds_seat (sync_row p ph c r) = holds_seat r"
  by (simp add: holds_seat_def sync_row_def)

lemma in_scope_sync [simp]: "in_scope e s (sync_row p ph c r) = in_scope e s r"
  by (simp add: in_scope_def sync_row_def split: option.splits)

lemma in_scope_set_state [simp]: "in_scope e s (set_state now st r) = in_scope e s r"
  by (simp add: in_scope_def set_state_def split: option.splits)

lemma holds_seat_set_state [simp]:
  "holds_seat (set_state now s r) \<longleftrightarrow> (s = Reg_Open \<or> s = Reg_Done) \<and> rg_active r"
  by (simp add: holds_seat_def set_state_def)

lemma set_state_fields [simp]:
  "rg_id (set_state now s r) = rg_id r" "rg_event_id (set_state now s r) = rg_event_id r"
  "rg_slot_id (set_state now s r) = rg_slot_id r" "rg_barcode (set_state now s r) = rg_barcode r"
  "rg_active (set_state now s r) = rg_active r" "rg_state (set_state now s r) = s"
  "rg_ticket_id (set_state now s r) = rg_ticket_id r"
  by (simp_all add: set_state_def)

lemma sync_row_fields [simp]:
  "rg_id (sync_row p ph c r) = rg_id r" "rg_event_id (sync_row p ph c r) = rg_event_id r"
  "rg_slot_id (sync_row p ph c r) = rg_slot_id r" "rg_barcode (sync_row p ph c r) = rg_barcode r"
  "rg_name (sync_row p ph c r) = rg_name r" "rg_active (sync_row p ph c r) = rg_active r"
  "rg_state (sync_row p ph c r) = rg_state r"
  by (simp_all add: sync_row_def)

lemma seats_taken_le_event: "seats_taken e slot d \<le> seats_taken e None d"
  by (auto simp: seats_taken_def in_scope_def intro: count_rows_mono)

subsection \<open>Inversion\<close>

lemma insert_registration_iff:
  "insert_registration checks r d = Inr d' \<longleftrightarrow>
     belonging_ok r d \<and> checks r \<and> barcode_shape_ok (rg_barcode r) \<and>
     rg_id r \<notin> rg_id ` set (registrations d) \<and>
     rg_barcode r \<notin> rg_barcode ` set (registrations d) \<and>
     d' = d\<lparr>registrations := registrations d @ [r]\<rparr>"
  unfolding insert_registration_def
  by (simp add: exists_row_iff image_iff) (metis (no_types, lifting) sum.distinct(1) sum.inject(2))

lemma insert_registration_Inl: "insert_registration checks r d = Inl e \<Longrightarrow> \<exists>m. e = Database m"
  by (auto simp: insert_registration_def result_simps split: if_splits)

lemma new_registration_Inl: "new_registration env cmd link e slot = Inl x \<Longrightarrow> \<exists>m. x = Database m"
  by (auto simp: new_registration_def cast_reg_state_def cast_order_state_def cast_sale_status_def
      result_simps split: option.splits)

lemma new_registration_fields:
  assumes "new_registration env cmd link e slot = Inr r"
  shows "rg_id r = se_id env" "rg_event_id r = rc_event_id cmd" "rg_slot_id r = slot"
    "rg_active r" "rg_barcode r = mint_barcode (se_bytes env)"
    "rg_ticket_id r = rc_ticket_id cmd" "rg_name r = rc_name cmd" "rg_email r = rc_email cmd"
    "rg_date_closed r = None" "rg_sale_order_id r = map_option sk_order_id link"
    "cast_reg_state (born_state link) = Inr (rg_state r)" "rg_created_at r = se_now env"
    "rg_org_unit r = (if se_org_axis env then ev_org_unit e else None)"
  using assms by (auto simp: new_registration_def result_simps)

lemma cast_reg_state_labels [simp]:
  "cast_reg_state ''draft'' = Inr Reg_Draft" "cast_reg_state ''open'' = Inr Reg_Open"
  "cast_reg_state ''done'' = Inr Reg_Done" "cast_reg_state ''cancel'' = Inr Reg_Cancel"
  by (simp_all add: cast_reg_state_def from_label_def reg_states_def)

lemma after_insert_frame [frame_simps]:
  "events (after_insert env cmd link r d) = events d"
  "slots (after_insert env cmd link r d) = slots d"
  "tickets (after_insert env cmd link r d) = tickets d"
  "registrations (after_insert env cmd link r d) = registrations d"
  "receipts (after_insert env cmd link r d) = receipts d"
  "booths (after_insert env cmd link r d) = booths d"
  "bookings (after_insert env cmd link r d) = bookings d"
  "lead_rules (after_insert env cmd link r d) = lead_rules d"
  "seam_inbox (after_insert env cmd link r d) = seam_inbox d"
  "map ml_id (mails (after_insert env cmd link r d)) = map ml_id (mails d)"
  by (simp_all add: after_insert_def Let_def frame_simps)

lemma after_insert_queue_keys:
  "distinct (map lq_event_id (lead_requests d)) \<Longrightarrow>
   distinct (map lq_event_id (lead_requests (after_insert env cmd link r d)))"
  by (simp add: after_insert_def Let_def frame_simps arm_lead_queue_keys)

lemma register_coreE:
  assumes "register_core env cmd link d = Inr (r, d')"
  obtains e slot d1 where "event_by_id (rc_event_id cmd) d = Some e"
    and "ev_kanban e \<noteq> Kanban_Cancel" and "resolve_slot cmd e d = Inr slot"
    and "check_ticket (se_clock env) cmd d = Inr ()"
    and "\<not> seats_full e (seats_taken (rc_event_id cmd) slot d)"
    and "new_registration env cmd link e slot = Inr r"
    and "insert_registration (se_checks env) r d = Inr d1"
    and "d' = after_insert env cmd link r d1"
  using assms by (auto simp: register_core_def result_simps split: if_splits)

lemma register_core_registrations:
  "register_core env cmd link d = Inr (r, d') \<Longrightarrow> registrations d' = registrations d @ [r]"
  by (elim register_coreE) (simp add: insert_registration_iff frame_simps)

lemma register_core_frame:
  assumes "register_core env cmd link d = Inr (r, d')"
  shows "events d' = events d" "slots d' = slots d" "tickets d' = tickets d"
    "receipts d' = receipts d" "booths d' = booths d" "bookings d' = bookings d"
    "lead_rules d' = lead_rules d" "seam_inbox d' = seam_inbox d"
    "map ml_id (mails d') = map ml_id (mails d)"
  using assms by (elim register_coreE; simp add: insert_registration_iff frame_simps)+

lemma register_core_keys:
  assumes "register_core env cmd link d = Inr (r, d')" and "keys_ok d"
  shows "keys_ok d'"
proof -
  from assms(1) obtain e slot d1 where ins: "insert_registration (se_checks env) r d = Inr d1"
    and d': "d' = after_insert env cmd link r d1" by (elim register_coreE)
  then have "distinct (map lq_event_id (lead_requests d'))"
    using assms(2) by (auto simp: insert_registration_iff keys_ok_def intro: after_insert_queue_keys)
  with assms(2) ins d' register_core_frame [OF assms(1)] show ?thesis
    by (auto simp: keys_ok_def insert_registration_iff frame_simps)
qed

lemma seats_taken_append:
  "registrations d' = registrations d @ [r] \<Longrightarrow>
   seats_taken e slot d' = seats_taken e slot d + (if in_scope e slot r \<and> holds_seat r then 1 else 0)"
  by (simp add: seats_taken_def table_simps)


lemma mint_barcode_inj:
  assumes "length bs = 8" "length cs = 8" "mint_barcode bs = mint_barcode cs"
  shows "bs = cs"
proof -
  from assms(3) have "unat (from_le_bytes bs) = unat (from_le_bytes cs)"
    unfolding mint_barcode_def by (rule show_nat_inj)
  with assms show ?thesis by (simp add: unat_from_le_bytes le_fold_inj)
qed

subsection \<open>The state verb\<close>

lemma transition_arms_frame [frame_simps]:
  "events (transition_arms env r b a d) = events d"
  "slots (transition_arms env r b a d) = slots d"
  "tickets (transition_arms env r b a d) = tickets d"
  "registrations (transition_arms env r b a d) = registrations d"
  "receipts (transition_arms env r b a d) = receipts d"
  "booths (transition_arms env r b a d) = booths d"
  "bookings (transition_arms env r b a d) = bookings d"
  "lead_rules (transition_arms env r b a d) = lead_rules d"
  "seam_inbox (transition_arms env r b a d) = seam_inbox d"
  "audit_trail (transition_arms env r b a d) = audit_trail d"
  "map ml_id (mails (transition_arms env r b a d)) = map ml_id (mails d)"
  by (simp_all add: transition_arms_def Let_def frame_simps)

lemma transition_audit_frame [frame_simps]:
  "events (transition_audit actor i b a d) = events d"
  "slots (transition_audit actor i b a d) = slots d"
  "tickets (transition_audit actor i b a d) = tickets d"
  "registrations (transition_audit actor i b a d) = registrations d"
  "mails (transition_audit actor i b a d) = mails d"
  "receipts (transition_audit actor i b a d) = receipts d"
  "booths (transition_audit actor i b a d) = booths d"
  "bookings (transition_audit actor i b a d) = bookings d"
  "lead_requests (transition_audit actor i b a d) = lead_requests d"
  "lead_rules (transition_audit actor i b a d) = lead_rules d"
  "seam_inbox (transition_audit actor i b a d) = seam_inbox d"
  by (simp_all add: transition_audit_def)

lemma transitionE:
  assumes "transition env i t actor d = Inr ((before, after, active), d')"
  obtains r staged where "registration_by_id i d = Some r" and "cast_reg_state t = Inr after"
    and "before = rg_state r" and "active = rg_active r"
    and "staged = d\<lparr>registrations := upd_rows (\<lambda>x. rg_id x = i) (set_state (se_now env) after)
           (registrations d)\<rparr>"
    and "takes_seat before after active \<longrightarrow> seat_head r staged = Inr ()"
    and "d' = transition_audit actor i before after (transition_arms env r before after staged)"
  using assms by (auto simp: transition_def result_simps Let_def split: if_splits)

lemma transition_registrations:
  "transition env i t actor d = Inr ((before, after, active), d') \<Longrightarrow>
   registrations d' = upd_rows (\<lambda>x. rg_id x = i) (set_state (se_now env) after) (registrations d)"
  by (elim transitionE) (simp add: frame_simps)

lemma transition_frame:
  assumes "transition env i t actor d = Inr (o1, d')"
  shows "events d' = events d" "slots d' = slots d" "tickets d' = tickets d"
    "receipts d' = receipts d" "booths d' = booths d" "bookings d' = bookings d"
    "lead_rules d' = lead_rules d" "seam_inbox d' = seam_inbox d"
    "map ml_id (mails d') = map ml_id (mails d)"
proof -
  obtain b a act where "o1 = (b, a, act)" by (cases o1)
  with assms have *: "transition env i t actor d = Inr ((b, a, act), d')" by simp
  show "events d' = events d" "slots d' = slots d" "tickets d' = tickets d"
    "receipts d' = receipts d" "booths d' = booths d" "bookings d' = bookings d"
    "lead_rules d' = lead_rules d" "seam_inbox d' = seam_inbox d"
    "map ml_id (mails d') = map ml_id (mails d)"
    using * by (elim transitionE; simp add: frame_simps)+
qed

lemma transition_arms_queue_keys:
  "distinct (map lq_event_id (lead_requests d)) \<Longrightarrow>
   distinct (map lq_event_id (lead_requests (transition_arms env r b a d)))"
  by (simp add: transition_arms_def Let_def frame_simps arm_lead_queue_keys)

lemma transition_keys:
  assumes "transition env i t actor d = Inr (o1, d')" and "keys_ok d"
  shows "keys_ok d'"
proof -
  obtain b a act where o1: "o1 = (b, a, act)" by (cases o1)
  have "distinct (map lq_event_id (lead_requests d'))"
    using assms unfolding o1
    by (elim transitionE) (simp add: frame_simps keys_ok_def transition_arms_queue_keys)
  moreover have "map rg_id (registrations d') = map rg_id (registrations d)"
    "map rg_barcode (registrations d') = map rg_barcode (registrations d)"
    using transition_registrations [OF assms(1) [unfolded o1]] by (simp_all add: map_upd_rows)
  ultimately show ?thesis
    using assms(2) transition_frame [OF assms(1)] by (simp add: keys_ok_def)
qed

lemma seats_taken_set_state:
  assumes "distinct (map rg_id (registrations d))"
    and "registrations d' = upd_rows (\<lambda>x. rg_id x = i) (set_state now s) (registrations d)"
  shows "seats_taken e scope d' = seats_taken_by_others e scope i d
    + count_rows (\<lambda>r. rg_id r = i \<and> in_scope e scope r \<and> (s = Reg_Open \<or> s = Reg_Done) \<and> rg_active r)
        (registrations d)"
  using count_rows_upd_key [OF assms(1)]
  by (simp add: seats_taken_def seats_taken_by_others_def assms(2)) (metis (no_types, lifting))

section \<open>Capacity\<close>

text \<open>The scope a limit is meant for: a slot of a multi-slot event, the whole of any other.\<close>

definition capacity_scope :: "event_rec \<Rightarrow> uuid option \<Rightarrow> bool" where
  "capacity_scope e slot \<longleftrightarrow> (ev_multi_slots e \<longleftrightarrow> slot \<noteq> None)"

definition within_capacity :: "db \<Rightarrow> bool" where
  "within_capacity d \<longleftrightarrow>
     (\<forall>e \<in> set (events d). ev_seats_limited e \<and> ev_seats_max e > 0 \<longrightarrow>
        (\<forall>slot. capacity_scope e slot \<longrightarrow> seats_taken (ev_id e) slot d \<le> ev_seats_max e))"

definition slots_fit :: "db \<Rightarrow> bool" where
  "slots_fit d \<longleftrightarrow>
     (\<forall>e \<in> set (events d). \<forall>r \<in> set (registrations d).
        rg_event_id r = ev_id e \<longrightarrow> capacity_scope e (rg_slot_id r))"

definition seat_inv :: "db \<Rightarrow> bool" where
  "seat_inv d \<longleftrightarrow> keys_ok d \<and> slots_fit d \<and> within_capacity d"

text \<open>The part of it that counting needs.\<close>

definition room_inv :: "db \<Rightarrow> bool" where
  "room_inv d \<longleftrightarrow> distinct (map ev_id (events d)) \<and> slots_fit d \<and> within_capacity d"

lemma seat_inv_room: "seat_inv d \<longleftrightarrow> keys_ok d \<and> room_inv d"
  by (auto simp: seat_inv_def room_inv_def keys_ok_def)

text \<open>The verbs that write registrations through the seat head.\<close>

datatype seat_verb =
    Verb_Register seat_env register_cmd
  | Verb_Register_Linked seat_env register_cmd sale_link
  | Verb_Transition seat_env uuid string "uuid option"
  | Verb_Sync seat_env uuid uuid "string option" "string option" "string option" "uuid option"

fun seat_step :: "seat_verb \<Rightarrow> db \<Rightarrow> event_error + db" where
  "seat_step (Verb_Register env cmd) d = map_sum id snd (register env cmd d)"
| "seat_step (Verb_Register_Linked env cmd link) d =
     map_sum id snd (register_sale_linked env cmd link d)"
| "seat_step (Verb_Transition env i t actor) d = map_sum id snd (transition env i t actor d)"
| "seat_step (Verb_Sync env i p n ph c actor) d =
     map_sum id snd (sync_from_partner env i p n ph c actor d)"

text \<open>
  The discipline the register verb needs of its callers: no slot for an event that is not
  multi-slot. The code does not check it; without it the limit is not kept.
\<close>

definition no_stray_slot :: "register_cmd \<Rightarrow> db \<Rightarrow> bool" where
  "no_stray_slot cmd d \<longleftrightarrow>
     (case event_by_id (rc_event_id cmd) d of
        Some e \<Rightarrow> ev_multi_slots e \<or> rc_slot_id cmd = None
      | None \<Rightarrow> True)"

fun seat_admissible :: "seat_verb \<Rightarrow> db \<Rightarrow> bool" where
  "seat_admissible (Verb_Register env cmd) d \<longleftrightarrow> no_stray_slot cmd d"
| "seat_admissible (Verb_Register_Linked env cmd link) d \<longleftrightarrow> no_stray_slot cmd d"
| "seat_admissible _ d \<longleftrightarrow> True"

lemma event_by_id_key:
  assumes "distinct (map ev_id (events d))" "event_by_id i d = Some e" "e' \<in> set (events d)"
    "ev_id e' = i"
  shows "e' = e"
  using assms find_Some_in [of _ "events d"] key_unique [of ev_id "events d"]
  unfolding event_by_id_def by (metis (mono_tags, lifting))

lemma event_by_id_in: "event_by_id i d = Some e \<Longrightarrow> e \<in> set (events d) \<and> ev_id e = i"
  unfolding event_by_id_def by (auto dest: find_Some_in)

lemma registration_by_id_in:
  "registration_by_id i d = Some r \<Longrightarrow> r \<in> set (registrations d) \<and> rg_id r = i"
  unfolding registration_by_id_def by (auto dest: find_Some_in)

lemma resolve_slot_scope:
  assumes "resolve_slot cmd e d = Inr slot" "ev_multi_slots e \<or> rc_slot_id cmd = None"
  shows "capacity_scope e slot"
  using assms by (auto simp: resolve_slot_def capacity_scope_def result_simps split: if_splits)

lemma other_slot_not_in_scope:
  assumes "capacity_scope e slot" "capacity_scope e (rg_slot_id r)" "slot \<noteq> rg_slot_id r"
  shows "\<not> in_scope (ev_id e) slot r"
  using assms by (auto simp: capacity_scope_def in_scope_def split: option.splits)

lemma register_core_room:
  assumes reg: "register_core env cmd link d = Inr (r, d')" and inv: "room_inv d"
    and disc: "no_stray_slot cmd d"
  shows "room_inv d'"
proof -
  from reg obtain e slot where ev: "event_by_id (rc_event_id cmd) d = Some e"
    and slot: "resolve_slot cmd e d = Inr slot"
    and room: "\<not> seats_full e (seats_taken (rc_event_id cmd) slot d)"
    and new: "new_registration env cmd link e slot = Inr r" by (elim register_coreE)
  from disc ev have fits: "capacity_scope e slot"
    by (intro resolve_slot_scope [OF slot]) (simp add: no_stray_slot_def)
  have regs: "registrations d' = registrations d @ [r]" by (rule register_core_registrations [OF reg])
  have evs: "events d' = events d" using register_core_frame [OF reg] by simp
  have keys: "distinct (map ev_id (events d))" using inv by (simp add: room_inv_def)
  have mine: "e' = e" if "e' \<in> set (events d)" "ev_id e' = rg_event_id r" for e'
    using event_by_id_key [OF keys ev that(1)] that(2) new_registration_fields(2) [OF new] by simp
  have rslot: "rg_slot_id r = slot" "rg_event_id r = rc_event_id cmd"
    using new_registration_fields [OF new] by simp_all
  have "slots_fit d'"
    using inv fits mine rslot by (auto simp: room_inv_def slots_fit_def regs evs)
  moreover have "seats_taken (ev_id e') s d' \<le> ev_seats_max e'"
    if e': "e' \<in> set (events d)" "ev_seats_limited e'" "ev_seats_max e' > 0" "capacity_scope e' s"
    for e' s
  proof -
    have old: "seats_taken (ev_id e') s d \<le> ev_seats_max e'"
      using inv e' by (auto simp: room_inv_def within_capacity_def)
    show ?thesis
    proof (cases "in_scope (ev_id e') s r \<and> holds_seat r")
      case True
      then have "e' = e" using mine e'(1) by (auto simp: in_scope_def)
      moreover from this True fits e'(4) rslot have "s = slot"
        using other_slot_not_in_scope [of e s r] by auto
      ultimately show ?thesis
        using room e' True event_by_id_in [OF ev] by (auto simp: seats_taken_append [OF regs] seats_full_def)
    next
      case False
      then show ?thesis using old by (simp only: seats_taken_append [OF regs] if_False)
    qed
  qed
  ultimately show ?thesis
    using keys by (auto simp: room_inv_def within_capacity_def evs)
qed

lemma register_core_within:
  assumes "register_core env cmd link d = Inr (r, d')" and "seat_inv d" and "no_stray_slot cmd d"
  shows "seat_inv d'"
  using assms register_core_room [OF assms(1)] register_core_keys [OF assms(1)] by (simp add: seat_inv_room)

lemma by_others_le: "seats_taken_by_others e s i d \<le> seats_taken e s d"
  by (auto simp: seats_taken_by_others_def seats_taken_def intro: count_rows_mono)

lemma by_others_holding:
  assumes "r \<in> set (registrations d)" "in_scope e s r" "holds_seat r" "rg_id r = i"
    "distinct (map rg_id (registrations d))"
  shows "seats_taken_by_others e s i d + 1 \<le> seats_taken e s d"
proof -
  have split: "seats_taken e s d = seats_taken_by_others e s i d
      + count_rows (\<lambda>r. rg_id r = i \<and> in_scope e s r \<and> holds_seat r) (registrations d)"
    unfolding seats_taken_def seats_taken_by_others_def
    by (subst count_rows_split_key [of _ _ rg_id i]) (simp add: conj_left_commute)
  have "0 < count_rows (\<lambda>r. rg_id r = i \<and> in_scope e s r \<and> holds_seat r) (registrations d)"
    using assms by (auto simp: count_rows_pos_iff)
  with split show ?thesis by simp
qed

lemma transition_within:
  assumes tr: "transition env i t actor d = Inr ((before, after, active), d')" and inv: "seat_inv d"
  shows "seat_inv d'"
proof -
  from tr obtain r staged where r: "registration_by_id i d = Some r"
    and ba: "before = rg_state r" "active = rg_active r"
    and staged: "staged = d\<lparr>registrations := upd_rows (\<lambda>x. rg_id x = i)
      (set_state (se_now env) after) (registrations d)\<rparr>"
    and head: "takes_seat before after active \<longrightarrow> seat_head r staged = Inr ()"
    by (elim transitionE)
  have keys: "distinct (map ev_id (events d))" "distinct (map rg_id (registrations d))"
    using inv by (auto simp: seat_inv_def keys_ok_def)
  note rin = registration_by_id_in [OF r]
  have regs: "registrations d' = upd_rows (\<lambda>x. rg_id x = i) (set_state (se_now env) after)
      (registrations d)" by (rule transition_registrations [OF tr])
  have evs: "events d' = events d" using transition_frame [OF tr] by simp
  have rslot: "slots_fit d'"
    using inv by (auto simp: seat_inv_def slots_fit_def regs evs table_simps)
  have same_others: "seats_taken_by_others e s i staged = seats_taken_by_others e s i d" for e s
    unfolding seats_taken_by_others_def staged
    by (simp add: count_rows_upd) (rule count_rows_cong, auto)
  have "seats_taken (ev_id e) s d' \<le> ev_seats_max e"
    if e: "e \<in> set (events d)" "ev_seats_limited e" "ev_seats_max e > 0" "capacity_scope e s" for e s
  proof -
    let ?extra = "count_rows (\<lambda>x. rg_id x = i \<and> in_scope (ev_id e) s x \<and>
       (after = Reg_Open \<or> after = Reg_Done) \<and> rg_active x) (registrations d)"
    have sum: "seats_taken (ev_id e) s d' = seats_taken_by_others (ev_id e) s i d + ?extra"
      by (rule seats_taken_set_state [OF keys(2) regs])
    have old: "seats_taken (ev_id e) s d \<le> ev_seats_max e"
      using inv e by (auto simp: seat_inv_def within_capacity_def)
    show ?thesis
    proof (cases "?extra = 0")
      case True
      with sum old by_others_le [of "ev_id e" s i d] show ?thesis by simp
    next
      case False
      then have pos: "0 < ?extra" using count_rows_nonneg [of _ "registrations d"] by (simp add: less_le)
      then obtain x where "x \<in> set (registrations d)" "rg_id x = i" and
        x: "in_scope (ev_id e) s x" "after = Reg_Open \<or> after = Reg_Done" "rg_active x"
        by (auto simp: count_rows_pos_iff)
      then have "x = r" using rin key_unique [OF keys(2)] by auto
      note x = x [unfolded this]
      have one: "?extra \<le> 1" by (rule count_rows_key_le_1 [OF keys(2)])
      show ?thesis
      proof (cases "holds_seat r")
        case True
        from by_others_holding [OF conjunct1 [OF rin] x(1) True conjunct2 [OF rin] keys(2)]
        show ?thesis using sum one old by simp
      next
        case False
        then have "takes_seat before after active"
          using x ba by (cases "rg_state r") (auto simp: takes_seat_def holds_seat_def)
        with head have h: "seat_head r staged = Inr ()" by blast
        from x(1) have ev: "rg_event_id r = ev_id e" by (simp add: in_scope_def)
        have "capacity_scope e (rg_slot_id r)"
          using inv e(1) rin ev by (auto simp: seat_inv_def slots_fit_def)
        then have s: "s = rg_slot_id r" using other_slot_not_in_scope e(4) x(1) by blast
        from h obtain e' where e': "event_by_id (rg_event_id r) staged = Some e'"
          and room: "\<not> seats_full e' (seats_taken_by_others (rg_event_id r) (rg_slot_id r) (rg_id r) staged)"
          by (auto simp: seat_head_def result_simps split: if_splits)
        have "event_by_id (rg_event_id r) d = Some e'" using e' by (simp add: event_by_id_def staged)
        with event_by_id_key [OF keys(1) this e(1)] ev have "e' = e" by simp
        with room e ev s rin same_others have "seats_taken_by_others (ev_id e) s i d < ev_seats_max e"
          by (auto simp: seats_full_def)
        with sum one show ?thesis by simp
      qed
    qed
  qed
  with rslot show ?thesis
    using inv transition_keys [OF tr] by (auto simp: seat_inv_def within_capacity_def evs)
qed

lemma sync_from_partnerD:
  assumes "sync_from_partner env i p n ph c actor d = Inr (r', d')"
  shows "registrations d' = upd_rows (\<lambda>x. rg_id x = i \<and> rg_active x) (sync_row p ph c) (registrations d)"
    "events d' = events d" "mails d' = mails d" "booths d' = booths d" "bookings d' = bookings d"
    "receipts d' = receipts d" "lead_requests d' = lead_requests d"
  using assms by (auto simp: sync_from_partner_def result_simps Let_def split: if_splits)

lemma sync_within:
  assumes "sync_from_partner env i p n ph c actor d = Inr (r', d')" and inv: "seat_inv d"
  shows "seat_inv d'"
proof -
  note sync = sync_from_partnerD [OF assms(1)]
  have "seats_taken e s d' = seats_taken e s d" for e s
    unfolding seats_taken_def sync by (simp add: count_rows_upd) (rule count_rows_cong, auto)
  moreover have "keys_ok d'"
    using inv by (simp add: seat_inv_def keys_ok_def sync map_upd_rows)
  moreover have "slots_fit d'"
    using inv by (auto simp: seat_inv_def slots_fit_def sync table_simps)
  ultimately show ?thesis using inv by (simp add: seat_inv_def within_capacity_def sync)
qed

interpretation seats: verb_invariant seat_step seat_admissible seat_inv
proof unfold_locales
  fix v d d' assume step: "seat_step v d = Inr d'" and adm: "seat_admissible v d" and inv: "seat_inv d"
  have snd: "\<exists>y. m = Inr (y, d')" if "map_sum id snd m = Inr d'" for m :: "event_error + ('y \<times> db)"
    using that by (cases m) auto
  show "seat_inv d'"
  proof (cases v)
    case (Verb_Register env cmd)
    with step obtain r where "register_core env cmd None d = Inr (r, d')"
      by (auto dest!: snd simp: register_def)
    from register_core_within [OF this inv] adm Verb_Register show ?thesis by simp
  next
    case (Verb_Register_Linked env cmd link)
    with step obtain r where "register_core env cmd (Some link) d = Inr (r, d')"
      by (auto dest!: snd simp: register_sale_linked_def)
    from register_core_within [OF this inv] adm Verb_Register_Linked show ?thesis by simp
  next
    case (Verb_Transition env i t actor)
    with step obtain b a act where "transition env i t actor d = Inr ((b, a, act), d')"
      by (auto dest!: snd)
    from transition_within [OF this inv] show ?thesis .
  next
    case (Verb_Sync env i p n ph c actor)
    with step obtain r where "sync_from_partner env i p n ph c actor d = Inr (r, d')"
      by (auto dest!: snd)
    from sync_within [OF this inv] show ?thesis .
  qed
qed

section \<open>Witness inputs\<close>

definition ex_env :: "uuid \<Rightarrow> seat_env" where
  "ex_env i = \<lparr>se_now = 500, se_clock = 500, se_id = i,
     se_bytes = [word_of_nat i, 0, 0, 0, 0, 0, 0, 0], se_request_id = 60 + i,
     se_org_axis = True, se_checks = (\<lambda>_. True)\<rparr>"

definition ex_cmd :: "uuid \<Rightarrow> uuid option \<Rightarrow> uuid option \<Rightarrow> register_cmd" where
  "ex_cmd e slot ticket = \<lparr>rc_event_id = e, rc_slot_id = slot, rc_ticket_id = ticket,
     rc_name = ''Ada'', rc_email = ''ada@example.org'', rc_phone = None, rc_company_name = None,
     rc_partner_id = None, rc_actor = None, rc_lead_rule_skip = False\<rparr>"


lemmas seat_eval = register_def register_core_def register_sale_linked_def resolve_slot_def check_ticket_def window_shut_def
  seats_full_def seats_taken_def insert_registration_def belonging_ok_def new_registration_def
  cast_order_state_def cast_sale_status_def from_label_def born_state_def event_by_id_def
  exists_row_def count_rows_def in_scope_def holds_seat_def mint_barcode_shape
  ex_env_def ex_cmd_def ex_defs


lemma check_ticket_Inl:
  "check_ticket clock cmd d = Inl x \<Longrightarrow>
     \<exists>t. x = EventTicketNotOfEvent t \<or> x = EventSaleWindowClosed t"
  by (auto simp: check_ticket_def result_simps split: option.splits if_splits)

lemma resolve_slot_Inl:
  "resolve_slot cmd e d = Inl x \<Longrightarrow> \<exists>i. x = EventSlotRequired i \<or> x = EventSlotNotOfEvent i"
  by (auto simp: resolve_slot_def result_simps split: if_splits)

section \<open>Properties of the seat verbs\<close>

text \<open>
  C11. A register that succeeds takes exactly one seat: it appends one open, active row with a
  fresh id and barcode and the event it was asked for, raises the event's seat count by
  one, and records the creation fact; events, slots, receipts and booths stay as they were.
\<close>

theorem register_takes_one_seat:
  assumes "register env cmd d = Inr (r, d')"
  shows "registrations d' = registrations d @ [r] \<and>
    rg_event_id r = rc_event_id cmd \<and> rg_state r = Reg_Open \<and> holds_seat r \<and>
    rg_barcode r = mint_barcode (se_bytes env) \<and>
    rg_id r \<notin> rg_id ` set (registrations d) \<and> rg_barcode r \<notin> rg_barcode ` set (registrations d) \<and>
    seats_taken (rc_event_id cmd) None d' = seats_taken (rc_event_id cmd) None d + 1 \<and>
    (events d', slots d', receipts d', booths d') = (events d, slots d, receipts d, booths d) \<and>
    (\<exists>detail. audit_trail d' = audit_trail d @
       [audit_entry ''registration_created'' (rc_actor cmd) ''registration'' (Some (rg_id r)) detail])"
proof -
  from assms have core: "register_core env cmd None d = Inr (r, d')" by (simp add: register_def)
  then obtain e slot d1 where new: "new_registration env cmd None e slot = Inr r"
    and ins: "insert_registration (se_checks env) r d = Inr d1"
    and d': "d' = after_insert env cmd None r d1" by (elim register_coreE)
  have "rg_state r = Reg_Open" using new_registration_fields [OF new] by (simp add: born_state_def)
  moreover from this have "holds_seat r"
    using new_registration_fields [OF new] by (simp add: holds_seat_def)
  moreover have "audit_trail d1 = audit_trail d" using ins by (auto simp: insert_registration_iff)
  ultimately show ?thesis
    using new_registration_fields [OF new] ins register_core_frame [OF core]
      seats_taken_append [OF register_core_registrations [OF core]]
    by (auto simp: register_core_registrations [OF core] insert_registration_iff in_scope_def d'
        after_insert_def Let_def frame_simps)
qed

theorem register_takes_one_seat_witness:
  "\<exists>r d'. register (ex_env 3) (ex_cmd 1 None (Some 20)) ex_db = Inr (r, d') \<and>
     seats_taken 1 None d' = seats_taken 1 None ex_db + 1"
proof -
  have "\<not> isl (register (ex_env 3) (ex_cmd 1 None (Some 20)) ex_db)" by (simp add: seat_eval)
  then obtain r d' where ok: "register (ex_env 3) (ex_cmd 1 None (Some 20)) ex_db = Inr (r, d')"
    using isr_obtain2 by blast
  from register_takes_one_seat [OF ok] ok show ?thesis by (simp add: ex_cmd_def)
qed

text \<open>
  C12. The capacity refusal is given exactly when every earlier guard passes and the seats of
  the scope the command resolves to are all taken: the event exists and is not cancelled,
  the slot resolves, the ticket tier is on sale, and the event is limited with no seat left.
\<close>

theorem register_exhausted_iff:
  "register env cmd d = Inl (EventSeatsExhausted i) \<longleftrightarrow>
     i = rc_event_id cmd \<and>
     (\<exists>e slot. event_by_id (rc_event_id cmd) d = Some e \<and> ev_kanban e \<noteq> Kanban_Cancel \<and>
        resolve_slot cmd e d = Inr slot \<and> check_ticket (se_clock env) cmd d = Inr () \<and>
        ev_seats_limited e \<and> ev_seats_max e > 0 \<and>
        ev_seats_max e \<le> seats_taken (rc_event_id cmd) slot d)"
  by (auto simp: register_def register_core_def result_simps seats_full_def cancelled_event_refusal_def
      dest: check_ticket_Inl resolve_slot_Inl new_registration_Inl insert_registration_Inl
      split: if_splits)

text \<open>
  C25. The availability read and the register guard agree: for a command whose other guards
  pass, the officer's read shows no seat left exactly when the register verb refuses for
  lack of seats.
\<close>

theorem availability_agrees_with_register:
  assumes "event_by_id (rc_event_id cmd) d = Some e" and "ev_kanban e \<noteq> Kanban_Cancel"
    and "resolve_slot cmd e d = Inr slot" and "check_ticket (se_clock env) cmd d = Inr ()"
  shows "(\<exists>a. availability (rc_event_id cmd) slot d = Inr a \<and> sa_available a = Some 0) \<longleftrightarrow>
    register env cmd d = Inl (EventSeatsExhausted (rc_event_id cmd))"
  using assms
  by (auto simp: availability_def seat_counts_def from_counts_def sc_available_def result_simps
      register_exhausted_iff)

theorem availability_agrees_with_register_witness:
  "(\<exists>a. availability 1 None (ex_db_with [ex_reg 1 1 None Reg_Done]) = Inr a \<and> sa_available a = Some 0) \<and>
   register (ex_env 3) (ex_cmd 1 None None) (ex_db_with [ex_reg 1 1 None Reg_Done]) =
     Inl (EventSeatsExhausted 1)"
proof -
  let ?d = "ex_db_with [ex_reg 1 1 None Reg_Done]"
  have "(\<exists>a. availability 1 None ?d = Inr a \<and> sa_available a = Some 0) \<longleftrightarrow>
     register (ex_env 3) (ex_cmd 1 None None) ?d = Inl (EventSeatsExhausted 1)"
    using availability_agrees_with_register
      [of "ex_cmd 1 None None" ?d "ex_event 1 False 1" None "ex_env 3"] by (simp add: seat_eval)
  then show ?thesis by (simp add: seat_eval)
qed

text \<open>
  No oversell: from a database whose keys hold, whose rows name a slot exactly where
  their event is multi-slot, and which is within capacity, every run of register,
  sale-linked register, state verbs (any state to any state) and identity fills ends in
  such a database, provided no command names a slot of an event that is not multi-slot.
\<close>

lemma seat_runs_keep_capacity:
  assumes "seat_inv d" and "run_admissible seat_step seat_admissible vs d"
  shows "seat_inv (run_verbs seat_step vs d)"
  using assms by (rule seats.run_keeps)

lemma seat_runs_keep_capacity_witness:
  "seat_inv (run_verbs seat_step
     [Verb_Register (ex_env 3) (ex_cmd 1 None (Some 20)), Verb_Register (ex_env 4) (ex_cmd 1 None None),
      Verb_Transition (ex_env 5) 3 ''cancel'' None] ex_db)"
proof (rule seat_runs_keep_capacity)
  show "seat_inv ex_db"
    by (auto simp: seat_inv_def keys_ok_def slots_fit_def within_capacity_def seats_taken_def
        count_rows_def ex_defs)
  show "run_admissible seat_step seat_admissible
     [Verb_Register (ex_env 3) (ex_cmd 1 None (Some 20)), Verb_Register (ex_env 4) (ex_cmd 1 None None),
      Verb_Transition (ex_env 5) 3 ''cancel'' None] ex_db"
    by (simp add: no_stray_slot_def ex_cmd_def split: option.splits)
qed

text \<open>
  The discipline C4 asks for is needed: the register head of an event that is not
  multi-slot counts only the named slot when a caller names one, so two commands naming two
  of its slots both take the single seat of the event.
\<close>

lemma stray_slots_oversell:
  "\<exists>e d'. e \<in> set (events ex_db) \<and> \<not> ev_multi_slots e \<and> ev_seats_limited e \<and> ev_seats_max e = 1 \<and>
     d' = run_verbs seat_step [Verb_Register (ex_env 3) (ex_cmd 1 (Some 12) None),
            Verb_Register (ex_env 4) (ex_cmd 1 (Some 13) None)] ex_db \<and>
     seats_taken (ev_id e) None d' = 2"
proof -
  have bc: "mint_barcode [3, 0, 0, 0, 0, 0, 0, 0] \<noteq> mint_barcode [4, 0, 0, 0, 0, 0, 0, 0]"
    using mint_barcode_inj [of "[3, 0, 0, 0, 0, 0, 0, 0]" "[4, 0, 0, 0, 0, 0, 0, 0]"] by auto
  have "seats_taken 1 None (run_verbs seat_step [Verb_Register (ex_env 3) (ex_cmd 1 (Some 12) None),
            Verb_Register (ex_env 4) (ex_cmd 1 (Some 13) None)] ex_db) = 2"
    using bc by (simp add: seat_eval after_insert_def Let_def frame_simps)
  then show ?thesis
    by (intro exI [of _ "ex_event 1 False 1"] exI conjI) (simp_all add: ex_defs)
qed




text \<open>
  The arm rule: the state verb re-arms and re-opens the event's \<open>after_sub\<close> schedulers
  exactly when an active row enters \<open>open\<close> from \<open>draft\<close> or \<open>cancel\<close>, and leaves every
  scheduler alone otherwise; and when an active row enters \<open>open\<close> or \<open>done\<close> from another
  state while an active rule in scope has that trigger, the event's lead queue row is left
  armed.
\<close>

lemma transition_arm_rule:
  assumes "transition env i t actor d = Inr ((before, after, active), d')"
    and "registration_by_id i d = Some r"
  shows "mails d' =
      (if active \<and> after = Reg_Open \<and> before \<in> {Reg_Draft, Reg_Cancel}
       then map (\<lambda>m. if ml_event_id m = rg_event_id r \<and> ml_interval_kind m = Interval_AfterSub
                     then m\<lparr>ml_scheduled := Some (se_now env), ml_done := False\<rparr> else m) (mails d)
       else mails d) \<and>
    (active \<and> before \<noteq> after \<and>
      (\<exists>lr \<in> set (lead_rules d). rule_in_scope (rg_event_id r) lr \<and>
         (after = Reg_Open \<and> lr_on_confirm lr \<or> after = Reg_Done \<and> lr_on_done lr)) \<longrightarrow>
      (\<exists>q \<in> set (lead_requests d'). lq_event_id q = rg_event_id r \<and> \<not> lq_done q))"
proof -
  from assms(1) obtain r' staged where r': "registration_by_id i d = Some r'"
    and act: "active = rg_active r'"
    and staged: "staged = d\<lparr>registrations := upd_rows (\<lambda>x. rg_id x = i)
      (set_state (se_now env) after) (registrations d)\<rparr>"
    and d': "d' = transition_audit actor i before after (transition_arms env r' before after staged)"
    by (elim transitionE)
  from r' assms(2) have [simp]: "r' = r" by simp
  show ?thesis
    by (auto simp: d' transition_arms_def Let_def frame_simps act staged arm_after_sub_def upd_rows_def
        arm_lead_queue_def exists_row_iff upsert_lead_request_armed)
qed

lemma transition_arm_rule_witness:
  "\<exists>o' d'. transition (ex_env 3) 1 ''open'' None (ex_db_with [ex_reg 1 1 None Reg_Draft]) = Inr (o', d') \<and>
     mails d' = [(ex_mail 30 1 Interval_AfterSub True)\<lparr>ml_scheduled := Some 500, ml_done := False\<rparr>,
                 ex_mail 31 1 Interval_BeforeEvent False]"
proof -
  let ?r = "ex_reg 1 1 None Reg_Draft"
  let ?d = "ex_db_with [?r]"
  have r: "registration_by_id 1 ?d = Some ?r" by (simp add: registration_by_id_def ex_defs)
  have "\<not> isl (transition (ex_env 3) 1 ''open'' None ?d)"
    by (simp add: transition_def seat_head_def takes_seat_def registration_by_id_def Let_def
        seats_taken_by_others_def set_state_def upd_rows_def seat_eval)
  then obtain b a act d' where tr: "transition (ex_env 3) 1 ''open'' None ?d = Inr ((b, a, act), d')"
    using isr_obtain4 by blast
  from tr have *: "b = Reg_Draft \<and> a = Reg_Open \<and> act"
  proof (rule transitionE)
    fix q assume "registration_by_id 1 ?d = Some q" "cast_reg_state ''open'' = Inr a"
      "b = rg_state q" "act = rg_active q"
    moreover from this r have "q = ?r" by simp
    ultimately show ?thesis by (simp add: ex_reg_def)
  qed
  from transition_arm_rule [OF tr r] *
  have "mails d' = [(ex_mail 30 1 Interval_AfterSub True)\<lparr>ml_scheduled := Some 500, ml_done := False\<rparr>,
      ex_mail 31 1 Interval_BeforeEvent False]"
    by (simp add: ex_reg_def ex_mail_def ex_db_with_def ex_db_def ex_env_def)
  with tr show ?thesis by blast
qed

text \<open>
  A minted barcode is one to twenty decimal digits, so it always passes the table's shape
  check, and two different draws of eight bytes never give the same barcode.
\<close>

lemma barcode_mint:
  "1 \<le> length (mint_barcode bs) \<and> length (mint_barcode bs) \<le> 20 \<and>
   (\<forall>c \<in> set (mint_barcode bs). is_digit c) \<and> barcode_shape_ok (mint_barcode bs) \<and>
   (length bs = 8 \<and> length cs = 8 \<longrightarrow> (mint_barcode bs = mint_barcode cs \<longleftrightarrow> bs = cs))"
proof -
  have "unat (from_le_bytes bs) < 2 ^ LENGTH(64)" by (rule unsigned_less)
  then have "unat (from_le_bytes bs) < 10 ^ 20" by simp
  from length_show_nat_le [OF this] have "length (mint_barcode bs) \<le> 20"
    by (simp add: mint_barcode_def)
  with mint_barcode_shape [of bs] show ?thesis
    using mint_barcode_inj [of bs cs] by (auto simp: barcode_shape_ok_def list_all_iff)
qed

lemma barcode_mint_witness:
  "mint_barcode [3, 0, 0, 0, 0, 0, 0, 1] \<noteq> mint_barcode [1, 0, 0, 0, 0, 0, 0, 3]"
  using barcode_mint [of "[3, 0, 0, 0, 0, 0, 0, 1]" "[1, 0, 0, 0, 0, 0, 0, 3]"] by simp

text \<open>
  A refused registration leaves one durable fact and nothing else: every table keeps its
  rows and the audit trail grows by the refusal with its wire code.
\<close>

lemma refusal_is_recorded:
  assumes "service_register env cmd d = (Inl refusal, d')"
  shows "d' = d\<lparr>audit_trail := audit_trail d @
      [audit_entry ''registration_refused'' (rc_actor cmd) ''event'' (Some (rc_event_id cmd))
         (JObj [(''email'', JStr (rc_email cmd)), (''code'', JStr (code refusal))])]\<rparr> \<and>
    register env cmd d = Inl refusal"
  using assms by (auto simp: service_register_def record_audit_def split: sum.splits)

lemma refusal_is_recorded_witness:
  "service_register (ex_env 3) (ex_cmd 9 None None) ex_db =
     (Inl EventNotFound, ex_db\<lparr>audit_trail :=
        [audit_entry ''registration_refused'' None ''event'' (Some 9)
           (JObj [(''email'', JStr ''ada@example.org''), (''code'', JStr ''event_not_found'')])]\<rparr>)"
proof -
  have "fst (service_register (ex_env 3) (ex_cmd 9 None None) ex_db) = Inl EventNotFound"
    by (simp add: service_register_def seat_eval)
  then obtain d' where "service_register (ex_env 3) (ex_cmd 9 None None) ex_db = (Inl EventNotFound, d')"
    by (metis prod.collapse)
  from refusal_is_recorded [OF this] this show ?thesis by (simp add: ex_cmd_def ex_defs)
qed

text \<open>
  The partner sync only fills empty fields: a stored partner, phone or company survives
  it, the name and every other column never change, and no other row is touched.
\<close>

lemma sync_fills_only_empty:
  assumes "sync_from_partner env i partner name phone company actor d = Inr (r', d')"
  shows "\<exists>r. r \<in> set (registrations d) \<and> rg_id r = i \<and> rg_active r \<and>
      r' = r\<lparr>rg_partner_id := (case rg_partner_id r of None \<Rightarrow> Some partner | p \<Rightarrow> p),
             rg_phone := (case rg_phone r of None \<Rightarrow> phone | p \<Rightarrow> p),
             rg_company_name := (case rg_company_name r of None \<Rightarrow> company | c \<Rightarrow> c)\<rparr> \<and>
      filter (\<lambda>x. rg_id x \<noteq> i) (registrations d') = filter (\<lambda>x. rg_id x \<noteq> i) (registrations d) \<and>
      events d' = events d \<and> mails d' = mails d"
proof -
  have other: "filter (\<lambda>x. rg_id x \<noteq> i)
      (upd_rows (\<lambda>x. rg_id x = i \<and> rg_active x) (sync_row partner phone company) rs) =
      filter (\<lambda>x. rg_id x \<noteq> i) rs" for rs
    by (induction rs) (auto simp: upd_rows_def)
  have co: "coalesce a b = (case a of None \<Rightarrow> b | x \<Rightarrow> x)" for a b :: "'z option"
    by (cases a) auto
  from assms obtain r where "find (\<lambda>r. rg_id r = i \<and> rg_active r) (registrations d) = Some r"
    "r' = sync_row partner phone company r"
    by (auto simp: sync_from_partner_def result_simps Let_def split: if_splits)
  then show ?thesis
    using sync_from_partnerD [OF assms] find_Some_in [of _ "registrations d"]
    by (intro exI [of _ r]) (fastforce simp: sync_row_def co other)
qed

lemma sync_fills_only_empty_witness:
  "\<exists>r' d'. sync_from_partner (ex_env 3) 1 8 (Some ''New'') (Some ''555'') None None
       (ex_db_with [ex_reg 1 1 None Reg_Open]) = Inr (r', d') \<and>
     rg_name r' = ''Ada'' \<and> rg_phone r' = Some ''555''"
proof -
  let ?d = "ex_db_with [ex_reg 1 1 None Reg_Open]"
  have "\<not> isl (sync_from_partner (ex_env 3) 1 8 (Some ''New'') (Some ''555'') None None ?d)"
    by (simp add: sync_from_partner_def Let_def ex_defs ex_env_def)
  then obtain r' d' where ok: "sync_from_partner (ex_env 3) 1 8 (Some ''New'') (Some ''555'') None None ?d
      = Inr (r', d')" using isr_obtain2 by blast
  from sync_fills_only_empty [OF ok] ok show ?thesis by (auto simp: ex_db_with_def ex_reg_def)
qed

end
