(* ===== verification/Events.thy ===== *)
theory Events
  imports Examples
begin

text \<open>
  The event verbs: \<open>infrastructure/persistence/event_command_repository.rs\<close> and
  \<open>application/service/event_service.rs\<close>. Create applies the type's templates once; the patch
  has no arm for the publication pair; publish and unpublish are its only writers; mark-done
  closes both axes. The environment supplies \<open>now()\<close>, the fresh ids of the inserted rows,
  the tenancy fill of the composing service and the declared CHECKs of the events table.
\<close>

section \<open>Data\<close>

record create_input =
  ci_name :: string
  ci_type_id :: "uuid option"
  ci_date_begin :: timestamp
  ci_date_end :: timestamp
  ci_date_tz :: "string option"
  ci_multi_slots :: bool
  ci_slot_count :: int
  ci_seats_limited :: bool
  ci_seats_max :: int
  ci_organizer_id :: "uuid option"
  ci_user_id :: "uuid option"
  ci_address_id :: "uuid option"
  ci_event_url :: "string option"
  ci_badge :: "string option"

record patch_input =
  pi_name :: "string option"
  pi_type_id :: "uuid option"
  pi_stage_id :: "uuid option"
  pi_date_begin :: "timestamp option"
  pi_date_end :: "timestamp option"
  pi_date_tz :: "string option"
  pi_multi_slots :: "bool option"
  pi_slot_count :: "int option"
  pi_seats_limited :: "bool option"
  pi_seats_max :: "int option"
  pi_organizer_id :: "uuid option"
  pi_user_id :: "uuid option"
  pi_address_id :: "uuid option"
  pi_event_url :: "string option"
  pi_badge :: "string option"

definition patch_default :: patch_input where
  "patch_default = \<lparr>pi_name = None, pi_type_id = None, pi_stage_id = None, pi_date_begin = None,
     pi_date_end = None, pi_date_tz = None, pi_multi_slots = None, pi_slot_count = None,
     pi_seats_limited = None, pi_seats_max = None, pi_organizer_id = None, pi_user_id = None,
     pi_address_id = None, pi_event_url = None, pi_badge = None\<rparr>"

record event_env =
  ee_now :: timestamp
  ee_id :: uuid
  ee_stage_id :: uuid
  ee_mail_id :: "nat \<Rightarrow> uuid"
  ee_booth_id :: "nat \<Rightarrow> uuid"
  ee_org_unit :: "uuid option"
  ee_checks :: "event_rec \<Rightarrow> bool"

section \<open>Reads\<close>

definition find_event :: "uuid \<Rightarrow> db \<Rightarrow> event_error + event_rec" where
  "find_event i d = ok_or (event_by_id i d) EventNotFound"

definition list_events :: "int \<Rightarrow> db \<Rightarrow> event_error + event_rec list" where
  "list_events limit d =
     bind_r (require (0 \<le> limit) (Database ''LIMIT must not be negative'')) (\<lambda>_.
     Inr (limit_rows limit (sort_key (\<lambda>e. - ev_date_begin e) (sort_key ev_id (events d)))))"

definition list_linked_products :: "db \<Rightarrow> uuid list" where
  "list_linked_products d =
     sort (remdups (List.map_filter tk_product_id (tickets d) @
                    List.map_filter bc_product_id (categories d)))"

definition find_published :: "uuid \<Rightarrow> db \<Rightarrow> event_error + event_rec" where
  "find_published i d =
     (case find_event i d of
        Inr row \<Rightarrow> if \<not> ev_published row \<or> ev_kanban row = Kanban_Cancel
                   then Inl EventNotPublished else Inr row
      | Inl EventNotFound \<Rightarrow> Inl EventNotPublished
      | Inl other \<Rightarrow> Inl other)"

definition slot_window_of_event ::
    "uuid \<Rightarrow> uuid \<Rightarrow> db \<Rightarrow> (uuid \<times> timestamp \<times> timestamp) option" where
  "slot_window_of_event slot event d =
     map_option (\<lambda>s. (sl_id s, sl_date_begin s,
                      case sl_date_end s of Some e \<Rightarrow> e | None \<Rightarrow> sl_date_begin s))
       (find (\<lambda>s. sl_id s = slot \<and> sl_event_id s = event) (slots d))"

text \<open>\<open>ORDER BY sequence, id LIMIT 1\<close>.\<close>

definition first_stage :: "stage_rec list \<Rightarrow> uuid option" where
  "first_stage ss =
     (case sort_key st_sequence (sort_key st_id ss) of [] \<Rightarrow> None | s # _ \<Rightarrow> Some (st_id s))"

section \<open>Constraints of the events table\<close>

definition cast_badge :: "string option \<Rightarrow> event_error + event_badge_format option" where
  "cast_badge m = (case m of None \<Rightarrow> Inr None | Some s \<Rightarrow>
     bind_r (ok_or (from_label badge_format_to_str [Badge_A4FrenchFold, Badge_A6, Badge_FourPerSheet] s)
               (Database ''invalid input value for enum'')) (\<lambda>b. Inr (Some b)))"

definition event_row_ok :: "(event_rec \<Rightarrow> bool) \<Rightarrow> event_rec \<Rightarrow> db \<Rightarrow> event_error + unit" where
  "event_row_ok checks e d =
     bind_r (require (ev_date_begin e \<le> ev_date_end e) (Database ''events_date_order'')) (\<lambda>_.
     bind_r (require (1 \<le> ev_slot_count e) (Database ''events_slot_count_positive'')) (\<lambda>_.
     bind_r (require (0 \<le> ev_seats_max e) (Database ''events_seats_max_check'')) (\<lambda>_.
     bind_r (require (checks e) (Database ''declared_check'')) (\<lambda>_.
     bind_r (require (case ev_type_id e of None \<Rightarrow> True | Some t \<Rightarrow> t \<in> set (event_types d))
               (Database ''fk_events_event_type_id'')) (\<lambda>_.
     require (exists_row (\<lambda>s. st_id s = ev_stage_id e) (stages d))
       (Database ''fk_events_stage_id''))))))"

section \<open>Create\<close>

text \<open>The stage of a new event: the first one, or a freshly inserted \<open>New\<close>.\<close>

definition birth_stage :: "event_env \<Rightarrow> db \<Rightarrow> uuid \<times> db" where
  "birth_stage env d =
     (case first_stage (stages d) of
        Some i \<Rightarrow> (i, d)
      | None \<Rightarrow> (ee_stage_id env,
                 d\<lparr>stages := stages d @ [\<lparr>st_id = ee_stage_id env, st_name = ''New'',
                    st_sequence = 1, st_fold = False, st_pipe_end = False\<rparr>]\<rparr>))"

definition new_event ::
    "event_env \<Rightarrow> create_input \<Rightarrow> uuid \<Rightarrow> event_badge_format option \<Rightarrow> event_rec" where
  "new_event env input stage badge =
     \<lparr>ev_id = ee_id env, ev_name = ci_name input, ev_type_id = ci_type_id input,
      ev_stage_id = stage, ev_kanban = Kanban_Normal, ev_date_begin = ci_date_begin input,
      ev_date_end = ci_date_end input,
      ev_date_tz = (case ci_date_tz input of Some z \<Rightarrow> z | None \<Rightarrow> ''UTC''),
      ev_multi_slots = ci_multi_slots input, ev_slot_count = ci_slot_count input,
      ev_seats_limited = ci_seats_limited input, ev_seats_max = ci_seats_max input,
      ev_address_id = ci_address_id input, ev_organizer_id = ci_organizer_id input,
      ev_user_id = ci_user_id input, ev_event_url = ci_event_url input,
      ev_badge = (case badge of Some b \<Rightarrow> b | None \<Rightarrow> Badge_A4FrenchFold),
      ev_published = False, ev_date_publish = None, ev_org_unit = ee_org_unit env\<rparr>"

definition mail_of_template :: "event_env \<Rightarrow> nat \<Rightarrow> type_mail_rec \<Rightarrow> mail_rec" where
  "mail_of_template env k tm =
     \<lparr>ml_id = ee_mail_id env k, ml_event_id = ee_id env, ml_interval_nbr = tm_interval_nbr tm,
      ml_interval_unit = tm_interval_unit tm, ml_interval_kind = tm_interval_kind tm,
      ml_channel = tm_channel tm, ml_scheduled = Some (ee_now env), ml_done = False,
      ml_last_registration = None, ml_template_ref = tm_template_ref tm,
      ml_template_kind = tm_template_kind tm, ml_error_at = None, ml_error_kind = None\<rparr>"

definition booth_of_template :: "event_env \<Rightarrow> nat \<Rightarrow> type_booth_rec \<Rightarrow> booth_rec" where
  "booth_of_template env k tb =
     \<lparr>bo_id = ee_booth_id env k, bo_event_id = ee_id env, bo_category_id = tb_category_id tb,
      bo_name = tb_name tb, bo_state = Booth_Available, bo_partner_id = None,
      bo_contact_name = None, bo_contact_email = None, bo_contact_phone = None,
      bo_line_id = None, bo_paid = False\<rparr>"

text \<open>THE ONE TEMPLATE-APPLY.\<close>

definition apply_templates :: "event_env \<Rightarrow> uuid option \<Rightarrow> db \<Rightarrow> db" where
  "apply_templates env type d =
     (case type of
        None \<Rightarrow> d
      | Some t \<Rightarrow>
          let tms = sel_rows (\<lambda>tm. tm_type_id tm = t) (type_mails d);
              tbs = sel_rows (\<lambda>tb. tb_type_id tb = t) (type_booths d)
          in d\<lparr>mails := mails d @ map (\<lambda>(k, tm). mail_of_template env k tm) (enumerate 0 tms),
               booths := booths d @ map (\<lambda>(k, tb). booth_of_template env k tb) (enumerate 0 tbs)\<rparr>)"

definition repo_create_event ::
    "event_env \<Rightarrow> create_input \<Rightarrow> uuid option \<Rightarrow> db \<Rightarrow> event_error + (event_rec \<times> db)" where
  "repo_create_event env input actor d =
     (let (stage, d1) = birth_stage env d in
      bind_r (cast_badge (ci_badge input)) (\<lambda>badge.
      let e = new_event env input stage badge in
      bind_r (event_row_ok (ee_checks env) e d1) (\<lambda>_.
      bind_r (require (\<not> exists_row (\<lambda>x. ev_id x = ee_id env) (events d1))
                (Database ''events_pkey'')) (\<lambda>_.
      Inr (e, record_audit ''event_created'' actor ''event'' (Some (ee_id env))
             (JObj [(''name'', JStr (ci_name input)), (''event_type_id'', json_opt JId (ci_type_id input))])
             (apply_templates env (ci_type_id input) (d1\<lparr>events := events d1 @ [e]\<rparr>)))))))"

definition create_event ::
    "event_env \<Rightarrow> create_input \<Rightarrow> uuid option \<Rightarrow> db \<Rightarrow> event_error + (event_rec \<times> db)" where
  "create_event env input actor d =
     (if ci_date_end input < ci_date_begin input
      then Inl (Validation ''date_end precedes date_begin'')
      else if ci_multi_slots input \<and> ci_slot_count input < 1
      then Inl (Validation ''multi-slot events declare at least one slot'')
      else repo_create_event env input actor d)"

section \<open>Patch, publish, mark done\<close>

definition or_stored :: "'a option \<Rightarrow> 'a \<Rightarrow> 'a" where
  "or_stored m x = (case m of Some y \<Rightarrow> y | None \<Rightarrow> x)"

definition patch_row :: "patch_input \<Rightarrow> event_badge_format option \<Rightarrow> event_rec \<Rightarrow> event_rec" where
  "patch_row p badge e =
     e\<lparr>ev_name := or_stored (pi_name p) (ev_name e),
       ev_type_id := coalesce (pi_type_id p) (ev_type_id e),
       ev_stage_id := or_stored (pi_stage_id p) (ev_stage_id e),
       ev_date_begin := or_stored (pi_date_begin p) (ev_date_begin e),
       ev_date_end := or_stored (pi_date_end p) (ev_date_end e),
       ev_date_tz := or_stored (pi_date_tz p) (ev_date_tz e),
       ev_multi_slots := or_stored (pi_multi_slots p) (ev_multi_slots e),
       ev_slot_count := or_stored (pi_slot_count p) (ev_slot_count e),
       ev_seats_limited := or_stored (pi_seats_limited p) (ev_seats_limited e),
       ev_seats_max := or_stored (pi_seats_max p) (ev_seats_max e),
       ev_organizer_id := coalesce (pi_organizer_id p) (ev_organizer_id e),
       ev_user_id := coalesce (pi_user_id p) (ev_user_id e),
       ev_address_id := coalesce (pi_address_id p) (ev_address_id e),
       ev_event_url := coalesce (pi_event_url p) (ev_event_url e),
       ev_badge := or_stored badge (ev_badge e)\<rparr>"

text \<open>One event row updated, its constraints checked, and the fact recorded.\<close>

definition update_event ::
    "event_env \<Rightarrow> uuid \<Rightarrow> (event_rec \<Rightarrow> event_rec) \<Rightarrow> string \<Rightarrow> uuid option \<Rightarrow> json \<Rightarrow> db \<Rightarrow>
       event_error + (event_rec \<times> db)" where
  "update_event env i f action actor detail d =
     bind_r (ok_or (event_by_id i d) EventNotFound) (\<lambda>e.
     bind_r (event_row_ok (ee_checks env) (f e) d) (\<lambda>_.
     Inr (f e, record_audit action actor ''event'' (Some i) detail
                 (d\<lparr>events := upd_rows (\<lambda>x. ev_id x = i) f (events d)\<rparr>))))"

definition patch_event ::
    "event_env \<Rightarrow> uuid \<Rightarrow> patch_input \<Rightarrow> uuid option \<Rightarrow> db \<Rightarrow> event_error + (event_rec \<times> db)" where
  "patch_event env i p actor d =
     (if event_by_id i d = None then Inl EventNotFound
      else bind_r (cast_badge (pi_badge p)) (\<lambda>badge.
           update_event env i (patch_row p badge) ''event_updated'' actor
             (JObj [(''verb'', JStr ''patch''),
                    (''fenced'', JArr [JStr ''is_published'', JStr ''date_publish''])]) d))"

definition publish_event ::
    "event_env \<Rightarrow> uuid \<Rightarrow> uuid option \<Rightarrow> db \<Rightarrow> event_error + (event_rec \<times> db)" where
  "publish_event env i actor d =
     update_event env i
       (\<lambda>e. e\<lparr>ev_published := True,
              ev_date_publish := coalesce (ev_date_publish e) (Some (ee_now env))\<rparr>)
       ''event_published'' actor (JObj []) d"

definition unpublish_event ::
    "event_env \<Rightarrow> uuid \<Rightarrow> uuid option \<Rightarrow> db \<Rightarrow> event_error + (event_rec \<times> db)" where
  "unpublish_event env i actor d =
     update_event env i (\<lambda>e. e\<lparr>ev_published := False\<rparr>) ''event_unpublished'' actor (JObj []) d"

definition mark_done ::
    "event_env \<Rightarrow> uuid \<Rightarrow> uuid option \<Rightarrow> db \<Rightarrow> event_error + (event_rec \<times> db)" where
  "mark_done env i actor d =
     (let pipe_end = first_stage (sel_rows st_pipe_end (stages d)) in
      update_event env i
        (\<lambda>e. e\<lparr>ev_kanban := Kanban_Done, ev_stage_id := or_stored pipe_end (ev_stage_id e)\<rparr>)
        ''event_mark_done'' actor (JObj [(''verb'', JStr ''mark_done'')]) d)"

section \<open>Facts\<close>

lemma update_eventE:
  assumes "update_event env i f action actor detail d = Inr (e', d')"
  obtains e where "event_by_id i d = Some e" and "e' = f e"
    and "events d' = upd_rows (\<lambda>x. ev_id x = i) f (events d)"
    and "mails d' = mails d" and "booths d' = booths d" and "registrations d' = registrations d"
    and "stages d' = stages d"
  using assms by (auto simp: update_event_def result_simps)

lemma patch_eventE:
  assumes "patch_event env i p actor d = Inr (e', d')"
  obtains badge action detail where
    "update_event env i (patch_row p badge) action actor detail d = Inr (e', d')"
  using assms by (auto simp: patch_event_def result_simps split: if_splits)

lemma patch_row_fence [simp]:
  "ev_published (patch_row p b e) = ev_published e"
  "ev_date_publish (patch_row p b e) = ev_date_publish e"
  "ev_id (patch_row p b e) = ev_id e" "ev_kanban (patch_row p b e) = ev_kanban e"
  "ev_org_unit (patch_row p b e) = ev_org_unit e"
  by (simp_all add: patch_row_def)

lemma birth_stage_frame:
  assumes "birth_stage env d = (s, d1)"
  shows "events d1 = events d" "mails d1 = mails d" "booths d1 = booths d"
    "registrations d1 = registrations d" "type_mails d1 = type_mails d"
    "type_booths d1 = type_booths d" "audit_trail d1 = audit_trail d"
  using assms by (auto simp: birth_stage_def split: option.splits)

lemma create_eventE:
  assumes "create_event env input actor d = Inr (e, d')"
  obtains stage badge d1 where "birth_stage env d = (stage, d1)"
    and "e = new_event env input stage badge"
    and "ee_id env \<notin> ev_id ` set (events d)"
    and "events d' = events d @ [e]"
    and "d' = record_audit ''event_created'' actor ''event'' (Some (ee_id env))
             (JObj [(''name'', JStr (ci_name input)), (''event_type_id'', json_opt JId (ci_type_id input))])
             (apply_templates env (ci_type_id input) (d1\<lparr>events := events d1 @ [e]\<rparr>))"
proof -
  obtain stage d1 where b: "birth_stage env d = (stage, d1)" by (cases "birth_stage env d")
  have ev: "events (apply_templates env t x) = events x" for t x
    by (auto simp: apply_templates_def Let_def split: option.splits)
  from assms b show thesis
    by (auto simp: create_event_def repo_create_event_def result_simps Let_def exists_row_iff ev
        birth_stage_frame [OF b] image_iff split: if_splits intro!: that [OF b])
qed

section \<open>Runs of event verbs\<close>

datatype event_verb =
    Do_Create event_env create_input "uuid option"
  | Do_Patch event_env uuid patch_input "uuid option"
  | Do_Publish event_env uuid "uuid option"
  | Do_Unpublish event_env uuid "uuid option"
  | Do_Mark_Done event_env uuid "uuid option"

fun event_step :: "event_verb \<Rightarrow> db \<Rightarrow> event_error + db" where
  "event_step (Do_Create env input a) d = map_sum id snd (create_event env input a d)"
| "event_step (Do_Patch env i p a) d = map_sum id snd (patch_event env i p a d)"
| "event_step (Do_Publish env i a) d = map_sum id snd (publish_event env i a d)"
| "event_step (Do_Unpublish env i a) d = map_sum id snd (unpublish_event env i a d)"
| "event_step (Do_Mark_Done env i a) d = map_sum id snd (mark_done env i a d)"

definition stamped :: "uuid \<Rightarrow> timestamp \<Rightarrow> db \<Rightarrow> bool" where
  "stamped i t d \<longleftrightarrow> (\<exists>e. event_by_id i d = Some e \<and> ev_date_publish e = Some t)"

lemma find_upd_event:
  assumes "\<And>e. ev_id (f e) = ev_id e"
  shows "find (\<lambda>e. ev_id e = j) (upd_rows (\<lambda>e. ev_id e = i) f es) =
    map_option (\<lambda>e. if j = i then f e else e) (find (\<lambda>e. ev_id e = j) es)"
  using assms by (induction es) (auto simp: upd_rows_def)

lemma update_event_by_id:
  assumes "update_event env i f action actor detail d = Inr (e', d')" "\<And>e. ev_id (f e) = ev_id e"
  shows "event_by_id j d' = map_option (\<lambda>e. if j = i then f e else e) (event_by_id j d)"
  using assms(1) by (elim update_eventE) (simp add: event_by_id_def find_upd_event [OF assms(2)])

lemma update_event_stamped:
  assumes "update_event env i f action actor detail d = Inr (e', d')"
    and "\<And>e. ev_id (f e) = ev_id e" and "\<And>e s. ev_date_publish e = Some s \<Longrightarrow> ev_date_publish (f e) = Some s"
    and "stamped j t d"
  shows "stamped j t d'"
proof -
  from assms(4) obtain e where "event_by_id j d = Some e" "ev_date_publish e = Some t"
    by (auto simp: stamped_def)
  with assms(3) show ?thesis by (simp add: stamped_def update_event_by_id [OF assms(1,2)])
qed

lemma map_enumerate_snd: "map (\<lambda>x. g (snd x)) (enumerate n xs) = map g xs"
  by (induction xs arbitrary: n) auto

lemma find_append_found: "find p xs = Some x \<Longrightarrow> find p (xs @ ys) = Some x"
  by (induction xs) auto

interpretation pub: verb_invariant event_step "\<lambda>_ _. True" "stamped i t" for i t
proof unfold_locales
  fix v d d' assume step: "event_step v d = Inr d'" and st: "stamped i t d"
  show "stamped i t d'"
  proof (cases v)
    case (Do_Create env input a)
    with step obtain e where "create_event env input a d = Inr (e, d')" by (auto simp: result_simps)
    with st show ?thesis
      by (elim create_eventE) (auto simp: stamped_def event_by_id_def find_append_found)
  next
    case (Do_Patch env j p a)
    with step obtain e where "patch_event env j p a d = Inr (e, d')" by (auto simp: result_simps)
    with st show ?thesis by (elim patch_eventE) (erule update_event_stamped; simp)
  next
    case (Do_Publish env j a)
    with step st show ?thesis
      by (auto simp: result_simps publish_event_def elim!: update_event_stamped)
  next
    case (Do_Unpublish env j a)
    with step st show ?thesis
      by (auto simp: result_simps unpublish_event_def elim!: update_event_stamped)
  next
    case (Do_Mark_Done env j a)
    with step st show ?thesis
      by (auto simp: result_simps mark_done_def Let_def elim!: update_event_stamped)
  qed
qed

section \<open>Properties of the event verbs\<close>

definition ex_event_env :: event_env where
  "ex_event_env = \<lparr>ee_now = 600, ee_id = 4, ee_stage_id = 55, ee_mail_id = (\<lambda>k. 32 + k),
     ee_booth_id = (\<lambda>k. 82 + k), ee_org_unit = None, ee_checks = (\<lambda>_. True)\<rparr>"

definition ex_create :: create_input where
  "ex_create = \<lparr>ci_name = ''Fair'', ci_type_id = Some 9, ci_date_begin = 10, ci_date_end = 20,
     ci_date_tz = None, ci_multi_slots = False, ci_slot_count = 1, ci_seats_limited = False,
     ci_seats_max = 0, ci_organizer_id = None, ci_user_id = None, ci_address_id = None,
     ci_event_url = None, ci_badge = None\<rparr>"

definition ex_type_db :: db where
  "ex_type_db = ex_db\<lparr>event_types := [9],
     type_mails := [\<lparr>tm_id = 91, tm_type_id = 9, tm_interval_nbr = 2, tm_interval_unit = Unit_Days,
       tm_interval_kind = Interval_BeforeEvent, tm_channel = Channel_Mail,
       tm_template_ref = Some 70, tm_template_kind = Some ''mail''\<rparr>],
     type_booths := [\<lparr>tb_id = 92, tb_type_id = 9, tb_category_id = 90, tb_name = ''B7''\<rparr>]\<rparr>"

lemmas event_eval = Let_def create_event_def repo_create_event_def birth_stage_def first_stage_def
  cast_badge_def event_row_ok_def new_event_def exists_row_def event_by_id_def update_event_def
  ex_event_env_def ex_create_def ex_type_db_def ex_defs

text \<open>
  C22. Creating an event applies its type's templates exactly once: the schedulers added are
  the type's scheduler templates, one each in order, due now, not done and belonging to the
  new event; the booths added carry only the template's name and category and are free,
  unpaid and without contact or sale link; the event is born unpublished.
\<close>

theorem create_applies_templates_once:
  assumes "create_event env input actor d = Inr (e, d')"
  shows "events d' = events d @ [e] \<and> \<not> ev_published e \<and> ev_date_publish e = None \<and>
    (\<exists>ms bs. mails d' = mails d @ ms \<and> booths d' = booths d @ bs \<and>
       map (\<lambda>m. (ml_interval_nbr m, ml_interval_unit m, ml_interval_kind m, ml_channel m,
                 ml_template_ref m, ml_template_kind m)) ms =
       map (\<lambda>t. (tm_interval_nbr t, tm_interval_unit t, tm_interval_kind t, tm_channel t,
                 tm_template_ref t, tm_template_kind t))
         (filter (\<lambda>t. Some (tm_type_id t) = ci_type_id input) (type_mails d)) \<and>
       (\<forall>m \<in> set ms. ml_event_id m = ev_id e \<and> ml_scheduled m = Some (ee_now env) \<and> \<not> ml_done m) \<and>
       map (\<lambda>b. (bo_name b, bo_category_id b)) bs =
       map (\<lambda>t. (tb_name t, tb_category_id t))
         (filter (\<lambda>t. Some (tb_type_id t) = ci_type_id input) (type_booths d)) \<and>
       (\<forall>b \<in> set bs. bo_event_id b = ev_id e \<and> bo_state b = Booth_Available \<and> \<not> bo_paid b \<and>
          (bo_partner_id b, bo_contact_name b, bo_contact_email b, bo_contact_phone b, bo_line_id b) =
          (None, None, None, None, None)))"
proof -
  from assms obtain stage badge d1 where b: "birth_stage env d = (stage, d1)"
    and e: "e = new_event env input stage badge" and ev: "events d' = events d @ [e]"
    and d': "d' = record_audit ''event_created'' actor ''event'' (Some (ee_id env))
             (JObj [(''name'', JStr (ci_name input)), (''event_type_id'', json_opt JId (ci_type_id input))])
             (apply_templates env (ci_type_id input) (d1\<lparr>events := events d1 @ [e]\<rparr>))"
    by (elim create_eventE)
  note fr = birth_stage_frame [OF b]
  show ?thesis
  proof (cases "ci_type_id input")
    case None
    then show ?thesis using ev e by (simp add: d' apply_templates_def fr new_event_def)
  next
    case (Some t)
    then show ?thesis using ev e
      by (auto simp: d' apply_templates_def Let_def fr new_event_def sel_rows_def case_prod_beta
          mail_of_template_def booth_of_template_def comp_def
          map_enumerate_snd [where g = "\<lambda>t. (tm_interval_nbr t, tm_interval_unit t,
            tm_interval_kind t, tm_channel t, tm_template_ref t, tm_template_kind t)"]
          map_enumerate_snd [where g = "\<lambda>t. (tb_name t, tb_category_id t)"])
  qed
qed

theorem create_applies_templates_once_witness:
  "\<exists>e d'. create_event ex_event_env ex_create None ex_type_db = Inr (e, d') \<and>
     length (mails d') = 3 \<and> length (booths d') = 3"
proof -
  have "\<not> isl (create_event ex_event_env ex_create None ex_type_db)"
    by (simp add: event_eval)
  then obtain e d' where ok: "create_event ex_event_env ex_create None ex_type_db = Inr (e, d')"
    using isr_obtain2 by blast
  from create_applies_templates_once [OF ok] obtain ms bs where
    *: "mails d' = mails ex_type_db @ ms" "booths d' = booths ex_type_db @ bs"
    and m: "map (\<lambda>m. (ml_interval_nbr m, ml_interval_unit m, ml_interval_kind m, ml_channel m,
                 ml_template_ref m, ml_template_kind m)) ms =
       map (\<lambda>t. (tm_interval_nbr t, tm_interval_unit t, tm_interval_kind t, tm_channel t,
                 tm_template_ref t, tm_template_kind t))
         (filter (\<lambda>t. Some (tm_type_id t) = ci_type_id ex_create) (type_mails ex_type_db))"
    and b: "map (\<lambda>b. (bo_name b, bo_category_id b)) bs =
       map (\<lambda>t. (tb_name t, tb_category_id t))
         (filter (\<lambda>t. Some (tb_type_id t) = ci_type_id ex_create) (type_booths ex_type_db))"
    by blast
  from arg_cong [OF m, of length] arg_cong [OF b, of length] have "length ms = 1" "length bs = 1"
    by (simp_all add: ex_create_def ex_type_db_def)
  with * ok show ?thesis by (auto simp: ex_type_db_def ex_db_def)
qed

text \<open>
  The publication fence: a patch, whatever it carries, and mark-done never change an
  event's published flag or first-publication stamp, nor any other event, nor any scheduler
  or booth (a changed type is not re-applied).
\<close>

lemma patch_keeps_fence:
  assumes "patch_event env i p actor d = Inr (e', d') \<or> mark_done env i actor d = Inr (e', d')"
  shows "map_option (\<lambda>e. (ev_published e, ev_date_publish e)) (event_by_id j d') =
      map_option (\<lambda>e. (ev_published e, ev_date_publish e)) (event_by_id j d) \<and>
    (j \<noteq> i \<longrightarrow> event_by_id j d' = event_by_id j d) \<and>
    mails d' = mails d \<and> booths d' = booths d"
proof -
  from assms obtain f action detail where u: "update_event env i f action actor detail d = Inr (e', d')"
    and id: "\<And>e. ev_id (f e) = ev_id e"
    and f: "\<And>e. ev_published (f e) = ev_published e" "\<And>e. ev_date_publish (f e) = ev_date_publish e"
  proof (elim disjE)
    assume "patch_event env i p actor d = Inr (e', d')"
    then obtain badge action detail where
      "update_event env i (patch_row p badge) action actor detail d = Inr (e', d')"
      by (elim patch_eventE)
    then show thesis by (rule that) simp_all
  next
    assume "mark_done env i actor d = Inr (e', d')"
    then show thesis unfolding mark_done_def Let_def by (rule that) simp_all
  qed
  from u have "mails d' = mails d" "booths d' = booths d" by (elim update_eventE; simp)+
  then show ?thesis
    by (cases "event_by_id j d") (auto simp: update_event_by_id [OF u id] f)
qed

lemma patch_keeps_fence_witness:
  "\<exists>e' d'. patch_event ex_event_env 2 (patch_default\<lparr>pi_name := Some ''X''\<rparr>) None ex_db = Inr (e', d') \<and>
     map_option ev_date_publish (event_by_id 2 d') = Some (Some 5)"
proof -
  let ?p = "patch_default\<lparr>pi_name := Some ''X''\<rparr>"
  have "\<not> isl (patch_event ex_event_env 2 ?p None ex_db)"
    by (simp add: patch_event_def patch_row_def patch_default_def or_stored_def event_eval)
  then obtain e' d' where ok: "patch_event ex_event_env 2 ?p None ex_db = Inr (e', d')"
    using isr_obtain2 by blast
  from patch_keeps_fence [OF disjI1 [OF ok], of 2] have
    "map_option (\<lambda>e. (ev_published e, ev_date_publish e)) (event_by_id 2 d') = Some (True, Some 5)"
    by (simp add: event_by_id_def ex_defs)
  then have "map_option ev_date_publish (event_by_id 2 d') = Some (Some 5)"
    by (cases "event_by_id 2 d'") auto
  with ok show ?thesis by blast
qed

text \<open>
  The first-publication stamp: publishing stamps an unstamped event with the time of the
  transaction, and from then on no run of creates, patches, publishes, unpublishes and
  mark-dones, in any order and on any events, ever rewrites it.
\<close>

lemma first_publish_stamp_is_kept:
  assumes "publish_event env i actor d = Inr (e, d')"
  shows "\<exists>t e'. ev_published e \<and> ev_date_publish e = Some t \<and>
    t = (case event_by_id i d of Some e0 \<Rightarrow>
           (case ev_date_publish e0 of Some s \<Rightarrow> s | None \<Rightarrow> ee_now env) | None \<Rightarrow> 0) \<and>
    event_by_id i (run_verbs event_step vs d') = Some e' \<and> ev_date_publish e' = Some t"
proof -
  let ?f = "\<lambda>e. e\<lparr>ev_published := True, ev_date_publish := coalesce (ev_date_publish e) (Some (ee_now env))\<rparr>"
  from assms have u: "update_event env i ?f ''event_published'' actor (JObj []) d = Inr (e, d')"
    by (simp add: publish_event_def)
  then obtain e0 where e0: "event_by_id i d = Some e0" and e: "e = ?f e0" by (elim update_eventE)
  have by_id: "event_by_id i d' = Some (?f e0)" using e0 update_event_by_id [OF u] by simp
  let ?t = "case ev_date_publish e0 of Some s \<Rightarrow> s | None \<Rightarrow> ee_now env"
  have "stamped i ?t d'" using by_id by (auto simp: stamped_def split: option.splits)
  moreover have "run_admissible event_step (\<lambda>_ _. True) vs d'" for d'
    by (induction vs arbitrary: d') auto
  ultimately have "stamped i ?t (run_verbs event_step vs d')" by (rule pub.run_keeps)
  then show ?thesis using e e0 by (auto simp: stamped_def split: option.splits)
qed

lemma first_publish_stamp_is_kept_witness:
  "\<exists>e d' e'. publish_event ex_event_env 4 None (ex_db\<lparr>events := [(ex_event 4 False 0)\<lparr>ev_date_publish := None\<rparr>]\<rparr>)
      = Inr (e, d') \<and>
     event_by_id 4 (run_verbs event_step [Do_Unpublish ex_event_env 4 None,
       Do_Publish (ex_event_env\<lparr>ee_now := 999\<rparr>) 4 None] d') = Some e' \<and> ev_date_publish e' = Some 600"
proof -
  let ?d = "ex_db\<lparr>events := [(ex_event 4 False 0)\<lparr>ev_date_publish := None\<rparr>]\<rparr>"
  have "\<not> isl (publish_event ex_event_env 4 None ?d)" by (simp add: publish_event_def event_eval)
  then obtain e d' where ok: "publish_event ex_event_env 4 None ?d = Inr (e, d')"
    using isr_obtain2 by blast
  have by_id: "event_by_id 4 ?d = Some ((ex_event 4 False 0)\<lparr>ev_date_publish := None\<rparr>)"
    by (simp add: event_by_id_def ex_event_def)
  from first_publish_stamp_is_kept [OF ok] have
    "\<exists>e'. event_by_id 4 (run_verbs event_step [Do_Unpublish ex_event_env 4 None,
       Do_Publish (ex_event_env\<lparr>ee_now := 999\<rparr>) 4 None] d') = Some e' \<and> ev_date_publish e' = Some 600"
    unfolding by_id by (simp add: ex_event_env_def del: run_verbs.simps)
  with ok show ?thesis by blast
qed

text \<open>
  The capability gate's event read has two outcomes only: the row of a published event
  that is not cancelled, or the one uniform refusal; missing, unpublished and cancelled
  events cannot be told apart.
\<close>

lemma find_published_uniform:
  "find_published i d =
     (case event_by_id i d of
        Some e \<Rightarrow> if ev_published e \<and> ev_kanban e \<noteq> Kanban_Cancel then Inr e else Inl EventNotPublished
      | None \<Rightarrow> Inl EventNotPublished)"
  by (cases "event_by_id i d") (auto simp: find_published_def find_event_def)

end
