(* ===== verification/Desk.thy ===== *)
theory Desk
  imports Seats Events
begin

text \<open>
  The registration desk, \<open>application/service/desk_service.rs\<close>: one scan, a frozen order of
  branches, at most one write, and that one through the state verb. The scan's own clock is
  \<open>se_clock\<close>; the reads and the write are taken as one step, as they run for one desk.
\<close>

definition desk_ended :: "timestamp \<Rightarrow> event_rec \<Rightarrow> bool" where
  "desk_ended clock e \<longleftrightarrow>
     ev_kanban e = Kanban_Done \<or> ev_kanban e = Kanban_Cancel \<or> ev_date_end e \<le> clock"

definition register_attendee ::
    "seat_env \<Rightarrow> string \<Rightarrow> uuid \<Rightarrow> uuid option \<Rightarrow> db \<Rightarrow> event_error +
       ((reg_rec \<times> event_registration_state \<times> event_registration_state) \<times> db)" where
  "register_attendee env barcode event actor d =
     bind_r (ok_or (case find_by_barcode (trim barcode) d of
                      Some r \<Rightarrow> if rg_active r then Some r else None
                    | None \<Rightarrow> None) DeskInvalidTicket) (\<lambda>reg.
     if rg_state reg = Reg_Cancel then Inl DeskCanceledRegistration
     else if rg_state reg = Reg_Draft then Inl DeskUnconfirmedRegistration
     else bind_r (find_event event d) (\<lambda>e.
          if desk_ended (se_clock env) e then Inl DeskNotOngoingEvent
          else if rg_event_id reg \<noteq> event then Inl DeskNeedManualConfirmation
          else if rg_state reg = Reg_Done then Inl DeskAlreadyRegistered
          else bind_r (transition env (rg_id reg) ''done'' actor d) (\<lambda>((before, after, _), d').
               bind_r (find_registration (rg_id reg) d') (\<lambda>refreshed.
               Inr ((refreshed, before, after), d')))))"

lemma find_by_barcode_in:
  "find_by_barcode b d = Some r \<Longrightarrow> r \<in> set (registrations d) \<and> rg_barcode r = b"
  unfolding find_by_barcode_def by (auto dest: find_Some_in)

lemma find_by_barcode_unique:
  assumes "keys_ok d" "r \<in> set (registrations d)"
  shows "find_by_barcode (rg_barcode r) d = Some r"
  using find_key_eq [of rg_barcode "registrations d" r] assms by (simp add: find_by_barcode_def keys_ok_def)

section \<open>Properties of the desk\<close>

text \<open>
  The frozen branch order: which of the scan's refusals is given depends on the
  scanned row, the scanned event and the clock exactly as listed, a cancelled or draft row
  being reported before anything about the event, and an ended event before the badge's
  own event or its done state. A row that reaches the last branch is open, active and of
  the scanned event, and the scan then never refuses.
\<close>

lemma desk_branch_order:
  assumes "keys_ok d"
  shows "register_attendee env barcode event actor d =
    (case find_by_barcode (trim barcode) d of
       None \<Rightarrow> Inl DeskInvalidTicket
     | Some r \<Rightarrow>
         if \<not> rg_active r then Inl DeskInvalidTicket
         else if rg_state r = Reg_Cancel then Inl DeskCanceledRegistration
         else if rg_state r = Reg_Draft then Inl DeskUnconfirmedRegistration
         else (case event_by_id event d of
             None \<Rightarrow> Inl EventNotFound
           | Some e \<Rightarrow>
               if desk_ended (se_clock env) e then Inl DeskNotOngoingEvent
               else if rg_event_id r \<noteq> event then Inl DeskNeedManualConfirmation
               else if rg_state r = Reg_Done then Inl DeskAlreadyRegistered
               else Inr ((set_state (se_now env) Reg_Done r, Reg_Open, Reg_Done),
                      transition_audit actor (rg_id r) Reg_Open Reg_Done
                        (transition_arms env r Reg_Open Reg_Done
                          (d\<lparr>registrations := upd_rows (\<lambda>x. rg_id x = rg_id r)
                               (set_state (se_now env) Reg_Done) (registrations d)\<rparr>)))))"
proof (cases "find_by_barcode (trim barcode) d")
  case None
  then show ?thesis by (simp add: register_attendee_def)
next
  case (Some r)
  note r = find_by_barcode_in [OF Some]
  have ids: "distinct (map rg_id (registrations d))" using assms by (simp add: keys_ok_def)
  have by_id: "registration_by_id (rg_id r) d = Some r"
    unfolding registration_by_id_def using find_key_eq [OF ids] r by blast
  have upd: "find (\<lambda>x. rg_id x = i) (upd_rows (\<lambda>x. rg_id x = i) (set_state n s) rs) =
      map_option (set_state n s) (find (\<lambda>x. rg_id x = i) rs)" for i n s rs
    by (induction rs) (auto simp: upd_rows_def)
  have tr: "transition env (rg_id r) ''done'' actor d = Inr ((Reg_Open, Reg_Done, rg_active r),
      transition_audit actor (rg_id r) Reg_Open Reg_Done
        (transition_arms env r Reg_Open Reg_Done
          (d\<lparr>registrations := upd_rows (\<lambda>x. rg_id x = rg_id r)
               (set_state (se_now env) Reg_Done) (registrations d)\<rparr>)))" if "rg_state r = Reg_Open"
    using that by (simp add: transition_def by_id Let_def takes_seat_def)
  show ?thesis
    using Some tr by_id
    by (cases "event_by_id event d"; cases "rg_state r")
       (simp_all add: register_attendee_def find_event_def find_registration_def
          registration_by_id_def frame_simps upd)
qed

lemma desk_branch_order_witness:
  "register_attendee (ex_env 3) [CHR '' '', digit_char 4] 1 None (ex_db_with [ex_reg 4 1 None Reg_Draft]) =
     Inl DeskUnconfirmedRegistration"
proof -
  have "keys_ok (ex_db_with [ex_reg 4 1 None Reg_Draft])" by (simp add: keys_ok_def ex_defs)
  note * = desk_branch_order [OF this, of "ex_env 3" "[CHR '' '', digit_char 4]" 1 None]
  show ?thesis unfolding *
    by (simp add: find_by_barcode_def trim_def is_space_def digit_char_def ex_reg_def ex_db_with_def)
qed

text \<open>
  C21. A scan that succeeds writes one row: the scanned one goes from open to done, its close
  stamp is set if it was empty, every other row keeps its value, the seats taken do not
  change in any scope, and no scheduler is re-armed.
\<close>

theorem desk_success_is_one_write:
  assumes "register_attendee env barcode event actor d = Inr ((r, before, after), d')" and "keys_ok d"
  shows "\<exists>r0. find_by_barcode (trim barcode) d = Some r0 \<and> rg_state r0 = Reg_Open \<and> rg_active r0 \<and>
      before = Reg_Open \<and> after = Reg_Done \<and> rg_event_id r0 = event \<and>
      r = r0\<lparr>rg_state := Reg_Done, rg_date_closed :=
             (case rg_date_closed r0 of None \<Rightarrow> Some (se_now env) | t \<Rightarrow> t)\<rparr> \<and>
      registrations d' = map (\<lambda>x. if rg_id x = rg_id r0 then r else x) (registrations d) \<and>
      seats_taken e s d' = seats_taken e s d \<and> mails d' = mails d"
proof -
  from assms(1) [unfolded desk_branch_order [OF assms(2)]] obtain r0 ev where
    r0: "find_by_barcode (trim barcode) d = Some r0" "rg_state r0 = Reg_Open" "rg_active r0"
      "rg_event_id r0 = event" "before = Reg_Open" "after = Reg_Done"
    and r: "r = set_state (se_now env) Reg_Done r0"
    and d': "d' = transition_audit actor (rg_id r0) Reg_Open Reg_Done
                (transition_arms env r0 Reg_Open Reg_Done
                  (d\<lparr>registrations := upd_rows (\<lambda>x. rg_id x = rg_id r0)
                       (set_state (se_now env) Reg_Done) (registrations d)\<rparr>))"
    by (cases "find_by_barcode (trim barcode) d"; cases "event_by_id event d")
       (auto split: if_splits intro: event_registration_state.exhaust)
  have mem: "r0 \<in> set (registrations d)" using find_by_barcode_in [OF r0(1)] by simp
  have ids: "distinct (map rg_id (registrations d))" using assms(2) by (simp add: keys_ok_def)
  have same: "x = r0" if "x \<in> set (registrations d)" "rg_id x = rg_id r0" for x
    using key_unique [OF ids that(1) mem that(2)] .
  have regs: "registrations d' = upd_rows (\<lambda>x. rg_id x = rg_id r0)
      (set_state (se_now env) Reg_Done) (registrations d)"
    by (simp add: d' frame_simps)
  also have "\<dots> = map (\<lambda>x. if rg_id x = rg_id r0 then r else x) (registrations d)"
    using same by (auto simp: upd_rows_def r)
  finally have "registrations d' = \<dots>" .
  moreover have "seats_taken e s d' = seats_taken e s d"
    unfolding seats_taken_def regs count_rows_upd
    using same r0 by (intro count_rows_cong) (auto simp: holds_seat_def)
  moreover have "mails d' = mails d"
    by (simp add: d' frame_simps transition_arms_def Let_def)
  moreover have "r = r0\<lparr>rg_state := Reg_Done, rg_date_closed :=
      (case rg_date_closed r0 of None \<Rightarrow> Some (se_now env) | t \<Rightarrow> t)\<rparr>"
    by (simp add: r set_state_def split: option.splits)
  ultimately show ?thesis using r0 by blast
qed

theorem desk_success_is_one_write_witness:
  "\<exists>r d'. register_attendee (ex_env 3) [digit_char 4] 1 None (ex_db_with [ex_reg 4 1 None Reg_Open]) =
      Inr ((r, Reg_Open, Reg_Done), d') \<and> seats_taken 1 None d' = 1"
proof -
  let ?d = "ex_db_with [ex_reg 4 1 None Reg_Open]"
  have keys: "keys_ok ?d" by (simp add: keys_ok_def ex_defs)
  have "\<not> isl (register_attendee (ex_env 3) [digit_char 4] 1 None ?d)"
    unfolding desk_branch_order [OF keys]
    by (simp add: find_by_barcode_def trim_def is_space_def digit_char_def desk_ended_def
        event_by_id_def ex_env_def ex_defs)
  then obtain r b a d' where ok: "register_attendee (ex_env 3) [digit_char 4] 1 None ?d =
      Inr ((r, b, a), d')" using isr_obtain4 by blast
  from desk_success_is_one_write [OF ok keys, of 1 None]
  have "b = Reg_Open \<and> a = Reg_Done \<and> seats_taken 1 None d' = seats_taken 1 None ?d" by blast
  moreover have "seats_taken 1 None ?d = 1" by (simp add: seat_eval)
  ultimately show ?thesis using ok by auto
qed

end
