(* ===== verification/SaleSeam.thy ===== *)
theory SaleSeam
  imports Seats
begin

text \<open>
  The sale seam: \<open>infrastructure/persistence/sale_seam_repository.rs\<close> and
  \<open>application/service/sale_seam_service.rs\<close>. Every verb claims its delivery in the inbox and
  does its work in the same transaction, so a refusal takes the claim back with it. The
  environment supplies \<open>now()\<close>, the seat environment of the k-th minted row, and the text of
  a uuid (the \<open>Display\<close> of the \<open>uuid\<close> crate, not part of this repository).
\<close>

record seam_env =
  sv_now :: timestamp
  sv_seat :: "nat \<Rightarrow> seat_env"
  sv_show :: "uuid \<Rightarrow> string"

record seam_outcome =
  so_already_applied :: bool
  so_registrations_touched :: nat
  so_booths_latched_paid :: nat

section \<open>The zero amount\<close>

definition digits_value :: "string \<Rightarrow> int" where
  "digits_value s = foldl (\<lambda>n c. 10 * n + (of_char c - 48)) 0 s"

definition strip_sign :: "string \<Rightarrow> bool \<times> string" where
  "strip_sign s = (case s of
      [] \<Rightarrow> (False, [])
    | c # r \<Rightarrow> if c = CHR ''-'' then (True, r) else if c = CHR ''+'' then (False, r) else (False, s))"

text \<open>The exponent part of Rust's float grammar: nothing, or \<open>e\<close>, a sign and digits.\<close>

definition parse_exponent :: "string \<Rightarrow> int option" where
  "parse_exponent s = (case s of
      [] \<Rightarrow> Some 0
    | c # r \<Rightarrow>
        if c = CHR ''e'' \<or> c = CHR ''E'' then
          (let (neg, ds) = strip_sign r in
           if ds = [] \<or> \<not> list_all is_digit ds then None
           else Some (if neg then - digits_value ds else digits_value ds))
        else None)"

text \<open>
  The decimal a text denotes, as mantissa and power of ten. \<open>inf\<close> and \<open>nan\<close> also parse as
  floats; neither is zero, so they are left with the texts that do not parse.
\<close>

definition parse_decimal :: "string \<Rightarrow> (int \<times> int) option" where
  "parse_decimal s =
     (let body = snd (strip_sign s);
          ip = takeWhile is_digit body; rest = dropWhile is_digit body;
          dot = (rest \<noteq> [] \<and> hd rest = CHR ''.'');
          fp = (if dot then takeWhile is_digit (tl rest) else []);
          rest' = (if dot then dropWhile is_digit (tl rest) else rest)
      in if ip = [] \<and> fp = [] then None
         else map_option (\<lambda>e. (digits_value (ip @ fp), e - int (length fp))) (parse_exponent rest'))"

text \<open>
  \<open>parse::<f64>() == 0.0\<close>: parsing rounds to the nearest double, so the value is zero exactly
  when the decimal is at most half the smallest positive double, \<open>2^-1075\<close>.
\<close>

definition grand_total_is_zero :: "string \<Rightarrow> bool" where
  "grand_total_is_zero raw =
     (case parse_decimal (trim raw) of
        None \<Rightarrow> False
      | Some (m, e) \<Rightarrow> m = 0 \<or> (e < 0 \<and> m * 2 ^ 1075 \<le> 10 ^ nat (- e)))"

section \<open>Claims\<close>

definition claim_key :: "(uuid \<Rightarrow> string) \<Rightarrow> string \<Rightarrow> string option \<Rightarrow> uuid \<Rightarrow> string" where
  "claim_key show_uuid verb delivery order =
     (case delivery of Some k \<Rightarrow> verb @ '':'' @ k | None \<Rightarrow> verb @ '':'' @ show_uuid order)"

text \<open>\<open>INSERT .. ON CONFLICT DO NOTHING RETURNING\<close>: whether the row was new.\<close>

definition claim :: "string \<Rightarrow> string \<Rightarrow> db \<Rightarrow> bool \<times> db" where
  "claim consumer key d =
     (if (consumer, key) \<in> set (seam_inbox d) then (False, d)
      else (True, d\<lparr>seam_inbox := seam_inbox d @ [(consumer, key)]\<rparr>))"

definition already_applied :: seam_outcome where
  "already_applied = \<lparr>so_already_applied = True, so_registrations_touched = 0,
     so_booths_latched_paid = 0\<rparr>"

definition applied :: "nat \<Rightarrow> nat \<Rightarrow> seam_outcome" where
  "applied touched latched = \<lparr>so_already_applied = False, so_registrations_touched = touched,
     so_booths_latched_paid = latched\<rparr>"

definition linked_to :: "uuid \<Rightarrow> reg_rec \<Rightarrow> bool" where
  "linked_to order r \<longleftrightarrow> rg_sale_order_id r = Some order"

definition held :: "reg_rec \<Rightarrow> bool" where
  "held r \<longleftrightarrow> rg_state r = Reg_Draft \<or> rg_state r = Reg_Cancel"

definition update_regs :: "(reg_rec \<Rightarrow> bool) \<Rightarrow> (reg_rec \<Rightarrow> reg_rec) \<Rightarrow> db \<Rightarrow> nat \<times> db" where
  "update_regs p f d =
     (length (sel_rows p (registrations d)), d\<lparr>registrations := upd_rows p f (registrations d)\<rparr>)"

text \<open>The arm over every event the order has a registration for.\<close>

definition arm_order_events :: "timestamp \<Rightarrow> uuid \<Rightarrow> db \<Rightarrow> db" where
  "arm_order_events now order d =
     d\<lparr>mails := upd_rows
         (\<lambda>m. ml_interval_kind m = Interval_AfterSub \<and>
              exists_row (\<lambda>r. linked_to order r \<and> rg_event_id r = ml_event_id m) (registrations d))
         (\<lambda>m. m\<lparr>ml_scheduled := Some now, ml_done := False\<rparr>) (mails d)\<rparr>"

definition seam_audit :: "string \<Rightarrow> uuid option \<Rightarrow> uuid \<Rightarrow> json \<Rightarrow> db \<Rightarrow> db" where
  "seam_audit action actor order detail d =
     record_audit action actor ''sale_order'' (Some order) detail d"

section \<open>Order confirmed\<close>

definition mint_link :: "bool \<Rightarrow> uuid \<Rightarrow> sale_link" where
  "mint_link free order = \<lparr>sk_order_id = order, sk_order_state = ''sale'',
     sk_status = (if free then ''free'' else ''to_pay''),
     sk_initial_state = (if free then ''open'' else ''draft'')\<rparr>"

text \<open>Every spec through the one seat head, in order; the first refusal ends the delivery.\<close>

fun mint_all ::
    "(nat \<Rightarrow> seat_env) \<Rightarrow> nat \<Rightarrow> register_cmd list \<Rightarrow> sale_link \<Rightarrow> db \<Rightarrow> event_error + (nat \<times> db)" where
  "mint_all se k [] link d = Inr (k, d)"
| "mint_all se k (spec # specs) link d =
     bind_r (register_core (se k) spec (Some link) d) (\<lambda>(_, d'). mint_all se (Suc k) specs link d')"

definition heal_confirmed :: "seam_env \<Rightarrow> bool \<Rightarrow> uuid \<Rightarrow> db \<Rightarrow> nat \<times> json \<times> db" where
  "heal_confirmed env free order d =
     (if free then
        (let (touched, d1) = update_regs (\<lambda>r. linked_to order r \<and> held r \<and> rg_active r)
               (\<lambda>r. r\<lparr>rg_state := Reg_Open, rg_sale_order_state := Some SaleOrder_Sale,
                      rg_sale_status := Some Sale_Free\<rparr>) d
         in (touched,
             JObj [(''verb'', JStr ''heal''), (''free'', JBool True),
                   (''healed_to_open'', JNum (int touched))],
             arm_order_events (sv_now env) order d1))
      else
        (let (touched, d1) = update_regs (\<lambda>r. linked_to order r \<and> rg_active r)
               (\<lambda>r. r\<lparr>rg_sale_order_state := Some SaleOrder_Sale,
                      rg_sale_status := Some Sale_ToPay\<rparr>) d
         in (touched,
             JObj [(''verb'', JStr ''heal''), (''free'', JBool False), (''held'', JNum (int touched)),
                   (''note'', JStr ''held at draft until the paid fact'')],
             d1)))"

definition repo_order_confirmed ::
    "seam_env \<Rightarrow> string \<Rightarrow> string option \<Rightarrow> uuid \<Rightarrow> string \<Rightarrow> register_cmd list \<Rightarrow> uuid option \<Rightarrow> db \<Rightarrow>
       event_error + (seam_outcome \<times> db)" where
  "repo_order_confirmed env consumer delivery order grand_total specs actor d =
     (let free = grand_total_is_zero grand_total;
          (fresh, d1) = claim consumer (claim_key (sv_show env) ''confirmed'' delivery order) d
      in if \<not> fresh then Inr (already_applied, d1)
         else if count_rows (linked_to order) (registrations d1) = 0 then
           bind_r (mint_all (\<lambda>k. (sv_seat env k)\<lparr>se_now := sv_now env\<rparr>) 0 specs
                     (mint_link free order) d1) (\<lambda>(touched, d2).
           Inr (applied touched 0,
                seam_audit ''sale_seam_confirmed'' actor order
                  (JObj [(''verb'', JStr ''mint''), (''free'', JBool free),
                         (''minted'', JNum (int touched)),
                         (''sale_status'', JStr (sk_status (mint_link free order)))]) d2))
         else
           (let (touched, detail, d2) = heal_confirmed env free order d1
            in Inr (applied touched 0, seam_audit ''sale_seam_confirmed'' actor order detail d2)))"

section \<open>Order cancelled\<close>

definition repo_order_cancelled ::
    "seam_env \<Rightarrow> string \<Rightarrow> string option \<Rightarrow> uuid \<Rightarrow> uuid option \<Rightarrow> db \<Rightarrow>
       event_error + (seam_outcome \<times> db)" where
  "repo_order_cancelled env consumer delivery order actor d =
     (let (fresh, d1) = claim consumer (claim_key (sv_show env) ''cancelled'' delivery order) d
      in if \<not> fresh then Inr (already_applied, d1)
         else
           (let (touched, d2) = update_regs (\<lambda>r. linked_to order r \<and> rg_active r)
                  (\<lambda>r. r\<lparr>rg_state := Reg_Cancel, rg_sale_order_state := Some SaleOrder_Cancel\<rparr>) d1
            in Inr (applied touched 0,
                 seam_audit ''sale_seam_cancelled'' actor order
                   (JObj [(''verb'', JStr ''cancel_cascade''), (''cancelled'', JNum (int touched))]) d2)))"

section \<open>Order paid\<close>

definition latch_booths :: "uuid list \<Rightarrow> db \<Rightarrow> nat \<times> db" where
  "latch_booths lines d =
     (let p = (\<lambda>b. (case bo_line_id b of Some l \<Rightarrow> l \<in> set lines | None \<Rightarrow> False) \<and> \<not> bo_paid b)
      in (length (sel_rows p (booths d)),
          d\<lparr>booths := upd_rows p (\<lambda>b. b\<lparr>bo_paid := True\<rparr>) (booths d)\<rparr>))"

definition paid_heal_row :: "reg_rec \<Rightarrow> reg_rec" where
  "paid_heal_row r = r\<lparr>rg_state := Reg_Open, rg_sale_order_state := Some SaleOrder_Sale,
     rg_sale_status := Some Sale_Sold\<rparr>"

definition repo_order_paid ::
    "seam_env \<Rightarrow> string \<Rightarrow> string option \<Rightarrow> uuid \<Rightarrow> uuid list \<Rightarrow> uuid option \<Rightarrow> db \<Rightarrow>
       event_error + (seam_outcome \<times> db)" where
  "repo_order_paid env consumer delivery order lines actor d =
     (let (fresh, d1) = claim consumer (claim_key (sv_show env) ''paid'' delivery order) d
      in if \<not> fresh then Inr (already_applied, d1)
         else
           (let (touched, d2) = update_regs
                  (\<lambda>r. linked_to order r \<and> held r \<and> rg_sale_status r = Some Sale_ToPay \<and> rg_active r)
                  paid_heal_row d1;
                (_, d3) = update_regs
                  (\<lambda>r. linked_to order r \<and> rg_sale_status r = Some Sale_ToPay \<and> rg_active r)
                  (\<lambda>r. r\<lparr>rg_sale_status := Some Sale_Sold\<rparr>) d2;
                d4 = arm_order_events (sv_now env) order d3;
                (latched, d5) = (if lines \<noteq> [] then latch_booths lines d4 else (0, d4))
            in Inr (applied touched latched,
                 seam_audit ''sale_seam_paid'' actor order
                   (JObj [(''verb'', JStr ''paid_heal''), (''healed'', JNum (int touched)),
                          (''booths_latched'', JNum (int latched))]) d5)))"

section \<open>The service\<close>

record registration_spec =
  rs_event_id :: uuid
  rs_slot_id :: "uuid option"
  rs_ticket_id :: "uuid option"
  rs_name :: string
  rs_email :: string
  rs_phone :: "string option"
  rs_company_name :: "string option"
  rs_partner_id :: "uuid option"

record order_confirmed =
  oc_delivery_id :: "string option"
  oc_order_id :: uuid
  oc_grand_total :: string
  oc_registrations :: "registration_spec list"

definition sale_seam_consumer :: string where
  "sale_seam_consumer = ''event-sale-seam''"

definition multi_slot_flag :: "uuid \<Rightarrow> db \<Rightarrow> bool" where
  "multi_slot_flag i d = (case event_by_id i d of Some e \<Rightarrow> ev_multi_slots e | None \<Rightarrow> False)"

definition spec_command :: "registration_spec \<Rightarrow> register_cmd" where
  "spec_command s = \<lparr>rc_event_id = rs_event_id s, rc_slot_id = rs_slot_id s,
     rc_ticket_id = rs_ticket_id s, rc_name = rs_name s, rc_email = rs_email s,
     rc_phone = rs_phone s, rc_company_name = rs_company_name s, rc_partner_id = rs_partner_id s,
     rc_actor = None, rc_lead_rule_skip = False\<rparr>"

definition slotless_refusal :: "(uuid \<Rightarrow> string) \<Rightarrow> uuid \<Rightarrow> event_error" where
  "slotless_refusal show_uuid i = Validation (''event '' @ show_uuid i @
     '' is multi-slot: a Cart order cannot choose the attendee'' @ [CHR 0x27] @ ''s slot '' @ em_dash @
     '' route registrations for it through the direct intake'')"

definition nothing_to_mint :: event_error where
  "nothing_to_mint = Validation (''SalesOrderConfirmed carries no attendee specs '' @ em_dash @
     '' nothing to mint'')"

definition on_order_confirmed ::
    "seam_env \<Rightarrow> string \<Rightarrow> order_confirmed \<Rightarrow> db \<Rightarrow> event_error + (seam_outcome \<times> db)" where
  "on_order_confirmed env consumer cmd d =
     (if oc_registrations cmd = [] then Inl nothing_to_mint
      else case find (\<lambda>s. multi_slot_flag (rs_event_id s) d \<and> rs_slot_id s = None)
                  (oc_registrations cmd) of
        Some s \<Rightarrow> Inl (slotless_refusal (sv_show env) (rs_event_id s))
      | None \<Rightarrow> repo_order_confirmed env consumer (oc_delivery_id cmd) (oc_order_id cmd)
                  (oc_grand_total cmd) (map spec_command (oc_registrations cmd)) None d)"

definition on_order_cancelled ::
    "seam_env \<Rightarrow> string \<Rightarrow> string option \<Rightarrow> uuid \<Rightarrow> db \<Rightarrow> event_error + (seam_outcome \<times> db)" where
  "on_order_cancelled env consumer delivery order d =
     repo_order_cancelled env consumer delivery order None d"

definition on_order_paid ::
    "seam_env \<Rightarrow> string \<Rightarrow> string option \<Rightarrow> uuid \<Rightarrow> uuid list \<Rightarrow> db \<Rightarrow>
       event_error + (seam_outcome \<times> db)" where
  "on_order_paid env consumer delivery order lines d =
     repo_order_paid env consumer delivery order lines None d"

section \<open>Deliveries\<close>

datatype delivery =
    Order_Confirmed order_confirmed
  | Order_Cancelled "string option" uuid
  | Order_Paid "string option" uuid "uuid list"

fun deliver :: "seam_env \<Rightarrow> string \<Rightarrow> delivery \<Rightarrow> db \<Rightarrow> event_error + (seam_outcome \<times> db)" where
  "deliver env consumer (Order_Confirmed cmd) d = on_order_confirmed env consumer cmd d"
| "deliver env consumer (Order_Cancelled k order) d = on_order_cancelled env consumer k order d"
| "deliver env consumer (Order_Paid k order lines) d = on_order_paid env consumer k order lines d"

fun inbox_key :: "(uuid \<Rightarrow> string) \<Rightarrow> delivery \<Rightarrow> string" where
  "inbox_key sh (Order_Confirmed cmd) = claim_key sh ''confirmed'' (oc_delivery_id cmd) (oc_order_id cmd)"
| "inbox_key sh (Order_Cancelled k order) = claim_key sh ''cancelled'' k order"
| "inbox_key sh (Order_Paid k order lines) = claim_key sh ''paid'' k order"

lemma update_regs_frame [frame_simps]:
  "events (snd (update_regs p f d)) = events d"
  "seam_inbox (snd (update_regs p f d)) = seam_inbox d"
  "mails (snd (update_regs p f d)) = mails d"
  "booths (snd (update_regs p f d)) = booths d"
  "bookings (snd (update_regs p f d)) = bookings d"
  "lead_requests (snd (update_regs p f d)) = lead_requests d"
  "lead_rules (snd (update_regs p f d)) = lead_rules d"
  "registrations (snd (update_regs p f d)) = upd_rows p f (registrations d)"
  by (simp_all add: update_regs_def)

lemma arm_order_events_frame [frame_simps]:
  "events (arm_order_events now order d) = events d"
  "seam_inbox (arm_order_events now order d) = seam_inbox d"
  "booths (arm_order_events now order d) = booths d"
  "bookings (arm_order_events now order d) = bookings d"
  "lead_requests (arm_order_events now order d) = lead_requests d"
  "lead_rules (arm_order_events now order d) = lead_rules d"
  "registrations (arm_order_events now order d) = registrations d"
  by (simp_all add: arm_order_events_def)

lemma latch_booths_frame [frame_simps]:
  "events (snd (latch_booths ls d)) = events d"
  "seam_inbox (snd (latch_booths ls d)) = seam_inbox d"
  "mails (snd (latch_booths ls d)) = mails d"
  "bookings (snd (latch_booths ls d)) = bookings d"
  "lead_requests (snd (latch_booths ls d)) = lead_requests d"
  "registrations (snd (latch_booths ls d)) = registrations d"
  by (simp_all add: latch_booths_def Let_def)

lemma seam_audit_frame [frame_simps]:
  "events (seam_audit a b c e d) = events d"
  "seam_inbox (seam_audit a b c e d) = seam_inbox d"
  "mails (seam_audit a b c e d) = mails d"
  "booths (seam_audit a b c e d) = booths d"
  "bookings (seam_audit a b c e d) = bookings d"
  "lead_requests (seam_audit a b c e d) = lead_requests d"
  "registrations (seam_audit a b c e d) = registrations d"
  by (simp_all add: seam_audit_def)

lemma claim_cases:
  "claim c k d = (if (c, k) \<in> set (seam_inbox d) then (False, d)
     else (True, d\<lparr>seam_inbox := seam_inbox d @ [(c, k)]\<rparr>))"
  by (rule claim_def)

lemma mint_all_result:
  "mint_all se k specs link d = Inr (n, d') \<Longrightarrow>
     n = k + length specs \<and> events d' = events d \<and> seam_inbox d' = seam_inbox d \<and>
     booths d' = booths d \<and> bookings d' = bookings d \<and>
     (\<exists>rs. registrations d' = registrations d @ rs \<and> length rs = length specs \<and>
        (\<forall>r \<in> set rs. rg_sale_order_id r = Some (sk_order_id link) \<and> rg_active r \<and>
           cast_reg_state (sk_initial_state link) = Inr (rg_state r) \<and>
           cast_order_state (Some (sk_order_state link)) = Inr (rg_sale_order_state r) \<and>
           cast_sale_status (Some (sk_status link)) = Inr (rg_sale_status r)) \<and>
        map rg_event_id rs = map rc_event_id specs)"
proof (induction se k specs link d arbitrary: n d' rule: mint_all.induct)
  case (2 se k spec specs link d)
  from "2.prems" obtain r d1 where reg: "register_core (se k) spec (Some link) d = Inr (r, d1)"
    and rest: "mint_all se (Suc k) specs link d1 = Inr (n, d')"
    by (auto simp: result_simps)
  from reg obtain e slot where new: "new_registration (se k) spec (Some link) e slot = Inr r"
    by (elim register_coreE)
  then have "rg_sale_order_id r = Some (sk_order_id link) \<and> rg_active r \<and>
           cast_reg_state (sk_initial_state link) = Inr (rg_state r) \<and>
           cast_order_state (Some (sk_order_state link)) = Inr (rg_sale_order_state r) \<and>
           cast_sale_status (Some (sk_status link)) = Inr (rg_sale_status r) \<and>
           rg_event_id r = rc_event_id spec"
    by (auto simp: new_registration_def born_state_def result_simps)
  moreover from "2.IH" [OF rest] obtain rs where
    "n = Suc k + length specs" "events d' = events d1" "seam_inbox d' = seam_inbox d1"
    "booths d' = booths d1" "bookings d' = bookings d1"
    "registrations d' = registrations d1 @ rs" "length rs = length specs"
    "\<forall>r \<in> set rs. rg_sale_order_id r = Some (sk_order_id link) \<and> rg_active r \<and>
           cast_reg_state (sk_initial_state link) = Inr (rg_state r) \<and>
           cast_order_state (Some (sk_order_state link)) = Inr (rg_sale_order_state r) \<and>
           cast_sale_status (Some (sk_status link)) = Inr (rg_sale_status r)"
    "map rg_event_id rs = map rc_event_id specs" by blast
  ultimately show ?case
    using register_core_registrations [OF reg] register_core_frame [OF reg]
    by (intro conjI exI [of _ "r # rs"]) auto
qed simp

lemma seam_labels [simp]:
  "cast_order_state (Some ''sale'') = Inr (Some SaleOrder_Sale)"
  "cast_sale_status (Some ''free'') = Inr (Some Sale_Free)"
  "cast_sale_status (Some ''to_pay'') = Inr (Some Sale_ToPay)"
  by (simp_all add: cast_order_state_def cast_sale_status_def from_label_def)

lemma deliver_inbox:
  assumes "deliver env consumer v d = Inr (out, d')"
  shows "events d' = events d"
    and "(if (consumer, inbox_key (sv_show env) v) \<in> set (seam_inbox d)
          then out = already_applied \<and> d' = d
          else seam_inbox d' = seam_inbox d @ [(consumer, inbox_key (sv_show env) v)])"
  using assms
  by (cases v; auto simp: on_order_confirmed_def on_order_cancelled_def on_order_paid_def
      repo_order_confirmed_def repo_order_cancelled_def repo_order_paid_def heal_confirmed_def
      claim_cases Let_def case_prod_beta result_simps frame_simps
      split: if_splits option.splits dest!: mint_all_result)+


text \<open>What the first paid fact makes of a row of the order.\<close>

definition settled :: "uuid \<Rightarrow> reg_rec \<Rightarrow> reg_rec" where
  "settled order r =
     (if rg_sale_order_id r = Some order \<and> rg_sale_status r = Some Sale_ToPay \<and> rg_active r
      then if rg_state r = Reg_Draft \<or> rg_state r = Reg_Cancel
           then r\<lparr>rg_state := Reg_Open, rg_sale_order_state := Some SaleOrder_Sale,
                  rg_sale_status := Some Sale_Sold\<rparr>
           else r\<lparr>rg_sale_status := Some Sale_Sold\<rparr>
      else r)"

lemma on_order_paid_cases:
  assumes "on_order_paid env consumer delivery order lines d = Inr (out, d')"
  shows "so_already_applied out \<and> d' = d \<or>
    \<not> so_already_applied out \<and> registrations d' = map (settled order) (registrations d) \<and>
    booths d' = map (\<lambda>b. if (\<exists>l \<in> set lines. bo_line_id b = Some l) then b\<lparr>bo_paid := True\<rparr> else b) (booths d)"
proof (cases "so_already_applied out")
  case True
  then show ?thesis using assms
    by (auto simp: on_order_paid_def repo_order_paid_def claim_cases Let_def case_prod_beta
        applied_def split: if_splits)
next
  case False
  have regs: "registrations d' =
        upd_rows (\<lambda>r. linked_to order r \<and> rg_sale_status r = Some Sale_ToPay \<and> rg_active r)
          (\<lambda>r. r\<lparr>rg_sale_status := Some Sale_Sold\<rparr>)
          (upd_rows (\<lambda>r. linked_to order r \<and> held r \<and> rg_sale_status r = Some Sale_ToPay \<and> rg_active r)
            paid_heal_row (registrations d))"
    and booths: "booths d' = (if lines = [] then booths d else
        upd_rows (\<lambda>b. (case bo_line_id b of Some l \<Rightarrow> l \<in> set lines | None \<Rightarrow> False) \<and> \<not> bo_paid b)
          (\<lambda>b. b\<lparr>bo_paid := True\<rparr>) (booths d))"
    using assms False
    by (auto simp: on_order_paid_def repo_order_paid_def claim_cases Let_def case_prod_beta
        already_applied_def frame_simps latch_booths_def split: if_splits)
  have "registrations d' = map (settled order) (registrations d)"
    unfolding regs upd_rows_def map_map
    by (intro map_cong refl) (simp add: settled_def paid_heal_row_def linked_to_def held_def)
  moreover have "booths d' = map (\<lambda>b. if (\<exists>l \<in> set lines. bo_line_id b = Some l)
      then b\<lparr>bo_paid := True\<rparr> else b) (booths d)"
    unfolding booths upd_rows_def
    by (auto split: option.splits)
  ultimately show ?thesis using False by blast
qed

definition never_demoted :: "reg_rec \<Rightarrow> reg_rec \<Rightarrow> bool" where
  "never_demoted r r' \<longleftrightarrow> rg_id r' = rg_id r \<and>
     (rg_state r = Reg_Open \<or> rg_state r = Reg_Done \<longrightarrow> rg_state r' = rg_state r)"

lemma never_demoted_refl [simp]: "never_demoted r r"
  by (simp add: never_demoted_def)

section \<open>Properties of the sale seam\<close>

definition ex_seam :: seam_env where
  "ex_seam = \<lparr>sv_now = 500, sv_seat = (\<lambda>k. ex_env (3 + k)), sv_show = show_nat\<rparr>"

definition ex_spec :: registration_spec where
  "ex_spec = \<lparr>rs_event_id = 1, rs_slot_id = None, rs_ticket_id = None, rs_name = ''Ada'',
     rs_email = ''ada@example.org'', rs_phone = None, rs_company_name = None, rs_partner_id = None\<rparr>"

definition ex_order :: "string \<Rightarrow> order_confirmed" where
  "ex_order amount = \<lparr>oc_delivery_id = Some ''d1'', oc_order_id = 33, oc_grand_total = amount,
     oc_registrations = [ex_spec]\<rparr>"

lemmas seam_eval = on_order_confirmed_def repo_order_confirmed_def on_order_paid_def repo_order_paid_def
  on_order_cancelled_def repo_order_cancelled_def multi_slot_flag_def claim_def claim_key_def
  linked_to_def held_def update_regs_def sel_rows_def upd_rows_def spec_command_def mint_link_def
  case_prod_beta Let_def ex_seam_def ex_spec_def ex_order_def





text \<open>
  Heal forward only: whatever order fact is delivered, confirmed or paid, with any specs,
  every stored row keeps its place and id, and a row that was open or done keeps its state.
\<close>

lemma seam_heals_forward_only:
  assumes "on_order_confirmed env consumer cmd d = Inr (out, d') \<or>
      on_order_paid env consumer delivery order lines d = Inr (out, d')"
  shows "list_all2 never_demoted (registrations d) (take (length (registrations d)) (registrations d'))"
proof -
  have fwd: "list_all2 never_demoted xs (take (length xs) (upd_rows p f xs @ ys))"
    if "\<And>r. p r \<Longrightarrow> never_demoted r (f r)" for p f and xs ys :: "reg_rec list"
    using that by (simp add: upd_rows_def list_all2_conv_all_nth)
  have fwd0: "list_all2 never_demoted xs (take (length xs) (upd_rows p f xs))"
    if "\<And>r. p r \<Longrightarrow> never_demoted r (f r)" for p f and xs :: "reg_rec list"
    using fwd [of p f xs "[]"] that by simp
  have keep: "list_all2 never_demoted xs (take (length xs) (xs @ ys))" for xs ys
    by (simp add: list.rel_refl)
  from assms show ?thesis
  proof
    assume "on_order_confirmed env consumer cmd d = Inr (out, d')"
    then show ?thesis
      using keep [of "registrations d" "[]"]
      by (auto intro!: fwd0 simp: on_order_confirmed_def repo_order_confirmed_def heal_confirmed_def claim_cases
          Let_def case_prod_beta result_simps frame_simps never_demoted_def held_def list.rel_refl
          split: if_splits option.splits dest!: mint_all_result)
  next
    assume "on_order_paid env consumer delivery order lines d = Inr (out, d')"
    then have "registrations d' = registrations d \<or> registrations d' = map (settled order) (registrations d)"
      using on_order_paid_cases by blast
    then show ?thesis
      by (auto simp: list_all2_conv_all_nth never_demoted_def settled_def)
  qed
qed

lemma seam_heals_forward_only_witness:
  "\<exists>out d'. on_order_paid ex_seam ''c'' None 33 [] (ex_db_with [ex_sold 4 33 Sale_ToPay Reg_Done]) = Inr (out, d') \<and>
     map rg_state (registrations d') = [Reg_Done]"
proof -
  let ?d = "ex_db_with [ex_sold 4 33 Sale_ToPay Reg_Done]"
  have "\<not> isl (on_order_paid ex_seam ''c'' None 33 [] ?d)"
    by (simp add: on_order_paid_def repo_order_paid_def case_prod_beta Let_def)
  then obtain out d' where ok: "on_order_paid ex_seam ''c'' None 33 [] ?d = Inr (out, d')"
    using isr_obtain2 by blast
  have "length (registrations d') = 1"
    using ok by (auto simp: on_order_paid_def repo_order_paid_def claim_cases case_prod_beta Let_def
        frame_simps table_simps ex_db_with_def split: if_splits)
  then obtain r where r: "registrations d' = [r]" by (auto simp: length_Suc_conv)
  from seam_heals_forward_only [OF disjI2 [OF ok]] have "never_demoted (ex_sold 4 33 Sale_ToPay Reg_Done) r"
    by (simp add: r ex_db_with_def)
  then have "rg_state r = Reg_Done" by (simp add: never_demoted_def ex_sold_def ex_reg_def)
  with ok r show ?thesis by auto
qed


text \<open>
  The cancel cascade: the first cancellation of an order moves every active row of the
  order to cancel and flips its mirror, keeps its payability, and changes no other row and
  no booth.
\<close>

lemma cancel_cascades:
  assumes "on_order_cancelled env consumer delivery order d = Inr (out, d')"
    and "\<not> so_already_applied out"
  shows "registrations d' = map (\<lambda>r. if rg_sale_order_id r = Some order \<and> rg_active r
        then r\<lparr>rg_state := Reg_Cancel, rg_sale_order_state := Some SaleOrder_Cancel\<rparr> else r)
      (registrations d) \<and>
    so_registrations_touched out =
      length (filter (\<lambda>r. rg_sale_order_id r = Some order \<and> rg_active r) (registrations d)) \<and>
    booths d' = booths d \<and> bookings d' = bookings d \<and> mails d' = mails d"
  using assms
  by (auto simp: on_order_cancelled_def repo_order_cancelled_def claim_cases Let_def case_prod_beta
      frame_simps upd_rows_def linked_to_def already_applied_def applied_def update_regs_def sel_rows_def
      split: if_splits)

lemma cancel_cascades_witness:
  "\<exists>out d'. on_order_cancelled ex_seam ''c'' None 33 (ex_db_with [ex_sold 4 33 Sale_Sold Reg_Open]) = Inr (out, d') \<and>
     map (\<lambda>r. (rg_state r, rg_sale_status r)) (registrations d') = [(Reg_Cancel, Some Sale_Sold)]"
proof -
  let ?d = "ex_db_with [ex_sold 4 33 Sale_Sold Reg_Open]"
  have fresh: "case on_order_cancelled ex_seam ''c'' None 33 ?d of
      Inr (out, d') \<Rightarrow> \<not> so_already_applied out | Inl _ \<Rightarrow> False"
    by (simp add: on_order_cancelled_def repo_order_cancelled_def case_prod_beta Let_def claim_cases
        applied_def ex_db_with_def ex_db_def empty_db_def)
  then obtain out d' where ok: "on_order_cancelled ex_seam ''c'' None 33 ?d = Inr (out, d')"
    and "\<not> so_already_applied out" by (auto split: sum.splits)
  from cancel_cascades [OF this] ok show ?thesis
    by (auto simp: ex_db_with_def ex_sold_def ex_reg_def)
qed

text \<open>
  The paid fact settles the order: after the first paid delivery no active row of the
  order is still to-pay, every active to-pay row is sold, and open if it was held; rows
  that were not to-pay or not active keep state and payability; and of the booths, exactly
  those of the paid lines become paid and none stops being paid.
\<close>

lemma paid_settles:
  assumes "on_order_paid env consumer delivery order lines d = Inr (out, d')"
    and "\<not> so_already_applied out"
  shows "registrations d' = map (settled order) (registrations d) \<and>
    booths d' = map (\<lambda>b. if (\<exists>l \<in> set lines. bo_line_id b = Some l) then b\<lparr>bo_paid := True\<rparr> else b) (booths d)"
  using on_order_paid_cases [OF assms(1)] assms(2) by blast

lemma paid_settles_witness:
  "\<exists>out d'. on_order_paid ex_seam ''c'' None 33 [] (ex_db_with [ex_sold 4 33 Sale_ToPay Reg_Draft]) = Inr (out, d') \<and>
     map (\<lambda>r. (rg_state r, rg_sale_status r)) (registrations d') = [(Reg_Open, Some Sale_Sold)]"
proof -
  let ?d = "ex_db_with [ex_sold 4 33 Sale_ToPay Reg_Draft]"
  have fresh: "case on_order_paid ex_seam ''c'' None 33 [] ?d of
      Inr (out, d') \<Rightarrow> \<not> so_already_applied out | Inl _ \<Rightarrow> False"
    by (simp add: on_order_paid_def repo_order_paid_def case_prod_beta Let_def claim_cases
        applied_def ex_db_with_def ex_db_def empty_db_def)
  then obtain out d' where ok: "on_order_paid ex_seam ''c'' None 33 [] ?d = Inr (out, d')"
    and "\<not> so_already_applied out" by (auto split: sum.splits)
  from paid_settles [OF this] have "registrations d' = map (settled 33) (registrations ?d)" by blast
  then have "map (\<lambda>r. (rg_state r, rg_sale_status r)) (registrations d') = [(Reg_Open, Some Sale_Sold)]"
    by (simp add: settled_def ex_db_with_def ex_sold_def ex_reg_def)
  with ok show ?thesis by (intro exI conjI)
qed

text \<open>
  The heals bypass the seat head: a paid delivery lifts a held row into a full event. The
  event below has one seat, taken; after the paid fact of the held row two are.
\<close>

lemma paid_heal_oversells:
  "\<exists>e out d'. event_by_id 1 (ex_db_with [ex_reg 3 1 None Reg_Open, ex_sold 4 33 Sale_ToPay Reg_Draft]) = Some e \<and>
     ev_seats_limited e \<and> ev_seats_max e = 1 \<and>
     seat_inv (ex_db_with [ex_reg 3 1 None Reg_Open, ex_sold 4 33 Sale_ToPay Reg_Draft]) \<and>
     on_order_paid ex_seam ''c'' None 33 []
       (ex_db_with [ex_reg 3 1 None Reg_Open, ex_sold 4 33 Sale_ToPay Reg_Draft]) = Inr (out, d') \<and>
     seats_taken 1 None d' = 2"
proof -
  let ?d = "ex_db_with [ex_reg 3 1 None Reg_Open, ex_sold 4 33 Sale_ToPay Reg_Draft]"
  have inv: "seat_inv ?d"
    by (auto simp: seat_inv_def keys_ok_def slots_fit_def within_capacity_def seats_taken_def
        capacity_scope_def count_rows_def in_scope_def holds_seat_def digit_char_def ex_defs
        split: option.splits)
  have "case on_order_paid ex_seam ''c'' None 33 [] ?d of Inr (out, d') \<Rightarrow> seats_taken 1 None d' = 2 | Inl _ \<Rightarrow> False"
    by (simp add: seam_eval seats_taken_def frame_simps count_rows_def paid_heal_row_def
        in_scope_def holds_seat_def ex_defs)
  then obtain out d' where "on_order_paid ex_seam ''c'' None 33 [] ?d = Inr (out, d')"
    "seats_taken 1 None d' = 2" by (auto split: sum.splits)
  with inv show ?thesis
    by (intro exI conjI) (auto simp: event_by_id_def ex_defs)
qed

text \<open>
  No order fact but a mint ever touches the lead queue: a cancelled or paid delivery, and
  a confirmed one for an order with rows already, leaves every queue row as it was, although
  the heals move rows into the state the lead rules trigger on.
\<close>

lemma heals_do_not_arm_leads:
  assumes "deliver env consumer v d = Inr (out, d')"
    and "case v of Order_Confirmed cmd \<Rightarrow> \<exists>r \<in> set (registrations d). linked_to (oc_order_id cmd) r | _ \<Rightarrow> True"
  shows "lead_requests d' = lead_requests d"
proof -
  have some: "count_rows p t \<noteq> 0" if "\<exists>r \<in> set t. p r" for p and t :: "reg_rec list"
    using that count_rows_pos_iff [of p t] by simp
  show ?thesis
    using assms
    by (cases v; auto simp: on_order_confirmed_def on_order_cancelled_def on_order_paid_def some
      repo_order_confirmed_def repo_order_cancelled_def repo_order_paid_def heal_confirmed_def
      claim_cases Let_def case_prod_beta frame_simps split: if_splits option.splits)
qed

lemma heals_do_not_arm_leads_witness:
  "\<exists>out d'. deliver ex_seam ''c'' (Order_Paid None 33 []) (ex_db_with [ex_sold 4 33 Sale_ToPay Reg_Draft]) = Inr (out, d') \<and>
     lead_requests d' = []"
proof -
  let ?d = "ex_db_with [ex_sold 4 33 Sale_ToPay Reg_Draft]"
  have "\<not> isl (deliver ex_seam ''c'' (Order_Paid None 33 []) ?d)"
    by (simp add: on_order_paid_def repo_order_paid_def case_prod_beta Let_def)
  then obtain out d' where ok: "deliver ex_seam ''c'' (Order_Paid None 33 []) ?d = Inr (out, d')"
    using isr_obtain2 by blast
  from heals_do_not_arm_leads [OF ok] have "lead_requests d' = []"
    by (simp add: ex_db_with_def ex_db_def empty_db_def)
  with ok show ?thesis by blast
qed

lemma digit_of_char:
  assumes "is_digit c"
  shows "48 \<le> (of_char c :: int)" "(of_char c :: int) = 48 \<longleftrightarrow> c = CHR ''0''"
proof -
  have i: "(of_char c :: int) = int (of_char c)" by (rule of_nat_of_char [symmetric])
  from assms show "48 \<le> (of_char c :: int)" by (simp add: is_digit_def i)
  have "(of_char c :: nat) = 48 \<longleftrightarrow> c = CHR ''0''"
    using of_char_eq_iff [where 'a = nat, of c "CHR ''0''"] by simp
  then show "(of_char c :: int) = 48 \<longleftrightarrow> c = CHR ''0''" by (simp add: i)
qed

lemma digits_fold_zero:
  "list_all is_digit s \<Longrightarrow> 0 \<le> a \<Longrightarrow>
     0 \<le> foldl (\<lambda>n c. 10 * n + (of_char c - 48)) a s \<and>
     (foldl (\<lambda>n c. 10 * n + (of_char c - 48)) a s = (0 :: int) \<longleftrightarrow> a = 0 \<and> (\<forall>c \<in> set s. c = CHR ''0''))"
proof (induction s arbitrary: a)
  case (Cons c s)
  then have c: "48 \<le> (of_char c :: int)" "(of_char c :: int) = 48 \<longleftrightarrow> c = CHR ''0''"
    by (simp_all add: digit_of_char)
  with Cons.prems have "0 \<le> 10 * a + (of_char c - 48)"
    "10 * a + (of_char c - 48) = 0 \<longleftrightarrow> a = 0 \<and> c = CHR ''0''" by auto
  with Cons.IH [of "10 * a + (of_char c - 48)"] Cons.prems show ?case by auto
qed simp

lemma digits_value_zero:
  "list_all is_digit s \<Longrightarrow> 0 \<le> digits_value s \<and> (digits_value s = 0 \<longleftrightarrow> (\<forall>c \<in> set s. c = CHR ''0''))"
  using digits_fold_zero [of s 0] by (simp add: digits_value_def)

lemma digit_not_space: "is_digit c \<Longrightarrow> \<not> is_space c"
  by (auto simp: is_digit_def is_space_def)

lemma trim_id: "s \<noteq> [] \<Longrightarrow> \<not> is_space (hd s) \<Longrightarrow> \<not> is_space (last s) \<Longrightarrow> trim s = s"
proof -
  assume ne: "s \<noteq> []" and h: "\<not> is_space (hd s)" and l: "\<not> is_space (last s)"
  have keep: "dropWhile is_space t = t" if "t \<noteq> []" "\<not> is_space (hd t)" for t
    using that by (cases t) auto
  show ?thesis using ne h l keep [of s] keep [of "rev s"] by (simp add: trim_def hd_rev)
qed

text \<open>
  The free/paid fork on money texts: a plain decimal of digits with at most 323 digits
  after the point is classified as free exactly when every digit is a zero; the fail-safe
  arm never gives away a seat of a non-zero total written that way.
\<close>

lemma money_text_free_iff_zero:
  assumes "ip \<noteq> []" and "list_all is_digit ip" and "list_all is_digit fp" and "length fp \<le> 323"
  shows "grand_total_is_zero (ip @ ''.'' @ fp) \<longleftrightarrow> (\<forall>c \<in> set (ip @ fp). c = CHR ''0'')"
proof -
  let ?s = "ip @ ''.'' @ fp"
  obtain c0 ip' where ip: "ip = c0 # ip'" using assms(1) by (cases ip) auto
  have dot: "\<not> is_digit CHR ''.''" "\<not> is_space CHR ''.''" by (simp_all add: is_digit_def is_space_def)
  have c0: "is_digit c0" using assms(2) ip by simp
  have "\<not> is_space (last ?s)"
    using assms(3) dot by (cases fp rule: rev_cases) (auto simp: digit_not_space)
  then have trim: "trim ?s = ?s" using c0 ip by (intro trim_id) (auto simp: digit_not_space)
  have sign: "strip_sign ?s = (False, ?s)"
    using c0 by (auto simp: strip_sign_def ip is_digit_def)
  have all: "\<forall>c \<in> set ip. is_digit c" "\<forall>c \<in> set fp. is_digit c"
    using assms(2,3) by (simp_all add: list_all_iff)
  have tw: "takeWhile is_digit ?s = ip" "dropWhile is_digit ?s = CHR ''.'' # fp"
    using all(1) dot by (simp_all add: takeWhile_append dropWhile_append)
  have tf: "takeWhile is_digit fp = fp" "dropWhile is_digit fp = []"
    using all(2) by simp_all
  have parse: "parse_decimal ?s = Some (digits_value (ip @ fp), - int (length fp))"
    unfolding parse_decimal_def sign snd_conv Let_def tw
    using assms(1) by (simp add: tf parse_exponent_def)
  have dv: "0 \<le> digits_value (ip @ fp)"
    "digits_value (ip @ fp) = 0 \<longleftrightarrow> (\<forall>c \<in> set (ip @ fp). c = CHR ''0'')"
    using digits_value_zero [of "ip @ fp"] assms by simp_all
  have "(10 :: int) ^ length fp \<le> 10 ^ 323" by (rule power_increasing) (use assms in auto)
  also have "\<dots> < 2 ^ 1075" by simp
  finally have small: "(10 :: int) ^ length fp < 2 ^ 1075" .
  have "\<not> digits_value (ip @ fp) * 2 ^ 1075 \<le> 10 ^ length fp" if "digits_value (ip @ fp) \<noteq> 0"
  proof -
    from that dv(1) have "1 * 2 ^ 1075 \<le> digits_value (ip @ fp) * 2 ^ 1075"
      by (intro mult_right_mono) auto
    with small show ?thesis by linarith
  qed
  then show ?thesis
    unfolding grand_total_is_zero_def trim parse using dv(2) by auto
qed

lemma money_text_free_iff_zero_witness:
  "grand_total_is_zero ''0.00'' \<and> \<not> grand_total_is_zero ''0.01''"
  using money_text_free_iff_zero [of "''0''" "''00''"] money_text_free_iff_zero [of "''0''" "''01''"]
  by (simp add: is_digit_def)

end
