(* ===== verification/Booths.thy ===== *)
theory Booths
  imports SaleSeam
begin

text \<open>
  The booths: \<open>infrastructure/persistence/booth_command_repository.rs\<close> (the service
  \<open>booth_command_service.rs\<close> only forwards to it). The exclusivity wall is the partial unique
  index \<open>booths_confirmed_exclusivity\<close>, modelled where the booking's status is written; a
  unique violation reaches the verb as SQLSTATE 23505 and becomes the loud loser.
\<close>

section \<open>Booth verbs\<close>

definition unresolved_booth :: event_error where
  "unresolved_booth = Validation (''booth create refused '' @ em_dash @
     '' event or category does not resolve'')"

definition create_booth ::
    "(booth_rec \<Rightarrow> bool) \<Rightarrow> uuid \<Rightarrow> uuid \<Rightarrow> uuid \<Rightarrow> string \<Rightarrow> uuid option \<Rightarrow> db \<Rightarrow>
       event_error + (booth_rec \<times> db)" where
  "create_booth checks fresh event category name actor d =
     (let b = \<lparr>bo_id = fresh, bo_event_id = event, bo_category_id = category, bo_name = name,
               bo_state = Booth_Available, bo_partner_id = None, bo_contact_name = None,
               bo_contact_email = None, bo_contact_phone = None, bo_line_id = None,
               bo_paid = False\<rparr>
      in bind_r (require (checks b) (Database ''declared_check'')) (\<lambda>_.
         bind_r (require (\<not> exists_row (\<lambda>x. bo_id x = fresh) (booths d)) (Database ''booths_pkey'')) (\<lambda>_.
         bind_r (require (event_by_id event d \<noteq> None \<and>
                          exists_row (\<lambda>c. bc_id c = category) (categories d)) unresolved_booth) (\<lambda>_.
         Inr (b, record_audit ''booth_created'' actor ''booth'' (Some fresh)
                (JObj [(''event_id'', JId event), (''name'', JStr name)])
                (d\<lparr>booths := booths d @ [b]\<rparr>))))))"

record booth_patch =
  bp_name :: "string option"
  bp_category_id :: "uuid option"
  bp_partner_id :: "uuid option"
  bp_contact_name :: "string option"
  bp_contact_email :: "string option"
  bp_contact_phone :: "string option"

definition patch_booth_row :: "booth_patch \<Rightarrow> booth_rec \<Rightarrow> booth_rec" where
  "patch_booth_row p b =
     b\<lparr>bo_name := (case bp_name p of Some n \<Rightarrow> n | None \<Rightarrow> bo_name b),
       bo_category_id := (case bp_category_id p of Some c \<Rightarrow> c | None \<Rightarrow> bo_category_id b),
       bo_partner_id := coalesce (bo_partner_id b) (bp_partner_id p),
       bo_contact_name := coalesce (bo_contact_name b) (bp_contact_name p),
       bo_contact_email := coalesce (bo_contact_email b) (bp_contact_email p),
       bo_contact_phone := coalesce (bo_contact_phone b) (bp_contact_phone p)\<rparr>"

definition patch_booth ::
    "(booth_rec \<Rightarrow> bool) \<Rightarrow> uuid \<Rightarrow> booth_patch \<Rightarrow> uuid option \<Rightarrow> db \<Rightarrow> event_error + (booth_rec \<times> db)" where
  "patch_booth checks i p actor d =
     bind_r (ok_or (booth_by_id i d) (BoothNotFound i)) (\<lambda>b.
     let b' = patch_booth_row p b in
     bind_r (require (checks b') (Database ''declared_check'')) (\<lambda>_.
     bind_r (require (exists_row (\<lambda>c. bc_id c = bo_category_id b') (categories d))
               (Database ''fk_booths_booth_category_id'')) (\<lambda>_.
     Inr (b', record_audit ''booth_updated'' actor ''booth'' (Some i)
            (JObj [(''verb'', JStr ''patch''),
                   (''fill_if_empty'', JArr [JStr ''partner_id'', JStr ''contact_name'',
                      JStr ''contact_email'', JStr ''contact_phone''])])
            (d\<lparr>booths := upd_rows (\<lambda>x. bo_id x = i) (patch_booth_row p) (booths d)\<rparr>)))))"

definition bookings_exist :: "int \<Rightarrow> event_error" where
  "bookings_exist n = Validation (''booth delete refused '' @ em_dash @ '' '' @ show_int n @
     '' booking rows exist (release first)'')"

definition delete_booth :: "uuid \<Rightarrow> uuid option \<Rightarrow> db \<Rightarrow> event_error + (unit \<times> db)" where
  "delete_booth i actor d =
     bind_r (ok_or (booth_by_id i d) (BoothNotFound i)) (\<lambda>b.
     let n = count_rows (\<lambda>bb. bb_booth_id bb = i) (bookings d) in
     bind_r (require (bo_line_id b = None) (BoothDeleteRefusedSaleLinked i)) (\<lambda>_.
     bind_r (require (\<not> n > 0) (bookings_exist n)) (\<lambda>_.
     Inr ((), record_audit ''booth_deleted'' actor ''booth'' (Some i) (JObj [])
            (d\<lparr>booths := del_rows (\<lambda>x. bo_id x = i) (booths d)\<rparr>)))))"

definition find_booth :: "uuid \<Rightarrow> db \<Rightarrow> event_error + booth_rec" where
  "find_booth i d = ok_or (booth_by_id i d) (BoothNotFound i)"

text \<open>\<open>ORDER BY name, id\<close>, with the sort key of the database's text collation.\<close>

definition list_booths_of_event ::
    "(string \<Rightarrow> 'k::linorder) \<Rightarrow> uuid \<Rightarrow> int \<Rightarrow> db \<Rightarrow> event_error + booth_rec list" where
  "list_booths_of_event collation event limit d =
     bind_r (require (0 \<le> limit) (Database ''LIMIT must not be negative'')) (\<lambda>_.
     Inr (limit_rows limit (sort_key (\<lambda>b. collation (bo_name b))
       (sort_key bo_id (sel_rows (\<lambda>b. bo_event_id b = event) (booths d))))))"

section \<open>Booking verbs\<close>

record booking_input =
  bi_line_id :: "uuid option"
  bi_partner_id :: "uuid option"
  bi_contact_name :: "string option"
  bi_contact_email :: "string option"
  bi_contact_phone :: "string option"

text \<open>EBS-4: a booking of the same order line on a booth of another event.\<close>

definition crosses_events :: "uuid \<Rightarrow> uuid \<Rightarrow> db \<Rightarrow> bool" where
  "crosses_events line event d \<longleftrightarrow>
     exists_row (\<lambda>bb. bb_line_id bb = Some line \<and>
        exists_row (\<lambda>b. bo_id b = bb_booth_id bb \<and> bo_event_id b \<noteq> event) (booths d)) (bookings d)"

text \<open>The primary key and \<open>booth_bookings_line_grain\<close>, in which NULL lines never collide.\<close>

definition booking_unique_ok :: "booking_rec \<Rightarrow> db \<Rightarrow> bool" where
  "booking_unique_ok bb d \<longleftrightarrow>
     \<not> exists_row (\<lambda>x. bb_id x = bb_id bb) (bookings d) \<and>
     \<not> (bb_line_id bb \<noteq> None \<and>
        exists_row (\<lambda>x. bb_line_id x = bb_line_id bb \<and> bb_booth_id x = bb_booth_id bb) (bookings d))"

definition create_booking ::
    "(booking_rec \<Rightarrow> bool) \<Rightarrow> uuid \<Rightarrow> uuid \<Rightarrow> booking_input \<Rightarrow> uuid option \<Rightarrow> db \<Rightarrow>
       event_error + (booking_rec \<times> db)" where
  "create_booking checks fresh booth input actor d =
     bind_r (ok_or (booth_by_id booth d) (BoothNotFound booth)) (\<lambda>b.
     bind_r (case bi_line_id input of
               None \<Rightarrow> Inr ()
             | Some line \<Rightarrow> require (\<not> crosses_events line (bo_event_id b) d)
                              (BoothBookingLineCrossEvent line)) (\<lambda>_.
     let bb = \<lparr>bb_id = fresh, bb_booth_id = booth, bb_line_id = bi_line_id input,
               bb_status = Booking_Pending, bb_partner_id = bi_partner_id input,
               bb_contact_name = bi_contact_name input, bb_contact_email = bi_contact_email input,
               bb_contact_phone = bi_contact_phone input\<rparr> in
     bind_r (require (checks bb) (Database ''declared_check'')) (\<lambda>_.
     bind_r (require (booking_unique_ok bb d) (BoothAlreadyConfirmed booth)) (\<lambda>_.
     Inr (bb, record_audit ''booth_booking_created'' actor ''booth'' (Some booth)
            (JObj [(''booking_id'', JId fresh), (''status'', JStr ''pending'')])
            (d\<lparr>bookings := bookings d @ [bb]\<rparr>))))))"

definition confirm_booth_row :: "booking_rec \<Rightarrow> booth_rec \<Rightarrow> booth_rec" where
  "confirm_booth_row bb b =
     b\<lparr>bo_state := Booth_Unavailable,
       bo_line_id := coalesce (bo_line_id b) (bb_line_id bb),
       bo_partner_id := coalesce (bo_partner_id b) (bb_partner_id bb),
       bo_contact_name := coalesce (bo_contact_name b) (bb_contact_name bb),
       bo_contact_email := coalesce (bo_contact_email b) (bb_contact_email bb),
       bo_contact_phone := coalesce (bo_contact_phone b) (bb_contact_phone bb)\<rparr>"

text \<open>
  CONFIRM. The row lock reads the booking joined to its booth; the flip updates a pending
  row and is walled by the partial unique index; a booking that is not pending gives the
  driver's no-row error.
\<close>

definition confirm_booking ::
    "(booth_rec \<Rightarrow> bool) \<Rightarrow> uuid \<Rightarrow> uuid option \<Rightarrow> db \<Rightarrow>
       event_error + ((booking_rec \<times> booth_rec) \<times> db)" where
  "confirm_booking checks i actor d =
     bind_r (ok_or (booking_by_id i d) (BoothBookingNotFound i)) (\<lambda>bb.
     bind_r (ok_or (booth_by_id (bb_booth_id bb) d) (BoothBookingNotFound i)) (\<lambda>b.
     bind_r (require (bo_state b = Booth_Available) (BoothAlreadyConfirmed (bb_booth_id bb))) (\<lambda>_.
     bind_r (require (bb_status bb = Booking_Pending) (Database ''no rows returned'')) (\<lambda>_.
     bind_r (require (\<not> exists_row (\<lambda>x. bb_booth_id x = bb_booth_id bb \<and>
                          bb_status x = Booking_Confirmed) (bookings d))
               (BoothAlreadyConfirmed (bb_booth_id bb))) (\<lambda>_.
     let bb' = bb\<lparr>bb_status := Booking_Confirmed\<rparr>; b' = confirm_booth_row bb b in
     bind_r (require (checks b') (Database ''declared_check'')) (\<lambda>_.
     Inr ((bb', b'), record_audit ''booth_confirmed'' actor ''booth'' (Some (bb_booth_id bb))
            (JObj [(''booking_id'', JId i)])
            (d\<lparr>bookings := upd_rows (\<lambda>x. bb_id x = i) (\<lambda>x. x\<lparr>bb_status := Booking_Confirmed\<rparr>) (bookings d),
               booths := upd_rows (\<lambda>x. bo_id x = bb_booth_id bb) (confirm_booth_row bb) (booths d)\<rparr>))))))))"

definition release_booth :: "uuid \<Rightarrow> uuid option \<Rightarrow> db \<Rightarrow> event_error + (booth_rec \<times> db)" where
  "release_booth i actor d =
     bind_r (ok_or (find (\<lambda>b. bo_id b = i \<and> bo_state b = Booth_Unavailable) (booths d))
               (BoothNotFound i)) (\<lambda>b.
     Inr (b\<lparr>bo_state := Booth_Available\<rparr>,
          record_audit ''booth_released'' actor ''booth'' (Some i) (JObj [(''verb'', JStr ''release'')])
            (d\<lparr>bookings := del_rows (\<lambda>bb. bb_booth_id bb = i) (bookings d),
               booths := upd_rows (\<lambda>x. bo_id x = i \<and> bo_state x = Booth_Unavailable)
                           (\<lambda>x. x\<lparr>bo_state := Booth_Available\<rparr>) (booths d)\<rparr>)))"

definition delete_booking :: "uuid \<Rightarrow> uuid option \<Rightarrow> db \<Rightarrow> event_error + (unit \<times> db)" where
  "delete_booking i actor d =
     (if exists_row (\<lambda>bb. bb_id bb = i \<and> bb_status bb = Booking_Pending) (bookings d)
      then Inr ((), record_audit ''booth_booking_deleted'' actor ''booth_booking'' (Some i)
             (JObj [(''verb'', JStr ''withdraw_intent'')])
             (d\<lparr>bookings := del_rows (\<lambda>bb. bb_id bb = i \<and> bb_status bb = Booking_Pending) (bookings d)\<rparr>))
      else Inl (BoothBookingNotFound i))"

definition find_booking :: "uuid \<Rightarrow> db \<Rightarrow> event_error + booking_rec" where
  "find_booking i d = ok_or (booking_by_id i d) (BoothBookingNotFound i)"

definition list_bookings_of_booth :: "uuid \<Rightarrow> db \<Rightarrow> booking_rec list" where
  "list_bookings_of_booth booth d = sort_key bb_id (sel_rows (\<lambda>bb. bb_booth_id bb = booth) (bookings d))"

definition mark_booths_paid :: "uuid list \<Rightarrow> db \<Rightarrow> nat \<times> db" where
  "mark_booths_paid lines d = (if lines = [] then (0, d) else latch_booths lines d)"

section \<open>The invariant of the booth verbs\<close>

definition confirmed_on :: "uuid \<Rightarrow> booking_rec \<Rightarrow> bool" where
  "confirmed_on i bb \<longleftrightarrow> bb_booth_id bb = i \<and> bb_status bb = Booking_Confirmed"

text \<open>
  Keys; every booking has its booth; a booth is unavailable exactly while one booking of it,
  and only one, is confirmed; one order line books booths of one event.
\<close>

definition line_event :: "db \<Rightarrow> uuid \<Rightarrow> uuid \<Rightarrow> bool" where
  "line_event d l e \<longleftrightarrow>
     (\<exists>x \<in> set (bookings d). \<exists>b \<in> set (booths d).
        bb_line_id x = Some l \<and> bo_id b = bb_booth_id x \<and> bo_event_id b = e)"

definition booth_inv :: "db \<Rightarrow> bool" where
  "booth_inv d \<longleftrightarrow>
     distinct (map bo_id (booths d)) \<and> distinct (map bb_id (bookings d)) \<and>
     (\<forall>bb \<in> set (bookings d). bb_booth_id bb \<in> bo_id ` set (booths d)) \<and>
     (\<forall>b \<in> set (booths d). count_rows (confirmed_on (bo_id b)) (bookings d) =
        (if bo_state b = Booth_Unavailable then 1 else 0)) \<and>
     (\<forall>l e e'. line_event d l e \<and> line_event d l e' \<longrightarrow> e = e')"

datatype booth_verb =
    Create_Booth uuid uuid uuid string
  | Patch_Booth uuid booth_patch
  | Delete_Booth uuid
  | Create_Booking uuid uuid booking_input
  | Confirm_Booking uuid
  | Release_Booth uuid
  | Delete_Booking uuid
  | Mark_Paid "uuid list"

fun booth_step :: "booth_verb \<Rightarrow> db \<Rightarrow> event_error + db" where
  "booth_step (Create_Booth i e c n) d = map_sum id snd (create_booth (\<lambda>_. True) i e c n None d)"
| "booth_step (Patch_Booth i p) d = map_sum id snd (patch_booth (\<lambda>_. True) i p None d)"
| "booth_step (Delete_Booth i) d = map_sum id snd (delete_booth i None d)"
| "booth_step (Create_Booking i b input) d = map_sum id snd (create_booking (\<lambda>_. True) i b input None d)"
| "booth_step (Confirm_Booking i) d = map_sum id snd (confirm_booking (\<lambda>_. True) i None d)"
| "booth_step (Release_Booth i) d = map_sum id snd (release_booth i None d)"
| "booth_step (Delete_Booking i) d = map_sum id snd (delete_booking i None d)"
| "booth_step (Mark_Paid ls) d = Inr (snd (mark_booths_paid ls d))"

lemma booth_invD:
  assumes "booth_inv d"
  shows "distinct (map bo_id (booths d))" "distinct (map bb_id (bookings d))"
    "\<And>bb. bb \<in> set (bookings d) \<Longrightarrow> bb_booth_id bb \<in> bo_id ` set (booths d)"
    "\<And>b. b \<in> set (booths d) \<Longrightarrow> count_rows (confirmed_on (bo_id b)) (bookings d) =
        (if bo_state b = Booth_Unavailable then 1 else 0)"
    "\<And>l e e'. line_event d l e \<Longrightarrow> line_event d l e' \<Longrightarrow> e = e'"
  using assms unfolding booth_inv_def by blast+

lemma booth_invI:
  assumes "distinct (map bo_id (booths d))" and "distinct (map bb_id (bookings d))"
    and "\<And>bb. bb \<in> set (bookings d) \<Longrightarrow> bb_booth_id bb \<in> bo_id ` set (booths d)"
    and "\<And>b. b \<in> set (booths d) \<Longrightarrow> count_rows (confirmed_on (bo_id b)) (bookings d) =
        (if bo_state b = Booth_Unavailable then 1 else 0)"
    and "\<And>l e e'. line_event d l e \<Longrightarrow> line_event d l e' \<Longrightarrow> e = e'"
  shows "booth_inv d"
  using assms unfolding booth_inv_def by blast

text \<open>
  A step that adds no booking line and keeps each booth's id and event: what is left to show
  is the confirmed counts.
\<close>

lemma booth_inv_step:
  assumes inv: "booth_inv d"
    and "distinct (map bo_id (booths d'))" and "distinct (map bb_id (bookings d'))"
    and books: "\<And>x. x \<in> set (bookings d') \<Longrightarrow>
      \<exists>y \<in> set (bookings d). bb_line_id y = bb_line_id x \<and> bb_booth_id y = bb_booth_id x"
    and stay: "\<And>x. x \<in> set (bookings d') \<Longrightarrow> bb_booth_id x \<in> bo_id ` set (booths d) \<Longrightarrow>
      bb_booth_id x \<in> bo_id ` set (booths d')"
    and old: "\<And>b x. b \<in> set (booths d') \<Longrightarrow> x \<in> set (bookings d') \<Longrightarrow> bo_id b = bb_booth_id x \<Longrightarrow>
      \<exists>c \<in> set (booths d). bo_id c = bo_id b \<and> bo_event_id c = bo_event_id b"
    and counts: "\<And>b. b \<in> set (booths d') \<Longrightarrow> count_rows (confirmed_on (bo_id b)) (bookings d') =
        (if bo_state b = Booth_Unavailable then 1 else 0)"
  shows "booth_inv d'"
proof (rule booth_invI)
  fix bb assume bb: "bb \<in> set (bookings d')"
  from books [OF bb] booth_invD(3) [OF inv] have "bb_booth_id bb \<in> bo_id ` set (booths d)" by metis
  with stay [OF bb] show "bb_booth_id bb \<in> bo_id ` set (booths d')" .
next
  have sub: "line_event d l e" if "line_event d' l e" for l e
  proof -
    from that obtain x b where x: "x \<in> set (bookings d')" "b \<in> set (booths d')" "bb_line_id x = Some l"
      "bo_id b = bb_booth_id x" "bo_event_id b = e" by (auto simp: line_event_def)
    from books [OF x(1)] obtain y where "y \<in> set (bookings d)" "bb_line_id y = Some l" "bb_booth_id y = bb_booth_id x"
      using x(3) by auto
    moreover from old [OF x(2,1,4)] obtain c where "c \<in> set (booths d)" "bo_id c = bo_id b" "bo_event_id c = e"
      using x(5) by auto
    ultimately show ?thesis using x(4) unfolding line_event_def by metis
  qed
  fix l e e' assume "line_event d' l e" "line_event d' l e'"
  then show "e = e'" using sub booth_invD(5) [OF inv] by blast
qed (use assms in auto)

text \<open>An update of booths that keeps id, event and state keeps the invariant.\<close>

lemma booth_inv_upd:
  assumes inv: "booth_inv d" and same: "bookings d' = bookings d" and upd: "booths d' = upd_rows p f (booths d)"
    and f: "\<And>b. bo_id (f b) = bo_id b" "\<And>b. bo_event_id (f b) = bo_event_id b" "\<And>b. bo_state (f b) = bo_state b"
  shows "booth_inv d'"
proof -
  have ids: "map bo_id (booths d') = map bo_id (booths d)" by (simp add: upd map_upd_rows f)
  then have img: "bo_id ` set (booths d') = bo_id ` set (booths d)" by (metis list.set_map)
  have old: "\<exists>c \<in> set (booths d). bo_id c = bo_id b \<and> bo_event_id c = bo_event_id b \<and> bo_state c = bo_state b"
    if "b \<in> set (booths d')" for b
    using that by (auto simp: upd in_upd_rows_iff f split: if_splits)
  show ?thesis
  proof (rule booth_inv_step [OF inv])
    fix b assume "b \<in> set (booths d')"
    from old [OF this] booth_invD(4) [OF inv]
    show "count_rows (confirmed_on (bo_id b)) (bookings d') = (if bo_state b = Booth_Unavailable then 1 else 0)"
      unfolding same by metis
  next
    fix b x assume "b \<in> set (booths d')"
    from old [OF this] show "\<exists>c \<in> set (booths d). bo_id c = bo_id b \<and> bo_event_id c = bo_event_id b" by blast
  qed (use booth_invD [OF inv] in \<open>auto simp: ids img same\<close>)
qed

lemma booth_by_id_in: "booth_by_id i d = Some b \<Longrightarrow> b \<in> set (booths d) \<and> bo_id b = i"
  unfolding booth_by_id_def by (auto dest: find_Some_in)

lemma booking_by_id_in: "booking_by_id i d = Some b \<Longrightarrow> b \<in> set (bookings d) \<and> bb_id b = i"
  unfolding booking_by_id_def by (auto dest: find_Some_in)

lemma no_booth_no_confirmed:
  assumes "booth_inv d" "i \<notin> bo_id ` set (booths d)"
  shows "count_rows (confirmed_on i) (bookings d) = 0"
  using booth_invD(3) [OF assms(1)] assms(2)
  by (auto simp: count_rows_def confirmed_on_def filter_empty_conv)

lemma create_booth_inv:
  assumes "create_booth checks i e c n actor d = Inr (b, d')" and inv: "booth_inv d"
  shows "booth_inv d'"
proof -
  from assms have new: "booths d' = booths d @ [b]" "bookings d' = bookings d"
    "bo_id b = i" "bo_state b = Booth_Available" "i \<notin> bo_id ` set (booths d)"
    by (auto simp: create_booth_def Let_def result_simps exists_key_iff split: if_splits)
  show ?thesis
  proof (rule booth_inv_step [OF inv])
    fix c assume "c \<in> set (booths d')"
    then show "count_rows (confirmed_on (bo_id c)) (bookings d') = (if bo_state c = Booth_Unavailable then 1 else 0)"
      using booth_invD(4) [OF inv] no_booth_no_confirmed [OF inv new(5)] new by auto
  next
    fix c x assume "c \<in> set (booths d')" "x \<in> set (bookings d')" "bo_id c = bb_booth_id x"
    then show "\<exists>a \<in> set (booths d). bo_id a = bo_id c \<and> bo_event_id a = bo_event_id c"
      using booth_invD(3) [OF inv] new by auto
  qed (use booth_invD [OF inv] new in auto)
qed

lemma delete_booth_inv:
  assumes "delete_booth i actor d = Inr (u, d')" and inv: "booth_inv d"
  shows "booth_inv d'"
proof -
  from assms have del: "booths d' = del_rows (\<lambda>x. bo_id x = i) (booths d)" "bookings d' = bookings d"
    and none: "\<not> 0 < count_rows (\<lambda>bb. bb_booth_id bb = i) (bookings d)"
    by (auto simp: delete_booth_def Let_def result_simps split: if_splits)
  from none have no: "bb_booth_id x \<noteq> i" if "x \<in> set (bookings d)" for x
    using that by (auto simp: count_rows_pos_iff)
  show ?thesis
  proof (rule booth_inv_step [OF inv])
    fix x assume "x \<in> set (bookings d')" "bb_booth_id x \<in> bo_id ` set (booths d)"
    then show "bb_booth_id x \<in> bo_id ` set (booths d')" using no by (force simp: del in_del_rows_iff image_iff)
  qed (use booth_invD [OF inv] in \<open>auto simp: del del_rows_def distinct_map_filter\<close>)
qed

lemma create_booking_inv:
  assumes "create_booking checks i booth input actor d = Inr (bb, d')" and inv: "booth_inv d"
  shows "booth_inv d'"
proof -
  from assms obtain b where b: "booth_by_id booth d = Some b"
    and new: "bookings d' = bookings d @ [bb]" "booths d' = booths d" "bb_booth_id bb = booth"
      "bb_status bb = Booking_Pending" "bb_line_id bb = bi_line_id input" "bb_id bb \<notin> bb_id ` set (bookings d)"
    and cross: "\<forall>l. bi_line_id input = Some l \<longrightarrow> \<not> crosses_events l (bo_event_id b) d"
    by (auto simp: create_booking_def Let_def result_simps booking_unique_ok_def exists_key_iff
        split: if_splits option.splits)
  note bin = booth_by_id_in [OF b]
  have the_b: "c = b" if "c \<in> set (booths d)" "bo_id c = booth" for c
    using key_unique [OF booth_invD(1) [OF inv] that(1) conjunct1 [OF bin]] that bin by simp
  have no_cross: "e = bo_event_id b" if "bi_line_id input = Some l" "line_event d l e" for l e
    using cross that by (auto simp: crosses_events_def exists_row_iff line_event_def)
  have split: "line_event d l e \<or> bi_line_id input = Some l \<and> e = bo_event_id b" if "line_event d' l e" for l e
  proof -
    from that obtain x c where "x = bb \<or> x \<in> set (bookings d)" "c \<in> set (booths d)" "bb_line_id x = Some l"
      "bo_id c = bb_booth_id x" "bo_event_id c = e"
      unfolding line_event_def new(1,2) by auto
    then show ?thesis using the_b new(3,5) unfolding line_event_def by auto
  qed
  show ?thesis
  proof (rule booth_invI)
    fix l e e' assume "line_event d' l e" "line_event d' l e'"
    with split no_cross booth_invD(5) [OF inv] show "e = e'" by metis
  next
    fix c assume "c \<in> set (booths d')"
    then show "count_rows (confirmed_on (bo_id c)) (bookings d') = (if bo_state c = Booth_Unavailable then 1 else 0)"
      using booth_invD(4) [OF inv, of c] new(4) by (simp add: new(1,2) table_simps confirmed_on_def)
  next
    fix x assume "x \<in> set (bookings d')"
    then have "x = bb \<or> x \<in> set (bookings d)" by (auto simp: new(1))
    then show "bb_booth_id x \<in> bo_id ` set (booths d')"
      using booth_invD(3) [OF inv] new(2,3) bin by (metis imageI)
  qed (use booth_invD(1,2) [OF inv] new in auto)
qed

lemma confirm_bookingE:
  assumes "confirm_booking checks i actor d = Inr ((bb', b'), d')"
  obtains bb b where "booking_by_id i d = Some bb" and "booth_by_id (bb_booth_id bb) d = Some b"
    and "bo_state b = Booth_Available" and "bb_status bb = Booking_Pending"
    and "\<forall>x \<in> set (bookings d). \<not> confirmed_on (bb_booth_id bb) x"
    and "bb' = bb\<lparr>bb_status := Booking_Confirmed\<rparr>" and "b' = confirm_booth_row bb b"
    and "bookings d' = upd_rows (\<lambda>x. bb_id x = i) (\<lambda>x. x\<lparr>bb_status := Booking_Confirmed\<rparr>) (bookings d)"
    and "booths d' = upd_rows (\<lambda>x. bo_id x = bb_booth_id bb) (confirm_booth_row bb) (booths d)"
  using assms
  by (auto simp: confirm_booking_def Let_def result_simps exists_row_iff confirmed_on_def split: if_splits)

lemma confirm_booth_row_fields [simp]:
  "bo_id (confirm_booth_row bb b) = bo_id b" "bo_event_id (confirm_booth_row bb b) = bo_event_id b"
  "bo_state (confirm_booth_row bb b) = Booth_Unavailable" "bo_paid (confirm_booth_row bb b) = bo_paid b"
  "bo_name (confirm_booth_row bb b) = bo_name b"
  by (simp_all add: confirm_booth_row_def)

lemma confirm_count:
  assumes ids: "distinct (map bb_id (bookings d))" and bb: "bb \<in> set (bookings d)" "bb_id bb = i"
    and none: "\<forall>x \<in> set (bookings d). \<not> confirmed_on (bb_booth_id bb) x"
    and st: "bb_status bb = Booking_Pending"
  shows "count_rows (confirmed_on j) (upd_rows (\<lambda>x. bb_id x = i) (\<lambda>x. x\<lparr>bb_status := Booking_Confirmed\<rparr>) (bookings d)) =
      (if j = bb_booth_id bb then 1 else count_rows (confirmed_on j) (bookings d))"
proof -
  have the_bb: "x = bb" if "x \<in> set (bookings d)" "bb_id x = i" for x
    using key_unique [OF ids that(1) bb(1)] that bb by simp
  let ?new = "count_rows (\<lambda>x. bb_id x = i \<and> confirmed_on j (x\<lparr>bb_status := Booking_Confirmed\<rparr>)) (bookings d)"
  have sum: "count_rows (confirmed_on j) (upd_rows (\<lambda>x. bb_id x = i) (\<lambda>x. x\<lparr>bb_status := Booking_Confirmed\<rparr>) (bookings d)) =
      count_rows (\<lambda>x. bb_id x \<noteq> i \<and> confirmed_on j x) (bookings d) + ?new"
    by (rule count_rows_upd_key [OF ids])
  have rest: "count_rows (\<lambda>x. bb_id x \<noteq> i \<and> confirmed_on j x) (bookings d) = count_rows (confirmed_on j) (bookings d)"
    using the_bb st by (intro count_rows_cong) (auto simp: confirmed_on_def)
  have "?new = (if j = bb_booth_id bb then 1 else 0)"
  proof (cases "j = bb_booth_id bb")
    case True
    then have "0 < ?new" using bb by (auto simp: count_rows_pos_iff confirmed_on_def)
    moreover have "?new \<le> 1" by (rule count_rows_key_le_1 [OF ids])
    ultimately show ?thesis using True by simp
  next
    case False
    then have "\<not> 0 < ?new" using the_bb by (auto simp: count_rows_pos_iff confirmed_on_def)
    with False show ?thesis using count_rows_nonneg by (simp add: order.antisym not_less)
  qed
  moreover have "count_rows (confirmed_on (bb_booth_id bb)) (bookings d) = 0"
    using none by (simp add: count_rows_def filter_empty_conv)
  ultimately show ?thesis using sum rest by auto
qed

lemma confirm_booking_inv:
  assumes "confirm_booking checks i actor d = Inr (out, d')" and inv: "booth_inv d"
  shows "booth_inv d'"
proof -
  obtain bb' b' where "out = (bb', b')" by (cases out)
  with assms(1) have "confirm_booking checks i actor d = Inr ((bb', b'), d')" by simp
  then obtain bb b where bb: "booking_by_id i d = Some bb"
    and st: "bb_status bb = Booking_Pending"
    and none: "\<forall>x \<in> set (bookings d). \<not> confirmed_on (bb_booth_id bb) x"
    and d': "bookings d' = upd_rows (\<lambda>x. bb_id x = i) (\<lambda>x. x\<lparr>bb_status := Booking_Confirmed\<rparr>) (bookings d)"
      "booths d' = upd_rows (\<lambda>x. bo_id x = bb_booth_id bb) (confirm_booth_row bb) (booths d)"
    by (elim confirm_bookingE)
  note bbin = booking_by_id_in [OF bb]
  note cnt = confirm_count [OF booth_invD(2) [OF inv] conjunct1 [OF bbin] conjunct2 [OF bbin] none st]
  have ids: "map bo_id (booths d') = map bo_id (booths d)" "map bb_id (bookings d') = map bb_id (bookings d)"
    by (simp_all add: d' map_upd_rows)
  then have img: "bo_id ` set (booths d') = bo_id ` set (booths d)" by (metis list.set_map)
  have bth: "\<exists>y \<in> set (booths d). bo_id y = bo_id x \<and> bo_event_id y = bo_event_id x \<and>
      bo_state x = (if bo_id x = bb_booth_id bb then Booth_Unavailable else bo_state y)"
    if "x \<in> set (booths d')" for x
  proof -
    from that obtain y where "y \<in> set (booths d)" and
      "x = (if bo_id y = bb_booth_id bb then confirm_booth_row bb y else y)"
      unfolding d'(2) in_upd_rows_iff by blast
    then show ?thesis by (intro bexI [of _ y]) simp_all
  qed
  show ?thesis
  proof (rule booth_inv_step [OF inv])
    fix x assume "x \<in> set (booths d')"
    from bth [OF this] obtain y where y: "y \<in> set (booths d)" "bo_id y = bo_id x"
      "bo_state x = (if bo_id x = bb_booth_id bb then Booth_Unavailable else bo_state y)" by blast
    from booth_invD(4) [OF inv y(1)] y(2,3)
    show "count_rows (confirmed_on (bo_id x)) (bookings d') = (if bo_state x = Booth_Unavailable then 1 else 0)"
      unfolding d'(1) cnt by simp
  next
    fix x assume "x \<in> set (bookings d')"
    then show "\<exists>y \<in> set (bookings d). bb_line_id y = bb_line_id x \<and> bb_booth_id y = bb_booth_id x"
      by (auto simp: d' in_upd_rows_iff split: if_splits)
  next
    fix b x assume "b \<in> set (booths d')"
    from bth [OF this] show "\<exists>c \<in> set (booths d). bo_id c = bo_id b \<and> bo_event_id c = bo_event_id b" by blast
  qed (simp_all add: ids img booth_invD(1,2) [OF inv])
qed

lemma release_booth_inv:
  assumes "release_booth i actor d = Inr (b, d')" and inv: "booth_inv d"
  shows "booth_inv d'"
proof -
  from assms have d': "bookings d' = del_rows (\<lambda>bb. bb_booth_id bb = i) (bookings d)"
    "booths d' = upd_rows (\<lambda>x. bo_id x = i \<and> bo_state x = Booth_Unavailable)
       (\<lambda>x. x\<lparr>bo_state := Booth_Available\<rparr>) (booths d)"
    by (auto simp: release_booth_def result_simps)
  have cnt: "count_rows (confirmed_on j) (bookings d') =
      (if j = i then 0 else count_rows (confirmed_on j) (bookings d))" for j
  proof -
    have "filter (confirmed_on j) (filter (\<lambda>x. bb_booth_id x \<noteq> i) (bookings d)) =
        (if j = i then [] else filter (confirmed_on j) (bookings d))"
      by (auto simp: filter_filter confirmed_on_def filter_empty_conv intro: filter_cong)
    then show ?thesis by (simp add: d' count_rows_def del_rows_def)
  qed
  have ids: "map bo_id (booths d') = map bo_id (booths d)" by (simp add: d' map_upd_rows)
  then have img: "bo_id ` set (booths d') = bo_id ` set (booths d)" by (metis list.set_map)
  have bth: "\<exists>y \<in> set (booths d). bo_id y = bo_id x \<and> bo_event_id y = bo_event_id x \<and>
      bo_state x = (if bo_id x = i then Booth_Available else bo_state y)"
    if "x \<in> set (booths d')" for x
  proof -
    from that obtain y where "y \<in> set (booths d)" and
      x: "x = (if bo_id y = i \<and> bo_state y = Booth_Unavailable then y\<lparr>bo_state := Booth_Available\<rparr> else y)"
      by (auto simp: d' in_upd_rows_iff)
    then show ?thesis by (intro bexI [of _ y]) (cases "bo_state y", auto)
  qed
  show ?thesis
  proof (rule booth_inv_step [OF inv])
    fix x assume "x \<in> set (booths d')"
    from bth [OF this] obtain y where y: "y \<in> set (booths d)" "bo_id y = bo_id x"
      "bo_state x = (if bo_id x = i then Booth_Available else bo_state y)" by blast
    from booth_invD(4) [OF inv y(1)] y(2,3)
    show "count_rows (confirmed_on (bo_id x)) (bookings d') = (if bo_state x = Booth_Unavailable then 1 else 0)"
      unfolding cnt by simp
  next
    fix b x assume "b \<in> set (booths d')"
    from bth [OF this] show "\<exists>c \<in> set (booths d). bo_id c = bo_id b \<and> bo_event_id c = bo_event_id b" by blast
  next
    show "distinct (map bb_id (bookings d'))"
      using booth_invD(2) [OF inv] by (simp add: d' del_rows_def distinct_map_filter)
  next
    fix x assume "x \<in> set (bookings d')"
    then show "\<exists>y \<in> set (bookings d). bb_line_id y = bb_line_id x \<and> bb_booth_id y = bb_booth_id x"
      by (auto simp: d' in_del_rows_iff)
  qed (use booth_invD(1) [OF inv] in \<open>auto simp: ids img\<close>)
qed

lemma delete_booking_inv:
  assumes "delete_booking i actor d = Inr (u, d')" and inv: "booth_inv d"
  shows "booth_inv d'"
proof -
  from assms have d': "bookings d' = del_rows (\<lambda>bb. bb_id bb = i \<and> bb_status bb = Booking_Pending) (bookings d)"
    "booths d' = booths d" by (auto simp: delete_booking_def split: if_splits)
  have "filter (confirmed_on j) (bookings d') = filter (confirmed_on j) (bookings d)" for j
    by (auto simp: d' del_rows_def filter_filter confirmed_on_def intro: filter_cong)
  then have cnt: "count_rows (confirmed_on j) (bookings d') = count_rows (confirmed_on j) (bookings d)" for j
    by (simp add: count_rows_def)
  show ?thesis
  proof (rule booth_inv_step [OF inv])
    show "distinct (map bb_id (bookings d'))"
      using booth_invD(2) [OF inv] by (simp add: d' del_rows_def distinct_map_filter)
  next
    fix x assume "x \<in> set (bookings d')"
    then show "\<exists>y \<in> set (bookings d). bb_line_id y = bb_line_id x \<and> bb_booth_id y = bb_booth_id x"
      by (auto simp: d' in_del_rows_iff)
  qed (use booth_invD(1,4) [OF inv] in \<open>auto simp: cnt d'(2)\<close>)
qed

lemma mark_booths_paid_booths:
  "booths (snd (mark_booths_paid ls d)) =
     upd_rows (\<lambda>b. \<exists>l \<in> set ls. bo_line_id b = Some l) (\<lambda>b. b\<lparr>bo_paid := True\<rparr>) (booths d)"
  "bookings (snd (mark_booths_paid ls d)) = bookings d"
  by (auto simp: mark_booths_paid_def latch_booths_def Let_def upd_rows_def split: option.splits)

lemma patch_boothD:
  assumes "patch_booth checks i p actor d = Inr (b, d')"
  shows "booths d' = upd_rows (\<lambda>x. bo_id x = i) (patch_booth_row p) (booths d)" "bookings d' = bookings d"
  using assms by (auto simp: patch_booth_def Let_def result_simps split: if_splits)

lemma patch_booth_row_fields [simp]:
  "bo_id (patch_booth_row p b) = bo_id b" "bo_event_id (patch_booth_row p b) = bo_event_id b"
  "bo_state (patch_booth_row p b) = bo_state b" "bo_paid (patch_booth_row p b) = bo_paid b"
  "bo_line_id (patch_booth_row p b) = bo_line_id b"
  by (simp_all add: patch_booth_row_def)

interpretation booth: verb_invariant booth_step "\<lambda>_ _. True" booth_inv
proof unfold_locales
  fix v d d' assume step: "booth_step v d = Inr d'" and inv: "booth_inv d"
  show "booth_inv d'"
  proof (cases v)
    case (Patch_Booth i p)
    with step obtain b where "patch_booth (\<lambda>_. True) i p None d = Inr (b, d')" by (auto simp: result_simps)
    from patch_boothD [OF this] show ?thesis
      by (intro booth_inv_upd [OF inv, where p = "\<lambda>x. bo_id x = i" and f = "patch_booth_row p"]) simp_all
  next
    case (Mark_Paid ls)
    with step have d': "d' = snd (mark_booths_paid ls d)" by simp
    show ?thesis unfolding d'
      by (rule booth_inv_upd [OF inv mark_booths_paid_booths(2,1)]) simp_all
  qed (use step inv in \<open>auto simp: result_simps dest: create_booth_inv delete_booth_inv
         create_booking_inv confirm_booking_inv release_booth_inv delete_booking_inv\<close>)
qed

section \<open>What the booth verbs promise\<close>

lemma confirmed_count_1:
  assumes "count_rows p t = 1" and "x \<in> set t" "p x" "y \<in> set t" "p y"
  shows "x = y"
proof -
  from assms(1) have "length (filter p t) = 1" by (simp add: count_rows_def)
  then obtain z where "filter p t = [z]" by (auto simp: length_Suc_conv)
  then have "set (filter p t) = {z}" by (simp del: set_filter)
  moreover have "x \<in> set (filter p t)" "y \<in> set (filter p t)" using assms(2-) by simp_all
  ultimately show ?thesis by (metis singletonD)
qed

lemma coalesce_case: "coalesce a b = (case a of None \<Rightarrow> b | Some x \<Rightarrow> Some x)"
  by (cases a) auto

lemma booth_of_booking:
  assumes "booth_inv d" "bb \<in> set (bookings d)"
  obtains b where "b \<in> set (booths d)" "bo_id b = bb_booth_id bb"
  using booth_invD(3) [OF assms] by (metis imageE)

text \<open>A booth's confirmed bookings, read off the invariant.\<close>

lemma booth_inv_exclusive:
  assumes inv: "booth_inv d" and x: "x \<in> set (bookings d)" "confirmed_on i x"
  shows "(\<forall>y \<in> set (bookings d). confirmed_on i y \<longrightarrow> y = x) \<and>
    (\<exists>b \<in> set (booths d). bo_id b = i \<and> bo_state b = Booth_Unavailable)"
proof -
  from booth_of_booking [OF inv x(1)] x(2) obtain b where b: "b \<in> set (booths d)" "bo_id b = i"
    by (metis confirmed_on_def)
  have "0 < count_rows (confirmed_on i) (bookings d)" using x by (auto simp: count_rows_pos_iff)
  with booth_invD(4) [OF inv b(1)] b(2) have st: "bo_state b = Booth_Unavailable \<and>
    count_rows (confirmed_on i) (bookings d) = 1" by (cases "bo_state b") simp_all
  show ?thesis
    using confirmed_count_1 [OF conjunct2 [OF st] x] b st by metis
qed

lemma ex_booth_inv: "booth_inv ex_db"
  by (rule booth_invI)
    (auto simp: ex_db_def ex_booth_def ex_booking_def count_rows_def confirmed_on_def line_event_def)

lemmas booth_eval = booth_by_id_def booking_by_id_def exists_row_def count_rows_def Let_def
  ex_defs confirm_booking_def

text \<open>
  Exclusivity: whatever run of booth and booking verbs reaches a state, a confirmed booking
  is the only confirmed one of its booth and its booth is unavailable, and an available booth
  has none; the whole invariant (keys, no orphan booking, one event per order line) is kept.
\<close>

lemma booth_runs_keep_exclusivity:
  assumes "booth_inv d"
  shows "booth_inv (run_verbs booth_step vs d) \<and>
    (\<forall>x \<in> set (bookings (run_verbs booth_step vs d)). bb_status x = Booking_Confirmed \<longrightarrow>
       (\<forall>y \<in> set (bookings (run_verbs booth_step vs d)).
          bb_status y = Booking_Confirmed \<and> bb_booth_id y = bb_booth_id x \<longrightarrow> y = x) \<and>
       (\<exists>b \<in> set (booths (run_verbs booth_step vs d)).
          bo_id b = bb_booth_id x \<and> bo_state b = Booth_Unavailable))"
proof -
  have adm: "run_admissible booth_step (\<lambda>_ _. True) vs d" by (induction vs arbitrary: d) auto
  note inv = booth.run_keeps [OF assms adm]
  then show ?thesis using booth_inv_exclusive [OF inv] by (auto simp: confirmed_on_def)
qed

lemma booth_runs_keep_exclusivity_witness:
  "booth_inv (run_verbs booth_step
     [Confirm_Booking 85, Confirm_Booking 86, Release_Booth 80, Create_Booking 87 80 \<lparr>bi_line_id = None,
        bi_partner_id = None, bi_contact_name = None, bi_contact_email = None, bi_contact_phone = None\<rparr>,
      Confirm_Booking 87] ex_db)"
  using booth_runs_keep_exclusivity [OF ex_booth_inv] by blast

text \<open>
  When a confirm succeeds: with the invariant, a confirm goes through exactly when the
  booking exists and its booth is available. Otherwise the missing booking is not found and the
  taken booth answers already confirmed; the status guard and the unique index never fire first.
\<close>

lemma confirm_succeeds_iff_available:
  assumes inv: "booth_inv d"
  shows "(case confirm_booking (\<lambda>_. True) i actor d of
            Inl e \<Rightarrow> (booking_by_id i d = None \<and> e = BoothBookingNotFound i) \<or>
              (\<exists>bb b. booking_by_id i d = Some bb \<and> booth_by_id (bb_booth_id bb) d = Some b \<and>
                 bo_state b = Booth_Unavailable \<and> e = BoothAlreadyConfirmed (bb_booth_id bb))
          | Inr _ \<Rightarrow> \<exists>bb b. booking_by_id i d = Some bb \<and> booth_by_id (bb_booth_id bb) d = Some b \<and>
              bo_state b = Booth_Available)"
proof (cases "booking_by_id i d")
  case None
  then show ?thesis by (simp add: confirm_booking_def)
next
  case (Some bb)
  note bb = Some booking_by_id_in [OF Some]
  from bb obtain c where "c \<in> set (booths d)" "bo_id c = bb_booth_id bb"
    using booth_of_booking [OF inv] by metis
  then obtain b where b: "booth_by_id (bb_booth_id bb) d = Some b"
    using find_key_eq [OF booth_invD(1) [OF inv]] unfolding booth_by_id_def by metis
  note bin = booth_by_id_in [OF b]
  show ?thesis
  proof (cases "bo_state b")
    case Booth_Unavailable
    with bb b show ?thesis by (simp add: confirm_booking_def)
  next
    case Booth_Available
    with booth_invD(4) [OF inv conjunct1 [OF bin]] conjunct2 [OF bin]
    have "count_rows (confirmed_on (bb_booth_id bb)) (bookings d) = 0" by simp
    then have none: "\<not> confirmed_on (bb_booth_id bb) x" if "x \<in> set (bookings d)" for x
      using that by (auto simp: count_rows_def filter_empty_conv)
    then have "bb_status bb = Booking_Pending" using bb by (cases "bb_status bb") (auto simp: confirmed_on_def)
    with Booth_Available bb b none show ?thesis
      by (simp add: confirm_booking_def exists_row_iff confirmed_on_def)
  qed
qed

lemma confirm_succeeds_iff_available_witness:
  "\<not> isl (confirm_booking (\<lambda>_. True) 85 None ex_db)"
proof -
  have "booking_by_id 85 ex_db \<noteq> None" "booth_by_id 80 ex_db = Some (ex_booth 80 1 Booth_Available)"
    "\<And>bb. booking_by_id 85 ex_db = Some bb \<Longrightarrow> bb_booth_id bb = 80"
    by (auto simp: booth_eval)
  with confirm_succeeds_iff_available [OF ex_booth_inv, of 85 None] show ?thesis
    by (auto simp: ex_booth_def split: sum.splits)
qed



text \<open>
  A taken booth stays taken: every verb but its own release keeps an unavailable booth
  unavailable, with the same event, order line or its first one, and the paid mark if it had it;
  in particular it cannot be deleted and its confirmed booking cannot be withdrawn.
\<close>

lemma only_release_frees_a_booth:
  assumes step: "booth_step v d = Inr d'" and inv: "booth_inv d"
    and b: "b \<in> set (booths d)" "bo_state b = Booth_Unavailable" and v: "v \<noteq> Release_Booth (bo_id b)"
    and x: "x \<in> set (bookings d)" "bb_booth_id x = bo_id b" "bb_status x = Booking_Confirmed"
  shows "x \<in> set (bookings d') \<and>
    (\<exists>b' \<in> set (booths d'). bo_id b' = bo_id b \<and> bo_event_id b' = bo_event_id b \<and>
       bo_state b' = Booth_Unavailable \<and> bo_line_id b' = bo_line_id b \<and> (bo_paid b \<longrightarrow> bo_paid b'))"
proof -
  have found: "booth_by_id (bo_id b) d = Some b"
    using find_key_eq [OF booth_invD(1) [OF inv] b(1)] by (simp add: booth_by_id_def)
  have keep: ?thesis if "booths d' = upd_rows p f (booths d)" "bookings d' = bookings d"
    "\<And>c. bo_id (f c) = bo_id c \<and> bo_event_id (f c) = bo_event_id c \<and> bo_state (f c) = bo_state c \<and>
       bo_line_id (f c) = bo_line_id c \<and> (bo_paid c \<longrightarrow> bo_paid (f c))" for p f
  proof -
    have "(if p b then f b else b) \<in> set (booths d')" using b(1) by (auto simp: that in_upd_rows_iff)
    then show ?thesis using that(2,3) b x by (intro conjI bexI [of _ "if p b then f b else b"]) auto
  qed
  have same: ?thesis if "b \<in> set (booths d')" "x \<in> set (bookings d')" using that b x by blast
  show ?thesis
  proof (cases v)
    case (Create_Booth i e c n)
    with step obtain y where y: "create_booth (\<lambda>_. True) i e c n None d = Inr (y, d')" by (auto simp: result_simps)
    then show ?thesis using b(1) x(1)
      by (intro same) (auto simp: create_booth_def Let_def result_simps split: if_splits)
  next
    case (Patch_Booth i p)
    with step obtain y where "patch_booth (\<lambda>_. True) i p None d = Inr (y, d')" by (auto simp: result_simps)
    from patch_boothD [OF this] show ?thesis by (rule keep) simp
  next
    case (Delete_Booth i)
    with step obtain y where "delete_booth i None d = Inr (y, d')" by (auto simp: result_simps)
    then have del: "booths d' = del_rows (\<lambda>x. bo_id x = i) (booths d)" "bookings d' = bookings d"
      and "\<not> 0 < count_rows (\<lambda>bb. bb_booth_id bb = i) (bookings d)"
      by (auto simp: delete_booth_def Let_def result_simps split: if_splits)
    with x have "bo_id b \<noteq> i" by (auto simp: count_rows_pos_iff)
    then show ?thesis using b(1) x(1) by (intro same) (simp_all add: del in_del_rows_iff)
  next
    case (Create_Booking i j input)
    with step obtain y where "create_booking (\<lambda>_. True) i j input None d = Inr (y, d')" by (auto simp: result_simps)
    then show ?thesis using b(1) x(1)
      by (intro same) (auto simp: create_booking_def Let_def result_simps split: if_splits option.splits)
  next
    case (Confirm_Booking i)
    with step obtain y z where "confirm_booking (\<lambda>_. True) i None d = Inr ((y, z), d')"
      by (auto simp: result_simps)
    then obtain bb c where bb: "booking_by_id i d = Some bb" and c: "booth_by_id (bb_booth_id bb) d = Some c"
      and st: "bo_state c = Booth_Available" "bb_status bb = Booking_Pending"
      and d': "bookings d' = upd_rows (\<lambda>x. bb_id x = i) (\<lambda>x. x\<lparr>bb_status := Booking_Confirmed\<rparr>) (bookings d)"
        "booths d' = upd_rows (\<lambda>x. bo_id x = bb_booth_id bb) (confirm_booth_row bb) (booths d)"
      by (elim confirm_bookingE)
    have "bo_id b \<noteq> bb_booth_id bb" using c found st b(2) by auto
    moreover have "bb_id x \<noteq> i" using key_unique [OF booth_invD(2) [OF inv] x(1)]
        booking_by_id_in [OF bb] st(2) x(3) by auto
    ultimately show ?thesis using b(1) x(1)
      by (intro same) (unfold d' in_upd_rows_iff, force+)
  next
    case (Release_Booth i)
    with step obtain y where "release_booth i None d = Inr (y, d')" by (auto simp: result_simps)
    then have d': "bookings d' = del_rows (\<lambda>bb. bb_booth_id bb = i) (bookings d)"
      "booths d' = upd_rows (\<lambda>x. bo_id x = i \<and> bo_state x = Booth_Unavailable)
         (\<lambda>x. x\<lparr>bo_state := Booth_Available\<rparr>) (booths d)"
      by (auto simp: release_booth_def result_simps)
    have "bo_id b \<noteq> i" using v Release_Booth by auto
    then show ?thesis using b(1) x
      by (intro same) (unfold d' in_upd_rows_iff in_del_rows_iff, force+)
  next
    case (Delete_Booking i)
    with step obtain y where "delete_booking i None d = Inr (y, d')" by (auto simp: result_simps)
    then have d': "bookings d' = del_rows (\<lambda>bb. bb_id bb = i \<and> bb_status bb = Booking_Pending) (bookings d)"
      "booths d' = booths d" by (auto simp: delete_booking_def split: if_splits)
    show ?thesis using b(1) x by (intro same) (simp_all add: d' in_del_rows_iff)
  next
    case (Mark_Paid ls)
    with step have d': "d' = snd (mark_booths_paid ls d)" by simp
    show ?thesis unfolding d' by (rule keep [unfolded d', OF mark_booths_paid_booths]) simp
  qed
qed

lemma only_release_frees_a_booth_witness:
  "\<exists>d'. booth_step (Delete_Booking 86)
       (ex_db\<lparr>booths := [ex_booth 80 1 Booth_Unavailable],
          bookings := [ex_booking 85 80 None Booking_Confirmed, ex_booking 86 80 None Booking_Pending]\<rparr>) = Inr d' \<and>
     ex_booking 85 80 None Booking_Confirmed \<in> set (bookings d')"
proof -
  let ?d = "ex_db\<lparr>booths := [ex_booth 80 1 Booth_Unavailable],
          bookings := [ex_booking 85 80 None Booking_Confirmed, ex_booking 86 80 None Booking_Pending]\<rparr>"
  have "\<not> isl (booth_step (Delete_Booking 86) ?d)"
    by (simp add: delete_booking_def booth_eval)
  then obtain d' where ok: "booth_step (Delete_Booking 86) ?d = Inr d'" using isr_obtain by blast
  have inv: "booth_inv ?d"
    by (rule booth_invI)
      (auto simp: ex_booth_def ex_booking_def count_rows_def confirmed_on_def line_event_def)
  from only_release_frees_a_booth [OF ok inv, of "ex_booth 80 1 Booth_Unavailable" "ex_booking 85 80 None Booking_Confirmed"] ok
  show ?thesis by (auto simp: ex_booth_def ex_booking_def)
qed

text \<open>
  A second intent of the same order line on the same booth is answered as already confirmed,
  also while the booth is available and nothing on it is confirmed: the line grain's unique
  violation and the exclusivity wall's share one refusal.
\<close>

lemma duplicate_intent_reads_as_confirmed:
  assumes inv: "booth_inv d" and b: "booth_by_id i d = Some b" "bo_state b = Booth_Available"
    and x: "x \<in> set (bookings d)" "bb_booth_id x = i" "bb_line_id x = Some line"
    and input: "bi_line_id input = Some line"
  shows "create_booking (\<lambda>_. True) fresh i input actor d = Inl (BoothAlreadyConfirmed i) \<and>
    (\<forall>y \<in> set (bookings d). bb_booth_id y = i \<longrightarrow> bb_status y = Booking_Pending)"
proof -
  note bin = booth_by_id_in [OF b(1)]
  have at: "line_event d line (bo_event_id b)" using bin x unfolding line_event_def by metis
  have "\<not> crosses_events line (bo_event_id b) d"
  proof
    assume "crosses_events line (bo_event_id b) d"
    then obtain e where "line_event d line e" "e \<noteq> bo_event_id b"
      unfolding crosses_events_def exists_row_iff line_event_def by metis
    with booth_invD(5) [OF inv at] show False by blast
  qed
  moreover have "bb_status y = Booking_Pending" if "y \<in> set (bookings d)" "bb_booth_id y = i" for y
    using booth_invD(4) [OF inv conjunct1 [OF bin]] bin b(2) that
    by (cases "bb_status y") (auto simp: count_rows_def filter_empty_conv confirmed_on_def)
  ultimately show ?thesis using b(1) x input
    by (auto simp: create_booking_def Let_def booking_unique_ok_def exists_row_iff)
qed

lemma duplicate_intent_reads_as_confirmed_witness:
  "create_booking (\<lambda>_. True) 99 80 \<lparr>bi_line_id = Some 95, bi_partner_id = None, bi_contact_name = None,
     bi_contact_email = None, bi_contact_phone = None\<rparr> None ex_db = Inl (BoothAlreadyConfirmed 80)"
proof -
  have "booth_by_id 80 ex_db = Some (ex_booth 80 1 Booth_Available)" by (simp add: booth_eval)
  from duplicate_intent_reads_as_confirmed [OF ex_booth_inv this, of "ex_booking 85 80 (Some 95) Booking_Pending" 95]
  show ?thesis by (simp add: ex_booth_def ex_booking_def ex_db_def)
qed

text \<open>
  A booth keeps its first order line: once a booth carries a line, confirming a booking of
  another line does not move it, so the paid fact of the winning order latches that booth only
  when it names the old line too.
\<close>

lemma paid_latch_follows_the_first_line:
  assumes ok: "confirm_booking checks i actor d = Inr ((bb', b'), d')" and inv: "booth_inv d"
    and b: "b \<in> set (booths d)" "bo_id b = bo_id b'" "bo_line_id b = Some old" "\<not> bo_paid b"
    and ls: "old \<notin> set ls"
  shows "bo_line_id b' = Some old \<and> b' \<in> set (booths (snd (mark_booths_paid ls d'))) \<and> \<not> bo_paid b'"
proof -
  from ok obtain bb c where c: "booth_by_id (bb_booth_id bb) d = Some c"
    and b': "b' = confirm_booth_row bb c"
    and d': "booths d' = upd_rows (\<lambda>x. bo_id x = bb_booth_id bb) (confirm_booth_row bb) (booths d)"
    by (elim confirm_bookingE)
  note cin = booth_by_id_in [OF c]
  have "c = b" using key_unique [OF booth_invD(1) [OF inv] conjunct1 [OF cin] b(1)] b(2) b' by simp
  then have fields: "bo_line_id b' = Some old" "\<not> bo_paid b'" using b by (simp_all add: b' confirm_booth_row_def)
  moreover have "b' \<in> set (booths d')" using cin by (auto simp: d' b' in_upd_rows_iff)
  ultimately show ?thesis using ls unfolding mark_booths_paid_booths in_upd_rows_iff by force
qed

lemma paid_latch_follows_the_first_line_witness:
  "\<exists>bb' b' d'. confirm_booking (\<lambda>_. True) 85 None
       (ex_db\<lparr>booths := [(ex_booth 80 1 Booth_Available)\<lparr>bo_line_id := Some 94\<rparr>, ex_booth 81 2 Booth_Available]\<rparr>)
       = Inr ((bb', b'), d') \<and> bb_line_id bb' = Some 95 \<and> bo_line_id b' = Some 94 \<and>
     b' \<in> set (booths (snd (mark_booths_paid [95] d'))) \<and> \<not> bo_paid b'"
proof -
  let ?b = "(ex_booth 80 1 Booth_Available)\<lparr>bo_line_id := Some 94\<rparr>"
  let ?d = "ex_db\<lparr>booths := [?b, ex_booth 81 2 Booth_Available]\<rparr>"
  have "\<not> isl (confirm_booking (\<lambda>_. True) 85 None ?d)" by (simp add: booth_eval)
  then obtain bb' b' d' where ok: "confirm_booking (\<lambda>_. True) 85 None ?d = Inr ((bb', b'), d')"
    by (metis isr_obtain2 surj_pair)
  from ok have *: "bb_line_id bb' = Some 95" "bo_id b' = 80" by (auto simp: booth_eval)
  have inv: "booth_inv ?d"
    by (rule booth_invI)
      (auto simp: ex_db_def ex_booth_def ex_booking_def count_rows_def confirmed_on_def line_event_def)
  from paid_latch_follows_the_first_line [OF ok inv, of ?b 94 "[95]"] ok * show ?thesis
    by (simp add: ex_booth_def)
qed

end
