(* ===== verification/Scheduler.thy ===== *)
theory Scheduler
  imports Booths Events Seats "HOL-Library.Option_ord"
begin

text \<open>
  The communication scheduler: \<open>infrastructure/persistence/scheduler_repository.rs\<close>, the pass of
  \<open>application/service/scheduler_service.rs\<close> and the host ports of \<open>template_port.rs\<close> and
  \<open>sms_port.rs\<close>. A pass runs at one instant; rows another pass holds locked (SKIP LOCKED) are
  rows not in the table. The ports are functions over a host state of any type, so a port may
  answer differently each time it is called. The receipt walk is a loop that need not end: it is
  a \<open>partial_function\<close> whose value is \<open>None\<close> when it runs forever.
\<close>

section \<open>Data\<close>

record sched_env =
  sd_now :: timestamp
  sd_receipt_id :: "uuid \<Rightarrow> uuid \<Rightarrow> uuid"
  sd_add :: "timestamp \<Rightarrow> int \<Rightarrow> event_interval_unit \<Rightarrow> timestamp"

record sched_row =
  sr_id :: uuid
  sr_event_id :: uuid
  sr_interval_nbr :: int
  sr_interval_unit :: string
  sr_interval_kind :: string
  sr_channel :: string
  sr_template_ref :: "uuid option"
  sr_template_kind :: "string option"
  sr_done :: bool
  sr_last_registration :: "uuid option"

definition sched_row_of :: "mail_rec \<Rightarrow> sched_row" where
  "sched_row_of m =
     \<lparr>sr_id = ml_id m, sr_event_id = ml_event_id m, sr_interval_nbr = ml_interval_nbr m,
      sr_interval_unit = interval_unit_to_str (ml_interval_unit m),
      sr_interval_kind = interval_kind_to_str (ml_interval_kind m),
      sr_channel = notification_channel_to_str (ml_channel m), sr_template_ref = ml_template_ref m,
      sr_template_kind = ml_template_kind m, sr_done = ml_done m,
      sr_last_registration = ml_last_registration m\<rparr>"

record due_receipt =
  dr_receipt_id :: uuid
  dr_registration_id :: uuid
  dr_name :: string
  dr_email :: string
  dr_phone :: "string option"
  dr_barcode :: string
  dr_scheduled :: "timestamp option"

section \<open>The repository\<close>

text \<open>\<open>r.state IN ('open','done') AND r.active\<close> on the event's registrations.\<close>

definition eligible :: "uuid \<Rightarrow> reg_rec \<Rightarrow> bool" where
  "eligible event r \<longleftrightarrow> rg_event_id r = event \<and> rg_state r \<in> {Reg_Open, Reg_Done} \<and> rg_active r"

definition has_sent :: "uuid \<Rightarrow> uuid \<Rightarrow> db \<Rightarrow> bool" where
  "has_sent m r d \<longleftrightarrow>
     exists_row (\<lambda>x. mr_scheduler_id x = m \<and> mr_registration_id x = r \<and> mr_sent x) (receipts d)"

definition has_receipt :: "uuid \<Rightarrow> uuid \<Rightarrow> db \<Rightarrow> bool" where
  "has_receipt m r d \<longleftrightarrow>
     exists_row (\<lambda>x. mr_scheduler_id x = m \<and> mr_registration_id x = r) (receipts d)"

definition work_remains :: "mail_rec \<Rightarrow> db \<Rightarrow> bool" where
  "work_remains m d \<longleftrightarrow>
     exists_row (\<lambda>r. eligible (ml_event_id m) r \<and> \<not> has_sent (ml_id m) (rg_id r) d) (registrations d)"

definition claimable :: "sched_env \<Rightarrow> db \<Rightarrow> mail_rec \<Rightarrow> bool" where
  "claimable env d m \<longleftrightarrow>
     \<not> ml_done m \<and>
     (case ml_scheduled m of None \<Rightarrow> False | Some t \<Rightarrow> t \<le> sd_now env) \<and>
     exists_row (\<lambda>e. ev_id e = ml_event_id m \<and> ev_kanban e \<noteq> Kanban_Cancel) (events d) \<and>
     work_remains m d"

definition claim_due :: "sched_env \<Rightarrow> int \<Rightarrow> db \<Rightarrow> sched_row list" where
  "claim_due env limit d =
     map sched_row_of (limit_rows limit (sort_key ml_scheduled (sel_rows (claimable env d) (mails d))))"

text \<open>The anti-join: eligible registrations of the scheduler's event with no receipt yet.\<close>

definition missing_receipts :: "mail_rec \<Rightarrow> db \<Rightarrow> reg_rec list" where
  "missing_receipts m d =
     sort_key rg_id (sel_rows (\<lambda>r. eligible (ml_event_id m) r \<and> \<not> has_receipt (ml_id m) (rg_id r) d)
       (registrations d))"

definition receipt_due_at :: "sched_env \<Rightarrow> mail_rec \<Rightarrow> reg_rec \<Rightarrow> timestamp" where
  "receipt_due_at env m r =
     (if ml_interval_unit m = Unit_Now then rg_created_at r
      else sd_add env (rg_created_at r) (ml_interval_nbr m) (ml_interval_unit m))"

definition new_receipt :: "sched_env \<Rightarrow> mail_rec \<Rightarrow> reg_rec \<Rightarrow> receipt_rec" where
  "new_receipt env m r =
     \<lparr>mr_id = sd_receipt_id env (ml_id m) (rg_id r), mr_scheduler_id = ml_id m,
      mr_registration_id = rg_id r, mr_scheduled = Some (receipt_due_at env m r),
      mr_sent = False, mr_outcome = None\<rparr>"

definition greatest :: "uuid option \<Rightarrow> uuid \<Rightarrow> uuid option" where
  "greatest w i = Some (case w of None \<Rightarrow> i | Some j \<Rightarrow> max j i)"

definition materialize_receipts :: "sched_env \<Rightarrow> sched_row \<Rightarrow> int \<Rightarrow> db \<Rightarrow> uuid list \<times> db" where
  "materialize_receipts env s cap d =
     (case mail_by_id (sr_id s) d of
        None \<Rightarrow> ([], d)
      | Some m \<Rightarrow>
          let rows = limit_rows cap (missing_receipts m d); ids = map rg_id rows;
              d1 = d\<lparr>receipts := receipts d @ map (new_receipt env m) rows\<rparr>
          in (ids, if ids = [] then d1
                   else d1\<lparr>mails := upd_rows (\<lambda>x. ml_id x = sr_id s)
                      (\<lambda>x. x\<lparr>ml_last_registration := greatest (ml_last_registration x) (last ids)\<rparr>) (mails d1)\<rparr>))"

definition unmaterialized_count :: "uuid \<Rightarrow> db \<Rightarrow> int" where
  "unmaterialized_count i d =
     (case mail_by_id i d of
        None \<Rightarrow> 0
      | Some m \<Rightarrow> count_rows (\<lambda>r. eligible (ml_event_id m) r \<and> \<not> has_receipt i (rg_id r) d) (registrations d))"

definition due_row :: "sched_env \<Rightarrow> uuid \<Rightarrow> db \<Rightarrow> receipt_rec \<Rightarrow> due_receipt option" where
  "due_row env i d mr =
     (case registration_by_id (mr_registration_id mr) d of
        None \<Rightarrow> None
      | Some r \<Rightarrow>
          if mr_scheduler_id mr = i \<and> \<not> mr_sent mr \<and>
             (case mr_scheduled mr of None \<Rightarrow> True | Some t \<Rightarrow> t \<le> sd_now env) \<and>
             rg_state r \<in> {Reg_Open, Reg_Done} \<and> rg_active r
          then Some \<lparr>dr_receipt_id = mr_id mr, dr_registration_id = mr_registration_id mr,
                 dr_name = rg_name r, dr_email = rg_email r, dr_phone = rg_phone r,
                 dr_barcode = rg_barcode r, dr_scheduled = mr_scheduled mr\<rparr>
          else None)"

definition all_due :: "sched_env \<Rightarrow> uuid \<Rightarrow> db \<Rightarrow> due_receipt list" where
  "all_due env i d =
     sort_key dr_scheduled (sort_key dr_registration_id (List.map_filter (due_row env i d) (receipts d)))"

definition due_receipts :: "sched_env \<Rightarrow> uuid \<Rightarrow> int \<Rightarrow> db \<Rightarrow> due_receipt list" where
  "due_receipts env i limit d = limit_rows limit (all_due env i d)"

definition close_receipt :: "string \<Rightarrow> uuid \<Rightarrow> db \<Rightarrow> db" where
  "close_receipt outcome i d =
     d\<lparr>receipts := upd_rows (\<lambda>x. mr_id x = i \<and> \<not> mr_sent x)
         (\<lambda>x. x\<lparr>mr_sent := True, mr_outcome := Some outcome\<rparr>) (receipts d)\<rparr>"

definition mark_receipt_queued :: "uuid \<Rightarrow> db \<Rightarrow> db" where
  "mark_receipt_queued = close_receipt ''queued''"

definition mark_receipt_dropped_window_closed :: "uuid \<Rightarrow> db \<Rightarrow> db" where
  "mark_receipt_dropped_window_closed = close_receipt ''dropped_window_closed''"

definition record_failure :: "sched_env \<Rightarrow> uuid \<Rightarrow> event_mail_error_kind \<Rightarrow> db \<Rightarrow> db" where
  "record_failure env i kind d =
     d\<lparr>mails := upd_rows (\<lambda>m. ml_id m = i)
         (\<lambda>m. m\<lparr>ml_error_kind := Some kind, ml_error_at := Some (sd_now env)\<rparr>) (mails d)\<rparr>"

definition clear_failure :: "uuid \<Rightarrow> db \<Rightarrow> db" where
  "clear_failure i d =
     d\<lparr>mails := upd_rows (\<lambda>m. ml_id m = i)
         (\<lambda>m. m\<lparr>ml_error_kind := None, ml_error_at := None\<rparr>) (mails d)\<rparr>"

definition recompute_mail_done :: "uuid \<Rightarrow> db \<Rightarrow> bool \<times> db" where
  "recompute_mail_done i d =
     (case mail_by_id i d of
        None \<Rightarrow> (True, d)
      | Some m \<Rightarrow>
          (\<not> work_remains m d,
           d\<lparr>mails := upd_rows (\<lambda>x. ml_id x = i) (\<lambda>x. x\<lparr>ml_done := \<not> work_remains x d\<rparr>) (mails d)\<rparr>))"

definition rearm :: "sched_env \<Rightarrow> uuid \<Rightarrow> db \<Rightarrow> db" where
  "rearm env i d =
     d\<lparr>mails := upd_rows (\<lambda>m. ml_id m = i \<and> \<not> ml_done m)
         (\<lambda>m. m\<lparr>ml_scheduled := Some (sd_now env)\<rparr>) (mails d)\<rparr>"

text \<open>
  The pending receipts of cancelled registrations; an unordered \<open>LIMIT\<close> is taken in the order
  of the table.
\<close>

definition pending_of_cancelled :: "db \<Rightarrow> receipt_rec \<Rightarrow> bool" where
  "pending_of_cancelled d x \<longleftrightarrow>
     \<not> mr_sent x \<and>
     exists_row (\<lambda>r. rg_id r = mr_registration_id x \<and> rg_state r = Reg_Cancel) (registrations d)"

definition propagate_cancellations :: "int \<Rightarrow> db \<Rightarrow> int \<times> db" where
  "propagate_cancellations limit d =
     (let ids = map mr_id (limit_rows limit (sel_rows (pending_of_cancelled d) (receipts d)));
          n = count_rows (\<lambda>x. mr_id x \<in> set ids) (receipts d);
          d1 = d\<lparr>receipts := del_rows (\<lambda>x. mr_id x \<in> set ids) (receipts d)\<rparr>
      in (n, if n > 0
             then record_audit ''scheduler_run'' None ''mail_scheduler'' (Some 0)
                    (JObj [(''verb'', JStr ''cancellation_propagation''), (''deleted_pending_receipts'', JNum n)]) d1
             else d1))"

text \<open>
  The template cascade. \<open>fk_mail_registrations_scheduler_id\<close> restricts: a scheduler row with a
  receipt cannot be deleted, and the statement's error ends the transaction.
\<close>

definition template_dependent :: "string \<Rightarrow> uuid \<Rightarrow> mail_rec \<Rightarrow> bool" where
  "template_dependent kind ref m \<longleftrightarrow> ml_template_ref m = Some ref \<and> ml_template_kind m = Some kind"

definition cascade_delete_template_dependents ::
    "string \<Rightarrow> uuid \<Rightarrow> uuid option \<Rightarrow> db \<Rightarrow> event_error + ((int \<times> int) \<times> db)" where
  "cascade_delete_template_dependents kind ref actor d =
     bind_r (require (\<not> exists_row (\<lambda>m. template_dependent kind ref m \<and>
                 exists_row (\<lambda>x. mr_scheduler_id x = ml_id m) (receipts d)) (mails d))
               (Database ''fk_mail_registrations_scheduler_id'')) (\<lambda>_.
     let dep = (\<lambda>t. tm_template_ref t = Some ref \<and> tm_template_kind t = Some kind);
         n = count_rows (template_dependent kind ref) (mails d); k = count_rows dep (type_mails d)
     in Inr ((n, k), record_audit ''template_cascade'' actor ''mail_scheduler'' (Some ref)
          (JObj [(''template_kind'', JStr kind), (''mails_deleted'', JNum n), (''type_mails_deleted'', JNum k)])
          (d\<lparr>mails := del_rows (template_dependent kind ref) (mails d),
             type_mails := del_rows dep (type_mails d)\<rparr>)))"

definition on_template_deleted ::
    "string \<Rightarrow> uuid \<Rightarrow> uuid option \<Rightarrow> db \<Rightarrow> event_error + ((int \<times> int) \<times> db)" where
  "on_template_deleted kind ref actor d =
     (if trim kind = [] then Inl (Validation ''template cascade requires a template_kind'')
      else cascade_delete_template_dependents kind ref actor d)"

definition find_scheduler :: "uuid \<Rightarrow> db \<Rightarrow> event_error + sched_row" where
  "find_scheduler i d = ok_or (map_option sched_row_of (mail_by_id i d)) EventNotFound"

definition list_schedulers :: "uuid \<Rightarrow> db \<Rightarrow> sched_row list" where
  "list_schedulers event d = map sched_row_of (sort_key ml_id (sel_rows (\<lambda>m. ml_event_id m = event) (mails d)))"

definition sweepable :: "timestamp \<Rightarrow> db \<Rightarrow> event_rec \<Rightarrow> bool" where
  "sweepable now d e \<longleftrightarrow>
     ev_kanban e \<notin> {Kanban_Done, Kanban_Cancel} \<and> ev_date_end e < now \<and>
     \<not> exists_row (\<lambda>s. st_id s = ev_stage_id e \<and> st_pipe_end s) (stages d)"

definition audit_swept :: "uuid \<Rightarrow> db \<Rightarrow> db" where
  "audit_swept i d = record_audit ''event_mark_done'' None ''event'' (Some i) (JObj [(''verb'', JStr ''done_sweep'')]) d"

definition sweep_mark_done :: "timestamp \<Rightarrow> int \<Rightarrow> db \<Rightarrow> event_error + (uuid list \<times> db)" where
  "sweep_mark_done now limit d =
     bind_r (require (0 \<le> limit) (Database ''LIMIT must not be negative'')) (\<lambda>_.
     let ids = map ev_id (limit_rows limit (sort_key ev_date_end (sel_rows (sweepable now d) (events d))));
         d1 = d\<lparr>events := upd_rows (\<lambda>e. ev_id e \<in> set ids) (\<lambda>e. e\<lparr>ev_kanban := Kanban_Done\<rparr>) (events d)\<rparr>
     in Inr (ids, fold audit_swept ids d1))"

section \<open>The host ports\<close>

record render_ctx =
  rx_event_id :: uuid
  rx_event_name :: string
  rx_date_begin :: timestamp
  rx_date_end :: timestamp
  rx_date_tz :: string
  rx_registration_id :: uuid
  rx_name :: string
  rx_email :: string
  rx_phone :: "string option"
  rx_barcode :: string

record rendered_mail =
  rm_subject :: string
  rm_body_html :: string
  rm_body_text :: string

datatype render_failure = Template_Unresolved | Renderer_Not_Composed | Render_Failed string

fun into_error :: "render_failure \<Rightarrow> event_error" where
  "into_error Template_Unresolved = TemplateUnresolved"
| "into_error Renderer_Not_Composed = TemplateRendererNotComposed"
| "into_error (Render_Failed d) = RenderFailed d"

text \<open>The kind the pass records for a render failure.\<close>

fun failure_kind :: "render_failure \<Rightarrow> event_mail_error_kind" where
  "failure_kind Template_Unresolved = MailErr_TemplateUnresolved"
| "failure_kind Renderer_Not_Composed = MailErr_TemplateRendererNotComposed"
| "failure_kind (Render_Failed _) = MailErr_RenderFailed"

type_synonym 'w renderer = "uuid option \<Rightarrow> string option \<Rightarrow> render_ctx \<Rightarrow> 'w \<Rightarrow> (render_failure + rendered_mail) \<times> 'w"

record 'w ports =
  po_render :: "'w renderer"
  po_mail :: "string \<Rightarrow> rendered_mail \<Rightarrow> 'w \<Rightarrow> (event_error + unit) \<times> 'w"
  po_sms :: "string \<Rightarrow> string \<Rightarrow> 'w \<Rightarrow> (string + unit) \<times> 'w"

definition refusing_render :: "'w renderer" where
  "refusing_render ref kind ctx w =
     (Inl (if ref = None then Template_Unresolved else Renderer_Not_Composed), w)"

definition refusing_mail :: "string \<Rightarrow> rendered_mail \<Rightarrow> 'w \<Rightarrow> (event_error + unit) \<times> 'w" where
  "refusing_mail to m w = (Inl (EnqueueRefused ''no host mail queue composed for the event module''), w)"

definition refusing_sms :: "string \<Rightarrow> string \<Rightarrow> 'w \<Rightarrow> (string + unit) \<times> 'w" where
  "refusing_sms to body w =
     (Inl ''no host sms queue composed for the event module (gateway unconfigured)'', w)"

section \<open>The pass\<close>

record run_summary =
  su_claimed :: int
  su_materialized :: int
  su_queued :: int
  su_sms_queued :: int
  su_dropped :: int
  su_failures :: int
  su_cancelled :: int
  su_rearmed :: int
  su_completed :: int

definition summary_default :: run_summary where
  "summary_default = \<lparr>su_claimed = 0, su_materialized = 0, su_queued = 0, su_sms_queued = 0,
     su_dropped = 0, su_failures = 0, su_cancelled = 0, su_rearmed = 0, su_completed = 0\<rparr>"

text \<open>What the loop body decides about one due receipt, and what it writes for each decision.\<close>

datatype verdict = Drop_Window | Queue_Mail | Queue_Sms | Fail event_mail_error_kind

definition render_context :: "event_rec \<Rightarrow> due_receipt \<Rightarrow> render_ctx" where
  "render_context ev rc =
     \<lparr>rx_event_id = ev_id ev, rx_event_name = ev_name ev, rx_date_begin = ev_date_begin ev,
      rx_date_end = ev_date_end ev, rx_date_tz = ev_date_tz ev,
      rx_registration_id = dr_registration_id rc, rx_name = dr_name rc, rx_email = dr_email rc,
      rx_phone = dr_phone rc, rx_barcode = dr_barcode rc\<rparr>"

definition decide :: "sched_env \<Rightarrow> 'w ports \<Rightarrow> sched_row \<Rightarrow> event_rec \<Rightarrow> due_receipt \<Rightarrow> 'w \<Rightarrow> verdict \<times> 'w" where
  "decide env po s ev rc w =
     (if ev_date_end ev \<le> sd_now env then (Drop_Window, w)
      else case po_render po (sr_template_ref s) (sr_template_kind s) (render_context ev rc) w of
        (Inl f, w1) \<Rightarrow> (Fail (failure_kind f), w1)
      | (Inr mail, w1) \<Rightarrow>
          if sr_channel s = ''sms'' then
            (let phone = (case dr_phone rc of Some p \<Rightarrow> trim p | None \<Rightarrow> []) in
             if phone = [] then (Fail MailErr_RecipientInvalid, w1)
             else case po_sms po phone (rm_body_text mail) w1 of
               (Inr _, w2) \<Rightarrow> (Queue_Sms, w2)
             | (Inl _, w2) \<Rightarrow> (Fail MailErr_SmsEnqueueRefused, w2))
          else if dr_email rc = [] \<or> CHR ''@'' \<notin> set (dr_email rc) then (Fail MailErr_RecipientInvalid, w1)
          else case po_mail po (dr_email rc) mail w1 of
            (Inr _, w2) \<Rightarrow> (Queue_Mail, w2)
          | (Inl _, w2) \<Rightarrow> (Fail MailErr_EnqueueRefused, w2))"

fun settle :: "sched_env \<Rightarrow> uuid \<Rightarrow> uuid \<Rightarrow> verdict \<Rightarrow> db \<times> run_summary \<Rightarrow> db \<times> run_summary" where
  "settle env i rid Drop_Window (d, su) =
     (mark_receipt_dropped_window_closed rid d, su\<lparr>su_dropped := su_dropped su + 1\<rparr>)"
| "settle env i rid Queue_Mail (d, su) = (mark_receipt_queued rid d, su\<lparr>su_queued := su_queued su + 1\<rparr>)"
| "settle env i rid Queue_Sms (d, su) = (mark_receipt_queued rid d, su\<lparr>su_sms_queued := su_sms_queued su + 1\<rparr>)"
| "settle env i rid (Fail k) (d, su) = (record_failure env i k d, su\<lparr>su_failures := su_failures su + 1\<rparr>)"

type_synonym 'w run = "'w \<times> db \<times> run_summary"

definition walk_receipt ::
    "sched_env \<Rightarrow> 'w ports \<Rightarrow> sched_row \<Rightarrow> event_rec \<Rightarrow> due_receipt \<Rightarrow> 'w run \<Rightarrow> 'w run" where
  "walk_receipt env po s ev rc st =
     (case decide env po s ev rc (fst st) of
        (v, w) \<Rightarrow> (w, settle env (sr_id s) (dr_receipt_id rc) v (snd st)))"

definition walk_batch ::
    "sched_env \<Rightarrow> 'w ports \<Rightarrow> sched_row \<Rightarrow> event_rec \<Rightarrow> due_receipt list \<Rightarrow> 'w run \<Rightarrow> 'w run" where
  "walk_batch env po s ev due st = fold (walk_receipt env po s ev) due st"

partial_function (option) walk ::
    "sched_env \<Rightarrow> 'w ports \<Rightarrow> int \<Rightarrow> sched_row \<Rightarrow> event_rec \<Rightarrow> 'w run \<Rightarrow> 'w run option" where
  "walk env po batch s ev st =
     (let due = due_receipts env (sr_id s) batch (fst (snd st)) in
      if due = [] then Some st
      else let st' = walk_batch env po s ev due st in
        if int (length due) < batch then Some st' else walk env po batch s ev st')"

definition complete_run :: "uuid \<Rightarrow> db \<times> run_summary \<Rightarrow> bool \<times> db \<times> run_summary" where
  "complete_run i dsu =
     (case recompute_mail_done i (fst dsu) of
        (fin, d) \<Rightarrow> if fin then (fin, clear_failure i d, (snd dsu)\<lparr>su_completed := su_completed (snd dsu) + 1\<rparr>)
                   else (fin, d, snd dsu))"

definition rearm_run :: "sched_env \<Rightarrow> uuid \<Rightarrow> bool \<Rightarrow> db \<times> run_summary \<Rightarrow> db \<times> run_summary" where
  "rearm_run env i fin dsu =
     (if \<not> fin \<and> (unmaterialized_count i (fst dsu) > 0 \<or> int (length (due_receipts env i 1 (fst dsu))) > 0)
      then (rearm env i (fst dsu), (snd dsu)\<lparr>su_rearmed := su_rearmed (snd dsu) + 1\<rparr>)
      else dsu)"

definition run_one ::
    "sched_env \<Rightarrow> 'w ports \<Rightarrow> int \<Rightarrow> sched_row \<Rightarrow> 'w run \<Rightarrow> ((event_error + unit) \<times> 'w run) option" where
  "run_one env po batch s st =
     (let (w, d, su) = st in
      if sr_template_ref s = None
      then Some (Inr (), w, record_failure env (sr_id s) MailErr_TemplateUnresolved d,
                 su\<lparr>su_failures := su_failures su + 1\<rparr>)
      else case materialize_receipts env s batch d of
        (ids, d1) \<Rightarrow>
          let su1 = su\<lparr>su_materialized := su_materialized su + int (length ids)\<rparr> in
          (case find_event (sr_event_id s) d1 of
             Inl e \<Rightarrow> Some (Inl e, w, d1, su1)
           | Inr ev \<Rightarrow>
               map_option (\<lambda>(w2, dsu).
                   case complete_run (sr_id s) dsu of
                     (fin, dsu2) \<Rightarrow> (Inr (), w2, rearm_run env (sr_id s) fin dsu2))
                 (walk env po batch s ev (w, d1, su1))))"

fun run_claimed ::
    "sched_env \<Rightarrow> 'w ports \<Rightarrow> int \<Rightarrow> sched_row list \<Rightarrow> 'w run \<Rightarrow> ((event_error + unit) \<times> 'w run) option" where
  "run_claimed env po batch [] st = Some (Inr (), st)"
| "run_claimed env po batch (s # ss) st =
     (case run_one env po batch s st of
        None \<Rightarrow> None
      | Some (Inl e, st') \<Rightarrow> Some (Inl e, st')
      | Some (Inr _, st') \<Rightarrow> run_claimed env po batch ss st')"

definition run_due_schedulers ::
    "sched_env \<Rightarrow> 'w ports \<Rightarrow> int \<Rightarrow> int \<Rightarrow> 'w \<Rightarrow> db \<Rightarrow> ((event_error + unit) \<times> 'w run) option" where
  "run_due_schedulers env po batch cron w d =
     (case propagate_cancellations cron d of
        (n, d1) \<Rightarrow>
          let claimed = claim_due env cron d1 in
          run_claimed env po batch claimed
            (w, d1, summary_default\<lparr>su_cancelled := n, su_claimed := int (length claimed)\<rparr>))"

definition run_scheduler_by_id ::
    "sched_env \<Rightarrow> 'w ports \<Rightarrow> int \<Rightarrow> uuid \<Rightarrow> 'w \<Rightarrow> db \<Rightarrow> ((event_error + unit) \<times> 'w run) option" where
  "run_scheduler_by_id env po batch i w d =
     (case find_scheduler i d of
        Inl e \<Rightarrow> Some (Inl e, w, d, summary_default)
      | Inr s \<Rightarrow> run_one env po batch s (w, d, summary_default\<lparr>su_claimed := 1\<rparr>))"

section \<open>The walk\<close>

fun is_fail :: "verdict \<Rightarrow> bool" where
  "is_fail (Fail _) = True"
| "is_fail _ = False"

text \<open>
  What a walk keeps: registrations, events and every row but the receipts' outcome and the
  scheduler's error mark; a closed receipt keeps its row for good.
\<close>

definition calm :: "mail_rec \<Rightarrow> mail_rec" where
  "calm m = m\<lparr>ml_error_kind := None, ml_error_at := None\<rparr>"

definition receipt_advances :: "receipt_rec \<Rightarrow> receipt_rec \<Rightarrow> bool" where
  "receipt_advances x y \<longleftrightarrow>
     mr_id y = mr_id x \<and> mr_scheduler_id y = mr_scheduler_id x \<and>
     mr_registration_id y = mr_registration_id x \<and> mr_scheduled y = mr_scheduled x \<and>
     (mr_sent x \<longrightarrow> y = x)"

definition walk_keeps :: "db \<Rightarrow> db \<Rightarrow> bool" where
  "walk_keeps d d' \<longleftrightarrow>
     registrations d' = registrations d \<and> events d' = events d \<and>
     map calm (mails d') = map calm (mails d) \<and> audit_trail d' = audit_trail d \<and>
     list_all2 receipt_advances (receipts d) (receipts d')"

lemma receipt_advances_refl [simp]: "receipt_advances x x"
  by (simp add: receipt_advances_def)

lemma receipt_advances_trans: "receipt_advances x y \<Longrightarrow> receipt_advances y z \<Longrightarrow> receipt_advances x z"
  by (auto simp: receipt_advances_def)

lemma walk_keeps_refl [simp]: "walk_keeps d d"
  by (simp add: walk_keeps_def list_all2_same)

lemma walk_keeps_trans: "walk_keeps a b \<Longrightarrow> walk_keeps b c \<Longrightarrow> walk_keeps a c"
  unfolding walk_keeps_def list_all2_conv_all_nth
  by (elim conjE, intro conjI) (simp_all, metis receipt_advances_trans)

lemma close_receipt_keeps: "walk_keeps d (close_receipt out i d)"
  by (auto simp: walk_keeps_def close_receipt_def upd_rows_def list_all2_map2 receipt_advances_def
      intro!: list_all2_refl)

lemma record_failure_keeps: "walk_keeps d (record_failure env i k d)"
  by (simp add: walk_keeps_def record_failure_def upd_rows_def calm_def list_all2_same)

lemma settle_keeps: "walk_keeps d (fst (settle env i rid v (d, su)))"
  by (cases v) (simp_all add: mark_receipt_dropped_window_closed_def mark_receipt_queued_def
      close_receipt_keeps record_failure_keeps)

lemma walk_receipt_keeps: "walk_keeps (fst (snd st)) (fst (snd (walk_receipt env po s ev rc st)))"
  using settle_keeps by (cases st) (auto simp: walk_receipt_def split: prod.splits)

lemma walk_batch_keeps: "walk_keeps (fst (snd st)) (fst (snd (walk_batch env po s ev due st)))"
  unfolding walk_batch_def
proof (induction due arbitrary: st)
  case (Cons rc due)
  then show ?case using walk_keeps_trans [OF walk_receipt_keeps] by fastforce
qed simp

lemma walk_keeps_walk:
  "walk env po batch s ev st = Some st' \<Longrightarrow> walk_keeps (fst (snd st)) (fst (snd st'))"
proof (induction rule: walk.raw_induct [rotated 1, consumes 1])
  case (1 f env po batch s ev st st')
  show ?case
  proof (cases "due_receipts env (sr_id s) batch (fst (snd st)) = []")
    case False
    let ?b = "walk_batch env po s ev (due_receipts env (sr_id s) batch (fst (snd st))) st"
    have "walk_keeps (fst (snd ?b)) (fst (snd st'))"
      using 1(2) False 1(1) [of env po batch s ev ?b st'] by (auto simp: Let_def split: if_splits)
    then show ?thesis by (rule walk_keeps_trans [OF walk_batch_keeps])
  qed (use 1(2) in simp)
qed

text \<open>The due receipts of a scheduler after one receipt is closed.\<close>

lemma due_row_id: "due_row env i d x = Some r \<Longrightarrow> dr_receipt_id r = mr_id x \<and> \<not> mr_sent x"
  by (auto simp: due_row_def split: option.splits if_splits)

lemma due_row_sent [simp]: "mr_sent x \<Longrightarrow> due_row env i d x = None"
  by (simp add: due_row_def split: option.splits)

lemma due_row_regs: "registrations d' = registrations d \<Longrightarrow> due_row env i d' = due_row env i d"
  by (rule ext) (simp add: due_row_def registration_by_id_def)

lemma all_due_same:
  assumes "registrations d' = registrations d" "receipts d' = receipts d"
  shows "all_due env i d' = all_due env i d"
  unfolding all_due_def due_row_regs [OF assms(1)] assms(2) ..

lemma map_filter_due_close:
  "List.map_filter (due_row env i d) (upd_rows (\<lambda>x. mr_id x = rid \<and> \<not> mr_sent x)
       (\<lambda>x. x\<lparr>mr_sent := True, mr_outcome := Some out\<rparr>) xs) =
   filter (\<lambda>r. dr_receipt_id r \<noteq> rid) (List.map_filter (due_row env i d) xs)"
proof (induction xs)
  case (Cons x xs)
  then show ?case
    by (cases "due_row env i d x") (auto simp: upd_rows_def List.map_filter_simps dest: due_row_id)
qed (simp add: upd_rows_def List.map_filter_simps)

lemma all_due_close:
  "all_due env i (close_receipt out rid d) = filter (\<lambda>r. dr_receipt_id r \<noteq> rid) (all_due env i d)"
proof -
  have "due_row env i (close_receipt out rid d) = due_row env i d"
    by (rule due_row_regs) (simp add: close_receipt_def)
  then show ?thesis
    by (simp add: all_due_def close_receipt_def map_filter_due_close filter_sort)
qed

lemma all_due_settle:
  "all_due env i (fst (settle env j rid v (d, su))) =
     (if is_fail v then all_due env i d else filter (\<lambda>r. dr_receipt_id r \<noteq> rid) (all_due env i d))"
proof (cases v)
  case (Fail k)
  have "all_due env i (record_failure env j k d) = all_due env i d"
    by (rule all_due_same) (simp_all add: record_failure_def)
  with Fail show ?thesis by simp
qed (simp_all add: mark_receipt_dropped_window_closed_def mark_receipt_queued_def all_due_close)

lemma all_due_ids: "distinct (map mr_id (receipts d)) \<Longrightarrow> distinct (map dr_receipt_id (all_due env i d))"
proof -
  assume dist: "distinct (map mr_id (receipts d))"
  have "distinct (map dr_receipt_id (List.map_filter (due_row env i d) xs)) \<and>
      set (map dr_receipt_id (List.map_filter (due_row env i d) xs)) \<subseteq> mr_id ` set xs"
    if "distinct (map mr_id xs)" for xs
    using that
  proof (induction xs)
    case (Cons x xs)
    show ?case
    proof (cases "due_row env i d x")
      case (Some r)
      then have "dr_receipt_id r = mr_id x" by (simp add: due_row_id)
      with Some Cons show ?thesis by (auto simp: List.map_filter_simps)
    qed (use Cons in \<open>auto simp: List.map_filter_simps\<close>)
  qed (simp add: List.map_filter_simps)
  with dist have "distinct (map dr_receipt_id (List.map_filter (due_row env i d) (receipts d)))" by blast
  then show ?thesis by (simp add: all_due_def distinct_map)
qed

text \<open>
  How the ports treat a receipt: settled however the host state is, or refused however it is.
\<close>

definition settles :: "sched_env \<Rightarrow> 'w ports \<Rightarrow> sched_row \<Rightarrow> event_rec \<Rightarrow> due_receipt \<Rightarrow> bool" where
  "settles env po s ev rc \<longleftrightarrow> (\<forall>w. \<not> is_fail (fst (decide env po s ev rc w)))"

definition stuck :: "sched_env \<Rightarrow> 'w ports \<Rightarrow> sched_row \<Rightarrow> event_rec \<Rightarrow> due_receipt \<Rightarrow> bool" where
  "stuck env po s ev rc \<longleftrightarrow> (\<forall>w. is_fail (fst (decide env po s ev rc w)))"

lemma not_both: "settles env po s ev rc \<Longrightarrow> \<not> stuck env po s ev rc"
  by (auto simp: settles_def stuck_def)

lemma all_due_walk_receipt:
  assumes "settles env po s ev rc \<or> stuck env po s ev rc"
  shows "all_due env i (fst (snd (walk_receipt env po s ev rc st))) =
     filter (\<lambda>r. stuck env po s ev rc \<or> dr_receipt_id r \<noteq> dr_receipt_id rc) (all_due env i (fst (snd st)))"
proof (cases "decide env po s ev rc (fst st)")
  case (Pair v w)
  have "is_fail v \<longleftrightarrow> stuck env po s ev rc"
    using assms Pair unfolding settles_def stuck_def by (metis fst_conv)
  then show ?thesis
    using all_due_settle [of env i "sr_id s" "dr_receipt_id rc" v "fst (snd st)" "snd (snd st)"]
    by (simp add: walk_receipt_def Pair)
qed

lemma all_due_walk_batch:
  assumes "\<forall>rc \<in> set due. settles env po s ev rc \<or> stuck env po s ev rc"
  shows "all_due env i (fst (snd (walk_batch env po s ev due st))) =
     filter (\<lambda>r. \<forall>rc \<in> set due. stuck env po s ev rc \<or> dr_receipt_id r \<noteq> dr_receipt_id rc)
       (all_due env i (fst (snd st)))"
  using assms
proof (induction due arbitrary: st)
  case (Cons rc due)
  have "walk_batch env po s ev (rc # due) st = walk_batch env po s ev due (walk_receipt env po s ev rc st)"
    by (simp add: walk_batch_def)
  with Cons show ?case
    by (simp add: all_due_walk_receipt conj_commute)
qed (simp add: walk_batch_def)

definition ready :: "sched_env \<Rightarrow> 'w ports \<Rightarrow> sched_row \<Rightarrow> event_rec \<Rightarrow> db \<Rightarrow> bool" where
  "ready env po s ev d \<longleftrightarrow>
     distinct (map mr_id (receipts d)) \<and>
     (\<forall>rc \<in> set (all_due env (sr_id s) d). settles env po s ev rc \<or> stuck env po s ev rc)"

lemma set_due_receipts: "rc \<in> set (due_receipts env i batch d) \<Longrightarrow> rc \<in> set (all_due env i d)"
  by (auto simp: due_receipts_def limit_rows_def dest: in_set_takeD)

lemma key_eq: "distinct (map k xs) \<Longrightarrow> x \<in> set xs \<Longrightarrow> y \<in> set xs \<Longrightarrow> k x = k y \<Longrightarrow> x = y"
  by (metis distinct_map inj_onD)

text \<open>A batch drains exactly its settled receipts from the due list.\<close>

lemma batch_drains:
  assumes ready: "ready env po s ev d" and d: "d = fst (snd st)"
    and due: "due = due_receipts env (sr_id s) batch d"
  shows "all_due env (sr_id s) (fst (snd (walk_batch env po s ev due st))) =
      filter (\<lambda>r. \<not> (r \<in> set due \<and> settles env po s ev r)) (all_due env (sr_id s) d)"
    and "ready env po s ev (fst (snd (walk_batch env po s ev due st)))"
proof -
  let ?d' = "fst (snd (walk_batch env po s ev due st))"
  have cls: "\<forall>rc \<in> set due. settles env po s ev rc \<or> stuck env po s ev rc"
    using ready set_due_receipts unfolding due ready_def by blast
  have sub: "set due \<subseteq> set (all_due env (sr_id s) d)" unfolding due using set_due_receipts by blast
  have ids: "distinct (map dr_receipt_id (all_due env (sr_id s) d))"
    using ready all_due_ids unfolding ready_def by blast
  have "all_due env (sr_id s) ?d' =
      filter (\<lambda>r. \<forall>rc \<in> set due. stuck env po s ev rc \<or> dr_receipt_id r \<noteq> dr_receipt_id rc) (all_due env (sr_id s) d)"
    unfolding d by (rule all_due_walk_batch [OF cls])
  also have "\<dots> = filter (\<lambda>r. \<not> (r \<in> set due \<and> settles env po s ev r)) (all_due env (sr_id s) d)"
    using cls sub key_eq [OF ids] not_both by (intro filter_cong) (auto, blast+)
  finally show all: "all_due env (sr_id s) ?d' =
      filter (\<lambda>r. \<not> (r \<in> set due \<and> settles env po s ev r)) (all_due env (sr_id s) d)" .
  have "map mr_id (receipts ?d') = map mr_id (receipts d)"
    using walk_batch_keeps [of st env po s ev due] unfolding d walk_keeps_def
    by (auto simp: list_all2_conv_all_nth receipt_advances_def intro: nth_equalityI)
  then show "ready env po s ev ?d'" using ready unfolding ready_def all by (auto simp del: map_map)
qed

definition stuck_due :: "sched_env \<Rightarrow> 'w ports \<Rightarrow> sched_row \<Rightarrow> event_rec \<Rightarrow> db \<Rightarrow> due_receipt list" where
  "stuck_due env po s ev d = filter (stuck env po s ev) (all_due env (sr_id s) d)"

lemma batch_keeps_stuck:
  assumes "ready env po s ev (fst (snd st))" and "due = due_receipts env (sr_id s) batch (fst (snd st))"
  shows "stuck_due env po s ev (fst (snd (walk_batch env po s ev due st))) = stuck_due env po s ev (fst (snd st))"
  unfolding stuck_due_def batch_drains(1) [OF assms(1) refl assms(2)] filter_filter
  by (intro filter_cong) (auto dest: not_both)

lemma walk_some:
  assumes "ready env po s ev (fst (snd st))" and "0 < batch"
    and "int (length (stuck_due env po s ev (fst (snd st)))) < batch"
  shows "\<exists>st'. walk env po batch s ev st = Some st' \<and>
    all_due env (sr_id s) (fst (snd st')) = stuck_due env po s ev (fst (snd st))"
  using assms
proof (induction "length (all_due env (sr_id s) (fst (snd st)))" arbitrary: st rule: less_induct)
  case less
  let ?d = "fst (snd st)" and ?all = "all_due env (sr_id s) (fst (snd st))"
  let ?due = "due_receipts env (sr_id s) batch ?d"
  let ?b = "walk_batch env po s ev ?due st"
  note drain = batch_drains [OF less(2) refl refl] and keep = batch_keeps_stuck [OF less(2) refl]
  consider (empty) "?due = []" | (short) "?due \<noteq> []" "int (length ?due) < batch" | (full) "batch \<le> int (length ?due)"
    by linarith
  then show ?case
  proof cases
    case empty
    then have "?all = []" using less(3) by (simp add: due_receipts_def limit_rows_def)
    with empty show ?thesis by (subst walk.simps) (simp add: stuck_due_def)
  next
    case short
    then have "?due = ?all" by (auto simp: due_receipts_def limit_rows_def min_def split: if_splits)
    then have "all_due env (sr_id s) (fst (snd ?b)) = stuck_due env po s ev ?d"
      unfolding drain(1) stuck_due_def using less(2) by (intro filter_cong) (auto simp: ready_def dest: not_both)
    with short show ?thesis by (subst walk.simps) (simp add: Let_def)
  next
    case full
    have "\<exists>r \<in> set ?due. settles env po s ev r"
    proof (rule ccontr)
      assume none: "\<not> ?thesis"
      then have "filter (stuck env po s ev) ?due = ?due"
        using less(2) set_due_receipts unfolding ready_def by (intro filter_True) blast
      moreover have "length (filter (stuck env po s ev) ?due) \<le> length (stuck_due env po s ev ?d)"
        unfolding stuck_due_def due_receipts_def limit_rows_def
        by (metis append_take_drop_id filter_append le_add1 length_append)
      ultimately show False using full less(4) by simp
    qed
    then obtain r where r: "r \<in> set ?due" "settles env po s ev r" by blast
    then have "length (all_due env (sr_id s) (fst (snd ?b))) < length ?all"
      unfolding drain(1) using set_due_receipts by (intro length_filter_less) blast+
    from less(1) [OF this drain(2) less(3)] less(4) full less(3) keep show ?thesis
      by (subst walk.simps) (auto simp: Let_def)
  qed
qed

lemma walk_none:
  assumes "walk env po batch s ev st = Some st'"
  shows "ready env po s ev (fst (snd st)) \<Longrightarrow> 0 < batch \<Longrightarrow>
    int (length (stuck_due env po s ev (fst (snd st)))) < batch"
  using assms
proof (induction rule: walk.raw_induct [rotated 1, consumes 1])
  case (1 f env po batch s ev st st')
  let ?d = "fst (snd st)"
  let ?due = "due_receipts env (sr_id s) batch ?d"
  let ?b = "walk_batch env po s ev ?due st"
  note drain = batch_drains [OF 1(3) refl refl] and keep = batch_keeps_stuck [OF 1(3) refl]
  have le: "length (stuck_due env po s ev ?d) \<le> length (all_due env (sr_id s) ?d)"
    by (simp add: stuck_due_def)
  consider (short) "int (length ?due) < batch" | (full) "batch \<le> int (length ?due)" by linarith
  then show ?case
  proof cases
    case short
    then have "?due = all_due env (sr_id s) ?d"
      by (auto simp: due_receipts_def limit_rows_def min_def split: if_splits)
    with short le show ?thesis by simp
  next
    case full
    with 1(4) have "?due \<noteq> []" by auto
    with full 1(2) have "f env po batch s ev ?b = Some st'" by (simp add: Let_def)
    from 1(1) [OF this drain(2) 1(4)] keep show ?thesis by simp
  qed
qed

section \<open>What the scheduler promises\<close>

lemma walk_keepsD:
  assumes "walk_keeps d d'"
  shows "registrations d' = registrations d" "events d' = events d" "map calm (mails d') = map calm (mails d)"
    "list_all2 receipt_advances (receipts d) (receipts d')"
  using assms by (simp_all add: walk_keeps_def)

lemma calm_fields [simp]:
  "ml_id (calm m) = ml_id m" "ml_event_id (calm m) = ml_event_id m" "ml_done (calm m) = ml_done m"
  by (simp_all add: calm_def)

lemma calm_ids: "map calm (mails d') = map calm (mails d) \<Longrightarrow>
    map (\<lambda>m. (ml_id m, ml_event_id m)) (mails d') = map (\<lambda>m. (ml_id m, ml_event_id m)) (mails d)"
  by (drule arg_cong [where f = "map (\<lambda>m. (ml_id m, ml_event_id m))"]) (simp add: comp_def)

text \<open>The stages of one scheduler's run.\<close>

lemma run_oneE:
  assumes "run_one env po batch s (w, d, su) = Some (Inr u, w', d', su')" and "sr_template_ref s \<noteq> None"
  obtains ids d1 ev w2 d2 su2 d3 fin where
    "materialize_receipts env s batch d = (ids, d1)" and "find_event (sr_event_id s) d1 = Inr ev"
    and "walk env po batch s ev (w, d1, su\<lparr>su_materialized := su_materialized su + int (length ids)\<rparr>) = Some (w2, d2, su2)"
    and "recompute_mail_done (sr_id s) d2 = (fin, d3)"
    and "d' = d3 \<or> d' = clear_failure (sr_id s) d3 \<or> d' = rearm env (sr_id s) d3"
    and "fin \<longrightarrow> d' = clear_failure (sr_id s) d3" and "w' = w2"
proof -
  obtain ids d1 where mat: "materialize_receipts env s batch d = (ids, d1)" by fastforce
  obtain ev where ev: "find_event (sr_event_id s) d1 = Inr ev"
    using assms mat by (cases "find_event (sr_event_id s) d1") (auto simp: run_one_def Let_def)
  let ?st = "(w, d1, su\<lparr>su_materialized := su_materialized su + int (length ids)\<rparr>)"
  obtain w2 d2 su2 where wk: "walk env po batch s ev ?st = Some (w2, d2, su2)"
    using assms mat ev by (cases "walk env po batch s ev ?st") (auto simp: run_one_def Let_def)
  obtain fin d3 where re: "recompute_mail_done (sr_id s) d2 = (fin, d3)" by fastforce
  show thesis
  proof (rule that [OF mat ev wk re])
    show "d' = d3 \<or> d' = clear_failure (sr_id s) d3 \<or> d' = rearm env (sr_id s) d3"
      and "fin \<longrightarrow> d' = clear_failure (sr_id s) d3" and "w' = w2"
      using assms mat ev wk re
      by (auto simp: run_one_def Let_def complete_run_def rearm_run_def split: if_splits)
  qed
qed

lemma mail_by_id_upd:
  assumes "\<And>m. ml_id (f m) = ml_id m"
  shows "find (\<lambda>m. ml_id m = i) (upd_rows p f ms) =
    map_option (\<lambda>m. if p m then f m else m) (find (\<lambda>m. ml_id m = i) ms)"
  using assms by (induction ms) (auto simp: upd_rows_def)

lemma materialize_frame:
  assumes "materialize_receipts env s cap d = (ids, d1)"
  shows "registrations d1 = registrations d" "events d1 = events d" "audit_trail d1 = audit_trail d"
    "\<exists>new. receipts d1 = receipts d @ new \<and> (\<forall>x \<in> set new. mr_scheduler_id x = sr_id s \<and> \<not> mr_sent x)"
    "map (\<lambda>m. (ml_id m, ml_event_id m)) (mails d1) = map (\<lambda>m. (ml_id m, ml_event_id m)) (mails d)"
  using assms
  by (auto simp: materialize_receipts_def Let_def map_upd_rows new_receipt_def mail_by_id_def
      split: option.splits if_splits dest: find_Some_in)

lemma recompute_frame:
  assumes "recompute_mail_done i d = (fin, d3)"
  shows "registrations d3 = registrations d" "events d3 = events d" "receipts d3 = receipts d"
  using assms by (auto simp: recompute_mail_done_def split: option.splits)

lemma tail_frame [simp]:
  "registrations (clear_failure i d) = registrations d" "registrations (rearm env i d) = registrations d"
  "receipts (clear_failure i d) = receipts d" "receipts (rearm env i d) = receipts d"
  "events (clear_failure i d) = events d" "events (rearm env i d) = events d"
  by (simp_all add: clear_failure_def rearm_def)


definition ex_sched_env :: sched_env where
  "ex_sched_env = \<lparr>sd_now = 500, sd_receipt_id = (\<lambda>m r. 100 * m + r), sd_add = (\<lambda>t n u. t + n)\<rparr>"

definition ex_ports :: "string list ports" where
  "ex_ports = \<lparr>po_render = (\<lambda>ref kind ctx w. (Inr \<lparr>rm_subject = ''S'', rm_body_html = ''H'', rm_body_text = ''T''\<rparr>, w)),
     po_mail = (\<lambda>to m w. (Inr (), w @ [to])), po_sms = (\<lambda>to b w. (Inr (), w @ [to]))\<rparr>"

definition unwired_ports :: "unit ports" where
  "unwired_ports = \<lparr>po_render = refusing_render, po_mail = refusing_mail, po_sms = refusing_sms\<rparr>"

definition ex_sched_db :: db where
  "ex_sched_db = (ex_db_with [ex_reg 5 1 None Reg_Open])\<lparr>mails := [ex_mail 31 1 Interval_BeforeEvent False]\<rparr>"

lemmas sched_eval = run_one_def Let_def materialize_receipts_def missing_receipts_def mail_by_id_def sched_row_of_def
  eligible_def has_receipt_def exists_row_def limit_rows_def upd_rows_def sel_rows_def new_receipt_def
  receipt_due_at_def greatest_def find_event_def event_by_id_def due_receipts_def all_due_def due_row_def
  registration_by_id_def walk.simps walk_batch_def walk_receipt_def decide_def render_context_def
  mark_receipt_queued_def mark_receipt_dropped_window_closed_def close_receipt_def
  recompute_mail_done_def work_remains_def has_sent_def complete_run_def rearm_run_def clear_failure_def
  unmaterialized_count_def count_rows_def List.map_filter_simps
  ex_sched_env_def ex_ports_def ex_sched_db_def unwired_ports_def ex_defs




text \<open>
  An unwired host hangs the pass: with the refusing renderer the module installs by default,
  a scheduler with a template whose event is not over and that has at least one full batch of due
  receipts after materialization makes its run loop for ever, so neither the failure nor the other
  schedulers of the pass are ever reached again.
\<close>

lemma refusing_renderer_hangs:
  assumes ref: "sr_template_ref s \<noteq> None" and po: "po_render po = refusing_render" and batch: "0 < batch"
    and mat: "materialize_receipts env s batch d = (ids, d1)" and ev: "find_event (sr_event_id s) d1 = Inr ev"
    and open_event: "sd_now env < ev_date_end ev" and ids: "distinct (map mr_id (receipts d1))"
    and full: "batch \<le> int (length (all_due env (sr_id s) d1))"
  shows "run_one env po batch s (w, d, su) = None"
proof -
  have stk: "stuck env po s ev rc" for rc
    using po open_event by (simp add: stuck_def decide_def refusing_render_def)
  then have "ready env po s ev d1" using ids by (simp add: ready_def)
  have "walk env po batch s ev (w, d1, su') = None" for su'
  proof (rule ccontr)
    assume "walk env po batch s ev (w, d1, su') \<noteq> None"
    then obtain st' where "walk env po batch s ev (w, d1, su') = Some st'" by blast
    from walk_none [OF this _ batch] \<open>ready env po s ev d1\<close> full stk show False by (simp add: stuck_due_def)
  qed
  then show ?thesis using ref mat ev by (simp add: run_one_def Let_def)
qed

lemma refusing_renderer_hangs_witness:
  "run_one ex_sched_env unwired_ports 1 (sched_row_of (ex_mail 31 1 Interval_BeforeEvent False))
     ((), ex_sched_db, summary_default) = None"
proof -
  let ?s = "sched_row_of (ex_mail 31 1 Interval_BeforeEvent False)"
  obtain ids d1 where mat: "materialize_receipts ex_sched_env ?s 1 ex_sched_db = (ids, d1)" by fastforce
  then have d1: "receipts d1 = [\<lparr>mr_id = 3105, mr_scheduler_id = 31, mr_registration_id = 5,
      mr_scheduled = Some 400, mr_sent = False, mr_outcome = None\<rparr>]"
    "registrations d1 = registrations ex_sched_db" "events d1 = events ex_sched_db"
    by (auto simp: sched_eval)
  have s: "sr_id ?s = 31" "sr_event_id ?s = 1" "sr_template_ref ?s = Some 70"
    by (simp_all add: sched_row_of_def ex_mail_def)
  have "find_event (sr_event_id ?s) d1 = Inr (ex_event 1 False 1)"
    unfolding find_event_def event_by_id_def d1 s by (simp add: ex_sched_db_def ex_defs)
  moreover have "length (all_due ex_sched_env (sr_id ?s) d1) = 1"
    unfolding s all_due_def due_row_def registration_by_id_def d1
    by (simp add: ex_sched_db_def ex_sched_env_def ex_defs List.map_filter_simps)
  ultimately show ?thesis
    using refusing_renderer_hangs [of ?s unwired_ports 1 ex_sched_env, OF _ _ _ mat] s d1(1)
    by (simp add: unwired_ports_def ex_sched_env_def ex_event_def)
qed

text \<open>
  Late registrants: a registration that opens after a scheduler of any kind but after-sub has
  been marked done does not reopen it. The new registration has no closed receipt, so work remains,
  but the flag stays set and the claim skips the scheduler whenever it runs.
\<close>

lemma late_registrant_is_not_claimed:
  assumes reg: "register renv cmd d = Inr (r, d')" and m: "m \<in> set (mails d)" "ml_done m"
    and kind: "ml_interval_kind m \<noteq> Interval_AfterSub" and ev: "ml_event_id m = rc_event_id cmd"
    and fk: "\<forall>x \<in> set (receipts d). mr_registration_id x \<in> rg_id ` set (registrations d)"
    and ids: "distinct (map ml_id (mails d))"
  shows "m \<in> set (mails d') \<and> work_remains m d' \<and> (\<forall>senv limit. ml_id m \<notin> sr_id ` set (claim_due senv limit d'))"
proof -
  from reg have core: "register_core renv cmd None d = Inr (r, d')" by (simp add: register_def)
  then obtain e slot d1 where new: "new_registration renv cmd None e slot = Inr r"
    and ins: "insert_registration (se_checks renv) r d = Inr d1" and d': "d' = after_insert renv cmd None r d1"
    by (elim register_coreE)
  from ins have d1: "mails d1 = mails d" "registrations d1 = registrations d @ [r]" "receipts d1 = receipts d"
    and fresh: "rg_id r \<notin> rg_id ` set (registrations d)"
    by (auto simp: insert_registration_def result_simps exists_key_iff split: if_splits)
  have same: "registrations d' = registrations d @ [r]" "receipts d' = receipts d"
    by (simp_all add: d' frame_simps d1)
  have mails: "mails d' = upd_rows (\<lambda>m. ml_event_id m = rc_event_id cmd \<and> ml_interval_kind m = Interval_AfterSub)
      (\<lambda>m. m\<lparr>ml_scheduled := Some (se_now renv), ml_done := False\<rparr>) (mails d)"
    by (simp add: d' after_insert_def born_state_def Let_def frame_simps d1 arm_after_sub_def)
  have min: "m \<in> set (mails d')" using m(1) kind by (auto simp: mails in_upd_rows_iff intro!: bexI [of _ m])
  have "rg_state r = Reg_Open" "rg_event_id r = rc_event_id cmd" "rg_active r"
    using new_registration_fields [OF new] by (simp_all add: born_state_def)
  then have "eligible (ml_event_id m) r" using ev by (simp add: eligible_def)
  moreover have "\<not> has_sent (ml_id m) (rg_id r) d'"
    using fk fresh unfolding has_sent_def exists_row_iff same by metis
  ultimately have "work_remains m d'" by (auto simp: work_remains_def exists_row_iff same)
  moreover have "ml_id m \<notin> sr_id ` set (claim_due senv limit d')" for senv limit
  proof
    assume "ml_id m \<in> sr_id ` set (claim_due senv limit d')"
    then obtain x where x: "x \<in> set (mails d')" "\<not> ml_done x" "ml_id x = ml_id m"
      by (auto simp: claim_due_def limit_rows_def sched_row_of_def sel_rows_def claimable_def dest!: in_set_takeD)
    have "distinct (map ml_id (mails d'))" using ids by (simp add: mails map_upd_rows)
    from key_unique [OF this x(1) min x(3)] x(2) m(2) show False by simp
  qed
  ultimately show ?thesis using min by blast
qed

lemma late_registrant_is_not_claimed_witness:
  "\<exists>r d'. register (ex_env 3) (ex_cmd 1 None None)
       (ex_db\<lparr>mails := [ex_mail 31 1 Interval_BeforeEvent True]\<rparr>) = Inr (r, d') \<and>
     work_remains (ex_mail 31 1 Interval_BeforeEvent True) d' \<and>
     31 \<notin> sr_id ` set (claim_due ex_sched_env 1000 d')"
proof -
  let ?m = "ex_mail 31 1 Interval_BeforeEvent True" let ?d = "ex_db\<lparr>mails := [?m]\<rparr>"
  have "\<not> isl (register (ex_env 3) (ex_cmd 1 None None) ?d)"
    by (simp add: seat_eval)
  then obtain r d' where ok: "register (ex_env 3) (ex_cmd 1 None None) ?d = Inr (r, d')"
    using isr_obtain2 by blast
  have "ml_event_id ?m = rc_event_id (ex_cmd 1 None None)" "?m \<in> set (mails ?d)" "ml_done ?m"
    "ml_interval_kind ?m \<noteq> Interval_AfterSub" "receipts ?d = []" "distinct (map ml_id (mails ?d))" "ml_id ?m = 31"
    by (simp_all add: ex_cmd_def ex_defs)
  from late_registrant_is_not_claimed [OF ok this(2,3,4,1) _ this(6)] this(5,7) ok show ?thesis
    by (intro exI conjI) auto
qed

text \<open>
  The template cascade meets the receipts' foreign key: it deletes exactly the scheduler rows
  and type template rows of the deleted (kind, ref) pair when no such scheduler has a receipt, and
  fails as a database error, with nothing deleted, as soon as one of them has materialized any.
\<close>

lemma template_cascade_outcome:
  assumes "trim kind \<noteq> []"
  shows "((\<exists>e. on_template_deleted kind ref actor d = Inl e) \<longleftrightarrow>
       (\<exists>m \<in> set (mails d). template_dependent kind ref m \<and> (\<exists>x \<in> set (receipts d). mr_scheduler_id x = ml_id m))) \<and>
     (\<forall>n k d'. on_template_deleted kind ref actor d = Inr ((n, k), d') \<longrightarrow>
        (\<forall>m \<in> set (mails d'). \<not> template_dependent kind ref m) \<and>
        (\<forall>m \<in> set (mails d). m \<in> set (mails d') \<or> template_dependent kind ref m) \<and>
        (\<forall>t \<in> set (type_mails d'). tm_template_ref t \<noteq> Some ref \<or> tm_template_kind t \<noteq> Some kind) \<and>
        int (length (mails d)) = int (length (mails d')) + n \<and>
        int (length (type_mails d)) = int (length (type_mails d')) + k \<and> receipts d' = receipts d)"
    (is "?fails \<and> ?deletes")
proof
  show ?fails
    using assms by (auto simp: on_template_deleted_def cascade_delete_template_dependents_def exists_row_iff Let_def)
  have len: "int (length t) = int (length (del_rows p t)) + count_rows p t" for p and t :: "'r table"
    by (induction t) (auto simp: del_rows_def count_rows_def)
  show ?deletes
    using assms by (auto simp: on_template_deleted_def cascade_delete_template_dependents_def Let_def in_del_rows_iff
        len [of "mails d"] len [of "type_mails d"] split: if_splits)
qed

lemma template_cascade_outcome_witness:
  "(\<exists>e. on_template_deleted ''mail'' 70 None (ex_sched_db\<lparr>receipts := [\<lparr>mr_id = 3, mr_scheduler_id = 31,
       mr_registration_id = 5, mr_scheduled = None, mr_sent = True, mr_outcome = Some ''queued''\<rparr>]\<rparr>) = Inl e) \<and>
   (\<exists>n k d'. on_template_deleted ''mail'' 70 None ex_sched_db = Inr ((n, k), d') \<and>
      filter (template_dependent ''mail'' 70) (mails d') = [])"
proof -
  let ?d = "ex_sched_db\<lparr>receipts := [\<lparr>mr_id = 3, mr_scheduler_id = 31,
       mr_registration_id = 5, mr_scheduled = None, mr_sent = True, mr_outcome = Some ''queued''\<rparr>]\<rparr>"
  have kind: "trim ''mail'' \<noteq> []" by (simp add: trim_def is_space_def)
  have "\<not> isl (on_template_deleted ''mail'' 70 None ex_sched_db)"
    by (simp add: on_template_deleted_def trim_def is_space_def cascade_delete_template_dependents_def
        Let_def exists_row_def ex_sched_db_def ex_db_with_def ex_db_def empty_db_def)
  then obtain o1 d' where "on_template_deleted ''mail'' 70 None ex_sched_db = Inr (o1, d')"
    using isr_obtain2 by blast
  then obtain n k where ok: "on_template_deleted ''mail'' 70 None ex_sched_db = Inr ((n, k), d')"
    by (cases o1) auto
  have m: "template_dependent ''mail'' 70 (ex_mail 31 1 Interval_BeforeEvent False)"
    "ml_id (ex_mail 31 1 Interval_BeforeEvent False) = 31" by (simp_all add: template_dependent_def ex_mail_def)
  have "\<exists>e. on_template_deleted ''mail'' 70 None ?d = Inl e"
    using template_cascade_outcome [OF kind, of 70 None ?d] m by (auto simp: ex_sched_db_def)
  moreover have "filter (template_dependent ''mail'' 70) (mails d') = []"
    using template_cascade_outcome [OF kind, of 70 None ex_sched_db] ok unfolding filter_empty_conv by blast
  ultimately show ?thesis using ok by blast
qed

lemma filter_not_in_take:
  assumes "distinct (map k xs)"
  shows "filter (\<lambda>x. k x \<notin> set (map k (take n xs))) xs = drop n xs"
proof -
  have 1: "filter (\<lambda>x. k x \<notin> set (map k (take n xs))) (take n xs) = []"
    by (simp add: filter_empty_conv)
  have "set (map k (take n xs)) \<inter> set (map k (drop n xs)) = {}"
    using assms by (metis append_take_drop_id distinct_append map_append)
  then have 2: "filter (\<lambda>x. k x \<notin> set (map k (take n xs))) (drop n xs) = drop n xs"
    by (auto simp: filter_id_conv)
  have "filter (\<lambda>x. k x \<notin> set (map k (take n xs))) (take n xs @ drop n xs) = drop n xs"
    by (simp only: filter_append 1 2 append_Nil)
  then show ?thesis by (simp only: append_take_drop_id)
qed

text \<open>
  Lazy materialization: a pass adds one receipt for each of the first eligible registrations
  that have none, in id order and at most the cap, never a second one for a pair, and leaves the
  receipts it finds; the count still missing drops by the number added, and is zero when the cap
  was not reached, so passes drain the anti-join.
\<close>

lemma materialize_fills_the_anti_join:
  assumes mat: "materialize_receipts env s cap d = (ids, d')" and m: "mail_by_id (sr_id s) d = Some m"
    and regs: "distinct (map rg_id (registrations d))"
    and pairs: "distinct (map (\<lambda>x. (mr_scheduler_id x, mr_registration_id x)) (receipts d))"
    and cap: "0 \<le> cap"
  shows "distinct (map (\<lambda>x. (mr_scheduler_id x, mr_registration_id x)) (receipts d')) \<and>
    ids = map rg_id (take (nat cap) (missing_receipts m d)) \<and>
    receipts d' = receipts d @ map (new_receipt env m) (take (nat cap) (missing_receipts m d)) \<and>
    unmaterialized_count (sr_id s) d' = unmaterialized_count (sr_id s) d - int (length ids) \<and>
    (int (length ids) < cap \<longrightarrow> unmaterialized_count (sr_id s) d' = 0)"
proof -
  let ?M = "missing_receipts m d" let ?new = "take (nat cap) ?M"
  have mid: "ml_id m = sr_id s" using m by (auto simp: mail_by_id_def dest: find_Some_in)
  have idsq: "ids = map rg_id ?new" and rec: "receipts d' = receipts d @ map (new_receipt env m) ?new"
    and same: "registrations d' = registrations d"
    using mat m by (auto simp: materialize_receipts_def Let_def limit_rows_def)
  have "map (\<lambda>x. (ml_id x, ml_event_id x)) (mails d') = map (\<lambda>x. (ml_id x, ml_event_id x)) (mails d)"
    by (rule materialize_frame(5) [OF mat])
  moreover have "map_option (\<lambda>x. (ml_id x, ml_event_id x)) (find (\<lambda>x. ml_id x = i) xs) =
      map_option (\<lambda>x. (ml_id x, ml_event_id x)) (find (\<lambda>x. ml_id x = i) ys)"
    if "map (\<lambda>x. (ml_id x, ml_event_id x)) xs = map (\<lambda>x. (ml_id x, ml_event_id x)) ys"
    for i and xs ys :: "mail_rec list"
    using that by (induction xs ys rule: list_induct2') auto
  ultimately have "map_option (\<lambda>x. (ml_id x, ml_event_id x)) (mail_by_id (sr_id s) d') = Some (sr_id s, ml_event_id m)"
    unfolding mail_by_id_def using m mid by (simp add: mail_by_id_def)
  then obtain m' where m': "mail_by_id (sr_id s) d' = Some m'" "ml_event_id m' = ml_event_id m" by auto
  have dM: "distinct (map rg_id ?M)"
    using regs by (simp add: missing_receipts_def sel_rows_def distinct_map inj_on_def)
  have cnt: "unmaterialized_count (sr_id s) d = int (length ?M)"
    using m mid by (simp add: unmaterialized_count_def count_rows_def missing_receipts_def sel_rows_def)
  have has: "has_receipt (sr_id s) i d' \<longleftrightarrow> has_receipt (sr_id s) i d \<or> i \<in> set (map rg_id ?new)" for i
    unfolding has_receipt_def exists_row_iff rec set_append bex_Un by (auto simp: new_receipt_def mid)
  have "missing_receipts m d' = filter (\<lambda>r. rg_id r \<notin> set (map rg_id ?new)) ?M"
    unfolding missing_receipts_def sel_rows_def filter_sort filter_filter same mid has [unfolded missing_receipts_def sel_rows_def mid]
    by (rule arg_cong [where f = "sort_key rg_id"], rule filter_cong) auto
  then have rest: "missing_receipts m d' = drop (nat cap) ?M"
    using filter_not_in_take [OF dM] by simp
  have cnt': "unmaterialized_count (sr_id s) d' = int (length (missing_receipts m d'))"
    using m' mid by (simp add: unmaterialized_count_def count_rows_def missing_receipts_def sel_rows_def)
  have "(mr_scheduler_id x, mr_registration_id x) \<noteq> (sr_id s, rg_id r)"
    if "x \<in> set (receipts d)" "r \<in> set ?new" for x r
  proof -
    have "\<not> has_receipt (sr_id s) (rg_id r) d"
      using in_set_takeD [OF that(2)] by (simp add: missing_receipts_def sel_rows_def mid)
    with that(1) show ?thesis by (auto simp: has_receipt_def exists_row_iff)
  qed
  moreover have "distinct (map rg_id ?new)" using dM by (simp add: take_map [symmetric])
  ultimately have "distinct (map (\<lambda>x. (mr_scheduler_id x, mr_registration_id x)) (receipts d'))"
    using pairs by (force simp: rec new_receipt_def mid distinct_map inj_on_def comp_def)
  then show ?thesis using idsq rec cnt cnt' rest cap by auto
qed

lemma materialize_fills_the_anti_join_witness:
  "unmaterialized_count 31 (snd (materialize_receipts ex_sched_env
     (sched_row_of (ex_mail 31 1 Interval_BeforeEvent False)) 50 ex_sched_db)) = 0"
proof -
  let ?m = "ex_mail 31 1 Interval_BeforeEvent False" let ?s = "sched_row_of ?m"
  obtain ids d' where mat: "materialize_receipts ex_sched_env ?s 50 ex_sched_db = (ids, d')" by fastforce
  have "mail_by_id (sr_id ?s) ex_sched_db = Some ?m" "distinct (map rg_id (registrations ex_sched_db))"
    "receipts ex_sched_db = []" "sr_id ?s = 31" "length (registrations ex_sched_db) = 1"
    by (simp_all add: sched_row_of_def mail_by_id_def ex_sched_db_def ex_defs)
  note ex = this
  have "length (missing_receipts ?m ex_sched_db) \<le> 1"
    using ex(5) by (simp add: missing_receipts_def sel_rows_def) (metis length_filter_le ex(5))
  moreover note fills = materialize_fills_the_anti_join [OF mat ex(1,2)]
  ultimately have "int (length ids) < 50" using ex(3) by auto
  then have "unmaterialized_count (sr_id ?s) d' = 0" using fills ex(3) by fastforce
  then have "unmaterialized_count 31 d' = 0" unfolding ex(4) .
  then show ?thesis unfolding mat snd_conv .
qed

text \<open>
  Cancellation propagation: one call deletes only unsent receipts of cancelled registrations,
  at most the limit of them, and all of them when the limit is large enough; sent receipts and
  receipts of other registrations stay, and the deletion leaves one audit fact with its count.
\<close>

lemma propagation_deletes_only_pending:
  assumes run: "propagate_cancellations limit d = (n, d')" and keys: "distinct (map mr_id (receipts d))"
  shows "n = int (length (receipts d)) - int (length (receipts d')) \<and> n \<le> max 0 limit \<and>
    set (receipts d') \<subseteq> set (receipts d) \<and>
    (\<forall>x \<in> set (receipts d). x \<in> set (receipts d') \<or>
       (\<not> mr_sent x \<and> (\<exists>r \<in> set (registrations d). rg_id r = mr_registration_id x \<and> rg_state r = Reg_Cancel))) \<and>
    (count_rows (pending_of_cancelled d) (receipts d) \<le> limit \<longrightarrow>
       receipts d' = filter (\<lambda>x. \<not> pending_of_cancelled d x) (receipts d)) \<and>
    length (audit_trail d') = length (audit_trail d) + (if 0 < n then 1 else 0)"
proof -
  let ?rows = "limit_rows limit (sel_rows (pending_of_cancelled d) (receipts d))"
  let ?ids = "set (map mr_id ?rows)"
  have rec: "receipts d' = del_rows (\<lambda>x. mr_id x \<in> ?ids) (receipts d)"
    and n: "n = count_rows (\<lambda>x. mr_id x \<in> ?ids) (receipts d)"
    and aud: "length (audit_trail d') = length (audit_trail d) + (if 0 < n then 1 else 0)"
    using run by (auto simp: propagate_cancellations_def Let_def)
  have sub: "set ?rows \<subseteq> {x \<in> set (receipts d). pending_of_cancelled d x}"
    by (auto simp: limit_rows_def sel_rows_def dest: in_set_takeD)
  have hit: "mr_id x \<in> ?ids \<longleftrightarrow> x \<in> set ?rows" if "x \<in> set (receipts d)" for x
    using that sub key_unique [OF keys] by (auto simp del: set_map simp: image_iff list.set_map)
  have "length (filter (\<lambda>x. x \<in> set ?rows) (receipts d)) = card (set ?rows)"
  proof -
    have "distinct (receipts d)" using keys by (simp add: distinct_map)
    then have "length (filter (\<lambda>x. x \<in> set ?rows) (receipts d)) = card (set (filter (\<lambda>x. x \<in> set ?rows) (receipts d)))"
      by (intro distinct_card [symmetric] distinct_filter)
    also have "set (filter (\<lambda>x. x \<in> set ?rows) (receipts d)) = set ?rows" using sub by auto
    finally show ?thesis .
  qed
  moreover have "filter (\<lambda>x. mr_id x \<in> ?ids) (receipts d) = filter (\<lambda>x. x \<in> set ?rows) (receipts d)"
    using hit by (intro filter_cong) auto
  ultimately have "n = int (card (set ?rows))" by (simp add: n count_rows_def)
  also have "\<dots> \<le> max 0 limit" 
  proof -
    have "card (set ?rows) \<le> nat limit"
      using card_length [of ?rows] by (simp add: limit_rows_def)
    then show ?thesis by linarith
  qed
  finally have le: "n \<le> max 0 limit" .
  have all: "receipts d' = filter (\<lambda>x. \<not> pending_of_cancelled d x) (receipts d)"
    if "count_rows (pending_of_cancelled d) (receipts d) \<le> limit"
  proof -
    have "?rows = sel_rows (pending_of_cancelled d) (receipts d)"
      using that by (simp add: limit_rows_def sel_rows_def count_rows_def nat_le_iff le_nat_iff)
    then have "x \<in> set ?rows \<longleftrightarrow> pending_of_cancelled d x" if "x \<in> set (receipts d)" for x
      using that by (simp add: sel_rows_def)
    then show ?thesis unfolding rec del_rows_def using hit by (intro filter_cong) auto
  qed
  have len: "int (length t) = int (length (del_rows p t)) + count_rows p t" for p and t :: "receipt_rec table"
    by (induction t) (auto simp: del_rows_def count_rows_def)
  have "x \<in> set (receipts d') \<or> pending_of_cancelled d x" if "x \<in> set (receipts d)" for x
    using that hit sub unfolding rec by (auto simp: in_del_rows_iff)
  then show ?thesis
    using le all aud len [of "receipts d" "\<lambda>x. mr_id x \<in> ?ids"] n rec
    by (auto simp: pending_of_cancelled_def exists_row_iff in_del_rows_iff)
qed

lemma propagation_deletes_only_pending_witness:
  "receipts (snd (propagate_cancellations 1000 (ex_db\<lparr>registrations := [ex_reg 5 1 None Reg_Cancel],
     receipts := [\<lparr>mr_id = 3, mr_scheduler_id = 31, mr_registration_id = 5, mr_scheduled = None,
       mr_sent = False, mr_outcome = None\<rparr>]\<rparr>))) = []"
proof -
  let ?x = "\<lparr>mr_id = 3, mr_scheduler_id = 31, mr_registration_id = 5, mr_scheduled = None,
       mr_sent = False, mr_outcome = None\<rparr>"
  let ?d = "ex_db\<lparr>registrations := [ex_reg 5 1 None Reg_Cancel], receipts := [?x]\<rparr>"
  obtain n d' where run: "propagate_cancellations 1000 ?d = (n, d')" by fastforce
  have "pending_of_cancelled ?d ?x" by (simp add: pending_of_cancelled_def exists_row_def ex_reg_def)
  with propagation_deletes_only_pending [OF run] have "receipts d' = []" by (simp add: count_rows_def)
  then show ?thesis unfolding run snd_conv .
qed

text \<open>
  The done sweep closes one axis only: it moves to done, at most the limit and oldest end
  first, events that are past, open and not resting in a pipe-end stage, writes one audit fact
  for each, and changes nothing else of any event; no event changes its stage.
\<close>

lemma sweep_moves_no_stage:
  assumes run: "sweep_mark_done now limit d = Inr (ids, d')" and keys: "distinct (map ev_id (events d))"
  shows "map (\<lambda>e. e\<lparr>ev_kanban := Kanban_Normal\<rparr>) (events d') = map (\<lambda>e. e\<lparr>ev_kanban := Kanban_Normal\<rparr>) (events d) \<and>
    map ev_stage_id (events d') = map ev_stage_id (events d) \<and> int (length ids) \<le> limit \<and>
    (\<forall>e \<in> set (events d). ev_id e \<in> set ids \<longrightarrow> sweepable now d e \<and> e\<lparr>ev_kanban := Kanban_Done\<rparr> \<in> set (events d')) \<and>
    (\<forall>e \<in> set (events d). ev_id e \<notin> set ids \<longrightarrow> e \<in> set (events d')) \<and>
    length (audit_trail d') = length (audit_trail d) + length ids"
proof -
  let ?rows = "limit_rows limit (sort_key ev_date_end (sel_rows (sweepable now d) (events d)))"
  have fold_ev: "events (fold audit_swept is x) = events x"
    and fold_au: "length (audit_trail (fold audit_swept is x)) = length (audit_trail x) + length is" for "is" x
    by (induction "is" arbitrary: x) (simp_all add: audit_swept_def)
  have ids: "ids = map ev_id ?rows" and lim: "0 \<le> limit"
    and ev: "events d' = upd_rows (\<lambda>e. ev_id e \<in> set ids) (\<lambda>e. e\<lparr>ev_kanban := Kanban_Done\<rparr>) (events d)"
    and aud: "length (audit_trail d') = length (audit_trail d) + length ids"
    using run by (auto simp: sweep_mark_done_def Let_def fold_ev fold_au split: if_splits)
  have "sweepable now d e" if "e \<in> set (events d)" "ev_id e \<in> set ids" for e
  proof -
    from that(2) obtain x where x: "x \<in> set ?rows" "ev_id x = ev_id e" by (auto simp: ids)
    then have "x \<in> set (events d) \<and> sweepable now d x" by (auto simp: limit_rows_def sel_rows_def dest: in_set_takeD)
    with key_unique [OF keys _ that(1) x(2)] show ?thesis by auto
  qed
  moreover have "int (length ids) \<le> limit" using lim by (simp add: ids limit_rows_def)
  ultimately show ?thesis
    using aud by (auto simp: ev upd_rows_def intro!: map_cong)
qed

lemma sweep_moves_no_stage_witness:
  "\<exists>d'. sweep_mark_done 3000 10 ex_db = Inr ([1, 2], d') \<and> map ev_stage_id (events d') = [50, 50]"
proof -
  have "\<not> isl (sweep_mark_done 3000 10 ex_db)" by (simp add: sweep_mark_done_def Let_def)
  then obtain ids d' where ok: "sweep_mark_done 3000 10 ex_db = Inr (ids, d')" using isr_obtain2 by blast
  have "distinct (map ev_id (events ex_db))" "map ev_stage_id (events ex_db) = [50, 50]"
    by (simp_all add: ex_db_def ex_event_def)
  moreover from ok have "ids = [1, 2]"
    by (auto simp: sweep_mark_done_def Let_def sweepable_def exists_row_def sel_rows_def limit_rows_def ex_db_def ex_event_def)
  ultimately show ?thesis using sweep_moves_no_stage [OF ok] ok by simp
qed

end
