(* ===== verification/Leads.thy ===== *)
theory Leads
  imports Scheduler "HOL-Library.List_Lexorder" "HOL-Library.Product_Lexorder" "HOL-Library.Char_ord"
begin

text \<open>
  Lead generation: \<open>infrastructure/persistence/lead_command_repository.rs\<close>, the rule verbs of
  \<open>lead_command_service.rs\<close>, the pass of \<open>lead_generation_service.rs\<close> and the host's sink port
  \<open>lead_sink.rs\<close>. The sink is a pair of functions over a host state of any type. The text of a
  uuid and of a day, fresh ids and \<open>now()\<close> come from the environment; two uuids never share a
  text. A walk of one rule is a loop in the option monad; \<open>None\<close> would mean it does not end.
\<close>

section \<open>Data\<close>

record lead_env =
  le_now :: timestamp
  le_id :: uuid
  le_request_id :: "uuid \<Rightarrow> uuid"
  le_predicate_id :: "nat \<Rightarrow> uuid"
  le_provenance_id :: "uuid \<Rightarrow> string \<Rightarrow> uuid"
  le_junction_id :: "uuid \<Rightarrow> uuid \<Rightarrow> uuid"
  le_uuid :: "uuid \<Rightarrow> string"
  le_day :: "timestamp \<Rightarrow> string"
  le_checks :: "predicate_rec \<Rightarrow> bool"

record predicate_spec =
  ps_axis :: string
  ps_question_id :: "uuid option"
  ps_value_ids :: "uuid list"

record create_rule_input =
  cr_name :: string
  cr_event_id :: "uuid option"
  cr_basis :: "string option"
  cr_on_create :: "bool option"
  cr_on_confirm :: "bool option"
  cr_on_done :: "bool option"
  cr_predicates :: "predicate_spec list"

record patch_rule_input =
  pr_name :: "string option"
  pr_event_id :: "uuid option"
  pr_active :: "bool option"

record from_answer_input =
  fa_name :: string
  fa_event_id :: "uuid option"
  fa_on_create :: "bool option"
  fa_on_confirm :: "bool option"
  fa_on_done :: "bool option"
  fa_question_id :: uuid
  fa_answer_id :: uuid

record lead_view =
  lv_id :: uuid
  lv_name :: string
  lv_email :: string
  lv_phone :: "string option"
  lv_company_name :: "string option"
  lv_partner_id :: "uuid option"
  lv_sale_order_id :: "uuid option"

record lead_group =
  lg_rule_id :: uuid
  lg_event_id :: uuid
  lg_group_key :: string
  lg_grouping :: string
  lg_registrations :: "lead_view list"

record 'w lead_sink =
  si_create :: "lead_group \<Rightarrow> 'w \<Rightarrow> (string + uuid) \<times> 'w"
  si_update :: "uuid \<Rightarrow> lead_group \<Rightarrow> 'w \<Rightarrow> (string + unit) \<times> 'w"

record lead_summary =
  ls_claimed :: int
  ls_rules :: int
  ls_matched :: int
  ls_groups_created :: int
  ls_groups_grown :: int
  ls_leads_created :: int
  ls_leads_updated :: int
  ls_completed :: int
  ls_parked :: int

definition lead_summary_default :: lead_summary where
  "lead_summary_default = \<lparr>ls_claimed = 0, ls_rules = 0, ls_matched = 0, ls_groups_created = 0,
     ls_groups_grown = 0, ls_leads_created = 0, ls_leads_updated = 0, ls_completed = 0, ls_parked = 0\<rparr>"

section \<open>The closed vocabulary\<close>

definition predicate_axes :: "string list" where
  "predicate_axes = [''event'', ''event_type'', ''company'', ''question_answer'']"

definition axis_outside :: "string \<Rightarrow> event_error" where
  "axis_outside a = Validation (''predicate axis '' @ [CHR 0x27] @ a @ [CHR 0x27] @
     '' is outside the closed vocabulary [\"event\", \"event_type\", \"company\", \"question_answer\"]'')"

definition axis_no_values :: "string \<Rightarrow> event_error" where
  "axis_no_values a = Validation (''predicate axis '' @ [CHR 0x27] @ a @ [CHR 0x27] @ '' carries no values'')"

definition axis_no_question :: "string \<Rightarrow> event_error" where
  "axis_no_question a = Validation (''the '' @ a @ '' axis carries no question_id (refused)'')"

definition question_required :: event_error where
  "question_required = Validation ''the question_answer axis requires question_id (refused)''"

fun validate_predicates :: "predicate_spec list \<Rightarrow> event_error + predicate_spec list" where
  "validate_predicates [] = Inr []"
| "validate_predicates (s # ss) =
     bind_r (require (ps_axis s \<in> set predicate_axes) (axis_outside (ps_axis s))) (\<lambda>_.
     bind_r (require (ps_value_ids s \<noteq> []) (axis_no_values (ps_axis s))) (\<lambda>_.
     bind_r (if ps_axis s = ''question_answer''
             then (case ps_question_id s of None \<Rightarrow> Inl question_required | Some q \<Rightarrow> Inr s)
             else if ps_question_id s \<noteq> None then Inl (axis_no_question (ps_axis s))
             else Inr s) (\<lambda>p.
     bind_r (validate_predicates ss) (\<lambda>ps. Inr (p # ps)))))"

section \<open>Rules\<close>

text \<open>The scope of a rule: one event, or every event.\<close>

definition arm_scope :: "lead_env \<Rightarrow> uuid option \<Rightarrow> db \<Rightarrow> db" where
  "arm_scope env event d =
     fold (\<lambda>e d. upsert_lead_request (le_request_id env (ev_id e)) (ev_id e) d)
       (sel_rows (\<lambda>e. event = None \<or> event = Some (ev_id e)) (events d)) d"

definition predicate_row :: "lead_env \<Rightarrow> nat \<times> predicate_spec \<Rightarrow> event_error + predicate_rec" where
  "predicate_row env np =
     (case np of (n, p) \<Rightarrow>
        bind_r (ok_or (from_label lead_predicate_axis_to_str
                    [Axis_Event, Axis_EventType, Axis_Company, Axis_QuestionAnswer] (ps_axis p))
                  (Database ''invalid input value for enum'')) (\<lambda>a.
        let r = \<lparr>lp_id = le_predicate_id env n, lp_rule_id = le_id env, lp_axis = a,
                 lp_question_id = ps_question_id p, lp_values = ps_value_ids p\<rparr>
        in bind_r (require (le_checks env r) (Database ''fk_lead_rule_predicates_question_id'')) (\<lambda>_. Inr r)))"

fun map_r :: "('a \<Rightarrow> 'e + 'b) \<Rightarrow> 'a list \<Rightarrow> 'e + 'b list" where
  "map_r f [] = Inr []"
| "map_r f (x # xs) = bind_r (f x) (\<lambda>y. bind_r (map_r f xs) (\<lambda>ys. Inr (y # ys)))"

definition repo_create_rule ::
    "lead_env \<Rightarrow> string \<Rightarrow> uuid option \<Rightarrow> string \<Rightarrow> bool \<Rightarrow> bool \<Rightarrow> bool \<Rightarrow> predicate_spec list \<Rightarrow>
       uuid option \<Rightarrow> db \<Rightarrow> event_error + (lead_rule_rec \<times> db)" where
  "repo_create_rule env name event basis on_create on_confirm on_done preds actor d =
     bind_r (ok_or (from_label lead_basis_to_str [Basis_Registration, Basis_Attendee] basis)
               (Database ''invalid input value for enum'')) (\<lambda>b.
     let rule = \<lparr>lr_id = le_id env, lr_name = name, lr_event_id = event, lr_basis = b,
                 lr_on_create = on_create, lr_on_confirm = on_confirm, lr_on_done = on_done, lr_active = True\<rparr> in
     bind_r (require (\<not> exists_row (\<lambda>x. lr_id x = le_id env) (lead_rules d)) (Database ''lead_rules_pkey'')) (\<lambda>_.
     bind_r (require (case event of None \<Rightarrow> True | Some e \<Rightarrow> event_by_id e d \<noteq> None)
               (Database ''fk_lead_rules_event_id'')) (\<lambda>_.
     bind_r (map_r (predicate_row env) (zip [0..<length preds] preds)) (\<lambda>rows.
     Inr (rule, record_audit ''lead_rule_created'' actor ''lead_rule'' (Some (le_id env))
            (JObj [(''name'', JStr name), (''predicates'', JNum (int (length preds))),
                   (''event_id'', json_opt JId event)])
            (arm_scope env event
              (d\<lparr>lead_rules := lead_rules d @ [rule], predicates := predicates d @ rows\<rparr>)))))))"

definition repo_patch_rule ::
    "lead_env \<Rightarrow> uuid \<Rightarrow> string option \<Rightarrow> uuid option \<Rightarrow> bool option \<Rightarrow> uuid option \<Rightarrow> db \<Rightarrow>
       event_error + (lead_rule_rec \<times> db)" where
  "repo_patch_rule env i name event active actor d =
     bind_r (ok_or (find (\<lambda>r. lr_id r = i) (lead_rules d)) (LeadRuleNotFound i)) (\<lambda>old.
     bind_r (require (case event of None \<Rightarrow> True | Some e \<Rightarrow> event_by_id e d \<noteq> None)
               (Database ''fk_lead_rules_event_id'')) (\<lambda>_.
     let f = (\<lambda>r. r\<lparr>lr_name := (case name of Some n \<Rightarrow> n | None \<Rightarrow> lr_name r),
                     lr_event_id := coalesce event (lr_event_id r),
                     lr_active := (case active of Some a \<Rightarrow> a | None \<Rightarrow> lr_active r)\<rparr>);
         row = f old;
         d1 = d\<lparr>lead_rules := upd_rows (\<lambda>r. lr_id r = i) f (lead_rules d)\<rparr>;
         d2 = (if active = Some True then arm_scope env (lr_event_id row) d1 else d1)
     in Inr (row, record_audit ''lead_rule_updated'' actor ''lead_rule'' (Some i)
          (JObj [(''verb'', JStr ''patch''), (''active'', json_opt JBool active)]) d2)))"

definition find_rule :: "uuid \<Rightarrow> db \<Rightarrow> event_error + lead_rule_rec" where
  "find_rule i d = ok_or (find (\<lambda>r. lr_id r = i) (lead_rules d)) (LeadRuleNotFound i)"

definition list_rules :: "(string \<Rightarrow> 'k::linorder) \<Rightarrow> int \<Rightarrow> db \<Rightarrow> event_error + lead_rule_rec list" where
  "list_rules collation limit d =
     bind_r (require (0 \<le> limit) (Database ''LIMIT must not be negative'')) (\<lambda>_.
     Inr (limit_rows limit (sort_key (\<lambda>r. collation (lr_name r)) (sort_key lr_id (lead_rules d)))))"

definition predicates_of_rule :: "uuid \<Rightarrow> db \<Rightarrow> predicate_rec list" where
  "predicates_of_rule i d = sort_key lp_id (sel_rows (\<lambda>p. lp_rule_id p = i) (predicates d))"

definition bridge_answer_to_rule ::
    "lead_env \<Rightarrow> string \<Rightarrow> uuid option \<Rightarrow> bool \<Rightarrow> bool \<Rightarrow> bool \<Rightarrow> uuid \<Rightarrow> uuid \<Rightarrow> uuid option \<Rightarrow> db \<Rightarrow>
       event_error + (lead_rule_rec \<times> db)" where
  "bridge_answer_to_rule env name event on_create on_confirm on_done question answer actor d =
     repo_create_rule env name event ''registration'' on_create on_confirm on_done
       [\<lparr>ps_axis = ''question_answer'', ps_question_id = Some question, ps_value_ids = [answer]\<rparr>] actor d"

definition or_false :: "bool option \<Rightarrow> bool" where
  "or_false b = (case b of Some x \<Rightarrow> x | None \<Rightarrow> False)"

definition no_trigger :: event_error where
  "no_trigger = Validation ''at least one trigger (on_create / on_confirm / on_done) must be armed''"

definition empty_rule_name :: event_error where
  "empty_rule_name = Validation ''rule name must not be empty''"

definition unconstrained_rule :: event_error where
  "unconstrained_rule = Validation (''a rule carries at least one predicate '' @ em_dash @
     '' an unconstrained rule is refused'')"

definition bad_basis :: "string \<Rightarrow> event_error" where
  "bad_basis b = Validation (''basis must be registration or attendee (got '' @ b @ '')'')"

definition create_rule ::
    "lead_env \<Rightarrow> create_rule_input \<Rightarrow> uuid option \<Rightarrow> db \<Rightarrow> event_error + (lead_rule_rec \<times> db)" where
  "create_rule env input actor d =
     (let name = trim (cr_name input);
          on_create = or_false (cr_on_create input); on_confirm = or_false (cr_on_confirm input);
          on_done = or_false (cr_on_done input);
          basis = (case cr_basis input of Some b \<Rightarrow> b | None \<Rightarrow> ''registration'') in
      bind_r (require (name \<noteq> []) empty_rule_name) (\<lambda>_.
      bind_r (require (cr_predicates input \<noteq> []) unconstrained_rule) (\<lambda>_.
      bind_r (require (on_create \<or> on_confirm \<or> on_done) no_trigger) (\<lambda>_.
      bind_r (require (basis = ''registration'' \<or> basis = ''attendee'') (bad_basis basis)) (\<lambda>_.
      bind_r (validate_predicates (cr_predicates input)) (\<lambda>preds.
      repo_create_rule env name (cr_event_id input) basis on_create on_confirm on_done preds actor d))))))"

definition patch_rule ::
    "lead_env \<Rightarrow> uuid \<Rightarrow> patch_rule_input \<Rightarrow> uuid option \<Rightarrow> db \<Rightarrow> event_error + (lead_rule_rec \<times> db)" where
  "patch_rule env i input actor d =
     bind_r (require (case pr_name input of Some n \<Rightarrow> trim n \<noteq> [] | None \<Rightarrow> True) empty_rule_name) (\<lambda>_.
     repo_patch_rule env i (map_option trim (pr_name input)) (pr_event_id input) (pr_active input) actor d)"

definition from_answer ::
    "lead_env \<Rightarrow> from_answer_input \<Rightarrow> uuid option \<Rightarrow> db \<Rightarrow> event_error + (lead_rule_rec \<times> db)" where
  "from_answer env input actor d =
     (let name = trim (fa_name input);
          on_create = or_false (fa_on_create input); on_confirm = or_false (fa_on_confirm input);
          on_done = or_false (fa_on_done input) in
      bind_r (require (name \<noteq> []) empty_rule_name) (\<lambda>_.
      bind_r (require (on_create \<or> on_confirm \<or> on_done) no_trigger) (\<lambda>_.
      bridge_answer_to_rule env name (fa_event_id input) on_create on_confirm on_done
        (fa_question_id input) (fa_answer_id input) actor d)))"

text \<open>The read model: the groups and the linked leads of a rule, per grouping.\<close>

definition grouping_counts :: "uuid \<Rightarrow> event_lead_grouping \<Rightarrow> db \<Rightarrow> int \<times> int" where
  "grouping_counts i g d =
     (count_rows (\<lambda>p. pv_rule_id p = i \<and> pv_grouping p = g) (provenances d),
      count_rows (\<lambda>p. pv_rule_id p = i \<and> pv_grouping p = g \<and> pv_lead_id p \<noteq> None) (provenances d))"

definition rule_read_model ::
    "uuid \<Rightarrow> db \<Rightarrow> event_error + (lead_rule_rec \<times> predicate_rec list \<times> (int \<times> int) \<times> (int \<times> int))" where
  "rule_read_model i d =
     bind_r (find_rule i d) (\<lambda>rule.
     Inr (rule, predicates_of_rule i d, grouping_counts i Grouping_PerOrder d,
          grouping_counts i Grouping_PerEventDay d))"

section \<open>The queue\<close>

definition lease_seconds :: int where
  "lease_seconds = 900"

text \<open>\<open>claimed_at IS NULL OR claimed_at < now() - make_interval(secs => lease)\<close>, in microseconds.\<close>

definition lease_free :: "timestamp \<Rightarrow> int \<Rightarrow> lead_request_rec \<Rightarrow> bool" where
  "lease_free now secs q \<longleftrightarrow>
     (case lq_claimed_at q of None \<Rightarrow> True | Some t \<Rightarrow> t < now - secs * 1000000)"

definition arm_request :: "lead_env \<Rightarrow> uuid \<Rightarrow> db \<Rightarrow> event_error + db" where
  "arm_request env event d =
     bind_r (require (event_by_id event d \<noteq> None) (Database ''fk_lead_requests_event_id'')) (\<lambda>_.
     Inr (upsert_lead_request (le_request_id env event) event d))"

definition lease_row :: "timestamp \<Rightarrow> uuid \<Rightarrow> db \<Rightarrow> db" where
  "lease_row now i d =
     d\<lparr>lead_requests := upd_rows (\<lambda>q. lq_id q = i) (\<lambda>q. q\<lparr>lq_claimed_at := Some now\<rparr>) (lead_requests d)\<rparr>"

definition claim_next_due_request ::
    "timestamp \<Rightarrow> int \<Rightarrow> uuid list \<Rightarrow> db \<Rightarrow> lead_request_rec option \<times> db" where
  "claim_next_due_request now secs excluded d =
     (case limit_rows 1 (sort_key lq_id (sel_rows
             (\<lambda>q. \<not> lq_done q \<and> lease_free now secs q \<and> lq_event_id q \<notin> set excluded) (lead_requests d))) of
        [] \<Rightarrow> (None, d)
      | q # _ \<Rightarrow> (Some (q\<lparr>lq_claimed_at := Some now\<rparr>), lease_row now (lq_id q) d))"

definition try_lease_request_of_event ::
    "timestamp \<Rightarrow> int \<Rightarrow> uuid \<Rightarrow> db \<Rightarrow> event_error + (lead_request_rec \<times> db)" where
  "try_lease_request_of_event now secs event d =
     (case find (\<lambda>q. lq_event_id q = event \<and> lease_free now secs q) (lead_requests d) of
        Some q \<Rightarrow> Inr (q\<lparr>lq_claimed_at := Some now\<rparr>,
                     d\<lparr>lead_requests := upd_rows (\<lambda>q. lq_event_id q = event \<and> lease_free now secs q)
                         (\<lambda>q. q\<lparr>lq_claimed_at := Some now\<rparr>) (lead_requests d)\<rparr>)
      | None \<Rightarrow> if count_rows (\<lambda>q. lq_event_id q = event) (lead_requests d) > 0
                then Inl (LeadRequestBusy event) else Inl (LeadRequestNotFound event))"

definition finish_row :: "string option \<Rightarrow> lead_request_rec \<Rightarrow> lead_request_rec" where
  "finish_row err q = q\<lparr>lq_done := (err = None), lq_error := err, lq_claimed_at := None\<rparr>"

definition finish_request :: "uuid \<Rightarrow> string option \<Rightarrow> db \<Rightarrow> db" where
  "finish_request i err d =
     d\<lparr>lead_requests := upd_rows (\<lambda>q. lq_id q = i) (finish_row err) (lead_requests d)\<rparr>"

definition finish_request_by_event :: "uuid \<Rightarrow> string option \<Rightarrow> db \<Rightarrow> db" where
  "finish_request_by_event event err d =
     d\<lparr>lead_requests := upd_rows (\<lambda>q. lq_event_id q = event) (finish_row err) (lead_requests d)\<rparr>"

definition find_request_of_event :: "uuid \<Rightarrow> db \<Rightarrow> lead_request_rec option" where
  "find_request_of_event event d = find (\<lambda>q. lq_event_id q = event) (lead_requests d)"

section \<open>The engine\<close>

definition active_rules_of_event :: "uuid \<Rightarrow> db \<Rightarrow> lead_rule_rec list" where
  "active_rules_of_event event d =
     sort_key lr_id (sel_rows (\<lambda>r. lr_active r \<and> (lr_event_id r = None \<or> lr_event_id r = Some event)) (lead_rules d))"

fun axis_clause :: "event_lead_predicate_axis \<Rightarrow> predicate_rec \<Rightarrow> db \<Rightarrow> reg_rec \<Rightarrow> bool" where
  "axis_clause Axis_Event p d r \<longleftrightarrow> rg_event_id r \<in> set (lp_values p)"
| "axis_clause Axis_EventType p d r \<longleftrightarrow>
     exists_row (\<lambda>e. ev_id e = rg_event_id r \<and>
       (case ev_type_id e of None \<Rightarrow> False | Some t \<Rightarrow> t \<in> set (event_types d) \<and> t \<in> set (lp_values p))) (events d)"
| "axis_clause Axis_Company p d r \<longleftrightarrow>
     (case rg_org_unit r of None \<Rightarrow> False | Some u \<Rightarrow> u \<in> set (lp_values p))"
| "axis_clause Axis_QuestionAnswer p d r \<longleftrightarrow>
     exists_row (\<lambda>a. ra_registration_id a = rg_id r \<and> lp_question_id p = Some (ra_question_id a) \<and>
       (case ra_answer_id a of None \<Rightarrow> False | Some v \<Rightarrow> v \<in> set (lp_values p))) (answers d)"

definition matches :: "predicate_rec list \<Rightarrow> db \<Rightarrow> reg_rec \<Rightarrow> bool" where
  "matches ps d r \<longleftrightarrow> list_all (\<lambda>p. axis_clause (lp_axis p) p d r) ps"

definition provenanced :: "uuid \<Rightarrow> uuid \<Rightarrow> db \<Rightarrow> bool" where
  "provenanced rule i d \<longleftrightarrow>
     exists_row (\<lambda>j. pj_registration_id j = i \<and>
       exists_row (\<lambda>p. pv_id p = pj_provenance_id j \<and> pv_rule_id p = rule) (provenances d)) (junctions d)"

definition pending_registrations :: "uuid \<Rightarrow> uuid \<Rightarrow> predicate_rec list \<Rightarrow> db \<Rightarrow> reg_rec list" where
  "pending_registrations event rule ps d =
     sort_key rg_id (sel_rows (\<lambda>r. eligible event r \<and> \<not> provenanced rule (rg_id r) d \<and> matches ps d r)
       (registrations d))"

definition eligible_registrations :: "uuid \<Rightarrow> uuid \<Rightarrow> predicate_rec list \<Rightarrow> int \<Rightarrow> db \<Rightarrow> reg_rec list" where
  "eligible_registrations event rule ps batch d = limit_rows batch (pending_registrations event rule ps d)"

definition upsert_provenance ::
    "lead_env \<Rightarrow> uuid \<Rightarrow> uuid \<Rightarrow> string \<Rightarrow> event_lead_grouping \<Rightarrow> db \<Rightarrow> (uuid \<times> uuid option) \<times> db" where
  "upsert_provenance env rule event key g d =
     (case find (\<lambda>p. pv_rule_id p = rule \<and> pv_group_key p = key) (provenances d) of
        Some p \<Rightarrow> ((pv_id p, pv_lead_id p), d)
      | None \<Rightarrow>
          let i = le_provenance_id env rule key
          in ((i, None), d\<lparr>provenances := provenances d @
                [\<lparr>pv_id = i, pv_rule_id = rule, pv_event_id = event, pv_lead_id = None,
                  pv_group_key = key, pv_grouping = g\<rparr>]\<rparr>))"

definition group_members :: "uuid \<Rightarrow> db \<Rightarrow> reg_rec list" where
  "group_members prov d =
     sort_key rg_id (List.map_filter
       (\<lambda>j. if pj_provenance_id j = prov then registration_by_id (pj_registration_id j) d else None) (junctions d))"

definition set_provenance_lead :: "uuid \<Rightarrow> uuid \<Rightarrow> db \<Rightarrow> db" where
  "set_provenance_lead prov lead d =
     d\<lparr>provenances := upd_rows (\<lambda>p. pv_id p = prov) (\<lambda>p. p\<lparr>pv_lead_id := Some lead\<rparr>) (provenances d)\<rparr>"

fun junction_add :: "lead_env \<Rightarrow> uuid \<Rightarrow> uuid list \<Rightarrow> db \<Rightarrow> nat \<times> db" where
  "junction_add env prov [] d = (0, d)"
| "junction_add env prov (r # rs) d =
     (if exists_row (\<lambda>j. pj_provenance_id j = prov \<and> pj_registration_id j = r) (junctions d)
      then junction_add env prov rs d
      else case junction_add env prov rs (d\<lparr>junctions := junctions d @
                 [\<lparr>pj_id = le_junction_id env prov r, pj_provenance_id = prov, pj_registration_id = r\<rparr>]\<rparr>) of
        (n, d') \<Rightarrow> (n + 1, d'))"

definition repo_relink_lead :: "uuid \<Rightarrow> uuid \<Rightarrow> uuid option \<Rightarrow> db \<Rightarrow> nat \<times> db" where
  "repo_relink_lead old new actor d =
     (let hit = (\<lambda>p. pv_lead_id p = Some old \<and> old \<noteq> new); n = length (sel_rows hit (provenances d))
      in (n, record_audit ''lead_relinked'' actor ''lead'' (Some new)
            (JObj [(''from'', JId old), (''moved'', JNum (int n))])
            (d\<lparr>provenances := upd_rows hit (\<lambda>p. p\<lparr>pv_lead_id := Some new\<rparr>) (provenances d)\<rparr>)))"

definition relink_lead :: "uuid \<Rightarrow> uuid \<Rightarrow> uuid option \<Rightarrow> db \<Rightarrow> nat \<times> db" where
  "relink_lead old new actor d = (if old = new then (0, d) else repo_relink_lead old new actor d)"

section \<open>The pass\<close>

definition view_of :: "reg_rec \<Rightarrow> lead_view" where
  "view_of r = \<lparr>lv_id = rg_id r, lv_name = rg_name r, lv_email = rg_email r, lv_phone = rg_phone r,
     lv_company_name = rg_company_name r, lv_partner_id = rg_partner_id r, lv_sale_order_id = rg_sale_order_id r\<rparr>"

text \<open>The grouping strategy: one group per sale order, walk-ins one group per event and day.\<close>

definition group_of :: "lead_env \<Rightarrow> uuid \<Rightarrow> reg_rec \<Rightarrow> event_lead_grouping \<times> string" where
  "group_of env event r =
     (case rg_sale_order_id r of
        Some order \<Rightarrow> (Grouping_PerOrder, le_uuid env order)
      | None \<Rightarrow> (Grouping_PerEventDay, le_uuid env event @ '':'' @ le_day env (rg_created_at r)))"

text \<open>The entries of the \<open>BTreeMap\<close>, in the order of their (grouping, key) texts.\<close>

definition groups_of :: "lead_env \<Rightarrow> uuid \<Rightarrow> reg_rec list \<Rightarrow> ((event_lead_grouping \<times> string) \<times> reg_rec list) list" where
  "groups_of env event rs =
     map (\<lambda>gk. (gk, filter (\<lambda>r. group_of env event r = gk) rs))
       (sort_key (\<lambda>(g, k). (lead_grouping_to_str g, k)) (remdups (map (group_of env event) rs)))"

type_synonym 'w lead_run = "'w \<times> db \<times> lead_summary"

text \<open>The members no junction row of the group knows yet, and the full-group payload of the sink.\<close>

definition fresh_members :: "uuid \<Rightarrow> reg_rec list \<Rightarrow> db \<Rightarrow> reg_rec list" where
  "fresh_members prov members d =
     (let known = set (map lv_id (map view_of (group_members prov d)))
      in filter (\<lambda>m. rg_id m \<notin> known) members)"

definition group_payload ::
    "uuid \<Rightarrow> uuid \<Rightarrow> event_lead_grouping \<times> string \<Rightarrow> uuid \<Rightarrow> reg_rec list \<Rightarrow> db \<Rightarrow> lead_group" where
  "group_payload rule event gk prov members d =
     \<lparr>lg_rule_id = rule, lg_event_id = event, lg_group_key = snd gk,
      lg_grouping = lead_grouping_to_str (fst gk),
      lg_registrations = map view_of (group_members prov d) @ map view_of (fresh_members prov members d)\<rparr>"

definition generate_group ::
    "lead_env \<Rightarrow> 'w lead_sink \<Rightarrow> uuid \<Rightarrow> uuid \<Rightarrow> (event_lead_grouping \<times> string) \<times> reg_rec list \<Rightarrow>
       'w lead_run \<Rightarrow> string option \<times> 'w lead_run" where
  "generate_group env si rule event grp st =
     (case (grp, st) of (((g, key), members), (w, d, su)) \<Rightarrow>
        case upsert_provenance env rule event key g d of ((prov, lead), d1) \<Rightarrow>
          let fresh = fresh_members prov members d1;
              payload = group_payload rule event (g, key) prov members d1 in
          case lead of
            Some l \<Rightarrow>
              if fresh = [] then (None, w, d1, su)
              else (case si_update si l payload w of
                  (Inl reason, w') \<Rightarrow> (Some reason, w', d1, su)
                | (Inr _, w') \<Rightarrow>
                    (None, w', snd (junction_add env prov (map rg_id fresh) d1),
                     su\<lparr>ls_groups_grown := ls_groups_grown su + 1, ls_leads_updated := ls_leads_updated su + 1\<rparr>))
          | None \<Rightarrow>
              (case si_create si payload w of
                  (Inl reason, w') \<Rightarrow> (Some reason, w', d1, su)
                | (Inr l, w') \<Rightarrow>
                    (None, w', snd (junction_add env prov (map rg_id fresh) (set_provenance_lead prov l d1)),
                     su\<lparr>ls_groups_created := ls_groups_created su + 1, ls_leads_created := ls_leads_created su + 1\<rparr>)))"

fun generate_groups ::
    "lead_env \<Rightarrow> 'w lead_sink \<Rightarrow> uuid \<Rightarrow> uuid \<Rightarrow> ((event_lead_grouping \<times> string) \<times> reg_rec list) list \<Rightarrow>
       'w lead_run \<Rightarrow> string option \<times> 'w lead_run" where
  "generate_groups env si rule event [] st = (None, st)"
| "generate_groups env si rule event (grp # grps) st =
     (case generate_group env si rule event grp st of
        (Some reason, st') \<Rightarrow> (Some reason, st')
      | (None, st') \<Rightarrow> generate_groups env si rule event grps st')"

partial_function (option) walk_rule ::
    "lead_env \<Rightarrow> 'w lead_sink \<Rightarrow> int \<Rightarrow> uuid \<Rightarrow> uuid \<Rightarrow> predicate_rec list \<Rightarrow> 'w lead_run \<Rightarrow>
       (string option \<times> 'w lead_run) option" where
  "walk_rule env si batch event rule ps st =
     (let rs = eligible_registrations event rule ps batch (fst (snd st)) in
      if rs = [] then Some (None, st)
      else let su = (snd (snd st))\<lparr>ls_matched := ls_matched (snd (snd st)) + int (length rs)\<rparr>;
               out = generate_groups env si rule event (groups_of env event rs) (fst st, fst (snd st), su) in
        if fst out \<noteq> None \<or> int (length rs) < batch then Some out
        else walk_rule env si batch event rule ps (snd out))"

fun walk_rules ::
    "lead_env \<Rightarrow> 'w lead_sink \<Rightarrow> int \<Rightarrow> uuid \<Rightarrow> lead_rule_rec list \<Rightarrow> 'w lead_run \<Rightarrow>
       (string option \<times> 'w lead_run) option" where
  "walk_rules env si batch event [] st = Some (None, st)"
| "walk_rules env si batch event (r # rs) (w, d, su) =
     (case walk_rule env si batch event (lr_id r) (predicates_of_rule (lr_id r) d)
             (w, d, su\<lparr>ls_rules := ls_rules su + 1\<rparr>) of
        None \<Rightarrow> None
      | Some (Some reason, st') \<Rightarrow> Some (Some reason, st')
      | Some (None, st') \<Rightarrow> walk_rules env si batch event rs st')"

definition run_lead_event ::
    "lead_env \<Rightarrow> 'w lead_sink \<Rightarrow> int \<Rightarrow> uuid \<Rightarrow> 'w lead_run \<Rightarrow> (bool \<times> 'w lead_run) option" where
  "run_lead_event env si batch event st =
     (case walk_rules env si batch event (active_rules_of_event event (fst (snd st))) st of
        None \<Rightarrow> None
      | Some (Some reason, w, d, su) \<Rightarrow>
          Some (True, w, finish_request_by_event event (Some reason) d, su\<lparr>ls_parked := ls_parked su + 1\<rparr>)
      | Some (None, w, d, su) \<Rightarrow>
          Some (False, w, finish_request_by_event event None d, su\<lparr>ls_completed := ls_completed su + 1\<rparr>))"

text \<open>The claim loop, with the number of claims the cap still allows.\<close>

fun run_lead_loop ::
    "lead_env \<Rightarrow> 'w lead_sink \<Rightarrow> int \<Rightarrow> nat \<Rightarrow> uuid list \<Rightarrow> 'w lead_run \<Rightarrow> 'w lead_run option" where
  "run_lead_loop env si batch 0 parked st = Some st"
| "run_lead_loop env si batch (Suc n) parked (w, d, su) =
     (case claim_next_due_request (le_now env) lease_seconds parked d of
        (None, d1) \<Rightarrow> Some (w, d1, su)
      | (Some q, d1) \<Rightarrow>
          case run_lead_event env si batch (lq_event_id q) (w, d1, su\<lparr>ls_claimed := ls_claimed su + 1\<rparr>) of
            None \<Rightarrow> None
          | Some (park, st') \<Rightarrow>
              run_lead_loop env si batch n (if park then parked @ [lq_event_id q] else parked) st')"

definition run_due_lead_requests ::
    "lead_env \<Rightarrow> 'w lead_sink \<Rightarrow> int \<Rightarrow> int \<Rightarrow> 'w \<Rightarrow> db \<Rightarrow> 'w lead_run option" where
  "run_due_lead_requests env si batch cron w d =
     run_lead_loop env si batch (nat cron) [] (w, d, lead_summary_default)"

definition run_request_of_event ::
    "lead_env \<Rightarrow> 'w lead_sink \<Rightarrow> int \<Rightarrow> uuid \<Rightarrow> 'w \<Rightarrow> db \<Rightarrow> (event_error + 'w lead_run) option" where
  "run_request_of_event env si batch event w d =
     (case try_lease_request_of_event (le_now env) lease_seconds event d of
        Inl e \<Rightarrow> Some (Inl e)
      | Inr (q, d1) \<Rightarrow>
          map_option (\<lambda>(_, st). Inr st)
            (run_lead_event env si batch (lq_event_id q) (w, d1, lead_summary_default\<lparr>ls_claimed := 1\<rparr>)))"

definition refusing_create :: "lead_group \<Rightarrow> 'w \<Rightarrow> (string + uuid) \<times> 'w" where
  "refusing_create g w = (Inl (''host installed no EventLeadSink adapter '' @ em_dash @ '' lead generation parks''), w)"

definition refusing_update :: "uuid \<Rightarrow> lead_group \<Rightarrow> 'w \<Rightarrow> (string + unit) \<times> 'w" where
  "refusing_update l g w = (Inl (''host installed no EventLeadSink adapter '' @ em_dash @ '' lead generation parks''), w)"

section \<open>The engine drains\<close>

lemma lv_id_view_of [simp]: "lv_id (view_of r) = rg_id r"
  by (simp add: view_of_def)

text \<open>What generation keeps and what it may only grow.\<close>

definition gen_keeps :: "db \<Rightarrow> db \<Rightarrow> bool" where
  "gen_keeps d d' \<longleftrightarrow>
     registrations d' = registrations d \<and> events d' = events d \<and> event_types d' = event_types d \<and>
     answers d' = answers d \<and> lead_rules d' = lead_rules d \<and> predicates d' = predicates d \<and>
     lead_requests d' = lead_requests d \<and> set (junctions d) \<subseteq> set (junctions d') \<and>
     (\<forall>p \<in> set (provenances d). \<exists>q \<in> set (provenances d'). pv_id q = pv_id p \<and> pv_rule_id q = pv_rule_id p)"

lemma gen_keeps_refl [simp]: "gen_keeps d d"
  by (auto simp: gen_keeps_def)

lemma gen_keeps_trans:
  assumes ab: "gen_keeps a b" and bc: "gen_keeps b c"
  shows "gen_keeps a c"
proof -
  have "\<exists>q \<in> set (provenances c). pv_id q = pv_id p \<and> pv_rule_id q = pv_rule_id p" if p: "p \<in> set (provenances a)" for p
  proof -
    from ab p obtain q where "q \<in> set (provenances b)" "pv_id q = pv_id p" "pv_rule_id q = pv_rule_id p"
      unfolding gen_keeps_def by blast
    with bc show ?thesis unfolding gen_keeps_def by fastforce
  qed
  moreover have "set (junctions a) \<subseteq> set (junctions c)" using ab bc unfolding gen_keeps_def by blast
  ultimately show ?thesis using ab bc unfolding gen_keeps_def by simp
qed

lemma gen_keepsD:
  assumes "gen_keeps d d'"
  shows "registrations d' = registrations d" "events d' = events d" "event_types d' = event_types d"
    "answers d' = answers d" "lead_rules d' = lead_rules d" "predicates d' = predicates d"
    "lead_requests d' = lead_requests d"
  using assms by (simp_all add: gen_keeps_def)

lemma provenanced_mono: "gen_keeps d d' \<Longrightarrow> provenanced rule i d \<Longrightarrow> provenanced rule i d'"
  unfolding gen_keeps_def provenanced_def exists_row_iff by (elim conjE) (metis subsetD)

lemma axis_clause_cong:
  assumes "gen_keeps d d'"
  shows "axis_clause a p d' r = axis_clause a p d r"
  using gen_keepsD [OF assms] by (cases a) (simp_all cong: option.case_cong)

lemma matches_cong: "gen_keeps d d' \<Longrightarrow> matches ps d' r = matches ps d r"
  by (simp add: matches_def axis_clause_cong)

lemma pending_after:
  assumes "gen_keeps d d'"
  shows "pending_registrations event rule ps d' =
    filter (\<lambda>r. \<not> provenanced rule (rg_id r) d') (pending_registrations event rule ps d)"
  unfolding pending_registrations_def sel_rows_def filter_sort filter_filter gen_keepsD(1) [OF assms]
    matches_cong [OF assms]
  using provenanced_mono [OF assms] by (intro arg_cong [where f = "sort_key rg_id"] filter_cong) auto

lemma junction_add_spec:
  "gen_keeps d (snd (junction_add env prov is d)) \<and> provenances (snd (junction_add env prov is d)) = provenances d \<and>
   (\<forall>i \<in> set is. \<exists>j \<in> set (junctions (snd (junction_add env prov is d))). pj_provenance_id j = prov \<and> pj_registration_id j = i)"
proof (induction "is" arbitrary: d)
  case (Cons i "is")
  let ?ex = "exists_row (\<lambda>j. pj_provenance_id j = prov \<and> pj_registration_id j = i) (junctions d)"
  let ?d1 = "if ?ex then d else d\<lparr>junctions := junctions d @
      [\<lparr>pj_id = le_junction_id env prov i, pj_provenance_id = prov, pj_registration_id = i\<rparr>]\<rparr>"
  have eq: "snd (junction_add env prov (i # is) d) = snd (junction_add env prov is ?d1)"
    by (auto split: prod.splits)
  have k1: "gen_keeps d ?d1" "provenances ?d1 = provenances d" by (auto simp: gen_keeps_def)
  have j1: "\<exists>j \<in> set (junctions ?d1). pj_provenance_id j = prov \<and> pj_registration_id j = i"
    by (cases ?ex) (auto simp: exists_row_iff)
  note ih = Cons.IH [of ?d1]
  have k2: "gen_keeps ?d1 (snd (junction_add env prov is ?d1))" using ih by blast
  then have "set (junctions ?d1) \<subseteq> set (junctions (snd (junction_add env prov is ?d1)))" by (simp add: gen_keeps_def)
  with j1 have "\<exists>j \<in> set (junctions (snd (junction_add env prov is ?d1))). pj_provenance_id j = prov \<and> pj_registration_id j = i"
    by blast
  then show ?case unfolding eq using ih k1(2) gen_keeps_trans [OF k1(1) k2] by (simp del: fun_upd_apply)
qed simp

lemma upsert_provenance_spec:
  assumes "upsert_provenance env rule event key g d = ((prov, lead), d1)"
  shows "gen_keeps d d1 \<and> junctions d1 = junctions d \<and>
    (\<exists>p \<in> set (provenances d1). pv_id p = prov \<and> pv_rule_id p = rule)"
  using assms
  by (auto simp: upsert_provenance_def gen_keeps_def Let_def split: option.splits dest!: find_Some_in)

lemma set_provenance_lead_keeps: "gen_keeps d (set_provenance_lead prov lead d)"
proof -
  have "\<exists>q \<in> set (provenances (set_provenance_lead prov lead d)). pv_id q = pv_id p \<and> pv_rule_id q = pv_rule_id p"
    if "p \<in> set (provenances d)" for p
    unfolding set_provenance_lead_def using that
    by (intro bexI [of _ "if pv_id p = prov then p\<lparr>pv_lead_id := Some lead\<rparr> else p"]) (auto simp: upd_rows_def)
  then show ?thesis by (simp add: gen_keeps_def set_provenance_lead_def)
qed

lemma group_members_junction:
  "r \<in> set (group_members prov d) \<Longrightarrow> \<exists>j \<in> set (junctions d). pj_provenance_id j = prov \<and> pj_registration_id j = rg_id r"
proof -
  assume "r \<in> set (group_members prov d)"
  then obtain j where "j \<in> set (junctions d)" "pj_provenance_id j = prov" "registration_by_id (pj_registration_id j) d = Some r"
    by (auto simp: group_members_def List.map_filter_def split: if_splits)
  moreover from this(3) have "rg_id r = pj_registration_id j" by (simp add: registration_by_id_in)
  ultimately show ?thesis by auto
qed

lemma provenancedI:
  "j \<in> set (junctions d) \<Longrightarrow> pj_provenance_id j = prov \<Longrightarrow> pj_registration_id j = i \<Longrightarrow>
   \<exists>p \<in> set (provenances d). pv_id p = prov \<and> pv_rule_id p = rule \<Longrightarrow> provenanced rule i d"
  unfolding provenanced_def exists_row_iff by blast

text \<open>One group: everything is kept, and unless the sink refused, all its members are provenanced.\<close>

lemma generate_group_spec:
  assumes gen: "generate_group env si rule event ((g, key), members) (w, d, su) = (out, w', d', su')"
  shows "gen_keeps d d' \<and> (out = None \<longrightarrow> (\<forall>m \<in> set members. provenanced rule (rg_id m) d'))"
proof -
  obtain prov lead d1 where up: "upsert_provenance env rule event key g d = ((prov, lead), d1)"
    by (metis surj_pair)
  note ups = upsert_provenance_spec [OF up]
  let ?fresh = "fresh_members prov members d1"
  have k: "set ?fresh = {m \<in> set members. rg_id m \<notin> rg_id ` set (group_members prov d1)}"
    by (auto simp: fresh_members_def)
  have old: "provenanced rule (rg_id m) d1" if "m \<in> set members" "m \<notin> set ?fresh" for m
  proof -
    from that have "rg_id m \<in> rg_id ` set (group_members prov d1)" unfolding k by simp
    then obtain r where "r \<in> set (group_members prov d1)" "rg_id r = rg_id m" by (metis imageE)
    with group_members_junction [of r prov d1] obtain j where
      "j \<in> set (junctions d1)" "pj_provenance_id j = prov" "pj_registration_id j = rg_id m" by metis
    from provenancedI [OF this] ups show ?thesis by blast
  qed
  have joined: "gen_keeps d (snd (junction_add env prov (map rg_id ?fresh) x)) \<and>
      (\<forall>m \<in> set members. provenanced rule (rg_id m) (snd (junction_add env prov (map rg_id ?fresh) x)))"
    if x: "gen_keeps d1 x" "junctions x = junctions d1" for x
  proof -
    let ?y = "snd (junction_add env prov (map rg_id ?fresh) x)"
    note js = junction_add_spec [of x env prov "map rg_id ?fresh"]
    have xy: "gen_keeps x ?y" and d1y: "gen_keeps d1 ?y" using js x(1) gen_keeps_trans by blast+
    obtain p where "p \<in> set (provenances d1)" "pv_id p = prov" "pv_rule_id p = rule" using ups by blast
    with d1y have py: "\<exists>p \<in> set (provenances ?y). pv_id p = prov \<and> pv_rule_id p = rule"
      unfolding gen_keeps_def by blast
    have "provenanced rule (rg_id m) ?y" if m: "m \<in> set members" for m
    proof (cases "m \<in> set ?fresh")
      case True
      then have "rg_id m \<in> set (map rg_id ?fresh)" by simp
      with js obtain j where "j \<in> set (junctions ?y)" "pj_provenance_id j = prov" "pj_registration_id j = rg_id m"
        by blast
      then show ?thesis using py by (rule provenancedI)
    next
      case False
      from provenanced_mono [OF d1y old [OF m False]] show ?thesis .
    qed
    then show ?thesis using gen_keeps_trans ups d1y by blast
  qed
  show ?thesis
  proof (cases lead)
    case (Some l)
    show ?thesis
    proof (cases "?fresh = []")
      case True
      with gen up Some have "out = None" "d' = d1" by (simp_all add: generate_group_def Let_def)
      moreover have "m \<notin> set ?fresh" for m using True by (metis list.set(1) empty_iff)
      ultimately show ?thesis using ups old by blast
    next
      case False
      then show ?thesis using gen up Some ups joined [of d1]
        by (auto simp: generate_group_def Let_def split: sum.splits prod.splits)
    qed
  next
    case None
    have "junctions (set_provenance_lead prov l d1) = junctions d1" for l by (simp add: set_provenance_lead_def)
    then show ?thesis using gen up None ups joined [of "set_provenance_lead prov l d1" for l] set_provenance_lead_keeps
      by (auto simp: generate_group_def Let_def split: sum.splits prod.splits)
  qed
qed

lemma generate_groups_spec:
  assumes "generate_groups env si rule event grps st = (out, st')"
  shows "gen_keeps (fst (snd st)) (fst (snd st')) \<and>
    (out = None \<longrightarrow> (\<forall>grp \<in> set grps. \<forall>m \<in> set (snd grp). provenanced rule (rg_id m) (fst (snd st'))))"
  using assms
proof (induction grps arbitrary: st)
  case (Cons grp grps)
  obtain w d su where st: "st = (w, d, su)" by (cases st)
  obtain g key members where grp: "grp = ((g, key), members)" by (metis surj_pair)
  obtain o1 w1 d1 su1 where one: "generate_group env si rule event grp st = (o1, w1, d1, su1)" by (metis surj_pair)
  note spec = generate_group_spec [OF one [unfolded grp st]]
  show ?case
  proof (cases o1)
    case (Some reason)
    with Cons.prems one spec st show ?thesis by auto
  next
    case None
    with Cons.prems one have rest: "generate_groups env si rule event grps (w1, d1, su1) = (out, st')" by simp
    note ih = Cons.IH [OF this, simplified]
    have keeps: "gen_keeps d (fst (snd st'))" using gen_keeps_trans spec ih by blast
    have "provenanced rule (rg_id m) (fst (snd st'))" if "m \<in> set (snd grp)" for m
      using provenanced_mono [of d1 "fst (snd st')"] ih spec None that grp by simp
    with keeps ih show ?thesis by (simp add: st)
  qed
qed simp

lemma in_groups_of: "r \<in> set rs \<Longrightarrow> \<exists>grp \<in> set (groups_of env event rs). r \<in> set (snd grp)"
  by (auto simp: groups_of_def intro!: bexI [of _ "group_of env event r"])

text \<open>A walk of one rule always ends, keeps the inputs, and drains the rule unless it was refused.\<close>

lemma walk_rule_returns:
  "\<exists>out st'. walk_rule env si batch event rule ps st = Some (out, st') \<and>
     gen_keeps (fst (snd st)) (fst (snd st')) \<and>
     (out = None \<longrightarrow> 0 < batch \<longrightarrow> pending_registrations event rule ps (fst (snd st')) = [])"
proof (induction "length (pending_registrations event rule ps (fst (snd st)))" arbitrary: st rule: less_induct)
  case less
  obtain w d su where st: "st = (w, d, su)" by (cases st)
  let ?P = "pending_registrations event rule ps"
  let ?rs = "eligible_registrations event rule ps batch d"
  let ?su = "su\<lparr>ls_matched := ls_matched su + int (length ?rs)\<rparr>"
  show ?case
  proof (cases "?rs = []")
    case True
    then have "0 < batch \<longrightarrow> ?P d = []" by (auto simp: eligible_registrations_def limit_rows_def)
    with True st show ?thesis by (subst walk_rule.simps) simp
  next
    case False
    obtain out w1 d1 su1 where gen: "generate_groups env si rule event (groups_of env event ?rs) (w, d, ?su) = (out, w1, d1, su1)"
      by (metis surj_pair)
    note spec = generate_groups_spec [OF gen, simplified]
    have unfold: "walk_rule env si batch event rule ps st =
        (if out \<noteq> None \<or> int (length ?rs) < batch then Some (out, w1, d1, su1)
         else walk_rule env si batch event rule ps (w1, d1, su1))"
      by (subst walk_rule.simps) (simp add: st False gen Let_def)
    have all: "provenanced rule (rg_id r) d1" if "r \<in> set ?rs" "out = None" for r
      using in_groups_of [OF that(1), of env event] spec that(2) by blast
    have after: "?P d1 = filter (\<lambda>r. \<not> provenanced rule (rg_id r) d1) (?P d)"
      using pending_after spec by blast
    show ?thesis
    proof (cases "out \<noteq> None \<or> int (length ?rs) < batch")
      case True
      have "?P d1 = []" if "out = None" "int (length ?rs) < batch"
      proof -
        from that(2) have "?rs = ?P d" by (auto simp: eligible_registrations_def limit_rows_def min_def split: if_splits)
        then show ?thesis unfolding after using all [OF _ that(1)] by (simp add: filter_empty_conv)
      qed
      with True unfold spec st show ?thesis by (cases out) auto
    next
      case go: False
      from False obtain r where r: "r \<in> set ?rs" by (metis list.set_sel(1))
      then have "r \<in> set (?P d)" by (auto simp: eligible_registrations_def limit_rows_def dest: in_set_takeD)
      with all [OF r] go have "length (?P d1) < length (?P (fst (snd st)))"
        unfolding after st by (simp add: length_filter_less)
      then have "length (?P (fst (snd (w1, d1, su1)))) < length (?P (fst (snd st)))" by simp
      from less [OF this] obtain out' st' where rec: "walk_rule env si batch event rule ps (w1, d1, su1) = Some (out', st')"
        "gen_keeps d1 (fst (snd st'))" "out' = None \<longrightarrow> 0 < batch \<longrightarrow> ?P (fst (snd st')) = []" by auto
      moreover have "gen_keeps (fst (snd st)) (fst (snd st'))" using gen_keeps_trans spec rec(2) st by auto
      ultimately show ?thesis using go unfold by auto
    qed
  qed
qed

lemma predicates_of_rule_cong: "gen_keeps d d' \<Longrightarrow> predicates_of_rule i d' = predicates_of_rule i d"
  by (simp add: predicates_of_rule_def gen_keepsD)

lemma pending_mono:
  "gen_keeps d d' \<Longrightarrow> pending_registrations event rule ps d = [] \<Longrightarrow> pending_registrations event rule ps d' = []"
  by (simp add: pending_after)

lemma walk_rules_returns:
  "\<exists>out st'. walk_rules env si batch event rules st = Some (out, st') \<and> gen_keeps (fst (snd st)) (fst (snd st')) \<and>
     (out = None \<longrightarrow> 0 < batch \<longrightarrow> (\<forall>r \<in> set rules.
        pending_registrations event (lr_id r) (predicates_of_rule (lr_id r) (fst (snd st))) (fst (snd st')) = []))"
proof (induction rules arbitrary: st)
  case (Cons r rules)
  obtain w d su where st: "st = (w, d, su)" by (cases st)
  let ?ps = "predicates_of_rule (lr_id r) d"
  obtain o1 w1 d1 su1 where one: "walk_rule env si batch event (lr_id r) ?ps (w, d, su\<lparr>ls_rules := ls_rules su + 1\<rparr>) = Some (o1, w1, d1, su1)"
    and keep: "gen_keeps d d1" and drained: "o1 = None \<longrightarrow> 0 < batch \<longrightarrow> pending_registrations event (lr_id r) ?ps d1 = []"
    using walk_rule_returns [of env si batch event "lr_id r" ?ps "(w, d, su\<lparr>ls_rules := ls_rules su + 1\<rparr>)"] by auto
  show ?case
  proof (cases o1)
    case (Some reason)
    with one keep show ?thesis by (simp add: st)
  next
    case None
    obtain o2 st2 where two: "walk_rules env si batch event rules (w1, d1, su1) = Some (o2, st2)" "gen_keeps d1 (fst (snd st2))"
      and rest: "o2 = None \<longrightarrow> 0 < batch \<longrightarrow> (\<forall>q \<in> set rules.
        pending_registrations event (lr_id q) (predicates_of_rule (lr_id q) d1) (fst (snd st2)) = [])"
      using Cons.IH [of "(w1, d1, su1)"] by auto
    have eq: "walk_rules env si batch event (r # rules) st = Some (o2, st2)"
      using one None two(1) by (simp add: st)
    have k2: "gen_keeps d (fst (snd st2))" using keep two(2) by (rule gen_keeps_trans)
    have "\<forall>q \<in> set (r # rules). pending_registrations event (lr_id q) (predicates_of_rule (lr_id q) d) (fst (snd st2)) = []"
      if "o2 = None" "0 < batch"
      using rest drained None that pending_mono [OF two(2)] by (simp add: predicates_of_rule_cong [OF keep])
    with eq k2 show ?thesis by (simp add: st)
  qed
qed simp

lemma run_lead_event_returns:
  "\<exists>parked st'. run_lead_event env si batch event st = Some (parked, st')"
  using walk_rules_returns [of env si batch event "active_rules_of_event event (fst (snd st))" st]
  by (auto simp: run_lead_event_def split: option.splits)


lemma finished_rows:
  assumes "q \<in> set (lead_requests (finish_request_by_event event err d))" "lq_event_id q = event"
  shows "lq_done q = (err = None) \<and> lq_error q = err \<and> lq_claimed_at q = None"
proof -
  from assms(1) obtain x where x: "q = (if lq_event_id x = event then finish_row err x else x)"
    by (auto simp: finish_request_by_event_def in_upd_rows_iff)
  with assms(2) have "lq_event_id x = event" by (cases "lq_event_id x = event") simp_all
  with x show ?thesis by (simp add: finish_row_def)
qed

text \<open>
  C18. A completed request is drained: when the walk of an event's request completes, every
  eligible registration of the event that matches all predicates of an active rule in scope has
  a provenance of that rule, and the event's queue rows are done, without error and without lease.
\<close>

theorem completed_request_is_drained:
  assumes run: "run_lead_event env si batch event (w, d, su) = Some (False, w', d', su')" and batch: "0 < batch"
    and rule: "rule \<in> set (lead_rules d)" "lr_active rule" "lr_event_id rule = None \<or> lr_event_id rule = Some event"
  shows "(\<forall>r \<in> set (registrations d'). eligible event r \<and> matches (predicates_of_rule (lr_id rule) d) d' r \<longrightarrow>
      provenanced (lr_id rule) (rg_id r) d') \<and> registrations d' = registrations d \<and>
    (\<forall>q \<in> set (lead_requests d'). lq_event_id q = event \<longrightarrow>
      lq_done q \<and> lq_error q = None \<and> lq_claimed_at q = None)"
proof -
  let ?rules = "active_rules_of_event event d"
  obtain st2 where walked: "walk_rules env si batch event ?rules (w, d, su) = Some (None, st2)"
    and d': "d' = finish_request_by_event event None (fst (snd st2))"
    using run by (auto simp: run_lead_event_def split: option.splits)
  have spec: "gen_keeps d (fst (snd st2))" "\<forall>r \<in> set ?rules.
      pending_registrations event (lr_id r) (predicates_of_rule (lr_id r) d) (fst (snd st2)) = []"
    using walk_rules_returns [of env si batch event ?rules "(w, d, su)"] walked batch by auto
  have "rule \<in> set ?rules" using rule by (simp add: active_rules_of_event_def sel_rows_def)
  with spec(2) have "pending_registrations event (lr_id rule) (predicates_of_rule (lr_id rule) d) (fst (snd st2)) = []" by blast
  moreover have "pending_registrations event i ps d' = pending_registrations event i ps (fst (snd st2))" for i ps
  proof -
    have "axis_clause a p d' r = axis_clause a p (fst (snd st2)) r" for a p r
      by (cases a) (simp_all add: d' finish_request_by_event_def cong: option.case_cong)
    then show ?thesis
      by (simp add: pending_registrations_def matches_def provenanced_def d' finish_request_by_event_def)
  qed
  ultimately have "set (pending_registrations event (lr_id rule) (predicates_of_rule (lr_id rule) d) d') = {}" by simp
  then have "\<forall>r \<in> set (registrations d'). eligible event r \<and> matches (predicates_of_rule (lr_id rule) d) d' r \<longrightarrow>
      provenanced (lr_id rule) (rg_id r) d'"
    by (auto simp: pending_registrations_def sel_rows_def)
  moreover have "registrations d' = registrations d"
    using gen_keepsD(1) [OF spec(1)] by (simp add: d' finish_request_by_event_def)
  moreover have "lq_done q \<and> lq_error q = None \<and> lq_claimed_at q = None"
    if "q \<in> set (lead_requests d')" "lq_event_id q = event" for q
    using finished_rows [OF that(1) [unfolded d'] that(2)] by simp
  ultimately show ?thesis by blast
qed

definition ex_lead_env :: lead_env where
  "ex_lead_env = \<lparr>le_now = 1000000000, le_id = 44, le_request_id = (\<lambda>e. 600 + e), le_predicate_id = (\<lambda>n. 700 + n),
     le_provenance_id = (\<lambda>r k. 800 + length k), le_junction_id = (\<lambda>p r. 900 + r),
     le_uuid = (\<lambda>i. replicate i (CHR ''i'')), le_day = (\<lambda>t. ''day''), le_checks = (\<lambda>_. True)\<rparr>"

text \<open>A host whose sink numbers the leads it creates and keeps the ids it was asked for.\<close>

definition ex_sink :: "uuid list lead_sink" where
  "ex_sink = \<lparr>si_create = (\<lambda>g w. (Inr (length w), w @ [length w])), si_update = (\<lambda>l g w. (Inr (), w))\<rparr>"

definition ex_request :: "uuid \<Rightarrow> uuid \<Rightarrow> bool \<Rightarrow> timestamp option \<Rightarrow> lead_request_rec" where
  "ex_request i e fin t = \<lparr>lq_id = i, lq_event_id = e, lq_done = fin, lq_error = None, lq_claimed_at = t\<rparr>"

definition ex_lead_db :: db where
  "ex_lead_db = (ex_db_with [ex_reg 5 1 None Reg_Open, ex_reg 6 1 None Reg_Draft])
     \<lparr>lead_requests := [ex_request 65 1 False None]\<rparr>"

lemmas lead_eval = run_lead_event_def active_rules_of_event_def walk_rule.simps predicates_of_rule_def
  eligible_registrations_def pending_registrations_def eligible_def matches_def provenanced_def exists_row_def
  sel_rows_def limit_rows_def groups_of_def group_of_def generate_group_def fresh_members_def group_payload_def
  group_members_def upsert_provenance_def set_provenance_lead_def upd_rows_def Let_def List.map_filter_simps
  ex_lead_env_def ex_sink_def ex_request_def ex_lead_db_def ex_defs

theorem completed_request_is_drained_witness:
  "\<exists>st. run_lead_event ex_lead_env ex_sink 200 1 ([], ex_lead_db, lead_summary_default) = Some (False, st) \<and>
     provenanced 40 5 (fst (snd st))"
proof -
  have "\<exists>w' d' su'. run_lead_event ex_lead_env ex_sink 200 1 ([], ex_lead_db, lead_summary_default) = Some (False, w', d', su')"
    by (simp add: lead_eval lead_summary_default_def)
  then obtain w' d' su' where run: "run_lead_event ex_lead_env ex_sink 200 1 ([], ex_lead_db, lead_summary_default) =
      Some (False, w', d', su')" by blast
  have rule: "ex_rule \<in> set (lead_rules ex_lead_db)" "lr_active ex_rule" "lr_event_id ex_rule = None \<or> lr_event_id ex_rule = Some 1"
    "lr_id ex_rule = 40" "predicates ex_lead_db = []" by (simp_all add: ex_lead_db_def ex_db_with_def ex_db_def empty_db_def ex_rule_def)
  have reg: "ex_reg 5 1 None Reg_Open \<in> set (registrations ex_lead_db)" "eligible 1 (ex_reg 5 1 None Reg_Open)"
    "rg_id (ex_reg 5 1 None Reg_Open) = 5" by (simp_all add: ex_lead_db_def ex_db_with_def eligible_def ex_reg_def)
  from completed_request_is_drained [OF run _ rule(1-3)] reg rule(4,5) have "provenanced 40 5 d'"
    by (auto simp: matches_def predicates_of_rule_def sel_rows_def)
  with run show ?thesis by auto
qed



text \<open>
  An arm during a walk is lost: while the queue row of an event is claimed and not done, a new
  registration's arm changes nothing, and the finish of the walk then marks the row done although
  the new registration has no provenance, so no later claim finds the event until something arms
  it again.
\<close>

lemma finish_loses_the_arm:
  assumes walked: "q \<in> set (lead_requests d)" "lq_event_id q = rc_event_id cmd" "\<not> lq_done q"
    and keys: "distinct (map lq_event_id (lead_requests d))"
    and reg: "register renv cmd d = Inr (r, d1)" and fk: "\<forall>j \<in> set (junctions d). pj_registration_id j \<in> rg_id ` set (registrations d)"
    and finish: "d2 = finish_request_by_event (rc_event_id cmd) None d1"
  shows "lead_requests d1 = lead_requests d \<and> r \<in> set (registrations d2) \<and> eligible (rc_event_id cmd) r \<and> \<not> provenanced rule (rg_id r) d2 \<and>
    (\<forall>now secs excluded x y. claim_next_due_request now secs excluded d2 = (Some x, y) \<longrightarrow> lq_event_id x \<noteq> rc_event_id cmd)"
proof -
  from reg have core: "register_core renv cmd None d = Inr (r, d1)" by (simp add: register_def)
  then obtain e slot d0 where new: "new_registration renv cmd None e slot = Inr r"
    and ins: "insert_registration (se_checks renv) r d = Inr d0" and d1: "d1 = after_insert renv cmd None r d0"
    by (elim register_coreE)
  from ins have d0: "registrations d0 = registrations d @ [r]" "junctions d0 = junctions d"
    and fresh: "rg_id r \<notin> rg_id ` set (registrations d)"
    by (auto simp: insert_registration_def result_simps exists_key_iff split: if_splits)
  have "junctions (upsert_lead_request i x y) = junctions y" for i x y by (simp add: upsert_lead_request_def)
  then have same: "registrations d2 = registrations d @ [r]" "junctions d2 = junctions d"
    by (simp_all add: finish finish_request_by_event_def d1 after_insert_def Let_def frame_simps d0 arm_lead_queue_def
        arm_after_sub_def)
  have "rg_state r = Reg_Open" "rg_event_id r = rc_event_id cmd" "rg_active r"
    using new_registration_fields [OF new] by (simp_all add: born_state_def)
  then have "eligible (rc_event_id cmd) r" by (simp add: eligible_def)
  moreover have "\<not> provenanced rule (rg_id r) d2"
    using fk fresh unfolding provenanced_def exists_row_iff same by metis
  moreover have "lq_event_id x \<noteq> rc_event_id cmd" if "claim_next_due_request now secs excluded d2 = (Some x, y)"
    for now secs excluded x y
  proof
    assume same: "lq_event_id x = rc_event_id cmd"
    let ?due = "\<lambda>q. \<not> lq_done q \<and> lease_free now secs q \<and> lq_event_id q \<notin> set excluded"
    from that obtain p ps where p: "limit_rows 1 (sort_key lq_id (sel_rows ?due (lead_requests d2))) = p # ps"
      and x: "x = p\<lparr>lq_claimed_at := Some now\<rparr>" by (auto simp: claim_next_due_request_def split: list.splits)
    have "p \<in> set (limit_rows 1 (sort_key lq_id (sel_rows ?due (lead_requests d2))))" unfolding p by simp
    then have "p \<in> set (lead_requests d2)" "\<not> lq_done p"
      by (auto simp: limit_rows_def sel_rows_def dest!: in_set_takeD)
    moreover have "lq_event_id p = rc_event_id cmd" using same x by simp
    ultimately show False using finished_rows [of p "rc_event_id cmd" None d1] unfolding finish by simp
  qed
  moreover have "lead_requests d1 = lead_requests d"
  proof -
    have "\<not> lq_done x" if "x \<in> set (lead_requests d)" "lq_event_id x = rc_event_id cmd" for x
      using key_unique [OF keys that(1) walked(1)] that(2) walked(2,3) by simp
    then have "upd_rows (\<lambda>x. lq_event_id x = rc_event_id cmd \<and> lq_done x) f (lead_requests d) = lead_requests d" for f
      unfolding upd_rows_def by (intro map_idI) auto
    moreover have "exists_row (\<lambda>x. lq_event_id x = rc_event_id cmd) (lead_requests d)"
      using walked by (auto simp: exists_row_iff)
    moreover have "lead_requests d0 = lead_requests d"
      using ins by (auto simp: insert_registration_def result_simps split: if_splits)
    ultimately show ?thesis
      by (simp add: d1 after_insert_def Let_def frame_simps arm_lead_queue_def arm_after_sub_def upsert_lead_request_def)
  qed
  ultimately show ?thesis using same(1) by simp
qed

lemma finish_loses_the_arm_witness:
  "\<exists>r d1. register (ex_env 3) (ex_cmd 1 None None) (ex_db\<lparr>lead_requests := [ex_request 65 1 False (Some 5)]\<rparr>) = Inr (r, d1) \<and>
     \<not> provenanced 40 (rg_id r) (finish_request_by_event 1 None d1) \<and> eligible 1 r"
proof -
  let ?d = "ex_db\<lparr>lead_requests := [ex_request 65 1 False (Some 5)]\<rparr>"
  have "\<not> isl (register (ex_env 3) (ex_cmd 1 None None) ?d)" by (simp add: seat_eval)
  then obtain r d1 where ok: "register (ex_env 3) (ex_cmd 1 None None) ?d = Inr (r, d1)" using isr_obtain2 by blast
  have "ex_request 65 1 False (Some 5) \<in> set (lead_requests ?d)" "rc_event_id (ex_cmd 1 None None) = 1"
    "lq_event_id (ex_request 65 1 False (Some 5)) = rc_event_id (ex_cmd 1 None None)"
    "\<not> lq_done (ex_request 65 1 False (Some 5))" "distinct (map lq_event_id (lead_requests ?d))" "junctions ?d = []"
    by (simp_all add: ex_request_def ex_cmd_def ex_db_def empty_db_def)
  with finish_loses_the_arm [OF this(1,3,4,5) ok _ refl] ok show ?thesis by auto
qed

text \<open>
  The closed vocabulary: the predicates of a rule are accepted, unchanged, exactly when every
  one names one of the four axes, has at least one value, and carries a question if and only if its
  axis is question_answer; otherwise the first offending predicate refuses the rule.
\<close>

lemma predicates_accepted_iff:
  "validate_predicates specs = Inr ps \<longleftrightarrow>
     ps = specs \<and>
     list_all (\<lambda>s. ps_axis s \<in> {''event'', ''event_type'', ''company'', ''question_answer''} \<and>
        ps_value_ids s \<noteq> [] \<and> (ps_question_id s \<noteq> None \<longleftrightarrow> ps_axis s = ''question_answer'')) specs"
proof (induction specs arbitrary: ps)
  case (Cons s specs)
  then show ?case
    by (auto simp: result_simps predicate_axes_def split: option.splits if_splits)
qed auto

end
