(* ===== verification/Walls.thy ===== *)
theory Walls
  imports Events Booths Desk
begin

text \<open>
  The two walls together: seat verbs and booth verbs over one database. No seat-limited scope is
  over its limit, and every confirmed booking is alone on its booth, whatever the interleaving.
\<close>

section \<open>Seat and booth verbs together\<close>

datatype system_verb = Seat_Verb seat_verb | Booth_Verb booth_verb

fun system_step :: "system_verb \<Rightarrow> db \<Rightarrow> event_error + db" where
  "system_step (Seat_Verb v) d = seat_step v d"
| "system_step (Booth_Verb v) d = booth_step v d"

fun system_admissible :: "system_verb \<Rightarrow> db \<Rightarrow> bool" where
  "system_admissible (Seat_Verb v) d \<longleftrightarrow> seat_admissible v d"
| "system_admissible (Booth_Verb v) d \<longleftrightarrow> True"

definition system_inv :: "db \<Rightarrow> bool" where
  "system_inv d \<longleftrightarrow> seat_inv d \<and> booth_inv d"

definition seat_tables_same :: "db \<Rightarrow> db \<Rightarrow> bool" where
  "seat_tables_same d d' \<longleftrightarrow> events d' = events d \<and> registrations d' = registrations d \<and> mails d' = mails d \<and>
     receipts d' = receipts d \<and> lead_requests d' = lead_requests d"

definition booth_tables_same :: "db \<Rightarrow> db \<Rightarrow> bool" where
  "booth_tables_same d d' \<longleftrightarrow> booths d' = booths d \<and> bookings d' = bookings d"

lemma booth_inv_same:
  assumes "booth_tables_same d d'" and "booth_inv d"
  shows "booth_inv d'"
proof -
  have same: "booths d' = booths d" "bookings d' = bookings d"
    using assms(1) by (simp_all add: booth_tables_same_def)
  show ?thesis using assms(2) unfolding booth_inv_def line_event_def same .
qed

lemma seat_inv_same:
  assumes "seat_tables_same d d'" and "booth_inv d'" and "seat_inv d"
  shows "seat_inv d'"
proof -
  have same: "events d' = events d" "registrations d' = registrations d" "mails d' = mails d"
      "receipts d' = receipts d" "lead_requests d' = lead_requests d"
    using assms(1) by (simp_all add: seat_tables_same_def)
  have "keys_ok d" "slots_fit d" "within_capacity d" using assms(3) by (simp_all add: seat_inv_def)
  moreover from this(1) have "keys_ok d'"
    using booth_invD(1,2) [OF assms(2)] unfolding keys_ok_def same by simp
  moreover have "slots_fit d' = slots_fit d" "within_capacity d' = within_capacity d"
    unfolding slots_fit_def within_capacity_def seats_taken_def same by (rule refl)+
  ultimately show ?thesis by (simp add: seat_inv_def)
qed

lemma seat_step_frame:
  assumes "seat_step v d = Inr d'"
  shows "booth_tables_same d d' \<and> events d' = events d"
  using assms unfolding booth_tables_same_def
  by (cases v)
    (auto simp: result_simps register_def register_sale_linked_def
      dest: register_core_frame transition_frame sync_from_partnerD)

text \<open>What each booth verb leaves alone.\<close>

lemma create_booth_same: "create_booth c i e k n a d = Inr (b, d') \<Longrightarrow> seat_tables_same d d'"
  by (auto simp: create_booth_def seat_tables_same_def result_simps Let_def split: if_splits)

lemma patch_booth_same: "patch_booth c i p a d = Inr (b, d') \<Longrightarrow> seat_tables_same d d'"
  by (auto simp: patch_booth_def seat_tables_same_def result_simps Let_def split: if_splits)

lemma delete_booth_same: "delete_booth i a d = Inr (b, d') \<Longrightarrow> seat_tables_same d d'"
  by (auto simp: delete_booth_def seat_tables_same_def result_simps Let_def split: if_splits)

lemma create_booking_same: "create_booking c i b p a d = Inr (x, d') \<Longrightarrow> seat_tables_same d d'"
  by (auto simp: create_booking_def seat_tables_same_def result_simps Let_def split: option.splits if_splits)

lemma confirm_booking_same: "confirm_booking c i a d = Inr (x, d') \<Longrightarrow> seat_tables_same d d'"
  by (auto simp: confirm_booking_def seat_tables_same_def result_simps Let_def split: option.splits if_splits)

lemma release_booth_same: "release_booth i a d = Inr (x, d') \<Longrightarrow> seat_tables_same d d'"
  by (auto simp: release_booth_def seat_tables_same_def result_simps Let_def split: option.splits if_splits)

lemma delete_booking_same: "delete_booking i a d = Inr (x, d') \<Longrightarrow> seat_tables_same d d'"
  by (auto simp: delete_booking_def seat_tables_same_def result_simps Let_def split: option.splits if_splits)

lemma mark_paid_same: "seat_tables_same d (snd (mark_booths_paid ids d))"
  by (simp add: mark_booths_paid_def latch_booths_def seat_tables_same_def Let_def)

lemmas booth_same = create_booth_same patch_booth_same delete_booth_same create_booking_same
  confirm_booking_same release_booth_same delete_booking_same

lemma booth_step_frame:
  assumes "booth_step v d = Inr d'"
  shows "seat_tables_same d d'"
  using assms mark_paid_same by (cases v) (auto simp: result_simps dest: booth_same)

interpretation system: verb_invariant system_step system_admissible system_inv
proof unfold_locales
  fix v d d' assume step: "system_step v d = Inr d'" and adm: "system_admissible v d" and inv: "system_inv d"
  show "system_inv d'"
  proof (cases v)
    case (Seat_Verb u)
    with step adm inv show ?thesis
      using seat_step_frame [of u d d'] seats.keeps [of u d d'] booth_inv_same [of d d'] by (simp add: system_inv_def)
  next
    case (Booth_Verb u)
    with step inv show ?thesis
      using booth.keeps [of u d d'] booth_step_frame [of u d d'] seat_inv_same [of d d'] by (simp add: system_inv_def)
  qed
qed

lemma run_events: "events (run_verbs system_step vs d) = events d"
proof (induction vs arbitrary: d)
  case (Cons v vs)
  then show ?case
    by (cases v; cases "system_step v d") (auto simp: seat_tables_same_def dest: seat_step_frame booth_step_frame)
qed simp

lemma ex_system_inv: "system_inv ex_db"
proof -
  have "seat_inv ex_db"
    by (simp add: seat_inv_def keys_ok_def within_capacity_def slots_fit_def seats_taken_def count_rows_def ex_defs)
  then show ?thesis using ex_booth_inv by (simp add: system_inv_def)
qed

text \<open>What the invariant says of limits and bookings.\<close>

lemma system_inv_walls:
  assumes "system_inv d"
  shows "(\<forall>e \<in> set (events d). ev_seats_limited e \<and> ev_seats_max e > 0 \<longrightarrow>
       (\<forall>slot. (ev_multi_slots e \<longleftrightarrow> slot \<noteq> None) \<longrightarrow> seats_taken (ev_id e) slot d \<le> ev_seats_max e)) \<and>
    (\<forall>x \<in> set (bookings d). \<forall>y \<in> set (bookings d).
       bb_status x = Booking_Confirmed \<and> bb_status y = Booking_Confirmed \<and> bb_booth_id x = bb_booth_id y \<longrightarrow> x = y)"
proof -
  have inv: "seat_inv d" "booth_inv d" using assms by (simp_all add: system_inv_def)
  have "x = y" if "x \<in> set (bookings d)" "y \<in> set (bookings d)" "bb_status x = Booking_Confirmed"
    "bb_status y = Booking_Confirmed" "bb_booth_id x = bb_booth_id y" for x y
    using booth_inv_exclusive [OF inv(2) that(2), of "bb_booth_id y"] that by (simp add: confirmed_on_def)
  then show ?thesis using inv(1) by (auto simp: seat_inv_def within_capacity_def capacity_scope_def)
qed

text \<open>
  C1. Seats and booths together: whatever interleaving of seat verbs (with no stray slot) and
  booth verbs is run, no seat-limited event or slot holds more open or done registrations than its
  limit, and every confirmed booking is the only one of its booth.
\<close>

theorem interleaved_verbs_keep_both_walls:
  assumes "system_inv d" and "run_admissible system_step system_admissible vs d"
  shows "(\<forall>e \<in> set (events (run_verbs system_step vs d)). ev_seats_limited e \<and> ev_seats_max e > 0 \<longrightarrow>
       (\<forall>slot. (ev_multi_slots e \<longleftrightarrow> slot \<noteq> None) \<longrightarrow>
          seats_taken (ev_id e) slot (run_verbs system_step vs d) \<le> ev_seats_max e)) \<and>
    (\<forall>x \<in> set (bookings (run_verbs system_step vs d)). \<forall>y \<in> set (bookings (run_verbs system_step vs d)).
       bb_status x = Booking_Confirmed \<and> bb_status y = Booking_Confirmed \<and> bb_booth_id x = bb_booth_id y \<longrightarrow> x = y)"
  using system_inv_walls [OF system.run_keeps [OF assms]] .

theorem interleaved_verbs_keep_both_walls_witness:
  "seats_taken 1 None (run_verbs system_step
      [Booth_Verb (Confirm_Booking 85), Seat_Verb (Verb_Register (ex_env 3) (ex_cmd 1 None None)),
       Seat_Verb (Verb_Register (ex_env 4) (ex_cmd 1 None None)), Booth_Verb (Confirm_Booking 86)] ex_db) \<le> 1"
proof -
  let ?vs = "[Booth_Verb (Confirm_Booking 85), Seat_Verb (Verb_Register (ex_env 3) (ex_cmd 1 None None)),
       Seat_Verb (Verb_Register (ex_env 4) (ex_cmd 1 None None)), Booth_Verb (Confirm_Booking 86)]"
  have "no_stray_slot (ex_cmd 1 None None) d" for d
    by (simp add: no_stray_slot_def ex_cmd_def split: option.splits)
  then have "run_admissible system_step system_admissible ?vs ex_db" by simp
  note walls = interleaved_verbs_keep_both_walls [OF ex_system_inv this]
  have "ex_event 1 False 1 \<in> set (events ex_db)" by (simp add: ex_db_def)
  moreover have "ev_seats_limited (ex_event 1 False 1) \<and> ev_seats_max (ex_event 1 False 1) = 1 \<and>
    \<not> ev_multi_slots (ex_event 1 False 1) \<and> ev_id (ex_event 1 False 1) = 1" by (simp add: ex_event_def)
  ultimately show ?thesis using walls unfolding run_events by fastforce
qed

end
