(* ===== verification/Capability.thy ===== *)
theory Capability
  imports Schema "HOL-Library.Multiset" "HOL-Library.List_Lexorder" "HOL-Library.Char_ord"
begin

unbundle bit_operations_syntax

text \<open>
  \<open>application/service/capability.rs\<close>: the capability tokens of the public surface. A token
  is \<open>v1.<payload>.<signature>\<close>, both parts in unpadded url-safe base64, the signature an
  HMAC over the label, the purpose and the payload text. The HMAC, the JSON of the claims
  (\<open>serde_json\<close>) and the text of a \<open>Uuid\<close> are not code of the repository: they are the
  fields of \<open>cap_env\<close>, and what a property relies on is its hypothesis. The base64 codec is
  the repository's own and is modelled on its \<open>u8\<close> and \<open>u32\<close>.
\<close>

type_synonym byte = "8 word"

section \<open>The base64 codec\<close>

definition alpha :: string where
  "alpha = ''ABCDEFGHIJKLMNOPQRSTUVWXYZabcdefghijklmnopqrstuvwxyz0123456789-_''"

fun position :: "char \<Rightarrow> string \<Rightarrow> nat option" where
  "position c [] = None"
| "position c (a # as) = (if a = c then Some 0 else map_option Suc (position c as))"

text \<open>The 24 bits of a chunk, missing bytes read as zero, and its four symbols.\<close>

definition chunk_bits :: "byte \<Rightarrow> byte \<Rightarrow> byte \<Rightarrow> 32 word" where
  "chunk_bits b0 b1 b2 = (push_bit 16 (ucast b0) OR push_bit 8 (ucast b1)) OR ucast b2"

definition symbol :: "nat \<Rightarrow> 32 word \<Rightarrow> char" where
  "symbol k n = alpha ! unat (drop_bit k n AND 63)"

fun encode_chunks :: "byte list \<Rightarrow> string" where
  "encode_chunks [] = []"
| "encode_chunks [a] =
     (let n = chunk_bits a 0 0 in [symbol 18 n, symbol 12 n, CHR ''='', CHR ''=''])"
| "encode_chunks [a, b] =
     (let n = chunk_bits a b 0 in [symbol 18 n, symbol 12 n, symbol 6 n, CHR ''=''])"
| "encode_chunks (a # b # c # bs) =
     (let n = chunk_bits a b c in [symbol 18 n, symbol 12 n, symbol 6 n, symbol 0 n])
     @ encode_chunks bs"

text \<open>\<open>while out.ends_with('=') { out.pop(); }\<close>.\<close>

definition b64url_encode :: "byte list \<Rightarrow> string" where
  "b64url_encode bs = rev (dropWhile (\<lambda>c. c = CHR ''='') (rev (encode_chunks bs)))"

text \<open>
  The loop of the decoder. \<open>bits << 6\<close> drops what leaves the \<open>u32\<close>; \<open>nbits\<close> stays below
  14 (\<open>nbits_bound\<close>), so its arithmetic is that of naturals.
\<close>

fun decode_loop :: "32 word \<Rightarrow> nat \<Rightarrow> byte list \<Rightarrow> string \<Rightarrow> byte list option" where
  "decode_loop bits nbits out [] = Some out"
| "decode_loop bits nbits out (ch # text) =
     (case position ch alpha of
        None \<Rightarrow> None
      | Some v \<Rightarrow>
          (let bits' = push_bit 6 bits OR word_of_nat v; nbits' = nbits + 6 in
           if 8 \<le> nbits'
           then decode_loop bits' (nbits' - 8) (out @ [ucast (drop_bit (nbits' - 8) bits' AND 255)]) text
           else decode_loop bits' nbits' out text))"

definition b64url_decode :: "string \<Rightarrow> byte list option" where
  "b64url_decode text = decode_loop 0 0 [] text"

section \<open>Claims, signing, minting, verifying\<close>

record capability_claims =
  cc_purpose :: string
  cc_exp :: int
  cc_data :: "string list"

record cap_env =
  ce_mac :: "string \<Rightarrow> string \<Rightarrow> string + byte list"
  ce_to_json :: "capability_claims \<Rightarrow> string + byte list"
  ce_from_json :: "byte list \<Rightarrow> capability_claims option"
  ce_uuid_text :: "uuid \<Rightarrow> string"
  ce_uuid_parse :: "string \<Rightarrow> uuid option"

definition purpose_ics :: string where
  "purpose_ics = ''event-ics-access''"

definition purpose_ticket_report :: string where
  "purpose_ticket_report = ''event-registration-ticket-report-access''"

definition capability_context :: string where
  "capability_context = ''event-capability-v1''"

definition ics_token_ttl_secs :: int where
  "ics_token_ttl_secs = 24 * 60 * 60"

text \<open>What the MAC is fed, \<open>update\<close> by \<open>update\<close>.\<close>

definition mac_message :: "string \<Rightarrow> string \<Rightarrow> string" where
  "mac_message purpose payload_b64 =
     capability_context @ [CHR 0x0A] @ purpose @ [CHR 0x0A] @ payload_b64"

definition sign :: "cap_env \<Rightarrow> string \<Rightarrow> string \<Rightarrow> string \<Rightarrow> byte list event_result" where
  "sign env secret purpose payload_b64 =
     (if secret = [] then Inl EventCapabilitySecretNotConfigured
      else case ce_mac env secret (mac_message purpose payload_b64) of
             Inl e \<Rightarrow> Inl (Internal (''capability secret rejected by HMAC: '' @ e))
           | Inr s \<Rightarrow> Inr s)"

definition mint :: "cap_env \<Rightarrow> string \<Rightarrow> capability_claims \<Rightarrow> string event_result" where
  "mint env secret c =
     (case ce_to_json env c of
        Inl e \<Rightarrow> Inl (Internal (''capability payload encode: '' @ e))
      | Inr payload \<Rightarrow>
          (let payload_b64 = b64url_encode payload in
           bind_r (sign env secret (cc_purpose c) payload_b64) (\<lambda>s.
           Inr (''v1.'' @ payload_b64 @ ''.'' @ b64url_encode s))))"

text \<open>\<open>str::splitn\<close> on a one-character pattern, and \<open>next().unwrap_or_default()\<close>.\<close>

fun splitn :: "nat \<Rightarrow> char \<Rightarrow> string \<Rightarrow> string list" where
  "splitn 0 c s = []"
| "splitn (Suc 0) c s = [s]"
| "splitn (Suc (Suc n)) c s =
     (if c \<in> set s
      then takeWhile (\<lambda>x. x \<noteq> c) s # splitn (Suc n) c (tl (dropWhile (\<lambda>x. x \<noteq> c) s))
      else [s])"

definition part :: "nat \<Rightarrow> string list \<Rightarrow> string" where
  "part k ps = (if k < length ps then ps ! k else [])"

text \<open>\<open>DateTime::timestamp\<close>: whole seconds of the microsecond clock.\<close>

definition unix_secs :: "timestamp \<Rightarrow> int" where
  "unix_secs t = t div 1000000"

definition expired :: "capability_claims \<Rightarrow> timestamp \<Rightarrow> bool" where
  "expired c now \<longleftrightarrow> cc_exp c \<noteq> 0 \<and> unix_secs now \<ge> cc_exp c"

definition verify ::
    "cap_env \<Rightarrow> string \<Rightarrow> string \<Rightarrow> string \<Rightarrow> timestamp \<Rightarrow> capability_claims event_result" where
  "verify env secret expected_purpose token now =
     (if secret = [] then Inl EventCapabilitySecretNotConfigured
      else
        let parts = splitn 3 (CHR ''.'') token; version = part 0 parts;
            payload_b64 = part 1 parts; sig_b64 = part 2 parts in
        if version \<noteq> ''v1'' \<or> payload_b64 = [] \<or> sig_b64 = [] then Inl EventNotPublished
        else
          bind_r (sign env secret expected_purpose payload_b64) (\<lambda>expected_sig.
          bind_r (ok_or (b64url_decode sig_b64) EventNotPublished) (\<lambda>given_sig.
          if length expected_sig \<noteq> length given_sig \<or> expected_sig \<noteq> given_sig
          then Inl EventNotPublished
          else
            bind_r (ok_or (b64url_decode payload_b64) EventNotPublished) (\<lambda>payload.
            bind_r (ok_or (ce_from_json env payload) EventNotPublished) (\<lambda>claims.
            if cc_purpose claims \<noteq> expected_purpose then Inl EventNotPublished
            else if expired claims now then Inl EventNotPublished
            else Inr claims)))))"

text \<open>An \<open>i64\<close> sum, as the release profile wraps it.\<close>

definition i64_add :: "int \<Rightarrow> int \<Rightarrow> int" where
  "i64_add a b = signed_take_bit 63 (a + b)"

definition mint_ics_capability ::
    "cap_env \<Rightarrow> string \<Rightarrow> uuid \<Rightarrow> uuid option \<Rightarrow> timestamp \<Rightarrow> int \<Rightarrow> string event_result" where
  "mint_ics_capability env secret event_id slot_id now ttl_secs =
     mint env secret
       \<lparr>cc_purpose = purpose_ics, cc_exp = i64_add (unix_secs now) ttl_secs,
        cc_data = ce_uuid_text env event_id #
          (case slot_id of None \<Rightarrow> [] | Some slot \<Rightarrow> [ce_uuid_text env slot])\<rparr>"

definition mint_ticket_report_capability ::
    "cap_env \<Rightarrow> string \<Rightarrow> uuid \<Rightarrow> uuid list \<Rightarrow> string event_result" where
  "mint_ticket_report_capability env secret event_id registration_ids =
     mint env secret
       \<lparr>cc_purpose = purpose_ticket_report, cc_exp = 0,
        cc_data = ce_uuid_text env event_id # sort (map (ce_uuid_text env) registration_ids)\<rparr>"

section \<open>The codec inverts\<close>

lemma length_alpha [simp]: "length alpha = 64"
  by (simp add: alpha_def)

lemma alpha_distinct: "distinct alpha"
  by code_simp

lemma position_Some_iff:
  assumes "distinct as"
  shows "position c as = Some i \<longleftrightarrow> i < length as \<and> as ! i = c"
  using assms
proof (induction as arbitrary: i)
  case (Cons a as)
  then have IH: "position c as = Some j \<longleftrightarrow> j < length as \<and> as ! j = c" for j by simp
  show ?case
  proof (cases i)
    case 0
    then show ?thesis by auto
  next
    case (Suc j)
    with IH [of j] Cons.prems show ?thesis by (auto simp: nth_mem)
  qed
qed simp

lemma position_None_iff [simp]: "position c as = None \<longleftrightarrow> c \<notin> set as"
  by (induction as) auto

lemma position_nth: "i < 64 \<Longrightarrow> position (alpha ! i) alpha = Some i"
  by (simp add: position_Some_iff alpha_distinct)

lemma position_bound: "position c alpha = Some v \<Longrightarrow> v < 64"
  by (simp add: position_Some_iff alpha_distinct)

lemma unat_and_63: "unat (w AND 63 :: 32 word) < 64"
proof -
  have "w AND 63 \<le> 63" by (rule word_and_le1)
  then have "unat (w AND 63) \<le> unat (63 :: 32 word)" by (simp only: word_le_nat_alt)
  then show ?thesis by simp
qed

lemma position_symbol: "position (symbol k n) alpha = Some (unat (drop_bit k n AND 63))"
  unfolding symbol_def using unat_and_63 by (rule position_nth)

lemma symbol_in: "symbol k n \<in> set alpha"
  unfolding symbol_def using unat_and_63 [of "drop_bit k n"] by simp

lemma pad_not_alpha: "CHR ''='' \<notin> set alpha"
  by (simp add: alpha_def)

lemma dot_not_alpha: "CHR ''.'' \<notin> set alpha"
  by (simp add: alpha_def)

lemma newline_not_alpha: "CHR 0x0A \<notin> set alpha"
  by (simp add: alpha_def)


lemma sixty_three: "(63 :: 32 word) = mask 6" and two_fifty_five: "(255 :: 32 word) = mask 8"
  by (simp_all add: mask_eq_exp_minus_1)

lemma bit_chunk_bits:
  "bit (chunk_bits a b c) k \<longleftrightarrow>
     (if k < 8 then bit c k else if k < 16 then bit b (k - 8) else bit a (k - 16))"
  by (auto simp: chunk_bits_def bit_simps dest: bit_imp_le_length)

lemma decode_symbol:
  "decode_loop bits nbits out (symbol k n # text) =
     (let bits' = push_bit 6 bits OR (drop_bit k n AND 63); nbits' = nbits + 6 in
      if 8 \<le> nbits'
      then decode_loop bits' (nbits' - 8) (out @ [ucast (drop_bit (nbits' - 8) bits' AND 255)]) text
      else decode_loop bits' nbits' out text)"
  by (simp add: position_symbol)

lemma decode_known:
  "position c alpha = Some v \<Longrightarrow> decode_loop bits nbits out (c # cs) =
     (let bits' = push_bit 6 bits OR word_of_nat v; nbits' = nbits + 6 in
      if 8 \<le> nbits'
      then decode_loop bits' (nbits' - 8) (out @ [ucast (drop_bit (nbits' - 8) bits' AND 255)]) cs
      else decode_loop bits' nbits' out cs)"
  by simp

lemma first_byte:
  "ucast (drop_bit 4 (push_bit 6 (push_bit 6 bits OR (drop_bit 18 (chunk_bits a b c) AND 63))
      OR (drop_bit 12 (chunk_bits a b c) AND 63)) AND 255) = a" for a :: byte
proof (rule bit_word_eqI)
  fix k assume "k < LENGTH(8)"
  then have "k < 8" by simp
  then show "bit (ucast (drop_bit 4 (push_bit 6 (push_bit 6 bits OR (drop_bit 18 (chunk_bits a b c) AND 63))
      OR (drop_bit 12 (chunk_bits a b c) AND 63)) AND 255) :: byte) k = bit a k"
    by (cases "k < 2") (auto simp: sixty_three two_fifty_five bit_simps bit_chunk_bits)
qed


lemma second_byte:
  "ucast (drop_bit 2 (push_bit 6 (push_bit 6 bits OR (drop_bit 12 (chunk_bits a b c) AND 63))
      OR (drop_bit 6 (chunk_bits a b c) AND 63)) AND 255) = b" for b :: byte
proof (rule bit_word_eqI)
  fix k assume "k < LENGTH(8)"
  then have "k < 8" by simp
  then show "bit (ucast (drop_bit 2 (push_bit 6 (push_bit 6 bits OR (drop_bit 12 (chunk_bits a b c) AND 63))
      OR (drop_bit 6 (chunk_bits a b c) AND 63)) AND 255) :: byte) k = bit b k"
    by (cases "k < 4") (auto simp: sixty_three two_fifty_five bit_simps bit_chunk_bits)
qed

lemma third_byte:
  "ucast ((push_bit 6 (push_bit 6 bits OR (drop_bit 6 (chunk_bits a b c) AND 63))
      OR (drop_bit 0 (chunk_bits a b c) AND 63)) AND 255) = c" for c :: byte
proof (rule bit_word_eqI)
  fix k assume "k < LENGTH(8)"
  then have "k < 8" by simp
  then show "bit (ucast ((push_bit 6 (push_bit 6 bits OR (drop_bit 6 (chunk_bits a b c) AND 63))
      OR (drop_bit 0 (chunk_bits a b c) AND 63)) AND 255) :: byte) k = bit c k"
    by (cases "k < 6") (auto simp: sixty_three two_fifty_five bit_simps bit_chunk_bits)
qed

text \<open>The symbols of a byte string before padding, a reference for the trimming loop.\<close>

fun symbols_of :: "byte list \<Rightarrow> string" where
  "symbols_of [] = []"
| "symbols_of [a] = [symbol 18 (chunk_bits a 0 0), symbol 12 (chunk_bits a 0 0)]"
| "symbols_of [a, b] = [symbol 18 (chunk_bits a b 0), symbol 12 (chunk_bits a b 0), symbol 6 (chunk_bits a b 0)]"
| "symbols_of (a # b # c # bs) =
     [symbol 18 (chunk_bits a b c), symbol 12 (chunk_bits a b c), symbol 6 (chunk_bits a b c),
      symbol 0 (chunk_bits a b c)] @ symbols_of bs"

lemma encode_chunks_pads: "\<exists>k. encode_chunks bs = symbols_of bs @ replicate k (CHR ''='')"
proof (induction bs rule: symbols_of.induct)
  case (2 a)
  have "encode_chunks [a] = symbols_of [a] @ replicate 2 (CHR ''='')"
    by (simp add: Let_def numeral_2_eq_2)
  then show ?case by blast
next
  case (3 a b)
  have "encode_chunks [a, b] = symbols_of [a, b] @ replicate 1 (CHR ''='')" by (simp add: Let_def)
  then show ?case by blast
qed (auto simp: Let_def)

lemma symbols_of_in_alpha: "set (symbols_of bs) \<subseteq> set alpha"
  by (induction bs rule: symbols_of.induct) (auto simp: symbol_in)

lemma trim_replicate:
  assumes "c \<notin> set xs"
  shows "rev (dropWhile (\<lambda>x. x = c) (rev (xs @ replicate k c))) = xs"
proof -
  have "dropWhile (\<lambda>x. x = c) (replicate k c @ rev xs) = dropWhile (\<lambda>x. x = c) (rev xs)"
    by (induction k) auto
  moreover have "dropWhile (\<lambda>x. x = c) (rev xs) = rev xs"
    using assms by (cases "rev xs") (auto simp: dropWhile_eq_self_iff rev_swap)
  ultimately show ?thesis by simp
qed

lemma b64url_encode_eq: "b64url_encode bs = symbols_of bs"
proof -
  obtain k where "encode_chunks bs = symbols_of bs @ replicate k (CHR ''='')"
    using encode_chunks_pads by blast
  moreover have "CHR ''='' \<notin> set (symbols_of bs)" using symbols_of_in_alpha pad_not_alpha by blast
  ultimately show ?thesis unfolding b64url_encode_def using trim_replicate by metis
qed

lemma b64url_encode_alpha: "set (b64url_encode bs) \<subseteq> set alpha"
  by (simp add: b64url_encode_eq symbols_of_in_alpha)

lemma symbols_of_eq_Nil [simp]: "symbols_of bs = [] \<longleftrightarrow> bs = []"
  by (induction bs rule: symbols_of.induct) auto

lemma b64url_encode_eq_Nil [simp]: "b64url_encode bs = [] \<longleftrightarrow> bs = []"
  by (simp add: b64url_encode_eq)

lemma length_symbols_of: "length (symbols_of bs) = (4 * length bs + 2) div 3"
  by (induction bs rule: symbols_of.induct) auto

lemma decode_symbols_of: "decode_loop bits 0 out (symbols_of bs) = Some (out @ bs)"
proof (induction bs arbitrary: bits out rule: symbols_of.induct)
  case (2 a)
  show ?case using first_byte [of bits a 0 0] by (simp add: decode_symbol del: decode_loop.simps(2))
next
  case (3 a b)
  show ?case
    using first_byte [of bits a b 0] second_byte [of "push_bit 6 bits OR (drop_bit 18 (chunk_bits a b 0) AND 63)" a b 0]
    by (simp add: decode_symbol del: decode_loop.simps(2))
next
  case (4 a b c bs)
  show ?case
    using first_byte [of bits a b c] second_byte [of "push_bit 6 bits OR (drop_bit 18 (chunk_bits a b c) AND 63)" a b c]
      third_byte [of "push_bit 6 (push_bit 6 bits OR (drop_bit 18 (chunk_bits a b c) AND 63)) OR (drop_bit 12 (chunk_bits a b c) AND 63)" a b c]
    by (simp add: decode_symbol 4 del: decode_loop.simps(2))
qed simp


lemma b64url_decode_encode: "b64url_decode (b64url_encode bs) = Some bs"
  by (simp add: b64url_decode_def b64url_encode_eq decode_symbols_of)

lemma decode_loop_Some_iff: "(\<exists>bs. decode_loop bits n out cs = Some bs) \<longleftrightarrow> set cs \<subseteq> set alpha"
proof (induction cs arbitrary: bits n out)
  case (Cons c cs)
  show ?case
  proof (cases "position c alpha")
    case None
    then show ?thesis using position_None_iff [of c alpha] by (simp del: position_None_iff)
  next
    case (Some v)
    then have "c \<in> set alpha" using position_None_iff [of c alpha] by force
    with Some Cons.IH show ?thesis by (simp add: Let_def)
  qed
qed simp

lemma decode_loop_length:
  "decode_loop bits n out cs = Some bs \<Longrightarrow> n < 8 \<Longrightarrow>
     length bs = length out + (n + 6 * length cs) div 8"
proof (induction cs arbitrary: bits n out)
  case (Cons c cs)
  then obtain v where v: "position c alpha = Some v" by (cases "position c alpha") auto
  show ?case
  proof (cases "8 \<le> n + 6")
    case True
    with Cons.prems v Cons.IH show ?thesis
      by (fastforce simp: Let_def)
  next
    case False
    with Cons.prems v have "decode_loop (push_bit 6 bits OR word_of_nat v) (n + 6) out cs = Some bs" by simp
    from Cons.IH [OF this] False show ?thesis by (simp add: algebra_simps)
  qed
qed simp

text \<open>The bit counter of the loop is 6 more than a number below 8 when it is at its highest.\<close>

fun loop_nbits :: "nat \<Rightarrow> string \<Rightarrow> nat" where
  "loop_nbits n [] = n"
| "loop_nbits n (c # cs) = loop_nbits (if 8 \<le> n + 6 then n + 6 - 8 else n + 6) cs"

lemma nbits_bound: "n < 8 \<Longrightarrow> loop_nbits n cs + 6 < 14"
  by (induction cs arbitrary: n) auto

section \<open>Splitting a token\<close>

lemma takeWhile_dot: "c \<notin> set xs \<Longrightarrow> takeWhile (\<lambda>x. x \<noteq> c) (xs @ c # ys) = xs"
  by (induction xs) auto

lemma dropWhile_dot: "c \<notin> set xs \<Longrightarrow> dropWhile (\<lambda>x. x \<noteq> c) (xs @ c # ys) = c # ys"
  by (induction xs) auto

lemma splitn_first: "c \<notin> set xs \<Longrightarrow> splitn (Suc (Suc n)) c (xs @ c # ys) = xs # splitn (Suc n) c ys"
  by (simp add: takeWhile_dot dropWhile_dot)

lemma splitn_three:
  assumes "c \<notin> set x" and "c \<notin> set y"
  shows "splitn 3 c (x @ c # y @ c # z) = [x, y, z]"
  using assms splitn_first [of c x 1 "y @ c # z"] splitn_first [of c y 0 z]
  by (simp add: numeral_3_eq_3 del: splitn.simps(3))

lemma split_at_first: "c \<in> set s \<Longrightarrow> \<exists>x y. s = x @ c # y \<and> c \<notin> set x"
  by (meson split_list_first)

text \<open>A token with three non-empty parts is its parts, joined by dots.\<close>

lemma token_parts:
  assumes "part 0 (splitn 3 c t) = x" and "part 1 (splitn 3 c t) = y" and "part 2 (splitn 3 c t) = z"
    and "y \<noteq> []" and "z \<noteq> []"
  shows "t = x @ c # y @ c # z \<and> c \<notin> set x \<and> c \<notin> set y"
proof -
  have "c \<in> set t" using assms(2,4) by (auto simp: numeral_3_eq_3 part_def split: if_splits)
  then obtain x' r where t: "t = x' @ c # r" "c \<notin> set x'" using split_at_first by metis
  then have s1: "splitn 3 c t = x' # splitn 2 c r"
    using splitn_first [of c x' 1 r] by (simp add: numeral_3_eq_3 numeral_2_eq_2 del: splitn.simps(3))
  have "c \<in> set r" using assms(3,5) s1 by (auto simp: numeral_2_eq_2 part_def split: if_splits)
  then obtain y' z' where r: "r = y' @ c # z'" "c \<notin> set y'" using split_at_first by metis
  then have "splitn 3 c t = [x', y', z']" using t by (simp add: splitn_three)
  with assms t r show ?thesis by (simp add: part_def)
qed


lemma part_simps [simp]: "part 0 [x, y, z] = x" "part 1 [x, y, z] = y" "part 2 [x, y, z] = z"
    "part (Suc 0) [x, y, z] = y"
  by (simp_all add: part_def)

text \<open>The verification of a token given by its parts, after the split.\<close>

definition verify_parts ::
    "cap_env \<Rightarrow> string \<Rightarrow> string \<Rightarrow> string \<Rightarrow> string \<Rightarrow> timestamp \<Rightarrow> capability_claims event_result" where
  "verify_parts env secret p payload_b64 sig_b64 now =
     bind_r (sign env secret p payload_b64) (\<lambda>expected_sig.
     bind_r (ok_or (b64url_decode sig_b64) EventNotPublished) (\<lambda>given_sig.
     if expected_sig \<noteq> given_sig then Inl EventNotPublished
     else
       bind_r (ok_or (b64url_decode payload_b64) EventNotPublished) (\<lambda>payload.
       bind_r (ok_or (ce_from_json env payload) EventNotPublished) (\<lambda>claims.
       if cc_purpose claims \<noteq> p \<or> expired claims now then Inl EventNotPublished
       else Inr claims))))"

lemma length_or_content: "(length a \<noteq> length b \<or> a \<noteq> b) = (a \<noteq> b)"
  by auto

lemma if_or_nest: "(if a then x else if b then x else y) = (if a \<or> b then x else y)"
  by simp

lemma verify_splits:
  "verify env secret p t now =
     (let parts = splitn 3 (CHR ''.'') t in
      if secret = [] then Inl EventCapabilitySecretNotConfigured
      else if part 0 parts \<noteq> ''v1'' \<or> part 1 parts = [] \<or> part 2 parts = [] then Inl EventNotPublished
      else verify_parts env secret p (part 1 parts) (part 2 parts) now)"
  unfolding verify_def verify_parts_def Let_def length_or_content if_or_nest ..

lemma verify_token:
  assumes "secret \<noteq> []" and "CHR ''.'' \<notin> set payload" and "payload \<noteq> []" and "sig \<noteq> []"
  shows "verify env secret p (''v1.'' @ payload @ ''.'' @ sig) now = verify_parts env secret p payload sig now"
proof -
  have "splitn 3 (CHR ''.'') (''v1.'' @ payload @ ''.'' @ sig) = [''v1'', payload, sig]"
    using splitn_three [of "CHR ''.''" "''v1''" payload sig] assms by simp
  with assms show ?thesis by (simp add: verify_splits del: append.simps)
qed

lemma verify_parts_accepts:
  "verify_parts env secret p payload sig now = Inr c \<longleftrightarrow>
     secret \<noteq> [] \<and> (\<exists>m bytes.
       ce_mac env secret (mac_message p payload) = Inr m \<and> b64url_decode sig = Some m \<and>
       b64url_decode payload = Some bytes \<and> ce_from_json env bytes = Some c) \<and>
     cc_purpose c = p \<and> \<not> expired c now"
  by (auto simp: verify_parts_def sign_def result_simps split: if_splits sum.splits)

lemma mint_token:
  assumes "mint env secret c = Inr t"
  obtains bytes m where "secret \<noteq> []" and "ce_to_json env c = Inr bytes"
    and "ce_mac env secret (mac_message (cc_purpose c) (b64url_encode bytes)) = Inr m"
    and "t = ''v1.'' @ b64url_encode bytes @ ''.'' @ b64url_encode m"
  using assms
  by (auto simp: mint_def sign_def Let_def result_simps split: sum.splits if_splits)

lemma encode_no_dot: "CHR ''.'' \<notin> set (b64url_encode bs)"
  using b64url_encode_alpha dot_not_alpha by blast

text \<open>The two facts the surface's readers use: one refusal, and a minted token verifies.\<close>

lemma verify_refusal:
  assumes "\<forall>k m. \<not> isl (ce_mac env k m)" and "secret \<noteq> []" and "verify env secret p t now = Inl e"
  shows "e = EventNotPublished"
proof -
  have mac: "ce_mac env k m \<noteq> Inl x" for k m x using assms(1) by (metis isl_def)
  have "e = EventNotPublished" if "verify_parts env secret p x y now = Inl e" for x y
    using that mac assms(2) by (auto simp: verify_parts_def sign_def result_simps split: if_splits sum.splits)
  with assms(2,3) show ?thesis by (auto simp: verify_splits Let_def split: if_splits)
qed

lemma verify_minted:
  assumes "mint env secret c = Inr t" and "ce_to_json env c = Inr bytes"
    and "ce_from_json env bytes = Some c" and "bytes \<noteq> []"
    and "\<forall>k m. ce_mac env k m \<noteq> Inr []" and "\<not> expired c now"
  shows "verify env secret (cc_purpose c) t now = Inr c"
proof -
  obtain m where m: "secret \<noteq> []" "ce_mac env secret (mac_message (cc_purpose c) (b64url_encode bytes)) = Inr m"
    and t: "t = ''v1.'' @ b64url_encode bytes @ ''.'' @ b64url_encode m"
    using mint_token [OF assms(1)] assms(2) by auto
  have "m \<noteq> []" using m(2) assms(5) by auto
  then show ?thesis
    unfolding t using m assms
    by (subst verify_token) (simp_all add: encode_no_dot verify_parts_accepts b64url_decode_encode)
qed

text \<open>A concrete JSON text, MAC and uuid text for the examples.\<close>

definition ex_claims :: capability_claims where
  "ex_claims = \<lparr>cc_purpose = purpose_ics, cc_exp = 90, cc_data = [''1'']\<rparr>"

definition ex_bytes :: "string \<Rightarrow> byte list" where
  "ex_bytes s = map (\<lambda>c. word_of_nat (of_char c)) s"

definition ex_json :: "capability_claims \<Rightarrow> byte list" where
  "ex_json c = ex_bytes (''{purpose:'' @ cc_purpose c @ '',exp:'' @ show_int (cc_exp c) @ '',data:['' @
     concat (map (\<lambda>s. s @ '','') (cc_data c)) @ '']}'')"

definition ex_cap_env :: cap_env where
  "ex_cap_env = \<lparr>ce_mac = (\<lambda>k m. Inr (take 32 (ex_bytes (k @ rev m) @ replicate 32 0))),
     ce_to_json = (\<lambda>c. Inr (ex_json c)),
     ce_from_json = (\<lambda>b. find (\<lambda>c. ex_json c = b) [ex_claims]),
     ce_uuid_text = show_nat,
     ce_uuid_parse = (\<lambda>s. find (\<lambda>i. show_nat i = s) [0..<100])\<rparr>"

text \<open>
  C28. A minted token reads back: whatever the clock says, verifying it for its purpose gives
  the claims until they expire and the one refusal afterwards.
\<close>

theorem minted_token_verifies_until_expiry:
  assumes "mint env secret c = Inr t" and "ce_to_json env c = Inr bytes"
    and "ce_from_json env bytes = Some c" and "bytes \<noteq> []"
    and "\<forall>k m. ce_mac env k m \<noteq> Inr []"
  shows "verify env secret (cc_purpose c) t now =
    (if expired c now then Inl EventNotPublished else Inr c)"
proof -
  obtain m where m: "secret \<noteq> []" "ce_mac env secret (mac_message (cc_purpose c) (b64url_encode bytes)) = Inr m"
    and t: "t = ''v1.'' @ b64url_encode bytes @ ''.'' @ b64url_encode m"
    using mint_token [OF assms(1)] assms(2) by auto
  have "m \<noteq> []" using m(2) assms(5) by auto
  then have "verify env secret (cc_purpose c) t now =
      verify_parts env secret (cc_purpose c) (b64url_encode bytes) (b64url_encode m) now"
    unfolding t using m assms(4) by (intro verify_token) (simp_all add: encode_no_dot)
  then show ?thesis
    using m assms by (simp add: verify_parts_def sign_def b64url_decode_encode)
qed

theorem minted_token_verifies_until_expiry_witness:
  "\<exists>t. mint ex_cap_env ''k'' ex_claims = Inr t \<and>
     verify ex_cap_env ''k'' purpose_ics t 89000000 = Inr ex_claims \<and>
     verify ex_cap_env ''k'' purpose_ics t 90000000 = Inl EventNotPublished"
proof -
  have "\<not> isl (mint ex_cap_env ''k'' ex_claims)" by (simp add: mint_def sign_def ex_cap_env_def Let_def)
  then obtain t where t: "mint ex_cap_env ''k'' ex_claims = Inr t" using isr_obtain by blast
  have "verify ex_cap_env ''k'' (cc_purpose ex_claims) t now =
      (if expired ex_claims now then Inl EventNotPublished else Inr ex_claims)" for now
    by (rule minted_token_verifies_until_expiry [OF t, of "ex_json ex_claims"])
       (simp_all add: ex_cap_env_def ex_json_def ex_bytes_def)
  from this [of 89000000] this [of 90000000] t show ?thesis
    by (simp add: ex_claims_def expired_def unix_secs_def)
qed


lemma verify_accepted_parts:
  assumes "verify env secret p t now = Inr c"
  shows "\<exists>payload sig m bytes. secret \<noteq> [] \<and>
    t = ''v1.'' @ payload @ ''.'' @ sig \<and> CHR ''.'' \<notin> set payload \<and> payload \<noteq> [] \<and> sig \<noteq> [] \<and>
    ce_mac env secret (mac_message p payload) = Inr m \<and> b64url_decode sig = Some m \<and>
    b64url_decode payload = Some bytes \<and> ce_from_json env bytes = Some c \<and>
    cc_purpose c = p \<and> \<not> expired c now"
proof -
  let ?ps = "splitn 3 (CHR ''.'') t"
  from assms have ok: "secret \<noteq> []" "part 0 ?ps = ''v1''" "part 1 ?ps \<noteq> []" "part 2 ?ps \<noteq> []"
    "verify_parts env secret p (part 1 ?ps) (part 2 ?ps) now = Inr c"
    by (auto simp: verify_splits Let_def split: if_splits)
  have "t = ''v1.'' @ part 1 ?ps @ ''.'' @ part 2 ?ps \<and> CHR ''.'' \<notin> set (part 1 ?ps)"
    using token_parts [OF ok(2) refl refl ok(3,4)] by simp
  then show ?thesis using ok(1,3,4) ok(5) [unfolded verify_parts_accepts] by blast
qed

text \<open>
  A token of one purpose opens no other door: the ticket link does not read the calendar
  feed, even if the MAC collided.
\<close>

lemma other_purpose_refused:
  assumes "mint env secret c = Inr t" and "ce_to_json env c = Inr bytes"
    and "ce_from_json env bytes = Some c" and "q \<noteq> cc_purpose c"
  shows "\<exists>e. verify env secret q t now = Inl e"
proof -
  obtain m where t: "t = ''v1'' @ CHR ''.'' # b64url_encode bytes @ CHR ''.'' # b64url_encode m"
    using mint_token [OF assms(1)] assms(2) by auto
  have "verify env secret q t now \<noteq> Inr c'" for c'
  proof
    assume "verify env secret q t now = Inr c'"
    then obtain x y b where x: "t = ''v1'' @ CHR ''.'' # x @ CHR ''.'' # y" "CHR ''.'' \<notin> set x"
      and b: "b64url_decode x = Some b" "ce_from_json env b = Some c'" "cc_purpose c' = q"
      using verify_accepted_parts by fastforce
    have "splitn 3 (CHR ''.'') t = [''v1'', b64url_encode bytes, b64url_encode m]"
      unfolding t by (rule splitn_three) (simp_all add: encode_no_dot)
    moreover have "splitn 3 (CHR ''.'') t = [''v1'', x, y]"
      unfolding x(1) by (rule splitn_three) (simp_all add: x(2))
    ultimately have "b = bytes" using b(1) by (simp add: b64url_decode_encode)
    with b assms show False by simp
  qed
  then show ?thesis by (cases "verify env secret q t now") auto
qed

text \<open>
  C27. What is accepted: a token verifies exactly when it is three dot-separated parts, version
  \<open>v1\<close>, whose signature decodes to the MAC of the payload text under the expected purpose
  and whose payload decodes and parses to unexpired claims of that very purpose.
\<close>

theorem verify_accepts_iff:
  "verify env secret p t now = Inr c \<longleftrightarrow>
     secret \<noteq> [] \<and> (\<exists>payload sig m bytes.
       t = ''v1.'' @ payload @ ''.'' @ sig \<and> CHR ''.'' \<notin> set payload \<and> payload \<noteq> [] \<and> sig \<noteq> [] \<and>
       ce_mac env secret (mac_message p payload) = Inr m \<and> b64url_decode sig = Some m \<and>
       b64url_decode payload = Some bytes \<and> ce_from_json env bytes = Some c) \<and>
     cc_purpose c = p \<and> (cc_exp c = 0 \<or> unix_secs now < cc_exp c)"
    (is "_ \<longleftrightarrow> ?rhs")
proof
  assume "verify env secret p t now = Inr c"
  from verify_accepted_parts [OF this] show ?rhs by (auto simp: expired_def)
next
  assume r: ?rhs
  then obtain payload sig where t: "t = ''v1.'' @ payload @ ''.'' @ sig"
    and side: "CHR ''.'' \<notin> set payload" "payload \<noteq> []" "sig \<noteq> []"
    and "verify_parts env secret p payload sig now = Inr c"
    by (auto simp: verify_parts_accepts expired_def)
  with r show "verify env secret p t now = Inr c"
    unfolding t using verify_token by simp
qed

text \<open>
  One refusal: with a secret configured and a MAC that takes any key, every token that is
  not accepted, malformed, forged, of another purpose or expired, is answered by the same
  \<open>event_not_published\<close> a missing event gets; without a secret nothing is ever verified or
  minted.
\<close>

lemma verify_refuses_uniformly:
  assumes "\<forall>k m. \<not> isl (ce_mac env k m)"
  shows "verify env secret p t now = Inl e \<longleftrightarrow>
    (if secret = [] then e = EventCapabilitySecretNotConfigured
     else e = EventNotPublished \<and> (\<forall>c. verify env secret p t now \<noteq> Inr c))"
proof -
  have "secret \<noteq> [] \<Longrightarrow> verify env secret p t now = Inl e \<Longrightarrow> e = EventNotPublished" for e
    using verify_refusal [OF assms] .
  then show ?thesis by (cases "verify env secret p t now") (auto simp: verify_splits)
qed

lemma verify_refuses_uniformly_witness:
  "verify ex_cap_env ''k'' purpose_ics ''v2.x.y'' 0 = Inl EventNotPublished"
proof -
  have "verify ex_cap_env ''k'' purpose_ics ''v2.x.y'' 0 \<noteq> Inr c" for c
    by (simp add: verify_splits part_def numeral_3_eq_3)
  then show ?thesis
    using verify_refuses_uniformly [of ex_cap_env "''k''" purpose_ics "''v2.x.y''" 0 EventNotPublished]
    by (simp add: ex_cap_env_def)
qed

text \<open>
  The MAC message is injective for purposes without a newline, which the module's are: the
  label, the purpose and the payload cannot be shifted into each other.
\<close>

lemma mac_message_inj:
  assumes "CHR 0x0A \<notin> set p" and "CHR 0x0A \<notin> set q"
  shows "mac_message p x = mac_message q y \<longleftrightarrow> p = q \<and> x = y"
proof
  assume "mac_message p x = mac_message q y"
  then have eq: "p @ CHR 0x0A # x = q @ CHR 0x0A # y" by (simp add: mac_message_def)
  from arg_cong [OF eq, of "takeWhile (\<lambda>c. c \<noteq> CHR 0x0A)"] have "p = q"
    by (simp only: takeWhile_dot [OF assms(1)] takeWhile_dot [OF assms(2)])
  with eq show "p = q \<and> x = y" by simp
qed simp

lemma purposes_have_no_newline: "CHR 0x0A \<notin> set purpose_ics" "CHR 0x0A \<notin> set purpose_ticket_report"
  by (simp_all add: purpose_ics_def purpose_ticket_report_def)

text \<open>
  The codec: what is encoded decodes to itself; the decoder takes exactly the texts over
  the alphabet, of any length, and returns one byte per eight whole bits.
\<close>

lemma b64url_codec:
  "b64url_decode (b64url_encode bs) = Some bs \<and> set (b64url_encode bs) \<subseteq> set alpha \<and>
   length (b64url_encode bs) = (4 * length bs + 2) div 3 \<and>
   map_option length (b64url_decode cs) = (if set cs \<subseteq> set alpha then Some (6 * length cs div 8) else None)"
proof -
  have "b64url_decode cs = None \<longleftrightarrow> \<not> set cs \<subseteq> set alpha"
    unfolding b64url_decode_def using decode_loop_Some_iff [of 0 0 "[]" cs] by (metis not_Some_eq)
  then have "map_option length (b64url_decode cs) = (if set cs \<subseteq> set alpha then Some (6 * length cs div 8) else None)"
    using decode_loop_length [of 0 0 "[]" cs] by (cases "b64url_decode cs") (auto simp: b64url_decode_def)
  then show ?thesis
    using b64url_decode_encode [of bs] length_symbols_of [of bs] symbols_of_in_alpha [of bs]
    by (simp add: b64url_encode_eq)
qed


text \<open>
  The last symbol of a text of \<open>3k + 2\<close> bytes carries two bits nothing reads: raising it by
  one leaves the decoded bytes alone.
\<close>

lemma symbols_of_append:
  "length xs mod 3 = 0 \<Longrightarrow> symbols_of (xs @ ys) = symbols_of xs @ symbols_of ys"
  by (induction xs rule: symbols_of.induct) auto

lemma decode_groups:
  "length xs mod 3 = 0 \<Longrightarrow>
     \<exists>bits'. decode_loop bits 0 out (symbols_of xs @ cs) = decode_loop bits' 0 (out @ xs) cs"
proof (induction xs arbitrary: bits out rule: symbols_of.induct)
  case (4 a b c bs)
  let ?x = "push_bit 6 bits OR (drop_bit 18 (chunk_bits a b c) AND 63)"
  let ?y = "push_bit 6 ?x OR (drop_bit 12 (chunk_bits a b c) AND 63)"
  have "decode_loop bits 0 out (symbols_of (a # b # c # bs) @ cs) =
      decode_loop (push_bit 6 (push_bit 6 ?y OR (drop_bit 6 (chunk_bits a b c) AND 63)) OR (drop_bit 0 (chunk_bits a b c) AND 63))
        0 (out @ [a, b, c]) (symbols_of bs @ cs)"
    using first_byte [of bits a b c] second_byte [of ?x a b c] third_byte [of ?y a b c]
    by (simp add: decode_symbol del: decode_loop.simps(2))
  moreover have "length bs mod 3 = 0" using 4(2) by (simp add: mod_Suc split: if_splits)
  ultimately show ?case using 4(1) by (metis append.assoc append_Cons append_Nil)
qed auto

lemma second_byte_slack:
  "ucast (drop_bit 2 (push_bit 6 (push_bit 6 bits OR (drop_bit 12 (chunk_bits a b 0) AND 63))
      OR word_of_nat (unat (drop_bit 6 (chunk_bits a b 0) AND 63) + 1)) AND 255) = b" for b :: byte
proof -
  have low: "\<not> bit (drop_bit 6 (chunk_bits a b 0) AND 63) 0"
    by (simp add: bit_simps bit_chunk_bits)
  have "word_of_nat (unat (drop_bit 6 (chunk_bits a b 0) AND 63) + 1) = (drop_bit 6 (chunk_bits a b 0) AND 63) + 1"
    by simp
  also have "\<dots> = (drop_bit 6 (chunk_bits a b 0) AND 63) OR 1"
    using low by (subst disjunctive_add) (auto simp: bit_simps bit_1_iff intro!: gr0I)
  finally have up: "word_of_nat (unat (drop_bit 6 (chunk_bits a b 0) AND 63) + 1)
      = (drop_bit 6 (chunk_bits a b 0) AND 63) OR 1" .
  show ?thesis unfolding up
  proof (rule bit_word_eqI)
    fix k assume "k < LENGTH(8)"
    then have "k < 8" by simp
    then show "bit (ucast (drop_bit 2 (push_bit 6 (push_bit 6 bits OR (drop_bit 12 (chunk_bits a b 0) AND 63))
        OR ((drop_bit 6 (chunk_bits a b 0) AND 63) OR 1)) AND 255) :: byte) k = bit b k"
      by (cases "k < 4") (auto simp: sixty_three two_fifty_five bit_simps bit_chunk_bits)
  qed
qed


lemma slack_spelling:
  assumes "length m mod 3 = 2"
  shows "\<exists>t'. t' \<noteq> b64url_encode m \<and> length t' = length (b64url_encode m) \<and> b64url_decode t' = Some m"
proof -
  obtain ys b where m1: "m = ys @ [b]" using assms by (cases m rule: rev_cases) auto
  moreover have "ys \<noteq> []" using assms m1 by auto
  ultimately obtain xs a where m: "m = xs @ [a, b]" by (cases ys rule: rev_cases) auto
  have xs: "length xs mod 3 = 0" using assms m by (simp add: mod_Suc split: if_splits)
  let ?n = "chunk_bits a b 0"
  let ?v = "unat (drop_bit 6 ?n AND 63)"
  let ?t = "symbols_of xs @ [symbol 18 ?n, symbol 12 ?n, alpha ! (?v + 1)]"
  have enc: "b64url_encode m = symbols_of xs @ [symbol 18 ?n, symbol 12 ?n, symbol 6 ?n]"
    using symbols_of_append [OF xs, of "[a, b]"] by (simp add: b64url_encode_eq m)
  have "\<not> bit (drop_bit 6 ?n AND 63) 0" by (simp add: bit_simps bit_chunk_bits)
  then have "\<not> bit ?v 0" unfolding bit_unsigned_iff by blast
  then have "even ?v" by (simp only: bit_0 not_not)
  then have v: "?v + 1 < 64" using unat_and_63 [of "drop_bit 6 ?n"] by presburger
  have pos: "position (alpha ! (?v + 1)) alpha = Some (?v + 1)" using v by (rule position_nth)
  have ne: "alpha ! (?v + 1) \<noteq> symbol 6 ?n"
    using pos position_symbol [of 6 ?n] by (metis n_not_Suc_n Suc_eq_plus1 option.inject)
  obtain bits where "decode_loop 0 0 [] (symbols_of xs @ [symbol 18 ?n, symbol 12 ?n, alpha ! (?v + 1)])
      = decode_loop bits 0 ([] @ xs) [symbol 18 ?n, symbol 12 ?n, alpha ! (?v + 1)]"
    using decode_groups [OF xs, of 0 "[]"] by blast
  then have "b64url_decode ?t = decode_loop bits 0 xs [symbol 18 ?n, symbol 12 ?n, alpha ! (?v + 1)]"
    by (simp only: b64url_decode_def append_Nil)
  also have "\<dots> = Some (xs @ [a, b])"
    using first_byte [of bits a b 0] second_byte_slack [of "push_bit 6 bits OR (drop_bit 18 ?n AND 63)" a b]
    by (simp only: decode_symbol Let_def decode_known [OF pos] decode_loop.simps(1)) simp
  also have "\<dots> = Some m" by (simp add: m)
  finally show ?thesis using enc ne by (intro exI [of _ ?t]) simp
qed


text \<open>
  The signature's text is not unique: a 32-byte MAC leaves two bits of its last symbol that
  the decoder drops and the comparison never sees, so every minted token has a different
  spelling of the same length that verifies to the same answer for every purpose and clock.
\<close>

lemma signature_has_another_spelling:
  assumes "mint env secret c = Inr t" and "\<forall>k m. map_sum id length (ce_mac env k m) = Inr 32"
    and "\<forall>x. ce_to_json env x \<noteq> Inr []"
  shows "\<exists>t'. t' \<noteq> t \<and> length t' = length t \<and>
    (\<forall>p now. verify env secret p t' now = verify env secret p t now)"
proof -
  obtain bytes m where m: "secret \<noteq> []" "ce_to_json env c = Inr bytes"
    "ce_mac env secret (mac_message (cc_purpose c) (b64url_encode bytes)) = Inr m"
    and t: "t = ''v1.'' @ b64url_encode bytes @ ''.'' @ b64url_encode m"
    by (rule mint_token [OF assms(1)])
  have ne: "b64url_encode bytes \<noteq> []" using m(2) assms(3) by auto
  have "map_sum id length (Inr m :: string + byte list) = Inr (32 :: nat)" using m(3) assms(2) by metis
  then have len: "length m = 32" by simp
  then obtain s where s: "s \<noteq> b64url_encode m" "length s = length (b64url_encode m)" "b64url_decode s = Some m"
    using slack_spelling [of m] by auto
  have mne: "b64url_encode m \<noteq> []" using len by auto
  then have "s \<noteq> []" using s(2) by auto
  then have "verify env secret p (''v1.'' @ b64url_encode bytes @ ''.'' @ s) now = verify env secret p t now" for p now
    unfolding t verify_token [OF m(1) encode_no_dot ne mne] verify_token [OF m(1) encode_no_dot ne \<open>s \<noteq> []\<close>]
    by (simp add: verify_parts_def s(3) b64url_decode_encode)
  then show ?thesis using s(1,2) unfolding t by (intro exI [of _ "''v1.'' @ b64url_encode bytes @ ''.'' @ s"]) simp
qed

lemma signature_has_another_spelling_witness:
  "\<exists>t t'. mint ex_cap_env ''k'' ex_claims = Inr t \<and> t' \<noteq> t \<and>
     verify ex_cap_env ''k'' purpose_ics t' 0 = Inr ex_claims"
proof -
  have "\<not> isl (mint ex_cap_env ''k'' ex_claims)" by (simp add: mint_def sign_def ex_cap_env_def Let_def)
  then obtain t where t: "mint ex_cap_env ''k'' ex_claims = Inr t" using isr_obtain by blast
  have "\<exists>t'. t' \<noteq> t \<and> length t' = length t \<and>
      (\<forall>p now. verify ex_cap_env ''k'' p t' now = verify ex_cap_env ''k'' p t now)"
    by (rule signature_has_another_spelling [OF t]) (auto simp: ex_cap_env_def ex_json_def ex_bytes_def min_def)
  then obtain t' where t': "t' \<noteq> t" "\<forall>p now. verify ex_cap_env ''k'' p t' now = verify ex_cap_env ''k'' p t now"
    by blast
  obtain m where m: "ce_mac ex_cap_env ''k'' (mac_message purpose_ics (b64url_encode (ex_json ex_claims))) = Inr m" "m \<noteq> []"
    and tt: "t = ''v1.'' @ b64url_encode (ex_json ex_claims) @ ''.'' @ b64url_encode m"
    using mint_token [OF t] by (auto simp: ex_cap_env_def ex_claims_def ex_bytes_def)
  have bytes: "ce_from_json ex_cap_env (ex_json ex_claims) = Some ex_claims" "ex_json ex_claims \<noteq> []"
    by (simp_all add: ex_cap_env_def) (simp add: ex_json_def ex_bytes_def)
  have live: "cc_purpose ex_claims = purpose_ics" "\<not> expired ex_claims 0"
    by (simp_all add: ex_claims_def expired_def unix_secs_def)
  have "verify ex_cap_env ''k'' purpose_ics t 0 =
      verify_parts ex_cap_env ''k'' purpose_ics (b64url_encode (ex_json ex_claims)) (b64url_encode m) 0"
    unfolding tt using m(2) bytes(2) by (intro verify_token) (simp_all add: encode_no_dot)
  then have "verify ex_cap_env ''k'' purpose_ics t 0 = Inr ex_claims"
    using m(1) bytes(1) live by (simp add: verify_parts_accepts b64url_decode_encode)
  with t t' show ?thesis by auto
qed

text \<open>
  The ticket token pins a set: the order the caller lists the registrations in does not show.
\<close>

lemma ticket_capability_pins_a_set:
  assumes "mset ids = mset ids'"
  shows "mint_ticket_report_capability env secret e ids = mint_ticket_report_capability env secret e ids'"
proof -
  have "mset (map (ce_uuid_text env) ids) = mset (map (ce_uuid_text env) ids')" using assms by simp
  then have "sort (map (ce_uuid_text env) ids) = sort (map (ce_uuid_text env) ids')"
    by (metis mset_sort properties_for_sort sorted_sort)
  then show ?thesis by (simp add: mint_ticket_report_capability_def)
qed

text \<open>
  The expiry of a feed token: the wrapped sum of clock and lifetime, with zero, which a
  lifetime of minus the clock gives, read as never.
\<close>

lemma ics_token_expiry:
  assumes "mint_ics_capability env secret e slot now ttl = Inr t"
    and "ce_to_json env c = Inr bytes" and "ce_from_json env bytes = Some c" and "bytes \<noteq> []"
    and "\<forall>k m. ce_mac env k m \<noteq> Inr []"
    and "c = \<lparr>cc_purpose = purpose_ics, cc_exp = i64_add (unix_secs now) ttl,
        cc_data = ce_uuid_text env e # (case slot of None \<Rightarrow> [] | Some s \<Rightarrow> [ce_uuid_text env s])\<rparr>"
  shows "(\<exists>c'. verify env secret purpose_ics t later = Inr c') \<longleftrightarrow>
    i64_add (unix_secs now) ttl = 0 \<or> unix_secs later < i64_add (unix_secs now) ttl"
proof -
  have mt: "mint env secret c = Inr t" using assms(1,6) by (simp add: mint_ics_capability_def)
  obtain m where m: "secret \<noteq> []" "ce_mac env secret (mac_message (cc_purpose c) (b64url_encode bytes)) = Inr m"
    and t: "t = ''v1.'' @ b64url_encode bytes @ ''.'' @ b64url_encode m"
    using mint_token [OF mt] assms(2) by auto
  have "m \<noteq> []" using m(2) assms(5) by auto
  then have "verify env secret purpose_ics t later =
      verify_parts env secret purpose_ics (b64url_encode bytes) (b64url_encode m) later"
    unfolding t using m assms(4) by (intro verify_token) (simp_all add: encode_no_dot)
  then have "verify env secret purpose_ics t later = (if expired c later then Inl EventNotPublished else Inr c)"
    using m assms by (simp add: verify_parts_def sign_def b64url_decode_encode)
  then show ?thesis by (simp add: expired_def assms(6) not_le)
qed

lemma i64_add_exact: "- (2 ^ 63) \<le> a + b \<Longrightarrow> a + b < 2 ^ 63 \<Longrightarrow> i64_add a b = a + b"
  by (simp add: i64_add_def signed_take_bit_int_eq_self_iff)

end
