(* ===== verification/Ics.thy ===== *)
theory Ics
  imports Capability Events
begin

text \<open>
  \<open>application/service/ics_service.rs\<close>: the calendar feed behind a capability token. Texts
  are UTF-8 bytes, so \<open>line.len()\<close> is a length and \<open>line.chars()\<close> groups a lead byte with
  its continuation bytes. The clock readings and the \<open>chrono\<close> format of a timestamp are
  fields of \<open>ics_env\<close>.
\<close>

record ics_env =
  ic_cap :: cap_env
  ic_now :: timestamp
  ic_clock :: timestamp
  ic_stamp :: "timestamp \<Rightarrow> string"

record ics_feed =
  if_event_id :: uuid
  if_slot_id :: "uuid option"
  if_body :: string

section \<open>The body\<close>

text \<open>\<open>str::replace\<close> of a character.\<close>

definition replace_char :: "char \<Rightarrow> string \<Rightarrow> string \<Rightarrow> string" where
  "replace_char c r s = concat (map (\<lambda>x. if x = c then r else [x]) s)"

definition backslash :: char where
  "backslash = CHR 0x5C"

definition ics_escape :: "string \<Rightarrow> string" where
  "ics_escape raw =
     replace_char (CHR 0x0A) [backslash, CHR ''n'']
       (replace_char (CHR '','') [backslash, CHR '','']
         (replace_char (CHR '';'') [backslash, CHR '';'']
           (replace_char backslash [backslash, backslash] raw)))"

definition is_continuation :: "char \<Rightarrow> bool" where
  "is_continuation c \<longleftrightarrow> (of_char c :: nat) div 64 = 2"

text \<open>\<open>str::chars\<close>, each character as its bytes.\<close>

function utf8_chars :: "string \<Rightarrow> string list" where
  "utf8_chars [] = []"
| "utf8_chars (c # cs) =
     (c # takeWhile is_continuation cs) # utf8_chars (dropWhile is_continuation cs)"
  by pat_completeness auto
termination by (relation "measure length") (auto simp: le_imp_less_Suc length_dropWhile_le)

definition crlf :: string where
  "crlf = [CHR 0x0D, CHR 0x0A]"

fun fold_loop :: "nat \<Rightarrow> string list \<Rightarrow> string" where
  "fold_loop k [] = []"
| "fold_loop k (ch # chs) =
     (if 74 \<le> k then crlf @ '' '' @ ch @ fold_loop 1 chs else ch @ fold_loop (k + 1) chs)"

definition ics_fold :: "string \<Rightarrow> string" where
  "ics_fold line = (if length line \<le> 75 then line else fold_loop 0 (utf8_chars line))"

fun join :: "string \<Rightarrow> string list \<Rightarrow> string" where
  "join sep [] = []"
| "join sep [x] = x"
| "join sep (x # y # xs) = x @ sep @ join sep (y # xs)"

definition ics_lines ::
    "ics_env \<Rightarrow> event_rec \<Rightarrow> (uuid \<times> timestamp \<times> timestamp) option \<Rightarrow> string list" where
  "ics_lines env e slot_window =
     (let (start, stop) = (case slot_window of Some (_, b, s) \<Rightarrow> (b, s)
                           | None \<Rightarrow> (ev_date_begin e, ev_date_end e));
          id_text = ce_uuid_text (ic_cap env) in
      [''BEGIN:VCALENDAR'',
       ''VERSION:2.0'',
       ''PRODID:-//backbone-events//core//EN'',
       ''CALSCALE:GREGORIAN'',
       ''BEGIN:VEVENT'',
       ''UID:'' @ (case slot_window of
          Some (slot, _) \<Rightarrow> ''event-'' @ id_text (ev_id e) @ ''-slot-'' @ id_text slot @ ''@event.module''
        | None \<Rightarrow> ''event-'' @ id_text (ev_id e) @ ''@event.module''),
       ''DTSTAMP:'' @ ic_stamp env (ic_clock env),
       ''DTSTART:'' @ ic_stamp env start,
       ''DTEND:'' @ ic_stamp env stop,
       ''SUMMARY:'' @ ics_escape (ev_name e),
       ''END:VEVENT'',
       ''END:VCALENDAR''])"

definition build_ics ::
    "ics_env \<Rightarrow> event_rec \<Rightarrow> (uuid \<times> timestamp \<times> timestamp) option \<Rightarrow> string" where
  "build_ics env e slot_window = join crlf (map ics_fold (ics_lines env e slot_window))"

section \<open>The gated read\<close>

definition ics_mint :: "ics_env \<Rightarrow> string \<Rightarrow> uuid \<Rightarrow> uuid option \<Rightarrow> int \<Rightarrow> string event_result" where
  "ics_mint env secret event_id slot_id ttl_secs =
     mint_ics_capability (ic_cap env) secret event_id slot_id (ic_now env) ttl_secs"

definition first_arm :: "cap_env \<Rightarrow> capability_claims \<Rightarrow> uuid option" where
  "first_arm env claims =
     (case cc_data claims of [] \<Rightarrow> None | s # _ \<Rightarrow> ce_uuid_parse env s)"

definition slot_scope ::
    "ics_env \<Rightarrow> capability_claims \<Rightarrow> uuid \<Rightarrow> db \<Rightarrow>
       (uuid \<times> timestamp \<times> timestamp) option event_result" where
  "slot_scope env claims event_id d =
     (case cc_data claims of
        _ # raw # _ \<Rightarrow>
          bind_r (ok_or (ce_uuid_parse (ic_cap env) raw) EventNotPublished) (\<lambda>slot.
          bind_r (ok_or (slot_window_of_event slot event_id d) EventNotPublished) (\<lambda>w. Inr (Some w)))
      | _ \<Rightarrow> Inr None)"

definition feed :: "ics_env \<Rightarrow> string \<Rightarrow> string \<Rightarrow> db \<Rightarrow> ics_feed event_result" where
  "feed env secret token d =
     bind_r (verify (ic_cap env) secret purpose_ics token (ic_now env)) (\<lambda>claims.
     bind_r (ok_or (first_arm (ic_cap env) claims) EventNotPublished) (\<lambda>event_id.
     bind_r (slot_scope env claims event_id d) (\<lambda>slot_window.
     bind_r (find_published event_id d) (\<lambda>e.
     Inr \<lparr>if_event_id = event_id, if_slot_id = map_option fst slot_window,
          if_body = build_ics env e slot_window\<rparr>))))"

section \<open>Escaping\<close>

lemma replace_char_Nil [simp]: "replace_char c r [] = []"
  by (simp add: replace_char_def)

lemma replace_char_Cons [simp]:
  "replace_char c r (x # s) = (if x = c then r else [x]) @ replace_char c r s"
  by (simp add: replace_char_def)

lemma replace_char_append [simp]:
  "replace_char c r (s @ t) = replace_char c r s @ replace_char c r t"
  by (simp add: replace_char_def)

lemma set_replace_char: "set (replace_char c r s) \<subseteq> (set s - {c}) \<union> set r"
  by (auto simp: replace_char_def split: if_splits)

text \<open>The reader of an escaped value: a backslash quotes the next character.\<close>

fun ics_unescape :: "string \<Rightarrow> string" where
  "ics_unescape [] = []"
| "ics_unescape [c] = [c]"
| "ics_unescape (c # x # s) =
     (if c = backslash then (if x = CHR ''n'' then CHR 0x0A else x) # ics_unescape s
      else c # ics_unescape (x # s))"

lemma ics_unescape_plain: "c \<noteq> backslash \<Longrightarrow> ics_unescape (c # s) = c # ics_unescape s"
  by (cases s) auto

lemma ics_escape_Nil [simp]: "ics_escape [] = []"
  by (simp add: ics_escape_def)

lemma ics_escape_Cons:
  "ics_escape (c # s) =
     (if c = backslash then [backslash, backslash]
      else if c = CHR '';'' then [backslash, CHR '';'']
      else if c = CHR '','' then [backslash, CHR '','']
      else if c = CHR 0x0A then [backslash, CHR ''n''] else [c]) @ ics_escape s"
  by (simp add: ics_escape_def backslash_def)

lemma unescape_escape: "ics_unescape (ics_escape s) = s"
  by (induction s) (auto simp: ics_escape_Cons ics_unescape_plain, simp_all add: backslash_def)

lemma escape_no_newline: "CHR 0x0A \<notin> set (ics_escape s)"
  using set_replace_char [of "CHR 0x0A" "[backslash, CHR ''n'']"]
  by (auto simp: ics_escape_def backslash_def)


section \<open>Folding and reading back\<close>

text \<open>
  What a calendar reader does: take out every line break followed by a blank, then cut at the
  line breaks that are left.
\<close>

fun unfold_ics :: "string \<Rightarrow> string" where
  "unfold_ics (a # b # c # s) =
     (if a = CHR 0x0D \<and> b = CHR 0x0A \<and> c = CHR '' '' then unfold_ics s
      else a # unfold_ics (b # c # s))"
| "unfold_ics s = s"

fun crlf_lines :: "string \<Rightarrow> string list" where
  "crlf_lines [] = [[]]"
| "crlf_lines [c] = [[c]]"
| "crlf_lines (a # b # s) =
     (if a = CHR 0x0D \<and> b = CHR 0x0A then [] # crlf_lines s
      else (case crlf_lines (b # s) of [] \<Rightarrow> [[a]] | l # ls \<Rightarrow> (a # l) # ls))"

lemma utf8_chars_concat: "concat (utf8_chars s) = s"
  by (induction s rule: utf8_chars.induct) auto

lemma utf8_chars_nonempty: "ch \<in> set (utf8_chars s) \<Longrightarrow> ch \<noteq> []"
  by (induction s rule: utf8_chars.induct) auto

lemma utf8_chars_subset: "ch \<in> set (utf8_chars s) \<Longrightarrow> set ch \<subseteq> set s"
  using utf8_chars_concat [of s] by (metis (no_types, lifting) UN_I set_concat subsetI)

text \<open>A byte of a text without line feeds passes the unfolding.\<close>

lemma unfold_one:
  "a \<noteq> CHR 0x0D \<or> s = [] \<or> hd s \<noteq> CHR 0x0A \<Longrightarrow> unfold_ics (a # s) = a # unfold_ics s"
  by (cases s; cases "tl s") auto

lemma unfold_append:
  assumes "CHR 0x0A \<notin> set xs" and "s = [] \<or> hd s \<noteq> CHR 0x0A"
  shows "unfold_ics (xs @ s) = xs @ unfold_ics s"
  using assms
proof (induction xs)
  case (Cons x xs)
  have "xs @ s = [] \<or> hd (xs @ s) \<noteq> CHR 0x0A" using Cons.prems by (cases xs) auto
  with Cons show ?case by (simp add: unfold_one)
qed simp

lemma unfold_crlf_blank: "unfold_ics (crlf @ '' '' @ s) = unfold_ics s"
  by (simp add: crlf_def)

lemma hd_fold_loop:
  assumes "\<forall>ch \<in> set chs. ch \<noteq> [] \<and> CHR 0x0A \<notin> set ch" and "s = [] \<or> hd s \<noteq> CHR 0x0A"
  shows "fold_loop k chs @ s = [] \<or> hd (fold_loop k chs @ s) \<noteq> CHR 0x0A"
  using assms by (cases chs) (auto simp: crlf_def neq_Nil_conv)

lemma unfold_fold_loop:
  assumes "\<forall>ch \<in> set chs. ch \<noteq> [] \<and> CHR 0x0A \<notin> set ch" and "s = [] \<or> hd s \<noteq> CHR 0x0A"
  shows "unfold_ics (fold_loop k chs @ s) = concat chs @ unfold_ics s"
  using assms
proof (induction chs arbitrary: k)
  case (Cons ch chs)
  then have "unfold_ics (ch @ fold_loop j chs @ s) = ch @ concat chs @ unfold_ics s" for j
    using hd_fold_loop [of chs s j] by (subst unfold_append) auto
  then show ?case
    by (cases "74 \<le> k") (simp_all add: unfold_crlf_blank del: append.simps)
qed simp

lemma unfold_fold:
  assumes "CHR 0x0A \<notin> set line" and "s = [] \<or> hd s \<noteq> CHR 0x0A"
  shows "unfold_ics (ics_fold line @ s) = line @ unfold_ics s"
proof (cases "length line \<le> 75")
  case True
  with assms show ?thesis by (simp add: ics_fold_def unfold_append)
next
  case False
  have "\<forall>ch \<in> set (utf8_chars line). ch \<noteq> [] \<and> CHR 0x0A \<notin> set ch"
    using assms(1) utf8_chars_nonempty utf8_chars_subset by blast
  with False assms(2) show ?thesis by (simp add: ics_fold_def unfold_fold_loop utf8_chars_concat)
qed

lemma hd_ics_fold: "line \<noteq> [] \<Longrightarrow> ics_fold line \<noteq> [] \<and> hd (ics_fold line) = hd line"
  by (cases line) (auto simp: ics_fold_def)

text \<open>Unfolding the joined folded lines gives the joined lines, if none starts with a blank.\<close>

lemma unfold_join:
  assumes "\<forall>l \<in> set ls. CHR 0x0A \<notin> set l \<and> l \<noteq> [] \<and> hd l \<noteq> CHR '' ''"
  shows "unfold_ics (join crlf (map ics_fold ls)) = join crlf ls"
  using assms
proof (induction ls)
  case (Cons x ls)
  show ?case
  proof (cases ls)
    case Nil
    then show ?thesis using unfold_fold [of x "[]"] Cons.prems by simp
  next
    case (Cons y ys)
    let ?r = "join crlf (map ics_fold ls)"
    have r: "?r \<noteq> [] \<and> hd ?r \<noteq> CHR '' ''"
      using Cons.prems Cons hd_ics_fold [of y] by (cases ys) auto
    have "unfold_ics (crlf @ ?r) = crlf @ unfold_ics ?r"
      using r by (cases ?r) (auto simp: crlf_def unfold_one)
    moreover have "unfold_ics ?r = join crlf ls" using Cons.IH Cons.prems by simp
    moreover have "unfold_ics (ics_fold x @ crlf @ ?r) = x @ unfold_ics (crlf @ ?r)"
      using Cons.prems by (intro unfold_fold) (auto simp: crlf_def)
    ultimately show ?thesis using Cons by simp
  qed
qed simp

lemma crlf_lines_ne: "crlf_lines s \<noteq> []"
  by (induction s rule: crlf_lines.induct) (auto split: list.splits)

lemma crlf_lines_one:
  "a \<noteq> CHR 0x0D \<or> s = [] \<or> hd s \<noteq> CHR 0x0A \<Longrightarrow>
     crlf_lines (a # s) = (a # hd (crlf_lines s)) # tl (crlf_lines s)"
  using crlf_lines_ne [of s] by (cases s) (auto split: list.splits)

lemma crlf_lines_append:
  assumes "CHR 0x0A \<notin> set xs" and "s = [] \<or> hd s \<noteq> CHR 0x0A"
  shows "crlf_lines (xs @ s) = (xs @ hd (crlf_lines s)) # tl (crlf_lines s)"
  using assms
proof (induction xs)
  case Nil
  then show ?case using crlf_lines_ne [of s] by simp
next
  case (Cons x xs)
  have "xs @ s = [] \<or> hd (xs @ s) \<noteq> CHR 0x0A" using Cons.prems by (cases xs) auto
  with Cons show ?case by (simp add: crlf_lines_one)
qed

lemma crlf_lines_crlf: "crlf_lines (crlf @ s) = [] # crlf_lines s"
  by (simp add: crlf_def)

lemma crlf_lines_join:
  assumes "\<forall>l \<in> set ls. CHR 0x0A \<notin> set l" and "ls \<noteq> []"
  shows "crlf_lines (join crlf ls) = ls"
  using assms
proof (induction ls)
  case (Cons x ls)
  show ?case
  proof (cases ls)
    case Nil
    then show ?thesis using Cons.prems crlf_lines_append [of x "[]"] by simp
  next
    case (Cons y ys)
    have "crlf_lines (x @ crlf @ join crlf ls) = x # crlf_lines (join crlf ls)"
      using Cons.prems crlf_lines_append [of x "crlf @ join crlf ls"] crlf_lines_crlf
      by (simp add: crlf_def)
    with Cons Cons.IH Cons.prems show ?thesis by simp
  qed
qed simp

text \<open>Widths: a folded line of one-byte characters has physical lines of at most 75 octets.\<close>

lemma crlf_lines_fold_loop:
  assumes "\<forall>ch \<in> set chs. length ch = 1 \<and> CHR 0x0A \<notin> set ch" and "k \<le> 74"
  shows "length (hd (crlf_lines (fold_loop k chs))) + k \<le> 74 \<and>
    (\<forall>l \<in> set (tl (crlf_lines (fold_loop k chs))). length l \<le> 75)"
  using assms
proof (induction chs arbitrary: k)
  case (Cons ch chs)
  then have "\<forall>ch \<in> set chs. ch \<noteq> [] \<and> CHR 0x0A \<notin> set ch" by fastforce
  then have tail: "fold_loop j chs = [] \<or> hd (fold_loop j chs) \<noteq> CHR 0x0A" for j
    using hd_fold_loop [of chs "[]" j] by simp
  have ch: "CHR 0x0A \<notin> set ch" "length ch = 1" using Cons.prems by auto
  show ?case
  proof (cases "74 \<le> k")
    case True
    have "CHR 0x0A \<notin> set ('' '' @ ch)" using ch by simp
    from crlf_lines_append [OF this tail [of 1]]
    have "crlf_lines (fold_loop k (ch # chs)) =
        [] # ('' '' @ ch @ hd (crlf_lines (fold_loop 1 chs))) # tl (crlf_lines (fold_loop 1 chs))"
      using True crlf_lines_crlf [of "'' '' @ ch @ fold_loop 1 chs"] by simp
    with Cons.IH [of 1] Cons.prems True ch show ?thesis by auto
  next
    case False
    have "crlf_lines (fold_loop k (ch # chs)) =
        (ch @ hd (crlf_lines (fold_loop (k + 1) chs))) # tl (crlf_lines (fold_loop (k + 1) chs))"
      using False crlf_lines_append [OF ch(1) tail [of "k + 1"]] by simp
    with Cons.IH [of "k + 1"] Cons.prems False ch show ?thesis by auto
  qed
qed simp


definition is_ascii :: "string \<Rightarrow> bool" where
  "is_ascii s \<longleftrightarrow> list_all (\<lambda>c. (of_char c :: nat) < 128) s"

lemma utf8_chars_ascii: "is_ascii s \<Longrightarrow> utf8_chars s = map (\<lambda>c. [c]) s"
proof (induction s)
  case (Cons c s)
  have plain: "\<not> is_continuation x" if "x \<in> set s" for x
  proof -
    have "(of_char x :: nat) < 128" using Cons.prems that by (auto simp: is_ascii_def list_all_iff)
    then have "(of_char x :: nat) div 64 < 2" by (simp add: div_less_iff_less_mult)
    then show ?thesis by (simp add: is_continuation_def)
  qed
  then have "takeWhile is_continuation s = []" and "dropWhile is_continuation s = s"
    by (cases s; simp)+
  with Cons show ?case by (simp add: is_ascii_def)
qed simp

text \<open>
  Folding ASCII text: no physical line is longer than 75 octets, and a reader that unfolds
  gets the line back.
\<close>

lemma ascii_lines_fold:
  assumes "is_ascii line" and "CHR 0x0A \<notin> set line"
  shows "list_all (\<lambda>l. length l \<le> 75) (crlf_lines (ics_fold line)) \<and> unfold_ics (ics_fold line) = line"
proof
  show "unfold_ics (ics_fold line) = line" using unfold_fold [of line "[]"] assms(2) by simp
  have one: "crlf_lines line = [line]" using crlf_lines_append [of line "[]"] assms(2) by simp
  have many: "\<forall>ch \<in> set (utf8_chars line). length ch = 1 \<and> CHR 0x0A \<notin> set ch"
    using assms by (auto simp: utf8_chars_ascii)
  have "list_all (\<lambda>l. length l \<le> 75) (crlf_lines (fold_loop 0 (utf8_chars line)))"
    using crlf_lines_fold_loop [OF many, of 0] crlf_lines_ne [of "fold_loop 0 (utf8_chars line)"]
    by (cases "crlf_lines (fold_loop 0 (utf8_chars line))") (auto simp: list_all_iff)
  with one show "list_all (\<lambda>l. length l \<le> 75) (crlf_lines (ics_fold line))"
    by (simp add: ics_fold_def)
qed

lemma ascii_lines_fold_witness:
  "list_all (\<lambda>l. length l \<le> 75) (crlf_lines (ics_fold (replicate 200 (CHR ''a''))))"
  using ascii_lines_fold [of "replicate 200 (CHR ''a'')"]
  by (simp add: is_ascii_def list_all_length)

lemma fold_loop_short: "k + length chs \<le> 74 \<Longrightarrow> fold_loop k chs = concat chs"
  by (induction chs arbitrary: k) auto

definition euros :: "nat \<Rightarrow> string" where
  "euros n = concat (replicate n [CHR 0xE2, CHR 0x82, CHR 0xAC])"

lemma euros_head: "takeWhile is_continuation (euros n) = []" "dropWhile is_continuation (euros n) = euros n"
  by (cases n; simp add: euros_def is_continuation_def)+

lemma euros_plain: "utf8_chars (euros n) = replicate n [CHR 0xE2, CHR 0x82, CHR 0xAC]"
proof (induction n)
  case (Suc n)
  have "euros (Suc n) = [CHR 0xE2, CHR 0x82, CHR 0xAC] @ euros n" by (simp add: euros_def)
  with Suc show ?case by (simp add: is_continuation_def euros_head)
qed (simp add: euros_def)

lemma escape_euros: "ics_escape (euros n) = euros n"
  by (induction n) (simp_all add: euros_def ics_escape_Cons backslash_def)

lemma length_euros: "length (euros n) = 3 * n"
  by (induction n) (simp_all add: euros_def)

text \<open>
  Only ASCII text: the break test counts characters, so a summary of forty three-byte
  characters, 128 octets long, is not folded at all.
\<close>

lemma multibyte_lines_stay_long:
  "\<exists>name. length (''SUMMARY:'' @ ics_escape name) = 128 \<and>
     ics_fold (''SUMMARY:'' @ ics_escape name) = ''SUMMARY:'' @ ics_escape name"
proof -
  have "utf8_chars (''SUMMARY:'' @ euros 40) =
      map (\<lambda>c. [c]) ''SUMMARY:'' @ replicate 40 [CHR 0xE2, CHR 0x82, CHR 0xAC]"
    by (simp add: is_continuation_def euros_head euros_plain)
  then have "ics_fold (''SUMMARY:'' @ euros 40) = ''SUMMARY:'' @ euros 40"
    unfolding ics_fold_def using utf8_chars_concat [of "''SUMMARY:'' @ euros 40"]
    by (simp add: fold_loop_short del: fold_loop.simps)
  then show ?thesis by (intro exI [of _ "euros 40"]) (simp add: escape_euros length_euros)
qed

lemma ics_lines_clean:
  assumes "\<forall>t. CHR 0x0A \<notin> set (ic_stamp env t)" and "\<forall>i. CHR 0x0A \<notin> set (ce_uuid_text (ic_cap env) i)"
  shows "\<forall>l \<in> set (ics_lines env e w). CHR 0x0A \<notin> set l \<and> l \<noteq> [] \<and> hd l \<noteq> CHR '' ''"
  using assms escape_no_newline [of "ev_name e"]
  by (cases w) (simp_all add: ics_lines_def Let_def case_prod_beta)

text \<open>
  C32. An event name cannot write calendar lines: whatever bytes it has, a reader of the body
  finds exactly the twelve lines of the builder, and un-escaping the summary gives the name.
\<close>

theorem name_writes_no_calendar_line:
  assumes "\<forall>t. CHR 0x0A \<notin> set (ic_stamp env t)" and "\<forall>i. CHR 0x0A \<notin> set (ce_uuid_text (ic_cap env) i)"
  shows "crlf_lines (unfold_ics (build_ics env e w)) = ics_lines env e w \<and>
    length (ics_lines env e w) = 12 \<and>
    (\<exists>v. ics_lines env e w ! 9 = ''SUMMARY:'' @ v \<and> ics_unescape v = ev_name e)"
proof -
  note clean = ics_lines_clean [OF assms, of e w]
  have "unfold_ics (build_ics env e w) = join crlf (ics_lines env e w)"
    unfolding build_ics_def using clean by (rule unfold_join)
  moreover have "length (ics_lines env e w) = 12"
    by (simp add: ics_lines_def Let_def split: option.split)
  moreover have "crlf_lines (join crlf (ics_lines env e w)) = ics_lines env e w"
    using clean \<open>length (ics_lines env e w) = 12\<close> by (intro crlf_lines_join) auto
  moreover have "ics_lines env e w ! 9 = ''SUMMARY:'' @ ics_escape (ev_name e)"
    by (simp add: ics_lines_def Let_def split: option.split)
  ultimately show ?thesis by (auto simp: unescape_escape)
qed


text \<open>A concrete calendar environment.\<close>

definition ex_ics_env :: "(cap_env \<Rightarrow> cap_env) \<Rightarrow> ics_env" where
  "ex_ics_env f = \<lparr>ic_cap = f ex_cap_env, ic_now = 0, ic_clock = 0,
     ic_stamp = (\<lambda>t. show_nat (nat t) @ ''Z'')\<rparr>"

lemma show_nat_no_newline: "CHR 0x0A \<notin> set (show_nat n)"
  using show_nat_digits [of n] by (auto simp: is_digit_def)

theorem name_writes_no_calendar_line_witness:
  "crlf_lines (unfold_ics (build_ics (ex_ics_env id) ((ex_event 1 False 1)\<lparr>ev_name := [CHR ''a'', CHR 0x0A, CHR ''b'']\<rparr>) None)) ! 9
     = ''SUMMARY:a'' @ [backslash] @ ''nb''"
proof -
  let ?e = "(ex_event 1 False 1)\<lparr>ev_name := [CHR ''a'', CHR 0x0A, CHR ''b'']\<rparr>"
  have "crlf_lines (unfold_ics (build_ics (ex_ics_env id) ?e None)) = ics_lines (ex_ics_env id) ?e None"
    using name_writes_no_calendar_line [of "ex_ics_env id" ?e None]
    by (simp add: ex_ics_env_def ex_cap_env_def show_nat_no_newline)
  then show ?thesis by (simp add: ics_lines_def Let_def ics_escape_Cons backslash_def)
qed

section \<open>The gate of the feed\<close>

text \<open>Every field of a slot window is the named slot's, of the named event.\<close>

lemma slot_window_of_eventD:
  assumes "slot_window_of_event slot event d = Some w"
  shows "\<exists>s \<in> set (slots d). sl_id s = slot \<and> sl_event_id s = event \<and> fst w = slot"
  using assms by (auto simp: slot_window_of_event_def dest!: find_Some_in)

lemma slot_scope_refusal: "slot_scope env c i d = Inl e \<Longrightarrow> e = EventNotPublished"
  by (auto simp: slot_scope_def result_simps split: list.splits)

lemma slot_scope_window:
  "slot_scope env c i d = Inr (Some w) \<Longrightarrow>
     \<exists>s \<in> set (slots d). sl_id s = fst w \<and> sl_event_id s = i"
  by (fastforce simp: slot_scope_def result_simps split: list.splits dest: slot_window_of_eventD)

lemma find_published_Inr:
  "find_published i d = Inr e \<Longrightarrow>
     event_by_id i d = Some e \<and> e \<in> set (events d) \<and> ev_id e = i \<and> ev_published e \<and> ev_kanban e \<noteq> Kanban_Cancel"
  by (auto simp: find_published_uniform event_by_id_def dest: find_Some_in split: option.splits if_splits)

lemma find_published_Inl: "find_published i d = Inl e \<Longrightarrow> e = EventNotPublished"
  by (auto simp: find_published_uniform split: option.splits if_splits)

text \<open>
  C31. The gate of the feed: with a secret and a MAC that takes any key, a request is answered
  by the calendar of a published event that is not cancelled, the one the verified token names,
  narrowed to a slot only when that slot is the event's; or by the one refusal, whichever of
  token, event, slot or publication is wrong.
\<close>

theorem feed_outcome:
  assumes "\<forall>k m. \<not> isl (ce_mac (ic_cap env) k m)" and "secret \<noteq> []"
  shows "case feed env secret token d of
      Inl e \<Rightarrow> e = EventNotPublished
    | Inr f \<Rightarrow> \<exists>c e w. verify (ic_cap env) secret purpose_ics token (ic_now env) = Inr c \<and>
        first_arm (ic_cap env) c = Some (if_event_id f) \<and>
        e \<in> set (events d) \<and> ev_id e = if_event_id f \<and> ev_published e \<and> ev_kanban e \<noteq> Kanban_Cancel \<and>
        if_body f = build_ics env e w \<and> if_slot_id f = map_option fst w \<and>
        (\<forall>x. w = Some x \<longrightarrow> (\<exists>s \<in> set (slots d). sl_id s = fst x \<and> sl_event_id s = if_event_id f))"
proof (cases "feed env secret token d")
  case (Inl e)
  then have "e = EventNotPublished"
    using verify_refusal [OF assms]
    by (auto simp: feed_def result_simps dest: slot_scope_refusal find_published_Inl)
  with Inl show ?thesis by simp
next
  case (Inr f)
  then obtain c i w e where c: "verify (ic_cap env) secret purpose_ics token (ic_now env) = Inr c"
    "first_arm (ic_cap env) c = Some i" and w: "slot_scope env c i d = Inr w"
    and e: "find_published i d = Inr e"
    and f: "f = \<lparr>if_event_id = i, if_slot_id = map_option fst w, if_body = build_ics env e w\<rparr>"
    by (auto simp: feed_def result_simps)
  have "\<exists>s \<in> set (slots d). sl_id s = fst x \<and> sl_event_id s = i" if "w = Some x" for x
    using w that slot_scope_window by blast
  then have "\<exists>c e w. verify (ic_cap env) secret purpose_ics token (ic_now env) = Inr c \<and>
        first_arm (ic_cap env) c = Some (if_event_id f) \<and>
        e \<in> set (events d) \<and> ev_id e = if_event_id f \<and> ev_published e \<and> ev_kanban e \<noteq> Kanban_Cancel \<and>
        if_body f = build_ics env e w \<and> if_slot_id f = map_option fst w \<and>
        (\<forall>x. w = Some x \<longrightarrow> (\<exists>s \<in> set (slots d). sl_id s = fst x \<and> sl_event_id s = if_event_id f))"
    using c find_published_Inr [OF e] f by (intro exI [of _ c] exI [of _ e] exI [of _ w]) simp
  with Inr show ?thesis by simp
qed

theorem feed_outcome_witness:
  "\<exists>t f. mint ex_cap_env ''k'' ex_claims = Inr t \<and> feed (ex_ics_env id) ''k'' t ex_db = Inr f \<and>
     if_event_id f = 1 \<and> feed (ex_ics_env id) ''k'' ''v1.x'' ex_db = Inl EventNotPublished"
proof -
  have "\<not> isl (mint ex_cap_env ''k'' ex_claims)" by (simp add: mint_def sign_def ex_cap_env_def Let_def)
  then obtain t where t: "mint ex_cap_env ''k'' ex_claims = Inr t" using isr_obtain by blast
  have bytes: "ce_to_json ex_cap_env ex_claims = Inr (ex_json ex_claims)"
    "ce_from_json ex_cap_env (ex_json ex_claims) = Some ex_claims" "ex_json ex_claims \<noteq> []"
    by (simp_all add: ex_cap_env_def) (simp add: ex_json_def ex_bytes_def)
  have "verify ex_cap_env ''k'' (cc_purpose ex_claims) t 0 = Inr ex_claims"
    by (rule verify_minted [OF t bytes(1,2,3)])
       (auto simp: ex_cap_env_def ex_bytes_def ex_claims_def expired_def unix_secs_def)
  then have v: "verify ex_cap_env ''k'' purpose_ics t 0 = Inr ex_claims"
    by (simp add: ex_claims_def)
  have "ce_uuid_parse ex_cap_env ''1'' = Some 1"
    by code_simp
  then have "\<not> isl (feed (ex_ics_env id) ''k'' t ex_db)"
    using v by (simp add: feed_def ex_ics_env_def first_arm_def slot_scope_def ex_claims_def
        find_published_uniform event_by_id_def ex_db_def ex_event_def empty_db_def)
  then obtain f where f: "feed (ex_ics_env id) ''k'' t ex_db = Inr f" using isr_obtain by blast
  have env: "\<forall>k m. \<not> isl (ce_mac (ic_cap (ex_ics_env id)) k m)" "''k'' \<noteq> []"
    by (simp_all add: ex_ics_env_def ex_cap_env_def)
  from feed_outcome [OF env, of t ex_db] f v \<open>ce_uuid_parse ex_cap_env ''1'' = Some 1\<close>
  have "if_event_id f = 1" by (auto simp: ex_ics_env_def first_arm_def ex_claims_def)
  moreover have "isl (feed (ex_ics_env id) ''k'' ''v1.x'' ex_db)"
    by (simp add: feed_def verify_splits part_def numeral_3_eq_3 ex_ics_env_def)
  then have "feed (ex_ics_env id) ''k'' ''v1.x'' ex_db = Inl EventNotPublished"
    using feed_outcome [OF env, of "''v1.x''" ex_db] by (auto simp: isl_def)
  ultimately show ?thesis using t f by blast
qed

end
