(* ===== verification/Intake.thy ===== *)
theory Intake
  imports Seats
begin

text \<open>
  \<open>application/service/intake_service.rs\<close>: the fixed-window throttle and the guarded intake
  over the one register verb. The throttle's map lives in the process, next to the database:
  an intake returns its answer, the windows and the database, since a refused request has
  still spent its budget. Clock seconds are naturals: the counters are bounded by the policy
  and \<open>saturating_sub\<close> is truncated subtraction, so no \<open>u64\<close> operation wraps.
\<close>

section \<open>Fixed windows\<close>

type_synonym windows = "string \<Rightarrow> (nat \<times> nat) option"

definition no_windows :: windows where
  "no_windows = Map.empty"

text \<open>
  The map after \<open>get_mut\<close>: an open window is left, a stale one restarts in place, a missing one
  is inserted; all three arms answer \<open>true\<close>, so the early return after them is dead code.
\<close>

definition open_window :: "nat \<Rightarrow> string \<Rightarrow> nat \<Rightarrow> windows \<Rightarrow> bool \<times> windows" where
  "open_window now key window_secs w =
     (case w key of
        Some (start, hits) \<Rightarrow>
          if now - start < window_secs then (True, w) else (True, w(key \<mapsto> (now, 0)))
      | None \<Rightarrow> (True, w(key \<mapsto> (now, 0))))"

definition allow :: "nat \<Rightarrow> string \<Rightarrow> nat \<Rightarrow> nat \<Rightarrow> windows \<Rightarrow> bool \<times> windows" where
  "allow now key max_hits window_secs w =
     (let (opened, w1) = open_window now key window_secs w in
      if \<not> opened then (False, w1)
      else case w1 key of
             None \<Rightarrow> (False, w1)
           | Some (start, hits) \<Rightarrow>
               if max_hits \<le> hits then (False, w1) else (True, w1(key \<mapsto> (start, hits + 1))))"

record throttles =
  th_identity_max :: nat
  th_identity_window :: nat
  th_ip_max :: nat
  th_ip_window :: nat

definition default_throttles :: throttles where
  "default_throttles = \<lparr>th_identity_max = 5, th_identity_window = 3600,
     th_ip_max = 30, th_ip_window = 3600\<rparr>"

section \<open>The intake\<close>

record intake_answer =
  ia_question_id :: uuid
  ia_value_text :: "string option"
  ia_value_answer_id :: "uuid option"

record intake_payload =
  ip_name :: string
  ip_email :: string
  ip_phone :: "string option"
  ip_company_name :: "string option"
  ip_slot_id :: "uuid option"
  ip_ticket_id :: "uuid option"
  ip_answers :: "intake_answer list"

definition identity_key :: "intake_payload \<Rightarrow> string" where
  "identity_key p = ''identity:'' @ to_lowercase (ip_email p)"

definition ip_key :: "string \<Rightarrow> string" where
  "ip_key client_ip = ''ip:'' @ client_ip"

text \<open>\<open>min .. max(1) as u32\<close>: the conversion keeps the low 32 bits.\<close>

definition retry_after :: "throttles \<Rightarrow> nat" where
  "retry_after th = take_bit 32 (max (min (th_identity_window th) (th_ip_window th)) 1)"

definition intake_command :: "uuid \<Rightarrow> intake_payload \<Rightarrow> register_cmd" where
  "intake_command event_id p =
     \<lparr>rc_event_id = event_id, rc_slot_id = ip_slot_id p, rc_ticket_id = ip_ticket_id p,
      rc_name = ip_name p, rc_email = ip_email p, rc_phone = ip_phone p,
      rc_company_name = ip_company_name p, rc_partner_id = None, rc_actor = None,
      rc_lead_rule_skip = False\<rparr>"

text \<open>
  The two throttle arms, the second asked only when the first admits; each reads the clock.
\<close>

definition throttle_arms ::
    "throttles \<Rightarrow> nat \<Rightarrow> nat \<Rightarrow> intake_payload \<Rightarrow> string \<Rightarrow> windows \<Rightarrow> bool \<times> windows" where
  "throttle_arms th clock1 clock2 p client_ip w =
     (let (ok, w1) = allow clock1 (identity_key p) (th_identity_max th) (th_identity_window th) w in
      if \<not> ok then (False, w1)
      else allow clock2 (ip_key client_ip) (th_ip_max th) (th_ip_window th) w1)"

record intake_request =
  iq_env :: seat_env
  iq_clock1 :: nat
  iq_clock2 :: nat
  iq_event_id :: uuid
  iq_payload :: intake_payload
  iq_ip :: string

definition intake ::
    "throttles \<Rightarrow> intake_request \<Rightarrow> windows \<times> db \<Rightarrow> reg_rec event_result \<times> windows \<times> db" where
  "intake th q wd =
     (let (ok, w) = throttle_arms th (iq_clock1 q) (iq_clock2 q) (iq_payload q) (iq_ip q) (fst wd) in
      if \<not> ok then (Inl (EventThrottled (retry_after th)), w, snd wd)
      else case service_register (iq_env q) (intake_command (iq_event_id q) (iq_payload q)) (snd wd) of
             (res, d) \<Rightarrow> (res, w, d))"

fun run_intakes :: "throttles \<Rightarrow> intake_request list \<Rightarrow> windows \<times> db \<Rightarrow> windows \<times> db" where
  "run_intakes th [] wd = wd"
| "run_intakes th (q # qs) wd = run_intakes th qs (snd (intake th q wd))"

section \<open>One key of the throttle\<close>

text \<open>What \<open>allow\<close> does to its own key; it leaves the others alone.\<close>

definition hit :: "nat \<Rightarrow> nat \<Rightarrow> nat \<Rightarrow> (nat \<times> nat) option \<Rightarrow> bool \<times> (nat \<times> nat)" where
  "hit max_hits window_secs now st =
     (let (start, hits) = (case st of Some (s, k) \<Rightarrow> if now - s < window_secs then (s, k) else (now, 0)
                           | None \<Rightarrow> (now, 0))
      in if max_hits \<le> hits then (False, start, hits) else (True, start, hits + 1))"

lemma allow_hit:
  "allow now key m win w =
     (fst (hit m win now (w key)), w(key \<mapsto> snd (hit m win now (w key))))"
  by (cases "w key") (auto simp: allow_def open_window_def hit_def Let_def fun_upd_idem)

lemma allow_other: "k \<noteq> key \<Longrightarrow> snd (allow now key m win w) k = w k"
  by (simp add: allow_hit)

fun hits_on :: "nat \<Rightarrow> nat \<Rightarrow> nat list \<Rightarrow> (nat \<times> nat) option \<Rightarrow> nat" where
  "hits_on m win [] st = 0"
| "hits_on m win (t # ts) st =
     (if fst (hit m win t st) then 1 else 0) + hits_on m win ts (Some (snd (hit m win t st)))"

text \<open>
  In a span no longer than the window, counted from \<open>a\<close>: a window started inside the span is
  never left, so it admits what its budget still has; one started before it can end once, which
  gives one more budget. Every admitted hit lowers this measure.
\<close>

definition budget_left :: "nat \<Rightarrow> nat \<Rightarrow> (nat \<times> nat) option \<Rightarrow> nat" where
  "budget_left a m st =
     (case st of None \<Rightarrow> m | Some (s, k) \<Rightarrow> if a \<le> s then m - k else (m - k) + m)"

lemma hit_spends:
  assumes "a \<le> t" and "t < a + win"
  shows "(if fst (hit m win t st) then 1 else 0) + budget_left a m (Some (snd (hit m win t st)))
    \<le> budget_left a m st"
  using assms by (auto simp: hit_def budget_left_def Let_def split: option.splits prod.splits if_splits)

lemma budget_left_bound: "budget_left a m st \<le> (if st = None then m else 2 * m)"
  by (auto simp: budget_left_def split: option.splits)

lemma hits_budget:
  assumes "\<forall>t \<in> set ts. a \<le> t \<and> t < a + win"
  shows "hits_on m win ts st \<le> (if st = None then m else 2 * m)"
proof -
  have "hits_on m win ts st \<le> budget_left a m st"
    using assms
  proof (induction ts arbitrary: st)
    case (Cons t ts)
    then have "hits_on m win ts (Some (snd (hit m win t st))) \<le> budget_left a m (Some (snd (hit m win t st)))"
      by simp
    with hit_spends [of a t win m st] Cons.prems show ?case by simp
  qed simp
  with budget_left_bound show ?thesis by (rule le_trans [rotated])
qed

section \<open>Properties of the throttle\<close>

text \<open>A run of hits on any keys, and what it admitted.\<close>

fun run_allow :: "nat \<Rightarrow> nat \<Rightarrow> (nat \<times> string) list \<Rightarrow> windows \<Rightarrow> (string \<times> bool) list" where
  "run_allow m win [] w = []"
| "run_allow m win ((t, key) # hs) w =
     (key, fst (allow t key m win w)) # run_allow m win hs (snd (allow t key m win w))"

definition admitted :: "string \<Rightarrow> (string \<times> bool) list \<Rightarrow> nat" where
  "admitted key rs = length (filter (\<lambda>(k, ok). k = key \<and> ok) rs)"

lemma admitted_hits_on:
  "admitted key (run_allow m win hs w) = hits_on m win (map fst (filter (\<lambda>h. snd h = key) hs)) (w key)"
proof (induction hs arbitrary: w)
  case (Cons h hs)
  then show ?case by (cases h) (auto simp: admitted_def allow_hit)
qed (simp add: admitted_def)

text \<open>
  The budget of a key: whatever other keys are hit in between and in whatever order the
  clock readings come, in a span of one window length a key the process has not seen admits at
  most its maximum, and any key at most twice that.
\<close>

lemma throttle_budget:
  assumes "list_all (\<lambda>h. a \<le> fst h \<and> fst h < a + win) hs"
  shows "admitted key (run_allow m win hs w) \<le> (if w key = None then m else 2 * m)"
  unfolding admitted_hits_on using assms by (intro hits_budget [of _ a]) (auto simp: list_all_iff)

lemma throttle_budget_witness:
  "admitted ''k'' (run_allow 2 60 [(7, ''k''), (7, ''k''), (9, ''k'')] no_windows) = 2 \<and>
   admitted ''k'' (run_allow 2 60 [(59, ''k''), (59, ''k''), (60, ''k''), (60, ''k'')] [''k'' \<mapsto> (0, 0)]) = 4"
proof (intro conjI antisym)
  show "admitted ''k'' (run_allow 2 60 [(7, ''k''), (7, ''k''), (9, ''k'')] no_windows) \<le> 2"
    using throttle_budget [of 7 60 "[(7, ''k''), (7, ''k''), (9, ''k'')]" "''k''" 2 no_windows]
    by (simp add: no_windows_def)
  show "admitted ''k'' (run_allow 2 60 [(59, ''k''), (59, ''k''), (60, ''k''), (60, ''k'')] [''k'' \<mapsto> (0, 0)]) \<le> 4"
    using throttle_budget [of 59 60 "[(59, ''k''), (59, ''k''), (60, ''k''), (60, ''k'')]" "''k''" 2 "[''k'' \<mapsto> (0, 0)]"]
    by simp
qed (simp_all add: admitted_def allow_hit hit_def no_windows_def)

section \<open>Properties of the intake\<close>

definition regs_of_email :: "string \<Rightarrow> db \<Rightarrow> nat" where
  "regs_of_email x d = length (filter (\<lambda>r. to_lowercase (rg_email r) = x) (registrations d))"

lemma register_new:
  assumes "register env cmd d = Inr (r, d')"
  shows "registrations d' = registrations d @ [r]" "rg_email r = rc_email cmd"
    "rg_partner_id r = rc_partner_id cmd" "rg_state r = Reg_Open"
    "rg_sale_order_id r = None" "rg_sale_status r = None" "rg_event_id r = rc_event_id cmd"
proof -
  have core: "register_core env cmd None d = Inr (r, d')" using assms by (simp add: register_def)
  show "registrations d' = registrations d @ [r]" by (rule register_core_registrations [OF core])
  from core obtain e slot where new: "new_registration env cmd None e slot = Inr r" by (elim register_coreE)
  then show "rg_email r = rc_email cmd" "rg_partner_id r = rc_partner_id cmd" "rg_state r = Reg_Open"
    "rg_sale_order_id r = None" "rg_sale_status r = None" "rg_event_id r = rc_event_id cmd"
    by (auto simp: new_registration_def born_state_def cast_order_state_def cast_sale_status_def result_simps)
qed

text \<open>The database after a refusal of the register verb: the fact the service records.\<close>

definition refused_db :: "uuid \<Rightarrow> string \<Rightarrow> event_error \<Rightarrow> db \<Rightarrow> db" where
  "refused_db event_id email e d =
     record_audit ''registration_refused'' None ''event'' (Some event_id)
       (JObj [(''email'', JStr email), (''code'', JStr (code e))]) d"

lemma refused_db_registrations [simp]: "registrations (refused_db i x e d) = registrations d"
  by (simp add: refused_db_def)

text \<open>The answers of the intake: throttled, refused by the register verb, or registered.\<close>

lemma intake_cases:
  assumes "intake th q (w, d) = (res, w', d')"
  shows "snd (throttle_arms th (iq_clock1 q) (iq_clock2 q) (iq_payload q) (iq_ip q) w) = w'"
    and "(\<not> fst (throttle_arms th (iq_clock1 q) (iq_clock2 q) (iq_payload q) (iq_ip q) w) \<and>
           res = Inl (EventThrottled (retry_after th)) \<and> d' = d) \<or>
         (fst (throttle_arms th (iq_clock1 q) (iq_clock2 q) (iq_payload q) (iq_ip q) w) \<and>
           ((\<exists>e. register (iq_env q) (intake_command (iq_event_id q) (iq_payload q)) d = Inl e \<and> res = Inl e \<and>
                d' = refused_db (iq_event_id q) (ip_email (iq_payload q)) e d) \<or>
            (\<exists>r. register (iq_env q) (intake_command (iq_event_id q) (iq_payload q)) d = Inr (r, d') \<and> res = Inr r)))"
  using assms
  by (auto simp: intake_def Let_def case_prod_beta service_register_def refused_db_def intake_command_def
      split: if_splits sum.splits)

lemma identity_not_ip: "''identity:'' @ x \<noteq> ip_key y"
  by (simp add: ip_key_def)

lemma arms_identity:
  "snd (throttle_arms th c1 c2 p ip w) (''identity:'' @ x) =
     (if to_lowercase (ip_email p) = x
      then Some (snd (hit (th_identity_max th) (th_identity_window th) c1 (w (''identity:'' @ x))))
      else w (''identity:'' @ x))"
  using identity_not_ip [of x ip]
  by (auto simp: throttle_arms_def Let_def case_prod_beta identity_key_def allow_hit)

lemma arms_admit_identity:
  "fst (throttle_arms th c1 c2 p ip w) \<Longrightarrow>
     fst (hit (th_identity_max th) (th_identity_window th) c1 (w (identity_key p)))"
  by (auto simp: throttle_arms_def Let_def case_prod_beta allow_hit split: if_splits)

lemma run_intakes_bound:
  "regs_of_email x (snd (run_intakes th qs (w, d))) \<le> regs_of_email x d +
     hits_on (th_identity_max th) (th_identity_window th)
       (map iq_clock1 (filter (\<lambda>q. to_lowercase (ip_email (iq_payload q)) = x) qs)) (w (''identity:'' @ x))"
proof (induction qs arbitrary: w d)
  case (Cons q qs)
  obtain res w' d' where step: "intake th q (w, d) = (res, w', d')" by (cases "intake th q (w, d)") auto
  note arms = intake_cases(1) [OF step] arms_identity [of th "iq_clock1 q" "iq_clock2 q" "iq_payload q" "iq_ip q" w x]
  have "regs_of_email x d' \<le> regs_of_email x d +
      (if to_lowercase (ip_email (iq_payload q)) = x \<and>
          fst (hit (th_identity_max th) (th_identity_window th) (iq_clock1 q) (w (''identity:'' @ x))) then 1 else 0)"
    using intake_cases(2) [OF step] arms_admit_identity [of th "iq_clock1 q" "iq_clock2 q" "iq_payload q" "iq_ip q" w]
    by (auto simp: regs_of_email_def register_new intake_command_def identity_key_def)
  with Cons.IH [of w' d'] arms step show ?case by (auto split: if_splits)
qed simp

text \<open>
  C26. One identity, one budget: whatever requests the intake serves in a span of its identity
  window, from however many addresses and for however many events, the table gains at most
  twice the identity maximum of rows with a given lower-cased address, and at most the maximum
  when the process had not seen the address.
\<close>

theorem identity_budget_caps_registrations:
  assumes "list_all (\<lambda>q. a \<le> iq_clock1 q \<and> iq_clock1 q < a + th_identity_window th) qs"
  shows "regs_of_email x (snd (run_intakes th qs (w, d))) \<le> regs_of_email x d +
    (if w (''identity:'' @ x) = None then th_identity_max th else 2 * th_identity_max th)"
  using run_intakes_bound [of x th qs w d]
    hits_budget [of "map iq_clock1 (filter (\<lambda>q. to_lowercase (ip_email (iq_payload q)) = x) qs)" a
      "th_identity_window th" "th_identity_max th" "w (''identity:'' @ x)"] assms
  by (auto simp: list_all_iff)


definition ex_payload :: intake_payload where
  "ex_payload = \<lparr>ip_name = ''Ada'', ip_email = ''Ada@example.org'', ip_phone = None,
     ip_company_name = None, ip_slot_id = None, ip_ticket_id = None, ip_answers = []\<rparr>"

definition ex_intake :: "uuid \<Rightarrow> string \<Rightarrow> intake_request" where
  "ex_intake i ip = \<lparr>iq_env = ex_env i, iq_clock1 = 100, iq_clock2 = 100, iq_event_id = 1,
     iq_payload = ex_payload, iq_ip = ip\<rparr>"

lemmas intake_eval = intake_def throttle_arms_def allow_hit hit_def default_throttles_def
  ex_intake_def ex_payload_def no_windows_def intake_command_def

theorem identity_budget_caps_registrations_witness:
  "regs_of_email ''ada@example.org''
     (snd (run_intakes default_throttles (map (\<lambda>i. ex_intake i ''10.0.0.1'') [100..<120]) (no_windows, ex_db))) \<le> 5"
  using identity_budget_caps_registrations [of 100 default_throttles
      "map (\<lambda>i. ex_intake i ''10.0.0.1'') [100..<120]" "''ada@example.org''" no_windows ex_db]
  by (simp add: list_all_iff default_throttles_def ex_intake_def no_windows_def regs_of_email_def
      ex_db_def empty_db_def)

text \<open>
  What an intake answers: throttled, with the database untouched and the budgets it met
  spent; or the refusal of the register verb, whose only trace is the recorded refusal; or one
  new row for the named event, open, without party and without sale, appended to the
  registrations.
\<close>

lemma intake_answers:
  assumes "intake th q (w, d) = (res, w', d')"
  shows "case res of
      Inl e \<Rightarrow> (e = EventThrottled (retry_after th) \<and> d' = d) \<or>
        (register (iq_env q) (intake_command (iq_event_id q) (iq_payload q)) d = Inl e \<and>
         d' = refused_db (iq_event_id q) (ip_email (iq_payload q)) e d)
    | Inr r \<Rightarrow> registrations d' = registrations d @ [r] \<and> rg_event_id r = iq_event_id q \<and>
        rg_email r = ip_email (iq_payload q) \<and> rg_state r = Reg_Open \<and> rg_partner_id r = None \<and>
        rg_sale_order_id r = None \<and> rg_sale_status r = None"
  using intake_cases(2) [OF assms] by (auto simp: register_new intake_command_def)

lemma intake_answers_witness:
  "\<exists>r w' d'. intake default_throttles (ex_intake 3 ''10.0.0.1'') (no_windows, ex_db) = (Inr r, w', d') \<and>
     rg_partner_id r = None \<and> length (registrations d') = 1"
proof -
  have "\<not> isl (fst (intake default_throttles (ex_intake 3 ''10.0.0.1'') (no_windows, ex_db)))"
    by (simp add: intake_eval seat_eval service_register_def case_prod_beta Let_def split: sum.split)
  then obtain r w' d' where ok:
    "intake default_throttles (ex_intake 3 ''10.0.0.1'') (no_windows, ex_db) = (Inr r, w', d')"
    by (cases "intake default_throttles (ex_intake 3 ''10.0.0.1'') (no_windows, ex_db)") (auto dest: isr_obtain)
  from intake_answers [OF ok] have "registrations d' = registrations ex_db @ [r]" "rg_partner_id r = None"
    by simp_all
  with ok show ?thesis by (simp add: ex_db_def empty_db_def)
qed

text \<open>
  The arms are asked in order, so a request the address arm refuses has still spent a hit of
  its identity; and a policy of very long windows can tell the caller to retry after zero
  seconds, the conversion to 32 bits coming after the maximum.
\<close>

lemma ip_refusal_spends_identity:
  assumes "fst (allow c1 (identity_key p) (th_identity_max th) (th_identity_window th) w)"
  shows "snd (throttle_arms th c1 c2 p ip w) (identity_key p) =
    Some (snd (hit (th_identity_max th) (th_identity_window th) c1 (w (identity_key p))))"
  using arms_identity [of th c1 c2 p ip w "to_lowercase (ip_email p)"] by (simp add: identity_key_def)

lemma retry_after_reads_zero:
  "retry_after (default_throttles\<lparr>th_identity_window := 2 ^ 32, th_ip_window := 2 ^ 32\<rparr>) = 0"
  by (simp add: retry_after_def default_throttles_def)

lemma retry_after_default: "retry_after default_throttles = 3600"
  by (simp add: retry_after_def default_throttles_def take_bit_nat_eq_self)

end
