(* ===== verification/Public.thy ===== *)
theory Public
  imports Ics Intake Scheduler
begin

text \<open>
  The public side: \<open>application/service/my_tickets_service.rs\<close>, the exported surface
  \<open>application/service/event_surface.rs\<close> and the unauthenticated routes of
  \<open>presentation/http/public_routes.rs\<close>. A handler returns the error response of the module
  or a success status with the typed body the code serialises. The throttle maps are process
  state: the feed's windows and the intake's are two maps. A forwarded header is the text
  \<open>to_str\<close> gives, absent when the header is missing or not visible ASCII.
\<close>

section \<open>The ticket report\<close>

record ticket_view =
  tv_registration_id :: uuid
  tv_event_id :: uuid
  tv_event_name :: string
  tv_date_begin :: timestamp
  tv_date_end :: timestamp
  tv_date_tz :: string
  tv_attendee_name :: string
  tv_state :: string
  tv_barcode :: string

record ticket_report =
  tr_event_id :: uuid
  tr_event_name :: string
  tr_date_begin :: timestamp
  tr_date_end :: timestamp
  tr_date_tz :: string
  tr_badge_format :: string
  tr_tickets :: "ticket_view list"

definition ticket_of :: "event_rec \<Rightarrow> reg_rec \<Rightarrow> ticket_view" where
  "ticket_of e row =
     \<lparr>tv_registration_id = rg_id row, tv_event_id = ev_id e, tv_event_name = ev_name e,
      tv_date_begin = ev_date_begin e, tv_date_end = ev_date_end e, tv_date_tz = ev_date_tz e,
      tv_attendee_name = rg_name row, tv_state = registration_state_to_str (rg_state row),
      tv_barcode = rg_barcode row\<rparr>"

definition pinned_ids :: "cap_env \<Rightarrow> capability_claims \<Rightarrow> uuid list" where
  "pinned_ids env claims = List.map_filter (ce_uuid_parse env) (drop 1 (cc_data claims))"

text \<open>The loop over the pinned ids; a row that fails to resolve is silently absent.\<close>

fun pinned_tickets :: "event_rec \<Rightarrow> uuid \<Rightarrow> db \<Rightarrow> uuid list \<Rightarrow> ticket_view list" where
  "pinned_tickets e event_id d [] = []"
| "pinned_tickets e event_id d (i # is) =
     (case find_registration i d of
        Inr row \<Rightarrow> if rg_event_id row = event_id
                   then ticket_of e row # pinned_tickets e event_id d is
                   else pinned_tickets e event_id d is
      | Inl _ \<Rightarrow> pinned_tickets e event_id d is)"

definition report :: "cap_env \<Rightarrow> timestamp \<Rightarrow> string \<Rightarrow> string \<Rightarrow> db \<Rightarrow> ticket_report event_result" where
  "report env now secret token d =
     bind_r (verify env secret purpose_ticket_report token now) (\<lambda>claims.
     bind_r (ok_or (first_arm env claims) EventNotPublished) (\<lambda>event_id.
     bind_r (find_published event_id d) (\<lambda>e.
     Inr \<lparr>tr_event_id = ev_id e, tr_event_name = ev_name e, tr_date_begin = ev_date_begin e,
          tr_date_end = ev_date_end e, tr_date_tz = ev_date_tz e,
          tr_badge_format = badge_format_to_str (ev_badge e),
          tr_tickets = pinned_tickets e event_id d (pinned_ids env claims)\<rparr>)))"

definition tickets_mint :: "cap_env \<Rightarrow> string \<Rightarrow> uuid \<Rightarrow> uuid list \<Rightarrow> string event_result" where
  "tickets_mint env secret event_id registration_ids =
     mint_ticket_report_capability env secret event_id registration_ids"

section \<open>The exported surface\<close>

record publication_state =
  ps_event_id :: uuid
  ps_is_published :: bool
  ps_kanban_state :: string
  ps_date_publish :: "timestamp option"

record registration_state_view =
  rv_registration_id :: uuid
  rv_state :: string
  rv_sale_order_id :: "uuid option"
  rv_sale_order_state :: "string option"
  rv_sale_status :: "string option"
  rv_active :: bool

datatype capability_scope =
    Scope_Ics uuid "uuid option" int
  | Scope_TicketReport uuid "uuid list"

definition surface_seat_availability :: "uuid \<Rightarrow> uuid option \<Rightarrow> db \<Rightarrow> seat_availability event_result" where
  "surface_seat_availability event_id slot_id d = availability event_id slot_id d"

definition surface_publication_state :: "uuid \<Rightarrow> db \<Rightarrow> publication_state event_result" where
  "surface_publication_state event_id d =
     bind_r (find_event event_id d) (\<lambda>row.
     Inr \<lparr>ps_event_id = event_id, ps_is_published = ev_published row,
          ps_kanban_state = kanban_state_to_str (ev_kanban row), ps_date_publish = ev_date_publish row\<rparr>)"

definition surface_register_intake ::
    "throttles \<Rightarrow> intake_request \<Rightarrow> windows \<times> db \<Rightarrow> reg_rec event_result \<times> windows \<times> db" where
  "surface_register_intake th q wd = intake th q wd"

definition surface_registration_state :: "uuid \<Rightarrow> db \<Rightarrow> registration_state_view event_result" where
  "surface_registration_state registration_id d =
     bind_r (find_registration registration_id d) (\<lambda>row.
     Inr \<lparr>rv_registration_id = rg_id row, rv_state = registration_state_to_str (rg_state row),
          rv_sale_order_id = rg_sale_order_id row,
          rv_sale_order_state = map_option sale_order_state_to_str (rg_sale_order_state row),
          rv_sale_status = map_option sale_status_to_str (rg_sale_status row),
          rv_active = rg_active row\<rparr>)"

definition surface_mint_capability :: "ics_env \<Rightarrow> string \<Rightarrow> capability_scope \<Rightarrow> string event_result" where
  "surface_mint_capability env secret scope =
     (case scope of
        Scope_Ics event_id slot_id ttl_secs \<Rightarrow> ics_mint env secret event_id slot_id ttl_secs
      | Scope_TicketReport event_id registration_ids \<Rightarrow>
          tickets_mint (ic_cap env) secret event_id registration_ids)"

definition surface_run_due_schedulers ::
    "sched_env \<Rightarrow> 'w ports \<Rightarrow> int \<Rightarrow> int \<Rightarrow> 'w \<Rightarrow> db \<Rightarrow> ((event_error + unit) \<times> 'w run) option" where
  "surface_run_due_schedulers env po batch cron w d = run_due_schedulers env po batch cron w d"

section \<open>The public routes\<close>

definition ics_throttle :: "nat \<times> nat" where
  "ics_throttle = (30, 60)"

text \<open>\<open>fwd.rsplit(',').next()\<close>: what follows the last comma.\<close>

definition last_hop :: "string \<Rightarrow> string" where
  "last_hop fwd = rev (takeWhile (\<lambda>c. c \<noteq> CHR '','') (rev fwd))"

definition caller_ip :: "string option \<Rightarrow> string option \<Rightarrow> bool \<Rightarrow> string" where
  "caller_ip forwarded socket_ip trusted_proxy =
     (let direct = (case socket_ip of Some s \<Rightarrow> s | None \<Rightarrow> ''unknown'') in
      if trusted_proxy
      then (case forwarded of
              Some fwd \<Rightarrow> (let trimmed = trim (last_hop fwd) in if trimmed \<noteq> [] then trimmed else direct)
            | None \<Rightarrow> direct)
      else direct)"

text \<open>\<open>trusted_proxy_from_env\<close> on the variable's value, empty when unset.\<close>

definition trusted_proxy_of :: "string \<Rightarrow> bool" where
  "trusted_proxy_of v = (to_lowercase (trim v) \<in> set [''true'', ''1'', ''yes'', ''on''])"

record public_cfg =
  pc_secret :: string
  pc_trusted_proxy :: bool

definition secret_is_configured :: "public_cfg \<Rightarrow> bool" where
  "secret_is_configured cfg \<longleftrightarrow> pc_secret cfg \<noteq> []"

record calendar_reply =
  cr_status :: nat
  cr_content_type :: string
  cr_body :: string

text \<open>The two throttle hits read the process clock at \<open>clock1\<close> and \<open>clock2\<close>.\<close>

definition ics_handler ::
    "public_cfg \<Rightarrow> ics_env \<Rightarrow> nat \<Rightarrow> nat \<Rightarrow> string \<Rightarrow> string option \<Rightarrow> string option \<Rightarrow>
       windows \<Rightarrow> db \<Rightarrow> (response + calendar_reply) \<times> windows" where
  "ics_handler cfg env clock1 clock2 capability forwarded socket_ip w d =
     (if \<not> secret_is_configured cfg
      then (Inl (into_response EventCapabilitySecretNotConfigured), w)
      else
        let ip = caller_ip forwarded socket_ip (pc_trusted_proxy cfg);
            (m, win) = ics_throttle;
            throttled = Inl (into_response (EventThrottled (take_bit 32 win)));
            (ok1, w1) = allow clock1 (''ics-token:'' @ capability) m win w in
        if \<not> ok1 then (throttled, w1)
        else
          let (ok2, w2) = allow clock2 (''ics-ip:'' @ ip) m win w1 in
          if \<not> ok2 then (throttled, w2)
          else (case feed env (pc_secret cfg) capability d of
                  Inr f \<Rightarrow> (Inr \<lparr>cr_status = 200, cr_content_type = ''text/calendar; charset=utf-8'',
                                 cr_body = if_body f\<rparr>, w2)
                | Inl e \<Rightarrow> (Inl (into_response e), w2)))"

definition my_tickets_handler ::
    "public_cfg \<Rightarrow> cap_env \<Rightarrow> timestamp \<Rightarrow> string \<Rightarrow> db \<Rightarrow> response + (nat \<times> ticket_report)" where
  "my_tickets_handler cfg env now capability d =
     (if \<not> secret_is_configured cfg then Inl (into_response EventCapabilitySecretNotConfigured)
      else case report env now (pc_secret cfg) capability d of
             Inr r \<Rightarrow> Inr (200, r)
           | Inl e \<Rightarrow> Inl (into_response e))"

definition intake_handler ::
    "public_cfg \<Rightarrow> throttles \<Rightarrow> intake_request \<Rightarrow> string option \<Rightarrow> string option \<Rightarrow> windows \<times> db \<Rightarrow>
       (response + (nat \<times> reg_rec)) \<times> windows \<times> db" where
  "intake_handler cfg th q forwarded socket_ip wd =
     (let ip = caller_ip forwarded socket_ip (pc_trusted_proxy cfg) in
      case intake th (q\<lparr>iq_ip := ip\<rparr>) wd of
        (Inr row, wd') \<Rightarrow> (Inr (201, row), wd')
      | (Inl e, wd') \<Rightarrow> (Inl (into_response e), wd'))"


section \<open>Facts about the report\<close>

definition ticket_row :: "uuid \<Rightarrow> db \<Rightarrow> uuid \<Rightarrow> bool" where
  "ticket_row event_id d i =
     (case registration_by_id i d of Some row \<Rightarrow> rg_event_id row = event_id | None \<Rightarrow> False)"

lemma pinned_tickets_ids:
  "map tv_registration_id (pinned_tickets e event_id d is) = filter (ticket_row event_id d) is"
proof (induction "is")
  case (Cons i "is")
  then show ?case
    by (cases "registration_by_id i d")
       (auto simp: find_registration_def ticket_row_def ticket_of_def registration_by_id_def dest: find_Some_in)
qed simp

lemma pinned_tickets_rows:
  "tv \<in> set (pinned_tickets e event_id d is) \<Longrightarrow>
     \<exists>row \<in> set (registrations d). rg_id row \<in> set is \<and> rg_event_id row = event_id \<and> tv = ticket_of e row"
proof (induction "is")
  case (Cons i "is")
  then show ?case
    by (cases "registration_by_id i d")
       (auto simp: find_registration_def registration_by_id_def dest: find_Some_in split: if_splits)
qed simp

lemma reportE:
  assumes "report env now secret token d = Inr r"
  obtains c e where "verify env secret purpose_ticket_report token now = Inr c"
    and "first_arm env c = Some (tr_event_id r)"
    and "find_published (tr_event_id r) d = Inr e"
    and "tr_tickets r = pinned_tickets e (tr_event_id r) d (pinned_ids env c)"
proof -
  from assms obtain c i e where c: "verify env secret purpose_ticket_report token now = Inr c"
    "first_arm env c = Some i" and e: "find_published i d = Inr e"
    and r: "tr_event_id r = ev_id e" "tr_tickets r = pinned_tickets e i d (pinned_ids env c)"
    by (auto simp: report_def result_simps)
  have "ev_id e = i" using find_published_Inr [OF e] by simp
  with c e r show ?thesis using that by simp
qed

text \<open>
  The ticket report: with a secret and a MAC that takes any key, a request is answered by
  the report of the published event the verified token names, whose tickets are exactly the
  rows of that event among the ids the token pins, in the token's order; or by the one refusal.
\<close>

lemma report_outcome:
  assumes "\<forall>k m. \<not> isl (ce_mac env k m)" and "secret \<noteq> []"
  shows "case report env now secret token d of
      Inl e \<Rightarrow> e = EventNotPublished
    | Inr r \<Rightarrow> \<exists>c e. verify env secret purpose_ticket_report token now = Inr c \<and>
        first_arm env c = Some (tr_event_id r) \<and>
        e \<in> set (events d) \<and> ev_id e = tr_event_id r \<and> ev_published e \<and> ev_kanban e \<noteq> Kanban_Cancel \<and>
        map tv_registration_id (tr_tickets r) = filter (ticket_row (tr_event_id r) d) (pinned_ids env c) \<and>
        (\<forall>tv \<in> set (tr_tickets r). \<exists>row \<in> set (registrations d).
           rg_event_id row = tr_event_id r \<and> tv = ticket_of e row)"
proof (cases "report env now secret token d")
  case (Inl e)
  then have "e = EventNotPublished"
    using verify_refusal [OF assms] by (auto simp: report_def result_simps dest: find_published_Inl)
  with Inl show ?thesis by simp
next
  case (Inr r)
  then obtain c e where c: "verify env secret purpose_ticket_report token now = Inr c"
    "first_arm env c = Some (tr_event_id r)" and e: "find_published (tr_event_id r) d = Inr e"
    and tk: "tr_tickets r = pinned_tickets e (tr_event_id r) d (pinned_ids env c)" by (rule reportE)
  have "\<forall>tv \<in> set (tr_tickets r). \<exists>row \<in> set (registrations d).
      rg_event_id row = tr_event_id r \<and> tv = ticket_of e row"
    unfolding tk using pinned_tickets_rows by blast
  moreover have "map tv_registration_id (tr_tickets r) = filter (ticket_row (tr_event_id r) d) (pinned_ids env c)"
    unfolding tk by (rule pinned_tickets_ids)
  ultimately show ?thesis
    using Inr c find_published_Inr [OF e] by auto
qed

definition json_reads :: "cap_env \<Rightarrow> capability_claims \<Rightarrow> bool" where
  "json_reads env c \<longleftrightarrow> (\<exists>bytes. ce_to_json env c = Inr bytes \<and> bytes \<noteq> [] \<and> ce_from_json env bytes = Some c)"



text \<open>An environment that writes and reads the claims of one ticket link.\<close>

definition ex_ticket_claims :: capability_claims where
  "ex_ticket_claims = \<lparr>cc_purpose = purpose_ticket_report, cc_exp = 0, cc_data = [''1'', ''3'', ''7'']\<rparr>"

definition ex_ticket_env :: cap_env where
  "ex_ticket_env = ex_cap_env\<lparr>ce_from_json := (\<lambda>b. find (\<lambda>c. ex_json c = b) [ex_ticket_claims])\<rparr>"

definition ex_ticket_db :: db where
  "ex_ticket_db = ex_db_with [ex_reg 3 1 None Reg_Open, ex_reg 5 1 None Reg_Open, ex_reg 7 2 (Some 10) Reg_Open]"

lemma ex_uuid_texts: "show_nat 1 = ''1''" "show_nat 3 = ''3''" "show_nat 7 = ''7''"
  "ce_uuid_parse ex_cap_env ''1'' = Some 1" "ce_uuid_parse ex_cap_env ''3'' = Some 3"
  "ce_uuid_parse ex_cap_env ''7'' = Some 7"
  by code_simp+

lemma ex_sorted_texts: "sort [''7'', ''3''] = [''3'', ''7'']"
  by code_simp

lemma ex_ticket_claims_eq:
  "\<lparr>cc_purpose = purpose_ticket_report, cc_exp = 0,
     cc_data = ce_uuid_text ex_ticket_env 1 # sort (map (ce_uuid_text ex_ticket_env) [7, 3])\<rparr> = ex_ticket_claims"
  by (simp only: ex_ticket_claims_def ex_ticket_env_def ex_cap_env_def list.map cap_env.simps ex_uuid_texts ex_sorted_texts)

lemma ex_ticket_json: "json_reads ex_ticket_env ex_ticket_claims"
  by (simp add: json_reads_def ex_ticket_env_def ex_cap_env_def) (simp add: ex_json_def ex_bytes_def)

lemma ex_ticket_parse:
  "list_all (\<lambda>x. ce_uuid_parse ex_ticket_env (ce_uuid_text ex_ticket_env x) = Some x) [1, 7, 3]"
  by code_simp

lemma ex_ticket_mac: "\<forall>k m. ce_mac ex_ticket_env k m \<noteq> Inr []" "\<forall>k m. \<not> isl (ce_mac ex_ticket_env k m)"
  by (auto simp: ex_ticket_env_def ex_cap_env_def)

lemma ex_ticket_mint: "\<not> isl (tickets_mint ex_ticket_env ''k'' 1 [7, 3])"
  by (simp add: tickets_mint_def mint_ticket_report_capability_def mint_def sign_def Let_def
      ex_ticket_env_def ex_cap_env_def)

lemma ex_ticket_event: "find_published 1 ex_ticket_db = Inr (ex_event 1 False 1)"
  by (simp add: find_published_uniform event_by_id_def ex_ticket_db_def ex_defs)


lemma report_outcome_witness:
  "report ex_ticket_env 0 ''k'' ''v1.x'' ex_ticket_db = Inl EventNotPublished"
proof -
  have "isl (report ex_ticket_env 0 ''k'' ''v1.x'' ex_ticket_db)"
    by (simp add: report_def verify_splits part_def numeral_3_eq_3)
  then show ?thesis
    using report_outcome [OF ex_ticket_mac(2), where secret = "''k''" and now = 0 and token = "''v1.x''" and d = ex_ticket_db] by (auto simp: isl_def)
qed

section \<open>Doors and routes\<close>

text \<open>
  C30. A surface token opens one door: the calendar token is refused by the ticket report and
  the ticket token by the calendar feed, whatever the database holds.
\<close>

theorem surface_token_opens_one_door:
  assumes "surface_mint_capability env secret scope = Inr t"
    and "\<forall>c bytes. ce_to_json (ic_cap env) c \<noteq> Inr bytes \<or> ce_from_json (ic_cap env) bytes = Some c"
  shows "case scope of
      Scope_Ics _ _ _ \<Rightarrow> isl (report (ic_cap env) now secret t d)
    | Scope_TicketReport _ _ \<Rightarrow> isl (feed env secret t d)"
proof -
  have refused: "isl (verify (ic_cap env) secret q t now')"
    if minted: "mint (ic_cap env) secret c = Inr t" "q \<noteq> cc_purpose c" for c q now'
  proof -
    obtain bytes where "ce_to_json (ic_cap env) c = Inr bytes" by (rule mint_token [OF minted(1)])
    then have "\<exists>e. verify (ic_cap env) secret q t now' = Inl e"
      using other_purpose_refused [OF minted(1) _ _ minted(2)] assms(2) by blast
    then show ?thesis by auto
  qed
  show ?thesis
  proof (cases scope)
    case (Scope_Ics i slot ttl)
    then have "isl (verify (ic_cap env) secret purpose_ticket_report t now)"
      using assms(1) refused [of "\<lparr>cc_purpose = purpose_ics, cc_exp = i64_add (unix_secs (ic_now env)) ttl,
        cc_data = ce_uuid_text (ic_cap env) i #
          (case slot of None \<Rightarrow> [] | Some slot \<Rightarrow> [ce_uuid_text (ic_cap env) slot])\<rparr>" purpose_ticket_report now]
      by (simp add: surface_mint_capability_def ics_mint_def mint_ics_capability_def purpose_ics_def
          purpose_ticket_report_def)
    with Scope_Ics show ?thesis by (auto simp: report_def isl_def)
  next
    case (Scope_TicketReport i ids)
    then have "isl (verify (ic_cap env) secret purpose_ics t (ic_now env))"
      using assms(1) refused [of "\<lparr>cc_purpose = purpose_ticket_report, cc_exp = 0,
        cc_data = ce_uuid_text (ic_cap env) i # sort (map (ce_uuid_text (ic_cap env)) ids)\<rparr>" purpose_ics "ic_now env"]
      by (simp add: surface_mint_capability_def tickets_mint_def mint_ticket_report_capability_def purpose_ics_def
          purpose_ticket_report_def)
    with Scope_TicketReport show ?thesis by (auto simp: feed_def isl_def)
  qed
qed

definition ex_one_env :: ics_env where
  "ex_one_env = ex_ics_env (\<lambda>e. e
     \<lparr>ce_to_json := (\<lambda>c. if c = ex_ticket_claims then Inr (ex_json c) else Inl ''unsupported''),
      ce_from_json := (\<lambda>b. find (\<lambda>c. ex_json c = b) [ex_ticket_claims])\<rparr>)"

theorem surface_token_opens_one_door_witness:
  "\<exists>t. surface_mint_capability ex_one_env ''k'' (Scope_TicketReport 1 [7, 3]) = Inr t \<and>
     isl (feed ex_one_env ''k'' t ex_db)"
proof -
  have "\<lparr>cc_purpose = purpose_ticket_report, cc_exp = 0,
     cc_data = ce_uuid_text (ic_cap ex_one_env) 1 # sort (map (ce_uuid_text (ic_cap ex_one_env)) [7, 3])\<rparr> = ex_ticket_claims"
    by (simp only: ex_ticket_claims_def ex_one_env_def ex_ics_env_def ics_env.simps ex_cap_env_def list.map
        cap_env.simps ex_uuid_texts ex_sorted_texts)
  then have "\<not> isl (surface_mint_capability ex_one_env ''k'' (Scope_TicketReport 1 [7, 3]))"
    by (simp add: surface_mint_capability_def tickets_mint_def mint_ticket_report_capability_def mint_def
        sign_def Let_def ex_one_env_def ex_ics_env_def) (simp add: ex_cap_env_def)
  then obtain t where t: "surface_mint_capability ex_one_env ''k'' (Scope_TicketReport 1 [7, 3]) = Inr t"
    using isr_obtain by blast
  from surface_token_opens_one_door [OF t] have "isl (feed ex_one_env ''k'' t ex_db)"
    by (simp add: ex_one_env_def ex_ics_env_def)
  with t show ?thesis by blast
qed


lemma takeWhile_stops: "\<not> P c \<Longrightarrow> takeWhile P (xs @ c # ys) = takeWhile P (xs @ [c])"
  by (induction xs) auto

text \<open>
  The caller's address: without a trusted proxy no header is read; behind one only the last
  hop is, so whatever a client writes in front of it changes nothing; and a header without a
  usable last hop falls back to the socket.
\<close>

lemma client_hops_are_ignored:
  "caller_ip fwd sock False = (case sock of Some s \<Rightarrow> s | None \<Rightarrow> ''unknown'') \<and>
   caller_ip (Some (forged @ '','' @ hop)) sock True = caller_ip (Some ('','' @ hop)) sock True \<and>
   caller_ip (Some (forged @ '','')) sock True = caller_ip None sock True"
proof -
  have "takeWhile (\<lambda>c. c \<noteq> CHR '','') (rev hop @ CHR '','' # rev forged) =
      takeWhile (\<lambda>c. c \<noteq> CHR '','') (rev hop @ CHR '','' # [])"
    by (rule takeWhile_stops) simp
  then have "last_hop (forged @ '','' @ hop) = last_hop ('','' @ hop)" by (simp add: last_hop_def)
  moreover have "trim (last_hop (forged @ '','')) = []" by (simp add: last_hop_def trim_def)
  ultimately show ?thesis by (simp add: caller_ip_def)
qed

text \<open>
  The public statuses: the calendar route answers 200, 404, 429 or 503 and the ticket route
  200, 404 or 503, with a MAC that takes any key; without a secret both answer 503 and neither
  reads the throttle nor the database.
\<close>

lemma public_statuses:
  assumes "\<forall>k m. \<not> isl (ce_mac (ic_cap env) k m)"
  shows "(case fst (ics_handler cfg env c1 c2 token fwd sock w d) of
       Inl resp \<Rightarrow> resp_status resp \<in> {404, 429, 503} | Inr r \<Rightarrow> cr_status r = 200) \<and>
    (case my_tickets_handler cfg (ic_cap env) now token d of
       Inl resp \<Rightarrow> resp_status resp \<in> {404, 503} | Inr r \<Rightarrow> fst r = 200) \<and>
    (pc_secret cfg = [] \<longrightarrow>
       ics_handler cfg env c1 c2 token fwd sock w d = (Inl (into_response EventCapabilitySecretNotConfigured), w) \<and>
       my_tickets_handler cfg (ic_cap env) now token d = Inl (into_response EventCapabilitySecretNotConfigured))"
proof -
  have feed: "e = EventNotPublished" if "feed env (pc_secret cfg) token d = Inl e" and "pc_secret cfg \<noteq> []" for e
    using that verify_refusal [OF assms that(2)]
    by (auto simp: feed_def result_simps dest: slot_scope_refusal find_published_Inl)
  have report: "e = EventNotPublished"
    if "report (ic_cap env) now (pc_secret cfg) token d = Inl e" and "pc_secret cfg \<noteq> []" for e
    using that verify_refusal [OF assms that(2)]
    by (auto simp: report_def result_simps dest: find_published_Inl)
  have "case fst (ics_handler cfg env c1 c2 token fwd sock w d) of
       Inl resp \<Rightarrow> resp_status resp \<in> {404, 429, 503} | Inr r \<Rightarrow> cr_status r = 200"
    using feed by (cases "feed env (pc_secret cfg) token d")
      (auto simp: ics_handler_def secret_is_configured_def into_response_def Let_def case_prod_beta)
  moreover have "case my_tickets_handler cfg (ic_cap env) now token d of
       Inl resp \<Rightarrow> resp_status resp \<in> {404, 503} | Inr r \<Rightarrow> fst r = 200"
    using report by (cases "report (ic_cap env) now (pc_secret cfg) token d")
      (auto simp: my_tickets_handler_def secret_is_configured_def into_response_def)
  ultimately show ?thesis
    by (simp add: ics_handler_def my_tickets_handler_def secret_is_configured_def)
qed

lemma public_statuses_witness:
  "resp_status (projl (my_tickets_handler \<lparr>pc_secret = [], pc_trusted_proxy = False\<rparr> ex_cap_env 0 ''x'' ex_db)) = 503"
  using public_statuses [of "ex_ics_env id" "\<lparr>pc_secret = [], pc_trusted_proxy = False\<rparr>" 0 0 "''x''" None None no_windows ex_db 0]
  by (simp add: ex_ics_env_def ex_cap_env_def into_response_def)

text \<open>The calendar requests of one address, in order, and how many passed the throttle.\<close>

definition throttled_reply :: "response + calendar_reply" where
  "throttled_reply = Inl (into_response (EventThrottled 60))"

fun run_ics ::
    "public_cfg \<Rightarrow> ics_env \<Rightarrow> (nat \<times> nat \<times> string) list \<Rightarrow> string \<Rightarrow> windows \<Rightarrow> db \<Rightarrow>
       (response + calendar_reply) list" where
  "run_ics cfg env [] ip w d = []"
| "run_ics cfg env ((c1, c2, token) # rs) ip w d =
     fst (ics_handler cfg env c1 c2 token None (Some ip) w d) #
       run_ics cfg env rs ip (snd (ics_handler cfg env c1 c2 token None (Some ip) w d)) d"

lemma ics_handler_spends:
  assumes "pc_secret cfg \<noteq> []" and "a \<le> c2" and "c2 < a + 60"
  shows "(if fst (ics_handler cfg env c1 c2 token None (Some ip) w d) \<noteq> throttled_reply then 1 else 0) +
      budget_left a 30 (snd (ics_handler cfg env c1 c2 token None (Some ip) w d) (''ics-ip:'' @ ip)) \<le>
    budget_left a 30 (w (''ics-ip:'' @ ip))"
proof -
  have "take_bit 32 (60 :: nat) = 60" by (simp add: take_bit_nat_eq_self)
  then show ?thesis
    using assms hit_spends [of a c2 60 30 "w (''ics-ip:'' @ ip)"]
    by (cases "feed env (pc_secret cfg) token d")
       (auto simp: ics_handler_def throttled_reply_def secret_is_configured_def ics_throttle_def Let_def
          case_prod_beta caller_ip_def allow_hit)
qed

text \<open>
  A guesser's rate: in any span of one minute the calendar route answers one address at
  most sixty times with anything but the throttle's refusal, at most thirty times when the
  process had not seen the address, however the tokens vary.
\<close>

lemma guesses_per_minute:
  assumes "pc_secret cfg \<noteq> []" and "list_all (\<lambda>(c1, c2, token). a \<le> c2 \<and> c2 < a + 60) rs"
  shows "length (filter (\<lambda>res. res \<noteq> throttled_reply) (run_ics cfg env rs ip w d)) \<le>
    (if w (''ics-ip:'' @ ip) = None then 30 else 60)"
proof -
  have "length (filter (\<lambda>res. res \<noteq> throttled_reply) (run_ics cfg env rs ip w d)) \<le>
      budget_left a 30 (w (''ics-ip:'' @ ip))"
    using assms(2)
  proof (induction rs arbitrary: w)
    case (Cons r rs)
    obtain c1 c2 token where r: "r = (c1, c2, token)" by (cases r)
    let ?w = "snd (ics_handler cfg env c1 c2 token None (Some ip) w d)"
    have "length (filter (\<lambda>res. res \<noteq> throttled_reply) (run_ics cfg env rs ip ?w d)) \<le>
        budget_left a 30 (?w (''ics-ip:'' @ ip))" using Cons by simp
    with ics_handler_spends [OF assms(1), of a c2 env c1 token ip w d] Cons.prems r show ?case
      by (simp split: if_splits)
  qed simp
  moreover have "budget_left a 30 st \<le> (if st = None then 30 else 60)" for st
    using budget_left_bound [of a 30 st] by (cases st) simp_all
  ultimately show ?thesis by (rule le_trans)
qed

lemma guesses_per_minute_witness:
  "length (filter (\<lambda>res. res \<noteq> throttled_reply)
     (run_ics \<lparr>pc_secret = ''k'', pc_trusted_proxy = False\<rparr> (ex_ics_env id) (replicate 100 (7, 7, ''v1.x.y''))
        ''10.0.0.1'' no_windows ex_db)) \<le> 30"
  using guesses_per_minute [of "\<lparr>pc_secret = ''k'', pc_trusted_proxy = False\<rparr>" 7 "replicate 100 (7, 7, ''v1.x.y'')"
      "ex_ics_env id" "''10.0.0.1''" no_windows ex_db]
  by (simp add: list_all_length no_windows_def)

end
