(* ===== verification/Admin.thy ===== *)
theory Admin
  imports Booths Desk Leads Scheduler
begin

text \<open>
  The officer tree, \<open>presentation/http/admin_routes.rs\<close>: the JSON parse layer and every
  handler, over the verbs of the components. A request body is a \<open>serde_json::Value\<close>, here
  the \<open>json\<close> of the schema theory with the members of an object under distinct keys and
  numbers whole; a handler returns the module's error response, or the success status with
  the value the code serialises, and the database. The actor is the request extension. The
  parsers of uuid and timestamp text, and the derived parsers of the lead bodies, are
  parameters (\<open>admin_env\<close>); path and query arguments come parsed, by the web framework.
\<close>

record admin_env =
  ae_uuid_parse :: "string \<Rightarrow> uuid option"
  ae_parse_ts :: "string \<Rightarrow> timestamp option"
  ae_seat :: seat_env
  ae_event :: event_env
  ae_lead :: lead_env
  ae_fresh :: uuid
  ae_booth_checks :: "booth_rec \<Rightarrow> bool"
  ae_booking_checks :: "booking_rec \<Rightarrow> bool"
  ae_typed_create_rule :: "json \<Rightarrow> string + create_rule_input"
  ae_typed_patch_rule :: "json \<Rightarrow> string + patch_rule_input"
  ae_typed_from_answer :: "json \<Rightarrow> string + from_answer_input"
  ae_typed_relink :: "json \<Rightarrow> string + (uuid \<times> uuid)"

type_synonym 'a answer = "response + (nat \<times> 'a)"

section \<open>The parse layer\<close>

text \<open>\<open>Value::get\<close>, \<open>as_object\<close>, \<open>as_str\<close>, \<open>as_bool\<close>, \<open>as_i64\<close>, \<open>as_array\<close>.\<close>

fun members :: "json \<Rightarrow> (string \<times> json) list" where
  "members (JObj ms) = ms"
| "members _ = []"

definition jget :: "json \<Rightarrow> string \<Rightarrow> json option" where
  "jget body key = map_of (members body) key"

fun as_str :: "json \<Rightarrow> string option" where
  "as_str (JStr s) = Some s"
| "as_str _ = None"

fun as_bool :: "json \<Rightarrow> bool option" where
  "as_bool (JBool b) = Some b"
| "as_bool _ = None"

fun as_i64 :: "json \<Rightarrow> int option" where
  "as_i64 (JNum n) = (if - (2 ^ 63) \<le> n \<and> n < 2 ^ 63 then Some n else None)"
| "as_i64 _ = None"

fun as_array :: "json \<Rightarrow> json list option" where
  "as_array (JArr vs) = Some vs"
| "as_array _ = None"

definition key_required :: "string \<Rightarrow> event_error" where
  "key_required key = Validation (key @ '' is required'')"

definition string_of :: "json \<Rightarrow> string \<Rightarrow> string event_result" where
  "string_of body key =
     (case Option.bind (jget body key) as_str of
        Some s \<Rightarrow> if s \<noteq> [] then Inr s else Inl (key_required key)
      | None \<Rightarrow> Inl (key_required key))"

definition opt_string_of :: "json \<Rightarrow> string \<Rightarrow> string option" where
  "opt_string_of body key = Option.bind (jget body key) as_str"

definition bool_of :: "json \<Rightarrow> string \<Rightarrow> bool option" where
  "bool_of body key = Option.bind (jget body key) as_bool"

definition opt_bool_of :: "json \<Rightarrow> string \<Rightarrow> bool option" where
  "opt_bool_of body key = bool_of body key"

text \<open>\<open>v as i32\<close>: the low 32 bits, read signed.\<close>

definition as_i32 :: "int \<Rightarrow> int" where
  "as_i32 v = signed_take_bit 31 v"

definition int_of :: "json \<Rightarrow> string \<Rightarrow> int option" where
  "int_of body key = map_option as_i32 (Option.bind (jget body key) as_i64)"

definition opt_int_of :: "json \<Rightarrow> string \<Rightarrow> int option" where
  "opt_int_of body key = int_of body key"

definition uuid_of :: "admin_env \<Rightarrow> json \<Rightarrow> string \<Rightarrow> uuid option" where
  "uuid_of env body key = Option.bind (Option.bind (jget body key) as_str) (ae_uuid_parse env)"

fun collect_some :: "'a option list \<Rightarrow> 'a list option" where
  "collect_some [] = Some []"
| "collect_some (x # xs) =
     (case x of None \<Rightarrow> None | Some a \<Rightarrow> map_option (\<lambda>as. a # as) (collect_some xs))"

definition uuid_vec_of :: "admin_env \<Rightarrow> json \<Rightarrow> string \<Rightarrow> uuid list option" where
  "uuid_vec_of env body key =
     Option.bind (Option.bind (jget body key) as_array)
       (\<lambda>vs. collect_some (map (\<lambda>v. Option.bind (as_str v) (ae_uuid_parse env)) vs))"

definition parse_ts :: "admin_env \<Rightarrow> json option \<Rightarrow> string \<Rightarrow> timestamp event_result" where
  "parse_ts env value key =
     ok_or (Option.bind (Option.bind value as_str) (ae_parse_ts env))
       (Validation (key @ '' must be an RFC 3339 timestamp''))"

definition opt_ts :: "admin_env \<Rightarrow> json \<Rightarrow> string \<Rightarrow> timestamp option event_result" where
  "opt_ts env body key =
     (if jget body key = None then Inr None
      else bind_r (parse_ts env (jget body key) key) (\<lambda>t. Inr (Some t)))"

definition parse_typed :: "(json \<Rightarrow> string + 'a) \<Rightarrow> json \<Rightarrow> 'a event_result" where
  "parse_typed from_value body =
     (case from_value body of
        Inl e \<Rightarrow> Inl (Validation (''body parse refused: '' @ e))
      | Inr x \<Rightarrow> Inr x)"

text \<open>\<open>reply\<close> over a read, and over a verb's row and database.\<close>

definition reply :: "'a event_result \<Rightarrow> 'a answer" where
  "reply r = (case r of Inr x \<Rightarrow> Inr (200, x) | Inl e \<Rightarrow> Inl (into_response e))"

definition commit :: "nat \<Rightarrow> db \<Rightarrow> ('a \<times> db) event_result \<Rightarrow> 'a answer \<times> db" where
  "commit ok d r = (case r of Inr (x, d') \<Rightarrow> (Inr (ok, x), d') | Inl e \<Rightarrow> (Inl (into_response e), d))"

definition clamp_limit :: "int option \<Rightarrow> int" where
  "clamp_limit limit = max 1 (min 500 (case limit of Some n \<Rightarrow> n | None \<Rightarrow> 50))"

fun comma_join :: "string list \<Rightarrow> string" where
  "comma_join [] = []"
| "comma_join [x] = x"
| "comma_join (x # y # xs) = x @ '', '' @ comma_join (y # xs)"

definition named_fields :: "string list \<Rightarrow> json \<Rightarrow> string list" where
  "named_fields refused body = filter (\<lambda>f. f \<in> fst ` set (members body)) refused"

section \<open>Events\<close>

definition publish_fenced_fields :: "string list" where
  "publish_fenced_fields = [''is_published'', ''date_publish'']"

definition list_events_route :: "int option \<Rightarrow> db \<Rightarrow> event_rec list answer" where
  "list_events_route limit d = reply (list_events (clamp_limit limit) d)"

definition parse_create_event :: "admin_env \<Rightarrow> json \<Rightarrow> create_input event_result" where
  "parse_create_event env body =
     bind_r (parse_ts env (jget body ''date_begin'') ''date_begin'') (\<lambda>date_begin.
     bind_r (parse_ts env (jget body ''date_end'') ''date_end'') (\<lambda>date_end.
     bind_r (string_of body ''name'') (\<lambda>name.
     Inr \<lparr>ci_name = name, ci_type_id = uuid_of env body ''event_type_id'',
          ci_date_begin = date_begin, ci_date_end = date_end,
          ci_date_tz = opt_string_of body ''date_tz'',
          ci_multi_slots = (case bool_of body ''is_multi_slots'' of Some b \<Rightarrow> b | None \<Rightarrow> False),
          ci_slot_count = (case int_of body ''event_slot_count'' of Some n \<Rightarrow> n | None \<Rightarrow> 1),
          ci_seats_limited = (case bool_of body ''seats_limited'' of Some b \<Rightarrow> b | None \<Rightarrow> False),
          ci_seats_max = (case int_of body ''seats_max'' of Some n \<Rightarrow> n | None \<Rightarrow> 0),
          ci_organizer_id = uuid_of env body ''organizer_id'', ci_user_id = uuid_of env body ''user_id'',
          ci_address_id = uuid_of env body ''address_id'', ci_event_url = opt_string_of body ''event_url'',
          ci_badge = opt_string_of body ''badge_format''\<rparr>)))"

definition create_event_route :: "admin_env \<Rightarrow> uuid option \<Rightarrow> json \<Rightarrow> db \<Rightarrow> event_rec answer \<times> db" where
  "create_event_route env actor body d =
     (case parse_create_event env body of
        Inl e \<Rightarrow> (Inl (into_response e), d)
      | Inr input \<Rightarrow> commit 201 d (create_event (ae_event env) input actor d))"

definition get_event_route :: "uuid \<Rightarrow> db \<Rightarrow> event_rec answer" where
  "get_event_route i d = reply (find_event i d)"

definition parse_patch_event :: "admin_env \<Rightarrow> json \<Rightarrow> patch_input event_result" where
  "parse_patch_event env body =
     bind_r (opt_ts env body ''date_begin'') (\<lambda>date_begin.
     bind_r (opt_ts env body ''date_end'') (\<lambda>date_end.
     Inr \<lparr>pi_name = opt_string_of body ''name'', pi_type_id = uuid_of env body ''event_type_id'',
          pi_stage_id = uuid_of env body ''stage_id'', pi_date_begin = date_begin, pi_date_end = date_end,
          pi_date_tz = opt_string_of body ''date_tz'', pi_multi_slots = opt_bool_of body ''is_multi_slots'',
          pi_slot_count = opt_int_of body ''event_slot_count'',
          pi_seats_limited = opt_bool_of body ''seats_limited'', pi_seats_max = opt_int_of body ''seats_max'',
          pi_organizer_id = uuid_of env body ''organizer_id'', pi_user_id = uuid_of env body ''user_id'',
          pi_address_id = uuid_of env body ''address_id'', pi_event_url = opt_string_of body ''event_url'',
          pi_badge = opt_string_of body ''badge_format''\<rparr>))"

definition patch_event_route :: "admin_env \<Rightarrow> uuid option \<Rightarrow> uuid \<Rightarrow> json \<Rightarrow> db \<Rightarrow> event_rec answer \<times> db" where
  "patch_event_route env actor i body d =
     (let hits = named_fields publish_fenced_fields body in
      if hits \<noteq> [] then (Inl (into_response (PublishRefused (comma_join hits))), d)
      else case parse_patch_event env body of
             Inl e \<Rightarrow> (Inl (into_response e), d)
           | Inr p \<Rightarrow> commit 200 d (patch_event (ae_event env) i p actor d))"

definition publish_event_route :: "admin_env \<Rightarrow> uuid option \<Rightarrow> uuid \<Rightarrow> db \<Rightarrow> event_rec answer \<times> db" where
  "publish_event_route env actor i d = commit 200 d (publish_event (ae_event env) i actor d)"

definition unpublish_event_route :: "admin_env \<Rightarrow> uuid option \<Rightarrow> uuid \<Rightarrow> db \<Rightarrow> event_rec answer \<times> db" where
  "unpublish_event_route env actor i d = commit 200 d (unpublish_event (ae_event env) i actor d)"

definition mark_done_event_route :: "admin_env \<Rightarrow> uuid option \<Rightarrow> uuid \<Rightarrow> db \<Rightarrow> event_rec answer \<times> db" where
  "mark_done_event_route env actor i d = commit 200 d (mark_done (ae_event env) i actor d)"

definition event_seats_route :: "uuid \<Rightarrow> uuid option \<Rightarrow> db \<Rightarrow> seat_availability answer" where
  "event_seats_route i slot d = reply (availability i slot d)"

section \<open>Registrations\<close>

definition parse_register :: "admin_env \<Rightarrow> uuid option \<Rightarrow> json \<Rightarrow> register_cmd event_result" where
  "parse_register env actor body =
     bind_r (ok_or (uuid_of env body ''event_id'') (key_required ''event_id'')) (\<lambda>event_id.
     bind_r (string_of body ''name'') (\<lambda>name.
     bind_r (string_of body ''email'') (\<lambda>email.
     Inr \<lparr>rc_event_id = event_id, rc_slot_id = uuid_of env body ''event_slot_id'',
          rc_ticket_id = uuid_of env body ''event_ticket_id'', rc_name = name, rc_email = email,
          rc_phone = opt_string_of body ''phone'', rc_company_name = opt_string_of body ''company_name'',
          rc_partner_id = uuid_of env body ''partner_id'', rc_actor = actor,
          rc_lead_rule_skip = False\<rparr>)))"

definition register_registration_route ::
    "admin_env \<Rightarrow> uuid option \<Rightarrow> json \<Rightarrow> db \<Rightarrow> reg_rec answer \<times> db" where
  "register_registration_route env actor body d =
     (case parse_register env actor body of
        Inl e \<Rightarrow> (Inl (into_response e), d)
      | Inr cmd \<Rightarrow> (case service_register (ae_seat env) cmd d of
          (Inr row, d') \<Rightarrow> (Inr (201, row), d')
        | (Inl e, d') \<Rightarrow> (Inl (into_response e), d')))"

definition list_registrations_route ::
    "uuid \<Rightarrow> int option \<Rightarrow> uuid option \<Rightarrow> db \<Rightarrow> reg_rec list answer" where
  "list_registrations_route event_id limit after d =
     reply (list_registrations event_id (clamp_limit limit) after d)"

definition get_registration_route :: "uuid \<Rightarrow> db \<Rightarrow> reg_rec answer" where
  "get_registration_route i d = reply (find_registration i d)"

definition refused_reg_fields :: "string list" where
  "refused_reg_fields = [''state'', ''sale_order_id'', ''sale_order_state'', ''sale_status'',
     ''active'', ''barcode'', ''event_id'', ''id'']"

text \<open>\<open>Uuid::default()\<close>: the nil uuid, the least in the order.\<close>

definition nil_uuid :: uuid where
  "nil_uuid = 0"

definition patch_registration_route ::
    "admin_env \<Rightarrow> uuid option \<Rightarrow> uuid \<Rightarrow> json \<Rightarrow> db \<Rightarrow> reg_rec answer \<times> db" where
  "patch_registration_route env actor i body d =
     (let hits = named_fields refused_reg_fields body in
      if hits \<noteq> []
      then (Inl (into_response (Validation (''patch refuses non-attendee fields: '' @ comma_join hits))), d)
      else commit 200 d (sync_from_partner (ae_seat env) i
             (case uuid_of env body ''partner_id'' of Some p \<Rightarrow> p | None \<Rightarrow> nil_uuid)
             (opt_string_of body ''name'') (opt_string_of body ''phone'') (opt_string_of body ''company_name'')
             actor d))"

definition confirm_registration_route :: "admin_env \<Rightarrow> uuid option \<Rightarrow> uuid \<Rightarrow> db \<Rightarrow> reg_rec answer \<times> db" where
  "confirm_registration_route env actor i d = commit 200 d (confirm_reg (ae_seat env) i actor d)"

definition set_draft_registration_route :: "admin_env \<Rightarrow> uuid option \<Rightarrow> uuid \<Rightarrow> db \<Rightarrow> reg_rec answer \<times> db" where
  "set_draft_registration_route env actor i d = commit 200 d (set_draft (ae_seat env) i actor d)"

definition set_done_registration_route :: "admin_env \<Rightarrow> uuid option \<Rightarrow> uuid \<Rightarrow> db \<Rightarrow> reg_rec answer \<times> db" where
  "set_done_registration_route env actor i d = commit 200 d (set_done (ae_seat env) i actor d)"

definition cancel_registration_route :: "admin_env \<Rightarrow> uuid option \<Rightarrow> uuid \<Rightarrow> db \<Rightarrow> reg_rec answer \<times> db" where
  "cancel_registration_route env actor i d = commit 200 d (cancel_reg (ae_seat env) i actor d)"

definition sync_from_partner_registration_route ::
    "admin_env \<Rightarrow> uuid option \<Rightarrow> uuid \<Rightarrow> json \<Rightarrow> db \<Rightarrow> reg_rec answer \<times> db" where
  "sync_from_partner_registration_route env actor i body d =
     (case uuid_of env body ''partner_id'' of
        None \<Rightarrow> (Inl (into_response (key_required ''partner_id'')), d)
      | Some p \<Rightarrow> commit 200 d (sync_from_partner (ae_seat env) i p
             (opt_string_of body ''name'') (opt_string_of body ''phone'') (opt_string_of body ''company_name'')
             actor d))"

section \<open>Schedulers, sweeps, desk\<close>

definition list_mails_route :: "uuid option \<Rightarrow> db \<Rightarrow> sched_row list answer" where
  "list_mails_route event_id d =
     (case event_id of
        Some e \<Rightarrow> reply (Inr (list_schedulers e d))
      | None \<Rightarrow> Inl (into_response (key_required ''event_id'')))"

text \<open>A walk that does not end gives no response: the runs keep their \<open>option\<close>.\<close>

definition reply_run ::
    "((event_error + unit) \<times> 'w run) option \<Rightarrow> (run_summary answer \<times> 'w \<times> db) option" where
  "reply_run r = map_option (\<lambda>(res, w, d, su).
     ((case res of Inr _ \<Rightarrow> Inr (200, su) | Inl e \<Rightarrow> Inl (into_response e)), w, d)) r"

definition run_mail_route ::
    "sched_env \<Rightarrow> 'w ports \<Rightarrow> int \<Rightarrow> uuid \<Rightarrow> 'w \<Rightarrow> db \<Rightarrow> (run_summary answer \<times> 'w \<times> db) option" where
  "run_mail_route env po batch i w d = reply_run (run_scheduler_by_id env po batch i w d)"

definition run_scheduler_route ::
    "sched_env \<Rightarrow> 'w ports \<Rightarrow> int \<Rightarrow> int \<Rightarrow> 'w \<Rightarrow> db \<Rightarrow> (run_summary answer \<times> 'w \<times> db) option" where
  "run_scheduler_route env po batch cron w d = reply_run (run_due_schedulers env po batch cron w d)"

definition run_sweep_route :: "timestamp \<Rightarrow> db \<Rightarrow> (nat \<times> uuid list) answer \<times> db" where
  "run_sweep_route now d =
     commit 200 d (bind_r (sweep_mark_done now 500 d) (\<lambda>(ids, d'). Inr ((length ids, ids), d')))"

definition desk_register_attendee_route ::
    "admin_env \<Rightarrow> uuid option \<Rightarrow> string \<Rightarrow> uuid \<Rightarrow> db \<Rightarrow>
       (reg_rec \<times> event_registration_state \<times> event_registration_state) answer \<times> db" where
  "desk_register_attendee_route env actor barcode event_id d =
     (if trim barcode = [] then (Inl (into_response (key_required ''barcode'')), d)
      else commit 200 d (register_attendee (ae_seat env) (trim barcode) event_id actor d))"


section \<open>Booths and bookings\<close>

definition list_booths_route ::
    "(string \<Rightarrow> 'k::linorder) \<Rightarrow> uuid option \<Rightarrow> int option \<Rightarrow> db \<Rightarrow> booth_rec list answer" where
  "list_booths_route collate event_id limit d =
     (case event_id of
        Some e \<Rightarrow> reply (list_booths_of_event collate e (clamp_limit limit) d)
      | None \<Rightarrow> Inl (into_response (key_required ''event_id'')))"

definition booth_ids_required :: event_error where
  "booth_ids_required = Validation ''event_id and booth_category_id are required''"

definition create_booth_route :: "admin_env \<Rightarrow> uuid option \<Rightarrow> json \<Rightarrow> db \<Rightarrow> booth_rec answer \<times> db" where
  "create_booth_route env actor body d =
     (case (uuid_of env body ''event_id'', uuid_of env body ''booth_category_id'', string_of body ''name'') of
        (Some e, Some c, Inr n) \<Rightarrow>
          commit 201 d (create_booth (ae_booth_checks env) (ae_fresh env) e c n actor d)
      | (_, _, Inl err) \<Rightarrow> (Inl (into_response err), d)
      | _ \<Rightarrow> (Inl (into_response booth_ids_required), d))"

definition get_booth_route :: "uuid \<Rightarrow> db \<Rightarrow> booth_rec answer" where
  "get_booth_route i d = reply (find_booth i d)"

definition refused_booth_fields :: "string list" where
  "refused_booth_fields = [''state'', ''sale_order_line_id'', ''is_paid'', ''event_id'', ''id'']"

definition patch_booth_route ::
    "admin_env \<Rightarrow> uuid option \<Rightarrow> uuid \<Rightarrow> json \<Rightarrow> db \<Rightarrow> booth_rec answer \<times> db" where
  "patch_booth_route env actor i body d =
     (let hits = named_fields refused_booth_fields body in
      if hits \<noteq> []
      then (Inl (into_response (Validation (''booth patch refuses non-writable fields: '' @ comma_join hits))), d)
      else commit 200 d (patch_booth (ae_booth_checks env) i
             \<lparr>bp_name = opt_string_of body ''name'', bp_category_id = uuid_of env body ''booth_category_id'',
              bp_partner_id = uuid_of env body ''partner_id'',
              bp_contact_name = opt_string_of body ''contact_name'',
              bp_contact_email = opt_string_of body ''contact_email'',
              bp_contact_phone = opt_string_of body ''contact_phone''\<rparr> actor d))"

text \<open>The deletes answer the id they were given.\<close>

definition delete_booth_route :: "uuid option \<Rightarrow> uuid \<Rightarrow> db \<Rightarrow> uuid answer \<times> db" where
  "delete_booth_route actor i d =
     commit 200 d (bind_r (delete_booth i actor d) (\<lambda>(_, d'). Inr (i, d')))"

definition release_booth_route :: "uuid option \<Rightarrow> uuid \<Rightarrow> db \<Rightarrow> booth_rec answer \<times> db" where
  "release_booth_route actor i d = commit 200 d (release_booth i actor d)"

definition line_ids_required :: event_error where
  "line_ids_required = Validation ''line_ids must be a non-empty array of uuids''"

definition mark_booths_paid_route :: "admin_env \<Rightarrow> json \<Rightarrow> db \<Rightarrow> nat answer \<times> db" where
  "mark_booths_paid_route env body d =
     (case uuid_vec_of env body ''line_ids'' of
        Some ids \<Rightarrow>
          if ids \<noteq> [] then (case mark_booths_paid ids d of (n, d') \<Rightarrow> (Inr (200, n), d'))
          else (Inl (into_response line_ids_required), d)
      | None \<Rightarrow> (Inl (into_response line_ids_required), d))"

definition create_booth_booking_route ::
    "admin_env \<Rightarrow> uuid option \<Rightarrow> uuid \<Rightarrow> json \<Rightarrow> db \<Rightarrow> booking_rec answer \<times> db" where
  "create_booth_booking_route env actor booth_id body d =
     commit 201 d (create_booking (ae_booking_checks env) (ae_fresh env) booth_id
       \<lparr>bi_line_id = uuid_of env body ''sale_order_line_id'', bi_partner_id = uuid_of env body ''partner_id'',
        bi_contact_name = opt_string_of body ''contact_name'',
        bi_contact_email = opt_string_of body ''contact_email'',
        bi_contact_phone = opt_string_of body ''contact_phone''\<rparr> actor d)"

definition list_booth_bookings_route :: "uuid \<Rightarrow> db \<Rightarrow> booking_rec list answer" where
  "list_booth_bookings_route booth_id d = reply (Inr (list_bookings_of_booth booth_id d))"

definition get_booth_booking_route :: "uuid \<Rightarrow> db \<Rightarrow> booking_rec answer" where
  "get_booth_booking_route i d = reply (find_booking i d)"

definition confirm_booth_booking_route ::
    "admin_env \<Rightarrow> uuid option \<Rightarrow> uuid \<Rightarrow> db \<Rightarrow> (booking_rec \<times> booth_rec) answer \<times> db" where
  "confirm_booth_booking_route env actor i d =
     commit 200 d (confirm_booking (ae_booth_checks env) i actor d)"

definition delete_booth_booking_route :: "uuid option \<Rightarrow> uuid \<Rightarrow> db \<Rightarrow> uuid answer \<times> db" where
  "delete_booth_booking_route actor i d =
     commit 200 d (bind_r (delete_booking i actor d) (\<lambda>(_, d'). Inr (i, d')))"

section \<open>Lead rules and the queue\<close>

definition list_lead_rules_route ::
    "(string \<Rightarrow> 'k::linorder) \<Rightarrow> int option \<Rightarrow> db \<Rightarrow> lead_rule_rec list answer" where
  "list_lead_rules_route collate limit d = reply (list_rules collate (clamp_limit limit) d)"

definition create_lead_rule_route ::
    "admin_env \<Rightarrow> uuid option \<Rightarrow> json \<Rightarrow> db \<Rightarrow> lead_rule_rec answer \<times> db" where
  "create_lead_rule_route env actor body d =
     (case parse_typed (ae_typed_create_rule env) body of
        Inl e \<Rightarrow> (Inl (into_response e), d)
      | Inr input \<Rightarrow> commit 201 d (create_rule (ae_lead env) input actor d))"

definition get_lead_rule_route ::
    "uuid \<Rightarrow> db \<Rightarrow> (lead_rule_rec \<times> predicate_rec list \<times> (int \<times> int) \<times> (int \<times> int)) answer" where
  "get_lead_rule_route i d = reply (rule_read_model i d)"

definition patch_lead_rule_route ::
    "admin_env \<Rightarrow> uuid option \<Rightarrow> uuid \<Rightarrow> json \<Rightarrow> db \<Rightarrow> lead_rule_rec answer \<times> db" where
  "patch_lead_rule_route env actor i body d =
     (case parse_typed (ae_typed_patch_rule env) body of
        Inl e \<Rightarrow> (Inl (into_response e), d)
      | Inr input \<Rightarrow> commit 200 d (patch_rule (ae_lead env) i input actor d))"

definition lead_rule_from_answer_route ::
    "admin_env \<Rightarrow> uuid option \<Rightarrow> json \<Rightarrow> db \<Rightarrow> lead_rule_rec answer \<times> db" where
  "lead_rule_from_answer_route env actor body d =
     (case parse_typed (ae_typed_from_answer env) body of
        Inl e \<Rightarrow> (Inl (into_response e), d)
      | Inr input \<Rightarrow> commit 201 d (from_answer (ae_lead env) input actor d))"

definition lead_rule_relink_route :: "admin_env \<Rightarrow> uuid option \<Rightarrow> json \<Rightarrow> db \<Rightarrow> nat answer \<times> db" where
  "lead_rule_relink_route env actor body d =
     (case parse_typed (ae_typed_relink env) body of
        Inl e \<Rightarrow> (Inl (into_response e), d)
      | Inr (old, new) \<Rightarrow> (case relink_lead old new actor d of (n, d') \<Rightarrow> (Inr (200, n), d')))"

definition get_lead_request_route :: "uuid \<Rightarrow> db \<Rightarrow> lead_request_rec option answer" where
  "get_lead_request_route event_id d = reply (Inr (find_request_of_event event_id d))"

definition run_lead_requests_route ::
    "lead_env \<Rightarrow> 'w lead_sink \<Rightarrow> int \<Rightarrow> int \<Rightarrow> 'w \<Rightarrow> db \<Rightarrow> (lead_summary answer \<times> 'w \<times> db) option" where
  "run_lead_requests_route env si batch cron w d =
     map_option (\<lambda>(w', d', su). (Inr (200, su), w', d')) (run_due_lead_requests env si batch cron w d)"

section \<open>The template cascade and the catalog read\<close>

definition on_template_deleted_route ::
    "uuid option \<Rightarrow> string \<Rightarrow> uuid \<Rightarrow> db \<Rightarrow> (int \<times> int) answer \<times> db" where
  "on_template_deleted_route actor kind ref d = commit 200 d (on_template_deleted (trim kind) ref actor d)"

definition event_linked_products_route :: "db \<Rightarrow> uuid list answer" where
  "event_linked_products_route d = reply (Inr (list_linked_products d))"

section \<open>Facts about the parse layer\<close>

lemma named_fields_Nil: "named_fields fs body = [] \<longleftrightarrow> (\<forall>f \<in> set fs. jget body f = None)"
  by (auto simp: named_fields_def filter_empty_conv jget_def map_of_eq_None_iff)

lemma clamp_limit_range: "1 \<le> clamp_limit l \<and> clamp_limit l \<le> 500"
  by (simp add: clamp_limit_def)

lemma int_of_range: "int_of body key = Some n \<Longrightarrow> - (2 ^ 31) \<le> n \<and> n < 2 ^ 31"
  using signed_take_bit_int_less_exp [of 31] signed_take_bit_int_greater_eq_minus_exp [of 31]
  by (auto simp: int_of_def as_i32_def)

lemma int_of_exact:
  "jget body key = Some (JNum n) \<Longrightarrow> - (2 ^ 31) \<le> n \<Longrightarrow> n < 2 ^ 31 \<Longrightarrow> int_of body key = Some n"
  by (simp add: int_of_def as_i32_def signed_take_bit_int_eq_self_iff)

lemma collect_some_eq: "collect_some xs = (if None \<in> set xs then None else Some (map the xs))"
  by (induction xs) (auto split: option.splits)

lemma length_capped: "length (limit_rows (clamp_limit l) t) \<le> 500"
  using clamp_limit_range [of l] by (auto simp: limit_rows_def)

section \<open>Properties of the routes\<close>

lemma commit_cases:
  assumes "commit ok d r = (res, d')"
  shows "(\<exists>x. r = Inr (x, d') \<and> res = Inr (ok, x)) \<or> (\<exists>e. r = Inl e \<and> res = Inl (into_response e) \<and> d' = d)"
  using assms by (auto simp: commit_def split: sum.splits prod.splits)

text \<open>
  Lists are capped: whatever limit a client sends, the four list routes answer 200 with at
  most 500 rows, and a limit below one is one.
\<close>

lemma list_routes_are_capped:
  "(\<exists>rows. list_events_route limit d = Inr (200, rows) \<and> length rows \<le> 500) \<and>
   (\<exists>rows. list_registrations_route e limit after d = Inr (200, rows) \<and> length rows \<le> 500) \<and>
   (\<exists>rows. list_booths_route collate (Some e) limit d = Inr (200, rows) \<and> length rows \<le> 500) \<and>
   (\<exists>rows. list_lead_rules_route collate' limit d = Inr (200, rows) \<and> length rows \<le> 500)"
proof -
  have "0 \<le> clamp_limit limit" using clamp_limit_range [of limit] by simp
  then show ?thesis
    by (simp add: list_events_route_def list_registrations_route_def list_booths_route_def
        list_lead_rules_route_def list_events_def list_registrations_def list_booths_of_event_def
        list_rules_def reply_def length_capped)
qed


definition event_axis :: "event_rec \<Rightarrow> uuid \<times> bool \<times> timestamp option \<times> event_kanban_state" where
  "event_axis e = (ev_id e, ev_published e, ev_date_publish e, ev_kanban e)"

definition reg_axis ::
    "reg_rec \<Rightarrow> uuid \<times> uuid \<times> event_registration_state \<times> uuid option \<times> event_sale_order_state option \<times>
       event_sale_status option \<times> bool \<times> string" where
  "reg_axis r = (rg_id r, rg_event_id r, rg_state r, rg_sale_order_id r, rg_sale_order_state r,
     rg_sale_status r, rg_active r, rg_barcode r)"

definition booth_axis :: "booth_rec \<Rightarrow> uuid \<times> uuid \<times> event_booth_state \<times> uuid option \<times> bool" where
  "booth_axis b = (bo_id b, bo_event_id b, bo_state b, bo_line_id b, bo_paid b)"

lemma patch_event_route_axis:
  assumes "patch_event_route env actor i body d = (res, d')"
  shows "map event_axis (events d') = map event_axis (events d) \<and>
    (named_fields publish_fenced_fields body \<noteq> [] \<longrightarrow>
       d' = d \<and> (\<exists>fields. res = Inl (into_response (PublishRefused fields))))"
proof -
  have "map event_axis (events d') = map event_axis (events d)"
    if "patch_event e i p actor d = Inr (row, d')" for e p row
    using that
    by (elim patch_eventE update_eventE)
       (auto simp: upd_rows_def event_axis_def patch_row_def)
  then show ?thesis
    using assms
    by (auto simp: patch_event_route_def Let_def split: if_splits sum.splits dest!: commit_cases)
qed

lemma patch_registration_route_axis:
  assumes "patch_registration_route env actor i body d = (res, d')"
  shows "map reg_axis (registrations d') = map reg_axis (registrations d) \<and>
    (named_fields refused_reg_fields body \<noteq> [] \<longrightarrow>
       d' = d \<and> (\<exists>m. res = Inl (into_response (Validation m))))"
proof -
  have "map reg_axis (registrations d') = map reg_axis (registrations d)"
    if "sync_from_partner e i p n ph c actor d = Inr (row, d')" for e p n ph c row
    unfolding sync_from_partnerD(1) [OF that] by (auto simp: upd_rows_def reg_axis_def sync_row_def)
  then show ?thesis
    using assms by (auto simp: patch_registration_route_def Let_def split: if_splits dest!: commit_cases)
qed

lemma patch_booth_route_axis:
  assumes "patch_booth_route env actor i body d = (res, d')"
  shows "map booth_axis (booths d') = map booth_axis (booths d) \<and>
    (named_fields refused_booth_fields body \<noteq> [] \<longrightarrow>
       d' = d \<and> (\<exists>m. res = Inl (into_response (Validation m))))"
proof -
  have "map booth_axis (booths d') = map booth_axis (booths d)"
    if "patch_booth checks i p actor d = Inr (row, d')" for checks p row
    unfolding patch_boothD(1) [OF that] by (auto simp: upd_rows_def booth_axis_def)
  then show ?thesis
    using assms by (auto simp: patch_booth_route_def Let_def split: if_splits dest!: commit_cases)
qed


text \<open>
  C34. The fenced fields: an event patch whose body has a publication field, a registration patch
  with a state, sale, archive, barcode or key field and a booth patch with a state, sale, paid or
  key field are each answered 422 and leave the whole database as it was, the audit trail too.
\<close>

theorem fenced_patches_change_nothing:
  assumes "key \<in> fst ` set (members body)"
  shows "(key \<in> {''is_published'', ''date_publish''} \<longrightarrow>
      snd (patch_event_route env actor i body d) = d \<and>
      map_sum resp_status id (fst (patch_event_route env actor i body d)) = Inl 422) \<and>
    (key \<in> {''state'', ''sale_order_id'', ''sale_order_state'', ''sale_status'', ''active'', ''barcode'',
       ''event_id'', ''id''} \<longrightarrow>
      snd (patch_registration_route env actor i body d) = d \<and>
      map_sum resp_status id (fst (patch_registration_route env actor i body d)) = Inl 422) \<and>
    (key \<in> {''state'', ''sale_order_line_id'', ''is_paid'', ''event_id'', ''id''} \<longrightarrow>
      snd (patch_booth_route env actor i body d) = d \<and>
      map_sum resp_status id (fst (patch_booth_route env actor i body d)) = Inl 422)"
proof -
  have named: "named_fields fs body \<noteq> []" if "key \<in> set fs" for fs
    using assms that by (auto simp: named_fields_def filter_empty_conv)
  have "{''is_published'', ''date_publish''} \<subseteq> set publish_fenced_fields"
    "{''state'', ''sale_order_id'', ''sale_order_state'', ''sale_status'', ''active'', ''barcode'',
       ''event_id'', ''id''} \<subseteq> set refused_reg_fields"
    "{''state'', ''sale_order_line_id'', ''is_paid'', ''event_id'', ''id''} \<subseteq> set refused_booth_fields"
    by (simp_all add: publish_fenced_fields_def refused_reg_fields_def refused_booth_fields_def)
  then show ?thesis
    using named [of publish_fenced_fields] named [of refused_reg_fields] named [of refused_booth_fields]
    by (auto simp: patch_event_route_def patch_registration_route_def patch_booth_route_def Let_def into_response_def)
qed

text \<open>An officer environment, and a body.\<close>

definition ex_admin :: admin_env where
  "ex_admin = \<lparr>ae_uuid_parse = (\<lambda>s. find (\<lambda>i. show_nat i = s) [1..<10]),
     ae_parse_ts = (\<lambda>s. find (\<lambda>t. show_int t = s) [1..9]),
     ae_seat = ex_env 3, ae_event = ex_event_env, ae_lead = ex_lead_env, ae_fresh = 82,
     ae_booth_checks = (\<lambda>_. True), ae_booking_checks = (\<lambda>_. True),
     ae_typed_create_rule = (\<lambda>_. Inl ''missing field''), ae_typed_patch_rule = (\<lambda>_. Inl ''missing field''),
     ae_typed_from_answer = (\<lambda>_. Inl ''missing field''), ae_typed_relink = (\<lambda>_. Inl ''missing field'')\<rparr>"

theorem fenced_patches_change_nothing_witness:
  "snd (patch_event_route ex_admin None 1 (JObj [(''name'', JStr ''X''), (''is_published'', JBool False)]) ex_db) = ex_db"
  using fenced_patches_change_nothing [of "''is_published''" "JObj [(''name'', JStr ''X''), (''is_published'', JBool False)]"
      ex_admin None 1 ex_db]
  by simp

text \<open>
  A patch without a party claims one: the route fills the party with the nil uuid when the
  body names none, so any accepted patch of a registration nobody has claimed, an empty body
  included, writes the nil party into it, and no later sync from a real party replaces it.
\<close>

lemma patch_claims_the_nil_party:
  assumes "find (\<lambda>r. rg_id r = i \<and> rg_active r) (registrations d) = Some r" and "rg_partner_id r = None"
    and "uuid_of env body ''partner_id'' = None" and "named_fields refused_reg_fields body = []"
    and "\<forall>x. se_checks (ae_seat env) x"
  shows "\<exists>row d'. patch_registration_route env actor i body d = (Inr (200, row), d') \<and>
    rg_partner_id row = Some nil_uuid \<and>
    (\<forall>p ph c. rg_partner_id (sync_row p ph c row) = Some nil_uuid)"
  using assms
  by (simp add: patch_registration_route_def sync_from_partner_def commit_def sync_row_def Let_def)

lemma patch_claims_the_nil_party_witness:
  "\<exists>row d'. patch_registration_route ex_admin None 3 (JObj []) (ex_db_with [ex_reg 3 1 None Reg_Open])
      = (Inr (200, row), d') \<and> rg_partner_id row = Some nil_uuid"
  using patch_claims_the_nil_party [of 3 "ex_db_with [ex_reg 3 1 None Reg_Open]" "ex_reg 3 1 None Reg_Open"
      ex_admin "JObj []" None]
  by (simp add: ex_db_with_def ex_reg_def ex_admin_def ex_env_def uuid_of_def jget_def named_fields_def
      refused_reg_fields_def) blast


definition ex_oversized :: json where
  "ex_oversized = JObj [(''name'', JStr ''Fair''), (''date_begin'', JStr ''1''), (''date_end'', JStr ''2''),
     (''seats_limited'', JBool True), (''seats_max'', JNum (2 ^ 32))]"

text \<open>
  A number too large wraps: the parse layer keeps the low 32 bits, so an officer who limits
  an event to four billion seats creates an unlimited one.
\<close>

lemma oversized_limit_is_unlimited:
  "\<exists>e d'. create_event_route ex_admin None ex_oversized ex_db = (Inr (201, e), d') \<and>
     ev_seats_limited e \<and> ev_seats_max e = 0 \<and> (\<forall>taken. \<not> seats_full e taken)"
proof -
  have ts: "ae_parse_ts ex_admin ''1'' = Some 1" "ae_parse_ts ex_admin ''2'' = Some 2" by code_simp+
  obtain input where input: "parse_create_event ex_admin ex_oversized = Inr input"
    "ci_seats_limited input" "ci_seats_max input = 0" "ci_multi_slots input = False"
    "ci_date_begin input = 1" "ci_date_end input = 2" "ci_badge input = None" "ci_type_id input = None"
    "ci_slot_count input = 1"
    by (simp add: parse_create_event_def ex_oversized_def jget_def parse_ts_def string_of_def bool_of_def
        int_of_def uuid_of_def opt_string_of_def as_i32_def signed_take_bit_int_eq_self_iff ts)
  have "\<not> isl (create_event (ae_event ex_admin) input None ex_db)"
    using input by (simp add: create_event_def ex_admin_def event_eval)
  then obtain e d' where ok: "create_event (ae_event ex_admin) input None ex_db = Inr (e, d')"
    using isr_obtain2 by blast
  then have "ev_seats_limited e" "ev_seats_max e = 0"
    using input by (auto simp: create_event_def repo_create_event_def new_event_def result_simps Let_def case_prod_beta
        split: if_splits)
  with ok input(1) show ?thesis
    by (intro exI [of _ e] exI [of _ d']) (simp add: create_event_route_def commit_def seats_full_def)
qed

text \<open>
  The paid latch takes a list or nothing: if any element of \<open>line_ids\<close> is not the text of a
  uuid, or the list is missing or empty, the request is refused and no booth is latched;
  otherwise exactly the verb runs on all of them.
\<close>

lemma mark_paid_is_all_or_nothing:
  "mark_booths_paid_route env body d =
     (case Option.bind (jget body ''line_ids'') as_array of
        Some vs \<Rightarrow>
          if vs = [] \<or> \<not> list_all (\<lambda>v. \<exists>s i. v = JStr s \<and> ae_uuid_parse env s = Some i) vs
          then (Inl (into_response line_ids_required), d)
          else (Inr (200, fst (mark_booths_paid (map (\<lambda>v. the (Option.bind (as_str v) (ae_uuid_parse env))) vs) d)),
                snd (mark_booths_paid (map (\<lambda>v. the (Option.bind (as_str v) (ae_uuid_parse env))) vs) d))
      | None \<Rightarrow> (Inl (into_response line_ids_required), d))"
proof (cases "Option.bind (jget body ''line_ids'') as_array")
  case (Some vs)
  have str: "(\<exists>i. Option.bind (as_str v) (ae_uuid_parse env) = Some i) \<longleftrightarrow>
      (\<exists>s i. v = JStr s \<and> ae_uuid_parse env s = Some i)" for v
    by (cases v) auto
  have "None \<in> set (map (\<lambda>v. Option.bind (as_str v) (ae_uuid_parse env)) vs) \<longleftrightarrow>
      \<not> list_all (\<lambda>v. \<exists>s i. v = JStr s \<and> ae_uuid_parse env s = Some i) vs"
    using str by (auto simp: list_all_iff image_iff) (metis not_None_eq)+
  with Some show ?thesis
    by (auto simp: mark_booths_paid_route_def uuid_vec_of_def collect_some_eq case_prod_beta comp_def)
qed (simp add: mark_booths_paid_route_def uuid_vec_of_def)

end
