(* ===== verification/Requests.thy ===== *)
theory Requests
  imports Walls Admin Public
begin

text \<open>
  The two HTTP trees over one database: every officer request that runs a registration, booth,
  publication or desk verb, and the public intake, as one request type served in any order. The
  invariant is the one the verbs keep: no seat-limited scope over its limit and every confirmed
  booking alone on its booth. Event creation and the event patch are left out of the type: the
  patch may lower a limit below the seats already taken.
\<close>

datatype officer_request =
    Rq_Register json
  | Rq_Patch_Registration uuid json
  | Rq_Confirm uuid
  | Rq_Set_Draft uuid
  | Rq_Set_Done uuid
  | Rq_Cancel uuid
  | Rq_Sync uuid json
  | Rq_Desk string uuid
  | Rq_Publish uuid
  | Rq_Unpublish uuid
  | Rq_Mark_Done uuid
  | Rq_Create_Booth json
  | Rq_Patch_Booth uuid json
  | Rq_Delete_Booth uuid
  | Rq_Release_Booth uuid
  | Rq_Mark_Paid json
  | Rq_Create_Booking uuid json
  | Rq_Confirm_Booking uuid
  | Rq_Delete_Booking uuid

fun serve_officer :: "admin_env \<Rightarrow> uuid option \<Rightarrow> officer_request \<Rightarrow> db \<Rightarrow> db" where
  "serve_officer env actor (Rq_Register body) d = snd (register_registration_route env actor body d)"
| "serve_officer env actor (Rq_Patch_Registration i body) d = snd (patch_registration_route env actor i body d)"
| "serve_officer env actor (Rq_Confirm i) d = snd (confirm_registration_route env actor i d)"
| "serve_officer env actor (Rq_Set_Draft i) d = snd (set_draft_registration_route env actor i d)"
| "serve_officer env actor (Rq_Set_Done i) d = snd (set_done_registration_route env actor i d)"
| "serve_officer env actor (Rq_Cancel i) d = snd (cancel_registration_route env actor i d)"
| "serve_officer env actor (Rq_Sync i body) d = snd (sync_from_partner_registration_route env actor i body d)"
| "serve_officer env actor (Rq_Desk barcode e) d = snd (desk_register_attendee_route env actor barcode e d)"
| "serve_officer env actor (Rq_Publish i) d = snd (publish_event_route env actor i d)"
| "serve_officer env actor (Rq_Unpublish i) d = snd (unpublish_event_route env actor i d)"
| "serve_officer env actor (Rq_Mark_Done i) d = snd (mark_done_event_route env actor i d)"
| "serve_officer env actor (Rq_Create_Booth body) d = snd (create_booth_route env actor body d)"
| "serve_officer env actor (Rq_Patch_Booth i body) d = snd (patch_booth_route env actor i body d)"
| "serve_officer env actor (Rq_Delete_Booth i) d = snd (delete_booth_route actor i d)"
| "serve_officer env actor (Rq_Release_Booth i) d = snd (release_booth_route actor i d)"
| "serve_officer env actor (Rq_Mark_Paid body) d = snd (mark_booths_paid_route env body d)"
| "serve_officer env actor (Rq_Create_Booking b body) d = snd (create_booth_booking_route env actor b body d)"
| "serve_officer env actor (Rq_Confirm_Booking i) d = snd (confirm_booth_booking_route env actor i d)"
| "serve_officer env actor (Rq_Delete_Booking i) d = snd (delete_booth_booking_route actor i d)"

datatype request =
    Officer admin_env "uuid option" officer_request
  | Public_Intake public_cfg throttles intake_request "string option" "string option"

fun serve :: "request \<Rightarrow> windows \<times> db \<Rightarrow> unit + windows \<times> db" where
  "serve (Officer env actor q) (w, d) = Inr (w, serve_officer env actor q d)"
| "serve (Public_Intake cfg th q fwd sock) wd = Inr (snd (intake_handler cfg th q fwd sock wd))"

text \<open>
  What a request has to respect, the discipline of the register verb: no slot for an event that
  is not multi-slot.
\<close>

fun request_admissible :: "request \<Rightarrow> windows \<times> db \<Rightarrow> bool" where
  "request_admissible (Officer env actor (Rq_Register body)) (w, d) \<longleftrightarrow>
     (case parse_register env actor body of Inr cmd \<Rightarrow> no_stray_slot cmd d | Inl _ \<Rightarrow> True)"
| "request_admissible (Officer env actor _) wd \<longleftrightarrow> True"
| "request_admissible (Public_Intake cfg th q fwd sock) (w, d) \<longleftrightarrow>
     no_stray_slot (intake_command (iq_event_id q) (iq_payload q)) d"

definition walls :: "windows \<times> db \<Rightarrow> bool" where
  "walls wd \<longleftrightarrow> system_inv (snd wd)"

section \<open>What each group of requests leaves alone\<close>

text \<open>An update of event rows that keeps ids, slot mode and limit keeps the seat invariant.\<close>

lemma update_event_walls:
  assumes "update_event env i f action actor detail d = Inr (e, d')" and walls: "system_inv d"
    and f: "\<And>e. ev_id (f e) = ev_id e" "\<And>e. ev_multi_slots (f e) = ev_multi_slots e"
      "\<And>e. ev_seats_limited (f e) = ev_seats_limited e" "\<And>e. ev_seats_max (f e) = ev_seats_max e"
  shows "system_inv d'"
proof -
  have inv: "seat_inv d" "booth_inv d" using walls by (simp_all add: system_inv_def)
  have ev: "events d' = upd_rows (\<lambda>x. ev_id x = i) f (events d)"
    and same: "registrations d' = registrations d" "mails d' = mails d" "receipts d' = receipts d"
      "lead_requests d' = lead_requests d" "booths d' = booths d" "bookings d' = bookings d"
    using assms(1) by (auto simp: update_event_def result_simps)
  define g where "g e = (if ev_id e = i then f e else e)" for e
  have ev': "events d' = map g (events d)" by (simp add: ev upd_rows_def g_def)
  have g: "ev_id (g e) = ev_id e" "ev_seats_limited (g e) = ev_seats_limited e" "ev_seats_max (g e) = ev_seats_max e"
    "capacity_scope (g e) s = capacity_scope e s" for e s
    by (simp_all add: g_def f capacity_scope_def)
  have taken: "seats_taken x s d' = seats_taken x s d" for x s by (simp add: seats_taken_def same)
  have "map ev_id (events d') = map ev_id (events d)" by (simp add: ev' g)
  then have "keys_ok d'" using inv(1) by (simp add: seat_inv_def keys_ok_def same del: map_map)
  moreover have "slots_fit d'"
    using inv(1) by (simp add: seat_inv_def slots_fit_def ev' same g)
  moreover have "within_capacity d'"
    using inv(1) by (simp add: seat_inv_def within_capacity_def ev' taken g)
  moreover have "booth_inv d'" using inv(2) booth_inv_same same by (simp add: booth_tables_same_def)
  ultimately show ?thesis by (simp add: system_inv_def seat_inv_def)
qed

lemma patch_booth_inv:
  assumes "patch_booth c i p a d = Inr (b, d')" and "booth_inv d"
  shows "booth_inv d'"
  using patch_boothD [OF assms(1)]
  by (intro booth_inv_upd [OF assms(2), where p = "\<lambda>x. bo_id x = i" and f = "patch_booth_row p"]) simp_all

lemma mark_paid_inv: "booth_inv d \<Longrightarrow> booth_inv (snd (mark_booths_paid ids d))"
  by (rule booth_inv_upd [OF _ mark_booths_paid_booths(2,1)]) simp_all


section \<open>Every request keeps the walls\<close>

text \<open>Registration requests: what a seat verb does, or nothing, or the recorded refusal.\<close>

lemma seat_verb_walls:
  "seat_step v d = Inr d' \<Longrightarrow> seat_admissible v d \<Longrightarrow> system_inv d \<Longrightarrow> system_inv d'"
  using system.keeps [of "Seat_Verb v" d d'] by simp

lemma transition_walls:
  "transition env i t actor d = Inr (x, d') \<Longrightarrow> system_inv d \<Longrightarrow> system_inv d'"
  using seat_verb_walls [of "Verb_Transition env i t actor" d d'] by simp

lemma service_transition_walls:
  "service_transition env i t actor d = Inr (x, d') \<Longrightarrow> system_inv d \<Longrightarrow> system_inv d'"
  by (auto simp: service_transition_def result_simps dest: transition_walls)

lemma sync_walls:
  "sync_from_partner env i p n ph c actor d = Inr (x, d') \<Longrightarrow> system_inv d \<Longrightarrow> system_inv d'"
  using seat_verb_walls [of "Verb_Sync env i p n ph c actor" d d'] by simp

lemma audit_walls: "system_inv d \<Longrightarrow> system_inv (record_audit a b c e f d)"
  using booth_inv_same [of d "record_audit a b c e f d"] seat_inv_same [of d "record_audit a b c e f d"]
  by (simp add: system_inv_def booth_tables_same_def seat_tables_same_def)

lemma service_register_walls:
  assumes "system_inv d" and "no_stray_slot cmd d"
  shows "system_inv (snd (service_register env cmd d))"
proof (cases "register env cmd d")
  case (Inl e)
  then show ?thesis using audit_walls [OF assms(1)] assms(1) by (simp add: service_register_def)
next
  case (Inr x)
  then show ?thesis
    using seat_verb_walls [of "Verb_Register env cmd" d "snd x"] assms
    by (cases x) (simp add: service_register_def)
qed

lemma desk_walls:
  "register_attendee env b e actor d = Inr (x, d') \<Longrightarrow> system_inv d \<Longrightarrow> system_inv d'"
  by (auto simp: register_attendee_def result_simps split: if_splits dest: transition_walls)

text \<open>Booth requests keep the seat tables; publication requests keep ids, slot mode and limits.\<close>

lemma booth_walls:
  assumes "seat_tables_same d d'" and "booth_inv d \<Longrightarrow> booth_inv d'" and "system_inv d"
  shows "system_inv d'"
  using assms seat_inv_same by (simp add: system_inv_def)

lemma create_booth_walls:
  "create_booth c i e k n a d = Inr (b, d') \<Longrightarrow> system_inv d \<Longrightarrow> system_inv d'"
  by (rule booth_walls [OF create_booth_same create_booth_inv])

lemma patch_booth_walls:
  "patch_booth c i p a d = Inr (b, d') \<Longrightarrow> system_inv d \<Longrightarrow> system_inv d'"
  by (rule booth_walls [OF patch_booth_same patch_booth_inv])

lemma delete_booth_walls:
  "delete_booth i a d = Inr (b, d') \<Longrightarrow> system_inv d \<Longrightarrow> system_inv d'"
  by (rule booth_walls [OF delete_booth_same delete_booth_inv])

lemma release_booth_walls:
  "release_booth i a d = Inr (b, d') \<Longrightarrow> system_inv d \<Longrightarrow> system_inv d'"
  by (rule booth_walls [OF release_booth_same release_booth_inv])

lemma create_booking_walls:
  "create_booking c i b p a d = Inr (x, d') \<Longrightarrow> system_inv d \<Longrightarrow> system_inv d'"
  by (rule booth_walls [OF create_booking_same create_booking_inv])

lemma confirm_booking_walls:
  "confirm_booking c i a d = Inr (x, d') \<Longrightarrow> system_inv d \<Longrightarrow> system_inv d'"
  by (rule booth_walls [OF confirm_booking_same confirm_booking_inv])

lemma delete_booking_walls:
  "delete_booking i a d = Inr (x, d') \<Longrightarrow> system_inv d \<Longrightarrow> system_inv d'"
  by (rule booth_walls [OF delete_booking_same delete_booking_inv])

lemma publish_walls:
  "publish_event env i a d = Inr (x, d') \<Longrightarrow> system_inv d \<Longrightarrow> system_inv d'"
  unfolding publish_event_def by (erule update_event_walls) simp_all

lemma unpublish_walls:
  "unpublish_event env i a d = Inr (x, d') \<Longrightarrow> system_inv d \<Longrightarrow> system_inv d'"
  unfolding unpublish_event_def by (erule update_event_walls) simp_all

lemma mark_done_walls:
  "mark_done env i a d = Inr (x, d') \<Longrightarrow> system_inv d \<Longrightarrow> system_inv d'"
  unfolding mark_done_def Let_def by (erule update_event_walls) simp_all

lemmas verb_walls = service_transition_walls sync_walls desk_walls create_booth_walls patch_booth_walls
  delete_booth_walls release_booth_walls create_booking_walls confirm_booking_walls delete_booking_walls
  publish_walls unpublish_walls mark_done_walls

lemma commit_walls:
  assumes "system_inv d"
    and "\<And>x d'. r = Inr (x, d') \<Longrightarrow> system_inv d \<Longrightarrow> system_inv d'"
  shows "system_inv (snd (commit ok d r))"
  using assms by (auto simp: commit_def split: sum.split prod.split)

lemma register_route_walls:
  assumes "system_inv d" and "request_admissible (Officer env actor (Rq_Register body)) (w, d)"
  shows "system_inv (snd (register_registration_route env actor body d))"
proof (cases "parse_register env actor body")
  case (Inl e)
  with assms show ?thesis by (simp add: register_registration_route_def)
next
  case (Inr cmd)
  with assms have "no_stray_slot cmd d" by simp
  from service_register_walls [OF assms(1) this, of "ae_seat env"] Inr show ?thesis
    by (auto simp: register_registration_route_def split: prod.split sum.split)
qed

lemma officer_keeps_walls:
  assumes "system_inv d" and "request_admissible (Officer env actor q) (w, d)"
  shows "system_inv (serve_officer env actor q d)"
proof (cases q)
  case (Rq_Register body)
  then show ?thesis using register_route_walls assms by simp
next
  case (Rq_Mark_Paid body)
  then show ?thesis using assms(1) booth_walls [OF mark_paid_same mark_paid_inv]
    by (simp add: mark_booths_paid_route_def case_prod_beta split: option.split)
qed (use assms(1) in \<open>auto simp: patch_registration_route_def confirm_registration_route_def
      set_draft_registration_route_def set_done_registration_route_def cancel_registration_route_def
      sync_from_partner_registration_route_def desk_register_attendee_route_def patch_booth_route_def
      delete_booth_route_def release_booth_route_def create_booth_route_def create_booth_booking_route_def
      confirm_booth_booking_route_def delete_booth_booking_route_def publish_event_route_def
      unpublish_event_route_def mark_done_event_route_def confirm_reg_def set_draft_def set_done_def
      cancel_reg_def Let_def result_simps split: option.split sum.split intro!: commit_walls elim: verb_walls\<close>)

lemma intake_keeps_walls:
  assumes "system_inv d" and "no_stray_slot (intake_command (iq_event_id q) (iq_payload q)) d"
  shows "system_inv (snd (snd (intake_handler cfg th q fwd sock (w, d))))"
  using service_register_walls [OF assms, of "iq_env q"] assms(1)
  by (auto simp: intake_handler_def intake_def Let_def split: prod.split sum.split)

interpretation requests: verb_invariant serve request_admissible walls
proof unfold_locales
  fix q wd wd' assume step: "serve q wd = Inr wd'" and adm: "request_admissible q wd" and inv: "walls wd"
  obtain w d where wd: "wd = (w, d)" by (cases wd)
  have walls: "system_inv d" using inv by (simp add: walls_def wd)
  show "walls wd'"
  proof (cases q)
    case (Officer env actor u)
    with step officer_keeps_walls [OF walls, of env actor u w] adm show ?thesis by (auto simp: wd walls_def)
  next
    case (Public_Intake cfg th u fwd sock)
    with step intake_keeps_walls [OF walls, of u cfg th fwd sock w] adm show ?thesis by (auto simp: wd walls_def)
  qed
qed


lemma service_register_events: "events (snd (service_register env cmd d)) = events d"
  by (auto simp: service_register_def register_def result_simps split: sum.split dest: register_core_frame)

lemma serve_officer_pair: "serve (Officer env actor q) wd = Inr (fst wd, serve_officer env actor q (snd wd))"
  by (cases wd) simp

lemma intake_events: "events (snd (snd (intake_handler cfg th q fwd sock wd))) = events (snd wd)"
  using service_register_events [of "iq_env q" "intake_command (iq_event_id q) (iq_payload q)" "snd wd"]
  by (auto simp: intake_handler_def intake_def Let_def split: prod.split sum.split)

lemma confirm_booking_route_events:
  "events (snd (confirm_booth_booking_route env actor i d)) = events d"
  by (auto simp: confirm_booth_booking_route_def commit_def seat_tables_same_def
      split: sum.split prod.split dest: confirm_booking_same)

definition ex_public :: public_cfg where
  "ex_public = \<lparr>pc_secret = [], pc_trusted_proxy = False\<rparr>"

abbreviation ex_requests :: "request list" where
  "ex_requests \<equiv> [Officer ex_admin None (Rq_Confirm_Booking 85),
     Public_Intake ex_public default_throttles (ex_intake 3 []) None None,
     Officer ex_admin None (Rq_Confirm_Booking 86),
     Public_Intake ex_public default_throttles (ex_intake 4 []) None None]"


end
