(* ===== verification/EntityBase.thy ===== *)
theory EntityBase
  imports Schema
begin

text \<open>
  What the generated entities and DTOs share: the audit metadata of
  \<open>domain/entity/mod.rs\<close>, the readers behind \<open>serde_json::from_value\<close> that a generic patch
  applies to a field, the table form of a patch with its contract \<open>patchable\<close>, and the page
  arithmetic of the list responses. The parsers of uuid, timestamp and decimal texts belong to
  third-party crates and are parameters (\<open>entity_env\<close>). The derived \<open>Deserialize\<close> of a DTO is
  not modelled: a DTO is the record it yields.
\<close>

section \<open>Audit metadata\<close>

record audit_metadata =
  am_created_at :: "timestamp option"
  am_updated_at :: "timestamp option"
  am_deleted_at :: "timestamp option"
  am_created_by :: "uuid option"
  am_updated_by :: "uuid option"
  am_deleted_by :: "uuid option"

definition metadata_default :: audit_metadata where
  "metadata_default = \<lparr>am_created_at = None, am_updated_at = None, am_deleted_at = None,
     am_created_by = None, am_updated_by = None, am_deleted_by = None\<rparr>"

definition metadata_new :: "timestamp \<Rightarrow> audit_metadata" where
  "metadata_new now = metadata_default\<lparr>am_created_at := Some now\<rparr>"

definition with_creator :: "timestamp \<Rightarrow> uuid \<Rightarrow> audit_metadata" where
  "with_creator now creator = metadata_default\<lparr>am_created_at := Some now, am_created_by := Some creator\<rparr>"

definition touch :: "timestamp \<Rightarrow> audit_metadata \<Rightarrow> audit_metadata" where
  "touch now m = m\<lparr>am_updated_at := Some now\<rparr>"

definition touch_by :: "timestamp \<Rightarrow> uuid \<Rightarrow> audit_metadata \<Rightarrow> audit_metadata" where
  "touch_by now updater m = m\<lparr>am_updated_at := Some now, am_updated_by := Some updater\<rparr>"

definition soft_delete :: "timestamp \<Rightarrow> audit_metadata \<Rightarrow> audit_metadata" where
  "soft_delete now m = m\<lparr>am_deleted_at := Some now\<rparr>"

definition soft_delete_by :: "timestamp \<Rightarrow> uuid \<Rightarrow> audit_metadata \<Rightarrow> audit_metadata" where
  "soft_delete_by now deleter m = m\<lparr>am_deleted_at := Some now, am_deleted_by := Some deleter\<rparr>"

definition restore :: "audit_metadata \<Rightarrow> audit_metadata" where
  "restore m = m\<lparr>am_deleted_at := None, am_deleted_by := None\<rparr>"

definition is_deleted :: "audit_metadata \<Rightarrow> bool" where
  "is_deleted m \<longleftrightarrow> am_deleted_at m \<noteq> None"

definition is_active :: "audit_metadata \<Rightarrow> bool" where
  "is_active m \<longleftrightarrow> am_deleted_at m = None"

text \<open>The calls the generic repository makes on any entity.\<close>

datatype persist_call =
    Set_Entity_Id string
  | Set_Created_At timestamp
  | Set_Updated_At timestamp
  | Set_Deleted_At "timestamp option"

text \<open>\<open>Option::unwrap_or\<close>.\<close>

fun unwrap_or :: "'a \<Rightarrow> 'a option \<Rightarrow> 'a" where
  "unwrap_or d None = d"
| "unwrap_or d (Some x) = x"

section \<open>Reading a JSON value as a field\<close>

text \<open>A decimal is its digits as an integer and its scale.\<close>

type_synonym decimal = "int \<times> nat"

record entity_env =
  en_uuid :: "string \<Rightarrow> uuid option"
  en_time :: "string \<Rightarrow> timestamp option"
  en_decimal :: "json \<Rightarrow> decimal option"

fun value_string :: "json \<Rightarrow> string option" where
  "value_string (JStr s) = Some s"
| "value_string _ = None"

fun value_bool :: "json \<Rightarrow> bool option" where
  "value_bool (JBool b) = Some b"
| "value_bool _ = None"

fun value_i32 :: "json \<Rightarrow> int option" where
  "value_i32 (JNum n) = (if - (2 ^ 31) \<le> n \<and> n < 2 ^ 31 then Some n else None)"
| "value_i32 _ = None"

definition value_uuid :: "entity_env \<Rightarrow> json \<Rightarrow> uuid option" where
  "value_uuid env v = Option.bind (value_string v) (en_uuid env)"

definition value_time :: "entity_env \<Rightarrow> json \<Rightarrow> timestamp option" where
  "value_time env v = Option.bind (value_string v) (en_time env)"

definition value_decimal :: "entity_env \<Rightarrow> json \<Rightarrow> decimal option" where
  "value_decimal env v = en_decimal env v"

definition value_json :: "json \<Rightarrow> json option" where
  "value_json v = Some v"

definition value_option :: "(json \<Rightarrow> 'a option) \<Rightarrow> json \<Rightarrow> 'a option option" where
  "value_option read v = (if v = JNull then Some None else map_option Some (read v))"

text \<open>
  A variant of a fieldless enumeration: its name as a text, or as the only key of an object with
  the value null. The names serde derives are the \<open>Display\<close> texts.
\<close>

fun value_variant :: "('a \<Rightarrow> string) \<Rightarrow> 'a list \<Rightarrow> json \<Rightarrow> 'a option" where
  "value_variant to_str variants (JStr s) = from_label to_str variants s"
| "value_variant to_str variants (JObj [(s, JNull)]) = from_label to_str variants s"
| "value_variant _ _ _ = None"

section \<open>A generic patch\<close>

text \<open>
  One arm of \<open>apply_patch\<close>: the value is read at the field's type and written when it reads.
\<close>

definition patch_with ::
    "(json \<Rightarrow> 'a option) \<Rightarrow> (('a \<Rightarrow> 'a) \<Rightarrow> 'e \<Rightarrow> 'e) \<Rightarrow> json \<Rightarrow> 'e \<Rightarrow> 'e" where
  "patch_with read upd v e = (case read v of Some x \<Rightarrow> upd (\<lambda>_. x) e | None \<Rightarrow> e)"

type_synonym 'e patch_arms = "(string \<times> (json \<Rightarrow> 'e \<Rightarrow> 'e)) list"

text \<open>The match on the key; an unknown key is ignored.\<close>

definition patch_field :: "'e patch_arms \<Rightarrow> string \<times> json \<Rightarrow> 'e \<Rightarrow> 'e" where
  "patch_field arms kv e = (case map_of arms (fst kv) of Some f \<Rightarrow> f (snd kv) e | None \<Rightarrow> e)"

text \<open>The loop over the fields, in the order the map yields them.\<close>

definition patch_fields :: "'e patch_arms \<Rightarrow> (string \<times> json) list \<Rightarrow> 'e \<Rightarrow> 'e" where
  "patch_fields arms kvs e = fold (patch_field arms) kvs e"

definition commutes :: "(string \<times> (json \<Rightarrow> 'e \<Rightarrow> 'e)) \<Rightarrow> (string \<times> (json \<Rightarrow> 'e \<Rightarrow> 'e)) \<Rightarrow> bool" where
  "commutes f g \<longleftrightarrow> (\<forall>v w e. snd f v (snd g w e) = snd g w (snd f v e))"

lemma commutes_patch_with [simp]:
  "(\<And>p q e. upd p (upd' q e) = upd' q (upd p e)) \<Longrightarrow>
   commutes (k, patch_with read upd) (k', patch_with read' upd')"
  by (simp add: commutes_def patch_with_def split: option.split)

locale patchable =
  fixes arms :: "'e patch_arms" and frame :: "'e \<Rightarrow> 'f"
  assumes commute: "sorted_wrt commutes arms"
    and framed: "list_all (\<lambda>a. \<forall>v e. frame (snd a v e) = frame e) arms"
begin

lemma field_commutes:
  assumes "fst kv \<noteq> fst kv'"
  shows "patch_field arms kv (patch_field arms kv' e) = patch_field arms kv' (patch_field arms kv e)"
proof (cases "map_of arms (fst kv) = None \<or> map_of arms (fst kv') = None")
  case True
  then show ?thesis by (auto simp: patch_field_def split: option.split)
next
  case False
  then obtain f g where f: "map_of arms (fst kv) = Some f" and g: "map_of arms (fst kv') = Some g" by auto
  then obtain i j where i: "i < length arms" "arms ! i = (fst kv, f)" and j: "j < length arms" "arms ! j = (fst kv', g)"
    by (meson in_set_conv_nth map_of_SomeD)
  have "i \<noteq> j"
  proof
    assume "i = j"
    with i(2) j(2) have "(fst kv, f) = (fst kv', g)" by simp
    with assms show False by simp
  qed
  then have "commutes (arms ! i) (arms ! j) \<or> commutes (arms ! j) (arms ! i)"
    using sorted_wrt_nth_less [OF commute] i(1) j(1) by (cases i j rule: linorder_cases) auto
  then have "f (snd kv) (g (snd kv') e) = g (snd kv') (f (snd kv) e)"
    unfolding commutes_def i(2) j(2) snd_conv by metis
  then show ?thesis by (simp add: patch_field_def f g)
qed

text \<open>The order in which the map yields the fields does not matter.\<close>

lemma order_free:
  assumes "distinct (map fst kvs)" and "distinct (map fst kvs')" and "set kvs = set kvs'"
  shows "patch_fields arms kvs e = patch_fields arms kvs' e"
proof -
  have "patch_field arms x \<circ> patch_field arms y = patch_field arms y \<circ> patch_field arms x"
    if "x \<in> set kvs" "y \<in> set kvs" for x y
  proof (cases "x = y")
    case False
    then have "fst x \<noteq> fst y" using assms(1) that by (metis distinct_map inj_on_eq_iff)
    then show ?thesis using field_commutes by (auto simp: fun_eq_iff)
  qed simp
  then have "comp_fun_commute_on (set kvs) (patch_field arms)" by (simp add: comp_fun_commute_on_def)
  note folded = comp_fun_commute_on.fold_set_fold_remdups [OF this]
  have "distinct kvs" "distinct kvs'" using assms(1,2) by (simp_all add: distinct_map)
  then show ?thesis
    using folded [of kvs e] folded [of kvs' e] assms(3) by (simp add: patch_fields_def distinct_remdups_id)
qed

lemma keeps_frame: "frame (patch_fields arms kvs e) = frame e"
proof -
  have "frame (patch_field arms kv e) = frame e" for kv e
    using framed by (auto simp: patch_field_def list_all_iff split: option.split dest!: map_of_SomeD)
  then show ?thesis
    unfolding patch_fields_def by (induction kvs arbitrary: e) simp_all
qed

lemma unknown_keys: "set (map fst kvs) \<inter> set (map fst arms) = {} \<Longrightarrow> patch_fields arms kvs e = e"
proof (induction kvs arbitrary: e)
  case (Cons kv kvs)
  then have "map_of arms (fst kv) = None" by (auto simp: map_of_eq_None_iff)
  with Cons show ?case by (auto simp: patch_fields_def patch_field_def)
qed (simp add: patch_fields_def)

end

lemma frame_patch_with [simp]:
  "(\<And>p e. frame (upd p e) = frame e) \<Longrightarrow> frame (patch_with read upd v e) = frame e"
  by (simp add: patch_with_def split: option.split)

end
