(* ===== verification/Pages.thy ===== *)
theory Pages
  imports Prelude Complex_Main "HOL-Library.Log_Nat" "HOL-Library.Word"
begin

text \<open>
  The page count of every list response, \<open>((rows as f64) / (per_page as f64)).ceil() as u32\<close>:
  double precision written out on rationals. The values met are zero or between \<open>2 ^ - 32\<close> and
  \<open>2 ^ 64\<close>, so neither subnormal numbers nor overflow arise.
\<close>

text \<open>Round to the nearest integer, ties to even.\<close>

definition round_even :: "rat \<Rightarrow> int" where
  "round_even m =
     (let q = \<lfloor>m\<rfloor>; r = m - of_int q in
      if r < 1 / 2 then q else if r > 1 / 2 then q + 1 else if even q then q else q + 1)"

text \<open>Round to 53 significant bits; \<open>b\<close> is 32 more than the exponent.\<close>

definition f64_round :: "rat \<Rightarrow> rat" where
  "f64_round x =
     (if x = 0 then 0
      else let b = floorlog 2 (nat \<lfloor>x * 2 ^ 32\<rfloor>) - 1 in
        if b \<le> 84 then of_int (round_even (x * 2 ^ (84 - b))) / 2 ^ (84 - b)
        else of_int (round_even (x / 2 ^ (b - 84))) * 2 ^ (b - 84))"

text \<open>\<open>as u32\<close> of a double saturates.\<close>

definition page_count :: "nat \<Rightarrow> nat \<Rightarrow> nat" where
  "page_count rows per_page =
     (if per_page > 0
      then min (2 ^ 32 - 1) (nat \<lceil>f64_round (f64_round (of_nat rows) / of_nat per_page)\<rceil>)
      else 0)"

text \<open>
  The page a list request asks for; \<open>offset\<close> multiplies at 32 bits, as the release profile
  wraps, and widens the product.
\<close>

record page_params =
  pp_page :: "32 word"
  pp_per_page :: "32 word"

definition page_offset :: "page_params \<Rightarrow> 64 word" where
  "page_offset params =
     ucast ((if pp_page params = 0 then 0 else pp_page params - 1) * pp_per_page params)"

record 'a page =
  pg_items :: "'a list"
  pg_total :: nat
  pg_page :: nat
  pg_per_page :: nat
  pg_total_pages :: nat
  pg_has_next :: bool
  pg_has_prev :: bool

definition new_page :: "'a list \<Rightarrow> nat \<Rightarrow> nat \<Rightarrow> nat \<Rightarrow> 'a page" where
  "new_page items rows p per_page =
     (let total_pages = page_count rows per_page in
      \<lparr>pg_items = items, pg_total = rows, pg_page = p, pg_per_page = per_page,
       pg_total_pages = total_pages, pg_has_next = (p < total_pages), pg_has_prev = (p > 1)\<rparr>)"

section \<open>Below 2 to the 53 rows the count is exact\<close>

lemma round_even_le: "m \<le> of_int j \<Longrightarrow> round_even m \<le> j"
proof -
  assume le: "m \<le> of_int j"
  show ?thesis
  proof (cases "m = of_int j")
    case False
    then have "\<lfloor>m\<rfloor> < j" using le by (simp add: floor_less_iff)
    then show ?thesis by (auto simp: round_even_def Let_def)
  qed (simp add: round_even_def)
qed

lemma round_even_gt:
  assumes "of_int j + 1 / 2 < m"
  shows "j < round_even m"
proof (cases "\<lfloor>m\<rfloor> = j")
  case True
  then have "1 / 2 < m - of_int \<lfloor>m\<rfloor>" using assms by simp
  then show ?thesis using True by (simp add: round_even_def Let_def)
next
  case False
  have "of_int j \<le> m" using assms by linarith
  then have "j \<le> \<lfloor>m\<rfloor>" by (simp add: le_floor_iff)
  then show ?thesis using False by (auto simp: round_even_def Let_def)
qed

lemma f64_round_small:
  "x \<noteq> 0 \<Longrightarrow> b = floorlog 2 (nat \<lfloor>x * 2 ^ 32\<rfloor>) - 1 \<Longrightarrow> b \<le> 84 \<Longrightarrow>
   f64_round x = of_int (round_even (x * 2 ^ (84 - b))) / 2 ^ (84 - b)"
  by (simp add: f64_round_def Let_def)

lemma f64_round_ceiling:
  assumes n: "0 < n" "n < 2 ^ 53" and d: "0 < d" "d < 2 ^ 32"
  shows "\<lceil>f64_round (of_nat n / of_nat d)\<rceil> = \<lceil>(of_nat n / of_nat d :: rat)\<rceil>"
proof -
  define x :: rat where "x = of_nat n / of_nat d"
  define c where "c = nat \<lfloor>x * 2 ^ 32\<rfloor>"
  define b where "b = floorlog 2 c - 1"
  define k where "k = 84 - b"
  define z where "z = \<lceil>x\<rceil>"
  have pos: "0 < x" using n d by (simp add: x_def)
  have xd: "x * of_nat d = of_nat n" using d by (simp add: x_def)
  have "of_nat d \<le> (of_nat n * 2 ^ 32 :: rat)"
  proof -
    have "d \<le> n * 2 ^ 32" using n(1) d(2) by (cases n) auto
    then have "(of_nat d :: rat) \<le> of_nat (n * 2 ^ 32)" by (rule of_nat_mono)
    then show ?thesis by simp
  qed
  then have "1 \<le> x * 2 ^ 32" using d(1) by (simp add: x_def field_simps)
  then have c0: "0 < c" by (simp add: c_def le_floor_iff zero_less_nat_eq)
  have "2 ^ b \<le> c" using floorlog_bounds [of c 2] c0 by (simp add: b_def)
  then have "(2 :: rat) ^ b \<le> of_nat c" using of_nat_mono [of "2 ^ b" c, where 'a = rat] by simp
  also have "of_nat c \<le> x * 2 ^ 32" using pos by (simp add: c_def of_nat_nat)
  finally have bx: "2 ^ b \<le> x * 2 ^ 32" .
  have "2 ^ b * of_nat d \<le> x * 2 ^ 32 * of_nat d" using bx d(1) by (intro mult_right_mono) simp_all
  also have "\<dots> = of_nat n * 2 ^ 32" using xd by (simp add: mult.commute mult.left_commute)
  finally have "(of_nat (2 ^ b * d) :: rat) \<le> of_nat (n * 2 ^ 32)" by simp
  then have "2 ^ b * d \<le> n * 2 ^ 32" unfolding of_nat_le_iff .
  also have "n * 2 ^ 32 < 2 ^ 53 * 2 ^ 32" using n(2) by simp
  finally have bd: "2 ^ b * d < 2 ^ 85" by (simp flip: power_add)
  have "2 ^ b \<le> 2 ^ b * d" using d(1) by simp
  then have "2 ^ b < (2 :: nat) ^ 85" using bd by linarith
  then have b: "b \<le> 84" by (subst (asm) power_strict_increasing_iff) auto
  have "2 ^ 85 = 2 ^ b * (2 :: nat) ^ (k + 1)" using b by (simp add: k_def flip: power_add)
  with bd have "2 ^ b * d < 2 ^ b * 2 ^ (k + 1)" by metis
  then have dk: "d < 2 ^ (k + 1)" by (simp only: mult_less_cancel1)
  have gap: "of_int (z - 1) + 1 / of_nat d \<le> x"
  proof -
    have "of_int (z - 1) < x" unfolding z_def by linarith
    then have "of_int (z - 1) * of_nat d < (of_nat n :: rat)" using d(1) xd by (metis mult_strict_right_mono of_nat_0_less_iff)
    then have "(of_int ((z - 1) * int d) :: rat) < of_int (int n)" by simp
    then have "(z - 1) * int d + 1 \<le> int n" unfolding of_int_less_iff by linarith
    then have "(of_int ((z - 1) * int d + 1) :: rat) \<le> of_int (int n)" unfolding of_int_le_iff .
    then have "of_int (z - 1) * of_nat d + 1 \<le> (of_nat n :: rat)" by simp
    then have "(of_int (z - 1) * of_nat d + 1) / of_nat d \<le> x" unfolding x_def by (rule divide_right_mono) simp
    then show ?thesis using d(1) by (simp add: add_divide_distrib)
  qed
  define j where "j = (z - 1) * 2 ^ k"
  have "1 / 2 < (2 ^ k / of_nat d :: rat)"
  proof -
    have "(of_nat d :: rat) < of_nat (2 ^ (k + 1))" using dk unfolding of_nat_less_iff .
    then show ?thesis using d(1) by (simp add: field_simps)
  qed
  also have "2 ^ k / of_nat d \<le> x * 2 ^ k - of_int j"
  proof -
    have "(of_int (z - 1) + 1 / of_nat d) * 2 ^ k \<le> x * 2 ^ k" using gap by (intro mult_right_mono) simp_all
    then show ?thesis by (simp add: j_def algebra_simps)
  qed
  finally have "j < round_even (x * 2 ^ k)" by (intro round_even_gt) simp
  moreover have "round_even (x * 2 ^ k) \<le> z * 2 ^ k"
  proof (rule round_even_le)
    have "x \<le> of_int z" by (simp add: z_def)
    then have "x * 2 ^ k \<le> of_int z * 2 ^ k" by (intro mult_right_mono) simp_all
    then show "x * 2 ^ k \<le> of_int (z * 2 ^ k)" by simp
  qed
  ultimately have "of_int (z - 1) * 2 ^ k < (of_int (round_even (x * 2 ^ k)) :: rat)"
      "of_int (round_even (x * 2 ^ k)) \<le> (of_int z * 2 ^ k :: rat)"
    using of_int_less_iff [of j "round_even (x * 2 ^ k)", where 'a = rat]
      of_int_le_iff [of "round_even (x * 2 ^ k)" "z * 2 ^ k", where 'a = rat] by (simp_all add: j_def)
  then have "\<lceil>of_int (round_even (x * 2 ^ k)) / (2 ^ k :: rat)\<rceil> = z"
    by (intro ceiling_unique) (simp_all add: field_simps)
  moreover have "f64_round x = of_int (round_even (x * 2 ^ k)) / 2 ^ k"
    using f64_round_small [OF _ b_def [unfolded c_def] b] pos by (simp add: k_def)
  ultimately show ?thesis by (simp add: z_def flip: x_def)
qed

lemma f64_round_nat:
  assumes "n < 2 ^ 53"
  shows "f64_round (of_nat n) = of_nat n"
proof (cases "n = 0")
  case False
  define b where "b = floorlog 2 (nat \<lfloor>(of_nat n * 2 ^ 32 :: rat)\<rfloor>) - 1"
  have c: "nat \<lfloor>(of_nat n * 2 ^ 32 :: rat)\<rfloor> = n * 2 ^ 32"
    using floor_of_int [of "int (n * 2 ^ 32)", where 'a = rat] by (metis nat_int of_int_of_nat_eq of_nat_mult of_nat_numeral of_nat_power)
  have "2 ^ b \<le> n * 2 ^ 32" unfolding b_def c using floorlog_bounds [of "n * 2 ^ 32" 2] False by simp
  also have "n * 2 ^ 32 < 2 ^ 53 * 2 ^ 32" using assms by simp
  finally have "(2 :: nat) ^ b < 2 ^ 85" by (simp flip: power_add)
  then have "b \<le> 84" by (subst (asm) power_strict_increasing_iff) auto
  moreover have "round_even (of_nat n * 2 ^ k) = int n * 2 ^ k" for k
  proof -
    have "(of_nat n * 2 ^ k :: rat) = of_int (int n * 2 ^ k)" by simp
    then have "\<lfloor>(of_nat n * 2 ^ k :: rat)\<rfloor> = int n * 2 ^ k" by (simp only: floor_of_int)
    then show ?thesis unfolding round_even_def by (simp add: Let_def)
  qed
  ultimately show ?thesis using f64_round_small [OF _ b_def] False by simp
qed (simp add: f64_round_def)

lemma page_count_exact:
  assumes "rows < 2 ^ 53" and "0 < per_page" and "per_page < 2 ^ 32"
  shows "page_count rows per_page = min (2 ^ 32 - 1) (nat \<lceil>(of_nat rows / of_nat per_page :: rat)\<rceil>)"
proof (cases "rows = 0")
  case False
  then show ?thesis
    using assms f64_round_ceiling [of rows per_page] by (simp add: page_count_def f64_round_nat)
qed (use assms in \<open>simp add: page_count_def f64_round_def\<close>)

text \<open>The least number of pages that hold every row.\<close>

lemma page_count_le_iff:
  assumes "rows < 2 ^ 53" and "0 < per_page" and "per_page < 2 ^ 32" and "p < 2 ^ 32 - 1"
  shows "page_count rows per_page \<le> p \<longleftrightarrow> rows \<le> p * per_page"
proof -
  have "page_count rows per_page \<le> p \<longleftrightarrow> \<lceil>(of_nat rows / of_nat per_page :: rat)\<rceil> \<le> int p"
    using assms(4) by (auto simp: page_count_exact [OF assms(1-3)] nat_le_iff)
  also have "\<dots> \<longleftrightarrow> (of_nat rows / of_nat per_page :: rat) \<le> of_nat p" by (simp add: ceiling_le_iff)
  also have "\<dots> \<longleftrightarrow> (of_nat rows :: rat) \<le> of_nat (p * per_page)"
    using assms(2) by (simp add: field_simps)
  also have "\<dots> \<longleftrightarrow> rows \<le> p * per_page" by (rule of_nat_le_iff)
  finally show ?thesis .
qed

end
