(* ===== verification/RowRules.thy ===== *)
theory RowRules
  imports EntityBase
begin

text \<open>
  The write guards of the generic services, \<open>application/service/*_service.rs\<close> and the two
  \<open>*_row_rules.rs\<close>: the rules the schema declares, checked against the row a create or an update
  would store. The expressions of a rule are built with the operators of a third-party crate
  (\<open>backbone_core::row_rule\<close>), which are parameters (\<open>rule_ops\<close>), as is the derived
  serialisation of the row.
\<close>

record 'v rule_ops =
  ro_field :: "json \<Rightarrow> string \<Rightarrow> 'v"
  ro_changed :: "json option \<Rightarrow> json \<Rightarrow> string list \<Rightarrow> bool"
  ro_holds :: "'v \<Rightarrow> bool"
  ro_num :: "int \<Rightarrow> 'v"
  ro_and :: "'v \<Rightarrow> 'v \<Rightarrow> 'v"
  ro_not :: "'v \<Rightarrow> 'v"
  ro_is_not_null :: "'v \<Rightarrow> 'v"
  ro_is_empty :: "'v \<Rightarrow> 'v"
  ro_trim :: "'v \<Rightarrow> 'v"
  ro_length :: "'v \<Rightarrow> 'v"
  ro_le :: "'v \<Rightarrow> 'v \<Rightarrow> 'v"
  ro_ge :: "'v \<Rightarrow> 'v \<Rightarrow> 'v"
  ro_matches :: "'v \<Rightarrow> string \<Rightarrow> 'v"

datatype violation =
  violation (vi_field: string) (vi_code: string) (vi_message: string) (vi_params: "(string \<times> json) list")

datatype write_kind = Write_Create | Write_Update | Write_Other string

record 'e write_ctx =
  wc_kind :: write_kind
  wc_before :: "'e option"
  wc_after :: "'e option"
  wc_transition :: "string option"

record guard_outcome =
  go_refuse :: "violation list"
  go_shadow :: "violation list"

definition allow_write :: guard_outcome where
  "allow_write = \<lparr>go_refuse = [], go_shadow = []\<rparr>"

text \<open>A rule: the field it watches, the expression that has to hold, and the violation it pushes.\<close>

datatype 'v row_rule = row_rule (rr_field: string) (rr_expr: 'v) (rr_violation: violation)

text \<open>
  The body every guard has. A state field is refused when an update changes it outside a verb; a
  rule is refused when a create, or an update of its field, stores a row it does not hold on.
\<close>

definition check_rules ::
    "'v rule_ops \<Rightarrow> ('e \<Rightarrow> json option) \<Rightarrow> (string \<times> violation) list \<Rightarrow> (json \<Rightarrow> 'v row_rule list) \<Rightarrow>
       'e write_ctx \<Rightarrow> guard_outcome" where
  "check_rules ops to_value state_fields rules ctx =
     (let create = (wc_kind ctx = Write_Create); update = (wc_kind ctx = Write_Update) in
      case (if create \<or> update then wc_after ctx else None) of
        None \<Rightarrow> allow_write
      | Some after \<Rightarrow>
          (case to_value after of
             None \<Rightarrow> allow_write
           | Some row \<Rightarrow>
               (let old = Option.bind (wc_before ctx) to_value in
                \<lparr>go_refuse =
                   map snd (filter (\<lambda>(f, _). update \<and> wc_transition ctx = None \<and> ro_changed ops old row [f])
                     state_fields) @
                   map rr_violation (filter (\<lambda>r. (create \<or> update \<and> ro_changed ops old row [rr_field r]) \<and>
                     \<not> ro_holds ops (rr_expr r)) (rules row)),
                 go_shadow = []\<rparr>)))"

section \<open>\<open>BoothCategory\<close>\<close>

definition booth_category_rules :: "'v rule_ops \<Rightarrow> json \<Rightarrow> 'v row_rule list" where
  "booth_category_rules ops row =
     [row_rule ''name''
         (ro_and ops (ro_is_not_null ops (ro_field ops row ''name'')) (ro_not ops (ro_is_empty ops (ro_trim ops (ro_field ops row ''name'')))))
         (violation ''name'' ''required'' ''name is required'' []),
      row_rule ''name''
         (ro_le ops (ro_length ops (ro_field ops row ''name'')) (ro_num ops 120))
         (violation ''name'' ''max_length'' ''name must be at most 120 characters'' [(''max'', JNum 120)]),
      row_rule ''description''
         (ro_le ops (ro_length ops (ro_field ops row ''description'')) (ro_num ops 20000))
         (violation ''description'' ''max_length'' ''description must be at most 20000 characters'' [(''max'', JNum 20000)])]"

definition booth_category_row_rules ::
    "'v rule_ops \<Rightarrow> ('e \<Rightarrow> json option) \<Rightarrow> 'e write_ctx \<Rightarrow> guard_outcome" where
  "booth_category_row_rules ops to_value =
     check_rules ops to_value [] (booth_category_rules ops)"

section \<open>\<open>Booth\<close>\<close>

definition booth_rules :: "'v rule_ops \<Rightarrow> json \<Rightarrow> 'v row_rule list" where
  "booth_rules ops row =
     [row_rule ''event_id''
         (ro_and ops (ro_is_not_null ops (ro_field ops row ''event_id'')) (ro_not ops (ro_is_empty ops (ro_trim ops (ro_field ops row ''event_id'')))))
         (violation ''event_id'' ''required'' ''event_id is required'' []),
      row_rule ''booth_category_id''
         (ro_and ops (ro_is_not_null ops (ro_field ops row ''booth_category_id'')) (ro_not ops (ro_is_empty ops (ro_trim ops (ro_field ops row ''booth_category_id'')))))
         (violation ''booth_category_id'' ''required'' ''booth_category_id is required'' []),
      row_rule ''name''
         (ro_and ops (ro_is_not_null ops (ro_field ops row ''name'')) (ro_not ops (ro_is_empty ops (ro_trim ops (ro_field ops row ''name'')))))
         (violation ''name'' ''required'' ''name is required'' []),
      row_rule ''name''
         (ro_le ops (ro_length ops (ro_field ops row ''name'')) (ro_num ops 200))
         (violation ''name'' ''max_length'' ''name must be at most 200 characters'' [(''max'', JNum 200)]),
      row_rule ''contact_name''
         (ro_le ops (ro_length ops (ro_field ops row ''contact_name'')) (ro_num ops 200))
         (violation ''contact_name'' ''max_length'' ''contact_name must be at most 200 characters'' [(''max'', JNum 200)]),
      row_rule ''contact_email''
         (ro_le ops (ro_length ops (ro_field ops row ''contact_email'')) (ro_num ops 254))
         (violation ''contact_email'' ''max_length'' ''contact_email must be at most 254 characters'' [(''max'', JNum 254)]),
      row_rule ''contact_email''
         (ro_matches ops (ro_field ops row ''contact_email'') (''^[^@'' @ [CHR 0x5C] @ ''s]+@[^@'' @ [CHR 0x5C] @ ''s]+'' @ [CHR 0x5C] @ ''.[^@'' @ [CHR 0x5C] @ ''s]+$''))
         (violation ''contact_email'' ''email'' ''contact_email must be an email address'' []),
      row_rule ''contact_phone''
         (ro_le ops (ro_length ops (ro_field ops row ''contact_phone'')) (ro_num ops 40))
         (violation ''contact_phone'' ''max_length'' ''contact_phone must be at most 40 characters'' [(''max'', JNum 40)])]"

definition booth_row_rules ::
    "'v rule_ops \<Rightarrow> ('e \<Rightarrow> json option) \<Rightarrow> 'e write_ctx \<Rightarrow> guard_outcome" where
  "booth_row_rules ops to_value =
     check_rules ops to_value [(''state'', violation ''state'' ''state_field_verbs_only'' ''the state field moves only through its verbs'' [])] (booth_rules ops)"

section \<open>\<open>TypeBooth\<close>\<close>

definition type_booth_rules :: "'v rule_ops \<Rightarrow> json \<Rightarrow> 'v row_rule list" where
  "type_booth_rules ops row =
     [row_rule ''event_type_id''
         (ro_and ops (ro_is_not_null ops (ro_field ops row ''event_type_id'')) (ro_not ops (ro_is_empty ops (ro_trim ops (ro_field ops row ''event_type_id'')))))
         (violation ''event_type_id'' ''required'' ''event_type_id is required'' []),
      row_rule ''booth_category_id''
         (ro_and ops (ro_is_not_null ops (ro_field ops row ''booth_category_id'')) (ro_not ops (ro_is_empty ops (ro_trim ops (ro_field ops row ''booth_category_id'')))))
         (violation ''booth_category_id'' ''required'' ''booth_category_id is required'' []),
      row_rule ''name''
         (ro_and ops (ro_is_not_null ops (ro_field ops row ''name'')) (ro_not ops (ro_is_empty ops (ro_trim ops (ro_field ops row ''name'')))))
         (violation ''name'' ''required'' ''name is required'' []),
      row_rule ''name''
         (ro_le ops (ro_length ops (ro_field ops row ''name'')) (ro_num ops 200))
         (violation ''name'' ''max_length'' ''name must be at most 200 characters'' [(''max'', JNum 200)])]"

definition type_booth_row_rules ::
    "'v rule_ops \<Rightarrow> ('e \<Rightarrow> json option) \<Rightarrow> 'e write_ctx \<Rightarrow> guard_outcome" where
  "type_booth_row_rules ops to_value =
     check_rules ops to_value [] (type_booth_rules ops)"

section \<open>\<open>BoothBooking\<close>\<close>

definition booth_booking_rules :: "'v rule_ops \<Rightarrow> json \<Rightarrow> 'v row_rule list" where
  "booth_booking_rules ops row =
     [row_rule ''event_booth_id''
         (ro_and ops (ro_is_not_null ops (ro_field ops row ''event_booth_id'')) (ro_not ops (ro_is_empty ops (ro_trim ops (ro_field ops row ''event_booth_id'')))))
         (violation ''event_booth_id'' ''required'' ''event_booth_id is required'' []),
      row_rule ''contact_name''
         (ro_le ops (ro_length ops (ro_field ops row ''contact_name'')) (ro_num ops 200))
         (violation ''contact_name'' ''max_length'' ''contact_name must be at most 200 characters'' [(''max'', JNum 200)]),
      row_rule ''contact_email''
         (ro_le ops (ro_length ops (ro_field ops row ''contact_email'')) (ro_num ops 254))
         (violation ''contact_email'' ''max_length'' ''contact_email must be at most 254 characters'' [(''max'', JNum 254)]),
      row_rule ''contact_email''
         (ro_matches ops (ro_field ops row ''contact_email'') (''^[^@'' @ [CHR 0x5C] @ ''s]+@[^@'' @ [CHR 0x5C] @ ''s]+'' @ [CHR 0x5C] @ ''.[^@'' @ [CHR 0x5C] @ ''s]+$''))
         (violation ''contact_email'' ''email'' ''contact_email must be an email address'' []),
      row_rule ''contact_phone''
         (ro_le ops (ro_length ops (ro_field ops row ''contact_phone'')) (ro_num ops 40))
         (violation ''contact_phone'' ''max_length'' ''contact_phone must be at most 40 characters'' [(''max'', JNum 40)])]"

definition booth_booking_row_rules ::
    "'v rule_ops \<Rightarrow> ('e \<Rightarrow> json option) \<Rightarrow> 'e write_ctx \<Rightarrow> guard_outcome" where
  "booth_booking_row_rules ops to_value =
     check_rules ops to_value [] (booth_booking_rules ops)"

section \<open>\<open>Event\<close>\<close>

definition event_rules :: "'v rule_ops \<Rightarrow> json \<Rightarrow> 'v row_rule list" where
  "event_rules ops row =
     [row_rule ''name''
         (ro_and ops (ro_is_not_null ops (ro_field ops row ''name'')) (ro_not ops (ro_is_empty ops (ro_trim ops (ro_field ops row ''name'')))))
         (violation ''name'' ''required'' ''name is required'' []),
      row_rule ''name''
         (ro_le ops (ro_length ops (ro_field ops row ''name'')) (ro_num ops 200))
         (violation ''name'' ''max_length'' ''name must be at most 200 characters'' [(''max'', JNum 200)]),
      row_rule ''stage_id''
         (ro_and ops (ro_is_not_null ops (ro_field ops row ''stage_id'')) (ro_not ops (ro_is_empty ops (ro_trim ops (ro_field ops row ''stage_id'')))))
         (violation ''stage_id'' ''required'' ''stage_id is required'' []),
      row_rule ''date_tz''
         (ro_and ops (ro_is_not_null ops (ro_field ops row ''date_tz'')) (ro_not ops (ro_is_empty ops (ro_trim ops (ro_field ops row ''date_tz'')))))
         (violation ''date_tz'' ''required'' ''date_tz is required'' []),
      row_rule ''date_tz''
         (ro_le ops (ro_length ops (ro_field ops row ''date_tz'')) (ro_num ops 60))
         (violation ''date_tz'' ''max_length'' ''date_tz must be at most 60 characters'' [(''max'', JNum 60)]),
      row_rule ''event_slot_count''
         (ro_and ops (ro_ge ops (ro_field ops row ''event_slot_count'') (ro_num ops 1)) (ro_le ops (ro_field ops row ''event_slot_count'') (ro_num ops 100)))
         (violation ''event_slot_count'' ''range'' ''event_slot_count must be between 1 and 100'' [(''min'', JNum 1), (''max'', JNum 100)]),
      row_rule ''seats_max''
         (ro_ge ops (ro_field ops row ''seats_max'') (ro_num ops 0))
         (violation ''seats_max'' ''non_negative'' ''seats_max must not be negative'' []),
      row_rule ''event_url''
         (ro_matches ops (ro_field ops row ''event_url'') (''^[a-zA-Z][a-zA-Z0-9+.-]*://'' @ [CHR 0x5C] @ ''S+$''))
         (violation ''event_url'' ''url'' ''event_url must be an absolute URL'' [])]"

definition event_row_rules ::
    "'v rule_ops \<Rightarrow> ('e \<Rightarrow> json option) \<Rightarrow> 'e write_ctx \<Rightarrow> guard_outcome" where
  "event_row_rules ops to_value =
     check_rules ops to_value [] (event_rules ops)"

section \<open>\<open>EventType\<close>\<close>

definition event_type_rules :: "'v rule_ops \<Rightarrow> json \<Rightarrow> 'v row_rule list" where
  "event_type_rules ops row =
     [row_rule ''name''
         (ro_and ops (ro_is_not_null ops (ro_field ops row ''name'')) (ro_not ops (ro_is_empty ops (ro_trim ops (ro_field ops row ''name'')))))
         (violation ''name'' ''required'' ''name is required'' []),
      row_rule ''name''
         (ro_le ops (ro_length ops (ro_field ops row ''name'')) (ro_num ops 120))
         (violation ''name'' ''max_length'' ''name must be at most 120 characters'' [(''max'', JNum 120)]),
      row_rule ''description''
         (ro_le ops (ro_length ops (ro_field ops row ''description'')) (ro_num ops 2000))
         (violation ''description'' ''max_length'' ''description must be at most 2000 characters'' [(''max'', JNum 2000)]),
      row_rule ''seats_max''
         (ro_ge ops (ro_field ops row ''seats_max'') (ro_num ops 0))
         (violation ''seats_max'' ''non_negative'' ''seats_max must not be negative'' []),
      row_rule ''default_date_tz''
         (ro_and ops (ro_is_not_null ops (ro_field ops row ''default_date_tz'')) (ro_not ops (ro_is_empty ops (ro_trim ops (ro_field ops row ''default_date_tz'')))))
         (violation ''default_date_tz'' ''required'' ''default_date_tz is required'' []),
      row_rule ''default_date_tz''
         (ro_le ops (ro_length ops (ro_field ops row ''default_date_tz'')) (ro_num ops 60))
         (violation ''default_date_tz'' ''max_length'' ''default_date_tz must be at most 60 characters'' [(''max'', JNum 60)])]"

definition event_type_row_rules ::
    "'v rule_ops \<Rightarrow> ('e \<Rightarrow> json option) \<Rightarrow> 'e write_ctx \<Rightarrow> guard_outcome" where
  "event_type_row_rules ops to_value =
     check_rules ops to_value [] (event_type_rules ops)"

section \<open>\<open>Stage\<close>\<close>

definition stage_rules :: "'v rule_ops \<Rightarrow> json \<Rightarrow> 'v row_rule list" where
  "stage_rules ops row =
     [row_rule ''name''
         (ro_and ops (ro_is_not_null ops (ro_field ops row ''name'')) (ro_not ops (ro_is_empty ops (ro_trim ops (ro_field ops row ''name'')))))
         (violation ''name'' ''required'' ''name is required'' []),
      row_rule ''name''
         (ro_le ops (ro_length ops (ro_field ops row ''name'')) (ro_num ops 120))
         (violation ''name'' ''max_length'' ''name must be at most 120 characters'' [(''max'', JNum 120)]),
      row_rule ''sequence''
         (ro_ge ops (ro_field ops row ''sequence'') (ro_num ops 0))
         (violation ''sequence'' ''non_negative'' ''sequence must not be negative'' [])]"

definition stage_row_rules ::
    "'v rule_ops \<Rightarrow> ('e \<Rightarrow> json option) \<Rightarrow> 'e write_ctx \<Rightarrow> guard_outcome" where
  "stage_row_rules ops to_value =
     check_rules ops to_value [] (stage_rules ops)"

section \<open>\<open>TagCategory\<close>\<close>

definition tag_category_rules :: "'v rule_ops \<Rightarrow> json \<Rightarrow> 'v row_rule list" where
  "tag_category_rules ops row =
     [row_rule ''name''
         (ro_and ops (ro_is_not_null ops (ro_field ops row ''name'')) (ro_not ops (ro_is_empty ops (ro_trim ops (ro_field ops row ''name'')))))
         (violation ''name'' ''required'' ''name is required'' []),
      row_rule ''name''
         (ro_le ops (ro_length ops (ro_field ops row ''name'')) (ro_num ops 120))
         (violation ''name'' ''max_length'' ''name must be at most 120 characters'' [(''max'', JNum 120)])]"

definition tag_category_row_rules ::
    "'v rule_ops \<Rightarrow> ('e \<Rightarrow> json option) \<Rightarrow> 'e write_ctx \<Rightarrow> guard_outcome" where
  "tag_category_row_rules ops to_value =
     check_rules ops to_value [] (tag_category_rules ops)"

section \<open>\<open>Tag\<close>\<close>

definition tag_rules :: "'v rule_ops \<Rightarrow> json \<Rightarrow> 'v row_rule list" where
  "tag_rules ops row =
     [row_rule ''name''
         (ro_and ops (ro_is_not_null ops (ro_field ops row ''name'')) (ro_not ops (ro_is_empty ops (ro_trim ops (ro_field ops row ''name'')))))
         (violation ''name'' ''required'' ''name is required'' []),
      row_rule ''name''
         (ro_le ops (ro_length ops (ro_field ops row ''name'')) (ro_num ops 120))
         (violation ''name'' ''max_length'' ''name must be at most 120 characters'' [(''max'', JNum 120)]),
      row_rule ''color''
         (ro_le ops (ro_length ops (ro_field ops row ''color'')) (ro_num ops 32))
         (violation ''color'' ''max_length'' ''color must be at most 32 characters'' [(''max'', JNum 32)])]"

definition tag_row_rules ::
    "'v rule_ops \<Rightarrow> ('e \<Rightarrow> json option) \<Rightarrow> 'e write_ctx \<Rightarrow> guard_outcome" where
  "tag_row_rules ops to_value =
     check_rules ops to_value [] (tag_rules ops)"

section \<open>\<open>Slot\<close>\<close>

definition slot_rules :: "'v rule_ops \<Rightarrow> json \<Rightarrow> 'v row_rule list" where
  "slot_rules ops row =
     [row_rule ''event_id''
         (ro_and ops (ro_is_not_null ops (ro_field ops row ''event_id'')) (ro_not ops (ro_is_empty ops (ro_trim ops (ro_field ops row ''event_id'')))))
         (violation ''event_id'' ''required'' ''event_id is required'' []),
      row_rule ''name''
         (ro_and ops (ro_is_not_null ops (ro_field ops row ''name'')) (ro_not ops (ro_is_empty ops (ro_trim ops (ro_field ops row ''name'')))))
         (violation ''name'' ''required'' ''name is required'' []),
      row_rule ''name''
         (ro_le ops (ro_length ops (ro_field ops row ''name'')) (ro_num ops 200))
         (violation ''name'' ''max_length'' ''name must be at most 200 characters'' [(''max'', JNum 200)])]"

definition slot_row_rules ::
    "'v rule_ops \<Rightarrow> ('e \<Rightarrow> json option) \<Rightarrow> 'e write_ctx \<Rightarrow> guard_outcome" where
  "slot_row_rules ops to_value =
     check_rules ops to_value [] (slot_rules ops)"

section \<open>\<open>Ticket\<close>\<close>

definition ticket_rules :: "'v rule_ops \<Rightarrow> json \<Rightarrow> 'v row_rule list" where
  "ticket_rules ops row =
     [row_rule ''event_id''
         (ro_and ops (ro_is_not_null ops (ro_field ops row ''event_id'')) (ro_not ops (ro_is_empty ops (ro_trim ops (ro_field ops row ''event_id'')))))
         (violation ''event_id'' ''required'' ''event_id is required'' []),
      row_rule ''name''
         (ro_and ops (ro_is_not_null ops (ro_field ops row ''name'')) (ro_not ops (ro_is_empty ops (ro_trim ops (ro_field ops row ''name'')))))
         (violation ''name'' ''required'' ''name is required'' []),
      row_rule ''name''
         (ro_le ops (ro_length ops (ro_field ops row ''name'')) (ro_num ops 200))
         (violation ''name'' ''max_length'' ''name must be at most 200 characters'' [(''max'', JNum 200)]),
      row_rule ''seats_max''
         (ro_ge ops (ro_field ops row ''seats_max'') (ro_num ops 0))
         (violation ''seats_max'' ''non_negative'' ''seats_max must not be negative'' []),
      row_rule ''seats_max_per_order''
         (ro_and ops (ro_ge ops (ro_field ops row ''seats_max_per_order'') (ro_num ops 0)) (ro_le ops (ro_field ops row ''seats_max_per_order'') (ro_num ops 30)))
         (violation ''seats_max_per_order'' ''range'' ''seats_max_per_order must be between 0 and 30'' [(''min'', JNum 0), (''max'', JNum 30)])]"

definition ticket_row_rules ::
    "'v rule_ops \<Rightarrow> ('e \<Rightarrow> json option) \<Rightarrow> 'e write_ctx \<Rightarrow> guard_outcome" where
  "ticket_row_rules ops to_value =
     check_rules ops to_value [] (ticket_rules ops)"

section \<open>\<open>Mail\<close>\<close>

definition mail_rules :: "'v rule_ops \<Rightarrow> json \<Rightarrow> 'v row_rule list" where
  "mail_rules ops row =
     [row_rule ''event_id''
         (ro_and ops (ro_is_not_null ops (ro_field ops row ''event_id'')) (ro_not ops (ro_is_empty ops (ro_trim ops (ro_field ops row ''event_id'')))))
         (violation ''event_id'' ''required'' ''event_id is required'' []),
      row_rule ''interval_nbr''
         (ro_ge ops (ro_field ops row ''interval_nbr'') (ro_num ops 0))
         (violation ''interval_nbr'' ''non_negative'' ''interval_nbr must not be negative'' []),
      row_rule ''template_kind''
         (ro_le ops (ro_length ops (ro_field ops row ''template_kind'')) (ro_num ops 40))
         (violation ''template_kind'' ''max_length'' ''template_kind must be at most 40 characters'' [(''max'', JNum 40)])]"

definition mail_row_rules ::
    "'v rule_ops \<Rightarrow> ('e \<Rightarrow> json option) \<Rightarrow> 'e write_ctx \<Rightarrow> guard_outcome" where
  "mail_row_rules ops to_value =
     check_rules ops to_value [] (mail_rules ops)"

section \<open>\<open>MailRegistration\<close>\<close>

definition mail_registration_rules :: "'v rule_ops \<Rightarrow> json \<Rightarrow> 'v row_rule list" where
  "mail_registration_rules ops row =
     [row_rule ''scheduler_id''
         (ro_and ops (ro_is_not_null ops (ro_field ops row ''scheduler_id'')) (ro_not ops (ro_is_empty ops (ro_trim ops (ro_field ops row ''scheduler_id'')))))
         (violation ''scheduler_id'' ''required'' ''scheduler_id is required'' []),
      row_rule ''registration_id''
         (ro_and ops (ro_is_not_null ops (ro_field ops row ''registration_id'')) (ro_not ops (ro_is_empty ops (ro_trim ops (ro_field ops row ''registration_id'')))))
         (violation ''registration_id'' ''required'' ''registration_id is required'' []),
      row_rule ''outcome''
         (ro_le ops (ro_length ops (ro_field ops row ''outcome'')) (ro_num ops 40))
         (violation ''outcome'' ''max_length'' ''outcome must be at most 40 characters'' [(''max'', JNum 40)])]"

definition mail_registration_row_rules ::
    "'v rule_ops \<Rightarrow> ('e \<Rightarrow> json option) \<Rightarrow> 'e write_ctx \<Rightarrow> guard_outcome" where
  "mail_registration_row_rules ops to_value =
     check_rules ops to_value [] (mail_registration_rules ops)"

section \<open>\<open>MailSlot\<close>\<close>

definition mail_slot_rules :: "'v rule_ops \<Rightarrow> json \<Rightarrow> 'v row_rule list" where
  "mail_slot_rules ops row =
     [row_rule ''scheduler_id''
         (ro_and ops (ro_is_not_null ops (ro_field ops row ''scheduler_id'')) (ro_not ops (ro_is_empty ops (ro_trim ops (ro_field ops row ''scheduler_id'')))))
         (violation ''scheduler_id'' ''required'' ''scheduler_id is required'' []),
      row_rule ''slot_id''
         (ro_and ops (ro_is_not_null ops (ro_field ops row ''slot_id'')) (ro_not ops (ro_is_empty ops (ro_trim ops (ro_field ops row ''slot_id'')))))
         (violation ''slot_id'' ''required'' ''slot_id is required'' [])]"

definition mail_slot_row_rules ::
    "'v rule_ops \<Rightarrow> ('e \<Rightarrow> json option) \<Rightarrow> 'e write_ctx \<Rightarrow> guard_outcome" where
  "mail_slot_row_rules ops to_value =
     check_rules ops to_value [] (mail_slot_rules ops)"

section \<open>\<open>TypeMail\<close>\<close>

definition type_mail_rules :: "'v rule_ops \<Rightarrow> json \<Rightarrow> 'v row_rule list" where
  "type_mail_rules ops row =
     [row_rule ''event_type_id''
         (ro_and ops (ro_is_not_null ops (ro_field ops row ''event_type_id'')) (ro_not ops (ro_is_empty ops (ro_trim ops (ro_field ops row ''event_type_id'')))))
         (violation ''event_type_id'' ''required'' ''event_type_id is required'' []),
      row_rule ''interval_nbr''
         (ro_ge ops (ro_field ops row ''interval_nbr'') (ro_num ops 0))
         (violation ''interval_nbr'' ''non_negative'' ''interval_nbr must not be negative'' []),
      row_rule ''template_kind''
         (ro_le ops (ro_length ops (ro_field ops row ''template_kind'')) (ro_num ops 40))
         (violation ''template_kind'' ''max_length'' ''template_kind must be at most 40 characters'' [(''max'', JNum 40)])]"

definition type_mail_row_rules ::
    "'v rule_ops \<Rightarrow> ('e \<Rightarrow> json option) \<Rightarrow> 'e write_ctx \<Rightarrow> guard_outcome" where
  "type_mail_row_rules ops to_value =
     check_rules ops to_value [] (type_mail_rules ops)"

section \<open>\<open>LeadProvenance\<close>\<close>

definition lead_provenance_rules :: "'v rule_ops \<Rightarrow> json \<Rightarrow> 'v row_rule list" where
  "lead_provenance_rules ops row =
     [row_rule ''rule_id''
         (ro_and ops (ro_is_not_null ops (ro_field ops row ''rule_id'')) (ro_not ops (ro_is_empty ops (ro_trim ops (ro_field ops row ''rule_id'')))))
         (violation ''rule_id'' ''required'' ''rule_id is required'' []),
      row_rule ''event_id''
         (ro_and ops (ro_is_not_null ops (ro_field ops row ''event_id'')) (ro_not ops (ro_is_empty ops (ro_trim ops (ro_field ops row ''event_id'')))))
         (violation ''event_id'' ''required'' ''event_id is required'' []),
      row_rule ''group_key''
         (ro_and ops (ro_is_not_null ops (ro_field ops row ''group_key'')) (ro_not ops (ro_is_empty ops (ro_trim ops (ro_field ops row ''group_key'')))))
         (violation ''group_key'' ''required'' ''group_key is required'' []),
      row_rule ''group_key''
         (ro_le ops (ro_length ops (ro_field ops row ''group_key'')) (ro_num ops 160))
         (violation ''group_key'' ''max_length'' ''group_key must be at most 160 characters'' [(''max'', JNum 160)])]"

definition lead_provenance_row_rules ::
    "'v rule_ops \<Rightarrow> ('e \<Rightarrow> json option) \<Rightarrow> 'e write_ctx \<Rightarrow> guard_outcome" where
  "lead_provenance_row_rules ops to_value =
     check_rules ops to_value [] (lead_provenance_rules ops)"

section \<open>\<open>LeadProvenanceRegistration\<close>\<close>

definition lead_provenance_registration_rules :: "'v rule_ops \<Rightarrow> json \<Rightarrow> 'v row_rule list" where
  "lead_provenance_registration_rules ops row =
     [row_rule ''provenance_id''
         (ro_and ops (ro_is_not_null ops (ro_field ops row ''provenance_id'')) (ro_not ops (ro_is_empty ops (ro_trim ops (ro_field ops row ''provenance_id'')))))
         (violation ''provenance_id'' ''required'' ''provenance_id is required'' []),
      row_rule ''registration_id''
         (ro_and ops (ro_is_not_null ops (ro_field ops row ''registration_id'')) (ro_not ops (ro_is_empty ops (ro_trim ops (ro_field ops row ''registration_id'')))))
         (violation ''registration_id'' ''required'' ''registration_id is required'' [])]"

definition lead_provenance_registration_row_rules ::
    "'v rule_ops \<Rightarrow> ('e \<Rightarrow> json option) \<Rightarrow> 'e write_ctx \<Rightarrow> guard_outcome" where
  "lead_provenance_registration_row_rules ops to_value =
     check_rules ops to_value [] (lead_provenance_registration_rules ops)"

section \<open>\<open>LeadRequest\<close>\<close>

definition lead_request_rules :: "'v rule_ops \<Rightarrow> json \<Rightarrow> 'v row_rule list" where
  "lead_request_rules ops row =
     [row_rule ''event_id''
         (ro_and ops (ro_is_not_null ops (ro_field ops row ''event_id'')) (ro_not ops (ro_is_empty ops (ro_trim ops (ro_field ops row ''event_id'')))))
         (violation ''event_id'' ''required'' ''event_id is required'' []),
      row_rule ''error_detail''
         (ro_le ops (ro_length ops (ro_field ops row ''error_detail'')) (ro_num ops 500))
         (violation ''error_detail'' ''max_length'' ''error_detail must be at most 500 characters'' [(''max'', JNum 500)])]"

definition lead_request_row_rules ::
    "'v rule_ops \<Rightarrow> ('e \<Rightarrow> json option) \<Rightarrow> 'e write_ctx \<Rightarrow> guard_outcome" where
  "lead_request_row_rules ops to_value =
     check_rules ops to_value [] (lead_request_rules ops)"

section \<open>\<open>LeadRule\<close>\<close>

definition lead_rule_rules :: "'v rule_ops \<Rightarrow> json \<Rightarrow> 'v row_rule list" where
  "lead_rule_rules ops row =
     [row_rule ''name''
         (ro_and ops (ro_is_not_null ops (ro_field ops row ''name'')) (ro_not ops (ro_is_empty ops (ro_trim ops (ro_field ops row ''name'')))))
         (violation ''name'' ''required'' ''name is required'' []),
      row_rule ''name''
         (ro_le ops (ro_length ops (ro_field ops row ''name'')) (ro_num ops 120))
         (violation ''name'' ''max_length'' ''name must be at most 120 characters'' [(''max'', JNum 120)])]"

definition lead_rule_row_rules ::
    "'v rule_ops \<Rightarrow> ('e \<Rightarrow> json option) \<Rightarrow> 'e write_ctx \<Rightarrow> guard_outcome" where
  "lead_rule_row_rules ops to_value =
     check_rules ops to_value [] (lead_rule_rules ops)"

section \<open>\<open>LeadRulePredicate\<close>\<close>

definition lead_rule_predicate_rules :: "'v rule_ops \<Rightarrow> json \<Rightarrow> 'v row_rule list" where
  "lead_rule_predicate_rules ops row =
     [row_rule ''rule_id''
         (ro_and ops (ro_is_not_null ops (ro_field ops row ''rule_id'')) (ro_not ops (ro_is_empty ops (ro_trim ops (ro_field ops row ''rule_id'')))))
         (violation ''rule_id'' ''required'' ''rule_id is required'' [])]"

definition lead_rule_predicate_row_rules ::
    "'v rule_ops \<Rightarrow> ('e \<Rightarrow> json option) \<Rightarrow> 'e write_ctx \<Rightarrow> guard_outcome" where
  "lead_rule_predicate_row_rules ops to_value =
     check_rules ops to_value [] (lead_rule_predicate_rules ops)"

section \<open>\<open>Registration\<close>\<close>

definition registration_rules :: "'v rule_ops \<Rightarrow> json \<Rightarrow> 'v row_rule list" where
  "registration_rules ops row =
     [row_rule ''event_id''
         (ro_and ops (ro_is_not_null ops (ro_field ops row ''event_id'')) (ro_not ops (ro_is_empty ops (ro_trim ops (ro_field ops row ''event_id'')))))
         (violation ''event_id'' ''required'' ''event_id is required'' []),
      row_rule ''name''
         (ro_le ops (ro_length ops (ro_field ops row ''name'')) (ro_num ops 200))
         (violation ''name'' ''max_length'' ''name must be at most 200 characters'' [(''max'', JNum 200)]),
      row_rule ''email''
         (ro_le ops (ro_length ops (ro_field ops row ''email'')) (ro_num ops 254))
         (violation ''email'' ''max_length'' ''email must be at most 254 characters'' [(''max'', JNum 254)]),
      row_rule ''email''
         (ro_matches ops (ro_field ops row ''email'') (''^[^@'' @ [CHR 0x5C] @ ''s]+@[^@'' @ [CHR 0x5C] @ ''s]+'' @ [CHR 0x5C] @ ''.[^@'' @ [CHR 0x5C] @ ''s]+$''))
         (violation ''email'' ''email'' ''email must be an email address'' []),
      row_rule ''phone''
         (ro_le ops (ro_length ops (ro_field ops row ''phone'')) (ro_num ops 40))
         (violation ''phone'' ''max_length'' ''phone must be at most 40 characters'' [(''max'', JNum 40)]),
      row_rule ''company_name''
         (ro_le ops (ro_length ops (ro_field ops row ''company_name'')) (ro_num ops 200))
         (violation ''company_name'' ''max_length'' ''company_name must be at most 200 characters'' [(''max'', JNum 200)]),
      row_rule ''barcode''
         (ro_and ops (ro_is_not_null ops (ro_field ops row ''barcode'')) (ro_not ops (ro_is_empty ops (ro_trim ops (ro_field ops row ''barcode'')))))
         (violation ''barcode'' ''required'' ''barcode is required'' []),
      row_rule ''barcode''
         (ro_le ops (ro_length ops (ro_field ops row ''barcode'')) (ro_num ops 32))
         (violation ''barcode'' ''max_length'' ''barcode must be at most 32 characters'' [(''max'', JNum 32)])]"

definition registration_row_rules ::
    "'v rule_ops \<Rightarrow> ('e \<Rightarrow> json option) \<Rightarrow> 'e write_ctx \<Rightarrow> guard_outcome" where
  "registration_row_rules ops to_value =
     check_rules ops to_value [(''state'', violation ''state'' ''state_field_verbs_only'' ''the state field moves only through its verbs'' [])] (registration_rules ops)"

section \<open>\<open>RegistrationAnswer\<close>\<close>

definition registration_answer_rules :: "'v rule_ops \<Rightarrow> json \<Rightarrow> 'v row_rule list" where
  "registration_answer_rules ops row =
     [row_rule ''registration_id''
         (ro_and ops (ro_is_not_null ops (ro_field ops row ''registration_id'')) (ro_not ops (ro_is_empty ops (ro_trim ops (ro_field ops row ''registration_id'')))))
         (violation ''registration_id'' ''required'' ''registration_id is required'' []),
      row_rule ''question_id''
         (ro_and ops (ro_is_not_null ops (ro_field ops row ''question_id'')) (ro_not ops (ro_is_empty ops (ro_trim ops (ro_field ops row ''question_id'')))))
         (violation ''question_id'' ''required'' ''question_id is required'' []),
      row_rule ''value_text''
         (ro_le ops (ro_length ops (ro_field ops row ''value_text'')) (ro_num ops 2000))
         (violation ''value_text'' ''max_length'' ''value_text must be at most 2000 characters'' [(''max'', JNum 2000)])]"

definition registration_answer_row_rules ::
    "'v rule_ops \<Rightarrow> ('e \<Rightarrow> json option) \<Rightarrow> 'e write_ctx \<Rightarrow> guard_outcome" where
  "registration_answer_row_rules ops to_value =
     check_rules ops to_value [] (registration_answer_rules ops)"

section \<open>\<open>RegistrationQuestion\<close>\<close>

definition registration_question_rules :: "'v rule_ops \<Rightarrow> json \<Rightarrow> 'v row_rule list" where
  "registration_question_rules ops row =
     [row_rule ''question_id''
         (ro_and ops (ro_is_not_null ops (ro_field ops row ''question_id'')) (ro_not ops (ro_is_empty ops (ro_trim ops (ro_field ops row ''question_id'')))))
         (violation ''question_id'' ''required'' ''question_id is required'' []),
      row_rule ''sequence''
         (ro_ge ops (ro_field ops row ''sequence'') (ro_num ops 0))
         (violation ''sequence'' ''non_negative'' ''sequence must not be negative'' [])]"

definition registration_question_row_rules ::
    "'v rule_ops \<Rightarrow> ('e \<Rightarrow> json option) \<Rightarrow> 'e write_ctx \<Rightarrow> guard_outcome" where
  "registration_question_row_rules ops to_value =
     check_rules ops to_value [] (registration_question_rules ops)"

section \<open>\<open>Question\<close>\<close>

definition question_rules :: "'v rule_ops \<Rightarrow> json \<Rightarrow> 'v row_rule list" where
  "question_rules ops row =
     [row_rule ''question''
         (ro_and ops (ro_is_not_null ops (ro_field ops row ''question'')) (ro_not ops (ro_is_empty ops (ro_trim ops (ro_field ops row ''question'')))))
         (violation ''question'' ''required'' ''question is required'' []),
      row_rule ''question''
         (ro_le ops (ro_length ops (ro_field ops row ''question'')) (ro_num ops 500))
         (violation ''question'' ''max_length'' ''question must be at most 500 characters'' [(''max'', JNum 500)])]"

definition question_row_rules ::
    "'v rule_ops \<Rightarrow> ('e \<Rightarrow> json option) \<Rightarrow> 'e write_ctx \<Rightarrow> guard_outcome" where
  "question_row_rules ops to_value =
     check_rules ops to_value [] (question_rules ops)"

section \<open>\<open>QuestionAnswer\<close>\<close>

definition question_answer_rules :: "'v rule_ops \<Rightarrow> json \<Rightarrow> 'v row_rule list" where
  "question_answer_rules ops row =
     [row_rule ''question_id''
         (ro_and ops (ro_is_not_null ops (ro_field ops row ''question_id'')) (ro_not ops (ro_is_empty ops (ro_trim ops (ro_field ops row ''question_id'')))))
         (violation ''question_id'' ''required'' ''question_id is required'' []),
      row_rule ''name''
         (ro_and ops (ro_is_not_null ops (ro_field ops row ''name'')) (ro_not ops (ro_is_empty ops (ro_trim ops (ro_field ops row ''name'')))))
         (violation ''name'' ''required'' ''name is required'' []),
      row_rule ''name''
         (ro_le ops (ro_length ops (ro_field ops row ''name'')) (ro_num ops 200))
         (violation ''name'' ''max_length'' ''name must be at most 200 characters'' [(''max'', JNum 200)]),
      row_rule ''sequence''
         (ro_ge ops (ro_field ops row ''sequence'') (ro_num ops 0))
         (violation ''sequence'' ''non_negative'' ''sequence must not be negative'' [])]"

definition question_answer_row_rules ::
    "'v rule_ops \<Rightarrow> ('e \<Rightarrow> json option) \<Rightarrow> 'e write_ctx \<Rightarrow> guard_outcome" where
  "question_answer_row_rules ops to_value =
     check_rules ops to_value [] (question_answer_rules ops)"

section \<open>What every guard does\<close>

lemma check_rules_other_writes:
  "wc_kind ctx \<noteq> Write_Create \<Longrightarrow> wc_kind ctx \<noteq> Write_Update \<Longrightarrow>
   check_rules ops to_value state_fields rules ctx = allow_write"
  by (simp add: check_rules_def)

text \<open>A create is refused with the violations of exactly the rules its row does not hold on.\<close>

lemma check_rules_create:
  assumes "wc_kind ctx = Write_Create" and "wc_after ctx = Some after" and "to_value after = Some row"
  shows "go_refuse (check_rules ops to_value state_fields rules ctx) =
    map rr_violation (filter (\<lambda>r. \<not> ro_holds ops (rr_expr r)) (rules row))"
  using assms by (simp add: check_rules_def case_prod_unfold)

text \<open>An update that changes no watched field is allowed, even when the stored row breaks a rule.\<close>

lemma check_rules_unchanged:
  assumes "wc_kind ctx = Write_Update" and "wc_after ctx = Some after" and "to_value after = Some row"
    and "\<And>f. \<not> ro_changed ops (Option.bind (wc_before ctx) to_value) row [f]"
  shows "check_rules ops to_value state_fields rules ctx = allow_write"
  using assms by (simp add: check_rules_def allow_write_def case_prod_unfold Let_def)

text \<open>A state field changed outside a verb.\<close>

lemma check_rules_state:
  assumes "wc_kind ctx = Write_Update" and "wc_after ctx = Some after" and "to_value after = Some row"
    and "wc_transition ctx = None" and "(f, v) \<in> set state_fields"
    and "ro_changed ops (Option.bind (wc_before ctx) to_value) row [f]"
  shows "v \<in> set (go_refuse (check_rules ops to_value state_fields rules ctx))"
  using assms by (force simp: check_rules_def Let_def image_iff)

end
