(* ===== verification/BoothEntities.thy ===== *)
theory BoothEntities
  imports EntityBase Pages StateMachines
begin

text \<open>
  The generated entities and DTOs of booths, their categories and templates, and booth bookings: the row structs of
  \<open>domain/entity\<close> with their constructors, chainable setters, generic patch, repository
  metadata and builder, and the DTOs of \<open>presentation/dto\<close> with their conversions. The rows are
  the full structs; the tables of the schema theory keep the columns the hand-written SQL uses.
  A fresh uuid is an argument.
\<close>

section \<open>\<open>BoothCategory\<close>\<close>

record booth_category =
  bct_id :: uuid
  bct_name :: string
  bct_description :: "string option"
  bct_product_id :: "uuid option"
  bct_price :: "decimal option"
  bct_metadata :: audit_metadata

definition booth_category_fields :: "(string \<times> string) list" where
  "booth_category_fields =
     [(''id'', ''Uuid''), (''name'', ''String''), (''description'', ''Option<String>''),
      (''product_id'', ''Option<Uuid>''), (''price'', ''Option<Decimal>''),
      (''metadata'', ''AuditMetadata'')]"

definition booth_category_new ::
    "uuid \<Rightarrow> string \<Rightarrow> booth_category" where
  "booth_category_new fresh name' =
     \<lparr>bct_id = fresh, bct_name = name', bct_description = None, bct_product_id = None,
      bct_price = None, bct_metadata = metadata_default\<rparr>"

datatype booth_category_setter =
    Bct_With_Description string
  | Bct_With_Product_Id uuid
  | Bct_With_Price decimal

fun booth_category_with :: "booth_category_setter \<Rightarrow> booth_category \<Rightarrow> booth_category" where
  "booth_category_with (Bct_With_Description x) e = e\<lparr>bct_description := Some x\<rparr>"
| "booth_category_with (Bct_With_Product_Id x) e = e\<lparr>bct_product_id := Some x\<rparr>"
| "booth_category_with (Bct_With_Price x) e = e\<lparr>bct_price := Some x\<rparr>"

definition booth_category_arms :: "entity_env \<Rightarrow> booth_category patch_arms" where
  "booth_category_arms env =
     [(''name'', patch_with value_string bct_name_update),
      (''description'', patch_with (value_option value_string) bct_description_update),
      (''product_id'', patch_with (value_option (value_uuid env)) bct_product_id_update),
      (''price'', patch_with (value_option (value_decimal env)) bct_price_update)]"

definition booth_category_apply_patch :: "entity_env \<Rightarrow> (string \<times> json) list \<Rightarrow> booth_category \<Rightarrow> booth_category" where
  "booth_category_apply_patch env = patch_fields (booth_category_arms env)"

interpretation booth_category_patch: patchable "booth_category_arms env"
    "\<lambda>e. (bct_id e, bct_metadata e)" for env
  by unfold_locales (simp_all add: booth_category_arms_def)

fun booth_category_persist :: "entity_env \<Rightarrow> persist_call \<Rightarrow> booth_category \<Rightarrow> booth_category" where
  "booth_category_persist env (Set_Entity_Id i) e =
     (case en_uuid env i of Some u \<Rightarrow> e\<lparr>bct_id := u\<rparr> | None \<Rightarrow> e)"
| "booth_category_persist env (Set_Created_At ts) e = e\<lparr>bct_metadata := (bct_metadata e)\<lparr>am_created_at := Some ts\<rparr>\<rparr>"
| "booth_category_persist env (Set_Updated_At ts) e = e\<lparr>bct_metadata := (bct_metadata e)\<lparr>am_updated_at := Some ts\<rparr>\<rparr>"
| "booth_category_persist env (Set_Deleted_At ts) e = e\<lparr>bct_metadata := (bct_metadata e)\<lparr>am_deleted_at := ts\<rparr>\<rparr>"

definition booth_category_columns :: "(string \<times> string) list" where
  "booth_category_columns =
     [(''id'', ''uuid''), (''product_id'', ''uuid'')]"

definition booth_category_search_fields :: "string list" where
  "booth_category_search_fields = [''name'']"

record booth_category_builder =
  bctb_name :: "string option"
  bctb_description :: "string option"
  bctb_product_id :: "uuid option"
  bctb_price :: "decimal option"

definition booth_category_builder_default :: booth_category_builder where
  "booth_category_builder_default = \<lparr>bctb_name = None, bctb_description = None, bctb_product_id = None, bctb_price = None\<rparr>"

datatype booth_category_builder_call =
    Bct_Set_Name string
  | Bct_Set_Description string
  | Bct_Set_Product_Id uuid
  | Bct_Set_Price decimal

fun booth_category_builder_set :: "booth_category_builder_call \<Rightarrow> booth_category_builder \<Rightarrow> booth_category_builder" where
  "booth_category_builder_set (Bct_Set_Name x) b = b\<lparr>bctb_name := Some x\<rparr>"
| "booth_category_builder_set (Bct_Set_Description x) b = b\<lparr>bctb_description := Some x\<rparr>"
| "booth_category_builder_set (Bct_Set_Product_Id x) b = b\<lparr>bctb_product_id := Some x\<rparr>"
| "booth_category_builder_set (Bct_Set_Price x) b = b\<lparr>bctb_price := Some x\<rparr>"

definition booth_category_build :: "uuid \<Rightarrow> booth_category_builder \<Rightarrow> string + booth_category" where
  "booth_category_build fresh b =
     bind_r (ok_or (bctb_name b) ''name is required'') (\<lambda>name'.
     Inr \<lparr>bct_id = fresh, bct_name = name', bct_description = bctb_description b,
        bct_product_id = bctb_product_id b, bct_price = bctb_price b,
        bct_metadata = metadata_default\<rparr>)"

record booth_category_filter =
  bctf_name :: "string option"
  bctf_description :: "string option"
  bctf_product_id :: "uuid option"

definition booth_category_has_filters :: "booth_category_filter \<Rightarrow> bool" where
  "booth_category_has_filters f \<longleftrightarrow>
     bctf_name f \<noteq> None \<or> bctf_description f \<noteq> None \<or>
     bctf_product_id f \<noteq> None"

definition booth_category_offset :: "page_params \<Rightarrow> 64 word" where
  "booth_category_offset params = page_offset params"

definition booth_category_table :: string where
  "booth_category_table = ''event.booth_categories''"

record create_booth_category_dto =
  bctc_name :: string
  bctc_description :: "string option"
  bctc_product_id :: "uuid option"
  bctc_price :: "decimal option"

definition booth_category_of_create :: "uuid \<Rightarrow> create_booth_category_dto \<Rightarrow> booth_category" where
  "booth_category_of_create fresh dto =
     \<lparr>bct_id = fresh, bct_name = bctc_name dto, bct_description = bctc_description dto,
      bct_product_id = bctc_product_id dto, bct_price = bctc_price dto,
      bct_metadata = metadata_default\<rparr>"

record update_booth_category_dto =
  bctu_name :: string
  bctu_description :: "string option"
  bctu_product_id :: "uuid option"
  bctu_price :: "decimal option"

definition booth_category_apply_update :: "update_booth_category_dto \<Rightarrow> booth_category \<Rightarrow> booth_category" where
  "booth_category_apply_update dto e =
     e\<lparr>bct_name := bctu_name dto, bct_description := bctu_description dto,
       bct_product_id := bctu_product_id dto, bct_price := bctu_price dto\<rparr>"

record patch_booth_category_dto =
  bctp_name :: "string option"
  bctp_description :: "string option option"
  bctp_product_id :: "uuid option option"
  bctp_price :: "decimal option option"

definition booth_category_has_changes :: "patch_booth_category_dto \<Rightarrow> bool" where
  "booth_category_has_changes dto \<longleftrightarrow>
     bctp_name dto \<noteq> None \<or> bctp_description dto \<noteq> None \<or>
     bctp_product_id dto \<noteq> None \<or> bctp_price dto \<noteq> None"

record booth_category_response_dto =
  bctr_id :: uuid
  bctr_name :: string
  bctr_description :: "string option"
  bctr_product_id :: "uuid option"
  bctr_price :: "decimal option"
  bctr_metadata :: audit_metadata

definition booth_category_response :: "booth_category \<Rightarrow> booth_category_response_dto" where
  "booth_category_response e =
     \<lparr>bctr_id = bct_id e, bctr_name = bct_name e, bctr_description = bct_description e,
      bctr_product_id = bct_product_id e, bctr_price = bct_price e,
      bctr_metadata = bct_metadata e\<rparr>"

definition booth_category_list ::
    "booth_category_response_dto list \<Rightarrow> nat \<Rightarrow> nat \<Rightarrow> nat \<Rightarrow> booth_category_response_dto page" where
  "booth_category_list items rows p per_page = new_page items rows p per_page"

record booth_category_summary_dto =
  bcts_id :: uuid
  bcts_name :: string
  bcts_description :: "string option"
  bcts_product_id :: "uuid option"
  bcts_created_at :: "timestamp option"

definition booth_category_summary :: "booth_category \<Rightarrow> booth_category_summary_dto" where
  "booth_category_summary e = \<lparr>bcts_id = bct_id e, bcts_name = bct_name e, bcts_description = bct_description e,
     bcts_product_id = bct_product_id e, bcts_created_at = am_created_at (bct_metadata e)\<rparr>"

section \<open>\<open>Booth\<close>\<close>

record booth =
  bth_id :: uuid
  bth_event_id :: uuid
  bth_booth_category_id :: uuid
  bth_name :: string
  bth_state :: event_booth_state
  bth_partner_id :: "uuid option"
  bth_contact_name :: "string option"
  bth_contact_email :: "string option"
  bth_contact_phone :: "string option"
  bth_sale_order_line_id :: "uuid option"
  bth_is_paid :: bool
  bth_metadata :: audit_metadata

definition booth_fields :: "(string \<times> string) list" where
  "booth_fields =
     [(''id'', ''Uuid''), (''event_id'', ''Uuid''), (''booth_category_id'', ''Uuid''),
      (''name'', ''String''), (''state'', ''EventBoothState''),
      (''partner_id'', ''Option<Uuid>''), (''contact_name'', ''Option<String>''),
      (''contact_email'', ''Option<String>''), (''contact_phone'', ''Option<String>''),
      (''sale_order_line_id'', ''Option<Uuid>''), (''is_paid'', ''bool''),
      (''metadata'', ''AuditMetadata'')]"

definition booth_new ::
    "uuid \<Rightarrow> uuid \<Rightarrow> uuid \<Rightarrow> string \<Rightarrow>
     event_booth_state \<Rightarrow> bool \<Rightarrow> booth" where
  "booth_new fresh event_id' booth_category_id' name' state' is_paid' =
     \<lparr>bth_id = fresh, bth_event_id = event_id', bth_booth_category_id = booth_category_id',
      bth_name = name', bth_state = state', bth_partner_id = None, bth_contact_name = None,
      bth_contact_email = None, bth_contact_phone = None, bth_sale_order_line_id = None,
      bth_is_paid = is_paid', bth_metadata = metadata_default\<rparr>"

datatype booth_setter =
    Bth_With_Partner_Id uuid
  | Bth_With_Contact_Name string
  | Bth_With_Contact_Email string
  | Bth_With_Contact_Phone string
  | Bth_With_Sale_Order_Line_Id uuid

fun booth_with :: "booth_setter \<Rightarrow> booth \<Rightarrow> booth" where
  "booth_with (Bth_With_Partner_Id x) e = e\<lparr>bth_partner_id := Some x\<rparr>"
| "booth_with (Bth_With_Contact_Name x) e = e\<lparr>bth_contact_name := Some x\<rparr>"
| "booth_with (Bth_With_Contact_Email x) e = e\<lparr>bth_contact_email := Some x\<rparr>"
| "booth_with (Bth_With_Contact_Phone x) e = e\<lparr>bth_contact_phone := Some x\<rparr>"
| "booth_with (Bth_With_Sale_Order_Line_Id x) e = e\<lparr>bth_sale_order_line_id := Some x\<rparr>"

definition booth_transition_to :: "boothsm_state \<Rightarrow> booth \<Rightarrow> (sm_error + unit) \<times> booth" where
  "booth_transition_to new_state e =
     (case boothsm_state_from_str (booth_state_to_str (bth_state e)) of
        Inl err \<Rightarrow> (Inl err, e)
      | Inr current \<Rightarrow>
          (case fst (boothsm_transition_to_state new_state (boothsm_from_state current)) of
             Inl err \<Rightarrow> (Inl err, e)
           | Inr _ \<Rightarrow>
               (case booth_state_from_str (boothsm_state_to_str new_state) of
                  Inl err \<Rightarrow> (Inl (InvalidState err), e)
                | Inr s \<Rightarrow> (Inr (), e\<lparr>bth_state := s\<rparr>))))"

definition booth_arms :: "entity_env \<Rightarrow> booth patch_arms" where
  "booth_arms env =
     [(''event_id'', patch_with (value_uuid env) bth_event_id_update),
      (''booth_category_id'', patch_with (value_uuid env) bth_booth_category_id_update),
      (''name'', patch_with value_string bth_name_update),
      (''partner_id'', patch_with (value_option (value_uuid env)) bth_partner_id_update),
      (''contact_name'', patch_with (value_option value_string) bth_contact_name_update),
      (''contact_email'', patch_with (value_option value_string) bth_contact_email_update),
      (''contact_phone'', patch_with (value_option value_string) bth_contact_phone_update),
      (''sale_order_line_id'', patch_with (value_option (value_uuid env)) bth_sale_order_line_id_update),
      (''is_paid'', patch_with value_bool bth_is_paid_update)]"

definition booth_apply_patch :: "entity_env \<Rightarrow> (string \<times> json) list \<Rightarrow> booth \<Rightarrow> booth" where
  "booth_apply_patch env = patch_fields (booth_arms env)"

interpretation booth_patch: patchable "booth_arms env"
    "\<lambda>e. (bth_id e, bth_state e, bth_metadata e)" for env
  by unfold_locales (simp_all add: booth_arms_def)

definition booth_state_fields :: "string list" where
  "booth_state_fields = [''state'']"

definition booth_write_protected_fields :: "string list" where
  "booth_write_protected_fields = [''state'']"

definition booth_references :: "(string \<times> string \<times> string) list" where
  "booth_references =
     [(''event_id'', ''event.events'', ''id''),
      (''booth_category_id'', ''event.booth_categories'', ''id'')]"

fun booth_persist :: "entity_env \<Rightarrow> persist_call \<Rightarrow> booth \<Rightarrow> booth" where
  "booth_persist env (Set_Entity_Id i) e =
     (case en_uuid env i of Some u \<Rightarrow> e\<lparr>bth_id := u\<rparr> | None \<Rightarrow> e)"
| "booth_persist env (Set_Created_At ts) e = e\<lparr>bth_metadata := (bth_metadata e)\<lparr>am_created_at := Some ts\<rparr>\<rparr>"
| "booth_persist env (Set_Updated_At ts) e = e\<lparr>bth_metadata := (bth_metadata e)\<lparr>am_updated_at := Some ts\<rparr>\<rparr>"
| "booth_persist env (Set_Deleted_At ts) e = e\<lparr>bth_metadata := (bth_metadata e)\<lparr>am_deleted_at := ts\<rparr>\<rparr>"

definition booth_columns :: "(string \<times> string) list" where
  "booth_columns =
     [(''id'', ''uuid''), (''event_id'', ''uuid''), (''booth_category_id'', ''uuid''),
      (''partner_id'', ''uuid''), (''sale_order_line_id'', ''uuid''),
      (''state'', ''event_booth_state'')]"

definition booth_search_fields :: "string list" where
  "booth_search_fields = [''name'']"

definition booth_relations :: "(string \<times> string \<times> string) list" where
  "booth_relations =
     [(''event'', ''events'', ''eventId''),
      (''boothCategory'', ''booth_categories'', ''boothCategoryId'')]"

record booth_builder =
  bthb_event_id :: "uuid option"
  bthb_booth_category_id :: "uuid option"
  bthb_name :: "string option"
  bthb_state :: "event_booth_state option"
  bthb_partner_id :: "uuid option"
  bthb_contact_name :: "string option"
  bthb_contact_email :: "string option"
  bthb_contact_phone :: "string option"
  bthb_sale_order_line_id :: "uuid option"
  bthb_is_paid :: "bool option"

definition booth_builder_default :: booth_builder where
  "booth_builder_default = \<lparr>bthb_event_id = None, bthb_booth_category_id = None, bthb_name = None, bthb_state = None,
     bthb_partner_id = None, bthb_contact_name = None, bthb_contact_email = None,
     bthb_contact_phone = None, bthb_sale_order_line_id = None, bthb_is_paid = None\<rparr>"

datatype booth_builder_call =
    Bth_Set_Event_Id uuid
  | Bth_Set_Booth_Category_Id uuid
  | Bth_Set_Name string
  | Bth_Set_State event_booth_state
  | Bth_Set_Partner_Id uuid
  | Bth_Set_Contact_Name string
  | Bth_Set_Contact_Email string
  | Bth_Set_Contact_Phone string
  | Bth_Set_Sale_Order_Line_Id uuid
  | Bth_Set_Is_Paid bool

fun booth_builder_set :: "booth_builder_call \<Rightarrow> booth_builder \<Rightarrow> booth_builder" where
  "booth_builder_set (Bth_Set_Event_Id x) b = b\<lparr>bthb_event_id := Some x\<rparr>"
| "booth_builder_set (Bth_Set_Booth_Category_Id x) b = b\<lparr>bthb_booth_category_id := Some x\<rparr>"
| "booth_builder_set (Bth_Set_Name x) b = b\<lparr>bthb_name := Some x\<rparr>"
| "booth_builder_set (Bth_Set_State x) b = b\<lparr>bthb_state := Some x\<rparr>"
| "booth_builder_set (Bth_Set_Partner_Id x) b = b\<lparr>bthb_partner_id := Some x\<rparr>"
| "booth_builder_set (Bth_Set_Contact_Name x) b = b\<lparr>bthb_contact_name := Some x\<rparr>"
| "booth_builder_set (Bth_Set_Contact_Email x) b = b\<lparr>bthb_contact_email := Some x\<rparr>"
| "booth_builder_set (Bth_Set_Contact_Phone x) b = b\<lparr>bthb_contact_phone := Some x\<rparr>"
| "booth_builder_set (Bth_Set_Sale_Order_Line_Id x) b = b\<lparr>bthb_sale_order_line_id := Some x\<rparr>"
| "booth_builder_set (Bth_Set_Is_Paid x) b = b\<lparr>bthb_is_paid := Some x\<rparr>"

definition booth_build :: "uuid \<Rightarrow> booth_builder \<Rightarrow> string + booth" where
  "booth_build fresh b =
     bind_r (ok_or (bthb_event_id b) ''event_id is required'') (\<lambda>event_id'.
     bind_r (ok_or (bthb_booth_category_id b) ''booth_category_id is required'') (\<lambda>booth_category_id'.
     bind_r (ok_or (bthb_name b) ''name is required'') (\<lambda>name'.
     Inr \<lparr>bth_id = fresh, bth_event_id = event_id', bth_booth_category_id = booth_category_id',
        bth_name = name', bth_state = unwrap_or booth_state_default (bthb_state b),
        bth_partner_id = bthb_partner_id b, bth_contact_name = bthb_contact_name b,
        bth_contact_email = bthb_contact_email b, bth_contact_phone = bthb_contact_phone b,
        bth_sale_order_line_id = bthb_sale_order_line_id b,
        bth_is_paid = unwrap_or False (bthb_is_paid b), bth_metadata = metadata_default\<rparr>)))"

record booth_filter =
  bthf_event_id :: "uuid option"
  bthf_booth_category_id :: "uuid option"
  bthf_name :: "string option"
  bthf_state :: "event_booth_state option"
  bthf_partner_id :: "uuid option"
  bthf_contact_name :: "string option"
  bthf_contact_email :: "string option"
  bthf_contact_phone :: "string option"
  bthf_sale_order_line_id :: "uuid option"
  bthf_is_paid :: "bool option"

definition booth_has_filters :: "booth_filter \<Rightarrow> bool" where
  "booth_has_filters f \<longleftrightarrow>
     bthf_event_id f \<noteq> None \<or> bthf_booth_category_id f \<noteq> None \<or>
     bthf_name f \<noteq> None \<or> bthf_state f \<noteq> None \<or>
     bthf_partner_id f \<noteq> None \<or> bthf_contact_name f \<noteq> None \<or>
     bthf_contact_email f \<noteq> None \<or> bthf_contact_phone f \<noteq> None \<or>
     bthf_sale_order_line_id f \<noteq> None \<or> bthf_is_paid f \<noteq> None"

definition booth_offset :: "page_params \<Rightarrow> 64 word" where
  "booth_offset params = page_offset params"

definition booth_table :: string where
  "booth_table = ''event.booths''"

record create_booth_dto =
  bthc_event_id :: uuid
  bthc_booth_category_id :: uuid
  bthc_name :: string
  bthc_partner_id :: "uuid option"
  bthc_contact_name :: "string option"
  bthc_contact_email :: "string option"
  bthc_contact_phone :: "string option"
  bthc_sale_order_line_id :: "uuid option"
  bthc_is_paid :: bool

definition booth_of_create :: "uuid \<Rightarrow> create_booth_dto \<Rightarrow> booth" where
  "booth_of_create fresh dto =
     \<lparr>bth_id = fresh, bth_event_id = bthc_event_id dto,
      bth_booth_category_id = bthc_booth_category_id dto, bth_name = bthc_name dto,
      bth_state = Booth_Available, bth_partner_id = bthc_partner_id dto,
      bth_contact_name = bthc_contact_name dto, bth_contact_email = bthc_contact_email dto,
      bth_contact_phone = bthc_contact_phone dto,
      bth_sale_order_line_id = bthc_sale_order_line_id dto, bth_is_paid = bthc_is_paid dto,
      bth_metadata = metadata_default\<rparr>"

record update_booth_dto =
  bthu_event_id :: uuid
  bthu_booth_category_id :: uuid
  bthu_name :: string
  bthu_state :: event_booth_state
  bthu_partner_id :: "uuid option"
  bthu_contact_name :: "string option"
  bthu_contact_email :: "string option"
  bthu_contact_phone :: "string option"
  bthu_sale_order_line_id :: "uuid option"
  bthu_is_paid :: bool

definition booth_apply_update :: "update_booth_dto \<Rightarrow> booth \<Rightarrow> booth" where
  "booth_apply_update dto e =
     e\<lparr>bth_event_id := bthu_event_id dto, bth_booth_category_id := bthu_booth_category_id dto,
       bth_name := bthu_name dto, bth_state := bthu_state dto,
       bth_partner_id := bthu_partner_id dto, bth_contact_name := bthu_contact_name dto,
       bth_contact_email := bthu_contact_email dto, bth_contact_phone := bthu_contact_phone dto,
       bth_sale_order_line_id := bthu_sale_order_line_id dto, bth_is_paid := bthu_is_paid dto\<rparr>"

record patch_booth_dto =
  bthp_event_id :: "uuid option"
  bthp_booth_category_id :: "uuid option"
  bthp_name :: "string option"
  bthp_state :: "event_booth_state option"
  bthp_partner_id :: "uuid option option"
  bthp_contact_name :: "string option option"
  bthp_contact_email :: "string option option"
  bthp_contact_phone :: "string option option"
  bthp_sale_order_line_id :: "uuid option option"
  bthp_is_paid :: "bool option"

definition booth_has_changes :: "patch_booth_dto \<Rightarrow> bool" where
  "booth_has_changes dto \<longleftrightarrow>
     bthp_event_id dto \<noteq> None \<or> bthp_booth_category_id dto \<noteq> None \<or>
     bthp_name dto \<noteq> None \<or> bthp_state dto \<noteq> None \<or>
     bthp_partner_id dto \<noteq> None \<or> bthp_contact_name dto \<noteq> None \<or>
     bthp_contact_email dto \<noteq> None \<or> bthp_contact_phone dto \<noteq> None \<or>
     bthp_sale_order_line_id dto \<noteq> None \<or> bthp_is_paid dto \<noteq> None"

record booth_response_dto =
  bthr_id :: uuid
  bthr_event_id :: uuid
  bthr_booth_category_id :: uuid
  bthr_name :: string
  bthr_state :: event_booth_state
  bthr_partner_id :: "uuid option"
  bthr_contact_name :: "string option"
  bthr_contact_email :: "string option"
  bthr_contact_phone :: "string option"
  bthr_sale_order_line_id :: "uuid option"
  bthr_is_paid :: bool
  bthr_metadata :: audit_metadata

definition booth_response :: "booth \<Rightarrow> booth_response_dto" where
  "booth_response e =
     \<lparr>bthr_id = bth_id e, bthr_event_id = bth_event_id e,
      bthr_booth_category_id = bth_booth_category_id e, bthr_name = bth_name e,
      bthr_state = bth_state e, bthr_partner_id = bth_partner_id e,
      bthr_contact_name = bth_contact_name e, bthr_contact_email = bth_contact_email e,
      bthr_contact_phone = bth_contact_phone e,
      bthr_sale_order_line_id = bth_sale_order_line_id e, bthr_is_paid = bth_is_paid e,
      bthr_metadata = bth_metadata e\<rparr>"

definition booth_list ::
    "booth_response_dto list \<Rightarrow> nat \<Rightarrow> nat \<Rightarrow> nat \<Rightarrow> booth_response_dto page" where
  "booth_list items rows p per_page = new_page items rows p per_page"

record booth_summary_dto =
  bths_id :: uuid
  bths_event_id :: uuid
  bths_booth_category_id :: uuid
  bths_name :: string
  bths_created_at :: "timestamp option"

definition booth_summary :: "booth \<Rightarrow> booth_summary_dto" where
  "booth_summary e = \<lparr>bths_id = bth_id e, bths_event_id = bth_event_id e,
     bths_booth_category_id = bth_booth_category_id e, bths_name = bth_name e,
     bths_created_at = am_created_at (bth_metadata e)\<rparr>"

section \<open>\<open>TypeBooth\<close>\<close>

record type_booth =
  tbt_id :: uuid
  tbt_event_type_id :: uuid
  tbt_booth_category_id :: uuid
  tbt_name :: string
  tbt_metadata :: audit_metadata

definition type_booth_fields :: "(string \<times> string) list" where
  "type_booth_fields =
     [(''id'', ''Uuid''), (''event_type_id'', ''Uuid''), (''booth_category_id'', ''Uuid''),
      (''name'', ''String''), (''metadata'', ''AuditMetadata'')]"

definition type_booth_new ::
    "uuid \<Rightarrow> uuid \<Rightarrow> uuid \<Rightarrow> string \<Rightarrow> type_booth" where
  "type_booth_new fresh event_type_id' booth_category_id' name' =
     \<lparr>tbt_id = fresh, tbt_event_type_id = event_type_id',
      tbt_booth_category_id = booth_category_id', tbt_name = name',
      tbt_metadata = metadata_default\<rparr>"

definition type_booth_arms :: "entity_env \<Rightarrow> type_booth patch_arms" where
  "type_booth_arms env =
     [(''event_type_id'', patch_with (value_uuid env) tbt_event_type_id_update),
      (''booth_category_id'', patch_with (value_uuid env) tbt_booth_category_id_update),
      (''name'', patch_with value_string tbt_name_update)]"

definition type_booth_apply_patch :: "entity_env \<Rightarrow> (string \<times> json) list \<Rightarrow> type_booth \<Rightarrow> type_booth" where
  "type_booth_apply_patch env = patch_fields (type_booth_arms env)"

interpretation type_booth_patch: patchable "type_booth_arms env"
    "\<lambda>e. (tbt_id e, tbt_metadata e)" for env
  by unfold_locales (simp_all add: type_booth_arms_def)

definition type_booth_references :: "(string \<times> string \<times> string) list" where
  "type_booth_references =
     [(''event_type_id'', ''event.types'', ''id''),
      (''booth_category_id'', ''event.booth_categories'', ''id'')]"

fun type_booth_persist :: "entity_env \<Rightarrow> persist_call \<Rightarrow> type_booth \<Rightarrow> type_booth" where
  "type_booth_persist env (Set_Entity_Id i) e =
     (case en_uuid env i of Some u \<Rightarrow> e\<lparr>tbt_id := u\<rparr> | None \<Rightarrow> e)"
| "type_booth_persist env (Set_Created_At ts) e = e\<lparr>tbt_metadata := (tbt_metadata e)\<lparr>am_created_at := Some ts\<rparr>\<rparr>"
| "type_booth_persist env (Set_Updated_At ts) e = e\<lparr>tbt_metadata := (tbt_metadata e)\<lparr>am_updated_at := Some ts\<rparr>\<rparr>"
| "type_booth_persist env (Set_Deleted_At ts) e = e\<lparr>tbt_metadata := (tbt_metadata e)\<lparr>am_deleted_at := ts\<rparr>\<rparr>"

definition type_booth_columns :: "(string \<times> string) list" where
  "type_booth_columns =
     [(''id'', ''uuid''), (''event_type_id'', ''uuid''), (''booth_category_id'', ''uuid'')]"

definition type_booth_search_fields :: "string list" where
  "type_booth_search_fields = [''name'']"

definition type_booth_relations :: "(string \<times> string \<times> string) list" where
  "type_booth_relations =
     [(''eventType'', ''types'', ''eventTypeId''),
      (''boothCategory'', ''booth_categories'', ''boothCategoryId'')]"

record type_booth_builder =
  tbtb_event_type_id :: "uuid option"
  tbtb_booth_category_id :: "uuid option"
  tbtb_name :: "string option"

definition type_booth_builder_default :: type_booth_builder where
  "type_booth_builder_default = \<lparr>tbtb_event_type_id = None, tbtb_booth_category_id = None, tbtb_name = None\<rparr>"

datatype type_booth_builder_call =
    Tbt_Set_Event_Type_Id uuid
  | Tbt_Set_Booth_Category_Id uuid
  | Tbt_Set_Name string

fun type_booth_builder_set :: "type_booth_builder_call \<Rightarrow> type_booth_builder \<Rightarrow> type_booth_builder" where
  "type_booth_builder_set (Tbt_Set_Event_Type_Id x) b = b\<lparr>tbtb_event_type_id := Some x\<rparr>"
| "type_booth_builder_set (Tbt_Set_Booth_Category_Id x) b = b\<lparr>tbtb_booth_category_id := Some x\<rparr>"
| "type_booth_builder_set (Tbt_Set_Name x) b = b\<lparr>tbtb_name := Some x\<rparr>"

definition type_booth_build :: "uuid \<Rightarrow> type_booth_builder \<Rightarrow> string + type_booth" where
  "type_booth_build fresh b =
     bind_r (ok_or (tbtb_event_type_id b) ''event_type_id is required'') (\<lambda>event_type_id'.
     bind_r (ok_or (tbtb_booth_category_id b) ''booth_category_id is required'') (\<lambda>booth_category_id'.
     bind_r (ok_or (tbtb_name b) ''name is required'') (\<lambda>name'.
     Inr \<lparr>tbt_id = fresh, tbt_event_type_id = event_type_id',
        tbt_booth_category_id = booth_category_id', tbt_name = name',
        tbt_metadata = metadata_default\<rparr>)))"

record type_booth_filter =
  tbtf_event_type_id :: "uuid option"
  tbtf_booth_category_id :: "uuid option"
  tbtf_name :: "string option"

definition type_booth_has_filters :: "type_booth_filter \<Rightarrow> bool" where
  "type_booth_has_filters f \<longleftrightarrow>
     tbtf_event_type_id f \<noteq> None \<or> tbtf_booth_category_id f \<noteq> None \<or>
     tbtf_name f \<noteq> None"

definition type_booth_offset :: "page_params \<Rightarrow> 64 word" where
  "type_booth_offset params = page_offset params"

definition type_booth_table :: string where
  "type_booth_table = ''event.type_booths''"

record create_type_booth_dto =
  tbtc_event_type_id :: uuid
  tbtc_booth_category_id :: uuid
  tbtc_name :: string

definition type_booth_of_create :: "uuid \<Rightarrow> create_type_booth_dto \<Rightarrow> type_booth" where
  "type_booth_of_create fresh dto =
     \<lparr>tbt_id = fresh, tbt_event_type_id = tbtc_event_type_id dto,
      tbt_booth_category_id = tbtc_booth_category_id dto, tbt_name = tbtc_name dto,
      tbt_metadata = metadata_default\<rparr>"

record update_type_booth_dto =
  tbtu_event_type_id :: uuid
  tbtu_booth_category_id :: uuid
  tbtu_name :: string

definition type_booth_apply_update :: "update_type_booth_dto \<Rightarrow> type_booth \<Rightarrow> type_booth" where
  "type_booth_apply_update dto e =
     e\<lparr>tbt_event_type_id := tbtu_event_type_id dto,
       tbt_booth_category_id := tbtu_booth_category_id dto, tbt_name := tbtu_name dto\<rparr>"

record patch_type_booth_dto =
  tbtp_event_type_id :: "uuid option"
  tbtp_booth_category_id :: "uuid option"
  tbtp_name :: "string option"

definition type_booth_has_changes :: "patch_type_booth_dto \<Rightarrow> bool" where
  "type_booth_has_changes dto \<longleftrightarrow>
     tbtp_event_type_id dto \<noteq> None \<or> tbtp_booth_category_id dto \<noteq> None \<or>
     tbtp_name dto \<noteq> None"

record type_booth_response_dto =
  tbtr_id :: uuid
  tbtr_event_type_id :: uuid
  tbtr_booth_category_id :: uuid
  tbtr_name :: string
  tbtr_metadata :: audit_metadata

definition type_booth_response :: "type_booth \<Rightarrow> type_booth_response_dto" where
  "type_booth_response e =
     \<lparr>tbtr_id = tbt_id e, tbtr_event_type_id = tbt_event_type_id e,
      tbtr_booth_category_id = tbt_booth_category_id e, tbtr_name = tbt_name e,
      tbtr_metadata = tbt_metadata e\<rparr>"

definition type_booth_list ::
    "type_booth_response_dto list \<Rightarrow> nat \<Rightarrow> nat \<Rightarrow> nat \<Rightarrow> type_booth_response_dto page" where
  "type_booth_list items rows p per_page = new_page items rows p per_page"

record type_booth_summary_dto =
  tbts_id :: uuid
  tbts_event_type_id :: uuid
  tbts_booth_category_id :: uuid
  tbts_name :: string
  tbts_created_at :: "timestamp option"

definition type_booth_summary :: "type_booth \<Rightarrow> type_booth_summary_dto" where
  "type_booth_summary e = \<lparr>tbts_id = tbt_id e, tbts_event_type_id = tbt_event_type_id e,
     tbts_booth_category_id = tbt_booth_category_id e, tbts_name = tbt_name e,
     tbts_created_at = am_created_at (tbt_metadata e)\<rparr>"

section \<open>\<open>BoothBooking\<close>\<close>

record booth_booking =
  bbk_id :: uuid
  bbk_event_booth_id :: uuid
  bbk_sale_order_line_id :: "uuid option"
  bbk_status :: event_booth_booking_status
  bbk_partner_id :: "uuid option"
  bbk_contact_name :: "string option"
  bbk_contact_email :: "string option"
  bbk_contact_phone :: "string option"
  bbk_metadata :: audit_metadata

definition booth_booking_fields :: "(string \<times> string) list" where
  "booth_booking_fields =
     [(''id'', ''Uuid''), (''event_booth_id'', ''Uuid''),
      (''sale_order_line_id'', ''Option<Uuid>''), (''status'', ''EventBoothBookingStatus''),
      (''partner_id'', ''Option<Uuid>''), (''contact_name'', ''Option<String>''),
      (''contact_email'', ''Option<String>''), (''contact_phone'', ''Option<String>''),
      (''metadata'', ''AuditMetadata'')]"

definition booth_booking_new ::
    "uuid \<Rightarrow> uuid \<Rightarrow> event_booth_booking_status \<Rightarrow>
     booth_booking" where
  "booth_booking_new fresh event_booth_id' status' =
     \<lparr>bbk_id = fresh, bbk_event_booth_id = event_booth_id', bbk_sale_order_line_id = None,
      bbk_status = status', bbk_partner_id = None, bbk_contact_name = None,
      bbk_contact_email = None, bbk_contact_phone = None, bbk_metadata = metadata_default\<rparr>"

datatype booth_booking_setter =
    Bbk_With_Sale_Order_Line_Id uuid
  | Bbk_With_Partner_Id uuid
  | Bbk_With_Contact_Name string
  | Bbk_With_Contact_Email string
  | Bbk_With_Contact_Phone string

fun booth_booking_with :: "booth_booking_setter \<Rightarrow> booth_booking \<Rightarrow> booth_booking" where
  "booth_booking_with (Bbk_With_Sale_Order_Line_Id x) e = e\<lparr>bbk_sale_order_line_id := Some x\<rparr>"
| "booth_booking_with (Bbk_With_Partner_Id x) e = e\<lparr>bbk_partner_id := Some x\<rparr>"
| "booth_booking_with (Bbk_With_Contact_Name x) e = e\<lparr>bbk_contact_name := Some x\<rparr>"
| "booth_booking_with (Bbk_With_Contact_Email x) e = e\<lparr>bbk_contact_email := Some x\<rparr>"
| "booth_booking_with (Bbk_With_Contact_Phone x) e = e\<lparr>bbk_contact_phone := Some x\<rparr>"

definition booth_booking_arms :: "entity_env \<Rightarrow> booth_booking patch_arms" where
  "booth_booking_arms env =
     [(''event_booth_id'', patch_with (value_uuid env) bbk_event_booth_id_update),
      (''sale_order_line_id'', patch_with (value_option (value_uuid env)) bbk_sale_order_line_id_update),
      (''status'', patch_with (value_variant booth_booking_status_to_str [Booking_Pending, Booking_Confirmed]) bbk_status_update),
      (''partner_id'', patch_with (value_option (value_uuid env)) bbk_partner_id_update),
      (''contact_name'', patch_with (value_option value_string) bbk_contact_name_update),
      (''contact_email'', patch_with (value_option value_string) bbk_contact_email_update),
      (''contact_phone'', patch_with (value_option value_string) bbk_contact_phone_update)]"

definition booth_booking_apply_patch :: "entity_env \<Rightarrow> (string \<times> json) list \<Rightarrow> booth_booking \<Rightarrow> booth_booking" where
  "booth_booking_apply_patch env = patch_fields (booth_booking_arms env)"

interpretation booth_booking_patch: patchable "booth_booking_arms env"
    "\<lambda>e. (bbk_id e, bbk_metadata e)" for env
  by unfold_locales (simp_all add: booth_booking_arms_def)

definition booth_booking_references :: "(string \<times> string \<times> string) list" where
  "booth_booking_references =
     [(''event_booth_id'', ''event.booths'', ''id'')]"

fun booth_booking_persist :: "entity_env \<Rightarrow> persist_call \<Rightarrow> booth_booking \<Rightarrow> booth_booking" where
  "booth_booking_persist env (Set_Entity_Id i) e =
     (case en_uuid env i of Some u \<Rightarrow> e\<lparr>bbk_id := u\<rparr> | None \<Rightarrow> e)"
| "booth_booking_persist env (Set_Created_At ts) e = e\<lparr>bbk_metadata := (bbk_metadata e)\<lparr>am_created_at := Some ts\<rparr>\<rparr>"
| "booth_booking_persist env (Set_Updated_At ts) e = e\<lparr>bbk_metadata := (bbk_metadata e)\<lparr>am_updated_at := Some ts\<rparr>\<rparr>"
| "booth_booking_persist env (Set_Deleted_At ts) e = e\<lparr>bbk_metadata := (bbk_metadata e)\<lparr>am_deleted_at := ts\<rparr>\<rparr>"

definition booth_booking_columns :: "(string \<times> string) list" where
  "booth_booking_columns =
     [(''id'', ''uuid''), (''event_booth_id'', ''uuid''), (''sale_order_line_id'', ''uuid''),
      (''partner_id'', ''uuid''), (''status'', ''event_booth_booking_status'')]"

definition booth_booking_search_fields :: "string list" where
  "booth_booking_search_fields = []"

definition booth_booking_relations :: "(string \<times> string \<times> string) list" where
  "booth_booking_relations =
     [(''eventBooth'', ''booths'', ''eventBoothId'')]"

record booth_booking_builder =
  bbkb_event_booth_id :: "uuid option"
  bbkb_sale_order_line_id :: "uuid option"
  bbkb_status :: "event_booth_booking_status option"
  bbkb_partner_id :: "uuid option"
  bbkb_contact_name :: "string option"
  bbkb_contact_email :: "string option"
  bbkb_contact_phone :: "string option"

definition booth_booking_builder_default :: booth_booking_builder where
  "booth_booking_builder_default = \<lparr>bbkb_event_booth_id = None, bbkb_sale_order_line_id = None, bbkb_status = None,
     bbkb_partner_id = None, bbkb_contact_name = None, bbkb_contact_email = None,
     bbkb_contact_phone = None\<rparr>"

datatype booth_booking_builder_call =
    Bbk_Set_Event_Booth_Id uuid
  | Bbk_Set_Sale_Order_Line_Id uuid
  | Bbk_Set_Status event_booth_booking_status
  | Bbk_Set_Partner_Id uuid
  | Bbk_Set_Contact_Name string
  | Bbk_Set_Contact_Email string
  | Bbk_Set_Contact_Phone string

fun booth_booking_builder_set :: "booth_booking_builder_call \<Rightarrow> booth_booking_builder \<Rightarrow> booth_booking_builder" where
  "booth_booking_builder_set (Bbk_Set_Event_Booth_Id x) b = b\<lparr>bbkb_event_booth_id := Some x\<rparr>"
| "booth_booking_builder_set (Bbk_Set_Sale_Order_Line_Id x) b = b\<lparr>bbkb_sale_order_line_id := Some x\<rparr>"
| "booth_booking_builder_set (Bbk_Set_Status x) b = b\<lparr>bbkb_status := Some x\<rparr>"
| "booth_booking_builder_set (Bbk_Set_Partner_Id x) b = b\<lparr>bbkb_partner_id := Some x\<rparr>"
| "booth_booking_builder_set (Bbk_Set_Contact_Name x) b = b\<lparr>bbkb_contact_name := Some x\<rparr>"
| "booth_booking_builder_set (Bbk_Set_Contact_Email x) b = b\<lparr>bbkb_contact_email := Some x\<rparr>"
| "booth_booking_builder_set (Bbk_Set_Contact_Phone x) b = b\<lparr>bbkb_contact_phone := Some x\<rparr>"

definition booth_booking_build :: "uuid \<Rightarrow> booth_booking_builder \<Rightarrow> string + booth_booking" where
  "booth_booking_build fresh b =
     bind_r (ok_or (bbkb_event_booth_id b) ''event_booth_id is required'') (\<lambda>event_booth_id'.
     Inr \<lparr>bbk_id = fresh, bbk_event_booth_id = event_booth_id',
        bbk_sale_order_line_id = bbkb_sale_order_line_id b,
        bbk_status = unwrap_or booth_booking_status_default (bbkb_status b),
        bbk_partner_id = bbkb_partner_id b, bbk_contact_name = bbkb_contact_name b,
        bbk_contact_email = bbkb_contact_email b, bbk_contact_phone = bbkb_contact_phone b,
        bbk_metadata = metadata_default\<rparr>)"

record booth_booking_filter =
  bbkf_event_booth_id :: "uuid option"
  bbkf_sale_order_line_id :: "uuid option"
  bbkf_status :: "event_booth_booking_status option"
  bbkf_partner_id :: "uuid option"
  bbkf_contact_name :: "string option"
  bbkf_contact_email :: "string option"
  bbkf_contact_phone :: "string option"

definition booth_booking_has_filters :: "booth_booking_filter \<Rightarrow> bool" where
  "booth_booking_has_filters f \<longleftrightarrow>
     bbkf_event_booth_id f \<noteq> None \<or> bbkf_sale_order_line_id f \<noteq> None \<or>
     bbkf_status f \<noteq> None \<or> bbkf_partner_id f \<noteq> None \<or>
     bbkf_contact_name f \<noteq> None \<or> bbkf_contact_email f \<noteq> None \<or>
     bbkf_contact_phone f \<noteq> None"

definition booth_booking_offset :: "page_params \<Rightarrow> 64 word" where
  "booth_booking_offset params = page_offset params"

definition booth_booking_table :: string where
  "booth_booking_table = ''event.booth_bookings''"

record create_booth_booking_dto =
  bbkc_event_booth_id :: uuid
  bbkc_sale_order_line_id :: "uuid option"
  bbkc_status :: event_booth_booking_status
  bbkc_partner_id :: "uuid option"
  bbkc_contact_name :: "string option"
  bbkc_contact_email :: "string option"
  bbkc_contact_phone :: "string option"

definition default_create_booth_booking_status :: event_booth_booking_status where
  "default_create_booth_booking_status = Booking_Pending"

definition booth_booking_of_create :: "uuid \<Rightarrow> create_booth_booking_dto \<Rightarrow> booth_booking" where
  "booth_booking_of_create fresh dto =
     \<lparr>bbk_id = fresh, bbk_event_booth_id = bbkc_event_booth_id dto,
      bbk_sale_order_line_id = bbkc_sale_order_line_id dto, bbk_status = bbkc_status dto,
      bbk_partner_id = bbkc_partner_id dto, bbk_contact_name = bbkc_contact_name dto,
      bbk_contact_email = bbkc_contact_email dto, bbk_contact_phone = bbkc_contact_phone dto,
      bbk_metadata = metadata_default\<rparr>"

record update_booth_booking_dto =
  bbku_event_booth_id :: uuid
  bbku_sale_order_line_id :: "uuid option"
  bbku_status :: event_booth_booking_status
  bbku_partner_id :: "uuid option"
  bbku_contact_name :: "string option"
  bbku_contact_email :: "string option"
  bbku_contact_phone :: "string option"

definition booth_booking_apply_update :: "update_booth_booking_dto \<Rightarrow> booth_booking \<Rightarrow> booth_booking" where
  "booth_booking_apply_update dto e =
     e\<lparr>bbk_event_booth_id := bbku_event_booth_id dto,
       bbk_sale_order_line_id := bbku_sale_order_line_id dto, bbk_status := bbku_status dto,
       bbk_partner_id := bbku_partner_id dto, bbk_contact_name := bbku_contact_name dto,
       bbk_contact_email := bbku_contact_email dto, bbk_contact_phone := bbku_contact_phone dto\<rparr>"

record patch_booth_booking_dto =
  bbkp_event_booth_id :: "uuid option"
  bbkp_sale_order_line_id :: "uuid option option"
  bbkp_status :: "event_booth_booking_status option"
  bbkp_partner_id :: "uuid option option"
  bbkp_contact_name :: "string option option"
  bbkp_contact_email :: "string option option"
  bbkp_contact_phone :: "string option option"

definition booth_booking_has_changes :: "patch_booth_booking_dto \<Rightarrow> bool" where
  "booth_booking_has_changes dto \<longleftrightarrow>
     bbkp_event_booth_id dto \<noteq> None \<or> bbkp_sale_order_line_id dto \<noteq> None \<or>
     bbkp_status dto \<noteq> None \<or> bbkp_partner_id dto \<noteq> None \<or>
     bbkp_contact_name dto \<noteq> None \<or> bbkp_contact_email dto \<noteq> None \<or>
     bbkp_contact_phone dto \<noteq> None"

record booth_booking_response_dto =
  bbkr_id :: uuid
  bbkr_event_booth_id :: uuid
  bbkr_sale_order_line_id :: "uuid option"
  bbkr_status :: event_booth_booking_status
  bbkr_partner_id :: "uuid option"
  bbkr_contact_name :: "string option"
  bbkr_contact_email :: "string option"
  bbkr_contact_phone :: "string option"
  bbkr_metadata :: audit_metadata

definition booth_booking_response :: "booth_booking \<Rightarrow> booth_booking_response_dto" where
  "booth_booking_response e =
     \<lparr>bbkr_id = bbk_id e, bbkr_event_booth_id = bbk_event_booth_id e,
      bbkr_sale_order_line_id = bbk_sale_order_line_id e, bbkr_status = bbk_status e,
      bbkr_partner_id = bbk_partner_id e, bbkr_contact_name = bbk_contact_name e,
      bbkr_contact_email = bbk_contact_email e, bbkr_contact_phone = bbk_contact_phone e,
      bbkr_metadata = bbk_metadata e\<rparr>"

definition booth_booking_list ::
    "booth_booking_response_dto list \<Rightarrow> nat \<Rightarrow> nat \<Rightarrow> nat \<Rightarrow> booth_booking_response_dto page" where
  "booth_booking_list items rows p per_page = new_page items rows p per_page"

record booth_booking_summary_dto =
  bbks_id :: uuid
  bbks_event_booth_id :: uuid
  bbks_sale_order_line_id :: "uuid option"
  bbks_status :: event_booth_booking_status
  bbks_created_at :: "timestamp option"

definition booth_booking_summary :: "booth_booking \<Rightarrow> booth_booking_summary_dto" where
  "booth_booking_summary e = \<lparr>bbks_id = bbk_id e, bbks_event_booth_id = bbk_event_booth_id e,
     bbks_sale_order_line_id = bbk_sale_order_line_id e, bbks_status = bbk_status e,
     bbks_created_at = am_created_at (bbk_metadata e)\<rparr>"

end
