(* ===== verification/EventEntities.thy ===== *)
theory EventEntities
  imports EntityBase Pages StateMachines
begin

text \<open>
  The generated entities and DTOs of events, event types, stages, tags, slots and tickets: the row structs of
  \<open>domain/entity\<close> with their constructors, chainable setters, generic patch, repository
  metadata and builder, and the DTOs of \<open>presentation/dto\<close> with their conversions. The rows are
  the full structs; the tables of the schema theory keep the columns the hand-written SQL uses.
  A fresh uuid is an argument.
\<close>

section \<open>\<open>Event\<close>\<close>

record event =
  evt_id :: uuid
  evt_name :: string
  evt_event_type_id :: "uuid option"
  evt_stage_id :: uuid
  evt_kanban_state :: event_kanban_state
  evt_date_begin :: timestamp
  evt_date_end :: timestamp
  evt_date_tz :: string
  evt_is_multi_slots :: bool
  evt_event_slot_count :: int
  evt_seats_limited :: bool
  evt_seats_max :: int
  evt_address_id :: "uuid option"
  evt_organizer_id :: "uuid option"
  evt_user_id :: "uuid option"
  evt_event_url :: "string option"
  evt_badge_format :: event_badge_format
  evt_is_published :: bool
  evt_date_publish :: "timestamp option"
  evt_metadata :: audit_metadata

definition event_fields :: "(string \<times> string) list" where
  "event_fields =
     [(''id'', ''Uuid''), (''name'', ''String''), (''event_type_id'', ''Option<Uuid>''),
      (''stage_id'', ''Uuid''), (''kanban_state'', ''EventKanbanState''),
      (''date_begin'', ''DateTime<Utc>''), (''date_end'', ''DateTime<Utc>''),
      (''date_tz'', ''String''), (''is_multi_slots'', ''bool''),
      (''event_slot_count'', ''i32''), (''seats_limited'', ''bool''), (''seats_max'', ''i32''),
      (''address_id'', ''Option<Uuid>''), (''organizer_id'', ''Option<Uuid>''),
      (''user_id'', ''Option<Uuid>''), (''event_url'', ''Option<String>''),
      (''badge_format'', ''EventBadgeFormat''), (''is_published'', ''bool''),
      (''date_publish'', ''Option<DateTime<Utc>>''), (''metadata'', ''AuditMetadata'')]"

definition event_new ::
    "uuid \<Rightarrow> string \<Rightarrow> uuid \<Rightarrow> event_kanban_state \<Rightarrow>
     timestamp \<Rightarrow> timestamp \<Rightarrow> string \<Rightarrow> bool \<Rightarrow>
     int \<Rightarrow> bool \<Rightarrow> int \<Rightarrow> event_badge_format \<Rightarrow>
     bool \<Rightarrow> event" where
  "event_new fresh name' stage_id' kanban_state' date_begin' date_end' date_tz' is_multi_slots' event_slot_count' seats_limited' seats_max' badge_format' is_published' =
     \<lparr>evt_id = fresh, evt_name = name', evt_event_type_id = None, evt_stage_id = stage_id',
      evt_kanban_state = kanban_state', evt_date_begin = date_begin', evt_date_end = date_end',
      evt_date_tz = date_tz', evt_is_multi_slots = is_multi_slots',
      evt_event_slot_count = event_slot_count', evt_seats_limited = seats_limited',
      evt_seats_max = seats_max', evt_address_id = None, evt_organizer_id = None,
      evt_user_id = None, evt_event_url = None, evt_badge_format = badge_format',
      evt_is_published = is_published', evt_date_publish = None, evt_metadata = metadata_default\<rparr>"

datatype event_setter =
    Evt_With_Event_Type_Id uuid
  | Evt_With_Address_Id uuid
  | Evt_With_Organizer_Id uuid
  | Evt_With_User_Id uuid
  | Evt_With_Event_Url string
  | Evt_With_Date_Publish timestamp

fun event_with :: "event_setter \<Rightarrow> event \<Rightarrow> event" where
  "event_with (Evt_With_Event_Type_Id x) e = e\<lparr>evt_event_type_id := Some x\<rparr>"
| "event_with (Evt_With_Address_Id x) e = e\<lparr>evt_address_id := Some x\<rparr>"
| "event_with (Evt_With_Organizer_Id x) e = e\<lparr>evt_organizer_id := Some x\<rparr>"
| "event_with (Evt_With_User_Id x) e = e\<lparr>evt_user_id := Some x\<rparr>"
| "event_with (Evt_With_Event_Url x) e = e\<lparr>evt_event_url := Some x\<rparr>"
| "event_with (Evt_With_Date_Publish x) e = e\<lparr>evt_date_publish := Some x\<rparr>"

definition event_arms :: "entity_env \<Rightarrow> event patch_arms" where
  "event_arms env =
     [(''name'', patch_with value_string evt_name_update),
      (''event_type_id'', patch_with (value_option (value_uuid env)) evt_event_type_id_update),
      (''stage_id'', patch_with (value_uuid env) evt_stage_id_update),
      (''kanban_state'', patch_with (value_variant kanban_state_to_str [Kanban_Normal, Kanban_Done, Kanban_Blocked, Kanban_Cancel]) evt_kanban_state_update),
      (''date_begin'', patch_with (value_time env) evt_date_begin_update),
      (''date_end'', patch_with (value_time env) evt_date_end_update),
      (''date_tz'', patch_with value_string evt_date_tz_update),
      (''is_multi_slots'', patch_with value_bool evt_is_multi_slots_update),
      (''event_slot_count'', patch_with value_i32 evt_event_slot_count_update),
      (''seats_limited'', patch_with value_bool evt_seats_limited_update),
      (''seats_max'', patch_with value_i32 evt_seats_max_update),
      (''address_id'', patch_with (value_option (value_uuid env)) evt_address_id_update),
      (''organizer_id'', patch_with (value_option (value_uuid env)) evt_organizer_id_update),
      (''user_id'', patch_with (value_option (value_uuid env)) evt_user_id_update),
      (''event_url'', patch_with (value_option value_string) evt_event_url_update),
      (''badge_format'', patch_with (value_variant badge_format_to_str [Badge_A4FrenchFold, Badge_A6, Badge_FourPerSheet]) evt_badge_format_update),
      (''is_published'', patch_with value_bool evt_is_published_update),
      (''date_publish'', patch_with (value_option (value_time env)) evt_date_publish_update)]"

definition event_apply_patch :: "entity_env \<Rightarrow> (string \<times> json) list \<Rightarrow> event \<Rightarrow> event" where
  "event_apply_patch env = patch_fields (event_arms env)"

interpretation event_patch: patchable "event_arms env"
    "\<lambda>e. (evt_id e, evt_metadata e)" for env
  by unfold_locales (simp_all add: event_arms_def)

definition event_references :: "(string \<times> string \<times> string) list" where
  "event_references =
     [(''event_type_id'', ''event.types'', ''id''), (''stage_id'', ''event.stages'', ''id'')]"

fun event_persist :: "entity_env \<Rightarrow> persist_call \<Rightarrow> event \<Rightarrow> event" where
  "event_persist env (Set_Entity_Id i) e =
     (case en_uuid env i of Some u \<Rightarrow> e\<lparr>evt_id := u\<rparr> | None \<Rightarrow> e)"
| "event_persist env (Set_Created_At ts) e = e\<lparr>evt_metadata := (evt_metadata e)\<lparr>am_created_at := Some ts\<rparr>\<rparr>"
| "event_persist env (Set_Updated_At ts) e = e\<lparr>evt_metadata := (evt_metadata e)\<lparr>am_updated_at := Some ts\<rparr>\<rparr>"
| "event_persist env (Set_Deleted_At ts) e = e\<lparr>evt_metadata := (evt_metadata e)\<lparr>am_deleted_at := ts\<rparr>\<rparr>"

definition event_columns :: "(string \<times> string) list" where
  "event_columns =
     [(''id'', ''uuid''), (''event_type_id'', ''uuid''), (''stage_id'', ''uuid''),
      (''address_id'', ''uuid''), (''organizer_id'', ''uuid''), (''user_id'', ''uuid''),
      (''kanban_state'', ''event_kanban_state''), (''badge_format'', ''event_badge_format''),
      (''date_begin'', ''timestamptz''), (''date_end'', ''timestamptz''),
      (''date_publish'', ''timestamptz'')]"

definition event_search_fields :: "string list" where
  "event_search_fields = [''name'', ''date_tz'']"

definition event_relations :: "(string \<times> string \<times> string) list" where
  "event_relations =
     [(''eventType'', ''types'', ''eventTypeId''), (''stage'', ''stages'', ''stageId'')]"

record event_builder =
  evtb_name :: "string option"
  evtb_event_type_id :: "uuid option"
  evtb_stage_id :: "uuid option"
  evtb_kanban_state :: "event_kanban_state option"
  evtb_date_begin :: "timestamp option"
  evtb_date_end :: "timestamp option"
  evtb_date_tz :: "string option"
  evtb_is_multi_slots :: "bool option"
  evtb_event_slot_count :: "int option"
  evtb_seats_limited :: "bool option"
  evtb_seats_max :: "int option"
  evtb_address_id :: "uuid option"
  evtb_organizer_id :: "uuid option"
  evtb_user_id :: "uuid option"
  evtb_event_url :: "string option"
  evtb_badge_format :: "event_badge_format option"
  evtb_is_published :: "bool option"
  evtb_date_publish :: "timestamp option"

definition event_builder_default :: event_builder where
  "event_builder_default = \<lparr>evtb_name = None, evtb_event_type_id = None, evtb_stage_id = None,
     evtb_kanban_state = None, evtb_date_begin = None, evtb_date_end = None,
     evtb_date_tz = None, evtb_is_multi_slots = None, evtb_event_slot_count = None,
     evtb_seats_limited = None, evtb_seats_max = None, evtb_address_id = None,
     evtb_organizer_id = None, evtb_user_id = None, evtb_event_url = None,
     evtb_badge_format = None, evtb_is_published = None, evtb_date_publish = None\<rparr>"

datatype event_builder_call =
    Evt_Set_Name string
  | Evt_Set_Event_Type_Id uuid
  | Evt_Set_Stage_Id uuid
  | Evt_Set_Kanban_State event_kanban_state
  | Evt_Set_Date_Begin timestamp
  | Evt_Set_Date_End timestamp
  | Evt_Set_Date_Tz string
  | Evt_Set_Is_Multi_Slots bool
  | Evt_Set_Event_Slot_Count int
  | Evt_Set_Seats_Limited bool
  | Evt_Set_Seats_Max int
  | Evt_Set_Address_Id uuid
  | Evt_Set_Organizer_Id uuid
  | Evt_Set_User_Id uuid
  | Evt_Set_Event_Url string
  | Evt_Set_Badge_Format event_badge_format
  | Evt_Set_Is_Published bool
  | Evt_Set_Date_Publish timestamp

fun event_builder_set :: "event_builder_call \<Rightarrow> event_builder \<Rightarrow> event_builder" where
  "event_builder_set (Evt_Set_Name x) b = b\<lparr>evtb_name := Some x\<rparr>"
| "event_builder_set (Evt_Set_Event_Type_Id x) b = b\<lparr>evtb_event_type_id := Some x\<rparr>"
| "event_builder_set (Evt_Set_Stage_Id x) b = b\<lparr>evtb_stage_id := Some x\<rparr>"
| "event_builder_set (Evt_Set_Kanban_State x) b = b\<lparr>evtb_kanban_state := Some x\<rparr>"
| "event_builder_set (Evt_Set_Date_Begin x) b = b\<lparr>evtb_date_begin := Some x\<rparr>"
| "event_builder_set (Evt_Set_Date_End x) b = b\<lparr>evtb_date_end := Some x\<rparr>"
| "event_builder_set (Evt_Set_Date_Tz x) b = b\<lparr>evtb_date_tz := Some x\<rparr>"
| "event_builder_set (Evt_Set_Is_Multi_Slots x) b = b\<lparr>evtb_is_multi_slots := Some x\<rparr>"
| "event_builder_set (Evt_Set_Event_Slot_Count x) b = b\<lparr>evtb_event_slot_count := Some x\<rparr>"
| "event_builder_set (Evt_Set_Seats_Limited x) b = b\<lparr>evtb_seats_limited := Some x\<rparr>"
| "event_builder_set (Evt_Set_Seats_Max x) b = b\<lparr>evtb_seats_max := Some x\<rparr>"
| "event_builder_set (Evt_Set_Address_Id x) b = b\<lparr>evtb_address_id := Some x\<rparr>"
| "event_builder_set (Evt_Set_Organizer_Id x) b = b\<lparr>evtb_organizer_id := Some x\<rparr>"
| "event_builder_set (Evt_Set_User_Id x) b = b\<lparr>evtb_user_id := Some x\<rparr>"
| "event_builder_set (Evt_Set_Event_Url x) b = b\<lparr>evtb_event_url := Some x\<rparr>"
| "event_builder_set (Evt_Set_Badge_Format x) b = b\<lparr>evtb_badge_format := Some x\<rparr>"
| "event_builder_set (Evt_Set_Is_Published x) b = b\<lparr>evtb_is_published := Some x\<rparr>"
| "event_builder_set (Evt_Set_Date_Publish x) b = b\<lparr>evtb_date_publish := Some x\<rparr>"

definition event_build :: "uuid \<Rightarrow> event_builder \<Rightarrow> string + event" where
  "event_build fresh b =
     bind_r (ok_or (evtb_name b) ''name is required'') (\<lambda>name'.
     bind_r (ok_or (evtb_stage_id b) ''stage_id is required'') (\<lambda>stage_id'.
     bind_r (ok_or (evtb_date_begin b) ''date_begin is required'') (\<lambda>date_begin'.
     bind_r (ok_or (evtb_date_end b) ''date_end is required'') (\<lambda>date_end'.
     Inr \<lparr>evt_id = fresh, evt_name = name', evt_event_type_id = evtb_event_type_id b,
        evt_stage_id = stage_id',
        evt_kanban_state = unwrap_or kanban_state_default (evtb_kanban_state b),
        evt_date_begin = date_begin', evt_date_end = date_end',
        evt_date_tz = unwrap_or [] (evtb_date_tz b),
        evt_is_multi_slots = unwrap_or False (evtb_is_multi_slots b),
        evt_event_slot_count = unwrap_or 1 (evtb_event_slot_count b),
        evt_seats_limited = unwrap_or False (evtb_seats_limited b),
        evt_seats_max = unwrap_or 0 (evtb_seats_max b), evt_address_id = evtb_address_id b,
        evt_organizer_id = evtb_organizer_id b, evt_user_id = evtb_user_id b,
        evt_event_url = evtb_event_url b,
        evt_badge_format = unwrap_or badge_format_default (evtb_badge_format b),
        evt_is_published = unwrap_or False (evtb_is_published b),
        evt_date_publish = evtb_date_publish b, evt_metadata = metadata_default\<rparr>))))"

record event_filter =
  evtf_name :: "string option"
  evtf_event_type_id :: "uuid option"
  evtf_stage_id :: "uuid option"
  evtf_kanban_state :: "event_kanban_state option"
  evtf_date_tz :: "string option"
  evtf_is_multi_slots :: "bool option"
  evtf_seats_limited :: "bool option"
  evtf_address_id :: "uuid option"
  evtf_organizer_id :: "uuid option"
  evtf_user_id :: "uuid option"
  evtf_badge_format :: "event_badge_format option"
  evtf_is_published :: "bool option"

definition event_has_filters :: "event_filter \<Rightarrow> bool" where
  "event_has_filters f \<longleftrightarrow>
     evtf_name f \<noteq> None \<or> evtf_event_type_id f \<noteq> None \<or>
     evtf_stage_id f \<noteq> None \<or> evtf_kanban_state f \<noteq> None \<or>
     evtf_date_tz f \<noteq> None \<or> evtf_is_multi_slots f \<noteq> None \<or>
     evtf_seats_limited f \<noteq> None \<or> evtf_address_id f \<noteq> None \<or>
     evtf_organizer_id f \<noteq> None \<or> evtf_user_id f \<noteq> None \<or>
     evtf_badge_format f \<noteq> None \<or> evtf_is_published f \<noteq> None"

definition event_offset :: "page_params \<Rightarrow> 64 word" where
  "event_offset params = page_offset params"

definition event_table :: string where
  "event_table = ''event.events''"

record create_event_dto =
  evtc_name :: string
  evtc_event_type_id :: "uuid option"
  evtc_stage_id :: uuid
  evtc_kanban_state :: event_kanban_state
  evtc_date_begin :: timestamp
  evtc_date_end :: timestamp
  evtc_date_tz :: string
  evtc_is_multi_slots :: bool
  evtc_event_slot_count :: int
  evtc_seats_limited :: bool
  evtc_seats_max :: int
  evtc_address_id :: "uuid option"
  evtc_organizer_id :: "uuid option"
  evtc_user_id :: "uuid option"
  evtc_event_url :: "string option"
  evtc_badge_format :: event_badge_format
  evtc_is_published :: bool
  evtc_date_publish :: "timestamp option"

definition default_create_event_kanban_state :: event_kanban_state where
  "default_create_event_kanban_state = Kanban_Normal"

definition default_create_event_date_tz :: string where
  "default_create_event_date_tz = ''UTC''"

definition default_create_event_event_slot_count :: int where
  "default_create_event_event_slot_count = 1"

definition default_create_event_badge_format :: event_badge_format where
  "default_create_event_badge_format = Badge_A4FrenchFold"

definition event_of_create :: "uuid \<Rightarrow> create_event_dto \<Rightarrow> event" where
  "event_of_create fresh dto =
     \<lparr>evt_id = fresh, evt_name = evtc_name dto, evt_event_type_id = evtc_event_type_id dto,
      evt_stage_id = evtc_stage_id dto, evt_kanban_state = evtc_kanban_state dto,
      evt_date_begin = evtc_date_begin dto, evt_date_end = evtc_date_end dto,
      evt_date_tz = evtc_date_tz dto, evt_is_multi_slots = evtc_is_multi_slots dto,
      evt_event_slot_count = evtc_event_slot_count dto,
      evt_seats_limited = evtc_seats_limited dto, evt_seats_max = evtc_seats_max dto,
      evt_address_id = evtc_address_id dto, evt_organizer_id = evtc_organizer_id dto,
      evt_user_id = evtc_user_id dto, evt_event_url = evtc_event_url dto,
      evt_badge_format = evtc_badge_format dto, evt_is_published = evtc_is_published dto,
      evt_date_publish = evtc_date_publish dto, evt_metadata = metadata_default\<rparr>"

record update_event_dto =
  evtu_name :: string
  evtu_event_type_id :: "uuid option"
  evtu_stage_id :: uuid
  evtu_kanban_state :: event_kanban_state
  evtu_date_begin :: timestamp
  evtu_date_end :: timestamp
  evtu_date_tz :: string
  evtu_is_multi_slots :: bool
  evtu_event_slot_count :: int
  evtu_seats_limited :: bool
  evtu_seats_max :: int
  evtu_address_id :: "uuid option"
  evtu_organizer_id :: "uuid option"
  evtu_user_id :: "uuid option"
  evtu_event_url :: "string option"
  evtu_badge_format :: event_badge_format
  evtu_is_published :: bool
  evtu_date_publish :: "timestamp option"

definition event_apply_update :: "update_event_dto \<Rightarrow> event \<Rightarrow> event" where
  "event_apply_update dto e =
     e\<lparr>evt_name := evtu_name dto, evt_event_type_id := evtu_event_type_id dto,
       evt_stage_id := evtu_stage_id dto, evt_kanban_state := evtu_kanban_state dto,
       evt_date_begin := evtu_date_begin dto, evt_date_end := evtu_date_end dto,
       evt_date_tz := evtu_date_tz dto, evt_is_multi_slots := evtu_is_multi_slots dto,
       evt_event_slot_count := evtu_event_slot_count dto,
       evt_seats_limited := evtu_seats_limited dto, evt_seats_max := evtu_seats_max dto,
       evt_address_id := evtu_address_id dto, evt_organizer_id := evtu_organizer_id dto,
       evt_user_id := evtu_user_id dto, evt_event_url := evtu_event_url dto,
       evt_badge_format := evtu_badge_format dto, evt_is_published := evtu_is_published dto,
       evt_date_publish := evtu_date_publish dto\<rparr>"

record patch_event_dto =
  evtp_name :: "string option"
  evtp_event_type_id :: "uuid option option"
  evtp_stage_id :: "uuid option"
  evtp_kanban_state :: "event_kanban_state option"
  evtp_date_begin :: "timestamp option"
  evtp_date_end :: "timestamp option"
  evtp_date_tz :: "string option"
  evtp_is_multi_slots :: "bool option"
  evtp_event_slot_count :: "int option"
  evtp_seats_limited :: "bool option"
  evtp_seats_max :: "int option"
  evtp_address_id :: "uuid option option"
  evtp_organizer_id :: "uuid option option"
  evtp_user_id :: "uuid option option"
  evtp_event_url :: "string option option"
  evtp_badge_format :: "event_badge_format option"
  evtp_is_published :: "bool option"
  evtp_date_publish :: "timestamp option option"

definition event_has_changes :: "patch_event_dto \<Rightarrow> bool" where
  "event_has_changes dto \<longleftrightarrow>
     evtp_name dto \<noteq> None \<or> evtp_event_type_id dto \<noteq> None \<or>
     evtp_stage_id dto \<noteq> None \<or> evtp_kanban_state dto \<noteq> None \<or>
     evtp_date_begin dto \<noteq> None \<or> evtp_date_end dto \<noteq> None \<or>
     evtp_date_tz dto \<noteq> None \<or> evtp_is_multi_slots dto \<noteq> None \<or>
     evtp_event_slot_count dto \<noteq> None \<or> evtp_seats_limited dto \<noteq> None \<or>
     evtp_seats_max dto \<noteq> None \<or> evtp_address_id dto \<noteq> None \<or>
     evtp_organizer_id dto \<noteq> None \<or> evtp_user_id dto \<noteq> None \<or>
     evtp_event_url dto \<noteq> None \<or> evtp_badge_format dto \<noteq> None \<or>
     evtp_is_published dto \<noteq> None \<or> evtp_date_publish dto \<noteq> None"

record event_response_dto =
  evtr_id :: uuid
  evtr_name :: string
  evtr_event_type_id :: "uuid option"
  evtr_stage_id :: uuid
  evtr_kanban_state :: event_kanban_state
  evtr_date_begin :: timestamp
  evtr_date_end :: timestamp
  evtr_date_tz :: string
  evtr_is_multi_slots :: bool
  evtr_event_slot_count :: int
  evtr_seats_limited :: bool
  evtr_seats_max :: int
  evtr_address_id :: "uuid option"
  evtr_organizer_id :: "uuid option"
  evtr_user_id :: "uuid option"
  evtr_event_url :: "string option"
  evtr_badge_format :: event_badge_format
  evtr_is_published :: bool
  evtr_date_publish :: "timestamp option"
  evtr_metadata :: audit_metadata

definition event_response :: "event \<Rightarrow> event_response_dto" where
  "event_response e =
     \<lparr>evtr_id = evt_id e, evtr_name = evt_name e, evtr_event_type_id = evt_event_type_id e,
      evtr_stage_id = evt_stage_id e, evtr_kanban_state = evt_kanban_state e,
      evtr_date_begin = evt_date_begin e, evtr_date_end = evt_date_end e,
      evtr_date_tz = evt_date_tz e, evtr_is_multi_slots = evt_is_multi_slots e,
      evtr_event_slot_count = evt_event_slot_count e, evtr_seats_limited = evt_seats_limited e,
      evtr_seats_max = evt_seats_max e, evtr_address_id = evt_address_id e,
      evtr_organizer_id = evt_organizer_id e, evtr_user_id = evt_user_id e,
      evtr_event_url = evt_event_url e, evtr_badge_format = evt_badge_format e,
      evtr_is_published = evt_is_published e, evtr_date_publish = evt_date_publish e,
      evtr_metadata = evt_metadata e\<rparr>"

definition event_list ::
    "event_response_dto list \<Rightarrow> nat \<Rightarrow> nat \<Rightarrow> nat \<Rightarrow> event_response_dto page" where
  "event_list items rows p per_page = new_page items rows p per_page"

record event_summary_dto =
  evts_id :: uuid
  evts_name :: string
  evts_event_type_id :: "uuid option"
  evts_stage_id :: uuid
  evts_created_at :: "timestamp option"

definition event_summary :: "event \<Rightarrow> event_summary_dto" where
  "event_summary e = \<lparr>evts_id = evt_id e, evts_name = evt_name e, evts_event_type_id = evt_event_type_id e,
     evts_stage_id = evt_stage_id e, evts_created_at = am_created_at (evt_metadata e)\<rparr>"

section \<open>\<open>EventType\<close>\<close>

record event_type =
  ety_id :: uuid
  ety_name :: string
  ety_description :: "string option"
  ety_seats_limited :: bool
  ety_seats_max :: int
  ety_default_date_tz :: string
  ety_is_multi_slots :: bool
  ety_metadata :: audit_metadata

definition event_type_fields :: "(string \<times> string) list" where
  "event_type_fields =
     [(''id'', ''Uuid''), (''name'', ''String''), (''description'', ''Option<String>''),
      (''seats_limited'', ''bool''), (''seats_max'', ''i32''),
      (''default_date_tz'', ''String''), (''is_multi_slots'', ''bool''),
      (''metadata'', ''AuditMetadata'')]"

definition event_type_new ::
    "uuid \<Rightarrow> string \<Rightarrow> bool \<Rightarrow> int \<Rightarrow>
     string \<Rightarrow> bool \<Rightarrow> event_type" where
  "event_type_new fresh name' seats_limited' seats_max' default_date_tz' is_multi_slots' =
     \<lparr>ety_id = fresh, ety_name = name', ety_description = None,
      ety_seats_limited = seats_limited', ety_seats_max = seats_max',
      ety_default_date_tz = default_date_tz', ety_is_multi_slots = is_multi_slots',
      ety_metadata = metadata_default\<rparr>"

datatype event_type_setter =
    Ety_With_Description string

fun event_type_with :: "event_type_setter \<Rightarrow> event_type \<Rightarrow> event_type" where
  "event_type_with (Ety_With_Description x) e = e\<lparr>ety_description := Some x\<rparr>"

definition event_type_arms :: "entity_env \<Rightarrow> event_type patch_arms" where
  "event_type_arms env =
     [(''name'', patch_with value_string ety_name_update),
      (''description'', patch_with (value_option value_string) ety_description_update),
      (''seats_limited'', patch_with value_bool ety_seats_limited_update),
      (''seats_max'', patch_with value_i32 ety_seats_max_update),
      (''default_date_tz'', patch_with value_string ety_default_date_tz_update),
      (''is_multi_slots'', patch_with value_bool ety_is_multi_slots_update)]"

definition event_type_apply_patch :: "entity_env \<Rightarrow> (string \<times> json) list \<Rightarrow> event_type \<Rightarrow> event_type" where
  "event_type_apply_patch env = patch_fields (event_type_arms env)"

interpretation event_type_patch: patchable "event_type_arms env"
    "\<lambda>e. (ety_id e, ety_metadata e)" for env
  by unfold_locales (simp_all add: event_type_arms_def)

fun event_type_persist :: "entity_env \<Rightarrow> persist_call \<Rightarrow> event_type \<Rightarrow> event_type" where
  "event_type_persist env (Set_Entity_Id i) e =
     (case en_uuid env i of Some u \<Rightarrow> e\<lparr>ety_id := u\<rparr> | None \<Rightarrow> e)"
| "event_type_persist env (Set_Created_At ts) e = e\<lparr>ety_metadata := (ety_metadata e)\<lparr>am_created_at := Some ts\<rparr>\<rparr>"
| "event_type_persist env (Set_Updated_At ts) e = e\<lparr>ety_metadata := (ety_metadata e)\<lparr>am_updated_at := Some ts\<rparr>\<rparr>"
| "event_type_persist env (Set_Deleted_At ts) e = e\<lparr>ety_metadata := (ety_metadata e)\<lparr>am_deleted_at := ts\<rparr>\<rparr>"

definition event_type_columns :: "(string \<times> string) list" where
  "event_type_columns =
     [(''id'', ''uuid'')]"

definition event_type_search_fields :: "string list" where
  "event_type_search_fields = [''name'', ''default_date_tz'']"

record event_type_builder =
  etyb_name :: "string option"
  etyb_description :: "string option"
  etyb_seats_limited :: "bool option"
  etyb_seats_max :: "int option"
  etyb_default_date_tz :: "string option"
  etyb_is_multi_slots :: "bool option"

definition event_type_builder_default :: event_type_builder where
  "event_type_builder_default = \<lparr>etyb_name = None, etyb_description = None, etyb_seats_limited = None,
     etyb_seats_max = None, etyb_default_date_tz = None, etyb_is_multi_slots = None\<rparr>"

datatype event_type_builder_call =
    Ety_Set_Name string
  | Ety_Set_Description string
  | Ety_Set_Seats_Limited bool
  | Ety_Set_Seats_Max int
  | Ety_Set_Default_Date_Tz string
  | Ety_Set_Is_Multi_Slots bool

fun event_type_builder_set :: "event_type_builder_call \<Rightarrow> event_type_builder \<Rightarrow> event_type_builder" where
  "event_type_builder_set (Ety_Set_Name x) b = b\<lparr>etyb_name := Some x\<rparr>"
| "event_type_builder_set (Ety_Set_Description x) b = b\<lparr>etyb_description := Some x\<rparr>"
| "event_type_builder_set (Ety_Set_Seats_Limited x) b = b\<lparr>etyb_seats_limited := Some x\<rparr>"
| "event_type_builder_set (Ety_Set_Seats_Max x) b = b\<lparr>etyb_seats_max := Some x\<rparr>"
| "event_type_builder_set (Ety_Set_Default_Date_Tz x) b = b\<lparr>etyb_default_date_tz := Some x\<rparr>"
| "event_type_builder_set (Ety_Set_Is_Multi_Slots x) b = b\<lparr>etyb_is_multi_slots := Some x\<rparr>"

definition event_type_build :: "uuid \<Rightarrow> event_type_builder \<Rightarrow> string + event_type" where
  "event_type_build fresh b =
     bind_r (ok_or (etyb_name b) ''name is required'') (\<lambda>name'.
     Inr \<lparr>ety_id = fresh, ety_name = name', ety_description = etyb_description b,
        ety_seats_limited = unwrap_or False (etyb_seats_limited b),
        ety_seats_max = unwrap_or 0 (etyb_seats_max b),
        ety_default_date_tz = unwrap_or [] (etyb_default_date_tz b),
        ety_is_multi_slots = unwrap_or False (etyb_is_multi_slots b),
        ety_metadata = metadata_default\<rparr>)"

record event_type_filter =
  etyf_name :: "string option"
  etyf_description :: "string option"
  etyf_seats_limited :: "bool option"
  etyf_default_date_tz :: "string option"
  etyf_is_multi_slots :: "bool option"

definition event_type_has_filters :: "event_type_filter \<Rightarrow> bool" where
  "event_type_has_filters f \<longleftrightarrow>
     etyf_name f \<noteq> None \<or> etyf_description f \<noteq> None \<or>
     etyf_seats_limited f \<noteq> None \<or> etyf_default_date_tz f \<noteq> None \<or>
     etyf_is_multi_slots f \<noteq> None"

definition event_type_offset :: "page_params \<Rightarrow> 64 word" where
  "event_type_offset params = page_offset params"

definition event_type_table :: string where
  "event_type_table = ''event.types''"

record create_event_type_dto =
  etyc_name :: string
  etyc_description :: "string option"
  etyc_seats_limited :: bool
  etyc_seats_max :: int
  etyc_default_date_tz :: string
  etyc_is_multi_slots :: bool

definition default_create_event_type_default_date_tz :: string where
  "default_create_event_type_default_date_tz = ''UTC''"

definition event_type_of_create :: "uuid \<Rightarrow> create_event_type_dto \<Rightarrow> event_type" where
  "event_type_of_create fresh dto =
     \<lparr>ety_id = fresh, ety_name = etyc_name dto, ety_description = etyc_description dto,
      ety_seats_limited = etyc_seats_limited dto, ety_seats_max = etyc_seats_max dto,
      ety_default_date_tz = etyc_default_date_tz dto,
      ety_is_multi_slots = etyc_is_multi_slots dto, ety_metadata = metadata_default\<rparr>"

record update_event_type_dto =
  etyu_name :: string
  etyu_description :: "string option"
  etyu_seats_limited :: bool
  etyu_seats_max :: int
  etyu_default_date_tz :: string
  etyu_is_multi_slots :: bool

definition event_type_apply_update :: "update_event_type_dto \<Rightarrow> event_type \<Rightarrow> event_type" where
  "event_type_apply_update dto e =
     e\<lparr>ety_name := etyu_name dto, ety_description := etyu_description dto,
       ety_seats_limited := etyu_seats_limited dto, ety_seats_max := etyu_seats_max dto,
       ety_default_date_tz := etyu_default_date_tz dto,
       ety_is_multi_slots := etyu_is_multi_slots dto\<rparr>"

record patch_event_type_dto =
  etyp_name :: "string option"
  etyp_description :: "string option option"
  etyp_seats_limited :: "bool option"
  etyp_seats_max :: "int option"
  etyp_default_date_tz :: "string option"
  etyp_is_multi_slots :: "bool option"

definition event_type_has_changes :: "patch_event_type_dto \<Rightarrow> bool" where
  "event_type_has_changes dto \<longleftrightarrow>
     etyp_name dto \<noteq> None \<or> etyp_description dto \<noteq> None \<or>
     etyp_seats_limited dto \<noteq> None \<or> etyp_seats_max dto \<noteq> None \<or>
     etyp_default_date_tz dto \<noteq> None \<or> etyp_is_multi_slots dto \<noteq> None"

record event_type_response_dto =
  etyr_id :: uuid
  etyr_name :: string
  etyr_description :: "string option"
  etyr_seats_limited :: bool
  etyr_seats_max :: int
  etyr_default_date_tz :: string
  etyr_is_multi_slots :: bool
  etyr_metadata :: audit_metadata

definition event_type_response :: "event_type \<Rightarrow> event_type_response_dto" where
  "event_type_response e =
     \<lparr>etyr_id = ety_id e, etyr_name = ety_name e, etyr_description = ety_description e,
      etyr_seats_limited = ety_seats_limited e, etyr_seats_max = ety_seats_max e,
      etyr_default_date_tz = ety_default_date_tz e, etyr_is_multi_slots = ety_is_multi_slots e,
      etyr_metadata = ety_metadata e\<rparr>"

definition event_type_list ::
    "event_type_response_dto list \<Rightarrow> nat \<Rightarrow> nat \<Rightarrow> nat \<Rightarrow> event_type_response_dto page" where
  "event_type_list items rows p per_page = new_page items rows p per_page"

record event_type_summary_dto =
  etys_id :: uuid
  etys_name :: string
  etys_description :: "string option"
  etys_seats_limited :: bool
  etys_created_at :: "timestamp option"

definition event_type_summary :: "event_type \<Rightarrow> event_type_summary_dto" where
  "event_type_summary e = \<lparr>etys_id = ety_id e, etys_name = ety_name e, etys_description = ety_description e,
     etys_seats_limited = ety_seats_limited e, etys_created_at = am_created_at (ety_metadata e)\<rparr>"

section \<open>\<open>Stage\<close>\<close>

record stage =
  stg_id :: uuid
  stg_name :: string
  stg_sequence :: int
  stg_fold :: bool
  stg_pipe_end :: bool
  stg_metadata :: audit_metadata

definition stage_fields :: "(string \<times> string) list" where
  "stage_fields =
     [(''id'', ''Uuid''), (''name'', ''String''), (''sequence'', ''i32''), (''fold'', ''bool''),
      (''pipe_end'', ''bool''), (''metadata'', ''AuditMetadata'')]"

definition stage_new ::
    "uuid \<Rightarrow> string \<Rightarrow> int \<Rightarrow> bool \<Rightarrow>
     bool \<Rightarrow> stage" where
  "stage_new fresh name' sequence' fold' pipe_end' =
     \<lparr>stg_id = fresh, stg_name = name', stg_sequence = sequence', stg_fold = fold',
      stg_pipe_end = pipe_end', stg_metadata = metadata_default\<rparr>"

definition stage_arms :: "entity_env \<Rightarrow> stage patch_arms" where
  "stage_arms env =
     [(''name'', patch_with value_string stg_name_update),
      (''sequence'', patch_with value_i32 stg_sequence_update),
      (''fold'', patch_with value_bool stg_fold_update),
      (''pipe_end'', patch_with value_bool stg_pipe_end_update)]"

definition stage_apply_patch :: "entity_env \<Rightarrow> (string \<times> json) list \<Rightarrow> stage \<Rightarrow> stage" where
  "stage_apply_patch env = patch_fields (stage_arms env)"

interpretation stage_patch: patchable "stage_arms env"
    "\<lambda>e. (stg_id e, stg_metadata e)" for env
  by unfold_locales (simp_all add: stage_arms_def)

fun stage_persist :: "entity_env \<Rightarrow> persist_call \<Rightarrow> stage \<Rightarrow> stage" where
  "stage_persist env (Set_Entity_Id i) e =
     (case en_uuid env i of Some u \<Rightarrow> e\<lparr>stg_id := u\<rparr> | None \<Rightarrow> e)"
| "stage_persist env (Set_Created_At ts) e = e\<lparr>stg_metadata := (stg_metadata e)\<lparr>am_created_at := Some ts\<rparr>\<rparr>"
| "stage_persist env (Set_Updated_At ts) e = e\<lparr>stg_metadata := (stg_metadata e)\<lparr>am_updated_at := Some ts\<rparr>\<rparr>"
| "stage_persist env (Set_Deleted_At ts) e = e\<lparr>stg_metadata := (stg_metadata e)\<lparr>am_deleted_at := ts\<rparr>\<rparr>"

definition stage_columns :: "(string \<times> string) list" where
  "stage_columns =
     [(''id'', ''uuid'')]"

definition stage_search_fields :: "string list" where
  "stage_search_fields = [''name'']"

record stage_builder =
  stgb_name :: "string option"
  stgb_sequence :: "int option"
  stgb_fold :: "bool option"
  stgb_pipe_end :: "bool option"

definition stage_builder_default :: stage_builder where
  "stage_builder_default = \<lparr>stgb_name = None, stgb_sequence = None, stgb_fold = None, stgb_pipe_end = None\<rparr>"

datatype stage_builder_call =
    Stg_Set_Name string
  | Stg_Set_Sequence int
  | Stg_Set_Fold bool
  | Stg_Set_Pipe_End bool

fun stage_builder_set :: "stage_builder_call \<Rightarrow> stage_builder \<Rightarrow> stage_builder" where
  "stage_builder_set (Stg_Set_Name x) b = b\<lparr>stgb_name := Some x\<rparr>"
| "stage_builder_set (Stg_Set_Sequence x) b = b\<lparr>stgb_sequence := Some x\<rparr>"
| "stage_builder_set (Stg_Set_Fold x) b = b\<lparr>stgb_fold := Some x\<rparr>"
| "stage_builder_set (Stg_Set_Pipe_End x) b = b\<lparr>stgb_pipe_end := Some x\<rparr>"

definition stage_build :: "uuid \<Rightarrow> stage_builder \<Rightarrow> string + stage" where
  "stage_build fresh b =
     bind_r (ok_or (stgb_name b) ''name is required'') (\<lambda>name'.
     Inr \<lparr>stg_id = fresh, stg_name = name', stg_sequence = unwrap_or 1 (stgb_sequence b),
        stg_fold = unwrap_or False (stgb_fold b),
        stg_pipe_end = unwrap_or False (stgb_pipe_end b), stg_metadata = metadata_default\<rparr>)"

record stage_filter =
  stgf_name :: "string option"
  stgf_fold :: "bool option"
  stgf_pipe_end :: "bool option"

definition stage_has_filters :: "stage_filter \<Rightarrow> bool" where
  "stage_has_filters f \<longleftrightarrow>
     stgf_name f \<noteq> None \<or> stgf_fold f \<noteq> None \<or>
     stgf_pipe_end f \<noteq> None"

definition stage_offset :: "page_params \<Rightarrow> 64 word" where
  "stage_offset params = page_offset params"

definition stage_table :: string where
  "stage_table = ''event.stages''"

record create_stage_dto =
  stgc_name :: string
  stgc_sequence :: int
  stgc_fold :: bool
  stgc_pipe_end :: bool

definition default_create_stage_sequence :: int where
  "default_create_stage_sequence = 1"

definition stage_of_create :: "uuid \<Rightarrow> create_stage_dto \<Rightarrow> stage" where
  "stage_of_create fresh dto =
     \<lparr>stg_id = fresh, stg_name = stgc_name dto, stg_sequence = stgc_sequence dto,
      stg_fold = stgc_fold dto, stg_pipe_end = stgc_pipe_end dto,
      stg_metadata = metadata_default\<rparr>"

record update_stage_dto =
  stgu_name :: string
  stgu_sequence :: int
  stgu_fold :: bool
  stgu_pipe_end :: bool

definition stage_apply_update :: "update_stage_dto \<Rightarrow> stage \<Rightarrow> stage" where
  "stage_apply_update dto e =
     e\<lparr>stg_name := stgu_name dto, stg_sequence := stgu_sequence dto, stg_fold := stgu_fold dto,
       stg_pipe_end := stgu_pipe_end dto\<rparr>"

record patch_stage_dto =
  stgp_name :: "string option"
  stgp_sequence :: "int option"
  stgp_fold :: "bool option"
  stgp_pipe_end :: "bool option"

definition stage_has_changes :: "patch_stage_dto \<Rightarrow> bool" where
  "stage_has_changes dto \<longleftrightarrow>
     stgp_name dto \<noteq> None \<or> stgp_sequence dto \<noteq> None \<or>
     stgp_fold dto \<noteq> None \<or> stgp_pipe_end dto \<noteq> None"

record stage_response_dto =
  stgr_id :: uuid
  stgr_name :: string
  stgr_sequence :: int
  stgr_fold :: bool
  stgr_pipe_end :: bool
  stgr_metadata :: audit_metadata

definition stage_response :: "stage \<Rightarrow> stage_response_dto" where
  "stage_response e =
     \<lparr>stgr_id = stg_id e, stgr_name = stg_name e, stgr_sequence = stg_sequence e,
      stgr_fold = stg_fold e, stgr_pipe_end = stg_pipe_end e, stgr_metadata = stg_metadata e\<rparr>"

definition stage_list ::
    "stage_response_dto list \<Rightarrow> nat \<Rightarrow> nat \<Rightarrow> nat \<Rightarrow> stage_response_dto page" where
  "stage_list items rows p per_page = new_page items rows p per_page"

record stage_summary_dto =
  stgs_id :: uuid
  stgs_name :: string
  stgs_sequence :: int
  stgs_fold :: bool
  stgs_created_at :: "timestamp option"

definition stage_summary :: "stage \<Rightarrow> stage_summary_dto" where
  "stage_summary e = \<lparr>stgs_id = stg_id e, stgs_name = stg_name e, stgs_sequence = stg_sequence e,
     stgs_fold = stg_fold e, stgs_created_at = am_created_at (stg_metadata e)\<rparr>"

section \<open>\<open>TagCategory\<close>\<close>

record tag_category =
  tct_id :: uuid
  tct_name :: string
  tct_metadata :: audit_metadata

definition tag_category_fields :: "(string \<times> string) list" where
  "tag_category_fields =
     [(''id'', ''Uuid''), (''name'', ''String''), (''metadata'', ''AuditMetadata'')]"

definition tag_category_new ::
    "uuid \<Rightarrow> string \<Rightarrow> tag_category" where
  "tag_category_new fresh name' =
     \<lparr>tct_id = fresh, tct_name = name', tct_metadata = metadata_default\<rparr>"

definition tag_category_arms :: "entity_env \<Rightarrow> tag_category patch_arms" where
  "tag_category_arms env =
     [(''name'', patch_with value_string tct_name_update)]"

definition tag_category_apply_patch :: "entity_env \<Rightarrow> (string \<times> json) list \<Rightarrow> tag_category \<Rightarrow> tag_category" where
  "tag_category_apply_patch env = patch_fields (tag_category_arms env)"

interpretation tag_category_patch: patchable "tag_category_arms env"
    "\<lambda>e. (tct_id e, tct_metadata e)" for env
  by unfold_locales (simp_all add: tag_category_arms_def)

fun tag_category_persist :: "entity_env \<Rightarrow> persist_call \<Rightarrow> tag_category \<Rightarrow> tag_category" where
  "tag_category_persist env (Set_Entity_Id i) e =
     (case en_uuid env i of Some u \<Rightarrow> e\<lparr>tct_id := u\<rparr> | None \<Rightarrow> e)"
| "tag_category_persist env (Set_Created_At ts) e = e\<lparr>tct_metadata := (tct_metadata e)\<lparr>am_created_at := Some ts\<rparr>\<rparr>"
| "tag_category_persist env (Set_Updated_At ts) e = e\<lparr>tct_metadata := (tct_metadata e)\<lparr>am_updated_at := Some ts\<rparr>\<rparr>"
| "tag_category_persist env (Set_Deleted_At ts) e = e\<lparr>tct_metadata := (tct_metadata e)\<lparr>am_deleted_at := ts\<rparr>\<rparr>"

definition tag_category_columns :: "(string \<times> string) list" where
  "tag_category_columns =
     [(''id'', ''uuid'')]"

definition tag_category_search_fields :: "string list" where
  "tag_category_search_fields = [''name'']"

record tag_category_builder =
  tctb_name :: "string option"

definition tag_category_builder_default :: tag_category_builder where
  "tag_category_builder_default = \<lparr>tctb_name = None\<rparr>"

datatype tag_category_builder_call =
    Tct_Set_Name string

fun tag_category_builder_set :: "tag_category_builder_call \<Rightarrow> tag_category_builder \<Rightarrow> tag_category_builder" where
  "tag_category_builder_set (Tct_Set_Name x) b = b\<lparr>tctb_name := Some x\<rparr>"

definition tag_category_build :: "uuid \<Rightarrow> tag_category_builder \<Rightarrow> string + tag_category" where
  "tag_category_build fresh b =
     bind_r (ok_or (tctb_name b) ''name is required'') (\<lambda>name'.
     Inr \<lparr>tct_id = fresh, tct_name = name', tct_metadata = metadata_default\<rparr>)"

record tag_category_filter =
  tctf_name :: "string option"

definition tag_category_has_filters :: "tag_category_filter \<Rightarrow> bool" where
  "tag_category_has_filters f \<longleftrightarrow>
     tctf_name f \<noteq> None"

definition tag_category_offset :: "page_params \<Rightarrow> 64 word" where
  "tag_category_offset params = page_offset params"

definition tag_category_table :: string where
  "tag_category_table = ''event.tag_categories''"

record create_tag_category_dto =
  tctc_name :: string

definition tag_category_of_create :: "uuid \<Rightarrow> create_tag_category_dto \<Rightarrow> tag_category" where
  "tag_category_of_create fresh dto =
     \<lparr>tct_id = fresh, tct_name = tctc_name dto, tct_metadata = metadata_default\<rparr>"

record update_tag_category_dto =
  tctu_name :: string

definition tag_category_apply_update :: "update_tag_category_dto \<Rightarrow> tag_category \<Rightarrow> tag_category" where
  "tag_category_apply_update dto e =
     e\<lparr>tct_name := tctu_name dto\<rparr>"

record patch_tag_category_dto =
  tctp_name :: "string option"

definition tag_category_has_changes :: "patch_tag_category_dto \<Rightarrow> bool" where
  "tag_category_has_changes dto \<longleftrightarrow>
     tctp_name dto \<noteq> None"

record tag_category_response_dto =
  tctr_id :: uuid
  tctr_name :: string
  tctr_metadata :: audit_metadata

definition tag_category_response :: "tag_category \<Rightarrow> tag_category_response_dto" where
  "tag_category_response e =
     \<lparr>tctr_id = tct_id e, tctr_name = tct_name e, tctr_metadata = tct_metadata e\<rparr>"

definition tag_category_list ::
    "tag_category_response_dto list \<Rightarrow> nat \<Rightarrow> nat \<Rightarrow> nat \<Rightarrow> tag_category_response_dto page" where
  "tag_category_list items rows p per_page = new_page items rows p per_page"

record tag_category_summary_dto =
  tcts_id :: uuid
  tcts_name :: string
  tcts_created_at :: "timestamp option"

definition tag_category_summary :: "tag_category \<Rightarrow> tag_category_summary_dto" where
  "tag_category_summary e = \<lparr>tcts_id = tct_id e, tcts_name = tct_name e,
     tcts_created_at = am_created_at (tct_metadata e)\<rparr>"

section \<open>\<open>Tag\<close>\<close>

record tag =
  tgg_id :: uuid
  tgg_name :: string
  tgg_category_id :: "uuid option"
  tgg_color :: "string option"
  tgg_metadata :: audit_metadata

definition tag_fields :: "(string \<times> string) list" where
  "tag_fields =
     [(''id'', ''Uuid''), (''name'', ''String''), (''category_id'', ''Option<Uuid>''),
      (''color'', ''Option<String>''), (''metadata'', ''AuditMetadata'')]"

definition tag_new ::
    "uuid \<Rightarrow> string \<Rightarrow> tag" where
  "tag_new fresh name' =
     \<lparr>tgg_id = fresh, tgg_name = name', tgg_category_id = None, tgg_color = None,
      tgg_metadata = metadata_default\<rparr>"

datatype tag_setter =
    Tgg_With_Category_Id uuid
  | Tgg_With_Color string

fun tag_with :: "tag_setter \<Rightarrow> tag \<Rightarrow> tag" where
  "tag_with (Tgg_With_Category_Id x) e = e\<lparr>tgg_category_id := Some x\<rparr>"
| "tag_with (Tgg_With_Color x) e = e\<lparr>tgg_color := Some x\<rparr>"

definition tag_arms :: "entity_env \<Rightarrow> tag patch_arms" where
  "tag_arms env =
     [(''name'', patch_with value_string tgg_name_update),
      (''category_id'', patch_with (value_option (value_uuid env)) tgg_category_id_update),
      (''color'', patch_with (value_option value_string) tgg_color_update)]"

definition tag_apply_patch :: "entity_env \<Rightarrow> (string \<times> json) list \<Rightarrow> tag \<Rightarrow> tag" where
  "tag_apply_patch env = patch_fields (tag_arms env)"

interpretation tag_patch: patchable "tag_arms env"
    "\<lambda>e. (tgg_id e, tgg_metadata e)" for env
  by unfold_locales (simp_all add: tag_arms_def)

definition tag_references :: "(string \<times> string \<times> string) list" where
  "tag_references =
     [(''category_id'', ''event.tag_categories'', ''id'')]"

fun tag_persist :: "entity_env \<Rightarrow> persist_call \<Rightarrow> tag \<Rightarrow> tag" where
  "tag_persist env (Set_Entity_Id i) e =
     (case en_uuid env i of Some u \<Rightarrow> e\<lparr>tgg_id := u\<rparr> | None \<Rightarrow> e)"
| "tag_persist env (Set_Created_At ts) e = e\<lparr>tgg_metadata := (tgg_metadata e)\<lparr>am_created_at := Some ts\<rparr>\<rparr>"
| "tag_persist env (Set_Updated_At ts) e = e\<lparr>tgg_metadata := (tgg_metadata e)\<lparr>am_updated_at := Some ts\<rparr>\<rparr>"
| "tag_persist env (Set_Deleted_At ts) e = e\<lparr>tgg_metadata := (tgg_metadata e)\<lparr>am_deleted_at := ts\<rparr>\<rparr>"

definition tag_columns :: "(string \<times> string) list" where
  "tag_columns =
     [(''id'', ''uuid''), (''category_id'', ''uuid'')]"

definition tag_search_fields :: "string list" where
  "tag_search_fields = [''name'']"

definition tag_relations :: "(string \<times> string \<times> string) list" where
  "tag_relations =
     [(''category'', ''tag_categories'', ''categoryId'')]"

record tag_builder =
  tggb_name :: "string option"
  tggb_category_id :: "uuid option"
  tggb_color :: "string option"

definition tag_builder_default :: tag_builder where
  "tag_builder_default = \<lparr>tggb_name = None, tggb_category_id = None, tggb_color = None\<rparr>"

datatype tag_builder_call =
    Tgg_Set_Name string
  | Tgg_Set_Category_Id uuid
  | Tgg_Set_Color string

fun tag_builder_set :: "tag_builder_call \<Rightarrow> tag_builder \<Rightarrow> tag_builder" where
  "tag_builder_set (Tgg_Set_Name x) b = b\<lparr>tggb_name := Some x\<rparr>"
| "tag_builder_set (Tgg_Set_Category_Id x) b = b\<lparr>tggb_category_id := Some x\<rparr>"
| "tag_builder_set (Tgg_Set_Color x) b = b\<lparr>tggb_color := Some x\<rparr>"

definition tag_build :: "uuid \<Rightarrow> tag_builder \<Rightarrow> string + tag" where
  "tag_build fresh b =
     bind_r (ok_or (tggb_name b) ''name is required'') (\<lambda>name'.
     Inr \<lparr>tgg_id = fresh, tgg_name = name', tgg_category_id = tggb_category_id b,
        tgg_color = tggb_color b, tgg_metadata = metadata_default\<rparr>)"

record tag_filter =
  tggf_name :: "string option"
  tggf_category_id :: "uuid option"
  tggf_color :: "string option"

definition tag_has_filters :: "tag_filter \<Rightarrow> bool" where
  "tag_has_filters f \<longleftrightarrow>
     tggf_name f \<noteq> None \<or> tggf_category_id f \<noteq> None \<or>
     tggf_color f \<noteq> None"

definition tag_offset :: "page_params \<Rightarrow> 64 word" where
  "tag_offset params = page_offset params"

definition tag_table :: string where
  "tag_table = ''event.tags''"

record create_tag_dto =
  tggc_name :: string
  tggc_category_id :: "uuid option"
  tggc_color :: "string option"

definition tag_of_create :: "uuid \<Rightarrow> create_tag_dto \<Rightarrow> tag" where
  "tag_of_create fresh dto =
     \<lparr>tgg_id = fresh, tgg_name = tggc_name dto, tgg_category_id = tggc_category_id dto,
      tgg_color = tggc_color dto, tgg_metadata = metadata_default\<rparr>"

record update_tag_dto =
  tggu_name :: string
  tggu_category_id :: "uuid option"
  tggu_color :: "string option"

definition tag_apply_update :: "update_tag_dto \<Rightarrow> tag \<Rightarrow> tag" where
  "tag_apply_update dto e =
     e\<lparr>tgg_name := tggu_name dto, tgg_category_id := tggu_category_id dto,
       tgg_color := tggu_color dto\<rparr>"

record patch_tag_dto =
  tggp_name :: "string option"
  tggp_category_id :: "uuid option option"
  tggp_color :: "string option option"

definition tag_has_changes :: "patch_tag_dto \<Rightarrow> bool" where
  "tag_has_changes dto \<longleftrightarrow>
     tggp_name dto \<noteq> None \<or> tggp_category_id dto \<noteq> None \<or>
     tggp_color dto \<noteq> None"

record tag_response_dto =
  tggr_id :: uuid
  tggr_name :: string
  tggr_category_id :: "uuid option"
  tggr_color :: "string option"
  tggr_metadata :: audit_metadata

definition tag_response :: "tag \<Rightarrow> tag_response_dto" where
  "tag_response e =
     \<lparr>tggr_id = tgg_id e, tggr_name = tgg_name e, tggr_category_id = tgg_category_id e,
      tggr_color = tgg_color e, tggr_metadata = tgg_metadata e\<rparr>"

definition tag_list ::
    "tag_response_dto list \<Rightarrow> nat \<Rightarrow> nat \<Rightarrow> nat \<Rightarrow> tag_response_dto page" where
  "tag_list items rows p per_page = new_page items rows p per_page"

record tag_summary_dto =
  tggs_id :: uuid
  tggs_name :: string
  tggs_category_id :: "uuid option"
  tggs_color :: "string option"
  tggs_created_at :: "timestamp option"

definition tag_summary :: "tag \<Rightarrow> tag_summary_dto" where
  "tag_summary e = \<lparr>tggs_id = tgg_id e, tggs_name = tgg_name e, tggs_category_id = tgg_category_id e,
     tggs_color = tgg_color e, tggs_created_at = am_created_at (tgg_metadata e)\<rparr>"

section \<open>\<open>Slot\<close>\<close>

record slot =
  slt_id :: uuid
  slt_event_id :: uuid
  slt_name :: string
  slt_date_begin :: timestamp
  slt_date_end :: "timestamp option"
  slt_metadata :: audit_metadata

definition slot_fields :: "(string \<times> string) list" where
  "slot_fields =
     [(''id'', ''Uuid''), (''event_id'', ''Uuid''), (''name'', ''String''),
      (''date_begin'', ''DateTime<Utc>''), (''date_end'', ''Option<DateTime<Utc>>''),
      (''metadata'', ''AuditMetadata'')]"

definition slot_new ::
    "uuid \<Rightarrow> uuid \<Rightarrow> string \<Rightarrow> timestamp \<Rightarrow> slot" where
  "slot_new fresh event_id' name' date_begin' =
     \<lparr>slt_id = fresh, slt_event_id = event_id', slt_name = name', slt_date_begin = date_begin',
      slt_date_end = None, slt_metadata = metadata_default\<rparr>"

datatype slot_setter =
    Slt_With_Date_End timestamp

fun slot_with :: "slot_setter \<Rightarrow> slot \<Rightarrow> slot" where
  "slot_with (Slt_With_Date_End x) e = e\<lparr>slt_date_end := Some x\<rparr>"

definition slot_arms :: "entity_env \<Rightarrow> slot patch_arms" where
  "slot_arms env =
     [(''event_id'', patch_with (value_uuid env) slt_event_id_update),
      (''name'', patch_with value_string slt_name_update),
      (''date_begin'', patch_with (value_time env) slt_date_begin_update),
      (''date_end'', patch_with (value_option (value_time env)) slt_date_end_update)]"

definition slot_apply_patch :: "entity_env \<Rightarrow> (string \<times> json) list \<Rightarrow> slot \<Rightarrow> slot" where
  "slot_apply_patch env = patch_fields (slot_arms env)"

interpretation slot_patch: patchable "slot_arms env"
    "\<lambda>e. (slt_id e, slt_metadata e)" for env
  by unfold_locales (simp_all add: slot_arms_def)

definition slot_references :: "(string \<times> string \<times> string) list" where
  "slot_references =
     [(''event_id'', ''event.events'', ''id'')]"

fun slot_persist :: "entity_env \<Rightarrow> persist_call \<Rightarrow> slot \<Rightarrow> slot" where
  "slot_persist env (Set_Entity_Id i) e =
     (case en_uuid env i of Some u \<Rightarrow> e\<lparr>slt_id := u\<rparr> | None \<Rightarrow> e)"
| "slot_persist env (Set_Created_At ts) e = e\<lparr>slt_metadata := (slt_metadata e)\<lparr>am_created_at := Some ts\<rparr>\<rparr>"
| "slot_persist env (Set_Updated_At ts) e = e\<lparr>slt_metadata := (slt_metadata e)\<lparr>am_updated_at := Some ts\<rparr>\<rparr>"
| "slot_persist env (Set_Deleted_At ts) e = e\<lparr>slt_metadata := (slt_metadata e)\<lparr>am_deleted_at := ts\<rparr>\<rparr>"

definition slot_columns :: "(string \<times> string) list" where
  "slot_columns =
     [(''id'', ''uuid''), (''event_id'', ''uuid''), (''date_begin'', ''timestamptz''),
      (''date_end'', ''timestamptz'')]"

definition slot_search_fields :: "string list" where
  "slot_search_fields = [''name'']"

definition slot_relations :: "(string \<times> string \<times> string) list" where
  "slot_relations =
     [(''event'', ''events'', ''eventId'')]"

record slot_builder =
  sltb_event_id :: "uuid option"
  sltb_name :: "string option"
  sltb_date_begin :: "timestamp option"
  sltb_date_end :: "timestamp option"

definition slot_builder_default :: slot_builder where
  "slot_builder_default = \<lparr>sltb_event_id = None, sltb_name = None, sltb_date_begin = None, sltb_date_end = None\<rparr>"

datatype slot_builder_call =
    Slt_Set_Event_Id uuid
  | Slt_Set_Name string
  | Slt_Set_Date_Begin timestamp
  | Slt_Set_Date_End timestamp

fun slot_builder_set :: "slot_builder_call \<Rightarrow> slot_builder \<Rightarrow> slot_builder" where
  "slot_builder_set (Slt_Set_Event_Id x) b = b\<lparr>sltb_event_id := Some x\<rparr>"
| "slot_builder_set (Slt_Set_Name x) b = b\<lparr>sltb_name := Some x\<rparr>"
| "slot_builder_set (Slt_Set_Date_Begin x) b = b\<lparr>sltb_date_begin := Some x\<rparr>"
| "slot_builder_set (Slt_Set_Date_End x) b = b\<lparr>sltb_date_end := Some x\<rparr>"

definition slot_build :: "uuid \<Rightarrow> slot_builder \<Rightarrow> string + slot" where
  "slot_build fresh b =
     bind_r (ok_or (sltb_event_id b) ''event_id is required'') (\<lambda>event_id'.
     bind_r (ok_or (sltb_name b) ''name is required'') (\<lambda>name'.
     bind_r (ok_or (sltb_date_begin b) ''date_begin is required'') (\<lambda>date_begin'.
     Inr \<lparr>slt_id = fresh, slt_event_id = event_id', slt_name = name',
        slt_date_begin = date_begin', slt_date_end = sltb_date_end b,
        slt_metadata = metadata_default\<rparr>)))"

record slot_filter =
  sltf_event_id :: "uuid option"
  sltf_name :: "string option"

definition slot_has_filters :: "slot_filter \<Rightarrow> bool" where
  "slot_has_filters f \<longleftrightarrow>
     sltf_event_id f \<noteq> None \<or> sltf_name f \<noteq> None"

definition slot_offset :: "page_params \<Rightarrow> 64 word" where
  "slot_offset params = page_offset params"

definition slot_table :: string where
  "slot_table = ''event.slots''"

record create_slot_dto =
  sltc_event_id :: uuid
  sltc_name :: string
  sltc_date_begin :: timestamp
  sltc_date_end :: "timestamp option"

definition slot_of_create :: "uuid \<Rightarrow> create_slot_dto \<Rightarrow> slot" where
  "slot_of_create fresh dto =
     \<lparr>slt_id = fresh, slt_event_id = sltc_event_id dto, slt_name = sltc_name dto,
      slt_date_begin = sltc_date_begin dto, slt_date_end = sltc_date_end dto,
      slt_metadata = metadata_default\<rparr>"

record update_slot_dto =
  sltu_event_id :: uuid
  sltu_name :: string
  sltu_date_begin :: timestamp
  sltu_date_end :: "timestamp option"

definition slot_apply_update :: "update_slot_dto \<Rightarrow> slot \<Rightarrow> slot" where
  "slot_apply_update dto e =
     e\<lparr>slt_event_id := sltu_event_id dto, slt_name := sltu_name dto,
       slt_date_begin := sltu_date_begin dto, slt_date_end := sltu_date_end dto\<rparr>"

record patch_slot_dto =
  sltp_event_id :: "uuid option"
  sltp_name :: "string option"
  sltp_date_begin :: "timestamp option"
  sltp_date_end :: "timestamp option option"

definition slot_has_changes :: "patch_slot_dto \<Rightarrow> bool" where
  "slot_has_changes dto \<longleftrightarrow>
     sltp_event_id dto \<noteq> None \<or> sltp_name dto \<noteq> None \<or>
     sltp_date_begin dto \<noteq> None \<or> sltp_date_end dto \<noteq> None"

record slot_response_dto =
  sltr_id :: uuid
  sltr_event_id :: uuid
  sltr_name :: string
  sltr_date_begin :: timestamp
  sltr_date_end :: "timestamp option"
  sltr_metadata :: audit_metadata

definition slot_response :: "slot \<Rightarrow> slot_response_dto" where
  "slot_response e =
     \<lparr>sltr_id = slt_id e, sltr_event_id = slt_event_id e, sltr_name = slt_name e,
      sltr_date_begin = slt_date_begin e, sltr_date_end = slt_date_end e,
      sltr_metadata = slt_metadata e\<rparr>"

definition slot_list ::
    "slot_response_dto list \<Rightarrow> nat \<Rightarrow> nat \<Rightarrow> nat \<Rightarrow> slot_response_dto page" where
  "slot_list items rows p per_page = new_page items rows p per_page"

record slot_summary_dto =
  slts_id :: uuid
  slts_event_id :: uuid
  slts_name :: string
  slts_date_begin :: timestamp
  slts_created_at :: "timestamp option"

definition slot_summary :: "slot \<Rightarrow> slot_summary_dto" where
  "slot_summary e = \<lparr>slts_id = slt_id e, slts_event_id = slt_event_id e, slts_name = slt_name e,
     slts_date_begin = slt_date_begin e, slts_created_at = am_created_at (slt_metadata e)\<rparr>"

section \<open>\<open>Ticket\<close>\<close>

record ticket =
  tkt_id :: uuid
  tkt_event_id :: uuid
  tkt_name :: string
  tkt_seats_max :: int
  tkt_seats_max_per_order :: int
  tkt_start_sale_datetime :: "timestamp option"
  tkt_end_sale_datetime :: "timestamp option"
  tkt_product_id :: "uuid option"
  tkt_metadata :: audit_metadata

definition ticket_fields :: "(string \<times> string) list" where
  "ticket_fields =
     [(''id'', ''Uuid''), (''event_id'', ''Uuid''), (''name'', ''String''),
      (''seats_max'', ''i32''), (''seats_max_per_order'', ''i32''),
      (''start_sale_datetime'', ''Option<DateTime<Utc>>''),
      (''end_sale_datetime'', ''Option<DateTime<Utc>>''), (''product_id'', ''Option<Uuid>''),
      (''metadata'', ''AuditMetadata'')]"

definition ticket_new ::
    "uuid \<Rightarrow> uuid \<Rightarrow> string \<Rightarrow> int \<Rightarrow>
     int \<Rightarrow> ticket" where
  "ticket_new fresh event_id' name' seats_max' seats_max_per_order' =
     \<lparr>tkt_id = fresh, tkt_event_id = event_id', tkt_name = name', tkt_seats_max = seats_max',
      tkt_seats_max_per_order = seats_max_per_order', tkt_start_sale_datetime = None,
      tkt_end_sale_datetime = None, tkt_product_id = None, tkt_metadata = metadata_default\<rparr>"

datatype ticket_setter =
    Tkt_With_Start_Sale_Datetime timestamp
  | Tkt_With_End_Sale_Datetime timestamp
  | Tkt_With_Product_Id uuid

fun ticket_with :: "ticket_setter \<Rightarrow> ticket \<Rightarrow> ticket" where
  "ticket_with (Tkt_With_Start_Sale_Datetime x) e = e\<lparr>tkt_start_sale_datetime := Some x\<rparr>"
| "ticket_with (Tkt_With_End_Sale_Datetime x) e = e\<lparr>tkt_end_sale_datetime := Some x\<rparr>"
| "ticket_with (Tkt_With_Product_Id x) e = e\<lparr>tkt_product_id := Some x\<rparr>"

definition ticket_arms :: "entity_env \<Rightarrow> ticket patch_arms" where
  "ticket_arms env =
     [(''event_id'', patch_with (value_uuid env) tkt_event_id_update),
      (''name'', patch_with value_string tkt_name_update),
      (''seats_max'', patch_with value_i32 tkt_seats_max_update),
      (''seats_max_per_order'', patch_with value_i32 tkt_seats_max_per_order_update),
      (''start_sale_datetime'', patch_with (value_option (value_time env)) tkt_start_sale_datetime_update),
      (''end_sale_datetime'', patch_with (value_option (value_time env)) tkt_end_sale_datetime_update),
      (''product_id'', patch_with (value_option (value_uuid env)) tkt_product_id_update)]"

definition ticket_apply_patch :: "entity_env \<Rightarrow> (string \<times> json) list \<Rightarrow> ticket \<Rightarrow> ticket" where
  "ticket_apply_patch env = patch_fields (ticket_arms env)"

interpretation ticket_patch: patchable "ticket_arms env"
    "\<lambda>e. (tkt_id e, tkt_metadata e)" for env
  by unfold_locales (simp_all add: ticket_arms_def)

definition ticket_references :: "(string \<times> string \<times> string) list" where
  "ticket_references =
     [(''event_id'', ''event.events'', ''id'')]"

fun ticket_persist :: "entity_env \<Rightarrow> persist_call \<Rightarrow> ticket \<Rightarrow> ticket" where
  "ticket_persist env (Set_Entity_Id i) e =
     (case en_uuid env i of Some u \<Rightarrow> e\<lparr>tkt_id := u\<rparr> | None \<Rightarrow> e)"
| "ticket_persist env (Set_Created_At ts) e = e\<lparr>tkt_metadata := (tkt_metadata e)\<lparr>am_created_at := Some ts\<rparr>\<rparr>"
| "ticket_persist env (Set_Updated_At ts) e = e\<lparr>tkt_metadata := (tkt_metadata e)\<lparr>am_updated_at := Some ts\<rparr>\<rparr>"
| "ticket_persist env (Set_Deleted_At ts) e = e\<lparr>tkt_metadata := (tkt_metadata e)\<lparr>am_deleted_at := ts\<rparr>\<rparr>"

definition ticket_columns :: "(string \<times> string) list" where
  "ticket_columns =
     [(''id'', ''uuid''), (''event_id'', ''uuid''), (''product_id'', ''uuid''),
      (''start_sale_datetime'', ''timestamptz''), (''end_sale_datetime'', ''timestamptz'')]"

definition ticket_search_fields :: "string list" where
  "ticket_search_fields = [''name'']"

definition ticket_relations :: "(string \<times> string \<times> string) list" where
  "ticket_relations =
     [(''event'', ''events'', ''eventId'')]"

record ticket_builder =
  tktb_event_id :: "uuid option"
  tktb_name :: "string option"
  tktb_seats_max :: "int option"
  tktb_seats_max_per_order :: "int option"
  tktb_start_sale_datetime :: "timestamp option"
  tktb_end_sale_datetime :: "timestamp option"
  tktb_product_id :: "uuid option"

definition ticket_builder_default :: ticket_builder where
  "ticket_builder_default = \<lparr>tktb_event_id = None, tktb_name = None, tktb_seats_max = None,
     tktb_seats_max_per_order = None, tktb_start_sale_datetime = None,
     tktb_end_sale_datetime = None, tktb_product_id = None\<rparr>"

datatype ticket_builder_call =
    Tkt_Set_Event_Id uuid
  | Tkt_Set_Name string
  | Tkt_Set_Seats_Max int
  | Tkt_Set_Seats_Max_Per_Order int
  | Tkt_Set_Start_Sale_Datetime timestamp
  | Tkt_Set_End_Sale_Datetime timestamp
  | Tkt_Set_Product_Id uuid

fun ticket_builder_set :: "ticket_builder_call \<Rightarrow> ticket_builder \<Rightarrow> ticket_builder" where
  "ticket_builder_set (Tkt_Set_Event_Id x) b = b\<lparr>tktb_event_id := Some x\<rparr>"
| "ticket_builder_set (Tkt_Set_Name x) b = b\<lparr>tktb_name := Some x\<rparr>"
| "ticket_builder_set (Tkt_Set_Seats_Max x) b = b\<lparr>tktb_seats_max := Some x\<rparr>"
| "ticket_builder_set (Tkt_Set_Seats_Max_Per_Order x) b = b\<lparr>tktb_seats_max_per_order := Some x\<rparr>"
| "ticket_builder_set (Tkt_Set_Start_Sale_Datetime x) b = b\<lparr>tktb_start_sale_datetime := Some x\<rparr>"
| "ticket_builder_set (Tkt_Set_End_Sale_Datetime x) b = b\<lparr>tktb_end_sale_datetime := Some x\<rparr>"
| "ticket_builder_set (Tkt_Set_Product_Id x) b = b\<lparr>tktb_product_id := Some x\<rparr>"

definition ticket_build :: "uuid \<Rightarrow> ticket_builder \<Rightarrow> string + ticket" where
  "ticket_build fresh b =
     bind_r (ok_or (tktb_event_id b) ''event_id is required'') (\<lambda>event_id'.
     bind_r (ok_or (tktb_name b) ''name is required'') (\<lambda>name'.
     Inr \<lparr>tkt_id = fresh, tkt_event_id = event_id', tkt_name = name',
        tkt_seats_max = unwrap_or 0 (tktb_seats_max b),
        tkt_seats_max_per_order = unwrap_or 0 (tktb_seats_max_per_order b),
        tkt_start_sale_datetime = tktb_start_sale_datetime b,
        tkt_end_sale_datetime = tktb_end_sale_datetime b, tkt_product_id = tktb_product_id b,
        tkt_metadata = metadata_default\<rparr>))"

record ticket_filter =
  tktf_event_id :: "uuid option"
  tktf_name :: "string option"
  tktf_product_id :: "uuid option"

definition ticket_has_filters :: "ticket_filter \<Rightarrow> bool" where
  "ticket_has_filters f \<longleftrightarrow>
     tktf_event_id f \<noteq> None \<or> tktf_name f \<noteq> None \<or>
     tktf_product_id f \<noteq> None"

definition ticket_offset :: "page_params \<Rightarrow> 64 word" where
  "ticket_offset params = page_offset params"

definition ticket_table :: string where
  "ticket_table = ''event.tickets''"

record create_ticket_dto =
  tktc_event_id :: uuid
  tktc_name :: string
  tktc_seats_max :: int
  tktc_seats_max_per_order :: int
  tktc_start_sale_datetime :: "timestamp option"
  tktc_end_sale_datetime :: "timestamp option"
  tktc_product_id :: "uuid option"

definition ticket_of_create :: "uuid \<Rightarrow> create_ticket_dto \<Rightarrow> ticket" where
  "ticket_of_create fresh dto =
     \<lparr>tkt_id = fresh, tkt_event_id = tktc_event_id dto, tkt_name = tktc_name dto,
      tkt_seats_max = tktc_seats_max dto,
      tkt_seats_max_per_order = tktc_seats_max_per_order dto,
      tkt_start_sale_datetime = tktc_start_sale_datetime dto,
      tkt_end_sale_datetime = tktc_end_sale_datetime dto, tkt_product_id = tktc_product_id dto,
      tkt_metadata = metadata_default\<rparr>"

record update_ticket_dto =
  tktu_event_id :: uuid
  tktu_name :: string
  tktu_seats_max :: int
  tktu_seats_max_per_order :: int
  tktu_start_sale_datetime :: "timestamp option"
  tktu_end_sale_datetime :: "timestamp option"
  tktu_product_id :: "uuid option"

definition ticket_apply_update :: "update_ticket_dto \<Rightarrow> ticket \<Rightarrow> ticket" where
  "ticket_apply_update dto e =
     e\<lparr>tkt_event_id := tktu_event_id dto, tkt_name := tktu_name dto,
       tkt_seats_max := tktu_seats_max dto,
       tkt_seats_max_per_order := tktu_seats_max_per_order dto,
       tkt_start_sale_datetime := tktu_start_sale_datetime dto,
       tkt_end_sale_datetime := tktu_end_sale_datetime dto,
       tkt_product_id := tktu_product_id dto\<rparr>"

record patch_ticket_dto =
  tktp_event_id :: "uuid option"
  tktp_name :: "string option"
  tktp_seats_max :: "int option"
  tktp_seats_max_per_order :: "int option"
  tktp_start_sale_datetime :: "timestamp option option"
  tktp_end_sale_datetime :: "timestamp option option"
  tktp_product_id :: "uuid option option"

definition ticket_has_changes :: "patch_ticket_dto \<Rightarrow> bool" where
  "ticket_has_changes dto \<longleftrightarrow>
     tktp_event_id dto \<noteq> None \<or> tktp_name dto \<noteq> None \<or>
     tktp_seats_max dto \<noteq> None \<or> tktp_seats_max_per_order dto \<noteq> None \<or>
     tktp_start_sale_datetime dto \<noteq> None \<or>
     tktp_end_sale_datetime dto \<noteq> None \<or> tktp_product_id dto \<noteq> None"

record ticket_response_dto =
  tktr_id :: uuid
  tktr_event_id :: uuid
  tktr_name :: string
  tktr_seats_max :: int
  tktr_seats_max_per_order :: int
  tktr_start_sale_datetime :: "timestamp option"
  tktr_end_sale_datetime :: "timestamp option"
  tktr_product_id :: "uuid option"
  tktr_metadata :: audit_metadata

definition ticket_response :: "ticket \<Rightarrow> ticket_response_dto" where
  "ticket_response e =
     \<lparr>tktr_id = tkt_id e, tktr_event_id = tkt_event_id e, tktr_name = tkt_name e,
      tktr_seats_max = tkt_seats_max e, tktr_seats_max_per_order = tkt_seats_max_per_order e,
      tktr_start_sale_datetime = tkt_start_sale_datetime e,
      tktr_end_sale_datetime = tkt_end_sale_datetime e, tktr_product_id = tkt_product_id e,
      tktr_metadata = tkt_metadata e\<rparr>"

definition ticket_list ::
    "ticket_response_dto list \<Rightarrow> nat \<Rightarrow> nat \<Rightarrow> nat \<Rightarrow> ticket_response_dto page" where
  "ticket_list items rows p per_page = new_page items rows p per_page"

record ticket_summary_dto =
  tkts_id :: uuid
  tkts_event_id :: uuid
  tkts_name :: string
  tkts_seats_max :: int
  tkts_created_at :: "timestamp option"

definition ticket_summary :: "ticket \<Rightarrow> ticket_summary_dto" where
  "ticket_summary e = \<lparr>tkts_id = tkt_id e, tkts_event_id = tkt_event_id e, tkts_name = tkt_name e,
     tkts_seats_max = tkt_seats_max e, tkts_created_at = am_created_at (tkt_metadata e)\<rparr>"

end
