(* ===== verification/MailEntities.thy ===== *)
theory MailEntities
  imports EntityBase Pages StateMachines
begin

text \<open>
  The generated entities and DTOs of the mail schedulers and their receipts: the row structs of
  \<open>domain/entity\<close> with their constructors, chainable setters, generic patch, repository
  metadata and builder, and the DTOs of \<open>presentation/dto\<close> with their conversions. The rows are
  the full structs; the tables of the schema theory keep the columns the hand-written SQL uses.
  A fresh uuid is an argument.
\<close>

section \<open>\<open>Mail\<close>\<close>

record mail =
  mal_id :: uuid
  mal_event_id :: uuid
  mal_interval_nbr :: int
  mal_interval_unit :: event_interval_unit
  mal_interval_kind :: event_interval_kind
  mal_notification_channel :: event_notification_channel
  mal_scheduled_date :: "timestamp option"
  mal_mail_done :: bool
  mal_last_registration_id :: "uuid option"
  mal_template_ref :: "uuid option"
  mal_template_kind :: "string option"
  mal_error_datetime :: "timestamp option"
  mal_error_kind :: "event_mail_error_kind option"
  mal_metadata :: audit_metadata

definition mail_fields :: "(string \<times> string) list" where
  "mail_fields =
     [(''id'', ''Uuid''), (''event_id'', ''Uuid''), (''interval_nbr'', ''i32''),
      (''interval_unit'', ''EventIntervalUnit''), (''interval_kind'', ''EventIntervalKind''),
      (''notification_channel'', ''EventNotificationChannel''),
      (''scheduled_date'', ''Option<DateTime<Utc>>''), (''mail_done'', ''bool''),
      (''last_registration_id'', ''Option<Uuid>''), (''template_ref'', ''Option<Uuid>''),
      (''template_kind'', ''Option<String>''), (''error_datetime'', ''Option<DateTime<Utc>>''),
      (''error_kind'', ''Option<EventMailErrorKind>''), (''metadata'', ''AuditMetadata'')]"

definition mail_new ::
    "uuid \<Rightarrow> uuid \<Rightarrow> int \<Rightarrow> event_interval_unit \<Rightarrow>
     event_interval_kind \<Rightarrow> event_notification_channel \<Rightarrow>
     bool \<Rightarrow> mail" where
  "mail_new fresh event_id' interval_nbr' interval_unit' interval_kind' notification_channel' mail_done' =
     \<lparr>mal_id = fresh, mal_event_id = event_id', mal_interval_nbr = interval_nbr',
      mal_interval_unit = interval_unit', mal_interval_kind = interval_kind',
      mal_notification_channel = notification_channel', mal_scheduled_date = None,
      mal_mail_done = mail_done', mal_last_registration_id = None, mal_template_ref = None,
      mal_template_kind = None, mal_error_datetime = None, mal_error_kind = None,
      mal_metadata = metadata_default\<rparr>"

datatype mail_setter =
    Mal_With_Scheduled_Date timestamp
  | Mal_With_Last_Registration_Id uuid
  | Mal_With_Template_Ref uuid
  | Mal_With_Template_Kind string
  | Mal_With_Error_Datetime timestamp
  | Mal_With_Error_Kind event_mail_error_kind

fun mail_with :: "mail_setter \<Rightarrow> mail \<Rightarrow> mail" where
  "mail_with (Mal_With_Scheduled_Date x) e = e\<lparr>mal_scheduled_date := Some x\<rparr>"
| "mail_with (Mal_With_Last_Registration_Id x) e = e\<lparr>mal_last_registration_id := Some x\<rparr>"
| "mail_with (Mal_With_Template_Ref x) e = e\<lparr>mal_template_ref := Some x\<rparr>"
| "mail_with (Mal_With_Template_Kind x) e = e\<lparr>mal_template_kind := Some x\<rparr>"
| "mail_with (Mal_With_Error_Datetime x) e = e\<lparr>mal_error_datetime := Some x\<rparr>"
| "mail_with (Mal_With_Error_Kind x) e = e\<lparr>mal_error_kind := Some x\<rparr>"

definition mail_arms :: "entity_env \<Rightarrow> mail patch_arms" where
  "mail_arms env =
     [(''event_id'', patch_with (value_uuid env) mal_event_id_update),
      (''interval_nbr'', patch_with value_i32 mal_interval_nbr_update),
      (''interval_unit'', patch_with (value_variant interval_unit_to_str [Unit_Now, Unit_Hours, Unit_Days, Unit_Weeks, Unit_Months]) mal_interval_unit_update),
      (''interval_kind'', patch_with (value_variant interval_kind_to_str [Interval_AfterSub, Interval_BeforeEvent, Interval_AfterEventStart, Interval_AfterEvent, Interval_BeforeEventEnd]) mal_interval_kind_update),
      (''notification_channel'', patch_with (value_variant notification_channel_to_str [Channel_Mail, Channel_Sms]) mal_notification_channel_update),
      (''scheduled_date'', patch_with (value_option (value_time env)) mal_scheduled_date_update),
      (''mail_done'', patch_with value_bool mal_mail_done_update),
      (''last_registration_id'', patch_with (value_option (value_uuid env)) mal_last_registration_id_update),
      (''template_ref'', patch_with (value_option (value_uuid env)) mal_template_ref_update),
      (''template_kind'', patch_with (value_option value_string) mal_template_kind_update),
      (''error_datetime'', patch_with (value_option (value_time env)) mal_error_datetime_update),
      (''error_kind'', patch_with (value_option (value_variant mail_error_kind_to_str [MailErr_TemplateUnresolved, MailErr_TemplateRendererNotComposed, MailErr_RenderFailed, MailErr_EnqueueRefused, MailErr_RecipientInvalid, MailErr_SmsEnqueueRefused])) mal_error_kind_update)]"

definition mail_apply_patch :: "entity_env \<Rightarrow> (string \<times> json) list \<Rightarrow> mail \<Rightarrow> mail" where
  "mail_apply_patch env = patch_fields (mail_arms env)"

interpretation mail_patch: patchable "mail_arms env"
    "\<lambda>e. (mal_id e, mal_metadata e)" for env
  by unfold_locales (simp_all add: mail_arms_def)

fun mail_persist :: "entity_env \<Rightarrow> persist_call \<Rightarrow> mail \<Rightarrow> mail" where
  "mail_persist env (Set_Entity_Id i) e =
     (case en_uuid env i of Some u \<Rightarrow> e\<lparr>mal_id := u\<rparr> | None \<Rightarrow> e)"
| "mail_persist env (Set_Created_At ts) e = e\<lparr>mal_metadata := (mal_metadata e)\<lparr>am_created_at := Some ts\<rparr>\<rparr>"
| "mail_persist env (Set_Updated_At ts) e = e\<lparr>mal_metadata := (mal_metadata e)\<lparr>am_updated_at := Some ts\<rparr>\<rparr>"
| "mail_persist env (Set_Deleted_At ts) e = e\<lparr>mal_metadata := (mal_metadata e)\<lparr>am_deleted_at := ts\<rparr>\<rparr>"

definition mail_columns :: "(string \<times> string) list" where
  "mail_columns =
     [(''id'', ''uuid''), (''event_id'', ''uuid''), (''last_registration_id'', ''uuid''),
      (''interval_unit'', ''event_interval_unit''),
      (''interval_kind'', ''event_interval_kind''),
      (''notification_channel'', ''event_notification_channel''),
      (''error_kind'', ''event_mail_error_kind'')]"

definition mail_search_fields :: "string list" where
  "mail_search_fields = []"

definition mail_relations :: "(string \<times> string \<times> string) list" where
  "mail_relations =
     [(''event'', ''events'', ''eventId'')]"

record mail_builder =
  malb_event_id :: "uuid option"
  malb_interval_nbr :: "int option"
  malb_interval_unit :: "event_interval_unit option"
  malb_interval_kind :: "event_interval_kind option"
  malb_notification_channel :: "event_notification_channel option"
  malb_scheduled_date :: "timestamp option"
  malb_mail_done :: "bool option"
  malb_last_registration_id :: "uuid option"
  malb_template_ref :: "uuid option"
  malb_template_kind :: "string option"
  malb_error_datetime :: "timestamp option"
  malb_error_kind :: "event_mail_error_kind option"

definition mail_builder_default :: mail_builder where
  "mail_builder_default = \<lparr>malb_event_id = None, malb_interval_nbr = None, malb_interval_unit = None,
     malb_interval_kind = None, malb_notification_channel = None, malb_scheduled_date = None,
     malb_mail_done = None, malb_last_registration_id = None, malb_template_ref = None,
     malb_template_kind = None, malb_error_datetime = None, malb_error_kind = None\<rparr>"

datatype mail_builder_call =
    Mal_Set_Event_Id uuid
  | Mal_Set_Interval_Nbr int
  | Mal_Set_Interval_Unit event_interval_unit
  | Mal_Set_Interval_Kind event_interval_kind
  | Mal_Set_Notification_Channel event_notification_channel
  | Mal_Set_Scheduled_Date timestamp
  | Mal_Set_Mail_Done bool
  | Mal_Set_Last_Registration_Id uuid
  | Mal_Set_Template_Ref uuid
  | Mal_Set_Template_Kind string
  | Mal_Set_Error_Datetime timestamp
  | Mal_Set_Error_Kind event_mail_error_kind

fun mail_builder_set :: "mail_builder_call \<Rightarrow> mail_builder \<Rightarrow> mail_builder" where
  "mail_builder_set (Mal_Set_Event_Id x) b = b\<lparr>malb_event_id := Some x\<rparr>"
| "mail_builder_set (Mal_Set_Interval_Nbr x) b = b\<lparr>malb_interval_nbr := Some x\<rparr>"
| "mail_builder_set (Mal_Set_Interval_Unit x) b = b\<lparr>malb_interval_unit := Some x\<rparr>"
| "mail_builder_set (Mal_Set_Interval_Kind x) b = b\<lparr>malb_interval_kind := Some x\<rparr>"
| "mail_builder_set (Mal_Set_Notification_Channel x) b = b\<lparr>malb_notification_channel := Some x\<rparr>"
| "mail_builder_set (Mal_Set_Scheduled_Date x) b = b\<lparr>malb_scheduled_date := Some x\<rparr>"
| "mail_builder_set (Mal_Set_Mail_Done x) b = b\<lparr>malb_mail_done := Some x\<rparr>"
| "mail_builder_set (Mal_Set_Last_Registration_Id x) b = b\<lparr>malb_last_registration_id := Some x\<rparr>"
| "mail_builder_set (Mal_Set_Template_Ref x) b = b\<lparr>malb_template_ref := Some x\<rparr>"
| "mail_builder_set (Mal_Set_Template_Kind x) b = b\<lparr>malb_template_kind := Some x\<rparr>"
| "mail_builder_set (Mal_Set_Error_Datetime x) b = b\<lparr>malb_error_datetime := Some x\<rparr>"
| "mail_builder_set (Mal_Set_Error_Kind x) b = b\<lparr>malb_error_kind := Some x\<rparr>"

definition mail_build :: "uuid \<Rightarrow> mail_builder \<Rightarrow> string + mail" where
  "mail_build fresh b =
     bind_r (ok_or (malb_event_id b) ''event_id is required'') (\<lambda>event_id'.
     Inr \<lparr>mal_id = fresh, mal_event_id = event_id',
        mal_interval_nbr = unwrap_or 1 (malb_interval_nbr b),
        mal_interval_unit = unwrap_or Unit_Now (malb_interval_unit b),
        mal_interval_kind = unwrap_or interval_kind_default (malb_interval_kind b),
        mal_notification_channel = unwrap_or notification_channel_default (malb_notification_channel b),
        mal_scheduled_date = malb_scheduled_date b,
        mal_mail_done = unwrap_or False (malb_mail_done b),
        mal_last_registration_id = malb_last_registration_id b,
        mal_template_ref = malb_template_ref b, mal_template_kind = malb_template_kind b,
        mal_error_datetime = malb_error_datetime b, mal_error_kind = malb_error_kind b,
        mal_metadata = metadata_default\<rparr>)"

record mail_filter =
  malf_event_id :: "uuid option"
  malf_interval_unit :: "event_interval_unit option"
  malf_interval_kind :: "event_interval_kind option"
  malf_notification_channel :: "event_notification_channel option"
  malf_mail_done :: "bool option"
  malf_last_registration_id :: "uuid option"
  malf_template_ref :: "uuid option"
  malf_template_kind :: "string option"
  malf_error_kind :: "event_mail_error_kind option"

definition mail_has_filters :: "mail_filter \<Rightarrow> bool" where
  "mail_has_filters f \<longleftrightarrow>
     malf_event_id f \<noteq> None \<or> malf_interval_unit f \<noteq> None \<or>
     malf_interval_kind f \<noteq> None \<or> malf_notification_channel f \<noteq> None \<or>
     malf_mail_done f \<noteq> None \<or> malf_last_registration_id f \<noteq> None \<or>
     malf_template_ref f \<noteq> None \<or> malf_template_kind f \<noteq> None \<or>
     malf_error_kind f \<noteq> None"

definition mail_offset :: "page_params \<Rightarrow> 64 word" where
  "mail_offset params = page_offset params"

definition mail_table :: string where
  "mail_table = ''event.mails''"

record create_mail_dto =
  malc_event_id :: uuid
  malc_interval_nbr :: int
  malc_interval_unit :: event_interval_unit
  malc_interval_kind :: event_interval_kind
  malc_notification_channel :: event_notification_channel
  malc_scheduled_date :: "timestamp option"
  malc_mail_done :: bool
  malc_last_registration_id :: "uuid option"
  malc_template_ref :: "uuid option"
  malc_template_kind :: "string option"
  malc_error_datetime :: "timestamp option"
  malc_error_kind :: "event_mail_error_kind option"

definition default_create_mail_interval_nbr :: int where
  "default_create_mail_interval_nbr = 1"

definition default_create_mail_interval_unit :: event_interval_unit where
  "default_create_mail_interval_unit = Unit_Now"

definition default_create_mail_interval_kind :: event_interval_kind where
  "default_create_mail_interval_kind = Interval_AfterSub"

definition default_create_mail_notification_channel :: event_notification_channel where
  "default_create_mail_notification_channel = Channel_Mail"

definition mail_of_create :: "uuid \<Rightarrow> create_mail_dto \<Rightarrow> mail" where
  "mail_of_create fresh dto =
     \<lparr>mal_id = fresh, mal_event_id = malc_event_id dto,
      mal_interval_nbr = malc_interval_nbr dto, mal_interval_unit = malc_interval_unit dto,
      mal_interval_kind = malc_interval_kind dto,
      mal_notification_channel = malc_notification_channel dto,
      mal_scheduled_date = malc_scheduled_date dto, mal_mail_done = malc_mail_done dto,
      mal_last_registration_id = malc_last_registration_id dto,
      mal_template_ref = malc_template_ref dto, mal_template_kind = malc_template_kind dto,
      mal_error_datetime = malc_error_datetime dto, mal_error_kind = malc_error_kind dto,
      mal_metadata = metadata_default\<rparr>"

record update_mail_dto =
  malu_event_id :: uuid
  malu_interval_nbr :: int
  malu_interval_unit :: event_interval_unit
  malu_interval_kind :: event_interval_kind
  malu_notification_channel :: event_notification_channel
  malu_scheduled_date :: "timestamp option"
  malu_mail_done :: bool
  malu_last_registration_id :: "uuid option"
  malu_template_ref :: "uuid option"
  malu_template_kind :: "string option"
  malu_error_datetime :: "timestamp option"
  malu_error_kind :: "event_mail_error_kind option"

definition mail_apply_update :: "update_mail_dto \<Rightarrow> mail \<Rightarrow> mail" where
  "mail_apply_update dto e =
     e\<lparr>mal_event_id := malu_event_id dto, mal_interval_nbr := malu_interval_nbr dto,
       mal_interval_unit := malu_interval_unit dto, mal_interval_kind := malu_interval_kind dto,
       mal_notification_channel := malu_notification_channel dto,
       mal_scheduled_date := malu_scheduled_date dto, mal_mail_done := malu_mail_done dto,
       mal_last_registration_id := malu_last_registration_id dto,
       mal_template_ref := malu_template_ref dto, mal_template_kind := malu_template_kind dto,
       mal_error_datetime := malu_error_datetime dto, mal_error_kind := malu_error_kind dto\<rparr>"

record patch_mail_dto =
  malp_event_id :: "uuid option"
  malp_interval_nbr :: "int option"
  malp_interval_unit :: "event_interval_unit option"
  malp_interval_kind :: "event_interval_kind option"
  malp_notification_channel :: "event_notification_channel option"
  malp_scheduled_date :: "timestamp option option"
  malp_mail_done :: "bool option"
  malp_last_registration_id :: "uuid option option"
  malp_template_ref :: "uuid option option"
  malp_template_kind :: "string option option"
  malp_error_datetime :: "timestamp option option"
  malp_error_kind :: "event_mail_error_kind option option"

definition mail_has_changes :: "patch_mail_dto \<Rightarrow> bool" where
  "mail_has_changes dto \<longleftrightarrow>
     malp_event_id dto \<noteq> None \<or> malp_interval_nbr dto \<noteq> None \<or>
     malp_interval_unit dto \<noteq> None \<or> malp_interval_kind dto \<noteq> None \<or>
     malp_notification_channel dto \<noteq> None \<or>
     malp_scheduled_date dto \<noteq> None \<or> malp_mail_done dto \<noteq> None \<or>
     malp_last_registration_id dto \<noteq> None \<or> malp_template_ref dto \<noteq> None \<or>
     malp_template_kind dto \<noteq> None \<or> malp_error_datetime dto \<noteq> None \<or>
     malp_error_kind dto \<noteq> None"

record mail_response_dto =
  malr_id :: uuid
  malr_event_id :: uuid
  malr_interval_nbr :: int
  malr_interval_unit :: event_interval_unit
  malr_interval_kind :: event_interval_kind
  malr_notification_channel :: event_notification_channel
  malr_scheduled_date :: "timestamp option"
  malr_mail_done :: bool
  malr_last_registration_id :: "uuid option"
  malr_template_ref :: "uuid option"
  malr_template_kind :: "string option"
  malr_error_datetime :: "timestamp option"
  malr_error_kind :: "event_mail_error_kind option"
  malr_metadata :: audit_metadata

definition mail_response :: "mail \<Rightarrow> mail_response_dto" where
  "mail_response e =
     \<lparr>malr_id = mal_id e, malr_event_id = mal_event_id e,
      malr_interval_nbr = mal_interval_nbr e, malr_interval_unit = mal_interval_unit e,
      malr_interval_kind = mal_interval_kind e,
      malr_notification_channel = mal_notification_channel e,
      malr_scheduled_date = mal_scheduled_date e, malr_mail_done = mal_mail_done e,
      malr_last_registration_id = mal_last_registration_id e,
      malr_template_ref = mal_template_ref e, malr_template_kind = mal_template_kind e,
      malr_error_datetime = mal_error_datetime e, malr_error_kind = mal_error_kind e,
      malr_metadata = mal_metadata e\<rparr>"

definition mail_list ::
    "mail_response_dto list \<Rightarrow> nat \<Rightarrow> nat \<Rightarrow> nat \<Rightarrow> mail_response_dto page" where
  "mail_list items rows p per_page = new_page items rows p per_page"

record mail_summary_dto =
  mals_id :: uuid
  mals_event_id :: uuid
  mals_interval_nbr :: int
  mals_interval_unit :: event_interval_unit
  mals_created_at :: "timestamp option"

definition mail_summary :: "mail \<Rightarrow> mail_summary_dto" where
  "mail_summary e = \<lparr>mals_id = mal_id e, mals_event_id = mal_event_id e, mals_interval_nbr = mal_interval_nbr e,
     mals_interval_unit = mal_interval_unit e, mals_created_at = am_created_at (mal_metadata e)\<rparr>"

section \<open>\<open>MailRegistration\<close>\<close>

record mail_registration =
  mrg_id :: uuid
  mrg_scheduler_id :: uuid
  mrg_registration_id :: uuid
  mrg_scheduled_date :: "timestamp option"
  mrg_mail_sent :: bool
  mrg_outcome :: "string option"
  mrg_metadata :: audit_metadata

definition mail_registration_fields :: "(string \<times> string) list" where
  "mail_registration_fields =
     [(''id'', ''Uuid''), (''scheduler_id'', ''Uuid''), (''registration_id'', ''Uuid''),
      (''scheduled_date'', ''Option<DateTime<Utc>>''), (''mail_sent'', ''bool''),
      (''outcome'', ''Option<String>''), (''metadata'', ''AuditMetadata'')]"

definition mail_registration_new ::
    "uuid \<Rightarrow> uuid \<Rightarrow> uuid \<Rightarrow> bool \<Rightarrow>
     mail_registration" where
  "mail_registration_new fresh scheduler_id' registration_id' mail_sent' =
     \<lparr>mrg_id = fresh, mrg_scheduler_id = scheduler_id', mrg_registration_id = registration_id',
      mrg_scheduled_date = None, mrg_mail_sent = mail_sent', mrg_outcome = None,
      mrg_metadata = metadata_default\<rparr>"

datatype mail_registration_setter =
    Mrg_With_Scheduled_Date timestamp
  | Mrg_With_Outcome string

fun mail_registration_with :: "mail_registration_setter \<Rightarrow> mail_registration \<Rightarrow> mail_registration" where
  "mail_registration_with (Mrg_With_Scheduled_Date x) e = e\<lparr>mrg_scheduled_date := Some x\<rparr>"
| "mail_registration_with (Mrg_With_Outcome x) e = e\<lparr>mrg_outcome := Some x\<rparr>"

definition mail_registration_arms :: "entity_env \<Rightarrow> mail_registration patch_arms" where
  "mail_registration_arms env =
     [(''scheduler_id'', patch_with (value_uuid env) mrg_scheduler_id_update),
      (''registration_id'', patch_with (value_uuid env) mrg_registration_id_update),
      (''scheduled_date'', patch_with (value_option (value_time env)) mrg_scheduled_date_update),
      (''mail_sent'', patch_with value_bool mrg_mail_sent_update),
      (''outcome'', patch_with (value_option value_string) mrg_outcome_update)]"

definition mail_registration_apply_patch :: "entity_env \<Rightarrow> (string \<times> json) list \<Rightarrow> mail_registration \<Rightarrow> mail_registration" where
  "mail_registration_apply_patch env = patch_fields (mail_registration_arms env)"

interpretation mail_registration_patch: patchable "mail_registration_arms env"
    "\<lambda>e. (mrg_id e, mrg_metadata e)" for env
  by unfold_locales (simp_all add: mail_registration_arms_def)

definition mail_registration_references :: "(string \<times> string \<times> string) list" where
  "mail_registration_references =
     [(''scheduler_id'', ''event.mails'', ''id''),
      (''registration_id'', ''event.registrations'', ''id'')]"

fun mail_registration_persist :: "entity_env \<Rightarrow> persist_call \<Rightarrow> mail_registration \<Rightarrow> mail_registration" where
  "mail_registration_persist env (Set_Entity_Id i) e =
     (case en_uuid env i of Some u \<Rightarrow> e\<lparr>mrg_id := u\<rparr> | None \<Rightarrow> e)"
| "mail_registration_persist env (Set_Created_At ts) e = e\<lparr>mrg_metadata := (mrg_metadata e)\<lparr>am_created_at := Some ts\<rparr>\<rparr>"
| "mail_registration_persist env (Set_Updated_At ts) e = e\<lparr>mrg_metadata := (mrg_metadata e)\<lparr>am_updated_at := Some ts\<rparr>\<rparr>"
| "mail_registration_persist env (Set_Deleted_At ts) e = e\<lparr>mrg_metadata := (mrg_metadata e)\<lparr>am_deleted_at := ts\<rparr>\<rparr>"

definition mail_registration_columns :: "(string \<times> string) list" where
  "mail_registration_columns =
     [(''id'', ''uuid''), (''scheduler_id'', ''uuid''), (''registration_id'', ''uuid''),
      (''scheduled_date'', ''timestamptz'')]"

definition mail_registration_search_fields :: "string list" where
  "mail_registration_search_fields = []"

definition mail_registration_relations :: "(string \<times> string \<times> string) list" where
  "mail_registration_relations =
     [(''scheduler'', ''mails'', ''schedulerId''),
      (''registration'', ''registrations'', ''registrationId'')]"

record mail_registration_builder =
  mrgb_scheduler_id :: "uuid option"
  mrgb_registration_id :: "uuid option"
  mrgb_scheduled_date :: "timestamp option"
  mrgb_mail_sent :: "bool option"
  mrgb_outcome :: "string option"

definition mail_registration_builder_default :: mail_registration_builder where
  "mail_registration_builder_default = \<lparr>mrgb_scheduler_id = None, mrgb_registration_id = None, mrgb_scheduled_date = None,
     mrgb_mail_sent = None, mrgb_outcome = None\<rparr>"

datatype mail_registration_builder_call =
    Mrg_Set_Scheduler_Id uuid
  | Mrg_Set_Registration_Id uuid
  | Mrg_Set_Scheduled_Date timestamp
  | Mrg_Set_Mail_Sent bool
  | Mrg_Set_Outcome string

fun mail_registration_builder_set :: "mail_registration_builder_call \<Rightarrow> mail_registration_builder \<Rightarrow> mail_registration_builder" where
  "mail_registration_builder_set (Mrg_Set_Scheduler_Id x) b = b\<lparr>mrgb_scheduler_id := Some x\<rparr>"
| "mail_registration_builder_set (Mrg_Set_Registration_Id x) b = b\<lparr>mrgb_registration_id := Some x\<rparr>"
| "mail_registration_builder_set (Mrg_Set_Scheduled_Date x) b = b\<lparr>mrgb_scheduled_date := Some x\<rparr>"
| "mail_registration_builder_set (Mrg_Set_Mail_Sent x) b = b\<lparr>mrgb_mail_sent := Some x\<rparr>"
| "mail_registration_builder_set (Mrg_Set_Outcome x) b = b\<lparr>mrgb_outcome := Some x\<rparr>"

definition mail_registration_build :: "uuid \<Rightarrow> mail_registration_builder \<Rightarrow> string + mail_registration" where
  "mail_registration_build fresh b =
     bind_r (ok_or (mrgb_scheduler_id b) ''scheduler_id is required'') (\<lambda>scheduler_id'.
     bind_r (ok_or (mrgb_registration_id b) ''registration_id is required'') (\<lambda>registration_id'.
     Inr \<lparr>mrg_id = fresh, mrg_scheduler_id = scheduler_id',
        mrg_registration_id = registration_id', mrg_scheduled_date = mrgb_scheduled_date b,
        mrg_mail_sent = unwrap_or False (mrgb_mail_sent b), mrg_outcome = mrgb_outcome b,
        mrg_metadata = metadata_default\<rparr>))"

record mail_registration_filter =
  mrgf_scheduler_id :: "uuid option"
  mrgf_registration_id :: "uuid option"
  mrgf_mail_sent :: "bool option"
  mrgf_outcome :: "string option"

definition mail_registration_has_filters :: "mail_registration_filter \<Rightarrow> bool" where
  "mail_registration_has_filters f \<longleftrightarrow>
     mrgf_scheduler_id f \<noteq> None \<or> mrgf_registration_id f \<noteq> None \<or>
     mrgf_mail_sent f \<noteq> None \<or> mrgf_outcome f \<noteq> None"

definition mail_registration_offset :: "page_params \<Rightarrow> 64 word" where
  "mail_registration_offset params = page_offset params"

definition mail_registration_table :: string where
  "mail_registration_table = ''event.mail_registrations''"

record create_mail_registration_dto =
  mrgc_scheduler_id :: uuid
  mrgc_registration_id :: uuid
  mrgc_scheduled_date :: "timestamp option"
  mrgc_mail_sent :: bool
  mrgc_outcome :: "string option"

definition mail_registration_of_create :: "uuid \<Rightarrow> create_mail_registration_dto \<Rightarrow> mail_registration" where
  "mail_registration_of_create fresh dto =
     \<lparr>mrg_id = fresh, mrg_scheduler_id = mrgc_scheduler_id dto,
      mrg_registration_id = mrgc_registration_id dto,
      mrg_scheduled_date = mrgc_scheduled_date dto, mrg_mail_sent = mrgc_mail_sent dto,
      mrg_outcome = mrgc_outcome dto, mrg_metadata = metadata_default\<rparr>"

record update_mail_registration_dto =
  mrgu_scheduler_id :: uuid
  mrgu_registration_id :: uuid
  mrgu_scheduled_date :: "timestamp option"
  mrgu_mail_sent :: bool
  mrgu_outcome :: "string option"

definition mail_registration_apply_update :: "update_mail_registration_dto \<Rightarrow> mail_registration \<Rightarrow> mail_registration" where
  "mail_registration_apply_update dto e =
     e\<lparr>mrg_scheduler_id := mrgu_scheduler_id dto,
       mrg_registration_id := mrgu_registration_id dto,
       mrg_scheduled_date := mrgu_scheduled_date dto, mrg_mail_sent := mrgu_mail_sent dto,
       mrg_outcome := mrgu_outcome dto\<rparr>"

record patch_mail_registration_dto =
  mrgp_scheduler_id :: "uuid option"
  mrgp_registration_id :: "uuid option"
  mrgp_scheduled_date :: "timestamp option option"
  mrgp_mail_sent :: "bool option"
  mrgp_outcome :: "string option option"

definition mail_registration_has_changes :: "patch_mail_registration_dto \<Rightarrow> bool" where
  "mail_registration_has_changes dto \<longleftrightarrow>
     mrgp_scheduler_id dto \<noteq> None \<or> mrgp_registration_id dto \<noteq> None \<or>
     mrgp_scheduled_date dto \<noteq> None \<or> mrgp_mail_sent dto \<noteq> None \<or>
     mrgp_outcome dto \<noteq> None"

record mail_registration_response_dto =
  mrgr_id :: uuid
  mrgr_scheduler_id :: uuid
  mrgr_registration_id :: uuid
  mrgr_scheduled_date :: "timestamp option"
  mrgr_mail_sent :: bool
  mrgr_outcome :: "string option"
  mrgr_metadata :: audit_metadata

definition mail_registration_response :: "mail_registration \<Rightarrow> mail_registration_response_dto" where
  "mail_registration_response e =
     \<lparr>mrgr_id = mrg_id e, mrgr_scheduler_id = mrg_scheduler_id e,
      mrgr_registration_id = mrg_registration_id e, mrgr_scheduled_date = mrg_scheduled_date e,
      mrgr_mail_sent = mrg_mail_sent e, mrgr_outcome = mrg_outcome e,
      mrgr_metadata = mrg_metadata e\<rparr>"

definition mail_registration_list ::
    "mail_registration_response_dto list \<Rightarrow> nat \<Rightarrow> nat \<Rightarrow> nat \<Rightarrow> mail_registration_response_dto page" where
  "mail_registration_list items rows p per_page = new_page items rows p per_page"

record mail_registration_summary_dto =
  mrgs_id :: uuid
  mrgs_scheduler_id :: uuid
  mrgs_registration_id :: uuid
  mrgs_scheduled_date :: "timestamp option"
  mrgs_created_at :: "timestamp option"

definition mail_registration_summary :: "mail_registration \<Rightarrow> mail_registration_summary_dto" where
  "mail_registration_summary e = \<lparr>mrgs_id = mrg_id e, mrgs_scheduler_id = mrg_scheduler_id e,
     mrgs_registration_id = mrg_registration_id e, mrgs_scheduled_date = mrg_scheduled_date e,
     mrgs_created_at = am_created_at (mrg_metadata e)\<rparr>"

section \<open>\<open>MailSlot\<close>\<close>

record mail_slot =
  msl_id :: uuid
  msl_scheduler_id :: uuid
  msl_slot_id :: uuid
  msl_scheduled_date :: "timestamp option"
  msl_mail_done :: bool
  msl_last_registration_id :: "uuid option"
  msl_metadata :: audit_metadata

definition mail_slot_fields :: "(string \<times> string) list" where
  "mail_slot_fields =
     [(''id'', ''Uuid''), (''scheduler_id'', ''Uuid''), (''slot_id'', ''Uuid''),
      (''scheduled_date'', ''Option<DateTime<Utc>>''), (''mail_done'', ''bool''),
      (''last_registration_id'', ''Option<Uuid>''), (''metadata'', ''AuditMetadata'')]"

definition mail_slot_new ::
    "uuid \<Rightarrow> uuid \<Rightarrow> uuid \<Rightarrow> bool \<Rightarrow> mail_slot" where
  "mail_slot_new fresh scheduler_id' slot_id' mail_done' =
     \<lparr>msl_id = fresh, msl_scheduler_id = scheduler_id', msl_slot_id = slot_id',
      msl_scheduled_date = None, msl_mail_done = mail_done', msl_last_registration_id = None,
      msl_metadata = metadata_default\<rparr>"

datatype mail_slot_setter =
    Msl_With_Scheduled_Date timestamp
  | Msl_With_Last_Registration_Id uuid

fun mail_slot_with :: "mail_slot_setter \<Rightarrow> mail_slot \<Rightarrow> mail_slot" where
  "mail_slot_with (Msl_With_Scheduled_Date x) e = e\<lparr>msl_scheduled_date := Some x\<rparr>"
| "mail_slot_with (Msl_With_Last_Registration_Id x) e = e\<lparr>msl_last_registration_id := Some x\<rparr>"

definition mail_slot_arms :: "entity_env \<Rightarrow> mail_slot patch_arms" where
  "mail_slot_arms env =
     [(''scheduler_id'', patch_with (value_uuid env) msl_scheduler_id_update),
      (''slot_id'', patch_with (value_uuid env) msl_slot_id_update),
      (''scheduled_date'', patch_with (value_option (value_time env)) msl_scheduled_date_update),
      (''mail_done'', patch_with value_bool msl_mail_done_update),
      (''last_registration_id'', patch_with (value_option (value_uuid env)) msl_last_registration_id_update)]"

definition mail_slot_apply_patch :: "entity_env \<Rightarrow> (string \<times> json) list \<Rightarrow> mail_slot \<Rightarrow> mail_slot" where
  "mail_slot_apply_patch env = patch_fields (mail_slot_arms env)"

interpretation mail_slot_patch: patchable "mail_slot_arms env"
    "\<lambda>e. (msl_id e, msl_metadata e)" for env
  by unfold_locales (simp_all add: mail_slot_arms_def)

definition mail_slot_references :: "(string \<times> string \<times> string) list" where
  "mail_slot_references =
     [(''scheduler_id'', ''event.mails'', ''id''), (''slot_id'', ''event.slots'', ''id'')]"

fun mail_slot_persist :: "entity_env \<Rightarrow> persist_call \<Rightarrow> mail_slot \<Rightarrow> mail_slot" where
  "mail_slot_persist env (Set_Entity_Id i) e =
     (case en_uuid env i of Some u \<Rightarrow> e\<lparr>msl_id := u\<rparr> | None \<Rightarrow> e)"
| "mail_slot_persist env (Set_Created_At ts) e = e\<lparr>msl_metadata := (msl_metadata e)\<lparr>am_created_at := Some ts\<rparr>\<rparr>"
| "mail_slot_persist env (Set_Updated_At ts) e = e\<lparr>msl_metadata := (msl_metadata e)\<lparr>am_updated_at := Some ts\<rparr>\<rparr>"
| "mail_slot_persist env (Set_Deleted_At ts) e = e\<lparr>msl_metadata := (msl_metadata e)\<lparr>am_deleted_at := ts\<rparr>\<rparr>"

definition mail_slot_columns :: "(string \<times> string) list" where
  "mail_slot_columns =
     [(''id'', ''uuid''), (''scheduler_id'', ''uuid''), (''slot_id'', ''uuid''),
      (''last_registration_id'', ''uuid''), (''scheduled_date'', ''timestamptz'')]"

definition mail_slot_search_fields :: "string list" where
  "mail_slot_search_fields = []"

definition mail_slot_relations :: "(string \<times> string \<times> string) list" where
  "mail_slot_relations =
     [(''scheduler'', ''mails'', ''schedulerId''), (''slot'', ''slots'', ''slotId'')]"

record mail_slot_builder =
  mslb_scheduler_id :: "uuid option"
  mslb_slot_id :: "uuid option"
  mslb_scheduled_date :: "timestamp option"
  mslb_mail_done :: "bool option"
  mslb_last_registration_id :: "uuid option"

definition mail_slot_builder_default :: mail_slot_builder where
  "mail_slot_builder_default = \<lparr>mslb_scheduler_id = None, mslb_slot_id = None, mslb_scheduled_date = None,
     mslb_mail_done = None, mslb_last_registration_id = None\<rparr>"

datatype mail_slot_builder_call =
    Msl_Set_Scheduler_Id uuid
  | Msl_Set_Slot_Id uuid
  | Msl_Set_Scheduled_Date timestamp
  | Msl_Set_Mail_Done bool
  | Msl_Set_Last_Registration_Id uuid

fun mail_slot_builder_set :: "mail_slot_builder_call \<Rightarrow> mail_slot_builder \<Rightarrow> mail_slot_builder" where
  "mail_slot_builder_set (Msl_Set_Scheduler_Id x) b = b\<lparr>mslb_scheduler_id := Some x\<rparr>"
| "mail_slot_builder_set (Msl_Set_Slot_Id x) b = b\<lparr>mslb_slot_id := Some x\<rparr>"
| "mail_slot_builder_set (Msl_Set_Scheduled_Date x) b = b\<lparr>mslb_scheduled_date := Some x\<rparr>"
| "mail_slot_builder_set (Msl_Set_Mail_Done x) b = b\<lparr>mslb_mail_done := Some x\<rparr>"
| "mail_slot_builder_set (Msl_Set_Last_Registration_Id x) b = b\<lparr>mslb_last_registration_id := Some x\<rparr>"

definition mail_slot_build :: "uuid \<Rightarrow> mail_slot_builder \<Rightarrow> string + mail_slot" where
  "mail_slot_build fresh b =
     bind_r (ok_or (mslb_scheduler_id b) ''scheduler_id is required'') (\<lambda>scheduler_id'.
     bind_r (ok_or (mslb_slot_id b) ''slot_id is required'') (\<lambda>slot_id'.
     Inr \<lparr>msl_id = fresh, msl_scheduler_id = scheduler_id', msl_slot_id = slot_id',
        msl_scheduled_date = mslb_scheduled_date b,
        msl_mail_done = unwrap_or False (mslb_mail_done b),
        msl_last_registration_id = mslb_last_registration_id b, msl_metadata = metadata_default\<rparr>))"

record mail_slot_filter =
  mslf_scheduler_id :: "uuid option"
  mslf_slot_id :: "uuid option"
  mslf_mail_done :: "bool option"
  mslf_last_registration_id :: "uuid option"

definition mail_slot_has_filters :: "mail_slot_filter \<Rightarrow> bool" where
  "mail_slot_has_filters f \<longleftrightarrow>
     mslf_scheduler_id f \<noteq> None \<or> mslf_slot_id f \<noteq> None \<or>
     mslf_mail_done f \<noteq> None \<or> mslf_last_registration_id f \<noteq> None"

definition mail_slot_offset :: "page_params \<Rightarrow> 64 word" where
  "mail_slot_offset params = page_offset params"

definition mail_slot_table :: string where
  "mail_slot_table = ''event.mail_slots''"

record create_mail_slot_dto =
  mslc_scheduler_id :: uuid
  mslc_slot_id :: uuid
  mslc_scheduled_date :: "timestamp option"
  mslc_mail_done :: bool
  mslc_last_registration_id :: "uuid option"

definition mail_slot_of_create :: "uuid \<Rightarrow> create_mail_slot_dto \<Rightarrow> mail_slot" where
  "mail_slot_of_create fresh dto =
     \<lparr>msl_id = fresh, msl_scheduler_id = mslc_scheduler_id dto, msl_slot_id = mslc_slot_id dto,
      msl_scheduled_date = mslc_scheduled_date dto, msl_mail_done = mslc_mail_done dto,
      msl_last_registration_id = mslc_last_registration_id dto, msl_metadata = metadata_default\<rparr>"

record update_mail_slot_dto =
  mslu_scheduler_id :: uuid
  mslu_slot_id :: uuid
  mslu_scheduled_date :: "timestamp option"
  mslu_mail_done :: bool
  mslu_last_registration_id :: "uuid option"

definition mail_slot_apply_update :: "update_mail_slot_dto \<Rightarrow> mail_slot \<Rightarrow> mail_slot" where
  "mail_slot_apply_update dto e =
     e\<lparr>msl_scheduler_id := mslu_scheduler_id dto, msl_slot_id := mslu_slot_id dto,
       msl_scheduled_date := mslu_scheduled_date dto, msl_mail_done := mslu_mail_done dto,
       msl_last_registration_id := mslu_last_registration_id dto\<rparr>"

record patch_mail_slot_dto =
  mslp_scheduler_id :: "uuid option"
  mslp_slot_id :: "uuid option"
  mslp_scheduled_date :: "timestamp option option"
  mslp_mail_done :: "bool option"
  mslp_last_registration_id :: "uuid option option"

definition mail_slot_has_changes :: "patch_mail_slot_dto \<Rightarrow> bool" where
  "mail_slot_has_changes dto \<longleftrightarrow>
     mslp_scheduler_id dto \<noteq> None \<or> mslp_slot_id dto \<noteq> None \<or>
     mslp_scheduled_date dto \<noteq> None \<or> mslp_mail_done dto \<noteq> None \<or>
     mslp_last_registration_id dto \<noteq> None"

record mail_slot_response_dto =
  mslr_id :: uuid
  mslr_scheduler_id :: uuid
  mslr_slot_id :: uuid
  mslr_scheduled_date :: "timestamp option"
  mslr_mail_done :: bool
  mslr_last_registration_id :: "uuid option"
  mslr_metadata :: audit_metadata

definition mail_slot_response :: "mail_slot \<Rightarrow> mail_slot_response_dto" where
  "mail_slot_response e =
     \<lparr>mslr_id = msl_id e, mslr_scheduler_id = msl_scheduler_id e, mslr_slot_id = msl_slot_id e,
      mslr_scheduled_date = msl_scheduled_date e, mslr_mail_done = msl_mail_done e,
      mslr_last_registration_id = msl_last_registration_id e, mslr_metadata = msl_metadata e\<rparr>"

definition mail_slot_list ::
    "mail_slot_response_dto list \<Rightarrow> nat \<Rightarrow> nat \<Rightarrow> nat \<Rightarrow> mail_slot_response_dto page" where
  "mail_slot_list items rows p per_page = new_page items rows p per_page"

record mail_slot_summary_dto =
  msls_id :: uuid
  msls_scheduler_id :: uuid
  msls_slot_id :: uuid
  msls_scheduled_date :: "timestamp option"
  msls_created_at :: "timestamp option"

definition mail_slot_summary :: "mail_slot \<Rightarrow> mail_slot_summary_dto" where
  "mail_slot_summary e = \<lparr>msls_id = msl_id e, msls_scheduler_id = msl_scheduler_id e, msls_slot_id = msl_slot_id e,
     msls_scheduled_date = msl_scheduled_date e,
     msls_created_at = am_created_at (msl_metadata e)\<rparr>"

section \<open>\<open>TypeMail\<close>\<close>

record type_mail =
  tml_id :: uuid
  tml_event_type_id :: uuid
  tml_interval_nbr :: int
  tml_interval_unit :: event_interval_unit
  tml_interval_kind :: event_interval_kind
  tml_notification_channel :: event_notification_channel
  tml_template_ref :: "uuid option"
  tml_template_kind :: "string option"
  tml_metadata :: audit_metadata

definition type_mail_fields :: "(string \<times> string) list" where
  "type_mail_fields =
     [(''id'', ''Uuid''), (''event_type_id'', ''Uuid''), (''interval_nbr'', ''i32''),
      (''interval_unit'', ''EventIntervalUnit''), (''interval_kind'', ''EventIntervalKind''),
      (''notification_channel'', ''EventNotificationChannel''),
      (''template_ref'', ''Option<Uuid>''), (''template_kind'', ''Option<String>''),
      (''metadata'', ''AuditMetadata'')]"

definition type_mail_new ::
    "uuid \<Rightarrow> uuid \<Rightarrow> int \<Rightarrow> event_interval_unit \<Rightarrow>
     event_interval_kind \<Rightarrow> event_notification_channel \<Rightarrow> type_mail" where
  "type_mail_new fresh event_type_id' interval_nbr' interval_unit' interval_kind' notification_channel' =
     \<lparr>tml_id = fresh, tml_event_type_id = event_type_id', tml_interval_nbr = interval_nbr',
      tml_interval_unit = interval_unit', tml_interval_kind = interval_kind',
      tml_notification_channel = notification_channel', tml_template_ref = None,
      tml_template_kind = None, tml_metadata = metadata_default\<rparr>"

datatype type_mail_setter =
    Tml_With_Template_Ref uuid
  | Tml_With_Template_Kind string

fun type_mail_with :: "type_mail_setter \<Rightarrow> type_mail \<Rightarrow> type_mail" where
  "type_mail_with (Tml_With_Template_Ref x) e = e\<lparr>tml_template_ref := Some x\<rparr>"
| "type_mail_with (Tml_With_Template_Kind x) e = e\<lparr>tml_template_kind := Some x\<rparr>"

definition type_mail_arms :: "entity_env \<Rightarrow> type_mail patch_arms" where
  "type_mail_arms env =
     [(''event_type_id'', patch_with (value_uuid env) tml_event_type_id_update),
      (''interval_nbr'', patch_with value_i32 tml_interval_nbr_update),
      (''interval_unit'', patch_with (value_variant interval_unit_to_str [Unit_Now, Unit_Hours, Unit_Days, Unit_Weeks, Unit_Months]) tml_interval_unit_update),
      (''interval_kind'', patch_with (value_variant interval_kind_to_str [Interval_AfterSub, Interval_BeforeEvent, Interval_AfterEventStart, Interval_AfterEvent, Interval_BeforeEventEnd]) tml_interval_kind_update),
      (''notification_channel'', patch_with (value_variant notification_channel_to_str [Channel_Mail, Channel_Sms]) tml_notification_channel_update),
      (''template_ref'', patch_with (value_option (value_uuid env)) tml_template_ref_update),
      (''template_kind'', patch_with (value_option value_string) tml_template_kind_update)]"

definition type_mail_apply_patch :: "entity_env \<Rightarrow> (string \<times> json) list \<Rightarrow> type_mail \<Rightarrow> type_mail" where
  "type_mail_apply_patch env = patch_fields (type_mail_arms env)"

interpretation type_mail_patch: patchable "type_mail_arms env"
    "\<lambda>e. (tml_id e, tml_metadata e)" for env
  by unfold_locales (simp_all add: type_mail_arms_def)

fun type_mail_persist :: "entity_env \<Rightarrow> persist_call \<Rightarrow> type_mail \<Rightarrow> type_mail" where
  "type_mail_persist env (Set_Entity_Id i) e =
     (case en_uuid env i of Some u \<Rightarrow> e\<lparr>tml_id := u\<rparr> | None \<Rightarrow> e)"
| "type_mail_persist env (Set_Created_At ts) e = e\<lparr>tml_metadata := (tml_metadata e)\<lparr>am_created_at := Some ts\<rparr>\<rparr>"
| "type_mail_persist env (Set_Updated_At ts) e = e\<lparr>tml_metadata := (tml_metadata e)\<lparr>am_updated_at := Some ts\<rparr>\<rparr>"
| "type_mail_persist env (Set_Deleted_At ts) e = e\<lparr>tml_metadata := (tml_metadata e)\<lparr>am_deleted_at := ts\<rparr>\<rparr>"

definition type_mail_columns :: "(string \<times> string) list" where
  "type_mail_columns =
     [(''id'', ''uuid''), (''event_type_id'', ''uuid''),
      (''interval_unit'', ''event_interval_unit''),
      (''interval_kind'', ''event_interval_kind''),
      (''notification_channel'', ''event_notification_channel'')]"

definition type_mail_search_fields :: "string list" where
  "type_mail_search_fields = []"

definition type_mail_relations :: "(string \<times> string \<times> string) list" where
  "type_mail_relations =
     [(''eventType'', ''types'', ''eventTypeId'')]"

record type_mail_builder =
  tmlb_event_type_id :: "uuid option"
  tmlb_interval_nbr :: "int option"
  tmlb_interval_unit :: "event_interval_unit option"
  tmlb_interval_kind :: "event_interval_kind option"
  tmlb_notification_channel :: "event_notification_channel option"
  tmlb_template_ref :: "uuid option"
  tmlb_template_kind :: "string option"

definition type_mail_builder_default :: type_mail_builder where
  "type_mail_builder_default = \<lparr>tmlb_event_type_id = None, tmlb_interval_nbr = None, tmlb_interval_unit = None,
     tmlb_interval_kind = None, tmlb_notification_channel = None, tmlb_template_ref = None,
     tmlb_template_kind = None\<rparr>"

datatype type_mail_builder_call =
    Tml_Set_Event_Type_Id uuid
  | Tml_Set_Interval_Nbr int
  | Tml_Set_Interval_Unit event_interval_unit
  | Tml_Set_Interval_Kind event_interval_kind
  | Tml_Set_Notification_Channel event_notification_channel
  | Tml_Set_Template_Ref uuid
  | Tml_Set_Template_Kind string

fun type_mail_builder_set :: "type_mail_builder_call \<Rightarrow> type_mail_builder \<Rightarrow> type_mail_builder" where
  "type_mail_builder_set (Tml_Set_Event_Type_Id x) b = b\<lparr>tmlb_event_type_id := Some x\<rparr>"
| "type_mail_builder_set (Tml_Set_Interval_Nbr x) b = b\<lparr>tmlb_interval_nbr := Some x\<rparr>"
| "type_mail_builder_set (Tml_Set_Interval_Unit x) b = b\<lparr>tmlb_interval_unit := Some x\<rparr>"
| "type_mail_builder_set (Tml_Set_Interval_Kind x) b = b\<lparr>tmlb_interval_kind := Some x\<rparr>"
| "type_mail_builder_set (Tml_Set_Notification_Channel x) b = b\<lparr>tmlb_notification_channel := Some x\<rparr>"
| "type_mail_builder_set (Tml_Set_Template_Ref x) b = b\<lparr>tmlb_template_ref := Some x\<rparr>"
| "type_mail_builder_set (Tml_Set_Template_Kind x) b = b\<lparr>tmlb_template_kind := Some x\<rparr>"

definition type_mail_build :: "uuid \<Rightarrow> type_mail_builder \<Rightarrow> string + type_mail" where
  "type_mail_build fresh b =
     bind_r (ok_or (tmlb_event_type_id b) ''event_type_id is required'') (\<lambda>event_type_id'.
     Inr \<lparr>tml_id = fresh, tml_event_type_id = event_type_id',
        tml_interval_nbr = unwrap_or 1 (tmlb_interval_nbr b),
        tml_interval_unit = unwrap_or Unit_Now (tmlb_interval_unit b),
        tml_interval_kind = unwrap_or interval_kind_default (tmlb_interval_kind b),
        tml_notification_channel = unwrap_or notification_channel_default (tmlb_notification_channel b),
        tml_template_ref = tmlb_template_ref b, tml_template_kind = tmlb_template_kind b,
        tml_metadata = metadata_default\<rparr>)"

record type_mail_filter =
  tmlf_event_type_id :: "uuid option"
  tmlf_interval_unit :: "event_interval_unit option"
  tmlf_interval_kind :: "event_interval_kind option"
  tmlf_notification_channel :: "event_notification_channel option"
  tmlf_template_ref :: "uuid option"
  tmlf_template_kind :: "string option"

definition type_mail_has_filters :: "type_mail_filter \<Rightarrow> bool" where
  "type_mail_has_filters f \<longleftrightarrow>
     tmlf_event_type_id f \<noteq> None \<or> tmlf_interval_unit f \<noteq> None \<or>
     tmlf_interval_kind f \<noteq> None \<or> tmlf_notification_channel f \<noteq> None \<or>
     tmlf_template_ref f \<noteq> None \<or> tmlf_template_kind f \<noteq> None"

definition type_mail_offset :: "page_params \<Rightarrow> 64 word" where
  "type_mail_offset params = page_offset params"

definition type_mail_table :: string where
  "type_mail_table = ''event.type_mails''"

record create_type_mail_dto =
  tmlc_event_type_id :: uuid
  tmlc_interval_nbr :: int
  tmlc_interval_unit :: event_interval_unit
  tmlc_interval_kind :: event_interval_kind
  tmlc_notification_channel :: event_notification_channel
  tmlc_template_ref :: "uuid option"
  tmlc_template_kind :: "string option"

definition default_create_type_mail_interval_nbr :: int where
  "default_create_type_mail_interval_nbr = 1"

definition default_create_type_mail_interval_unit :: event_interval_unit where
  "default_create_type_mail_interval_unit = Unit_Now"

definition default_create_type_mail_interval_kind :: event_interval_kind where
  "default_create_type_mail_interval_kind = Interval_AfterSub"

definition default_create_type_mail_notification_channel :: event_notification_channel where
  "default_create_type_mail_notification_channel = Channel_Mail"

definition type_mail_of_create :: "uuid \<Rightarrow> create_type_mail_dto \<Rightarrow> type_mail" where
  "type_mail_of_create fresh dto =
     \<lparr>tml_id = fresh, tml_event_type_id = tmlc_event_type_id dto,
      tml_interval_nbr = tmlc_interval_nbr dto, tml_interval_unit = tmlc_interval_unit dto,
      tml_interval_kind = tmlc_interval_kind dto,
      tml_notification_channel = tmlc_notification_channel dto,
      tml_template_ref = tmlc_template_ref dto, tml_template_kind = tmlc_template_kind dto,
      tml_metadata = metadata_default\<rparr>"

record update_type_mail_dto =
  tmlu_event_type_id :: uuid
  tmlu_interval_nbr :: int
  tmlu_interval_unit :: event_interval_unit
  tmlu_interval_kind :: event_interval_kind
  tmlu_notification_channel :: event_notification_channel
  tmlu_template_ref :: "uuid option"
  tmlu_template_kind :: "string option"

definition type_mail_apply_update :: "update_type_mail_dto \<Rightarrow> type_mail \<Rightarrow> type_mail" where
  "type_mail_apply_update dto e =
     e\<lparr>tml_event_type_id := tmlu_event_type_id dto, tml_interval_nbr := tmlu_interval_nbr dto,
       tml_interval_unit := tmlu_interval_unit dto, tml_interval_kind := tmlu_interval_kind dto,
       tml_notification_channel := tmlu_notification_channel dto,
       tml_template_ref := tmlu_template_ref dto, tml_template_kind := tmlu_template_kind dto\<rparr>"

record patch_type_mail_dto =
  tmlp_event_type_id :: "uuid option"
  tmlp_interval_nbr :: "int option"
  tmlp_interval_unit :: "event_interval_unit option"
  tmlp_interval_kind :: "event_interval_kind option"
  tmlp_notification_channel :: "event_notification_channel option"
  tmlp_template_ref :: "uuid option option"
  tmlp_template_kind :: "string option option"

definition type_mail_has_changes :: "patch_type_mail_dto \<Rightarrow> bool" where
  "type_mail_has_changes dto \<longleftrightarrow>
     tmlp_event_type_id dto \<noteq> None \<or> tmlp_interval_nbr dto \<noteq> None \<or>
     tmlp_interval_unit dto \<noteq> None \<or> tmlp_interval_kind dto \<noteq> None \<or>
     tmlp_notification_channel dto \<noteq> None \<or> tmlp_template_ref dto \<noteq> None \<or>
     tmlp_template_kind dto \<noteq> None"

record type_mail_response_dto =
  tmlr_id :: uuid
  tmlr_event_type_id :: uuid
  tmlr_interval_nbr :: int
  tmlr_interval_unit :: event_interval_unit
  tmlr_interval_kind :: event_interval_kind
  tmlr_notification_channel :: event_notification_channel
  tmlr_template_ref :: "uuid option"
  tmlr_template_kind :: "string option"
  tmlr_metadata :: audit_metadata

definition type_mail_response :: "type_mail \<Rightarrow> type_mail_response_dto" where
  "type_mail_response e =
     \<lparr>tmlr_id = tml_id e, tmlr_event_type_id = tml_event_type_id e,
      tmlr_interval_nbr = tml_interval_nbr e, tmlr_interval_unit = tml_interval_unit e,
      tmlr_interval_kind = tml_interval_kind e,
      tmlr_notification_channel = tml_notification_channel e,
      tmlr_template_ref = tml_template_ref e, tmlr_template_kind = tml_template_kind e,
      tmlr_metadata = tml_metadata e\<rparr>"

definition type_mail_list ::
    "type_mail_response_dto list \<Rightarrow> nat \<Rightarrow> nat \<Rightarrow> nat \<Rightarrow> type_mail_response_dto page" where
  "type_mail_list items rows p per_page = new_page items rows p per_page"

record type_mail_summary_dto =
  tmls_id :: uuid
  tmls_event_type_id :: uuid
  tmls_interval_nbr :: int
  tmls_interval_unit :: event_interval_unit
  tmls_created_at :: "timestamp option"

definition type_mail_summary :: "type_mail \<Rightarrow> type_mail_summary_dto" where
  "type_mail_summary e = \<lparr>tmls_id = tml_id e, tmls_event_type_id = tml_event_type_id e,
     tmls_interval_nbr = tml_interval_nbr e, tmls_interval_unit = tml_interval_unit e,
     tmls_created_at = am_created_at (tml_metadata e)\<rparr>"

end
