(* ===== verification/LeadEntities.thy ===== *)
theory LeadEntities
  imports EntityBase Pages StateMachines
begin

text \<open>
  The generated entities and DTOs of lead rules, predicates, requests and provenance: the row structs of
  \<open>domain/entity\<close> with their constructors, chainable setters, generic patch, repository
  metadata and builder, and the DTOs of \<open>presentation/dto\<close> with their conversions. The rows are
  the full structs; the tables of the schema theory keep the columns the hand-written SQL uses.
  A fresh uuid is an argument.
\<close>

section \<open>\<open>LeadProvenance\<close>\<close>

record lead_provenance =
  lpv_id :: uuid
  lpv_rule_id :: uuid
  lpv_event_id :: uuid
  lpv_lead_id :: "uuid option"
  lpv_group_key :: string
  lpv_grouping :: event_lead_grouping
  lpv_metadata :: audit_metadata

definition lead_provenance_fields :: "(string \<times> string) list" where
  "lead_provenance_fields =
     [(''id'', ''Uuid''), (''rule_id'', ''Uuid''), (''event_id'', ''Uuid''),
      (''lead_id'', ''Option<Uuid>''), (''group_key'', ''String''),
      (''grouping'', ''EventLeadGrouping''), (''metadata'', ''AuditMetadata'')]"

definition lead_provenance_new ::
    "uuid \<Rightarrow> uuid \<Rightarrow> uuid \<Rightarrow> string \<Rightarrow>
     event_lead_grouping \<Rightarrow> lead_provenance" where
  "lead_provenance_new fresh rule_id' event_id' group_key' grouping' =
     \<lparr>lpv_id = fresh, lpv_rule_id = rule_id', lpv_event_id = event_id', lpv_lead_id = None,
      lpv_group_key = group_key', lpv_grouping = grouping', lpv_metadata = metadata_default\<rparr>"

datatype lead_provenance_setter =
    Lpv_With_Lead_Id uuid

fun lead_provenance_with :: "lead_provenance_setter \<Rightarrow> lead_provenance \<Rightarrow> lead_provenance" where
  "lead_provenance_with (Lpv_With_Lead_Id x) e = e\<lparr>lpv_lead_id := Some x\<rparr>"

definition lead_provenance_arms :: "entity_env \<Rightarrow> lead_provenance patch_arms" where
  "lead_provenance_arms env =
     [(''rule_id'', patch_with (value_uuid env) lpv_rule_id_update),
      (''event_id'', patch_with (value_uuid env) lpv_event_id_update),
      (''lead_id'', patch_with (value_option (value_uuid env)) lpv_lead_id_update),
      (''group_key'', patch_with value_string lpv_group_key_update),
      (''grouping'', patch_with (value_variant lead_grouping_to_str [Grouping_PerOrder, Grouping_PerEventDay]) lpv_grouping_update)]"

definition lead_provenance_apply_patch :: "entity_env \<Rightarrow> (string \<times> json) list \<Rightarrow> lead_provenance \<Rightarrow> lead_provenance" where
  "lead_provenance_apply_patch env = patch_fields (lead_provenance_arms env)"

interpretation lead_provenance_patch: patchable "lead_provenance_arms env"
    "\<lambda>e. (lpv_id e, lpv_metadata e)" for env
  by unfold_locales (simp_all add: lead_provenance_arms_def)

definition lead_provenance_references :: "(string \<times> string \<times> string) list" where
  "lead_provenance_references =
     [(''rule_id'', ''event.lead_rules'', ''id''), (''event_id'', ''event.events'', ''id'')]"

fun lead_provenance_persist :: "entity_env \<Rightarrow> persist_call \<Rightarrow> lead_provenance \<Rightarrow> lead_provenance" where
  "lead_provenance_persist env (Set_Entity_Id i) e =
     (case en_uuid env i of Some u \<Rightarrow> e\<lparr>lpv_id := u\<rparr> | None \<Rightarrow> e)"
| "lead_provenance_persist env (Set_Created_At ts) e = e\<lparr>lpv_metadata := (lpv_metadata e)\<lparr>am_created_at := Some ts\<rparr>\<rparr>"
| "lead_provenance_persist env (Set_Updated_At ts) e = e\<lparr>lpv_metadata := (lpv_metadata e)\<lparr>am_updated_at := Some ts\<rparr>\<rparr>"
| "lead_provenance_persist env (Set_Deleted_At ts) e = e\<lparr>lpv_metadata := (lpv_metadata e)\<lparr>am_deleted_at := ts\<rparr>\<rparr>"

definition lead_provenance_columns :: "(string \<times> string) list" where
  "lead_provenance_columns =
     [(''id'', ''uuid''), (''rule_id'', ''uuid''), (''event_id'', ''uuid''),
      (''lead_id'', ''uuid''), (''grouping'', ''event_lead_grouping'')]"

definition lead_provenance_search_fields :: "string list" where
  "lead_provenance_search_fields = [''group_key'']"

definition lead_provenance_relations :: "(string \<times> string \<times> string) list" where
  "lead_provenance_relations =
     [(''rule'', ''lead_rules'', ''ruleId''), (''event'', ''events'', ''eventId'')]"

record lead_provenance_builder =
  lpvb_rule_id :: "uuid option"
  lpvb_event_id :: "uuid option"
  lpvb_lead_id :: "uuid option"
  lpvb_group_key :: "string option"
  lpvb_grouping :: "event_lead_grouping option"

definition lead_provenance_builder_default :: lead_provenance_builder where
  "lead_provenance_builder_default = \<lparr>lpvb_rule_id = None, lpvb_event_id = None, lpvb_lead_id = None, lpvb_group_key = None,
     lpvb_grouping = None\<rparr>"

datatype lead_provenance_builder_call =
    Lpv_Set_Rule_Id uuid
  | Lpv_Set_Event_Id uuid
  | Lpv_Set_Lead_Id uuid
  | Lpv_Set_Group_Key string
  | Lpv_Set_Grouping event_lead_grouping

fun lead_provenance_builder_set :: "lead_provenance_builder_call \<Rightarrow> lead_provenance_builder \<Rightarrow> lead_provenance_builder" where
  "lead_provenance_builder_set (Lpv_Set_Rule_Id x) b = b\<lparr>lpvb_rule_id := Some x\<rparr>"
| "lead_provenance_builder_set (Lpv_Set_Event_Id x) b = b\<lparr>lpvb_event_id := Some x\<rparr>"
| "lead_provenance_builder_set (Lpv_Set_Lead_Id x) b = b\<lparr>lpvb_lead_id := Some x\<rparr>"
| "lead_provenance_builder_set (Lpv_Set_Group_Key x) b = b\<lparr>lpvb_group_key := Some x\<rparr>"
| "lead_provenance_builder_set (Lpv_Set_Grouping x) b = b\<lparr>lpvb_grouping := Some x\<rparr>"

definition lead_provenance_build :: "uuid \<Rightarrow> lead_provenance_builder \<Rightarrow> string + lead_provenance" where
  "lead_provenance_build fresh b =
     bind_r (ok_or (lpvb_rule_id b) ''rule_id is required'') (\<lambda>rule_id'.
     bind_r (ok_or (lpvb_event_id b) ''event_id is required'') (\<lambda>event_id'.
     bind_r (ok_or (lpvb_group_key b) ''group_key is required'') (\<lambda>group_key'.
     bind_r (ok_or (lpvb_grouping b) ''grouping is required'') (\<lambda>grouping'.
     Inr \<lparr>lpv_id = fresh, lpv_rule_id = rule_id', lpv_event_id = event_id',
        lpv_lead_id = lpvb_lead_id b, lpv_group_key = group_key', lpv_grouping = grouping',
        lpv_metadata = metadata_default\<rparr>))))"

record lead_provenance_filter =
  lpvf_rule_id :: "uuid option"
  lpvf_event_id :: "uuid option"
  lpvf_lead_id :: "uuid option"
  lpvf_group_key :: "string option"
  lpvf_grouping :: "event_lead_grouping option"

definition lead_provenance_has_filters :: "lead_provenance_filter \<Rightarrow> bool" where
  "lead_provenance_has_filters f \<longleftrightarrow>
     lpvf_rule_id f \<noteq> None \<or> lpvf_event_id f \<noteq> None \<or>
     lpvf_lead_id f \<noteq> None \<or> lpvf_group_key f \<noteq> None \<or>
     lpvf_grouping f \<noteq> None"

definition lead_provenance_offset :: "page_params \<Rightarrow> 64 word" where
  "lead_provenance_offset params = page_offset params"

definition lead_provenance_table :: string where
  "lead_provenance_table = ''event.lead_provenances''"

record create_lead_provenance_dto =
  lpvc_rule_id :: uuid
  lpvc_event_id :: uuid
  lpvc_lead_id :: "uuid option"
  lpvc_group_key :: string
  lpvc_grouping :: event_lead_grouping

definition lead_provenance_of_create :: "uuid \<Rightarrow> create_lead_provenance_dto \<Rightarrow> lead_provenance" where
  "lead_provenance_of_create fresh dto =
     \<lparr>lpv_id = fresh, lpv_rule_id = lpvc_rule_id dto, lpv_event_id = lpvc_event_id dto,
      lpv_lead_id = lpvc_lead_id dto, lpv_group_key = lpvc_group_key dto,
      lpv_grouping = lpvc_grouping dto, lpv_metadata = metadata_default\<rparr>"

record update_lead_provenance_dto =
  lpvu_rule_id :: uuid
  lpvu_event_id :: uuid
  lpvu_lead_id :: "uuid option"
  lpvu_group_key :: string
  lpvu_grouping :: event_lead_grouping

definition lead_provenance_apply_update :: "update_lead_provenance_dto \<Rightarrow> lead_provenance \<Rightarrow> lead_provenance" where
  "lead_provenance_apply_update dto e =
     e\<lparr>lpv_rule_id := lpvu_rule_id dto, lpv_event_id := lpvu_event_id dto,
       lpv_lead_id := lpvu_lead_id dto, lpv_group_key := lpvu_group_key dto,
       lpv_grouping := lpvu_grouping dto\<rparr>"

record patch_lead_provenance_dto =
  lpvp_rule_id :: "uuid option"
  lpvp_event_id :: "uuid option"
  lpvp_lead_id :: "uuid option option"
  lpvp_group_key :: "string option"
  lpvp_grouping :: "event_lead_grouping option"

definition lead_provenance_has_changes :: "patch_lead_provenance_dto \<Rightarrow> bool" where
  "lead_provenance_has_changes dto \<longleftrightarrow>
     lpvp_rule_id dto \<noteq> None \<or> lpvp_event_id dto \<noteq> None \<or>
     lpvp_lead_id dto \<noteq> None \<or> lpvp_group_key dto \<noteq> None \<or>
     lpvp_grouping dto \<noteq> None"

record lead_provenance_response_dto =
  lpvr_id :: uuid
  lpvr_rule_id :: uuid
  lpvr_event_id :: uuid
  lpvr_lead_id :: "uuid option"
  lpvr_group_key :: string
  lpvr_grouping :: event_lead_grouping
  lpvr_metadata :: audit_metadata

definition lead_provenance_response :: "lead_provenance \<Rightarrow> lead_provenance_response_dto" where
  "lead_provenance_response e =
     \<lparr>lpvr_id = lpv_id e, lpvr_rule_id = lpv_rule_id e, lpvr_event_id = lpv_event_id e,
      lpvr_lead_id = lpv_lead_id e, lpvr_group_key = lpv_group_key e,
      lpvr_grouping = lpv_grouping e, lpvr_metadata = lpv_metadata e\<rparr>"

definition lead_provenance_list ::
    "lead_provenance_response_dto list \<Rightarrow> nat \<Rightarrow> nat \<Rightarrow> nat \<Rightarrow> lead_provenance_response_dto page" where
  "lead_provenance_list items rows p per_page = new_page items rows p per_page"

record lead_provenance_summary_dto =
  lpvs_id :: uuid
  lpvs_rule_id :: uuid
  lpvs_event_id :: uuid
  lpvs_lead_id :: "uuid option"
  lpvs_created_at :: "timestamp option"

definition lead_provenance_summary :: "lead_provenance \<Rightarrow> lead_provenance_summary_dto" where
  "lead_provenance_summary e = \<lparr>lpvs_id = lpv_id e, lpvs_rule_id = lpv_rule_id e, lpvs_event_id = lpv_event_id e,
     lpvs_lead_id = lpv_lead_id e, lpvs_created_at = am_created_at (lpv_metadata e)\<rparr>"

section \<open>\<open>LeadProvenanceRegistration\<close>\<close>

record lead_provenance_registration =
  lpr_id :: uuid
  lpr_provenance_id :: uuid
  lpr_registration_id :: uuid
  lpr_metadata :: audit_metadata

definition lead_provenance_registration_fields :: "(string \<times> string) list" where
  "lead_provenance_registration_fields =
     [(''id'', ''Uuid''), (''provenance_id'', ''Uuid''), (''registration_id'', ''Uuid''),
      (''metadata'', ''AuditMetadata'')]"

definition lead_provenance_registration_new ::
    "uuid \<Rightarrow> uuid \<Rightarrow> uuid \<Rightarrow> lead_provenance_registration" where
  "lead_provenance_registration_new fresh provenance_id' registration_id' =
     \<lparr>lpr_id = fresh, lpr_provenance_id = provenance_id',
      lpr_registration_id = registration_id', lpr_metadata = metadata_default\<rparr>"

definition lead_provenance_registration_arms :: "entity_env \<Rightarrow> lead_provenance_registration patch_arms" where
  "lead_provenance_registration_arms env =
     [(''provenance_id'', patch_with (value_uuid env) lpr_provenance_id_update),
      (''registration_id'', patch_with (value_uuid env) lpr_registration_id_update)]"

definition lead_provenance_registration_apply_patch :: "entity_env \<Rightarrow> (string \<times> json) list \<Rightarrow> lead_provenance_registration \<Rightarrow> lead_provenance_registration" where
  "lead_provenance_registration_apply_patch env = patch_fields (lead_provenance_registration_arms env)"

interpretation lead_provenance_registration_patch: patchable "lead_provenance_registration_arms env"
    "\<lambda>e. (lpr_id e, lpr_metadata e)" for env
  by unfold_locales (simp_all add: lead_provenance_registration_arms_def)

definition lead_provenance_registration_references :: "(string \<times> string \<times> string) list" where
  "lead_provenance_registration_references =
     [(''provenance_id'', ''event.lead_provenances'', ''id''),
      (''registration_id'', ''event.registrations'', ''id'')]"

fun lead_provenance_registration_persist :: "entity_env \<Rightarrow> persist_call \<Rightarrow> lead_provenance_registration \<Rightarrow> lead_provenance_registration" where
  "lead_provenance_registration_persist env (Set_Entity_Id i) e =
     (case en_uuid env i of Some u \<Rightarrow> e\<lparr>lpr_id := u\<rparr> | None \<Rightarrow> e)"
| "lead_provenance_registration_persist env (Set_Created_At ts) e = e\<lparr>lpr_metadata := (lpr_metadata e)\<lparr>am_created_at := Some ts\<rparr>\<rparr>"
| "lead_provenance_registration_persist env (Set_Updated_At ts) e = e\<lparr>lpr_metadata := (lpr_metadata e)\<lparr>am_updated_at := Some ts\<rparr>\<rparr>"
| "lead_provenance_registration_persist env (Set_Deleted_At ts) e = e\<lparr>lpr_metadata := (lpr_metadata e)\<lparr>am_deleted_at := ts\<rparr>\<rparr>"

definition lead_provenance_registration_columns :: "(string \<times> string) list" where
  "lead_provenance_registration_columns =
     [(''id'', ''uuid''), (''provenance_id'', ''uuid''), (''registration_id'', ''uuid'')]"

definition lead_provenance_registration_search_fields :: "string list" where
  "lead_provenance_registration_search_fields = []"

definition lead_provenance_registration_relations :: "(string \<times> string \<times> string) list" where
  "lead_provenance_registration_relations =
     [(''provenance'', ''lead_provenances'', ''provenanceId''),
      (''registration'', ''registrations'', ''registrationId'')]"

record lead_provenance_registration_builder =
  lprb_provenance_id :: "uuid option"
  lprb_registration_id :: "uuid option"

definition lead_provenance_registration_builder_default :: lead_provenance_registration_builder where
  "lead_provenance_registration_builder_default = \<lparr>lprb_provenance_id = None, lprb_registration_id = None\<rparr>"

datatype lead_provenance_registration_builder_call =
    Lpr_Set_Provenance_Id uuid
  | Lpr_Set_Registration_Id uuid

fun lead_provenance_registration_builder_set :: "lead_provenance_registration_builder_call \<Rightarrow> lead_provenance_registration_builder \<Rightarrow> lead_provenance_registration_builder" where
  "lead_provenance_registration_builder_set (Lpr_Set_Provenance_Id x) b = b\<lparr>lprb_provenance_id := Some x\<rparr>"
| "lead_provenance_registration_builder_set (Lpr_Set_Registration_Id x) b = b\<lparr>lprb_registration_id := Some x\<rparr>"

definition lead_provenance_registration_build :: "uuid \<Rightarrow> lead_provenance_registration_builder \<Rightarrow> string + lead_provenance_registration" where
  "lead_provenance_registration_build fresh b =
     bind_r (ok_or (lprb_provenance_id b) ''provenance_id is required'') (\<lambda>provenance_id'.
     bind_r (ok_or (lprb_registration_id b) ''registration_id is required'') (\<lambda>registration_id'.
     Inr \<lparr>lpr_id = fresh, lpr_provenance_id = provenance_id',
        lpr_registration_id = registration_id', lpr_metadata = metadata_default\<rparr>))"

record lead_provenance_registration_filter =
  lprf_provenance_id :: "uuid option"
  lprf_registration_id :: "uuid option"

definition lead_provenance_registration_has_filters :: "lead_provenance_registration_filter \<Rightarrow> bool" where
  "lead_provenance_registration_has_filters f \<longleftrightarrow>
     lprf_provenance_id f \<noteq> None \<or> lprf_registration_id f \<noteq> None"

definition lead_provenance_registration_offset :: "page_params \<Rightarrow> 64 word" where
  "lead_provenance_registration_offset params = page_offset params"

definition lead_provenance_registration_table :: string where
  "lead_provenance_registration_table = ''event.lead_provenance_registrations''"

record create_lead_provenance_registration_dto =
  lprc_provenance_id :: uuid
  lprc_registration_id :: uuid

definition lead_provenance_registration_of_create :: "uuid \<Rightarrow> create_lead_provenance_registration_dto \<Rightarrow> lead_provenance_registration" where
  "lead_provenance_registration_of_create fresh dto =
     \<lparr>lpr_id = fresh, lpr_provenance_id = lprc_provenance_id dto,
      lpr_registration_id = lprc_registration_id dto, lpr_metadata = metadata_default\<rparr>"

record update_lead_provenance_registration_dto =
  lpru_provenance_id :: uuid
  lpru_registration_id :: uuid

definition lead_provenance_registration_apply_update :: "update_lead_provenance_registration_dto \<Rightarrow> lead_provenance_registration \<Rightarrow> lead_provenance_registration" where
  "lead_provenance_registration_apply_update dto e =
     e\<lparr>lpr_provenance_id := lpru_provenance_id dto,
       lpr_registration_id := lpru_registration_id dto\<rparr>"

record patch_lead_provenance_registration_dto =
  lprp_provenance_id :: "uuid option"
  lprp_registration_id :: "uuid option"

definition lead_provenance_registration_has_changes :: "patch_lead_provenance_registration_dto \<Rightarrow> bool" where
  "lead_provenance_registration_has_changes dto \<longleftrightarrow>
     lprp_provenance_id dto \<noteq> None \<or> lprp_registration_id dto \<noteq> None"

record lead_provenance_registration_response_dto =
  lprr_id :: uuid
  lprr_provenance_id :: uuid
  lprr_registration_id :: uuid
  lprr_metadata :: audit_metadata

definition lead_provenance_registration_response :: "lead_provenance_registration \<Rightarrow> lead_provenance_registration_response_dto" where
  "lead_provenance_registration_response e =
     \<lparr>lprr_id = lpr_id e, lprr_provenance_id = lpr_provenance_id e,
      lprr_registration_id = lpr_registration_id e, lprr_metadata = lpr_metadata e\<rparr>"

definition lead_provenance_registration_list ::
    "lead_provenance_registration_response_dto list \<Rightarrow> nat \<Rightarrow> nat \<Rightarrow> nat \<Rightarrow> lead_provenance_registration_response_dto page" where
  "lead_provenance_registration_list items rows p per_page = new_page items rows p per_page"

record lead_provenance_registration_summary_dto =
  lprs_id :: uuid
  lprs_provenance_id :: uuid
  lprs_registration_id :: uuid
  lprs_created_at :: "timestamp option"

definition lead_provenance_registration_summary :: "lead_provenance_registration \<Rightarrow> lead_provenance_registration_summary_dto" where
  "lead_provenance_registration_summary e = \<lparr>lprs_id = lpr_id e, lprs_provenance_id = lpr_provenance_id e,
     lprs_registration_id = lpr_registration_id e,
     lprs_created_at = am_created_at (lpr_metadata e)\<rparr>"

section \<open>\<open>LeadRequest\<close>\<close>

record lead_request =
  lqt_id :: uuid
  lqt_event_id :: uuid
  lqt_done :: bool
  lqt_error_detail :: "string option"
  lqt_claimed_at :: "timestamp option"
  lqt_metadata :: audit_metadata

definition lead_request_fields :: "(string \<times> string) list" where
  "lead_request_fields =
     [(''id'', ''Uuid''), (''event_id'', ''Uuid''), (''done'', ''bool''),
      (''error_detail'', ''Option<String>''), (''claimed_at'', ''Option<DateTime<Utc>>''),
      (''metadata'', ''AuditMetadata'')]"

definition lead_request_new ::
    "uuid \<Rightarrow> uuid \<Rightarrow> bool \<Rightarrow> lead_request" where
  "lead_request_new fresh event_id' done' =
     \<lparr>lqt_id = fresh, lqt_event_id = event_id', lqt_done = done', lqt_error_detail = None,
      lqt_claimed_at = None, lqt_metadata = metadata_default\<rparr>"

datatype lead_request_setter =
    Lqt_With_Error_Detail string
  | Lqt_With_Claimed_At timestamp

fun lead_request_with :: "lead_request_setter \<Rightarrow> lead_request \<Rightarrow> lead_request" where
  "lead_request_with (Lqt_With_Error_Detail x) e = e\<lparr>lqt_error_detail := Some x\<rparr>"
| "lead_request_with (Lqt_With_Claimed_At x) e = e\<lparr>lqt_claimed_at := Some x\<rparr>"

definition lead_request_arms :: "entity_env \<Rightarrow> lead_request patch_arms" where
  "lead_request_arms env =
     [(''event_id'', patch_with (value_uuid env) lqt_event_id_update),
      (''done'', patch_with value_bool lqt_done_update),
      (''error_detail'', patch_with (value_option value_string) lqt_error_detail_update),
      (''claimed_at'', patch_with (value_option (value_time env)) lqt_claimed_at_update)]"

definition lead_request_apply_patch :: "entity_env \<Rightarrow> (string \<times> json) list \<Rightarrow> lead_request \<Rightarrow> lead_request" where
  "lead_request_apply_patch env = patch_fields (lead_request_arms env)"

interpretation lead_request_patch: patchable "lead_request_arms env"
    "\<lambda>e. (lqt_id e, lqt_metadata e)" for env
  by unfold_locales (simp_all add: lead_request_arms_def)

definition lead_request_references :: "(string \<times> string \<times> string) list" where
  "lead_request_references =
     [(''event_id'', ''event.events'', ''id'')]"

fun lead_request_persist :: "entity_env \<Rightarrow> persist_call \<Rightarrow> lead_request \<Rightarrow> lead_request" where
  "lead_request_persist env (Set_Entity_Id i) e =
     (case en_uuid env i of Some u \<Rightarrow> e\<lparr>lqt_id := u\<rparr> | None \<Rightarrow> e)"
| "lead_request_persist env (Set_Created_At ts) e = e\<lparr>lqt_metadata := (lqt_metadata e)\<lparr>am_created_at := Some ts\<rparr>\<rparr>"
| "lead_request_persist env (Set_Updated_At ts) e = e\<lparr>lqt_metadata := (lqt_metadata e)\<lparr>am_updated_at := Some ts\<rparr>\<rparr>"
| "lead_request_persist env (Set_Deleted_At ts) e = e\<lparr>lqt_metadata := (lqt_metadata e)\<lparr>am_deleted_at := ts\<rparr>\<rparr>"

definition lead_request_columns :: "(string \<times> string) list" where
  "lead_request_columns =
     [(''id'', ''uuid''), (''event_id'', ''uuid''), (''claimed_at'', ''timestamptz'')]"

definition lead_request_search_fields :: "string list" where
  "lead_request_search_fields = []"

definition lead_request_relations :: "(string \<times> string \<times> string) list" where
  "lead_request_relations =
     [(''event'', ''events'', ''eventId'')]"

record lead_request_builder =
  lqtb_event_id :: "uuid option"
  lqtb_done :: "bool option"
  lqtb_error_detail :: "string option"
  lqtb_claimed_at :: "timestamp option"

definition lead_request_builder_default :: lead_request_builder where
  "lead_request_builder_default = \<lparr>lqtb_event_id = None, lqtb_done = None, lqtb_error_detail = None, lqtb_claimed_at = None\<rparr>"

datatype lead_request_builder_call =
    Lqt_Set_Event_Id uuid
  | Lqt_Set_Done bool
  | Lqt_Set_Error_Detail string
  | Lqt_Set_Claimed_At timestamp

fun lead_request_builder_set :: "lead_request_builder_call \<Rightarrow> lead_request_builder \<Rightarrow> lead_request_builder" where
  "lead_request_builder_set (Lqt_Set_Event_Id x) b = b\<lparr>lqtb_event_id := Some x\<rparr>"
| "lead_request_builder_set (Lqt_Set_Done x) b = b\<lparr>lqtb_done := Some x\<rparr>"
| "lead_request_builder_set (Lqt_Set_Error_Detail x) b = b\<lparr>lqtb_error_detail := Some x\<rparr>"
| "lead_request_builder_set (Lqt_Set_Claimed_At x) b = b\<lparr>lqtb_claimed_at := Some x\<rparr>"

definition lead_request_build :: "uuid \<Rightarrow> lead_request_builder \<Rightarrow> string + lead_request" where
  "lead_request_build fresh b =
     bind_r (ok_or (lqtb_event_id b) ''event_id is required'') (\<lambda>event_id'.
     Inr \<lparr>lqt_id = fresh, lqt_event_id = event_id', lqt_done = unwrap_or False (lqtb_done b),
        lqt_error_detail = lqtb_error_detail b, lqt_claimed_at = lqtb_claimed_at b,
        lqt_metadata = metadata_default\<rparr>)"

record lead_request_filter =
  lqtf_event_id :: "uuid option"
  lqtf_done :: "bool option"
  lqtf_error_detail :: "string option"

definition lead_request_has_filters :: "lead_request_filter \<Rightarrow> bool" where
  "lead_request_has_filters f \<longleftrightarrow>
     lqtf_event_id f \<noteq> None \<or> lqtf_done f \<noteq> None \<or>
     lqtf_error_detail f \<noteq> None"

definition lead_request_offset :: "page_params \<Rightarrow> 64 word" where
  "lead_request_offset params = page_offset params"

definition lead_request_table :: string where
  "lead_request_table = ''event.lead_requests''"

record create_lead_request_dto =
  lqtc_event_id :: uuid
  lqtc_done :: bool
  lqtc_error_detail :: "string option"
  lqtc_claimed_at :: "timestamp option"

definition lead_request_of_create :: "uuid \<Rightarrow> create_lead_request_dto \<Rightarrow> lead_request" where
  "lead_request_of_create fresh dto =
     \<lparr>lqt_id = fresh, lqt_event_id = lqtc_event_id dto, lqt_done = lqtc_done dto,
      lqt_error_detail = lqtc_error_detail dto, lqt_claimed_at = lqtc_claimed_at dto,
      lqt_metadata = metadata_default\<rparr>"

record update_lead_request_dto =
  lqtu_event_id :: uuid
  lqtu_done :: bool
  lqtu_error_detail :: "string option"
  lqtu_claimed_at :: "timestamp option"

definition lead_request_apply_update :: "update_lead_request_dto \<Rightarrow> lead_request \<Rightarrow> lead_request" where
  "lead_request_apply_update dto e =
     e\<lparr>lqt_event_id := lqtu_event_id dto, lqt_done := lqtu_done dto,
       lqt_error_detail := lqtu_error_detail dto, lqt_claimed_at := lqtu_claimed_at dto\<rparr>"

record patch_lead_request_dto =
  lqtp_event_id :: "uuid option"
  lqtp_done :: "bool option"
  lqtp_error_detail :: "string option option"
  lqtp_claimed_at :: "timestamp option option"

definition lead_request_has_changes :: "patch_lead_request_dto \<Rightarrow> bool" where
  "lead_request_has_changes dto \<longleftrightarrow>
     lqtp_event_id dto \<noteq> None \<or> lqtp_done dto \<noteq> None \<or>
     lqtp_error_detail dto \<noteq> None \<or> lqtp_claimed_at dto \<noteq> None"

record lead_request_response_dto =
  lqtr_id :: uuid
  lqtr_event_id :: uuid
  lqtr_done :: bool
  lqtr_error_detail :: "string option"
  lqtr_claimed_at :: "timestamp option"
  lqtr_metadata :: audit_metadata

definition lead_request_response :: "lead_request \<Rightarrow> lead_request_response_dto" where
  "lead_request_response e =
     \<lparr>lqtr_id = lqt_id e, lqtr_event_id = lqt_event_id e, lqtr_done = lqt_done e,
      lqtr_error_detail = lqt_error_detail e, lqtr_claimed_at = lqt_claimed_at e,
      lqtr_metadata = lqt_metadata e\<rparr>"

definition lead_request_list ::
    "lead_request_response_dto list \<Rightarrow> nat \<Rightarrow> nat \<Rightarrow> nat \<Rightarrow> lead_request_response_dto page" where
  "lead_request_list items rows p per_page = new_page items rows p per_page"

record lead_request_summary_dto =
  lqts_id :: uuid
  lqts_event_id :: uuid
  lqts_done :: bool
  lqts_error_detail :: "string option"
  lqts_created_at :: "timestamp option"

definition lead_request_summary :: "lead_request \<Rightarrow> lead_request_summary_dto" where
  "lead_request_summary e = \<lparr>lqts_id = lqt_id e, lqts_event_id = lqt_event_id e, lqts_done = lqt_done e,
     lqts_error_detail = lqt_error_detail e, lqts_created_at = am_created_at (lqt_metadata e)\<rparr>"

section \<open>\<open>LeadRule\<close>\<close>

record lead_rule =
  lru_id :: uuid
  lru_name :: string
  lru_event_id :: "uuid option"
  lru_basis :: event_lead_basis
  lru_on_create :: bool
  lru_on_confirm :: bool
  lru_on_done :: bool
  lru_active :: bool
  lru_metadata :: audit_metadata

definition lead_rule_fields :: "(string \<times> string) list" where
  "lead_rule_fields =
     [(''id'', ''Uuid''), (''name'', ''String''), (''event_id'', ''Option<Uuid>''),
      (''basis'', ''EventLeadBasis''), (''on_create'', ''bool''), (''on_confirm'', ''bool''),
      (''on_done'', ''bool''), (''active'', ''bool''), (''metadata'', ''AuditMetadata'')]"

definition lead_rule_new ::
    "uuid \<Rightarrow> string \<Rightarrow> event_lead_basis \<Rightarrow> bool \<Rightarrow>
     bool \<Rightarrow> bool \<Rightarrow> bool \<Rightarrow> lead_rule" where
  "lead_rule_new fresh name' basis' on_create' on_confirm' on_done' active' =
     \<lparr>lru_id = fresh, lru_name = name', lru_event_id = None, lru_basis = basis',
      lru_on_create = on_create', lru_on_confirm = on_confirm', lru_on_done = on_done',
      lru_active = active', lru_metadata = metadata_default\<rparr>"

datatype lead_rule_setter =
    Lru_With_Event_Id uuid

fun lead_rule_with :: "lead_rule_setter \<Rightarrow> lead_rule \<Rightarrow> lead_rule" where
  "lead_rule_with (Lru_With_Event_Id x) e = e\<lparr>lru_event_id := Some x\<rparr>"

definition lead_rule_arms :: "entity_env \<Rightarrow> lead_rule patch_arms" where
  "lead_rule_arms env =
     [(''name'', patch_with value_string lru_name_update),
      (''event_id'', patch_with (value_option (value_uuid env)) lru_event_id_update),
      (''basis'', patch_with (value_variant lead_basis_to_str [Basis_Registration, Basis_Attendee]) lru_basis_update),
      (''on_create'', patch_with value_bool lru_on_create_update),
      (''on_confirm'', patch_with value_bool lru_on_confirm_update),
      (''on_done'', patch_with value_bool lru_on_done_update),
      (''active'', patch_with value_bool lru_active_update)]"

definition lead_rule_apply_patch :: "entity_env \<Rightarrow> (string \<times> json) list \<Rightarrow> lead_rule \<Rightarrow> lead_rule" where
  "lead_rule_apply_patch env = patch_fields (lead_rule_arms env)"

interpretation lead_rule_patch: patchable "lead_rule_arms env"
    "\<lambda>e. (lru_id e, lru_metadata e)" for env
  by unfold_locales (simp_all add: lead_rule_arms_def)

definition lead_rule_references :: "(string \<times> string \<times> string) list" where
  "lead_rule_references =
     [(''event_id'', ''event.events'', ''id'')]"

fun lead_rule_persist :: "entity_env \<Rightarrow> persist_call \<Rightarrow> lead_rule \<Rightarrow> lead_rule" where
  "lead_rule_persist env (Set_Entity_Id i) e =
     (case en_uuid env i of Some u \<Rightarrow> e\<lparr>lru_id := u\<rparr> | None \<Rightarrow> e)"
| "lead_rule_persist env (Set_Created_At ts) e = e\<lparr>lru_metadata := (lru_metadata e)\<lparr>am_created_at := Some ts\<rparr>\<rparr>"
| "lead_rule_persist env (Set_Updated_At ts) e = e\<lparr>lru_metadata := (lru_metadata e)\<lparr>am_updated_at := Some ts\<rparr>\<rparr>"
| "lead_rule_persist env (Set_Deleted_At ts) e = e\<lparr>lru_metadata := (lru_metadata e)\<lparr>am_deleted_at := ts\<rparr>\<rparr>"

definition lead_rule_columns :: "(string \<times> string) list" where
  "lead_rule_columns =
     [(''id'', ''uuid''), (''event_id'', ''uuid''), (''basis'', ''event_lead_basis'')]"

definition lead_rule_search_fields :: "string list" where
  "lead_rule_search_fields = [''name'']"

definition lead_rule_relations :: "(string \<times> string \<times> string) list" where
  "lead_rule_relations =
     [(''event'', ''events'', ''eventId'')]"

record lead_rule_builder =
  lrub_name :: "string option"
  lrub_event_id :: "uuid option"
  lrub_basis :: "event_lead_basis option"
  lrub_on_create :: "bool option"
  lrub_on_confirm :: "bool option"
  lrub_on_done :: "bool option"
  lrub_active :: "bool option"

definition lead_rule_builder_default :: lead_rule_builder where
  "lead_rule_builder_default = \<lparr>lrub_name = None, lrub_event_id = None, lrub_basis = None, lrub_on_create = None,
     lrub_on_confirm = None, lrub_on_done = None, lrub_active = None\<rparr>"

datatype lead_rule_builder_call =
    Lru_Set_Name string
  | Lru_Set_Event_Id uuid
  | Lru_Set_Basis event_lead_basis
  | Lru_Set_On_Create bool
  | Lru_Set_On_Confirm bool
  | Lru_Set_On_Done bool
  | Lru_Set_Active bool

fun lead_rule_builder_set :: "lead_rule_builder_call \<Rightarrow> lead_rule_builder \<Rightarrow> lead_rule_builder" where
  "lead_rule_builder_set (Lru_Set_Name x) b = b\<lparr>lrub_name := Some x\<rparr>"
| "lead_rule_builder_set (Lru_Set_Event_Id x) b = b\<lparr>lrub_event_id := Some x\<rparr>"
| "lead_rule_builder_set (Lru_Set_Basis x) b = b\<lparr>lrub_basis := Some x\<rparr>"
| "lead_rule_builder_set (Lru_Set_On_Create x) b = b\<lparr>lrub_on_create := Some x\<rparr>"
| "lead_rule_builder_set (Lru_Set_On_Confirm x) b = b\<lparr>lrub_on_confirm := Some x\<rparr>"
| "lead_rule_builder_set (Lru_Set_On_Done x) b = b\<lparr>lrub_on_done := Some x\<rparr>"
| "lead_rule_builder_set (Lru_Set_Active x) b = b\<lparr>lrub_active := Some x\<rparr>"

definition lead_rule_build :: "uuid \<Rightarrow> lead_rule_builder \<Rightarrow> string + lead_rule" where
  "lead_rule_build fresh b =
     bind_r (ok_or (lrub_name b) ''name is required'') (\<lambda>name'.
     Inr \<lparr>lru_id = fresh, lru_name = name', lru_event_id = lrub_event_id b,
        lru_basis = unwrap_or lead_basis_default (lrub_basis b),
        lru_on_create = unwrap_or False (lrub_on_create b),
        lru_on_confirm = unwrap_or False (lrub_on_confirm b),
        lru_on_done = unwrap_or False (lrub_on_done b),
        lru_active = unwrap_or True (lrub_active b), lru_metadata = metadata_default\<rparr>)"

record lead_rule_filter =
  lruf_name :: "string option"
  lruf_event_id :: "uuid option"
  lruf_basis :: "event_lead_basis option"
  lruf_on_create :: "bool option"
  lruf_on_confirm :: "bool option"
  lruf_on_done :: "bool option"
  lruf_active :: "bool option"

definition lead_rule_has_filters :: "lead_rule_filter \<Rightarrow> bool" where
  "lead_rule_has_filters f \<longleftrightarrow>
     lruf_name f \<noteq> None \<or> lruf_event_id f \<noteq> None \<or>
     lruf_basis f \<noteq> None \<or> lruf_on_create f \<noteq> None \<or>
     lruf_on_confirm f \<noteq> None \<or> lruf_on_done f \<noteq> None \<or>
     lruf_active f \<noteq> None"

definition lead_rule_offset :: "page_params \<Rightarrow> 64 word" where
  "lead_rule_offset params = page_offset params"

definition lead_rule_table :: string where
  "lead_rule_table = ''event.lead_rules''"

record create_lead_rule_dto =
  lruc_name :: string
  lruc_event_id :: "uuid option"
  lruc_basis :: event_lead_basis
  lruc_on_create :: bool
  lruc_on_confirm :: bool
  lruc_on_done :: bool
  lruc_active :: bool

definition default_create_lead_rule_basis :: event_lead_basis where
  "default_create_lead_rule_basis = Basis_Registration"

definition default_create_lead_rule_active :: bool where
  "default_create_lead_rule_active = True"

definition lead_rule_of_create :: "uuid \<Rightarrow> create_lead_rule_dto \<Rightarrow> lead_rule" where
  "lead_rule_of_create fresh dto =
     \<lparr>lru_id = fresh, lru_name = lruc_name dto, lru_event_id = lruc_event_id dto,
      lru_basis = lruc_basis dto, lru_on_create = lruc_on_create dto,
      lru_on_confirm = lruc_on_confirm dto, lru_on_done = lruc_on_done dto,
      lru_active = lruc_active dto, lru_metadata = metadata_default\<rparr>"

record update_lead_rule_dto =
  lruu_name :: string
  lruu_event_id :: "uuid option"
  lruu_basis :: event_lead_basis
  lruu_on_create :: bool
  lruu_on_confirm :: bool
  lruu_on_done :: bool
  lruu_active :: bool

definition lead_rule_apply_update :: "update_lead_rule_dto \<Rightarrow> lead_rule \<Rightarrow> lead_rule" where
  "lead_rule_apply_update dto e =
     e\<lparr>lru_name := lruu_name dto, lru_event_id := lruu_event_id dto,
       lru_basis := lruu_basis dto, lru_on_create := lruu_on_create dto,
       lru_on_confirm := lruu_on_confirm dto, lru_on_done := lruu_on_done dto,
       lru_active := lruu_active dto\<rparr>"

record patch_lead_rule_dto =
  lrup_name :: "string option"
  lrup_event_id :: "uuid option option"
  lrup_basis :: "event_lead_basis option"
  lrup_on_create :: "bool option"
  lrup_on_confirm :: "bool option"
  lrup_on_done :: "bool option"
  lrup_active :: "bool option"

definition lead_rule_has_changes :: "patch_lead_rule_dto \<Rightarrow> bool" where
  "lead_rule_has_changes dto \<longleftrightarrow>
     lrup_name dto \<noteq> None \<or> lrup_event_id dto \<noteq> None \<or>
     lrup_basis dto \<noteq> None \<or> lrup_on_create dto \<noteq> None \<or>
     lrup_on_confirm dto \<noteq> None \<or> lrup_on_done dto \<noteq> None \<or>
     lrup_active dto \<noteq> None"

record lead_rule_response_dto =
  lrur_id :: uuid
  lrur_name :: string
  lrur_event_id :: "uuid option"
  lrur_basis :: event_lead_basis
  lrur_on_create :: bool
  lrur_on_confirm :: bool
  lrur_on_done :: bool
  lrur_active :: bool
  lrur_metadata :: audit_metadata

definition lead_rule_response :: "lead_rule \<Rightarrow> lead_rule_response_dto" where
  "lead_rule_response e =
     \<lparr>lrur_id = lru_id e, lrur_name = lru_name e, lrur_event_id = lru_event_id e,
      lrur_basis = lru_basis e, lrur_on_create = lru_on_create e,
      lrur_on_confirm = lru_on_confirm e, lrur_on_done = lru_on_done e,
      lrur_active = lru_active e, lrur_metadata = lru_metadata e\<rparr>"

definition lead_rule_list ::
    "lead_rule_response_dto list \<Rightarrow> nat \<Rightarrow> nat \<Rightarrow> nat \<Rightarrow> lead_rule_response_dto page" where
  "lead_rule_list items rows p per_page = new_page items rows p per_page"

record lead_rule_summary_dto =
  lrus_id :: uuid
  lrus_name :: string
  lrus_event_id :: "uuid option"
  lrus_basis :: event_lead_basis
  lrus_created_at :: "timestamp option"

definition lead_rule_summary :: "lead_rule \<Rightarrow> lead_rule_summary_dto" where
  "lead_rule_summary e = \<lparr>lrus_id = lru_id e, lrus_name = lru_name e, lrus_event_id = lru_event_id e,
     lrus_basis = lru_basis e, lrus_created_at = am_created_at (lru_metadata e)\<rparr>"

section \<open>\<open>LeadRulePredicate\<close>\<close>

record lead_rule_predicate =
  lrp_id :: uuid
  lrp_rule_id :: uuid
  lrp_axis :: event_lead_predicate_axis
  lrp_question_id :: "uuid option"
  lrp_value_ids :: json
  lrp_metadata :: audit_metadata

definition lead_rule_predicate_fields :: "(string \<times> string) list" where
  "lead_rule_predicate_fields =
     [(''id'', ''Uuid''), (''rule_id'', ''Uuid''), (''axis'', ''EventLeadPredicateAxis''),
      (''question_id'', ''Option<Uuid>''), (''value_ids'', ''serde_json::Value''),
      (''metadata'', ''AuditMetadata'')]"

definition lead_rule_predicate_new ::
    "uuid \<Rightarrow> uuid \<Rightarrow> event_lead_predicate_axis \<Rightarrow>
     json \<Rightarrow> lead_rule_predicate" where
  "lead_rule_predicate_new fresh rule_id' axis' value_ids' =
     \<lparr>lrp_id = fresh, lrp_rule_id = rule_id', lrp_axis = axis', lrp_question_id = None,
      lrp_value_ids = value_ids', lrp_metadata = metadata_default\<rparr>"

datatype lead_rule_predicate_setter =
    Lrp_With_Question_Id uuid

fun lead_rule_predicate_with :: "lead_rule_predicate_setter \<Rightarrow> lead_rule_predicate \<Rightarrow> lead_rule_predicate" where
  "lead_rule_predicate_with (Lrp_With_Question_Id x) e = e\<lparr>lrp_question_id := Some x\<rparr>"

definition lead_rule_predicate_arms :: "entity_env \<Rightarrow> lead_rule_predicate patch_arms" where
  "lead_rule_predicate_arms env =
     [(''rule_id'', patch_with (value_uuid env) lrp_rule_id_update),
      (''axis'', patch_with (value_variant lead_predicate_axis_to_str [Axis_Event, Axis_EventType, Axis_Company, Axis_QuestionAnswer]) lrp_axis_update),
      (''question_id'', patch_with (value_option (value_uuid env)) lrp_question_id_update),
      (''value_ids'', patch_with value_json lrp_value_ids_update)]"

definition lead_rule_predicate_apply_patch :: "entity_env \<Rightarrow> (string \<times> json) list \<Rightarrow> lead_rule_predicate \<Rightarrow> lead_rule_predicate" where
  "lead_rule_predicate_apply_patch env = patch_fields (lead_rule_predicate_arms env)"

interpretation lead_rule_predicate_patch: patchable "lead_rule_predicate_arms env"
    "\<lambda>e. (lrp_id e, lrp_metadata e)" for env
  by unfold_locales (simp_all add: lead_rule_predicate_arms_def)

definition lead_rule_predicate_references :: "(string \<times> string \<times> string) list" where
  "lead_rule_predicate_references =
     [(''rule_id'', ''event.lead_rules'', ''id''),
      (''question_id'', ''event.questions'', ''id'')]"

fun lead_rule_predicate_persist :: "entity_env \<Rightarrow> persist_call \<Rightarrow> lead_rule_predicate \<Rightarrow> lead_rule_predicate" where
  "lead_rule_predicate_persist env (Set_Entity_Id i) e =
     (case en_uuid env i of Some u \<Rightarrow> e\<lparr>lrp_id := u\<rparr> | None \<Rightarrow> e)"
| "lead_rule_predicate_persist env (Set_Created_At ts) e = e\<lparr>lrp_metadata := (lrp_metadata e)\<lparr>am_created_at := Some ts\<rparr>\<rparr>"
| "lead_rule_predicate_persist env (Set_Updated_At ts) e = e\<lparr>lrp_metadata := (lrp_metadata e)\<lparr>am_updated_at := Some ts\<rparr>\<rparr>"
| "lead_rule_predicate_persist env (Set_Deleted_At ts) e = e\<lparr>lrp_metadata := (lrp_metadata e)\<lparr>am_deleted_at := ts\<rparr>\<rparr>"

definition lead_rule_predicate_columns :: "(string \<times> string) list" where
  "lead_rule_predicate_columns =
     [(''id'', ''uuid''), (''rule_id'', ''uuid''), (''question_id'', ''uuid''),
      (''axis'', ''event_lead_predicate_axis'')]"

definition lead_rule_predicate_search_fields :: "string list" where
  "lead_rule_predicate_search_fields = []"

definition lead_rule_predicate_relations :: "(string \<times> string \<times> string) list" where
  "lead_rule_predicate_relations =
     [(''rule'', ''lead_rules'', ''ruleId''), (''question'', ''questions'', ''questionId'')]"

record lead_rule_predicate_builder =
  lrpb_rule_id :: "uuid option"
  lrpb_axis :: "event_lead_predicate_axis option"
  lrpb_question_id :: "uuid option"
  lrpb_value_ids :: "json option"

definition lead_rule_predicate_builder_default :: lead_rule_predicate_builder where
  "lead_rule_predicate_builder_default = \<lparr>lrpb_rule_id = None, lrpb_axis = None, lrpb_question_id = None, lrpb_value_ids = None\<rparr>"

datatype lead_rule_predicate_builder_call =
    Lrp_Set_Rule_Id uuid
  | Lrp_Set_Axis event_lead_predicate_axis
  | Lrp_Set_Question_Id uuid
  | Lrp_Set_Value_Ids json

fun lead_rule_predicate_builder_set :: "lead_rule_predicate_builder_call \<Rightarrow> lead_rule_predicate_builder \<Rightarrow> lead_rule_predicate_builder" where
  "lead_rule_predicate_builder_set (Lrp_Set_Rule_Id x) b = b\<lparr>lrpb_rule_id := Some x\<rparr>"
| "lead_rule_predicate_builder_set (Lrp_Set_Axis x) b = b\<lparr>lrpb_axis := Some x\<rparr>"
| "lead_rule_predicate_builder_set (Lrp_Set_Question_Id x) b = b\<lparr>lrpb_question_id := Some x\<rparr>"
| "lead_rule_predicate_builder_set (Lrp_Set_Value_Ids x) b = b\<lparr>lrpb_value_ids := Some x\<rparr>"

definition lead_rule_predicate_build :: "uuid \<Rightarrow> lead_rule_predicate_builder \<Rightarrow> string + lead_rule_predicate" where
  "lead_rule_predicate_build fresh b =
     bind_r (ok_or (lrpb_rule_id b) ''rule_id is required'') (\<lambda>rule_id'.
     bind_r (ok_or (lrpb_axis b) ''axis is required'') (\<lambda>axis'.
     bind_r (ok_or (lrpb_value_ids b) ''value_ids is required'') (\<lambda>value_ids'.
     Inr \<lparr>lrp_id = fresh, lrp_rule_id = rule_id', lrp_axis = axis',
        lrp_question_id = lrpb_question_id b, lrp_value_ids = value_ids',
        lrp_metadata = metadata_default\<rparr>)))"

record lead_rule_predicate_filter =
  lrpf_rule_id :: "uuid option"
  lrpf_axis :: "event_lead_predicate_axis option"
  lrpf_question_id :: "uuid option"

definition lead_rule_predicate_has_filters :: "lead_rule_predicate_filter \<Rightarrow> bool" where
  "lead_rule_predicate_has_filters f \<longleftrightarrow>
     lrpf_rule_id f \<noteq> None \<or> lrpf_axis f \<noteq> None \<or>
     lrpf_question_id f \<noteq> None"

definition lead_rule_predicate_offset :: "page_params \<Rightarrow> 64 word" where
  "lead_rule_predicate_offset params = page_offset params"

definition lead_rule_predicate_table :: string where
  "lead_rule_predicate_table = ''event.lead_rule_predicates''"

record create_lead_rule_predicate_dto =
  lrpc_rule_id :: uuid
  lrpc_axis :: event_lead_predicate_axis
  lrpc_question_id :: "uuid option"
  lrpc_value_ids :: json

definition lead_rule_predicate_of_create :: "uuid \<Rightarrow> create_lead_rule_predicate_dto \<Rightarrow> lead_rule_predicate" where
  "lead_rule_predicate_of_create fresh dto =
     \<lparr>lrp_id = fresh, lrp_rule_id = lrpc_rule_id dto, lrp_axis = lrpc_axis dto,
      lrp_question_id = lrpc_question_id dto, lrp_value_ids = lrpc_value_ids dto,
      lrp_metadata = metadata_default\<rparr>"

record update_lead_rule_predicate_dto =
  lrpu_rule_id :: uuid
  lrpu_axis :: event_lead_predicate_axis
  lrpu_question_id :: "uuid option"
  lrpu_value_ids :: json

definition lead_rule_predicate_apply_update :: "update_lead_rule_predicate_dto \<Rightarrow> lead_rule_predicate \<Rightarrow> lead_rule_predicate" where
  "lead_rule_predicate_apply_update dto e =
     e\<lparr>lrp_rule_id := lrpu_rule_id dto, lrp_axis := lrpu_axis dto,
       lrp_question_id := lrpu_question_id dto, lrp_value_ids := lrpu_value_ids dto\<rparr>"

record patch_lead_rule_predicate_dto =
  lrpp_rule_id :: "uuid option"
  lrpp_axis :: "event_lead_predicate_axis option"
  lrpp_question_id :: "uuid option option"
  lrpp_value_ids :: "json option"

definition lead_rule_predicate_has_changes :: "patch_lead_rule_predicate_dto \<Rightarrow> bool" where
  "lead_rule_predicate_has_changes dto \<longleftrightarrow>
     lrpp_rule_id dto \<noteq> None \<or> lrpp_axis dto \<noteq> None \<or>
     lrpp_question_id dto \<noteq> None \<or> lrpp_value_ids dto \<noteq> None"

record lead_rule_predicate_response_dto =
  lrpr_id :: uuid
  lrpr_rule_id :: uuid
  lrpr_axis :: event_lead_predicate_axis
  lrpr_question_id :: "uuid option"
  lrpr_value_ids :: json
  lrpr_metadata :: audit_metadata

definition lead_rule_predicate_response :: "lead_rule_predicate \<Rightarrow> lead_rule_predicate_response_dto" where
  "lead_rule_predicate_response e =
     \<lparr>lrpr_id = lrp_id e, lrpr_rule_id = lrp_rule_id e, lrpr_axis = lrp_axis e,
      lrpr_question_id = lrp_question_id e, lrpr_value_ids = lrp_value_ids e,
      lrpr_metadata = lrp_metadata e\<rparr>"

definition lead_rule_predicate_list ::
    "lead_rule_predicate_response_dto list \<Rightarrow> nat \<Rightarrow> nat \<Rightarrow> nat \<Rightarrow> lead_rule_predicate_response_dto page" where
  "lead_rule_predicate_list items rows p per_page = new_page items rows p per_page"

record lead_rule_predicate_summary_dto =
  lrps_id :: uuid
  lrps_rule_id :: uuid
  lrps_axis :: event_lead_predicate_axis
  lrps_question_id :: "uuid option"
  lrps_created_at :: "timestamp option"

definition lead_rule_predicate_summary :: "lead_rule_predicate \<Rightarrow> lead_rule_predicate_summary_dto" where
  "lead_rule_predicate_summary e = \<lparr>lrps_id = lrp_id e, lrps_rule_id = lrp_rule_id e, lrps_axis = lrp_axis e,
     lrps_question_id = lrp_question_id e, lrps_created_at = am_created_at (lrp_metadata e)\<rparr>"

end
