(* ===== verification/RegistrationEntities.thy ===== *)
theory RegistrationEntities
  imports EntityBase Pages StateMachines
begin

text \<open>
  The generated entities and DTOs of registrations, questions and answers: the row structs of
  \<open>domain/entity\<close> with their constructors, chainable setters, generic patch, repository
  metadata and builder, and the DTOs of \<open>presentation/dto\<close> with their conversions. The rows are
  the full structs; the tables of the schema theory keep the columns the hand-written SQL uses.
  A fresh uuid is an argument.
\<close>

section \<open>\<open>Registration\<close>\<close>

record registration =
  rgn_id :: uuid
  rgn_event_id :: uuid
  rgn_event_slot_id :: "uuid option"
  rgn_event_ticket_id :: "uuid option"
  rgn_name :: string
  rgn_email :: string
  rgn_phone :: "string option"
  rgn_company_name :: "string option"
  rgn_partner_id :: "uuid option"
  rgn_state :: event_registration_state
  rgn_date_closed :: "timestamp option"
  rgn_sale_order_id :: "uuid option"
  rgn_sale_order_state :: "event_sale_order_state option"
  rgn_sale_status :: "event_sale_status option"
  rgn_active :: bool
  rgn_barcode :: string
  rgn_metadata :: audit_metadata

definition registration_fields :: "(string \<times> string) list" where
  "registration_fields =
     [(''id'', ''Uuid''), (''event_id'', ''Uuid''), (''event_slot_id'', ''Option<Uuid>''),
      (''event_ticket_id'', ''Option<Uuid>''), (''name'', ''String''), (''email'', ''String''),
      (''phone'', ''Option<String>''), (''company_name'', ''Option<String>''),
      (''partner_id'', ''Option<Uuid>''), (''state'', ''EventRegistrationState''),
      (''date_closed'', ''Option<DateTime<Utc>>''), (''sale_order_id'', ''Option<Uuid>''),
      (''sale_order_state'', ''Option<EventSaleOrderState>''),
      (''sale_status'', ''Option<EventSaleStatus>''), (''active'', ''bool''),
      (''barcode'', ''String''), (''metadata'', ''AuditMetadata'')]"

definition registration_new ::
    "uuid \<Rightarrow> uuid \<Rightarrow> string \<Rightarrow> string \<Rightarrow>
     event_registration_state \<Rightarrow> bool \<Rightarrow> string \<Rightarrow> registration" where
  "registration_new fresh event_id' name' email' state' active' barcode' =
     \<lparr>rgn_id = fresh, rgn_event_id = event_id', rgn_event_slot_id = None,
      rgn_event_ticket_id = None, rgn_name = name', rgn_email = email', rgn_phone = None,
      rgn_company_name = None, rgn_partner_id = None, rgn_state = state',
      rgn_date_closed = None, rgn_sale_order_id = None, rgn_sale_order_state = None,
      rgn_sale_status = None, rgn_active = active', rgn_barcode = barcode',
      rgn_metadata = metadata_default\<rparr>"

datatype registration_setter =
    Rgn_With_Event_Slot_Id uuid
  | Rgn_With_Event_Ticket_Id uuid
  | Rgn_With_Phone string
  | Rgn_With_Company_Name string
  | Rgn_With_Partner_Id uuid
  | Rgn_With_Date_Closed timestamp
  | Rgn_With_Sale_Order_Id uuid
  | Rgn_With_Sale_Order_State event_sale_order_state
  | Rgn_With_Sale_Status event_sale_status

fun registration_with :: "registration_setter \<Rightarrow> registration \<Rightarrow> registration" where
  "registration_with (Rgn_With_Event_Slot_Id x) e = e\<lparr>rgn_event_slot_id := Some x\<rparr>"
| "registration_with (Rgn_With_Event_Ticket_Id x) e = e\<lparr>rgn_event_ticket_id := Some x\<rparr>"
| "registration_with (Rgn_With_Phone x) e = e\<lparr>rgn_phone := Some x\<rparr>"
| "registration_with (Rgn_With_Company_Name x) e = e\<lparr>rgn_company_name := Some x\<rparr>"
| "registration_with (Rgn_With_Partner_Id x) e = e\<lparr>rgn_partner_id := Some x\<rparr>"
| "registration_with (Rgn_With_Date_Closed x) e = e\<lparr>rgn_date_closed := Some x\<rparr>"
| "registration_with (Rgn_With_Sale_Order_Id x) e = e\<lparr>rgn_sale_order_id := Some x\<rparr>"
| "registration_with (Rgn_With_Sale_Order_State x) e = e\<lparr>rgn_sale_order_state := Some x\<rparr>"
| "registration_with (Rgn_With_Sale_Status x) e = e\<lparr>rgn_sale_status := Some x\<rparr>"

definition registration_transition_to :: "regsm_state \<Rightarrow> registration \<Rightarrow> (sm_error + unit) \<times> registration" where
  "registration_transition_to new_state e =
     (case regsm_state_from_str (registration_state_to_str (rgn_state e)) of
        Inl err \<Rightarrow> (Inl err, e)
      | Inr current \<Rightarrow>
          (case fst (regsm_transition_to_state new_state (regsm_from_state current)) of
             Inl err \<Rightarrow> (Inl err, e)
           | Inr _ \<Rightarrow>
               (case registration_state_from_str (regsm_state_to_str new_state) of
                  Inl err \<Rightarrow> (Inl (InvalidState err), e)
                | Inr s \<Rightarrow> (Inr (), e\<lparr>rgn_state := s\<rparr>))))"

definition registration_arms :: "entity_env \<Rightarrow> registration patch_arms" where
  "registration_arms env =
     [(''event_id'', patch_with (value_uuid env) rgn_event_id_update),
      (''event_slot_id'', patch_with (value_option (value_uuid env)) rgn_event_slot_id_update),
      (''event_ticket_id'', patch_with (value_option (value_uuid env)) rgn_event_ticket_id_update),
      (''name'', patch_with value_string rgn_name_update),
      (''email'', patch_with value_string rgn_email_update),
      (''phone'', patch_with (value_option value_string) rgn_phone_update),
      (''company_name'', patch_with (value_option value_string) rgn_company_name_update),
      (''partner_id'', patch_with (value_option (value_uuid env)) rgn_partner_id_update),
      (''date_closed'', patch_with (value_option (value_time env)) rgn_date_closed_update),
      (''sale_order_id'', patch_with (value_option (value_uuid env)) rgn_sale_order_id_update),
      (''sale_order_state'', patch_with (value_option (value_variant sale_order_state_to_str [SaleOrder_Draft, SaleOrder_Sent, SaleOrder_Sale, SaleOrder_Cancel])) rgn_sale_order_state_update),
      (''sale_status'', patch_with (value_option (value_variant sale_status_to_str [Sale_Free, Sale_Sold, Sale_ToPay])) rgn_sale_status_update),
      (''active'', patch_with value_bool rgn_active_update),
      (''barcode'', patch_with value_string rgn_barcode_update)]"

definition registration_apply_patch :: "entity_env \<Rightarrow> (string \<times> json) list \<Rightarrow> registration \<Rightarrow> registration" where
  "registration_apply_patch env = patch_fields (registration_arms env)"

interpretation registration_patch: patchable "registration_arms env"
    "\<lambda>e. (rgn_id e, rgn_state e, rgn_metadata e)" for env
  by unfold_locales (simp_all add: registration_arms_def)

definition registration_state_fields :: "string list" where
  "registration_state_fields = [''state'']"

definition registration_references :: "(string \<times> string \<times> string) list" where
  "registration_references =
     [(''event_id'', ''event.events'', ''id''), (''event_slot_id'', ''event.slots'', ''id''),
      (''event_ticket_id'', ''event.tickets'', ''id'')]"

fun registration_persist :: "entity_env \<Rightarrow> persist_call \<Rightarrow> registration \<Rightarrow> registration" where
  "registration_persist env (Set_Entity_Id i) e =
     (case en_uuid env i of Some u \<Rightarrow> e\<lparr>rgn_id := u\<rparr> | None \<Rightarrow> e)"
| "registration_persist env (Set_Created_At ts) e = e\<lparr>rgn_metadata := (rgn_metadata e)\<lparr>am_created_at := Some ts\<rparr>\<rparr>"
| "registration_persist env (Set_Updated_At ts) e = e\<lparr>rgn_metadata := (rgn_metadata e)\<lparr>am_updated_at := Some ts\<rparr>\<rparr>"
| "registration_persist env (Set_Deleted_At ts) e = e\<lparr>rgn_metadata := (rgn_metadata e)\<lparr>am_deleted_at := ts\<rparr>\<rparr>"

definition registration_columns :: "(string \<times> string) list" where
  "registration_columns =
     [(''id'', ''uuid''), (''event_id'', ''uuid''), (''event_slot_id'', ''uuid''),
      (''event_ticket_id'', ''uuid''), (''partner_id'', ''uuid''),
      (''sale_order_id'', ''uuid''), (''state'', ''event_registration_state''),
      (''sale_order_state'', ''event_sale_order_state''),
      (''sale_status'', ''event_sale_status''), (''date_closed'', ''timestamptz'')]"

definition registration_search_fields :: "string list" where
  "registration_search_fields = [''name'', ''email'', ''barcode'']"

definition registration_relations :: "(string \<times> string \<times> string) list" where
  "registration_relations =
     [(''event'', ''events'', ''eventId''), (''eventSlot'', ''slots'', ''eventSlotId''),
      (''eventTicket'', ''tickets'', ''eventTicketId'')]"

record registration_builder =
  rgnb_event_id :: "uuid option"
  rgnb_event_slot_id :: "uuid option"
  rgnb_event_ticket_id :: "uuid option"
  rgnb_name :: "string option"
  rgnb_email :: "string option"
  rgnb_phone :: "string option"
  rgnb_company_name :: "string option"
  rgnb_partner_id :: "uuid option"
  rgnb_state :: "event_registration_state option"
  rgnb_date_closed :: "timestamp option"
  rgnb_sale_order_id :: "uuid option"
  rgnb_sale_order_state :: "event_sale_order_state option"
  rgnb_sale_status :: "event_sale_status option"
  rgnb_active :: "bool option"
  rgnb_barcode :: "string option"

definition registration_builder_default :: registration_builder where
  "registration_builder_default = \<lparr>rgnb_event_id = None, rgnb_event_slot_id = None, rgnb_event_ticket_id = None,
     rgnb_name = None, rgnb_email = None, rgnb_phone = None, rgnb_company_name = None,
     rgnb_partner_id = None, rgnb_state = None, rgnb_date_closed = None,
     rgnb_sale_order_id = None, rgnb_sale_order_state = None, rgnb_sale_status = None,
     rgnb_active = None, rgnb_barcode = None\<rparr>"

datatype registration_builder_call =
    Rgn_Set_Event_Id uuid
  | Rgn_Set_Event_Slot_Id uuid
  | Rgn_Set_Event_Ticket_Id uuid
  | Rgn_Set_Name string
  | Rgn_Set_Email string
  | Rgn_Set_Phone string
  | Rgn_Set_Company_Name string
  | Rgn_Set_Partner_Id uuid
  | Rgn_Set_State event_registration_state
  | Rgn_Set_Date_Closed timestamp
  | Rgn_Set_Sale_Order_Id uuid
  | Rgn_Set_Sale_Order_State event_sale_order_state
  | Rgn_Set_Sale_Status event_sale_status
  | Rgn_Set_Active bool
  | Rgn_Set_Barcode string

fun registration_builder_set :: "registration_builder_call \<Rightarrow> registration_builder \<Rightarrow> registration_builder" where
  "registration_builder_set (Rgn_Set_Event_Id x) b = b\<lparr>rgnb_event_id := Some x\<rparr>"
| "registration_builder_set (Rgn_Set_Event_Slot_Id x) b = b\<lparr>rgnb_event_slot_id := Some x\<rparr>"
| "registration_builder_set (Rgn_Set_Event_Ticket_Id x) b = b\<lparr>rgnb_event_ticket_id := Some x\<rparr>"
| "registration_builder_set (Rgn_Set_Name x) b = b\<lparr>rgnb_name := Some x\<rparr>"
| "registration_builder_set (Rgn_Set_Email x) b = b\<lparr>rgnb_email := Some x\<rparr>"
| "registration_builder_set (Rgn_Set_Phone x) b = b\<lparr>rgnb_phone := Some x\<rparr>"
| "registration_builder_set (Rgn_Set_Company_Name x) b = b\<lparr>rgnb_company_name := Some x\<rparr>"
| "registration_builder_set (Rgn_Set_Partner_Id x) b = b\<lparr>rgnb_partner_id := Some x\<rparr>"
| "registration_builder_set (Rgn_Set_State x) b = b\<lparr>rgnb_state := Some x\<rparr>"
| "registration_builder_set (Rgn_Set_Date_Closed x) b = b\<lparr>rgnb_date_closed := Some x\<rparr>"
| "registration_builder_set (Rgn_Set_Sale_Order_Id x) b = b\<lparr>rgnb_sale_order_id := Some x\<rparr>"
| "registration_builder_set (Rgn_Set_Sale_Order_State x) b = b\<lparr>rgnb_sale_order_state := Some x\<rparr>"
| "registration_builder_set (Rgn_Set_Sale_Status x) b = b\<lparr>rgnb_sale_status := Some x\<rparr>"
| "registration_builder_set (Rgn_Set_Active x) b = b\<lparr>rgnb_active := Some x\<rparr>"
| "registration_builder_set (Rgn_Set_Barcode x) b = b\<lparr>rgnb_barcode := Some x\<rparr>"

definition registration_build :: "uuid \<Rightarrow> registration_builder \<Rightarrow> string + registration" where
  "registration_build fresh b =
     bind_r (ok_or (rgnb_event_id b) ''event_id is required'') (\<lambda>event_id'.
     bind_r (ok_or (rgnb_name b) ''name is required'') (\<lambda>name'.
     bind_r (ok_or (rgnb_email b) ''email is required'') (\<lambda>email'.
     bind_r (ok_or (rgnb_barcode b) ''barcode is required'') (\<lambda>barcode'.
     Inr \<lparr>rgn_id = fresh, rgn_event_id = event_id', rgn_event_slot_id = rgnb_event_slot_id b,
        rgn_event_ticket_id = rgnb_event_ticket_id b, rgn_name = name', rgn_email = email',
        rgn_phone = rgnb_phone b, rgn_company_name = rgnb_company_name b,
        rgn_partner_id = rgnb_partner_id b,
        rgn_state = unwrap_or registration_state_default (rgnb_state b),
        rgn_date_closed = rgnb_date_closed b, rgn_sale_order_id = rgnb_sale_order_id b,
        rgn_sale_order_state = rgnb_sale_order_state b, rgn_sale_status = rgnb_sale_status b,
        rgn_active = unwrap_or True (rgnb_active b), rgn_barcode = barcode',
        rgn_metadata = metadata_default\<rparr>))))"

record registration_filter =
  rgnf_event_id :: "uuid option"
  rgnf_event_slot_id :: "uuid option"
  rgnf_event_ticket_id :: "uuid option"
  rgnf_name :: "string option"
  rgnf_email :: "string option"
  rgnf_phone :: "string option"
  rgnf_company_name :: "string option"
  rgnf_partner_id :: "uuid option"
  rgnf_state :: "event_registration_state option"
  rgnf_sale_order_id :: "uuid option"
  rgnf_sale_order_state :: "event_sale_order_state option"
  rgnf_sale_status :: "event_sale_status option"
  rgnf_active :: "bool option"
  rgnf_barcode :: "string option"

definition registration_has_filters :: "registration_filter \<Rightarrow> bool" where
  "registration_has_filters f \<longleftrightarrow>
     rgnf_event_id f \<noteq> None \<or> rgnf_event_slot_id f \<noteq> None \<or>
     rgnf_event_ticket_id f \<noteq> None \<or> rgnf_name f \<noteq> None \<or>
     rgnf_email f \<noteq> None \<or> rgnf_phone f \<noteq> None \<or>
     rgnf_company_name f \<noteq> None \<or> rgnf_partner_id f \<noteq> None \<or>
     rgnf_state f \<noteq> None \<or> rgnf_sale_order_id f \<noteq> None \<or>
     rgnf_sale_order_state f \<noteq> None \<or> rgnf_sale_status f \<noteq> None \<or>
     rgnf_active f \<noteq> None \<or> rgnf_barcode f \<noteq> None"

definition registration_offset :: "page_params \<Rightarrow> 64 word" where
  "registration_offset params = page_offset params"

definition registration_table :: string where
  "registration_table = ''event.registrations''"

record create_registration_dto =
  rgnc_event_id :: uuid
  rgnc_event_slot_id :: "uuid option"
  rgnc_event_ticket_id :: "uuid option"
  rgnc_name :: string
  rgnc_email :: string
  rgnc_phone :: "string option"
  rgnc_company_name :: "string option"
  rgnc_partner_id :: "uuid option"
  rgnc_date_closed :: "timestamp option"
  rgnc_sale_order_id :: "uuid option"
  rgnc_sale_order_state :: "event_sale_order_state option"
  rgnc_sale_status :: "event_sale_status option"
  rgnc_active :: bool
  rgnc_barcode :: string

definition default_create_registration_active :: bool where
  "default_create_registration_active = True"

definition registration_of_create :: "uuid \<Rightarrow> create_registration_dto \<Rightarrow> registration" where
  "registration_of_create fresh dto =
     \<lparr>rgn_id = fresh, rgn_event_id = rgnc_event_id dto,
      rgn_event_slot_id = rgnc_event_slot_id dto,
      rgn_event_ticket_id = rgnc_event_ticket_id dto, rgn_name = rgnc_name dto,
      rgn_email = rgnc_email dto, rgn_phone = rgnc_phone dto,
      rgn_company_name = rgnc_company_name dto, rgn_partner_id = rgnc_partner_id dto,
      rgn_state = Reg_Open, rgn_date_closed = rgnc_date_closed dto,
      rgn_sale_order_id = rgnc_sale_order_id dto,
      rgn_sale_order_state = rgnc_sale_order_state dto, rgn_sale_status = rgnc_sale_status dto,
      rgn_active = rgnc_active dto, rgn_barcode = rgnc_barcode dto,
      rgn_metadata = metadata_default\<rparr>"

record update_registration_dto =
  rgnu_event_id :: uuid
  rgnu_event_slot_id :: "uuid option"
  rgnu_event_ticket_id :: "uuid option"
  rgnu_name :: string
  rgnu_email :: string
  rgnu_phone :: "string option"
  rgnu_company_name :: "string option"
  rgnu_partner_id :: "uuid option"
  rgnu_state :: event_registration_state
  rgnu_date_closed :: "timestamp option"
  rgnu_sale_order_id :: "uuid option"
  rgnu_sale_order_state :: "event_sale_order_state option"
  rgnu_sale_status :: "event_sale_status option"
  rgnu_active :: bool
  rgnu_barcode :: string

definition registration_apply_update :: "update_registration_dto \<Rightarrow> registration \<Rightarrow> registration" where
  "registration_apply_update dto e =
     e\<lparr>rgn_event_id := rgnu_event_id dto, rgn_event_slot_id := rgnu_event_slot_id dto,
       rgn_event_ticket_id := rgnu_event_ticket_id dto, rgn_name := rgnu_name dto,
       rgn_email := rgnu_email dto, rgn_phone := rgnu_phone dto,
       rgn_company_name := rgnu_company_name dto, rgn_partner_id := rgnu_partner_id dto,
       rgn_state := rgnu_state dto, rgn_date_closed := rgnu_date_closed dto,
       rgn_sale_order_id := rgnu_sale_order_id dto,
       rgn_sale_order_state := rgnu_sale_order_state dto,
       rgn_sale_status := rgnu_sale_status dto, rgn_active := rgnu_active dto,
       rgn_barcode := rgnu_barcode dto\<rparr>"

record patch_registration_dto =
  rgnp_event_id :: "uuid option"
  rgnp_event_slot_id :: "uuid option option"
  rgnp_event_ticket_id :: "uuid option option"
  rgnp_name :: "string option"
  rgnp_email :: "string option"
  rgnp_phone :: "string option option"
  rgnp_company_name :: "string option option"
  rgnp_partner_id :: "uuid option option"
  rgnp_state :: "event_registration_state option"
  rgnp_date_closed :: "timestamp option option"
  rgnp_sale_order_id :: "uuid option option"
  rgnp_sale_order_state :: "event_sale_order_state option option"
  rgnp_sale_status :: "event_sale_status option option"
  rgnp_active :: "bool option"
  rgnp_barcode :: "string option"

definition registration_has_changes :: "patch_registration_dto \<Rightarrow> bool" where
  "registration_has_changes dto \<longleftrightarrow>
     rgnp_event_id dto \<noteq> None \<or> rgnp_event_slot_id dto \<noteq> None \<or>
     rgnp_event_ticket_id dto \<noteq> None \<or> rgnp_name dto \<noteq> None \<or>
     rgnp_email dto \<noteq> None \<or> rgnp_phone dto \<noteq> None \<or>
     rgnp_company_name dto \<noteq> None \<or> rgnp_partner_id dto \<noteq> None \<or>
     rgnp_state dto \<noteq> None \<or> rgnp_date_closed dto \<noteq> None \<or>
     rgnp_sale_order_id dto \<noteq> None \<or> rgnp_sale_order_state dto \<noteq> None \<or>
     rgnp_sale_status dto \<noteq> None \<or> rgnp_active dto \<noteq> None \<or>
     rgnp_barcode dto \<noteq> None"

record registration_response_dto =
  rgnr_id :: uuid
  rgnr_event_id :: uuid
  rgnr_event_slot_id :: "uuid option"
  rgnr_event_ticket_id :: "uuid option"
  rgnr_name :: string
  rgnr_email :: string
  rgnr_phone :: "string option"
  rgnr_company_name :: "string option"
  rgnr_partner_id :: "uuid option"
  rgnr_state :: event_registration_state
  rgnr_date_closed :: "timestamp option"
  rgnr_sale_order_id :: "uuid option"
  rgnr_sale_order_state :: "event_sale_order_state option"
  rgnr_sale_status :: "event_sale_status option"
  rgnr_active :: bool
  rgnr_barcode :: string
  rgnr_metadata :: audit_metadata

definition registration_response :: "registration \<Rightarrow> registration_response_dto" where
  "registration_response e =
     \<lparr>rgnr_id = rgn_id e, rgnr_event_id = rgn_event_id e,
      rgnr_event_slot_id = rgn_event_slot_id e, rgnr_event_ticket_id = rgn_event_ticket_id e,
      rgnr_name = rgn_name e, rgnr_email = rgn_email e, rgnr_phone = rgn_phone e,
      rgnr_company_name = rgn_company_name e, rgnr_partner_id = rgn_partner_id e,
      rgnr_state = rgn_state e, rgnr_date_closed = rgn_date_closed e,
      rgnr_sale_order_id = rgn_sale_order_id e, rgnr_sale_order_state = rgn_sale_order_state e,
      rgnr_sale_status = rgn_sale_status e, rgnr_active = rgn_active e,
      rgnr_barcode = rgn_barcode e, rgnr_metadata = rgn_metadata e\<rparr>"

definition registration_list ::
    "registration_response_dto list \<Rightarrow> nat \<Rightarrow> nat \<Rightarrow> nat \<Rightarrow> registration_response_dto page" where
  "registration_list items rows p per_page = new_page items rows p per_page"

record registration_summary_dto =
  rgns_id :: uuid
  rgns_event_id :: uuid
  rgns_event_slot_id :: "uuid option"
  rgns_event_ticket_id :: "uuid option"
  rgns_created_at :: "timestamp option"

definition registration_summary :: "registration \<Rightarrow> registration_summary_dto" where
  "registration_summary e = \<lparr>rgns_id = rgn_id e, rgns_event_id = rgn_event_id e,
     rgns_event_slot_id = rgn_event_slot_id e, rgns_event_ticket_id = rgn_event_ticket_id e,
     rgns_created_at = am_created_at (rgn_metadata e)\<rparr>"

section \<open>\<open>RegistrationAnswer\<close>\<close>

record registration_answer =
  ran_id :: uuid
  ran_registration_id :: uuid
  ran_question_id :: uuid
  ran_value_text :: "string option"
  ran_value_answer_id :: "uuid option"
  ran_metadata :: audit_metadata

definition registration_answer_fields :: "(string \<times> string) list" where
  "registration_answer_fields =
     [(''id'', ''Uuid''), (''registration_id'', ''Uuid''), (''question_id'', ''Uuid''),
      (''value_text'', ''Option<String>''), (''value_answer_id'', ''Option<Uuid>''),
      (''metadata'', ''AuditMetadata'')]"

definition registration_answer_new ::
    "uuid \<Rightarrow> uuid \<Rightarrow> uuid \<Rightarrow> registration_answer" where
  "registration_answer_new fresh registration_id' question_id' =
     \<lparr>ran_id = fresh, ran_registration_id = registration_id', ran_question_id = question_id',
      ran_value_text = None, ran_value_answer_id = None, ran_metadata = metadata_default\<rparr>"

datatype registration_answer_setter =
    Ran_With_Value_Text string
  | Ran_With_Value_Answer_Id uuid

fun registration_answer_with :: "registration_answer_setter \<Rightarrow> registration_answer \<Rightarrow> registration_answer" where
  "registration_answer_with (Ran_With_Value_Text x) e = e\<lparr>ran_value_text := Some x\<rparr>"
| "registration_answer_with (Ran_With_Value_Answer_Id x) e = e\<lparr>ran_value_answer_id := Some x\<rparr>"

definition registration_answer_arms :: "entity_env \<Rightarrow> registration_answer patch_arms" where
  "registration_answer_arms env =
     [(''registration_id'', patch_with (value_uuid env) ran_registration_id_update),
      (''question_id'', patch_with (value_uuid env) ran_question_id_update),
      (''value_text'', patch_with (value_option value_string) ran_value_text_update),
      (''value_answer_id'', patch_with (value_option (value_uuid env)) ran_value_answer_id_update)]"

definition registration_answer_apply_patch :: "entity_env \<Rightarrow> (string \<times> json) list \<Rightarrow> registration_answer \<Rightarrow> registration_answer" where
  "registration_answer_apply_patch env = patch_fields (registration_answer_arms env)"

interpretation registration_answer_patch: patchable "registration_answer_arms env"
    "\<lambda>e. (ran_id e, ran_metadata e)" for env
  by unfold_locales (simp_all add: registration_answer_arms_def)

definition registration_answer_references :: "(string \<times> string \<times> string) list" where
  "registration_answer_references =
     [(''registration_id'', ''event.registrations'', ''id''),
      (''question_id'', ''event.questions'', ''id''),
      (''value_answer_id'', ''event.question_answers'', ''id'')]"

fun registration_answer_persist :: "entity_env \<Rightarrow> persist_call \<Rightarrow> registration_answer \<Rightarrow> registration_answer" where
  "registration_answer_persist env (Set_Entity_Id i) e =
     (case en_uuid env i of Some u \<Rightarrow> e\<lparr>ran_id := u\<rparr> | None \<Rightarrow> e)"
| "registration_answer_persist env (Set_Created_At ts) e = e\<lparr>ran_metadata := (ran_metadata e)\<lparr>am_created_at := Some ts\<rparr>\<rparr>"
| "registration_answer_persist env (Set_Updated_At ts) e = e\<lparr>ran_metadata := (ran_metadata e)\<lparr>am_updated_at := Some ts\<rparr>\<rparr>"
| "registration_answer_persist env (Set_Deleted_At ts) e = e\<lparr>ran_metadata := (ran_metadata e)\<lparr>am_deleted_at := ts\<rparr>\<rparr>"

definition registration_answer_columns :: "(string \<times> string) list" where
  "registration_answer_columns =
     [(''id'', ''uuid''), (''registration_id'', ''uuid''), (''question_id'', ''uuid''),
      (''value_answer_id'', ''uuid'')]"

definition registration_answer_search_fields :: "string list" where
  "registration_answer_search_fields = []"

definition registration_answer_relations :: "(string \<times> string \<times> string) list" where
  "registration_answer_relations =
     [(''registration'', ''registrations'', ''registrationId''),
      (''question'', ''questions'', ''questionId''),
      (''valueAnswer'', ''question_answers'', ''valueAnswerId'')]"

record registration_answer_builder =
  ranb_registration_id :: "uuid option"
  ranb_question_id :: "uuid option"
  ranb_value_text :: "string option"
  ranb_value_answer_id :: "uuid option"

definition registration_answer_builder_default :: registration_answer_builder where
  "registration_answer_builder_default = \<lparr>ranb_registration_id = None, ranb_question_id = None, ranb_value_text = None,
     ranb_value_answer_id = None\<rparr>"

datatype registration_answer_builder_call =
    Ran_Set_Registration_Id uuid
  | Ran_Set_Question_Id uuid
  | Ran_Set_Value_Text string
  | Ran_Set_Value_Answer_Id uuid

fun registration_answer_builder_set :: "registration_answer_builder_call \<Rightarrow> registration_answer_builder \<Rightarrow> registration_answer_builder" where
  "registration_answer_builder_set (Ran_Set_Registration_Id x) b = b\<lparr>ranb_registration_id := Some x\<rparr>"
| "registration_answer_builder_set (Ran_Set_Question_Id x) b = b\<lparr>ranb_question_id := Some x\<rparr>"
| "registration_answer_builder_set (Ran_Set_Value_Text x) b = b\<lparr>ranb_value_text := Some x\<rparr>"
| "registration_answer_builder_set (Ran_Set_Value_Answer_Id x) b = b\<lparr>ranb_value_answer_id := Some x\<rparr>"

definition registration_answer_build :: "uuid \<Rightarrow> registration_answer_builder \<Rightarrow> string + registration_answer" where
  "registration_answer_build fresh b =
     bind_r (ok_or (ranb_registration_id b) ''registration_id is required'') (\<lambda>registration_id'.
     bind_r (ok_or (ranb_question_id b) ''question_id is required'') (\<lambda>question_id'.
     Inr \<lparr>ran_id = fresh, ran_registration_id = registration_id', ran_question_id = question_id',
        ran_value_text = ranb_value_text b, ran_value_answer_id = ranb_value_answer_id b,
        ran_metadata = metadata_default\<rparr>))"

record registration_answer_filter =
  ranf_registration_id :: "uuid option"
  ranf_question_id :: "uuid option"
  ranf_value_text :: "string option"
  ranf_value_answer_id :: "uuid option"

definition registration_answer_has_filters :: "registration_answer_filter \<Rightarrow> bool" where
  "registration_answer_has_filters f \<longleftrightarrow>
     ranf_registration_id f \<noteq> None \<or> ranf_question_id f \<noteq> None \<or>
     ranf_value_text f \<noteq> None \<or> ranf_value_answer_id f \<noteq> None"

definition registration_answer_offset :: "page_params \<Rightarrow> 64 word" where
  "registration_answer_offset params = page_offset params"

definition registration_answer_table :: string where
  "registration_answer_table = ''event.registration_answers''"

record create_registration_answer_dto =
  ranc_registration_id :: uuid
  ranc_question_id :: uuid
  ranc_value_text :: "string option"
  ranc_value_answer_id :: "uuid option"

definition registration_answer_of_create :: "uuid \<Rightarrow> create_registration_answer_dto \<Rightarrow> registration_answer" where
  "registration_answer_of_create fresh dto =
     \<lparr>ran_id = fresh, ran_registration_id = ranc_registration_id dto,
      ran_question_id = ranc_question_id dto, ran_value_text = ranc_value_text dto,
      ran_value_answer_id = ranc_value_answer_id dto, ran_metadata = metadata_default\<rparr>"

record update_registration_answer_dto =
  ranu_registration_id :: uuid
  ranu_question_id :: uuid
  ranu_value_text :: "string option"
  ranu_value_answer_id :: "uuid option"

definition registration_answer_apply_update :: "update_registration_answer_dto \<Rightarrow> registration_answer \<Rightarrow> registration_answer" where
  "registration_answer_apply_update dto e =
     e\<lparr>ran_registration_id := ranu_registration_id dto, ran_question_id := ranu_question_id dto,
       ran_value_text := ranu_value_text dto, ran_value_answer_id := ranu_value_answer_id dto\<rparr>"

record patch_registration_answer_dto =
  ranp_registration_id :: "uuid option"
  ranp_question_id :: "uuid option"
  ranp_value_text :: "string option option"
  ranp_value_answer_id :: "uuid option option"

definition registration_answer_has_changes :: "patch_registration_answer_dto \<Rightarrow> bool" where
  "registration_answer_has_changes dto \<longleftrightarrow>
     ranp_registration_id dto \<noteq> None \<or> ranp_question_id dto \<noteq> None \<or>
     ranp_value_text dto \<noteq> None \<or> ranp_value_answer_id dto \<noteq> None"

record registration_answer_response_dto =
  ranr_id :: uuid
  ranr_registration_id :: uuid
  ranr_question_id :: uuid
  ranr_value_text :: "string option"
  ranr_value_answer_id :: "uuid option"
  ranr_metadata :: audit_metadata

definition registration_answer_response :: "registration_answer \<Rightarrow> registration_answer_response_dto" where
  "registration_answer_response e =
     \<lparr>ranr_id = ran_id e, ranr_registration_id = ran_registration_id e,
      ranr_question_id = ran_question_id e, ranr_value_text = ran_value_text e,
      ranr_value_answer_id = ran_value_answer_id e, ranr_metadata = ran_metadata e\<rparr>"

definition registration_answer_list ::
    "registration_answer_response_dto list \<Rightarrow> nat \<Rightarrow> nat \<Rightarrow> nat \<Rightarrow> registration_answer_response_dto page" where
  "registration_answer_list items rows p per_page = new_page items rows p per_page"

record registration_answer_summary_dto =
  rans_id :: uuid
  rans_registration_id :: uuid
  rans_question_id :: uuid
  rans_value_text :: "string option"
  rans_created_at :: "timestamp option"

definition registration_answer_summary :: "registration_answer \<Rightarrow> registration_answer_summary_dto" where
  "registration_answer_summary e = \<lparr>rans_id = ran_id e, rans_registration_id = ran_registration_id e,
     rans_question_id = ran_question_id e, rans_value_text = ran_value_text e,
     rans_created_at = am_created_at (ran_metadata e)\<rparr>"

section \<open>\<open>RegistrationQuestion\<close>\<close>

record registration_question =
  rqn_id :: uuid
  rqn_event_id :: "uuid option"
  rqn_event_type_id :: "uuid option"
  rqn_question_id :: uuid
  rqn_sequence :: int
  rqn_metadata :: audit_metadata

definition registration_question_fields :: "(string \<times> string) list" where
  "registration_question_fields =
     [(''id'', ''Uuid''), (''event_id'', ''Option<Uuid>''),
      (''event_type_id'', ''Option<Uuid>''), (''question_id'', ''Uuid''),
      (''sequence'', ''i32''), (''metadata'', ''AuditMetadata'')]"

definition registration_question_new ::
    "uuid \<Rightarrow> uuid \<Rightarrow> int \<Rightarrow> registration_question" where
  "registration_question_new fresh question_id' sequence' =
     \<lparr>rqn_id = fresh, rqn_event_id = None, rqn_event_type_id = None,
      rqn_question_id = question_id', rqn_sequence = sequence', rqn_metadata = metadata_default\<rparr>"

datatype registration_question_setter =
    Rqn_With_Event_Id uuid
  | Rqn_With_Event_Type_Id uuid

fun registration_question_with :: "registration_question_setter \<Rightarrow> registration_question \<Rightarrow> registration_question" where
  "registration_question_with (Rqn_With_Event_Id x) e = e\<lparr>rqn_event_id := Some x\<rparr>"
| "registration_question_with (Rqn_With_Event_Type_Id x) e = e\<lparr>rqn_event_type_id := Some x\<rparr>"

definition registration_question_arms :: "entity_env \<Rightarrow> registration_question patch_arms" where
  "registration_question_arms env =
     [(''event_id'', patch_with (value_option (value_uuid env)) rqn_event_id_update),
      (''event_type_id'', patch_with (value_option (value_uuid env)) rqn_event_type_id_update),
      (''question_id'', patch_with (value_uuid env) rqn_question_id_update),
      (''sequence'', patch_with value_i32 rqn_sequence_update)]"

definition registration_question_apply_patch :: "entity_env \<Rightarrow> (string \<times> json) list \<Rightarrow> registration_question \<Rightarrow> registration_question" where
  "registration_question_apply_patch env = patch_fields (registration_question_arms env)"

interpretation registration_question_patch: patchable "registration_question_arms env"
    "\<lambda>e. (rqn_id e, rqn_metadata e)" for env
  by unfold_locales (simp_all add: registration_question_arms_def)

definition registration_question_references :: "(string \<times> string \<times> string) list" where
  "registration_question_references =
     [(''event_id'', ''event.events'', ''id''), (''event_type_id'', ''event.types'', ''id''),
      (''question_id'', ''event.questions'', ''id'')]"

fun registration_question_persist :: "entity_env \<Rightarrow> persist_call \<Rightarrow> registration_question \<Rightarrow> registration_question" where
  "registration_question_persist env (Set_Entity_Id i) e =
     (case en_uuid env i of Some u \<Rightarrow> e\<lparr>rqn_id := u\<rparr> | None \<Rightarrow> e)"
| "registration_question_persist env (Set_Created_At ts) e = e\<lparr>rqn_metadata := (rqn_metadata e)\<lparr>am_created_at := Some ts\<rparr>\<rparr>"
| "registration_question_persist env (Set_Updated_At ts) e = e\<lparr>rqn_metadata := (rqn_metadata e)\<lparr>am_updated_at := Some ts\<rparr>\<rparr>"
| "registration_question_persist env (Set_Deleted_At ts) e = e\<lparr>rqn_metadata := (rqn_metadata e)\<lparr>am_deleted_at := ts\<rparr>\<rparr>"

definition registration_question_columns :: "(string \<times> string) list" where
  "registration_question_columns =
     [(''id'', ''uuid''), (''event_id'', ''uuid''), (''event_type_id'', ''uuid''),
      (''question_id'', ''uuid'')]"

definition registration_question_search_fields :: "string list" where
  "registration_question_search_fields = []"

definition registration_question_relations :: "(string \<times> string \<times> string) list" where
  "registration_question_relations =
     [(''event'', ''events'', ''eventId''), (''eventType'', ''types'', ''eventTypeId''),
      (''question'', ''questions'', ''questionId'')]"

record registration_question_builder =
  rqnb_event_id :: "uuid option"
  rqnb_event_type_id :: "uuid option"
  rqnb_question_id :: "uuid option"
  rqnb_sequence :: "int option"

definition registration_question_builder_default :: registration_question_builder where
  "registration_question_builder_default = \<lparr>rqnb_event_id = None, rqnb_event_type_id = None, rqnb_question_id = None,
     rqnb_sequence = None\<rparr>"

datatype registration_question_builder_call =
    Rqn_Set_Event_Id uuid
  | Rqn_Set_Event_Type_Id uuid
  | Rqn_Set_Question_Id uuid
  | Rqn_Set_Sequence int

fun registration_question_builder_set :: "registration_question_builder_call \<Rightarrow> registration_question_builder \<Rightarrow> registration_question_builder" where
  "registration_question_builder_set (Rqn_Set_Event_Id x) b = b\<lparr>rqnb_event_id := Some x\<rparr>"
| "registration_question_builder_set (Rqn_Set_Event_Type_Id x) b = b\<lparr>rqnb_event_type_id := Some x\<rparr>"
| "registration_question_builder_set (Rqn_Set_Question_Id x) b = b\<lparr>rqnb_question_id := Some x\<rparr>"
| "registration_question_builder_set (Rqn_Set_Sequence x) b = b\<lparr>rqnb_sequence := Some x\<rparr>"

definition registration_question_build :: "uuid \<Rightarrow> registration_question_builder \<Rightarrow> string + registration_question" where
  "registration_question_build fresh b =
     bind_r (ok_or (rqnb_question_id b) ''question_id is required'') (\<lambda>question_id'.
     Inr \<lparr>rqn_id = fresh, rqn_event_id = rqnb_event_id b,
        rqn_event_type_id = rqnb_event_type_id b, rqn_question_id = question_id',
        rqn_sequence = unwrap_or 1 (rqnb_sequence b), rqn_metadata = metadata_default\<rparr>)"

record registration_question_filter =
  rqnf_event_id :: "uuid option"
  rqnf_event_type_id :: "uuid option"
  rqnf_question_id :: "uuid option"

definition registration_question_has_filters :: "registration_question_filter \<Rightarrow> bool" where
  "registration_question_has_filters f \<longleftrightarrow>
     rqnf_event_id f \<noteq> None \<or> rqnf_event_type_id f \<noteq> None \<or>
     rqnf_question_id f \<noteq> None"

definition registration_question_offset :: "page_params \<Rightarrow> 64 word" where
  "registration_question_offset params = page_offset params"

definition registration_question_table :: string where
  "registration_question_table = ''event.registration_questions''"

record create_registration_question_dto =
  rqnc_event_id :: "uuid option"
  rqnc_event_type_id :: "uuid option"
  rqnc_question_id :: uuid
  rqnc_sequence :: int

definition default_create_registration_question_sequence :: int where
  "default_create_registration_question_sequence = 1"

definition registration_question_of_create :: "uuid \<Rightarrow> create_registration_question_dto \<Rightarrow> registration_question" where
  "registration_question_of_create fresh dto =
     \<lparr>rqn_id = fresh, rqn_event_id = rqnc_event_id dto,
      rqn_event_type_id = rqnc_event_type_id dto, rqn_question_id = rqnc_question_id dto,
      rqn_sequence = rqnc_sequence dto, rqn_metadata = metadata_default\<rparr>"

record update_registration_question_dto =
  rqnu_event_id :: "uuid option"
  rqnu_event_type_id :: "uuid option"
  rqnu_question_id :: uuid
  rqnu_sequence :: int

definition registration_question_apply_update :: "update_registration_question_dto \<Rightarrow> registration_question \<Rightarrow> registration_question" where
  "registration_question_apply_update dto e =
     e\<lparr>rqn_event_id := rqnu_event_id dto, rqn_event_type_id := rqnu_event_type_id dto,
       rqn_question_id := rqnu_question_id dto, rqn_sequence := rqnu_sequence dto\<rparr>"

record patch_registration_question_dto =
  rqnp_event_id :: "uuid option option"
  rqnp_event_type_id :: "uuid option option"
  rqnp_question_id :: "uuid option"
  rqnp_sequence :: "int option"

definition registration_question_has_changes :: "patch_registration_question_dto \<Rightarrow> bool" where
  "registration_question_has_changes dto \<longleftrightarrow>
     rqnp_event_id dto \<noteq> None \<or> rqnp_event_type_id dto \<noteq> None \<or>
     rqnp_question_id dto \<noteq> None \<or> rqnp_sequence dto \<noteq> None"

record registration_question_response_dto =
  rqnr_id :: uuid
  rqnr_event_id :: "uuid option"
  rqnr_event_type_id :: "uuid option"
  rqnr_question_id :: uuid
  rqnr_sequence :: int
  rqnr_metadata :: audit_metadata

definition registration_question_response :: "registration_question \<Rightarrow> registration_question_response_dto" where
  "registration_question_response e =
     \<lparr>rqnr_id = rqn_id e, rqnr_event_id = rqn_event_id e,
      rqnr_event_type_id = rqn_event_type_id e, rqnr_question_id = rqn_question_id e,
      rqnr_sequence = rqn_sequence e, rqnr_metadata = rqn_metadata e\<rparr>"

definition registration_question_list ::
    "registration_question_response_dto list \<Rightarrow> nat \<Rightarrow> nat \<Rightarrow> nat \<Rightarrow> registration_question_response_dto page" where
  "registration_question_list items rows p per_page = new_page items rows p per_page"

record registration_question_summary_dto =
  rqns_id :: uuid
  rqns_event_id :: "uuid option"
  rqns_event_type_id :: "uuid option"
  rqns_question_id :: uuid
  rqns_created_at :: "timestamp option"

definition registration_question_summary :: "registration_question \<Rightarrow> registration_question_summary_dto" where
  "registration_question_summary e = \<lparr>rqns_id = rqn_id e, rqns_event_id = rqn_event_id e,
     rqns_event_type_id = rqn_event_type_id e, rqns_question_id = rqn_question_id e,
     rqns_created_at = am_created_at (rqn_metadata e)\<rparr>"

section \<open>\<open>Question\<close>\<close>

record question =
  qst_id :: uuid
  qst_question :: string
  qst_question_kind :: event_question_kind
  qst_is_default :: bool
  qst_is_reusable :: bool
  qst_once_per_order :: bool
  qst_metadata :: audit_metadata

definition question_fields :: "(string \<times> string) list" where
  "question_fields =
     [(''id'', ''Uuid''), (''question'', ''String''),
      (''question_kind'', ''EventQuestionKind''), (''is_default'', ''bool''),
      (''is_reusable'', ''bool''), (''once_per_order'', ''bool''),
      (''metadata'', ''AuditMetadata'')]"

definition question_new ::
    "uuid \<Rightarrow> string \<Rightarrow> event_question_kind \<Rightarrow>
     bool \<Rightarrow> bool \<Rightarrow> bool \<Rightarrow> question" where
  "question_new fresh question' question_kind' is_default' is_reusable' once_per_order' =
     \<lparr>qst_id = fresh, qst_question = question', qst_question_kind = question_kind',
      qst_is_default = is_default', qst_is_reusable = is_reusable',
      qst_once_per_order = once_per_order', qst_metadata = metadata_default\<rparr>"

definition question_arms :: "entity_env \<Rightarrow> question patch_arms" where
  "question_arms env =
     [(''question'', patch_with value_string qst_question_update),
      (''question_kind'', patch_with (value_variant question_kind_to_str [Question_TextBox, Question_SimpleChoice, Question_Name, Question_Email, Question_Phone, Question_CompanyName]) qst_question_kind_update),
      (''is_default'', patch_with value_bool qst_is_default_update),
      (''is_reusable'', patch_with value_bool qst_is_reusable_update),
      (''once_per_order'', patch_with value_bool qst_once_per_order_update)]"

definition question_apply_patch :: "entity_env \<Rightarrow> (string \<times> json) list \<Rightarrow> question \<Rightarrow> question" where
  "question_apply_patch env = patch_fields (question_arms env)"

interpretation question_patch: patchable "question_arms env"
    "\<lambda>e. (qst_id e, qst_metadata e)" for env
  by unfold_locales (simp_all add: question_arms_def)

definition question_write_protected_fields :: "string list" where
  "question_write_protected_fields = [''question_kind'']"

fun question_persist :: "entity_env \<Rightarrow> persist_call \<Rightarrow> question \<Rightarrow> question" where
  "question_persist env (Set_Entity_Id i) e =
     (case en_uuid env i of Some u \<Rightarrow> e\<lparr>qst_id := u\<rparr> | None \<Rightarrow> e)"
| "question_persist env (Set_Created_At ts) e = e\<lparr>qst_metadata := (qst_metadata e)\<lparr>am_created_at := Some ts\<rparr>\<rparr>"
| "question_persist env (Set_Updated_At ts) e = e\<lparr>qst_metadata := (qst_metadata e)\<lparr>am_updated_at := Some ts\<rparr>\<rparr>"
| "question_persist env (Set_Deleted_At ts) e = e\<lparr>qst_metadata := (qst_metadata e)\<lparr>am_deleted_at := ts\<rparr>\<rparr>"

definition question_columns :: "(string \<times> string) list" where
  "question_columns =
     [(''id'', ''uuid''), (''question_kind'', ''event_question_kind'')]"

definition question_search_fields :: "string list" where
  "question_search_fields = [''question'']"

record question_builder =
  qstb_question :: "string option"
  qstb_question_kind :: "event_question_kind option"
  qstb_is_default :: "bool option"
  qstb_is_reusable :: "bool option"
  qstb_once_per_order :: "bool option"

definition question_builder_default :: question_builder where
  "question_builder_default = \<lparr>qstb_question = None, qstb_question_kind = None, qstb_is_default = None,
     qstb_is_reusable = None, qstb_once_per_order = None\<rparr>"

datatype question_builder_call =
    Qst_Set_Question string
  | Qst_Set_Question_Kind event_question_kind
  | Qst_Set_Is_Default bool
  | Qst_Set_Is_Reusable bool
  | Qst_Set_Once_Per_Order bool

fun question_builder_set :: "question_builder_call \<Rightarrow> question_builder \<Rightarrow> question_builder" where
  "question_builder_set (Qst_Set_Question x) b = b\<lparr>qstb_question := Some x\<rparr>"
| "question_builder_set (Qst_Set_Question_Kind x) b = b\<lparr>qstb_question_kind := Some x\<rparr>"
| "question_builder_set (Qst_Set_Is_Default x) b = b\<lparr>qstb_is_default := Some x\<rparr>"
| "question_builder_set (Qst_Set_Is_Reusable x) b = b\<lparr>qstb_is_reusable := Some x\<rparr>"
| "question_builder_set (Qst_Set_Once_Per_Order x) b = b\<lparr>qstb_once_per_order := Some x\<rparr>"

definition question_build :: "uuid \<Rightarrow> question_builder \<Rightarrow> string + question" where
  "question_build fresh b =
     bind_r (ok_or (qstb_question b) ''question is required'') (\<lambda>question'.
     Inr \<lparr>qst_id = fresh, qst_question = question',
        qst_question_kind = unwrap_or question_kind_default (qstb_question_kind b),
        qst_is_default = unwrap_or False (qstb_is_default b),
        qst_is_reusable = unwrap_or False (qstb_is_reusable b),
        qst_once_per_order = unwrap_or False (qstb_once_per_order b),
        qst_metadata = metadata_default\<rparr>)"

record question_filter =
  qstf_question :: "string option"
  qstf_question_kind :: "event_question_kind option"
  qstf_is_default :: "bool option"
  qstf_is_reusable :: "bool option"
  qstf_once_per_order :: "bool option"

definition question_has_filters :: "question_filter \<Rightarrow> bool" where
  "question_has_filters f \<longleftrightarrow>
     qstf_question f \<noteq> None \<or> qstf_question_kind f \<noteq> None \<or>
     qstf_is_default f \<noteq> None \<or> qstf_is_reusable f \<noteq> None \<or>
     qstf_once_per_order f \<noteq> None"

definition question_offset :: "page_params \<Rightarrow> 64 word" where
  "question_offset params = page_offset params"

definition question_table :: string where
  "question_table = ''event.questions''"

record create_question_dto =
  qstc_question :: string
  qstc_is_default :: bool
  qstc_is_reusable :: bool
  qstc_once_per_order :: bool

definition question_of_create :: "uuid \<Rightarrow> create_question_dto \<Rightarrow> question" where
  "question_of_create fresh dto =
     \<lparr>qst_id = fresh, qst_question = qstc_question dto, qst_question_kind = Question_TextBox,
      qst_is_default = qstc_is_default dto, qst_is_reusable = qstc_is_reusable dto,
      qst_once_per_order = qstc_once_per_order dto, qst_metadata = metadata_default\<rparr>"

record update_question_dto =
  qstu_question :: string
  qstu_question_kind :: event_question_kind
  qstu_is_default :: bool
  qstu_is_reusable :: bool
  qstu_once_per_order :: bool

definition question_apply_update :: "update_question_dto \<Rightarrow> question \<Rightarrow> question" where
  "question_apply_update dto e =
     e\<lparr>qst_question := qstu_question dto, qst_question_kind := qstu_question_kind dto,
       qst_is_default := qstu_is_default dto, qst_is_reusable := qstu_is_reusable dto,
       qst_once_per_order := qstu_once_per_order dto\<rparr>"

record patch_question_dto =
  qstp_question :: "string option"
  qstp_question_kind :: "event_question_kind option"
  qstp_is_default :: "bool option"
  qstp_is_reusable :: "bool option"
  qstp_once_per_order :: "bool option"

definition question_has_changes :: "patch_question_dto \<Rightarrow> bool" where
  "question_has_changes dto \<longleftrightarrow>
     qstp_question dto \<noteq> None \<or> qstp_question_kind dto \<noteq> None \<or>
     qstp_is_default dto \<noteq> None \<or> qstp_is_reusable dto \<noteq> None \<or>
     qstp_once_per_order dto \<noteq> None"

record question_response_dto =
  qstr_id :: uuid
  qstr_question :: string
  qstr_question_kind :: event_question_kind
  qstr_is_default :: bool
  qstr_is_reusable :: bool
  qstr_once_per_order :: bool
  qstr_metadata :: audit_metadata

definition question_response :: "question \<Rightarrow> question_response_dto" where
  "question_response e =
     \<lparr>qstr_id = qst_id e, qstr_question = qst_question e,
      qstr_question_kind = qst_question_kind e, qstr_is_default = qst_is_default e,
      qstr_is_reusable = qst_is_reusable e, qstr_once_per_order = qst_once_per_order e,
      qstr_metadata = qst_metadata e\<rparr>"

definition question_list ::
    "question_response_dto list \<Rightarrow> nat \<Rightarrow> nat \<Rightarrow> nat \<Rightarrow> question_response_dto page" where
  "question_list items rows p per_page = new_page items rows p per_page"

record question_summary_dto =
  qsts_id :: uuid
  qsts_question :: string
  qsts_question_kind :: event_question_kind
  qsts_is_default :: bool
  qsts_created_at :: "timestamp option"

definition question_summary :: "question \<Rightarrow> question_summary_dto" where
  "question_summary e = \<lparr>qsts_id = qst_id e, qsts_question = qst_question e,
     qsts_question_kind = qst_question_kind e, qsts_is_default = qst_is_default e,
     qsts_created_at = am_created_at (qst_metadata e)\<rparr>"

section \<open>\<open>QuestionAnswer\<close>\<close>

record question_answer =
  qan_id :: uuid
  qan_question_id :: uuid
  qan_name :: string
  qan_sequence :: int
  qan_metadata :: audit_metadata

definition question_answer_fields :: "(string \<times> string) list" where
  "question_answer_fields =
     [(''id'', ''Uuid''), (''question_id'', ''Uuid''), (''name'', ''String''),
      (''sequence'', ''i32''), (''metadata'', ''AuditMetadata'')]"

definition question_answer_new ::
    "uuid \<Rightarrow> uuid \<Rightarrow> string \<Rightarrow> int \<Rightarrow>
     question_answer" where
  "question_answer_new fresh question_id' name' sequence' =
     \<lparr>qan_id = fresh, qan_question_id = question_id', qan_name = name',
      qan_sequence = sequence', qan_metadata = metadata_default\<rparr>"

definition question_answer_arms :: "entity_env \<Rightarrow> question_answer patch_arms" where
  "question_answer_arms env =
     [(''question_id'', patch_with (value_uuid env) qan_question_id_update),
      (''name'', patch_with value_string qan_name_update),
      (''sequence'', patch_with value_i32 qan_sequence_update)]"

definition question_answer_apply_patch :: "entity_env \<Rightarrow> (string \<times> json) list \<Rightarrow> question_answer \<Rightarrow> question_answer" where
  "question_answer_apply_patch env = patch_fields (question_answer_arms env)"

interpretation question_answer_patch: patchable "question_answer_arms env"
    "\<lambda>e. (qan_id e, qan_metadata e)" for env
  by unfold_locales (simp_all add: question_answer_arms_def)

definition question_answer_references :: "(string \<times> string \<times> string) list" where
  "question_answer_references =
     [(''question_id'', ''event.questions'', ''id'')]"

fun question_answer_persist :: "entity_env \<Rightarrow> persist_call \<Rightarrow> question_answer \<Rightarrow> question_answer" where
  "question_answer_persist env (Set_Entity_Id i) e =
     (case en_uuid env i of Some u \<Rightarrow> e\<lparr>qan_id := u\<rparr> | None \<Rightarrow> e)"
| "question_answer_persist env (Set_Created_At ts) e = e\<lparr>qan_metadata := (qan_metadata e)\<lparr>am_created_at := Some ts\<rparr>\<rparr>"
| "question_answer_persist env (Set_Updated_At ts) e = e\<lparr>qan_metadata := (qan_metadata e)\<lparr>am_updated_at := Some ts\<rparr>\<rparr>"
| "question_answer_persist env (Set_Deleted_At ts) e = e\<lparr>qan_metadata := (qan_metadata e)\<lparr>am_deleted_at := ts\<rparr>\<rparr>"

definition question_answer_columns :: "(string \<times> string) list" where
  "question_answer_columns =
     [(''id'', ''uuid''), (''question_id'', ''uuid'')]"

definition question_answer_search_fields :: "string list" where
  "question_answer_search_fields = [''name'']"

definition question_answer_relations :: "(string \<times> string \<times> string) list" where
  "question_answer_relations =
     [(''question'', ''questions'', ''questionId'')]"

record question_answer_builder =
  qanb_question_id :: "uuid option"
  qanb_name :: "string option"
  qanb_sequence :: "int option"

definition question_answer_builder_default :: question_answer_builder where
  "question_answer_builder_default = \<lparr>qanb_question_id = None, qanb_name = None, qanb_sequence = None\<rparr>"

datatype question_answer_builder_call =
    Qan_Set_Question_Id uuid
  | Qan_Set_Name string
  | Qan_Set_Sequence int

fun question_answer_builder_set :: "question_answer_builder_call \<Rightarrow> question_answer_builder \<Rightarrow> question_answer_builder" where
  "question_answer_builder_set (Qan_Set_Question_Id x) b = b\<lparr>qanb_question_id := Some x\<rparr>"
| "question_answer_builder_set (Qan_Set_Name x) b = b\<lparr>qanb_name := Some x\<rparr>"
| "question_answer_builder_set (Qan_Set_Sequence x) b = b\<lparr>qanb_sequence := Some x\<rparr>"

definition question_answer_build :: "uuid \<Rightarrow> question_answer_builder \<Rightarrow> string + question_answer" where
  "question_answer_build fresh b =
     bind_r (ok_or (qanb_question_id b) ''question_id is required'') (\<lambda>question_id'.
     bind_r (ok_or (qanb_name b) ''name is required'') (\<lambda>name'.
     Inr \<lparr>qan_id = fresh, qan_question_id = question_id', qan_name = name',
        qan_sequence = unwrap_or 1 (qanb_sequence b), qan_metadata = metadata_default\<rparr>))"

record question_answer_filter =
  qanf_question_id :: "uuid option"
  qanf_name :: "string option"

definition question_answer_has_filters :: "question_answer_filter \<Rightarrow> bool" where
  "question_answer_has_filters f \<longleftrightarrow>
     qanf_question_id f \<noteq> None \<or> qanf_name f \<noteq> None"

definition question_answer_offset :: "page_params \<Rightarrow> 64 word" where
  "question_answer_offset params = page_offset params"

definition question_answer_table :: string where
  "question_answer_table = ''event.question_answers''"

record create_question_answer_dto =
  qanc_question_id :: uuid
  qanc_name :: string
  qanc_sequence :: int

definition default_create_question_answer_sequence :: int where
  "default_create_question_answer_sequence = 1"

definition question_answer_of_create :: "uuid \<Rightarrow> create_question_answer_dto \<Rightarrow> question_answer" where
  "question_answer_of_create fresh dto =
     \<lparr>qan_id = fresh, qan_question_id = qanc_question_id dto, qan_name = qanc_name dto,
      qan_sequence = qanc_sequence dto, qan_metadata = metadata_default\<rparr>"

record update_question_answer_dto =
  qanu_question_id :: uuid
  qanu_name :: string
  qanu_sequence :: int

definition question_answer_apply_update :: "update_question_answer_dto \<Rightarrow> question_answer \<Rightarrow> question_answer" where
  "question_answer_apply_update dto e =
     e\<lparr>qan_question_id := qanu_question_id dto, qan_name := qanu_name dto,
       qan_sequence := qanu_sequence dto\<rparr>"

record patch_question_answer_dto =
  qanp_question_id :: "uuid option"
  qanp_name :: "string option"
  qanp_sequence :: "int option"

definition question_answer_has_changes :: "patch_question_answer_dto \<Rightarrow> bool" where
  "question_answer_has_changes dto \<longleftrightarrow>
     qanp_question_id dto \<noteq> None \<or> qanp_name dto \<noteq> None \<or>
     qanp_sequence dto \<noteq> None"

record question_answer_response_dto =
  qanr_id :: uuid
  qanr_question_id :: uuid
  qanr_name :: string
  qanr_sequence :: int
  qanr_metadata :: audit_metadata

definition question_answer_response :: "question_answer \<Rightarrow> question_answer_response_dto" where
  "question_answer_response e =
     \<lparr>qanr_id = qan_id e, qanr_question_id = qan_question_id e, qanr_name = qan_name e,
      qanr_sequence = qan_sequence e, qanr_metadata = qan_metadata e\<rparr>"

definition question_answer_list ::
    "question_answer_response_dto list \<Rightarrow> nat \<Rightarrow> nat \<Rightarrow> nat \<Rightarrow> question_answer_response_dto page" where
  "question_answer_list items rows p per_page = new_page items rows p per_page"

record question_answer_summary_dto =
  qans_id :: uuid
  qans_question_id :: uuid
  qans_name :: string
  qans_sequence :: int
  qans_created_at :: "timestamp option"

definition question_answer_summary :: "question_answer \<Rightarrow> question_answer_summary_dto" where
  "question_answer_summary e = \<lparr>qans_id = qan_id e, qans_question_id = qan_question_id e, qans_name = qan_name e,
     qans_sequence = qan_sequence e, qans_created_at = am_created_at (qan_metadata e)\<rparr>"

end
