(* ===== verification/Metadata.thy ===== *)
theory Metadata
  imports BoothEntities EventEntities MailEntities LeadEntities RegistrationEntities
begin

text \<open>
  The repository metadata of the twenty-five entities put side by side: their tables, columns with
  a cast, foreign references, relations and search fields, checked against the structs they
  describe.
\<close>

section \<open>The repository metadata of all entities\<close>

datatype entity_meta =
  entity_meta (em_table: string) (em_fields: "(string \<times> string) list") (em_columns: "(string \<times> string) list")
    (em_references: "(string \<times> string \<times> string) list") (em_relations: "(string \<times> string \<times> string) list")
    (em_search: "string list")

definition booth_category_meta :: entity_meta where
  "booth_category_meta =
     entity_meta booth_category_table booth_category_fields booth_category_columns
       [] [] booth_category_search_fields"

definition booth_meta :: entity_meta where
  "booth_meta =
     entity_meta booth_table booth_fields booth_columns
       booth_references booth_relations booth_search_fields"

definition type_booth_meta :: entity_meta where
  "type_booth_meta =
     entity_meta type_booth_table type_booth_fields type_booth_columns
       type_booth_references type_booth_relations type_booth_search_fields"

definition booth_booking_meta :: entity_meta where
  "booth_booking_meta =
     entity_meta booth_booking_table booth_booking_fields booth_booking_columns
       booth_booking_references booth_booking_relations booth_booking_search_fields"

definition event_meta :: entity_meta where
  "event_meta =
     entity_meta event_table event_fields event_columns
       event_references event_relations event_search_fields"

definition event_type_meta :: entity_meta where
  "event_type_meta =
     entity_meta event_type_table event_type_fields event_type_columns
       [] [] event_type_search_fields"

definition stage_meta :: entity_meta where
  "stage_meta =
     entity_meta stage_table stage_fields stage_columns
       [] [] stage_search_fields"

definition tag_category_meta :: entity_meta where
  "tag_category_meta =
     entity_meta tag_category_table tag_category_fields tag_category_columns
       [] [] tag_category_search_fields"

definition tag_meta :: entity_meta where
  "tag_meta =
     entity_meta tag_table tag_fields tag_columns
       tag_references tag_relations tag_search_fields"

definition slot_meta :: entity_meta where
  "slot_meta =
     entity_meta slot_table slot_fields slot_columns
       slot_references slot_relations slot_search_fields"

definition ticket_meta :: entity_meta where
  "ticket_meta =
     entity_meta ticket_table ticket_fields ticket_columns
       ticket_references ticket_relations ticket_search_fields"

definition mail_meta :: entity_meta where
  "mail_meta =
     entity_meta mail_table mail_fields mail_columns
       [] mail_relations mail_search_fields"

definition mail_registration_meta :: entity_meta where
  "mail_registration_meta =
     entity_meta mail_registration_table mail_registration_fields mail_registration_columns
       mail_registration_references mail_registration_relations mail_registration_search_fields"

definition mail_slot_meta :: entity_meta where
  "mail_slot_meta =
     entity_meta mail_slot_table mail_slot_fields mail_slot_columns
       mail_slot_references mail_slot_relations mail_slot_search_fields"

definition type_mail_meta :: entity_meta where
  "type_mail_meta =
     entity_meta type_mail_table type_mail_fields type_mail_columns
       [] type_mail_relations type_mail_search_fields"

definition lead_provenance_meta :: entity_meta where
  "lead_provenance_meta =
     entity_meta lead_provenance_table lead_provenance_fields lead_provenance_columns
       lead_provenance_references lead_provenance_relations lead_provenance_search_fields"

definition lead_provenance_registration_meta :: entity_meta where
  "lead_provenance_registration_meta =
     entity_meta lead_provenance_registration_table lead_provenance_registration_fields lead_provenance_registration_columns
       lead_provenance_registration_references lead_provenance_registration_relations lead_provenance_registration_search_fields"

definition lead_request_meta :: entity_meta where
  "lead_request_meta =
     entity_meta lead_request_table lead_request_fields lead_request_columns
       lead_request_references lead_request_relations lead_request_search_fields"

definition lead_rule_meta :: entity_meta where
  "lead_rule_meta =
     entity_meta lead_rule_table lead_rule_fields lead_rule_columns
       lead_rule_references lead_rule_relations lead_rule_search_fields"

definition lead_rule_predicate_meta :: entity_meta where
  "lead_rule_predicate_meta =
     entity_meta lead_rule_predicate_table lead_rule_predicate_fields lead_rule_predicate_columns
       lead_rule_predicate_references lead_rule_predicate_relations lead_rule_predicate_search_fields"

definition registration_meta :: entity_meta where
  "registration_meta =
     entity_meta registration_table registration_fields registration_columns
       registration_references registration_relations registration_search_fields"

definition registration_answer_meta :: entity_meta where
  "registration_answer_meta =
     entity_meta registration_answer_table registration_answer_fields registration_answer_columns
       registration_answer_references registration_answer_relations registration_answer_search_fields"

definition registration_question_meta :: entity_meta where
  "registration_question_meta =
     entity_meta registration_question_table registration_question_fields registration_question_columns
       registration_question_references registration_question_relations registration_question_search_fields"

definition question_meta :: entity_meta where
  "question_meta =
     entity_meta question_table question_fields question_columns
       [] [] question_search_fields"

definition question_answer_meta :: entity_meta where
  "question_answer_meta =
     entity_meta question_answer_table question_answer_fields question_answer_columns
       question_answer_references question_answer_relations question_answer_search_fields"

definition registry :: "entity_meta list" where
  "registry =
     [booth_category_meta, booth_meta, type_booth_meta, booth_booking_meta, event_meta,
      event_type_meta, stage_meta, tag_category_meta, tag_meta, slot_meta, ticket_meta,
      mail_meta, mail_registration_meta, mail_slot_meta, type_mail_meta, lead_provenance_meta,
      lead_provenance_registration_meta, lead_request_meta, lead_rule_meta,
      lead_rule_predicate_meta, registration_meta, registration_answer_meta,
      registration_question_meta, question_meta, question_answer_meta]"

text \<open>
  The PostgreSQL type a field's Rust type is stored in, for the types that need a cast: uuids,
  timestamps and the module's enumerations, in snake case.
\<close>

fun snake_rest :: "string \<Rightarrow> string" where
  "snake_rest [] = []"
| "snake_rest (c # cs) =
     (if to_lower_char c = c then c # snake_rest cs else CHR ''_'' # to_lower_char c # snake_rest cs)"

fun snake_case :: "string \<Rightarrow> string" where
  "snake_case [] = []"
| "snake_case (c # cs) = to_lower_char c # snake_rest cs"

definition strip_option :: "string \<Rightarrow> string" where
  "strip_option ty = (if take 7 ty = ''Option<'' then butlast (drop 7 ty) else ty)"

definition pg_type :: "string \<Rightarrow> string option" where
  "pg_type ty =
     (let b = strip_option ty in
      if b = ''Uuid'' then Some ''uuid''
      else if b = ''DateTime<Utc>'' then Some ''timestamptz''
      else if take 5 b = ''Event'' then Some (snake_case b)
      else None)"

definition typed_columns :: "entity_meta \<Rightarrow> (string \<times> string) list" where
  "typed_columns m = List.map_filter (\<lambda>(n, ty). map_option (\<lambda>t. (n, t)) (pg_type ty)) (em_fields m)"

definition missing_columns :: "entity_meta \<Rightarrow> (string \<times> string) list" where
  "missing_columns m = filter (\<lambda>c. \<not> List.member (em_columns m) c) (typed_columns m)"

definition stray_columns :: "entity_meta \<Rightarrow> (string \<times> string) list" where
  "stray_columns m = filter (\<lambda>c. \<not> List.member (typed_columns m) c) (em_columns m)"

definition resolved :: "string list \<Rightarrow> entity_meta \<Rightarrow> bool" where
  "resolved tables m \<longleftrightarrow>
     list_all (\<lambda>(c, t, k). List.member (map fst (em_fields m)) c \<and> List.member tables t \<and> k = ''id'')
       (em_references m) \<and>
     list_all (\<lambda>(n, t, k). List.member (map fst (em_fields m)) (snake_case k) \<and>
         snake_case k = snake_case n @ ''_id'' \<and> List.member tables (''event.'' @ t))
       (em_relations m) \<and>
     list_all (List.member (map fst (em_fields m))) (em_search m)"

lemma lower_case_letters:
  "to_lower_char (CHR ''a'') = CHR ''a''"
  "to_lower_char (CHR ''b'') = CHR ''b''"
  "to_lower_char (CHR ''c'') = CHR ''c''"
  "to_lower_char (CHR ''d'') = CHR ''d''"
  "to_lower_char (CHR ''e'') = CHR ''e''"
  "to_lower_char (CHR ''f'') = CHR ''f''"
  "to_lower_char (CHR ''g'') = CHR ''g''"
  "to_lower_char (CHR ''h'') = CHR ''h''"
  "to_lower_char (CHR ''i'') = CHR ''i''"
  "to_lower_char (CHR ''j'') = CHR ''j''"
  "to_lower_char (CHR ''k'') = CHR ''k''"
  "to_lower_char (CHR ''l'') = CHR ''l''"
  "to_lower_char (CHR ''m'') = CHR ''m''"
  "to_lower_char (CHR ''n'') = CHR ''n''"
  "to_lower_char (CHR ''o'') = CHR ''o''"
  "to_lower_char (CHR ''p'') = CHR ''p''"
  "to_lower_char (CHR ''q'') = CHR ''q''"
  "to_lower_char (CHR ''r'') = CHR ''r''"
  "to_lower_char (CHR ''s'') = CHR ''s''"
  "to_lower_char (CHR ''t'') = CHR ''t''"
  "to_lower_char (CHR ''u'') = CHR ''u''"
  "to_lower_char (CHR ''v'') = CHR ''v''"
  "to_lower_char (CHR ''w'') = CHR ''w''"
  "to_lower_char (CHR ''x'') = CHR ''x''"
  "to_lower_char (CHR ''y'') = CHR ''y''"
  "to_lower_char (CHR ''z'') = CHR ''z''"
  "to_lower_char (CHR ''A'') = CHR ''a''"
  "to_lower_char (CHR ''B'') = CHR ''b''"
  "to_lower_char (CHR ''C'') = CHR ''c''"
  "to_lower_char (CHR ''D'') = CHR ''d''"
  "to_lower_char (CHR ''E'') = CHR ''e''"
  "to_lower_char (CHR ''F'') = CHR ''f''"
  "to_lower_char (CHR ''G'') = CHR ''g''"
  "to_lower_char (CHR ''H'') = CHR ''h''"
  "to_lower_char (CHR ''I'') = CHR ''i''"
  "to_lower_char (CHR ''J'') = CHR ''j''"
  "to_lower_char (CHR ''K'') = CHR ''k''"
  "to_lower_char (CHR ''L'') = CHR ''l''"
  "to_lower_char (CHR ''M'') = CHR ''m''"
  "to_lower_char (CHR ''N'') = CHR ''n''"
  "to_lower_char (CHR ''O'') = CHR ''o''"
  "to_lower_char (CHR ''P'') = CHR ''p''"
  "to_lower_char (CHR ''Q'') = CHR ''q''"
  "to_lower_char (CHR ''R'') = CHR ''r''"
  "to_lower_char (CHR ''S'') = CHR ''s''"
  "to_lower_char (CHR ''T'') = CHR ''t''"
  "to_lower_char (CHR ''U'') = CHR ''u''"
  "to_lower_char (CHR ''V'') = CHR ''v''"
  "to_lower_char (CHR ''W'') = CHR ''w''"
  "to_lower_char (CHR ''X'') = CHR ''x''"
  "to_lower_char (CHR ''Y'') = CHR ''y''"
  "to_lower_char (CHR ''Z'') = CHR ''z''"
  by (simp_all add: to_lower_char_def char_of_def bit_numeral_rec bit_0)

lemmas metadata_defs = pg_type_def strip_option_def lower_case_letters

lemma mail_meta_table: "em_table mail_meta = ''event.mails''"
  by (simp add: mail_meta_def mail_table_def)

lemma type_mail_meta_table: "em_table type_mail_meta = ''event.type_mails''"
  by (simp add: type_mail_meta_def type_mail_table_def)

definition table_names :: "string list" where
  "table_names =
     [''event.booth_categories'', ''event.booths'', ''event.type_booths'',
      ''event.booth_bookings'', ''event.events'', ''event.types'', ''event.stages'',
      ''event.tag_categories'', ''event.tags'', ''event.slots'', ''event.tickets'',
      ''event.mails'', ''event.mail_registrations'', ''event.mail_slots'', ''event.type_mails'',
      ''event.lead_provenances'', ''event.lead_provenance_registrations'',
      ''event.lead_requests'', ''event.lead_rules'', ''event.lead_rule_predicates'',
      ''event.registrations'', ''event.registration_answers'', ''event.registration_questions'',
      ''event.questions'', ''event.question_answers'']"

lemma registry_tables: "map em_table registry = table_names"
  by (simp add: registry_def table_names_def booth_category_meta_def booth_category_table_def booth_meta_def booth_table_def
    type_booth_meta_def type_booth_table_def booth_booking_meta_def booth_booking_table_def
    event_meta_def event_table_def event_type_meta_def event_type_table_def
    stage_meta_def stage_table_def tag_category_meta_def tag_category_table_def
    tag_meta_def tag_table_def slot_meta_def slot_table_def ticket_meta_def ticket_table_def
    mail_meta_def mail_table_def mail_registration_meta_def mail_registration_table_def
    mail_slot_meta_def mail_slot_table_def type_mail_meta_def type_mail_table_def
    lead_provenance_meta_def lead_provenance_table_def
    lead_provenance_registration_meta_def lead_provenance_registration_table_def
    lead_request_meta_def lead_request_table_def lead_rule_meta_def lead_rule_table_def
    lead_rule_predicate_meta_def lead_rule_predicate_table_def
    registration_meta_def registration_table_def
    registration_answer_meta_def registration_answer_table_def
    registration_question_meta_def registration_question_table_def
    question_meta_def question_table_def question_answer_meta_def question_answer_table_def)

lemma booth_category_typed_columns:
  "typed_columns booth_category_meta =
     [(''id'', ''uuid''), (''product_id'', ''uuid'')]"
  by (simp add: metadata_defs typed_columns_def List.map_filter_def booth_category_meta_def booth_category_fields_def)

lemma booth_category_meta_facts:
  "resolved table_names booth_category_meta" "stray_columns booth_category_meta = []"
  "missing_columns booth_category_meta = []"
  by (simp_all add: metadata_defs resolved_def table_names_def stray_columns_def missing_columns_def booth_category_typed_columns,
    simp_all add: lower_case_letters booth_category_meta_def booth_category_search_fields_def booth_category_fields_def
      booth_category_columns_def)

lemma booth_typed_columns:
  "typed_columns booth_meta =
     [(''id'', ''uuid''), (''event_id'', ''uuid''), (''booth_category_id'', ''uuid''),
      (''state'', ''event_booth_state''), (''partner_id'', ''uuid''),
      (''sale_order_line_id'', ''uuid'')]"
  by (simp add: metadata_defs typed_columns_def List.map_filter_def booth_meta_def booth_fields_def)

lemma booth_meta_facts:
  "resolved table_names booth_meta" "stray_columns booth_meta = []"
  "missing_columns booth_meta = []"
  by (simp_all add: metadata_defs resolved_def table_names_def stray_columns_def missing_columns_def booth_typed_columns,
    simp_all add: lower_case_letters booth_meta_def booth_references_def booth_relations_def booth_search_fields_def
      booth_fields_def booth_columns_def)

lemma type_booth_typed_columns:
  "typed_columns type_booth_meta =
     [(''id'', ''uuid''), (''event_type_id'', ''uuid''), (''booth_category_id'', ''uuid'')]"
  by (simp add: metadata_defs typed_columns_def List.map_filter_def type_booth_meta_def type_booth_fields_def)

lemma type_booth_meta_facts:
  "resolved table_names type_booth_meta" "stray_columns type_booth_meta = []"
  "missing_columns type_booth_meta = []"
  by (simp_all add: metadata_defs resolved_def table_names_def stray_columns_def missing_columns_def type_booth_typed_columns,
    simp_all add: lower_case_letters type_booth_meta_def type_booth_references_def type_booth_relations_def
      type_booth_search_fields_def type_booth_fields_def type_booth_columns_def)

lemma booth_booking_typed_columns:
  "typed_columns booth_booking_meta =
     [(''id'', ''uuid''), (''event_booth_id'', ''uuid''), (''sale_order_line_id'', ''uuid''),
      (''status'', ''event_booth_booking_status''), (''partner_id'', ''uuid'')]"
  by (simp add: metadata_defs typed_columns_def List.map_filter_def booth_booking_meta_def booth_booking_fields_def)

lemma booth_booking_meta_facts:
  "resolved table_names booth_booking_meta" "stray_columns booth_booking_meta = []"
  "missing_columns booth_booking_meta = []"
  by (simp_all add: metadata_defs resolved_def table_names_def stray_columns_def missing_columns_def booth_booking_typed_columns,
    simp_all add: lower_case_letters booth_booking_meta_def booth_booking_references_def booth_booking_relations_def
      booth_booking_search_fields_def booth_booking_fields_def booth_booking_columns_def)

lemma event_typed_columns:
  "typed_columns event_meta =
     [(''id'', ''uuid''), (''event_type_id'', ''uuid''), (''stage_id'', ''uuid''),
      (''kanban_state'', ''event_kanban_state''), (''date_begin'', ''timestamptz''),
      (''date_end'', ''timestamptz''), (''address_id'', ''uuid''), (''organizer_id'', ''uuid''),
      (''user_id'', ''uuid''), (''badge_format'', ''event_badge_format''),
      (''date_publish'', ''timestamptz'')]"
  by (simp add: metadata_defs typed_columns_def List.map_filter_def event_meta_def event_fields_def)

lemma event_meta_facts:
  "resolved table_names event_meta" "stray_columns event_meta = []"
  "missing_columns event_meta = []"
  by (simp_all add: metadata_defs resolved_def table_names_def stray_columns_def missing_columns_def event_typed_columns,
    simp_all add: lower_case_letters event_meta_def event_references_def event_relations_def event_search_fields_def
      event_fields_def event_columns_def)

lemma event_type_typed_columns:
  "typed_columns event_type_meta =
     [(''id'', ''uuid'')]"
  by (simp add: metadata_defs typed_columns_def List.map_filter_def event_type_meta_def event_type_fields_def)

lemma event_type_meta_facts:
  "resolved table_names event_type_meta" "stray_columns event_type_meta = []"
  "missing_columns event_type_meta = []"
  by (simp_all add: metadata_defs resolved_def table_names_def stray_columns_def missing_columns_def event_type_typed_columns,
    simp_all add: lower_case_letters event_type_meta_def event_type_search_fields_def event_type_fields_def
      event_type_columns_def)

lemma stage_typed_columns:
  "typed_columns stage_meta =
     [(''id'', ''uuid'')]"
  by (simp add: metadata_defs typed_columns_def List.map_filter_def stage_meta_def stage_fields_def)

lemma stage_meta_facts:
  "resolved table_names stage_meta" "stray_columns stage_meta = []"
  "missing_columns stage_meta = []"
  by (simp_all add: metadata_defs resolved_def table_names_def stray_columns_def missing_columns_def stage_typed_columns,
    simp_all add: lower_case_letters stage_meta_def stage_search_fields_def stage_fields_def stage_columns_def)

lemma tag_category_typed_columns:
  "typed_columns tag_category_meta =
     [(''id'', ''uuid'')]"
  by (simp add: metadata_defs typed_columns_def List.map_filter_def tag_category_meta_def tag_category_fields_def)

lemma tag_category_meta_facts:
  "resolved table_names tag_category_meta" "stray_columns tag_category_meta = []"
  "missing_columns tag_category_meta = []"
  by (simp_all add: metadata_defs resolved_def table_names_def stray_columns_def missing_columns_def tag_category_typed_columns,
    simp_all add: lower_case_letters tag_category_meta_def tag_category_search_fields_def tag_category_fields_def
      tag_category_columns_def)

lemma tag_typed_columns:
  "typed_columns tag_meta =
     [(''id'', ''uuid''), (''category_id'', ''uuid'')]"
  by (simp add: metadata_defs typed_columns_def List.map_filter_def tag_meta_def tag_fields_def)

lemma tag_meta_facts:
  "resolved table_names tag_meta" "stray_columns tag_meta = []"
  "missing_columns tag_meta = []"
  by (simp_all add: metadata_defs resolved_def table_names_def stray_columns_def missing_columns_def tag_typed_columns,
    simp_all add: lower_case_letters tag_meta_def tag_references_def tag_relations_def tag_search_fields_def tag_fields_def
      tag_columns_def)

lemma slot_typed_columns:
  "typed_columns slot_meta =
     [(''id'', ''uuid''), (''event_id'', ''uuid''), (''date_begin'', ''timestamptz''),
      (''date_end'', ''timestamptz'')]"
  by (simp add: metadata_defs typed_columns_def List.map_filter_def slot_meta_def slot_fields_def)

lemma slot_meta_facts:
  "resolved table_names slot_meta" "stray_columns slot_meta = []"
  "missing_columns slot_meta = []"
  by (simp_all add: metadata_defs resolved_def table_names_def stray_columns_def missing_columns_def slot_typed_columns,
    simp_all add: lower_case_letters slot_meta_def slot_references_def slot_relations_def slot_search_fields_def
      slot_fields_def slot_columns_def)

lemma ticket_typed_columns:
  "typed_columns ticket_meta =
     [(''id'', ''uuid''), (''event_id'', ''uuid''), (''start_sale_datetime'', ''timestamptz''),
      (''end_sale_datetime'', ''timestamptz''), (''product_id'', ''uuid'')]"
  by (simp add: metadata_defs typed_columns_def List.map_filter_def ticket_meta_def ticket_fields_def)

lemma ticket_meta_facts:
  "resolved table_names ticket_meta" "stray_columns ticket_meta = []"
  "missing_columns ticket_meta = []"
  by (simp_all add: metadata_defs resolved_def table_names_def stray_columns_def missing_columns_def ticket_typed_columns,
    simp_all add: lower_case_letters ticket_meta_def ticket_references_def ticket_relations_def ticket_search_fields_def
      ticket_fields_def ticket_columns_def)

lemma mail_typed_columns:
  "typed_columns mail_meta =
     [(''id'', ''uuid''), (''event_id'', ''uuid''),
      (''interval_unit'', ''event_interval_unit''),
      (''interval_kind'', ''event_interval_kind''),
      (''notification_channel'', ''event_notification_channel''),
      (''scheduled_date'', ''timestamptz''), (''last_registration_id'', ''uuid''),
      (''template_ref'', ''uuid''), (''error_datetime'', ''timestamptz''),
      (''error_kind'', ''event_mail_error_kind'')]"
  by (simp add: metadata_defs typed_columns_def List.map_filter_def mail_meta_def mail_fields_def)

lemma mail_meta_facts:
  "resolved table_names mail_meta" "stray_columns mail_meta = []"
  "missing_columns mail_meta = [(''scheduled_date'', ''timestamptz''), (''template_ref'', ''uuid''), (''error_datetime'', ''timestamptz'')]"
  by (simp_all add: metadata_defs resolved_def table_names_def stray_columns_def missing_columns_def mail_typed_columns,
    simp_all add: lower_case_letters mail_meta_def mail_relations_def mail_search_fields_def mail_fields_def mail_columns_def)

lemma mail_registration_typed_columns:
  "typed_columns mail_registration_meta =
     [(''id'', ''uuid''), (''scheduler_id'', ''uuid''), (''registration_id'', ''uuid''),
      (''scheduled_date'', ''timestamptz'')]"
  by (simp add: metadata_defs typed_columns_def List.map_filter_def mail_registration_meta_def mail_registration_fields_def)

lemma mail_registration_meta_facts:
  "resolved table_names mail_registration_meta" "stray_columns mail_registration_meta = []"
  "missing_columns mail_registration_meta = []"
  by (simp_all add: metadata_defs resolved_def table_names_def stray_columns_def missing_columns_def mail_registration_typed_columns,
    simp_all add: lower_case_letters mail_registration_meta_def mail_registration_references_def
      mail_registration_relations_def mail_registration_search_fields_def
      mail_registration_fields_def mail_registration_columns_def)

lemma mail_slot_typed_columns:
  "typed_columns mail_slot_meta =
     [(''id'', ''uuid''), (''scheduler_id'', ''uuid''), (''slot_id'', ''uuid''),
      (''scheduled_date'', ''timestamptz''), (''last_registration_id'', ''uuid'')]"
  by (simp add: metadata_defs typed_columns_def List.map_filter_def mail_slot_meta_def mail_slot_fields_def)

lemma mail_slot_meta_facts:
  "resolved table_names mail_slot_meta" "stray_columns mail_slot_meta = []"
  "missing_columns mail_slot_meta = []"
  by (simp_all add: metadata_defs resolved_def table_names_def stray_columns_def missing_columns_def mail_slot_typed_columns,
    simp_all add: lower_case_letters mail_slot_meta_def mail_slot_references_def mail_slot_relations_def
      mail_slot_search_fields_def mail_slot_fields_def mail_slot_columns_def)

lemma type_mail_typed_columns:
  "typed_columns type_mail_meta =
     [(''id'', ''uuid''), (''event_type_id'', ''uuid''),
      (''interval_unit'', ''event_interval_unit''),
      (''interval_kind'', ''event_interval_kind''),
      (''notification_channel'', ''event_notification_channel''), (''template_ref'', ''uuid'')]"
  by (simp add: metadata_defs typed_columns_def List.map_filter_def type_mail_meta_def type_mail_fields_def)

lemma type_mail_meta_facts:
  "resolved table_names type_mail_meta" "stray_columns type_mail_meta = []"
  "missing_columns type_mail_meta = [(''template_ref'', ''uuid'')]"
  by (simp_all add: metadata_defs resolved_def table_names_def stray_columns_def missing_columns_def type_mail_typed_columns,
    simp_all add: lower_case_letters type_mail_meta_def type_mail_relations_def type_mail_search_fields_def
      type_mail_fields_def type_mail_columns_def)

lemma lead_provenance_typed_columns:
  "typed_columns lead_provenance_meta =
     [(''id'', ''uuid''), (''rule_id'', ''uuid''), (''event_id'', ''uuid''),
      (''lead_id'', ''uuid''), (''grouping'', ''event_lead_grouping'')]"
  by (simp add: metadata_defs typed_columns_def List.map_filter_def lead_provenance_meta_def lead_provenance_fields_def)

lemma lead_provenance_meta_facts:
  "resolved table_names lead_provenance_meta" "stray_columns lead_provenance_meta = []"
  "missing_columns lead_provenance_meta = []"
  by (simp_all add: metadata_defs resolved_def table_names_def stray_columns_def missing_columns_def lead_provenance_typed_columns,
    simp_all add: lower_case_letters lead_provenance_meta_def lead_provenance_references_def lead_provenance_relations_def
      lead_provenance_search_fields_def lead_provenance_fields_def lead_provenance_columns_def)

lemma lead_provenance_registration_typed_columns:
  "typed_columns lead_provenance_registration_meta =
     [(''id'', ''uuid''), (''provenance_id'', ''uuid''), (''registration_id'', ''uuid'')]"
  by (simp add: metadata_defs typed_columns_def List.map_filter_def lead_provenance_registration_meta_def lead_provenance_registration_fields_def)

lemma lead_provenance_registration_meta_facts:
  "resolved table_names lead_provenance_registration_meta" "stray_columns lead_provenance_registration_meta = []"
  "missing_columns lead_provenance_registration_meta = []"
  by (simp_all add: metadata_defs resolved_def table_names_def stray_columns_def missing_columns_def lead_provenance_registration_typed_columns,
    simp_all add: lower_case_letters lead_provenance_registration_meta_def lead_provenance_registration_references_def
      lead_provenance_registration_relations_def lead_provenance_registration_search_fields_def
      lead_provenance_registration_fields_def lead_provenance_registration_columns_def)

lemma lead_request_typed_columns:
  "typed_columns lead_request_meta =
     [(''id'', ''uuid''), (''event_id'', ''uuid''), (''claimed_at'', ''timestamptz'')]"
  by (simp add: metadata_defs typed_columns_def List.map_filter_def lead_request_meta_def lead_request_fields_def)

lemma lead_request_meta_facts:
  "resolved table_names lead_request_meta" "stray_columns lead_request_meta = []"
  "missing_columns lead_request_meta = []"
  by (simp_all add: metadata_defs resolved_def table_names_def stray_columns_def missing_columns_def lead_request_typed_columns,
    simp_all add: lower_case_letters lead_request_meta_def lead_request_references_def lead_request_relations_def
      lead_request_search_fields_def lead_request_fields_def lead_request_columns_def)

lemma lead_rule_typed_columns:
  "typed_columns lead_rule_meta =
     [(''id'', ''uuid''), (''event_id'', ''uuid''), (''basis'', ''event_lead_basis'')]"
  by (simp add: metadata_defs typed_columns_def List.map_filter_def lead_rule_meta_def lead_rule_fields_def)

lemma lead_rule_meta_facts:
  "resolved table_names lead_rule_meta" "stray_columns lead_rule_meta = []"
  "missing_columns lead_rule_meta = []"
  by (simp_all add: metadata_defs resolved_def table_names_def stray_columns_def missing_columns_def lead_rule_typed_columns,
    simp_all add: lower_case_letters lead_rule_meta_def lead_rule_references_def lead_rule_relations_def
      lead_rule_search_fields_def lead_rule_fields_def lead_rule_columns_def)

lemma lead_rule_predicate_typed_columns:
  "typed_columns lead_rule_predicate_meta =
     [(''id'', ''uuid''), (''rule_id'', ''uuid''), (''axis'', ''event_lead_predicate_axis''),
      (''question_id'', ''uuid'')]"
  by (simp add: metadata_defs typed_columns_def List.map_filter_def lead_rule_predicate_meta_def lead_rule_predicate_fields_def)

lemma lead_rule_predicate_meta_facts:
  "resolved table_names lead_rule_predicate_meta" "stray_columns lead_rule_predicate_meta = []"
  "missing_columns lead_rule_predicate_meta = []"
  by (simp_all add: metadata_defs resolved_def table_names_def stray_columns_def missing_columns_def lead_rule_predicate_typed_columns,
    simp_all add: lower_case_letters lead_rule_predicate_meta_def lead_rule_predicate_references_def
      lead_rule_predicate_relations_def lead_rule_predicate_search_fields_def
      lead_rule_predicate_fields_def lead_rule_predicate_columns_def)

lemma registration_typed_columns:
  "typed_columns registration_meta =
     [(''id'', ''uuid''), (''event_id'', ''uuid''), (''event_slot_id'', ''uuid''),
      (''event_ticket_id'', ''uuid''), (''partner_id'', ''uuid''),
      (''state'', ''event_registration_state''), (''date_closed'', ''timestamptz''),
      (''sale_order_id'', ''uuid''), (''sale_order_state'', ''event_sale_order_state''),
      (''sale_status'', ''event_sale_status'')]"
  by (simp add: metadata_defs typed_columns_def List.map_filter_def registration_meta_def registration_fields_def)

lemma registration_meta_facts:
  "resolved table_names registration_meta" "stray_columns registration_meta = []"
  "missing_columns registration_meta = []"
  by (simp_all add: metadata_defs resolved_def table_names_def stray_columns_def missing_columns_def registration_typed_columns,
    simp_all add: lower_case_letters registration_meta_def registration_references_def registration_relations_def
      registration_search_fields_def registration_fields_def registration_columns_def)

lemma registration_answer_typed_columns:
  "typed_columns registration_answer_meta =
     [(''id'', ''uuid''), (''registration_id'', ''uuid''), (''question_id'', ''uuid''),
      (''value_answer_id'', ''uuid'')]"
  by (simp add: metadata_defs typed_columns_def List.map_filter_def registration_answer_meta_def registration_answer_fields_def)

lemma registration_answer_meta_facts:
  "resolved table_names registration_answer_meta" "stray_columns registration_answer_meta = []"
  "missing_columns registration_answer_meta = []"
  by (simp_all add: metadata_defs resolved_def table_names_def stray_columns_def missing_columns_def registration_answer_typed_columns,
    simp_all add: lower_case_letters registration_answer_meta_def registration_answer_references_def
      registration_answer_relations_def registration_answer_search_fields_def
      registration_answer_fields_def registration_answer_columns_def)

lemma registration_question_typed_columns:
  "typed_columns registration_question_meta =
     [(''id'', ''uuid''), (''event_id'', ''uuid''), (''event_type_id'', ''uuid''),
      (''question_id'', ''uuid'')]"
  by (simp add: metadata_defs typed_columns_def List.map_filter_def registration_question_meta_def registration_question_fields_def)

lemma registration_question_meta_facts:
  "resolved table_names registration_question_meta" "stray_columns registration_question_meta = []"
  "missing_columns registration_question_meta = []"
  by (simp_all add: metadata_defs resolved_def table_names_def stray_columns_def missing_columns_def registration_question_typed_columns,
    simp_all add: lower_case_letters registration_question_meta_def registration_question_references_def
      registration_question_relations_def registration_question_search_fields_def
      registration_question_fields_def registration_question_columns_def)

lemma question_typed_columns:
  "typed_columns question_meta =
     [(''id'', ''uuid''), (''question_kind'', ''event_question_kind'')]"
  by (simp add: metadata_defs typed_columns_def List.map_filter_def question_meta_def question_fields_def)

lemma question_meta_facts:
  "resolved table_names question_meta" "stray_columns question_meta = []"
  "missing_columns question_meta = []"
  by (simp_all add: metadata_defs resolved_def table_names_def stray_columns_def missing_columns_def question_typed_columns,
    simp_all add: lower_case_letters question_meta_def question_search_fields_def question_fields_def question_columns_def)

lemma question_answer_typed_columns:
  "typed_columns question_answer_meta =
     [(''id'', ''uuid''), (''question_id'', ''uuid'')]"
  by (simp add: metadata_defs typed_columns_def List.map_filter_def question_answer_meta_def question_answer_fields_def)

lemma question_answer_meta_facts:
  "resolved table_names question_answer_meta" "stray_columns question_answer_meta = []"
  "missing_columns question_answer_meta = []"
  by (simp_all add: metadata_defs resolved_def table_names_def stray_columns_def missing_columns_def question_answer_typed_columns,
    simp_all add: lower_case_letters question_answer_meta_def question_answer_references_def question_answer_relations_def
      question_answer_search_fields_def question_answer_fields_def question_answer_columns_def)

lemmas meta_facts = booth_category_meta_facts booth_meta_facts type_booth_meta_facts booth_booking_meta_facts
  event_meta_facts event_type_meta_facts stage_meta_facts tag_category_meta_facts tag_meta_facts
  slot_meta_facts ticket_meta_facts mail_meta_facts mail_registration_meta_facts
  mail_slot_meta_facts type_mail_meta_facts lead_provenance_meta_facts
  lead_provenance_registration_meta_facts lead_request_meta_facts lead_rule_meta_facts
  lead_rule_predicate_meta_facts registration_meta_facts registration_answer_meta_facts
  registration_question_meta_facts question_meta_facts question_answer_meta_facts

text \<open>
  C40. The repository metadata of the twenty-five entities against their structs: every reference,
  relation and search field names a field and a table of the module, and no column is listed with
  a wrong type. Every uuid, timestamp and enumeration field is listed with its column type, except
  in the two mail scheduler tables, which leave out template_ref and, for mails, the two dates.
\<close>

theorem column_types_leave_out_mail_fields:
  "list_all (resolved (map em_table registry)) registry \<and> list_all (\<lambda>m. stray_columns m = []) registry \<and>
   filter (\<lambda>(_, cs). cs \<noteq> []) (map (\<lambda>m. (em_table m, missing_columns m)) registry) =
     [(''event.mails'', [(''scheduled_date'', ''timestamptz''), (''template_ref'', ''uuid''),
         (''error_datetime'', ''timestamptz'')]),
      (''event.type_mails'', [(''template_ref'', ''uuid'')])]"
  unfolding registry_tables
  by (simp add: registry_def meta_facts mail_meta_table type_mail_meta_table)

end
