(* ===== verification/Handlers.thy ===== *)
theory Handlers
  imports RowRules
begin

text \<open>
  The generated REST handlers, \<open>presentation/http/*_handler.rs\<close>: how each entity's handler answers
  a service error, the permissions and the path its generic routes are mounted with, and the
  authentication layer of its protected router; and the two compositions of \<open>lib.rs\<close>. The generic
  router and the authenticator are third-party: they are parameters (\<open>serve\<close>, \<open>authenticator\<close>).
\<close>

section \<open>Service errors\<close>

datatype service_error =
    Service_Not_Found
  | Service_Validation string
  | Service_Already_Exists string
  | Service_Repository string
  | Service_Internal string
  | Service_Violations "violation list"

datatype handler_error =
    Handler_Not_Found string
  | Handler_Validation string
  | Handler_Database string
  | Handler_Internal string

fun handler_error_text :: "handler_error \<Rightarrow> string" where
  "handler_error_text (Handler_Not_Found s) = ''Not found: '' @ s"
| "handler_error_text (Handler_Validation s) = ''Validation error: '' @ s"
| "handler_error_text (Handler_Database s) = ''Database error: '' @ s"
| "handler_error_text (Handler_Internal s) = ''Internal error: '' @ s"

text \<open>\<open>err.to_string()\<close> of a service error is the third-party crate's: the argument \<open>show_error\<close>.\<close>

fun handler_error_of :: "(service_error \<Rightarrow> string) \<Rightarrow> service_error \<Rightarrow> handler_error" where
  "handler_error_of show_error Service_Not_Found = Handler_Not_Found (show_error Service_Not_Found)"
| "handler_error_of show_error (Service_Validation msg) = Handler_Validation msg"
| "handler_error_of show_error (Service_Already_Exists msg) = Handler_Validation msg"
| "handler_error_of show_error (Service_Repository e) = Handler_Database e"
| "handler_error_of show_error (Service_Internal msg) = Handler_Internal msg"
| "handler_error_of show_error (Service_Violations vs) = Handler_Validation (show_error (Service_Violations vs))"

fun handler_status :: "handler_error \<Rightarrow> nat" where
  "handler_status (Handler_Not_Found _) = 404"
| "handler_status (Handler_Validation _) = 400"
| "handler_status (Handler_Database _) = 500"
| "handler_status (Handler_Internal _) = 500"

fun handler_code :: "string \<Rightarrow> handler_error \<Rightarrow> string" where
  "handler_code prefix (Handler_Not_Found _) = prefix @ ''_NOT_FOUND''"
| "handler_code prefix (Handler_Validation _) = prefix @ ''_VALIDATION_ERROR''"
| "handler_code prefix (Handler_Database _) = prefix @ ''_DATABASE_ERROR''"
| "handler_code prefix (Handler_Internal _) = prefix @ ''_INTERNAL_ERROR''"

record error_answer =
  ea_status :: nat
  ea_body :: json

definition answer_error :: "string \<Rightarrow> (service_error \<Rightarrow> string) \<Rightarrow> service_error \<Rightarrow> error_answer" where
  "answer_error prefix show_error e =
     (let err = handler_error_of show_error e in
      \<lparr>ea_status = handler_status err,
       ea_body = JObj [(''success'', JBool False), (''error'', JStr (handler_code prefix err)),
         (''message'', JStr (handler_error_text err))]\<rparr>)"

section \<open>Routes\<close>

text \<open>
  What a handler mounts: the path, which of the generic endpoints, and the permission resource
  and module its routes require.
\<close>

datatype crud_surface = Full_Crud | Read_Only | Write_Only

record permissions =
  pm_resource :: string
  pm_module :: string

record mount =
  mo_path :: string
  mo_surface :: crud_surface
  mo_permissions :: permissions

section \<open>The authentication layer\<close>

fun strip_prefix :: "string \<Rightarrow> string \<Rightarrow> string option" where
  "strip_prefix [] s = Some s"
| "strip_prefix (c # cs) (d # ds) = (if c = d then strip_prefix cs ds else None)"
| "strip_prefix (c # cs) [] = None"

text \<open>The token of an Authorization header, read as text if it is text; no token is the empty text.\<close>

definition bearer_token :: "string option \<Rightarrow> string" where
  "bearer_token header =
     (case header of
        None \<Rightarrow> []
      | Some raw \<Rightarrow>
          (case strip_prefix ''Bearer '' raw of
             Some token \<Rightarrow> token
           | None \<Rightarrow> (case strip_prefix ''bearer '' raw of Some token \<Rightarrow> token | None \<Rightarrow> [])))"

definition unauthorized_answer :: error_answer where
  "unauthorized_answer =
     \<lparr>ea_status = 401,
      ea_body = JObj [(''success'', JBool False), (''error'', JStr ''unauthorized''),
        (''message'', JStr ''Authentication required'')]\<rparr>"

type_synonym ('c, 'q, 'r, 'w) server = "mount \<Rightarrow> 'c \<Rightarrow> 'q \<Rightarrow> 'w \<Rightarrow> (error_answer + 'r) \<times> 'w"

definition authenticate_layer ::
    "(string \<Rightarrow> 'x + 'c) \<Rightarrow> ('c \<Rightarrow> 'w \<Rightarrow> (error_answer + 'r) \<times> 'w) \<Rightarrow> string option \<Rightarrow> 'w \<Rightarrow>
     (error_answer + 'r) \<times> 'w" where
  "authenticate_layer authenticator next header w =
     (case authenticator (bearer_token header) of
        Inr ctx \<Rightarrow> next ctx w
      | Inl _ \<Rightarrow> (Inl unauthorized_answer, w))"

section \<open>\<open>BoothCategory\<close>\<close>

definition booth_category_answer_error :: "(service_error \<Rightarrow> string) \<Rightarrow> service_error \<Rightarrow> error_answer" where
  "booth_category_answer_error = answer_error ''BOOTHCATEGORY''"

definition booth_category_permissions :: permissions where
  "booth_category_permissions = \<lparr>pm_resource = ''booth_category'', pm_module = ''event''\<rparr>"

definition booth_category_routes :: mount where
  "booth_category_routes = \<lparr>mo_path = ''/booth_categories'', mo_surface = Full_Crud, mo_permissions = booth_category_permissions\<rparr>"

definition booth_category_read_routes :: mount where
  "booth_category_read_routes = \<lparr>mo_path = ''/booth_categories'', mo_surface = Read_Only, mo_permissions = booth_category_permissions\<rparr>"

definition booth_category_write_routes :: mount where
  "booth_category_write_routes = \<lparr>mo_path = ''/booth_categories'', mo_surface = Write_Only, mo_permissions = booth_category_permissions\<rparr>"

definition protected_booth_category_routes ::
    "(string \<Rightarrow> 'x + 'c) \<Rightarrow> ('c, 'q, 'r, 'w) server \<Rightarrow> string option \<Rightarrow> 'q \<Rightarrow> 'w \<Rightarrow> (error_answer + 'r) \<times> 'w" where
  "protected_booth_category_routes authenticator serve header q =
     authenticate_layer authenticator (\<lambda>ctx. serve booth_category_routes ctx q) header"

section \<open>\<open>Booth\<close>\<close>

definition booth_answer_error :: "(service_error \<Rightarrow> string) \<Rightarrow> service_error \<Rightarrow> error_answer" where
  "booth_answer_error = answer_error ''BOOTH''"

definition booth_permissions :: permissions where
  "booth_permissions = \<lparr>pm_resource = ''booth'', pm_module = ''event''\<rparr>"

definition booth_routes :: mount where
  "booth_routes = \<lparr>mo_path = ''/booths'', mo_surface = Full_Crud, mo_permissions = booth_permissions\<rparr>"

definition booth_read_routes :: mount where
  "booth_read_routes = \<lparr>mo_path = ''/booths'', mo_surface = Read_Only, mo_permissions = booth_permissions\<rparr>"

definition booth_write_routes :: mount where
  "booth_write_routes = \<lparr>mo_path = ''/booths'', mo_surface = Write_Only, mo_permissions = booth_permissions\<rparr>"

definition protected_booth_routes ::
    "(string \<Rightarrow> 'x + 'c) \<Rightarrow> ('c, 'q, 'r, 'w) server \<Rightarrow> string option \<Rightarrow> 'q \<Rightarrow> 'w \<Rightarrow> (error_answer + 'r) \<times> 'w" where
  "protected_booth_routes authenticator serve header q =
     authenticate_layer authenticator (\<lambda>ctx. serve booth_routes ctx q) header"

section \<open>\<open>TypeBooth\<close>\<close>

definition type_booth_answer_error :: "(service_error \<Rightarrow> string) \<Rightarrow> service_error \<Rightarrow> error_answer" where
  "type_booth_answer_error = answer_error ''TYPEBOOTH''"

definition type_booth_permissions :: permissions where
  "type_booth_permissions = \<lparr>pm_resource = ''type_booth'', pm_module = ''event''\<rparr>"

definition type_booth_routes :: mount where
  "type_booth_routes = \<lparr>mo_path = ''/type_booths'', mo_surface = Full_Crud, mo_permissions = type_booth_permissions\<rparr>"

definition type_booth_read_routes :: mount where
  "type_booth_read_routes = \<lparr>mo_path = ''/type_booths'', mo_surface = Read_Only, mo_permissions = type_booth_permissions\<rparr>"

definition type_booth_write_routes :: mount where
  "type_booth_write_routes = \<lparr>mo_path = ''/type_booths'', mo_surface = Write_Only, mo_permissions = type_booth_permissions\<rparr>"

definition protected_type_booth_routes ::
    "(string \<Rightarrow> 'x + 'c) \<Rightarrow> ('c, 'q, 'r, 'w) server \<Rightarrow> string option \<Rightarrow> 'q \<Rightarrow> 'w \<Rightarrow> (error_answer + 'r) \<times> 'w" where
  "protected_type_booth_routes authenticator serve header q =
     authenticate_layer authenticator (\<lambda>ctx. serve type_booth_routes ctx q) header"

section \<open>\<open>BoothBooking\<close>\<close>

definition booth_booking_answer_error :: "(service_error \<Rightarrow> string) \<Rightarrow> service_error \<Rightarrow> error_answer" where
  "booth_booking_answer_error = answer_error ''BOOTHBOOKING''"

definition booth_booking_permissions :: permissions where
  "booth_booking_permissions = \<lparr>pm_resource = ''booth_booking'', pm_module = ''event''\<rparr>"

definition booth_booking_routes :: mount where
  "booth_booking_routes = \<lparr>mo_path = ''/booth_bookings'', mo_surface = Full_Crud, mo_permissions = booth_booking_permissions\<rparr>"

definition booth_booking_read_routes :: mount where
  "booth_booking_read_routes = \<lparr>mo_path = ''/booth_bookings'', mo_surface = Read_Only, mo_permissions = booth_booking_permissions\<rparr>"

definition booth_booking_write_routes :: mount where
  "booth_booking_write_routes = \<lparr>mo_path = ''/booth_bookings'', mo_surface = Write_Only, mo_permissions = booth_booking_permissions\<rparr>"

definition protected_booth_booking_routes ::
    "(string \<Rightarrow> 'x + 'c) \<Rightarrow> ('c, 'q, 'r, 'w) server \<Rightarrow> string option \<Rightarrow> 'q \<Rightarrow> 'w \<Rightarrow> (error_answer + 'r) \<times> 'w" where
  "protected_booth_booking_routes authenticator serve header q =
     authenticate_layer authenticator (\<lambda>ctx. serve booth_booking_routes ctx q) header"

section \<open>\<open>Event\<close>\<close>

definition event_answer_error :: "(service_error \<Rightarrow> string) \<Rightarrow> service_error \<Rightarrow> error_answer" where
  "event_answer_error = answer_error ''EVENT''"

definition event_permissions :: permissions where
  "event_permissions = \<lparr>pm_resource = ''event'', pm_module = ''event''\<rparr>"

definition event_routes :: mount where
  "event_routes = \<lparr>mo_path = ''/events'', mo_surface = Full_Crud, mo_permissions = event_permissions\<rparr>"

definition event_read_routes :: mount where
  "event_read_routes = \<lparr>mo_path = ''/events'', mo_surface = Read_Only, mo_permissions = event_permissions\<rparr>"

definition event_write_routes :: mount where
  "event_write_routes = \<lparr>mo_path = ''/events'', mo_surface = Write_Only, mo_permissions = event_permissions\<rparr>"

definition protected_event_routes ::
    "(string \<Rightarrow> 'x + 'c) \<Rightarrow> ('c, 'q, 'r, 'w) server \<Rightarrow> string option \<Rightarrow> 'q \<Rightarrow> 'w \<Rightarrow> (error_answer + 'r) \<times> 'w" where
  "protected_event_routes authenticator serve header q =
     authenticate_layer authenticator (\<lambda>ctx. serve event_routes ctx q) header"

section \<open>\<open>EventType\<close>\<close>

definition event_type_answer_error :: "(service_error \<Rightarrow> string) \<Rightarrow> service_error \<Rightarrow> error_answer" where
  "event_type_answer_error = answer_error ''EVENTTYPE''"

definition event_type_permissions :: permissions where
  "event_type_permissions = \<lparr>pm_resource = ''event_type'', pm_module = ''event''\<rparr>"

definition event_type_routes :: mount where
  "event_type_routes = \<lparr>mo_path = ''/event_types'', mo_surface = Full_Crud, mo_permissions = event_type_permissions\<rparr>"

definition event_type_read_routes :: mount where
  "event_type_read_routes = \<lparr>mo_path = ''/event_types'', mo_surface = Read_Only, mo_permissions = event_type_permissions\<rparr>"

definition event_type_write_routes :: mount where
  "event_type_write_routes = \<lparr>mo_path = ''/event_types'', mo_surface = Write_Only, mo_permissions = event_type_permissions\<rparr>"

definition protected_event_type_routes ::
    "(string \<Rightarrow> 'x + 'c) \<Rightarrow> ('c, 'q, 'r, 'w) server \<Rightarrow> string option \<Rightarrow> 'q \<Rightarrow> 'w \<Rightarrow> (error_answer + 'r) \<times> 'w" where
  "protected_event_type_routes authenticator serve header q =
     authenticate_layer authenticator (\<lambda>ctx. serve event_type_routes ctx q) header"

section \<open>\<open>Stage\<close>\<close>

definition stage_answer_error :: "(service_error \<Rightarrow> string) \<Rightarrow> service_error \<Rightarrow> error_answer" where
  "stage_answer_error = answer_error ''STAGE''"

definition stage_permissions :: permissions where
  "stage_permissions = \<lparr>pm_resource = ''stage'', pm_module = ''event''\<rparr>"

definition stage_routes :: mount where
  "stage_routes = \<lparr>mo_path = ''/stages'', mo_surface = Full_Crud, mo_permissions = stage_permissions\<rparr>"

definition stage_read_routes :: mount where
  "stage_read_routes = \<lparr>mo_path = ''/stages'', mo_surface = Read_Only, mo_permissions = stage_permissions\<rparr>"

definition stage_write_routes :: mount where
  "stage_write_routes = \<lparr>mo_path = ''/stages'', mo_surface = Write_Only, mo_permissions = stage_permissions\<rparr>"

definition protected_stage_routes ::
    "(string \<Rightarrow> 'x + 'c) \<Rightarrow> ('c, 'q, 'r, 'w) server \<Rightarrow> string option \<Rightarrow> 'q \<Rightarrow> 'w \<Rightarrow> (error_answer + 'r) \<times> 'w" where
  "protected_stage_routes authenticator serve header q =
     authenticate_layer authenticator (\<lambda>ctx. serve stage_routes ctx q) header"

section \<open>\<open>TagCategory\<close>\<close>

definition tag_category_answer_error :: "(service_error \<Rightarrow> string) \<Rightarrow> service_error \<Rightarrow> error_answer" where
  "tag_category_answer_error = answer_error ''TAGCATEGORY''"

definition tag_category_permissions :: permissions where
  "tag_category_permissions = \<lparr>pm_resource = ''tag_category'', pm_module = ''event''\<rparr>"

definition tag_category_routes :: mount where
  "tag_category_routes = \<lparr>mo_path = ''/tag_categories'', mo_surface = Full_Crud, mo_permissions = tag_category_permissions\<rparr>"

definition tag_category_read_routes :: mount where
  "tag_category_read_routes = \<lparr>mo_path = ''/tag_categories'', mo_surface = Read_Only, mo_permissions = tag_category_permissions\<rparr>"

definition tag_category_write_routes :: mount where
  "tag_category_write_routes = \<lparr>mo_path = ''/tag_categories'', mo_surface = Write_Only, mo_permissions = tag_category_permissions\<rparr>"

definition protected_tag_category_routes ::
    "(string \<Rightarrow> 'x + 'c) \<Rightarrow> ('c, 'q, 'r, 'w) server \<Rightarrow> string option \<Rightarrow> 'q \<Rightarrow> 'w \<Rightarrow> (error_answer + 'r) \<times> 'w" where
  "protected_tag_category_routes authenticator serve header q =
     authenticate_layer authenticator (\<lambda>ctx. serve tag_category_routes ctx q) header"

section \<open>\<open>Tag\<close>\<close>

definition tag_answer_error :: "(service_error \<Rightarrow> string) \<Rightarrow> service_error \<Rightarrow> error_answer" where
  "tag_answer_error = answer_error ''TAG''"

definition tag_permissions :: permissions where
  "tag_permissions = \<lparr>pm_resource = ''tag'', pm_module = ''event''\<rparr>"

definition tag_routes :: mount where
  "tag_routes = \<lparr>mo_path = ''/tags'', mo_surface = Full_Crud, mo_permissions = tag_permissions\<rparr>"

definition tag_read_routes :: mount where
  "tag_read_routes = \<lparr>mo_path = ''/tags'', mo_surface = Read_Only, mo_permissions = tag_permissions\<rparr>"

definition tag_write_routes :: mount where
  "tag_write_routes = \<lparr>mo_path = ''/tags'', mo_surface = Write_Only, mo_permissions = tag_permissions\<rparr>"

definition protected_tag_routes ::
    "(string \<Rightarrow> 'x + 'c) \<Rightarrow> ('c, 'q, 'r, 'w) server \<Rightarrow> string option \<Rightarrow> 'q \<Rightarrow> 'w \<Rightarrow> (error_answer + 'r) \<times> 'w" where
  "protected_tag_routes authenticator serve header q =
     authenticate_layer authenticator (\<lambda>ctx. serve tag_routes ctx q) header"

section \<open>\<open>Slot\<close>\<close>

definition slot_answer_error :: "(service_error \<Rightarrow> string) \<Rightarrow> service_error \<Rightarrow> error_answer" where
  "slot_answer_error = answer_error ''SLOT''"

definition slot_permissions :: permissions where
  "slot_permissions = \<lparr>pm_resource = ''slot'', pm_module = ''event''\<rparr>"

definition slot_routes :: mount where
  "slot_routes = \<lparr>mo_path = ''/slots'', mo_surface = Full_Crud, mo_permissions = slot_permissions\<rparr>"

definition slot_read_routes :: mount where
  "slot_read_routes = \<lparr>mo_path = ''/slots'', mo_surface = Read_Only, mo_permissions = slot_permissions\<rparr>"

definition slot_write_routes :: mount where
  "slot_write_routes = \<lparr>mo_path = ''/slots'', mo_surface = Write_Only, mo_permissions = slot_permissions\<rparr>"

definition protected_slot_routes ::
    "(string \<Rightarrow> 'x + 'c) \<Rightarrow> ('c, 'q, 'r, 'w) server \<Rightarrow> string option \<Rightarrow> 'q \<Rightarrow> 'w \<Rightarrow> (error_answer + 'r) \<times> 'w" where
  "protected_slot_routes authenticator serve header q =
     authenticate_layer authenticator (\<lambda>ctx. serve slot_routes ctx q) header"

section \<open>\<open>Ticket\<close>\<close>

definition ticket_answer_error :: "(service_error \<Rightarrow> string) \<Rightarrow> service_error \<Rightarrow> error_answer" where
  "ticket_answer_error = answer_error ''TICKET''"

definition ticket_permissions :: permissions where
  "ticket_permissions = \<lparr>pm_resource = ''ticket'', pm_module = ''event''\<rparr>"

definition ticket_routes :: mount where
  "ticket_routes = \<lparr>mo_path = ''/tickets'', mo_surface = Full_Crud, mo_permissions = ticket_permissions\<rparr>"

definition ticket_read_routes :: mount where
  "ticket_read_routes = \<lparr>mo_path = ''/tickets'', mo_surface = Read_Only, mo_permissions = ticket_permissions\<rparr>"

definition ticket_write_routes :: mount where
  "ticket_write_routes = \<lparr>mo_path = ''/tickets'', mo_surface = Write_Only, mo_permissions = ticket_permissions\<rparr>"

definition protected_ticket_routes ::
    "(string \<Rightarrow> 'x + 'c) \<Rightarrow> ('c, 'q, 'r, 'w) server \<Rightarrow> string option \<Rightarrow> 'q \<Rightarrow> 'w \<Rightarrow> (error_answer + 'r) \<times> 'w" where
  "protected_ticket_routes authenticator serve header q =
     authenticate_layer authenticator (\<lambda>ctx. serve ticket_routes ctx q) header"

section \<open>\<open>Mail\<close>\<close>

definition mail_answer_error :: "(service_error \<Rightarrow> string) \<Rightarrow> service_error \<Rightarrow> error_answer" where
  "mail_answer_error = answer_error ''MAIL''"

definition mail_permissions :: permissions where
  "mail_permissions = \<lparr>pm_resource = ''mail'', pm_module = ''event''\<rparr>"

definition mail_routes :: mount where
  "mail_routes = \<lparr>mo_path = ''/mails'', mo_surface = Full_Crud, mo_permissions = mail_permissions\<rparr>"

definition mail_read_routes :: mount where
  "mail_read_routes = \<lparr>mo_path = ''/mails'', mo_surface = Read_Only, mo_permissions = mail_permissions\<rparr>"

definition mail_write_routes :: mount where
  "mail_write_routes = \<lparr>mo_path = ''/mails'', mo_surface = Write_Only, mo_permissions = mail_permissions\<rparr>"

definition protected_mail_routes ::
    "(string \<Rightarrow> 'x + 'c) \<Rightarrow> ('c, 'q, 'r, 'w) server \<Rightarrow> string option \<Rightarrow> 'q \<Rightarrow> 'w \<Rightarrow> (error_answer + 'r) \<times> 'w" where
  "protected_mail_routes authenticator serve header q =
     authenticate_layer authenticator (\<lambda>ctx. serve mail_routes ctx q) header"

section \<open>\<open>MailRegistration\<close>\<close>

definition mail_registration_answer_error :: "(service_error \<Rightarrow> string) \<Rightarrow> service_error \<Rightarrow> error_answer" where
  "mail_registration_answer_error = answer_error ''MAILREGISTRATION''"

definition mail_registration_permissions :: permissions where
  "mail_registration_permissions = \<lparr>pm_resource = ''mail_registration'', pm_module = ''event''\<rparr>"

definition mail_registration_routes :: mount where
  "mail_registration_routes = \<lparr>mo_path = ''/mail_registrations'', mo_surface = Full_Crud, mo_permissions = mail_registration_permissions\<rparr>"

definition mail_registration_read_routes :: mount where
  "mail_registration_read_routes = \<lparr>mo_path = ''/mail_registrations'', mo_surface = Read_Only, mo_permissions = mail_registration_permissions\<rparr>"

definition mail_registration_write_routes :: mount where
  "mail_registration_write_routes = \<lparr>mo_path = ''/mail_registrations'', mo_surface = Write_Only, mo_permissions = mail_registration_permissions\<rparr>"

definition protected_mail_registration_routes ::
    "(string \<Rightarrow> 'x + 'c) \<Rightarrow> ('c, 'q, 'r, 'w) server \<Rightarrow> string option \<Rightarrow> 'q \<Rightarrow> 'w \<Rightarrow> (error_answer + 'r) \<times> 'w" where
  "protected_mail_registration_routes authenticator serve header q =
     authenticate_layer authenticator (\<lambda>ctx. serve mail_registration_routes ctx q) header"

section \<open>\<open>MailSlot\<close>\<close>

definition mail_slot_answer_error :: "(service_error \<Rightarrow> string) \<Rightarrow> service_error \<Rightarrow> error_answer" where
  "mail_slot_answer_error = answer_error ''MAILSLOT''"

definition mail_slot_permissions :: permissions where
  "mail_slot_permissions = \<lparr>pm_resource = ''mail_slot'', pm_module = ''event''\<rparr>"

definition mail_slot_routes :: mount where
  "mail_slot_routes = \<lparr>mo_path = ''/mail_slots'', mo_surface = Full_Crud, mo_permissions = mail_slot_permissions\<rparr>"

definition mail_slot_read_routes :: mount where
  "mail_slot_read_routes = \<lparr>mo_path = ''/mail_slots'', mo_surface = Read_Only, mo_permissions = mail_slot_permissions\<rparr>"

definition mail_slot_write_routes :: mount where
  "mail_slot_write_routes = \<lparr>mo_path = ''/mail_slots'', mo_surface = Write_Only, mo_permissions = mail_slot_permissions\<rparr>"

definition protected_mail_slot_routes ::
    "(string \<Rightarrow> 'x + 'c) \<Rightarrow> ('c, 'q, 'r, 'w) server \<Rightarrow> string option \<Rightarrow> 'q \<Rightarrow> 'w \<Rightarrow> (error_answer + 'r) \<times> 'w" where
  "protected_mail_slot_routes authenticator serve header q =
     authenticate_layer authenticator (\<lambda>ctx. serve mail_slot_routes ctx q) header"

section \<open>\<open>TypeMail\<close>\<close>

definition type_mail_answer_error :: "(service_error \<Rightarrow> string) \<Rightarrow> service_error \<Rightarrow> error_answer" where
  "type_mail_answer_error = answer_error ''TYPEMAIL''"

definition type_mail_permissions :: permissions where
  "type_mail_permissions = \<lparr>pm_resource = ''type_mail'', pm_module = ''event''\<rparr>"

definition type_mail_routes :: mount where
  "type_mail_routes = \<lparr>mo_path = ''/type_mails'', mo_surface = Full_Crud, mo_permissions = type_mail_permissions\<rparr>"

definition type_mail_read_routes :: mount where
  "type_mail_read_routes = \<lparr>mo_path = ''/type_mails'', mo_surface = Read_Only, mo_permissions = type_mail_permissions\<rparr>"

definition type_mail_write_routes :: mount where
  "type_mail_write_routes = \<lparr>mo_path = ''/type_mails'', mo_surface = Write_Only, mo_permissions = type_mail_permissions\<rparr>"

definition protected_type_mail_routes ::
    "(string \<Rightarrow> 'x + 'c) \<Rightarrow> ('c, 'q, 'r, 'w) server \<Rightarrow> string option \<Rightarrow> 'q \<Rightarrow> 'w \<Rightarrow> (error_answer + 'r) \<times> 'w" where
  "protected_type_mail_routes authenticator serve header q =
     authenticate_layer authenticator (\<lambda>ctx. serve type_mail_routes ctx q) header"

section \<open>\<open>LeadProvenance\<close>\<close>

definition lead_provenance_answer_error :: "(service_error \<Rightarrow> string) \<Rightarrow> service_error \<Rightarrow> error_answer" where
  "lead_provenance_answer_error = answer_error ''LEADPROVENANCE''"

definition lead_provenance_permissions :: permissions where
  "lead_provenance_permissions = \<lparr>pm_resource = ''lead_provenance'', pm_module = ''event''\<rparr>"

definition lead_provenance_routes :: mount where
  "lead_provenance_routes = \<lparr>mo_path = ''/lead_provenances'', mo_surface = Full_Crud, mo_permissions = lead_provenance_permissions\<rparr>"

definition lead_provenance_read_routes :: mount where
  "lead_provenance_read_routes = \<lparr>mo_path = ''/lead_provenances'', mo_surface = Read_Only, mo_permissions = lead_provenance_permissions\<rparr>"

definition lead_provenance_write_routes :: mount where
  "lead_provenance_write_routes = \<lparr>mo_path = ''/lead_provenances'', mo_surface = Write_Only, mo_permissions = lead_provenance_permissions\<rparr>"

definition protected_lead_provenance_routes ::
    "(string \<Rightarrow> 'x + 'c) \<Rightarrow> ('c, 'q, 'r, 'w) server \<Rightarrow> string option \<Rightarrow> 'q \<Rightarrow> 'w \<Rightarrow> (error_answer + 'r) \<times> 'w" where
  "protected_lead_provenance_routes authenticator serve header q =
     authenticate_layer authenticator (\<lambda>ctx. serve lead_provenance_routes ctx q) header"

section \<open>\<open>LeadProvenanceRegistration\<close>\<close>

definition lead_provenance_registration_answer_error :: "(service_error \<Rightarrow> string) \<Rightarrow> service_error \<Rightarrow> error_answer" where
  "lead_provenance_registration_answer_error = answer_error ''LEADPROVENANCEREGISTRATION''"

definition lead_provenance_registration_permissions :: permissions where
  "lead_provenance_registration_permissions = \<lparr>pm_resource = ''lead_provenance_registration'', pm_module = ''event''\<rparr>"

definition lead_provenance_registration_routes :: mount where
  "lead_provenance_registration_routes = \<lparr>mo_path = ''/lead_provenance_registrations'', mo_surface = Full_Crud, mo_permissions = lead_provenance_registration_permissions\<rparr>"

definition lead_provenance_registration_read_routes :: mount where
  "lead_provenance_registration_read_routes = \<lparr>mo_path = ''/lead_provenance_registrations'', mo_surface = Read_Only, mo_permissions = lead_provenance_registration_permissions\<rparr>"

definition lead_provenance_registration_write_routes :: mount where
  "lead_provenance_registration_write_routes = \<lparr>mo_path = ''/lead_provenance_registrations'', mo_surface = Write_Only, mo_permissions = lead_provenance_registration_permissions\<rparr>"

definition protected_lead_provenance_registration_routes ::
    "(string \<Rightarrow> 'x + 'c) \<Rightarrow> ('c, 'q, 'r, 'w) server \<Rightarrow> string option \<Rightarrow> 'q \<Rightarrow> 'w \<Rightarrow> (error_answer + 'r) \<times> 'w" where
  "protected_lead_provenance_registration_routes authenticator serve header q =
     authenticate_layer authenticator (\<lambda>ctx. serve lead_provenance_registration_routes ctx q) header"

section \<open>\<open>LeadRequest\<close>\<close>

definition lead_request_answer_error :: "(service_error \<Rightarrow> string) \<Rightarrow> service_error \<Rightarrow> error_answer" where
  "lead_request_answer_error = answer_error ''LEADREQUEST''"

definition lead_request_permissions :: permissions where
  "lead_request_permissions = \<lparr>pm_resource = ''lead_request'', pm_module = ''event''\<rparr>"

definition lead_request_routes :: mount where
  "lead_request_routes = \<lparr>mo_path = ''/lead_requests'', mo_surface = Full_Crud, mo_permissions = lead_request_permissions\<rparr>"

definition lead_request_read_routes :: mount where
  "lead_request_read_routes = \<lparr>mo_path = ''/lead_requests'', mo_surface = Read_Only, mo_permissions = lead_request_permissions\<rparr>"

definition lead_request_write_routes :: mount where
  "lead_request_write_routes = \<lparr>mo_path = ''/lead_requests'', mo_surface = Write_Only, mo_permissions = lead_request_permissions\<rparr>"

definition protected_lead_request_routes ::
    "(string \<Rightarrow> 'x + 'c) \<Rightarrow> ('c, 'q, 'r, 'w) server \<Rightarrow> string option \<Rightarrow> 'q \<Rightarrow> 'w \<Rightarrow> (error_answer + 'r) \<times> 'w" where
  "protected_lead_request_routes authenticator serve header q =
     authenticate_layer authenticator (\<lambda>ctx. serve lead_request_routes ctx q) header"

section \<open>\<open>LeadRule\<close>\<close>

definition lead_rule_answer_error :: "(service_error \<Rightarrow> string) \<Rightarrow> service_error \<Rightarrow> error_answer" where
  "lead_rule_answer_error = answer_error ''LEADRULE''"

definition lead_rule_permissions :: permissions where
  "lead_rule_permissions = \<lparr>pm_resource = ''lead_rule'', pm_module = ''event''\<rparr>"

definition lead_rule_routes :: mount where
  "lead_rule_routes = \<lparr>mo_path = ''/lead_rules'', mo_surface = Full_Crud, mo_permissions = lead_rule_permissions\<rparr>"

definition lead_rule_read_routes :: mount where
  "lead_rule_read_routes = \<lparr>mo_path = ''/lead_rules'', mo_surface = Read_Only, mo_permissions = lead_rule_permissions\<rparr>"

definition lead_rule_write_routes :: mount where
  "lead_rule_write_routes = \<lparr>mo_path = ''/lead_rules'', mo_surface = Write_Only, mo_permissions = lead_rule_permissions\<rparr>"

definition protected_lead_rule_routes ::
    "(string \<Rightarrow> 'x + 'c) \<Rightarrow> ('c, 'q, 'r, 'w) server \<Rightarrow> string option \<Rightarrow> 'q \<Rightarrow> 'w \<Rightarrow> (error_answer + 'r) \<times> 'w" where
  "protected_lead_rule_routes authenticator serve header q =
     authenticate_layer authenticator (\<lambda>ctx. serve lead_rule_routes ctx q) header"

section \<open>\<open>LeadRulePredicate\<close>\<close>

definition lead_rule_predicate_answer_error :: "(service_error \<Rightarrow> string) \<Rightarrow> service_error \<Rightarrow> error_answer" where
  "lead_rule_predicate_answer_error = answer_error ''LEADRULEPREDICATE''"

definition lead_rule_predicate_permissions :: permissions where
  "lead_rule_predicate_permissions = \<lparr>pm_resource = ''lead_rule_predicate'', pm_module = ''event''\<rparr>"

definition lead_rule_predicate_routes :: mount where
  "lead_rule_predicate_routes = \<lparr>mo_path = ''/lead_rule_predicates'', mo_surface = Full_Crud, mo_permissions = lead_rule_predicate_permissions\<rparr>"

definition lead_rule_predicate_read_routes :: mount where
  "lead_rule_predicate_read_routes = \<lparr>mo_path = ''/lead_rule_predicates'', mo_surface = Read_Only, mo_permissions = lead_rule_predicate_permissions\<rparr>"

definition lead_rule_predicate_write_routes :: mount where
  "lead_rule_predicate_write_routes = \<lparr>mo_path = ''/lead_rule_predicates'', mo_surface = Write_Only, mo_permissions = lead_rule_predicate_permissions\<rparr>"

definition protected_lead_rule_predicate_routes ::
    "(string \<Rightarrow> 'x + 'c) \<Rightarrow> ('c, 'q, 'r, 'w) server \<Rightarrow> string option \<Rightarrow> 'q \<Rightarrow> 'w \<Rightarrow> (error_answer + 'r) \<times> 'w" where
  "protected_lead_rule_predicate_routes authenticator serve header q =
     authenticate_layer authenticator (\<lambda>ctx. serve lead_rule_predicate_routes ctx q) header"

section \<open>\<open>Registration\<close>\<close>

definition registration_answer_error :: "(service_error \<Rightarrow> string) \<Rightarrow> service_error \<Rightarrow> error_answer" where
  "registration_answer_error = answer_error ''REGISTRATION''"

definition registration_permissions :: permissions where
  "registration_permissions = \<lparr>pm_resource = ''registration'', pm_module = ''event''\<rparr>"

definition registration_routes :: mount where
  "registration_routes = \<lparr>mo_path = ''/registrations'', mo_surface = Full_Crud, mo_permissions = registration_permissions\<rparr>"

definition registration_read_routes :: mount where
  "registration_read_routes = \<lparr>mo_path = ''/registrations'', mo_surface = Read_Only, mo_permissions = registration_permissions\<rparr>"

definition registration_write_routes :: mount where
  "registration_write_routes = \<lparr>mo_path = ''/registrations'', mo_surface = Write_Only, mo_permissions = registration_permissions\<rparr>"

definition protected_registration_routes ::
    "(string \<Rightarrow> 'x + 'c) \<Rightarrow> ('c, 'q, 'r, 'w) server \<Rightarrow> string option \<Rightarrow> 'q \<Rightarrow> 'w \<Rightarrow> (error_answer + 'r) \<times> 'w" where
  "protected_registration_routes authenticator serve header q =
     authenticate_layer authenticator (\<lambda>ctx. serve registration_routes ctx q) header"

section \<open>\<open>RegistrationAnswer\<close>\<close>

definition registration_answer_answer_error :: "(service_error \<Rightarrow> string) \<Rightarrow> service_error \<Rightarrow> error_answer" where
  "registration_answer_answer_error = answer_error ''REGISTRATIONANSWER''"

definition registration_answer_permissions :: permissions where
  "registration_answer_permissions = \<lparr>pm_resource = ''registration_answer'', pm_module = ''event''\<rparr>"

definition registration_answer_routes :: mount where
  "registration_answer_routes = \<lparr>mo_path = ''/registration_answers'', mo_surface = Full_Crud, mo_permissions = registration_answer_permissions\<rparr>"

definition registration_answer_read_routes :: mount where
  "registration_answer_read_routes = \<lparr>mo_path = ''/registration_answers'', mo_surface = Read_Only, mo_permissions = registration_answer_permissions\<rparr>"

definition registration_answer_write_routes :: mount where
  "registration_answer_write_routes = \<lparr>mo_path = ''/registration_answers'', mo_surface = Write_Only, mo_permissions = registration_answer_permissions\<rparr>"

definition protected_registration_answer_routes ::
    "(string \<Rightarrow> 'x + 'c) \<Rightarrow> ('c, 'q, 'r, 'w) server \<Rightarrow> string option \<Rightarrow> 'q \<Rightarrow> 'w \<Rightarrow> (error_answer + 'r) \<times> 'w" where
  "protected_registration_answer_routes authenticator serve header q =
     authenticate_layer authenticator (\<lambda>ctx. serve registration_answer_routes ctx q) header"

section \<open>\<open>RegistrationQuestion\<close>\<close>

definition registration_question_answer_error :: "(service_error \<Rightarrow> string) \<Rightarrow> service_error \<Rightarrow> error_answer" where
  "registration_question_answer_error = answer_error ''REGISTRATIONQUESTION''"

definition registration_question_permissions :: permissions where
  "registration_question_permissions = \<lparr>pm_resource = ''registration_question'', pm_module = ''event''\<rparr>"

definition registration_question_routes :: mount where
  "registration_question_routes = \<lparr>mo_path = ''/registration_questions'', mo_surface = Full_Crud, mo_permissions = registration_question_permissions\<rparr>"

definition registration_question_read_routes :: mount where
  "registration_question_read_routes = \<lparr>mo_path = ''/registration_questions'', mo_surface = Read_Only, mo_permissions = registration_question_permissions\<rparr>"

definition registration_question_write_routes :: mount where
  "registration_question_write_routes = \<lparr>mo_path = ''/registration_questions'', mo_surface = Write_Only, mo_permissions = registration_question_permissions\<rparr>"

definition protected_registration_question_routes ::
    "(string \<Rightarrow> 'x + 'c) \<Rightarrow> ('c, 'q, 'r, 'w) server \<Rightarrow> string option \<Rightarrow> 'q \<Rightarrow> 'w \<Rightarrow> (error_answer + 'r) \<times> 'w" where
  "protected_registration_question_routes authenticator serve header q =
     authenticate_layer authenticator (\<lambda>ctx. serve registration_question_routes ctx q) header"

section \<open>\<open>Question\<close>\<close>

definition question_answer_error :: "(service_error \<Rightarrow> string) \<Rightarrow> service_error \<Rightarrow> error_answer" where
  "question_answer_error = answer_error ''QUESTION''"

definition question_permissions :: permissions where
  "question_permissions = \<lparr>pm_resource = ''question'', pm_module = ''event''\<rparr>"

definition question_routes :: mount where
  "question_routes = \<lparr>mo_path = ''/questions'', mo_surface = Full_Crud, mo_permissions = question_permissions\<rparr>"

definition question_read_routes :: mount where
  "question_read_routes = \<lparr>mo_path = ''/questions'', mo_surface = Read_Only, mo_permissions = question_permissions\<rparr>"

definition question_write_routes :: mount where
  "question_write_routes = \<lparr>mo_path = ''/questions'', mo_surface = Write_Only, mo_permissions = question_permissions\<rparr>"

definition protected_question_routes ::
    "(string \<Rightarrow> 'x + 'c) \<Rightarrow> ('c, 'q, 'r, 'w) server \<Rightarrow> string option \<Rightarrow> 'q \<Rightarrow> 'w \<Rightarrow> (error_answer + 'r) \<times> 'w" where
  "protected_question_routes authenticator serve header q =
     authenticate_layer authenticator (\<lambda>ctx. serve question_routes ctx q) header"

section \<open>\<open>QuestionAnswer\<close>\<close>

definition question_answer_answer_error :: "(service_error \<Rightarrow> string) \<Rightarrow> service_error \<Rightarrow> error_answer" where
  "question_answer_answer_error = answer_error ''QUESTIONANSWER''"

definition question_answer_permissions :: permissions where
  "question_answer_permissions = \<lparr>pm_resource = ''question_answer'', pm_module = ''event''\<rparr>"

definition question_answer_routes :: mount where
  "question_answer_routes = \<lparr>mo_path = ''/question_answers'', mo_surface = Full_Crud, mo_permissions = question_answer_permissions\<rparr>"

definition question_answer_read_routes :: mount where
  "question_answer_read_routes = \<lparr>mo_path = ''/question_answers'', mo_surface = Read_Only, mo_permissions = question_answer_permissions\<rparr>"

definition question_answer_write_routes :: mount where
  "question_answer_write_routes = \<lparr>mo_path = ''/question_answers'', mo_surface = Write_Only, mo_permissions = question_answer_permissions\<rparr>"

definition protected_question_answer_routes ::
    "(string \<Rightarrow> 'x + 'c) \<Rightarrow> ('c, 'q, 'r, 'w) server \<Rightarrow> string option \<Rightarrow> 'q \<Rightarrow> 'w \<Rightarrow> (error_answer + 'r) \<times> 'w" where
  "protected_question_answer_routes authenticator serve header q =
     authenticate_layer authenticator (\<lambda>ctx. serve question_answer_routes ctx q) header"


section \<open>What \<open>lib.rs\<close> mounts\<close>

definition all_crud_mounts :: "mount list" where
  "all_crud_mounts =
     [booth_category_routes, booth_read_routes, type_booth_routes, booth_booking_read_routes,
      event_read_routes, event_type_routes, lead_provenance_read_routes,
      lead_provenance_registration_read_routes, lead_request_read_routes, lead_rule_read_routes,
      lead_rule_predicate_read_routes, mail_read_routes, mail_registration_routes,
      mail_slot_routes, question_read_routes, question_answer_routes,
      registration_question_routes, registration_read_routes, registration_answer_routes,
      slot_routes, stage_routes, tag_category_routes, tag_routes, ticket_routes,
      type_mail_routes]"

definition readonly_mounts :: "mount list" where
  "readonly_mounts =
     [booth_category_read_routes, booth_read_routes, type_booth_read_routes,
      booth_booking_read_routes, event_read_routes, event_type_read_routes,
      lead_provenance_read_routes, lead_provenance_registration_read_routes,
      lead_request_read_routes, lead_rule_read_routes, lead_rule_predicate_read_routes,
      mail_read_routes, mail_registration_read_routes, mail_slot_read_routes,
      question_read_routes, question_answer_read_routes, registration_question_read_routes,
      registration_read_routes, registration_answer_read_routes, slot_read_routes,
      stage_read_routes, tag_category_read_routes, tag_read_routes, ticket_read_routes,
      type_mail_read_routes]"


lemmas mount_defs = booth_category_routes_def booth_category_read_routes_def booth_category_permissions_def
  booth_routes_def booth_read_routes_def booth_permissions_def type_booth_routes_def
  type_booth_read_routes_def type_booth_permissions_def booth_booking_routes_def
  booth_booking_read_routes_def booth_booking_permissions_def event_routes_def
  event_read_routes_def event_permissions_def event_type_routes_def event_type_read_routes_def
  event_type_permissions_def stage_routes_def stage_read_routes_def stage_permissions_def
  tag_category_routes_def tag_category_read_routes_def tag_category_permissions_def
  tag_routes_def tag_read_routes_def tag_permissions_def slot_routes_def slot_read_routes_def
  slot_permissions_def ticket_routes_def ticket_read_routes_def ticket_permissions_def
  mail_routes_def mail_read_routes_def mail_permissions_def mail_registration_routes_def
  mail_registration_read_routes_def mail_registration_permissions_def mail_slot_routes_def
  mail_slot_read_routes_def mail_slot_permissions_def type_mail_routes_def
  type_mail_read_routes_def type_mail_permissions_def lead_provenance_routes_def
  lead_provenance_read_routes_def lead_provenance_permissions_def
  lead_provenance_registration_routes_def lead_provenance_registration_read_routes_def
  lead_provenance_registration_permissions_def lead_request_routes_def
  lead_request_read_routes_def lead_request_permissions_def lead_rule_routes_def
  lead_rule_read_routes_def lead_rule_permissions_def lead_rule_predicate_routes_def
  lead_rule_predicate_read_routes_def lead_rule_predicate_permissions_def
  registration_routes_def registration_read_routes_def registration_permissions_def
  registration_answer_routes_def registration_answer_read_routes_def
  registration_answer_permissions_def registration_question_routes_def
  registration_question_read_routes_def registration_question_permissions_def
  question_routes_def question_read_routes_def question_permissions_def
  question_answer_routes_def question_answer_read_routes_def question_answer_permissions_def

section \<open>The handlers of the module\<close>

text \<open>The error mappings and the protected routers of the module, one of each per entity.\<close>

definition error_answers :: "((service_error \<Rightarrow> string) \<Rightarrow> service_error \<Rightarrow> error_answer) list" where
  "error_answers =
     [booth_category_answer_error, booth_answer_error, type_booth_answer_error,
      booth_booking_answer_error, event_answer_error, event_type_answer_error,
      stage_answer_error, tag_category_answer_error, tag_answer_error, slot_answer_error,
      ticket_answer_error, mail_answer_error, mail_registration_answer_error,
      mail_slot_answer_error, type_mail_answer_error, lead_provenance_answer_error,
      lead_provenance_registration_answer_error, lead_request_answer_error,
      lead_rule_answer_error, lead_rule_predicate_answer_error, registration_answer_error,
      registration_answer_answer_error, registration_question_answer_error,
      question_answer_error, question_answer_answer_error]"

definition protected_routers ::
    "(mount \<times> ((string \<Rightarrow> 'x + 'c) \<Rightarrow> ('c, 'q, 'r, 'w) server \<Rightarrow> string option \<Rightarrow> 'q \<Rightarrow> 'w \<Rightarrow> (error_answer + 'r) \<times> 'w)) list" where
  "protected_routers =
     [(booth_category_routes, protected_booth_category_routes),
      (booth_routes, protected_booth_routes), (type_booth_routes, protected_type_booth_routes),
      (booth_booking_routes, protected_booth_booking_routes),
      (event_routes, protected_event_routes), (event_type_routes, protected_event_type_routes),
      (stage_routes, protected_stage_routes),
      (tag_category_routes, protected_tag_category_routes), (tag_routes, protected_tag_routes),
      (slot_routes, protected_slot_routes), (ticket_routes, protected_ticket_routes),
      (mail_routes, protected_mail_routes),
      (mail_registration_routes, protected_mail_registration_routes),
      (mail_slot_routes, protected_mail_slot_routes),
      (type_mail_routes, protected_type_mail_routes),
      (lead_provenance_routes, protected_lead_provenance_routes),
      (lead_provenance_registration_routes, protected_lead_provenance_registration_routes),
      (lead_request_routes, protected_lead_request_routes),
      (lead_rule_routes, protected_lead_rule_routes),
      (lead_rule_predicate_routes, protected_lead_rule_predicate_routes),
      (registration_routes, protected_registration_routes),
      (registration_answer_routes, protected_registration_answer_routes),
      (registration_question_routes, protected_registration_question_routes),
      (question_routes, protected_question_routes),
      (question_answer_routes, protected_question_answer_routes)]"

definition obj_text :: "json \<Rightarrow> string \<Rightarrow> string" where
  "obj_text v f = (case v of JObj ms \<Rightarrow> (case map_of ms f of Some (JStr s) \<Rightarrow> s | _ \<Rightarrow> []) | _ \<Rightarrow> [])"

text \<open>
  The code of an error names its entity and its class: no prefix has an underscore, so the text up
  to the first one is the prefix.
\<close>

definition error_prefixes :: "string list" where
  "error_prefixes =
     [''BOOTHCATEGORY'', ''BOOTH'', ''TYPEBOOTH'', ''BOOTHBOOKING'', ''EVENT'', ''EVENTTYPE'',
      ''STAGE'', ''TAGCATEGORY'', ''TAG'', ''SLOT'', ''TICKET'', ''MAIL'', ''MAILREGISTRATION'',
      ''MAILSLOT'', ''TYPEMAIL'', ''LEADPROVENANCE'', ''LEADPROVENANCEREGISTRATION'',
      ''LEADREQUEST'', ''LEADRULE'', ''LEADRULEPREDICATE'', ''REGISTRATION'',
      ''REGISTRATIONANSWER'', ''REGISTRATIONQUESTION'', ''QUESTION'', ''QUESTIONANSWER'']"

lemma error_answers_prefixes: "error_answers = map answer_error error_prefixes"
  by (simp add: error_answers_def error_prefixes_def fun_eq_iff booth_category_answer_error_def booth_answer_error_def type_booth_answer_error_def
    booth_booking_answer_error_def event_answer_error_def event_type_answer_error_def
    stage_answer_error_def tag_category_answer_error_def tag_answer_error_def
    slot_answer_error_def ticket_answer_error_def mail_answer_error_def
    mail_registration_answer_error_def mail_slot_answer_error_def type_mail_answer_error_def
    lead_provenance_answer_error_def lead_provenance_registration_answer_error_def
    lead_request_answer_error_def lead_rule_answer_error_def
    lead_rule_predicate_answer_error_def registration_answer_error_def
    registration_answer_answer_error_def registration_question_answer_error_def
    question_answer_error_def question_answer_answer_error_def)

definition upto_underscore :: "string \<Rightarrow> string" where
  "upto_underscore = takeWhile (\<lambda>c. c \<noteq> CHR ''_'')"

lemma upto_underscore_code:
  "CHR ''_'' \<notin> set prefix \<Longrightarrow> upto_underscore (handler_code prefix err) = prefix"
  by (cases err) (auto simp: upto_underscore_def takeWhile_append)

lemma handler_codes_agree:
  assumes "CHR ''_'' \<notin> set p" and "CHR ''_'' \<notin> set q" and "handler_code p a = handler_code q b"
  shows "p = q \<and> handler_status a = handler_status b"
proof -
  have "p = q" using upto_underscore_code [OF assms(1), of a] upto_underscore_code [OF assms(2), of b] assms(3) by simp
  with assms(3) show ?thesis by (cases a; cases b) simp_all
qed

lemma prefixes_plain: "p \<in> set error_prefixes \<Longrightarrow> CHR ''_'' \<notin> set p"
  by (auto simp: error_prefixes_def)

lemma prefixes_distinct: "distinct error_prefixes"
  by (simp add: error_prefixes_def)

text \<open>
  An error answer of the generated handlers is one of 404, 400 and 500 and its code identifies
  it: two handlers that answer with the same code are the handlers of the same entity and answer
  with the same status. A row that already exists and a broken write rule are answered 400.
\<close>

lemma error_codes_identify_their_handler:
  assumes i: "i < length error_answers" and j: "j < length error_answers"
  shows "(obj_text (ea_body ((error_answers ! i) sh e)) ''error'' = obj_text (ea_body ((error_answers ! j) sh e')) ''error'' \<longrightarrow>
      i = j \<and> ea_status ((error_answers ! i) sh e) = ea_status ((error_answers ! j) sh e')) \<and>
    ea_status ((error_answers ! i) sh e) \<in> {404, 400, 500} \<and>
    ea_status ((error_answers ! i) sh (Service_Already_Exists m)) = 400 \<and>
    ea_status ((error_answers ! i) sh (Service_Violations vs)) = 400"
proof -
  let ?p = "error_prefixes ! i" and ?q = "error_prefixes ! j"
  have at: "error_answers ! i = answer_error ?p" "error_answers ! j = answer_error ?q" "?p \<in> set error_prefixes" "?q \<in> set error_prefixes"
    using i j by (simp_all add: error_answers_prefixes)
  have len: "i < length error_prefixes" "j < length error_prefixes" using i j by (simp_all add: error_answers_prefixes)
  have "?p = ?q \<longleftrightarrow> i = j" using nth_eq_iff_index_eq [OF prefixes_distinct len] .
  moreover have "handler_status err \<in> {404, 400, 500}" for err by (cases err) simp_all
  ultimately show ?thesis
    using handler_codes_agree [OF prefixes_plain [OF at(3)] prefixes_plain [OF at(4)]]
    by (auto simp: at answer_error_def Let_def obj_text_def)
qed

lemma error_codes_identify_their_handler_witness:
  "ea_status ((error_answers ! 0) (\<lambda>_. []) (Service_Already_Exists ''name'')) = 400 \<and>
   obj_text (ea_body ((error_answers ! 0) (\<lambda>_. []) Service_Not_Found)) ''error'' \<noteq>
     obj_text (ea_body ((error_answers ! 1) (\<lambda>_. []) Service_Not_Found)) ''error''"
proof -
  have "0 < length error_answers" "1 < length error_answers" by (simp_all add: error_answers_def)
  from error_codes_identify_their_handler [OF this, of "\<lambda>_. []" Service_Not_Found Service_Not_Found "''name''"] show ?thesis by simp
qed

text \<open>
  The authentication layer of every protected router: a request whose token the authenticator
  refuses is answered 401 before any route sees it and stores nothing, and one whose token it takes
  is served by the entity's full router under that caller. A header with neither spelling of the
  Bearer scheme counts as the empty token.
\<close>

lemma protected_routers_need_a_caller:
  assumes "(routes, protected) \<in> set protected_routers"
  shows "protected authenticator serve header q w =
      (case authenticator (bearer_token header) of
         Inl _ \<Rightarrow> (Inl unauthorized_answer, w)
       | Inr ctx \<Rightarrow> serve routes ctx q w) \<and>
    (strip_prefix ''Bearer '' raw = None \<and> strip_prefix ''bearer '' raw = None \<longrightarrow> bearer_token (Some raw) = bearer_token None)"
  using assms
  by (auto simp: protected_routers_def bearer_token_def authenticate_layer_def protected_booth_category_routes_def protected_booth_routes_def
      protected_type_booth_routes_def protected_booth_booking_routes_def
      protected_event_routes_def protected_event_type_routes_def protected_stage_routes_def
      protected_tag_category_routes_def protected_tag_routes_def protected_slot_routes_def
      protected_ticket_routes_def protected_mail_routes_def
      protected_mail_registration_routes_def protected_mail_slot_routes_def
      protected_type_mail_routes_def protected_lead_provenance_routes_def
      protected_lead_provenance_registration_routes_def protected_lead_request_routes_def
      protected_lead_rule_routes_def protected_lead_rule_predicate_routes_def
      protected_registration_routes_def protected_registration_answer_routes_def
      protected_registration_question_routes_def protected_question_routes_def
      protected_question_answer_routes_def split: sum.split)

lemma protected_routers_need_a_caller_witness:
  "protected_booth_routes (\<lambda>t. if t = ''k'' then Inr (7 :: nat) else Inl ()) (\<lambda>m c q w. (Inr (mo_path m, c, q), w @ [c]))
     (Some ''Basic k'') True [] = (Inl unauthorized_answer, []) \<and>
   protected_booth_routes (\<lambda>t. if t = ''k'' then Inr (7 :: nat) else Inl ()) (\<lambda>m c q w. (Inr (mo_path m, c, q), w @ [c]))
     (Some ''Bearer k'') True [] = (Inr (''/booths'', 7, True), [7])"
proof -
  have "(booth_routes, protected_booth_routes) \<in> set protected_routers" by (simp add: protected_routers_def)
  note this [THEN protected_routers_need_a_caller]
  from this [of "\<lambda>t. if t = ''k'' then Inr (7 :: nat) else Inl ()" "\<lambda>m c q w. (Inr (mo_path m, c, q), w @ [c])" "Some ''Basic k''" True "[]"]
    this [of "\<lambda>t. if t = ''k'' then Inr (7 :: nat) else Inl ()" "\<lambda>m c q w. (Inr (mo_path m, c, q), w @ [c])" "Some ''Bearer k''" True "[]"]
  show ?thesis by (simp add: bearer_token_def booth_routes_def)
qed

end
