(* ===== verification/Crud.thy ===== *)
theory Crud
  imports BoothEntities EventEntities MailEntities LeadEntities RegistrationEntities Handlers
begin

text \<open>
  The generic CRUD surface over the generated entities: which routers \<open>lib.rs\<close> mounts, the state
  transition handlers of \<open>registration_handler.rs\<close> and \<open>booth_handler.rs\<close>, and properties of
  the entities, DTOs and guards together. The generic service, its repository and the
  authentication context are third-party: the service is a parameter (\<open>crud_service\<close>) over any
  world, the permission check a function, and a reply names the constructor the handler calls.
\<close>

section \<open>What \<open>lib.rs\<close> mounts\<close>

text \<open>The fields of an entity that only its verbs or its constructor may write.\<close>

definition lifecycle_fields :: "string \<Rightarrow> string list" where
  "lifecycle_fields resource =
     (if resource = ''booth'' then booth_state_fields @ booth_write_protected_fields
      else if resource = ''registration'' then registration_state_fields
      else if resource = ''question'' then question_write_protected_fields
      else [])"

text \<open>
  The widest router the module offers mounts generic writes only for entities without a
  lifecycle field: a booth, a registration and a question can be read, never written, through it.
  Its routers and those of the read-only composition are the same entities in the same order, each
  under its own path and its own permission resource.
\<close>

lemma generic_writes_spare_lifecycles:
  "list_all (\<lambda>m. mo_surface m = Read_Only \<or> lifecycle_fields (pm_resource (mo_permissions m)) = []) all_crud_mounts \<and>
   list_all (\<lambda>m. mo_surface m = Read_Only) readonly_mounts \<and>
   map (\<lambda>m. (mo_path m, mo_permissions m)) readonly_mounts = map (\<lambda>m. (mo_path m, mo_permissions m)) all_crud_mounts \<and>
   distinct (map mo_path all_crud_mounts) \<and> distinct (map (\<lambda>m. pm_resource (mo_permissions m)) all_crud_mounts) \<and>
   lifecycle_fields ''booth'' \<noteq> [] \<and> lifecycle_fields ''registration'' \<noteq> [] \<and> lifecycle_fields ''question'' \<noteq> []"
  by (simp add: all_crud_mounts_def readonly_mounts_def mount_defs lifecycle_fields_def booth_state_fields_def
      booth_write_protected_fields_def registration_state_fields_def question_write_protected_fields_def)

section \<open>The transition handlers\<close>

record ('w, 'e) crud_service =
  cs_get :: "string \<Rightarrow> 'w \<Rightarrow> service_error + 'e option"
  cs_update :: "string option \<Rightarrow> string \<Rightarrow> (string \<times> json) list \<Rightarrow> 'w \<Rightarrow> (service_error + 'e option) \<times> 'w"

datatype ('p, 'r) api_reply =
    Unauthenticated
  | Permission_Refused 'p
  | Reply_Not_Found string string
  | Reply_Conflict string
  | Reply_Service_Error service_error
  | Reply_Ok 'r

type_synonym 'p permission_check = "(string \<Rightarrow> string list \<Rightarrow> 'p + unit) option"

definition not_allowed :: "string \<Rightarrow> string \<Rightarrow> string \<Rightarrow> service_error" where
  "not_allowed name from_text to_text =
     Service_Violations [violation ''state'' ''transition_not_allowed'' (name @ '' is not allowed from the current state'')
       [(''transition'', JStr name), (''from'', JStr from_text), (''to'', JStr to_text)]]"

text \<open>
  The body the six handlers share, with the entity's names, the text of its state, the reader and
  the guard of its machine, and its response.
\<close>

definition transition_handler ::
    "string \<Rightarrow> string \<Rightarrow> ('e \<Rightarrow> string) \<Rightarrow> (string \<Rightarrow> 'x + 's) \<Rightarrow> ('s \<Rightarrow> bool) \<Rightarrow> ('e \<Rightarrow> 'r) \<Rightarrow>
     string \<Rightarrow> string \<Rightarrow> ('w, 'e) crud_service \<Rightarrow> 'p permission_check \<Rightarrow> bool \<Rightarrow> string \<Rightarrow> 'w \<Rightarrow>
     ('p, 'r) api_reply \<times> 'w" where
  "transition_handler entity title state_text parse can response name to_text svc auth waived i w =
     (case auth of
        None \<Rightarrow> (Unauthenticated, w)
      | Some permit \<Rightarrow>
          (case (if waived then Inr () else permit (entity @ '':'' @ name) [''event:'' @ name]) of
             Inl refused \<Rightarrow> (Permission_Refused refused, w)
           | Inr _ \<Rightarrow>
               (case cs_get svc i w of
                  Inl e \<Rightarrow> (Reply_Service_Error e, w)
                | Inr None \<Rightarrow> (Reply_Not_Found title i, w)
                | Inr (Some row) \<Rightarrow>
                    (case parse (state_text row) of
                       Inl _ \<Rightarrow> (Reply_Conflict ''The stored state is not a state of this machine'', w)
                     | Inr s \<Rightarrow>
                         if \<not> can s then (Reply_Service_Error (not_allowed name (state_text row) to_text), w)
                         else
                           (case cs_update svc (Some name) i [(''state'', JStr to_text)] w of
                              (Inr (Some updated), w') \<Rightarrow> (Reply_Ok (response updated), w')
                            | (Inr None, w') \<Rightarrow> (Reply_Not_Found title i, w')
                            | (Inl e, w') \<Rightarrow> (Reply_Service_Error e, w'))))))"

definition registration_set_draft_transition ::
    "('w, registration) crud_service \<Rightarrow> 'p permission_check \<Rightarrow> bool \<Rightarrow> string \<Rightarrow> 'w \<Rightarrow>
     ('p, registration_response_dto) api_reply \<times> 'w" where
  "registration_set_draft_transition =
     transition_handler ''registration'' ''Registration'' (\<lambda>e. registration_state_to_str (rgn_state e))
       regsm_state_from_str (\<lambda>s. regsm_can_transition (regsm_from_state s) RT_SetDraft) registration_response
       ''set_draft'' ''draft''"

definition registration_confirm_transition ::
    "('w, registration) crud_service \<Rightarrow> 'p permission_check \<Rightarrow> bool \<Rightarrow> string \<Rightarrow> 'w \<Rightarrow>
     ('p, registration_response_dto) api_reply \<times> 'w" where
  "registration_confirm_transition =
     transition_handler ''registration'' ''Registration'' (\<lambda>e. registration_state_to_str (rgn_state e))
       regsm_state_from_str (\<lambda>s. regsm_can_transition (regsm_from_state s) RT_Confirm) registration_response
       ''confirm'' ''open''"

definition registration_set_done_transition ::
    "('w, registration) crud_service \<Rightarrow> 'p permission_check \<Rightarrow> bool \<Rightarrow> string \<Rightarrow> 'w \<Rightarrow>
     ('p, registration_response_dto) api_reply \<times> 'w" where
  "registration_set_done_transition =
     transition_handler ''registration'' ''Registration'' (\<lambda>e. registration_state_to_str (rgn_state e))
       regsm_state_from_str (\<lambda>s. regsm_can_transition (regsm_from_state s) RT_SetDone) registration_response
       ''set_done'' ''done''"

definition registration_cancel_transition ::
    "('w, registration) crud_service \<Rightarrow> 'p permission_check \<Rightarrow> bool \<Rightarrow> string \<Rightarrow> 'w \<Rightarrow>
     ('p, registration_response_dto) api_reply \<times> 'w" where
  "registration_cancel_transition =
     transition_handler ''registration'' ''Registration'' (\<lambda>e. registration_state_to_str (rgn_state e))
       regsm_state_from_str (\<lambda>s. regsm_can_transition (regsm_from_state s) RT_Cancel) registration_response
       ''cancel'' ''cancel''"

definition booth_confirm_transition ::
    "('w, booth) crud_service \<Rightarrow> 'p permission_check \<Rightarrow> bool \<Rightarrow> string \<Rightarrow> 'w \<Rightarrow>
     ('p, booth_response_dto) api_reply \<times> 'w" where
  "booth_confirm_transition =
     transition_handler ''booth'' ''Booth'' (\<lambda>e. booth_state_to_str (bth_state e))
       boothsm_state_from_str (\<lambda>s. boothsm_can_transition (boothsm_from_state s) BT_Confirm) booth_response
       ''confirm'' ''unavailable''"

definition booth_release_transition ::
    "('w, booth) crud_service \<Rightarrow> 'p permission_check \<Rightarrow> bool \<Rightarrow> string \<Rightarrow> 'w \<Rightarrow>
     ('p, booth_response_dto) api_reply \<times> 'w" where
  "booth_release_transition =
     transition_handler ''booth'' ''Booth'' (\<lambda>e. booth_state_to_str (bth_state e))
       boothsm_state_from_str (\<lambda>s. boothsm_can_transition (boothsm_from_state s) BT_Release) booth_response
       ''release'' ''available''"

section \<open>The generic patch\<close>

text \<open>
  A generic patch is a function of the map it gets: in whatever order the map yields its
  fields, the event, the registration, the booth, the booking and the mail come out the same. It
  moves neither the state of a registration or a booth nor any id or audit metadata.
\<close>

lemma generic_patch_ignores_map_order:
  assumes "distinct (map fst kvs)" and "distinct (map fst kvs')" and "set kvs = set kvs'"
  shows "event_apply_patch env kvs ev = event_apply_patch env kvs' ev \<and>
    registration_apply_patch env kvs r = registration_apply_patch env kvs' r \<and>
    booth_apply_patch env kvs b = booth_apply_patch env kvs' b \<and>
    booth_booking_apply_patch env kvs bb = booth_booking_apply_patch env kvs' bb \<and>
    mail_apply_patch env kvs m = mail_apply_patch env kvs' m \<and>
    rgn_state (registration_apply_patch env kvs r) = rgn_state r \<and>
    bth_state (booth_apply_patch env kvs b) = bth_state b \<and>
    evt_id (event_apply_patch env kvs ev) = evt_id ev \<and>
    evt_metadata (event_apply_patch env kvs ev) = evt_metadata ev"
  unfolding event_apply_patch_def registration_apply_patch_def booth_apply_patch_def
    booth_booking_apply_patch_def mail_apply_patch_def
  using registration_patch.keeps_frame [of env kvs r] booth_patch.keeps_frame [of env kvs b]
    event_patch.keeps_frame [of env kvs ev]
  by (intro conjI event_patch.order_free registration_patch.order_free booth_patch.order_free
      booth_booking_patch.order_free mail_patch.order_free assms) simp_all

definition ex_entity_env :: entity_env where
  "ex_entity_env = \<lparr>en_uuid = (\<lambda>_. None), en_time = (\<lambda>_. None), en_decimal = (\<lambda>_. None)\<rparr>"

definition ex_booth_row :: booth where
  "ex_booth_row = booth_new 1 2 3 ''A1'' Booth_Available False"

lemma generic_patch_ignores_map_order_witness:
  "booth_apply_patch ex_entity_env [(''state'', JStr ''unavailable''), (''name'', JStr ''B2''), (''is_paid'', JBool True)] ex_booth_row
     = ex_booth_row\<lparr>bth_name := ''B2'', bth_is_paid := True\<rparr> \<and>
   booth_apply_patch ex_entity_env [(''is_paid'', JBool True), (''state'', JStr ''unavailable''), (''name'', JStr ''B2'')] ex_booth_row
     = ex_booth_row\<lparr>bth_name := ''B2'', bth_is_paid := True\<rparr>"
proof -
  let ?a = "[(''state'', JStr ''unavailable''), (''name'', JStr ''B2''), (''is_paid'', JBool True)]"
  let ?b = "[(''is_paid'', JBool True), (''state'', JStr ''unavailable''), (''name'', JStr ''B2'')]"
  have "booth_apply_patch ex_entity_env ?a ex_booth_row = ex_booth_row\<lparr>bth_name := ''B2'', bth_is_paid := True\<rparr>"
    by (simp add: booth_apply_patch_def patch_fields_def patch_field_def booth_arms_def patch_with_def)
  moreover have "booth_apply_patch ex_entity_env ?a ex_booth_row = booth_apply_patch ex_entity_env ?b ex_booth_row"
    using generic_patch_ignores_map_order [of ?a ?b] by (simp add: insert_commute)
  ultimately show ?thesis by simp
qed

section \<open>The write guards\<close>

definition obj_field :: "json \<Rightarrow> string \<Rightarrow> json option" where
  "obj_field v f = (case v of JObj ms \<Rightarrow> map_of ms f | _ \<Rightarrow> None)"

lemma booth_state_text_inj: "booth_state_to_str s = booth_state_to_str t \<longleftrightarrow> s = t"
  by (cases s; cases t) simp_all

lemma registration_state_text_inj: "registration_state_to_str s = registration_state_to_str t \<longleftrightarrow> s = t"
  by (cases s; cases t) simp_all

text \<open>
  C35. A full update cannot move a lifecycle state: the DTOs of a PUT carry the state and the
  conversion writes it, but when it differs from the stored one the guard of the service refuses
  the update, as long as the crate's \<open>changed\<close> compares the named field and the rows serialise
  their state under its name.
\<close>

theorem put_cannot_move_the_state:
  assumes changed: "\<And>old row f. ro_changed ops (Some old) row [f] \<longleftrightarrow> obj_field old f \<noteq> obj_field row f"
    and reg: "\<And>e. \<exists>row. reg_value e = Some row \<and>
      obj_field row ''state'' = Some (JStr (registration_state_to_str (rgn_state e)))"
    and booth: "\<And>e. \<exists>row. booth_value e = Some row \<and>
      obj_field row ''state'' = Some (JStr (booth_state_to_str (bth_state e)))"
  shows "(rgnu_state dto \<noteq> rgn_state r \<longrightarrow> ''state_field_verbs_only'' \<in> vi_code ` set (go_refuse
      (registration_row_rules ops reg_value \<lparr>wc_kind = Write_Update, wc_before = Some r,
         wc_after = Some (registration_apply_update dto r), wc_transition = None\<rparr>))) \<and>
    (bthu_state bdto \<noteq> bth_state b \<longrightarrow> ''state_field_verbs_only'' \<in> vi_code ` set (go_refuse
      (booth_row_rules ops booth_value \<lparr>wc_kind = Write_Update, wc_before = Some b,
         wc_after = Some (booth_apply_update bdto b), wc_transition = None\<rparr>)))"
proof (intro conjI impI)
  assume new: "rgnu_state dto \<noteq> rgn_state r"
  obtain old row where "reg_value r = Some old" "reg_value (registration_apply_update dto r) = Some row"
    "obj_field old ''state'' \<noteq> obj_field row ''state''"
    using reg [of r] reg [of "registration_apply_update dto r"] new
    by (auto simp: registration_apply_update_def registration_state_text_inj)
  then show "''state_field_verbs_only'' \<in> vi_code ` set (go_refuse
      (registration_row_rules ops reg_value \<lparr>wc_kind = Write_Update, wc_before = Some r,
         wc_after = Some (registration_apply_update dto r), wc_transition = None\<rparr>))"
    by (simp add: registration_row_rules_def check_rules_def Let_def changed)
next
  assume new: "bthu_state bdto \<noteq> bth_state b"
  obtain old row where "booth_value b = Some old" "booth_value (booth_apply_update bdto b) = Some row"
    "obj_field old ''state'' \<noteq> obj_field row ''state''"
    using booth [of b] booth [of "booth_apply_update bdto b"] new
    by (auto simp: booth_apply_update_def booth_state_text_inj)
  then show "''state_field_verbs_only'' \<in> vi_code ` set (go_refuse
      (booth_row_rules ops booth_value \<lparr>wc_kind = Write_Update, wc_before = Some b,
         wc_after = Some (booth_apply_update bdto b), wc_transition = None\<rparr>))"
    by (simp add: booth_row_rules_def check_rules_def Let_def changed)
qed

text \<open>Operators that compare a field and hold on everything, and rows that serialise their state.\<close>

definition ex_ops :: "unit rule_ops" where
  "ex_ops = \<lparr>ro_field = (\<lambda>_ _. ()),
     ro_changed = (\<lambda>old row fs. case old of None \<Rightarrow> True | Some v \<Rightarrow> list_ex (\<lambda>f. obj_field v f \<noteq> obj_field row f) fs),
     ro_holds = (\<lambda>_. True), ro_num = (\<lambda>_. ()), ro_and = (\<lambda>_ _. ()), ro_not = (\<lambda>_. ()),
     ro_is_not_null = (\<lambda>_. ()), ro_is_empty = (\<lambda>_. ()), ro_trim = (\<lambda>_. ()), ro_length = (\<lambda>_. ()),
     ro_le = (\<lambda>_ _. ()), ro_ge = (\<lambda>_ _. ()), ro_matches = (\<lambda>_ _. ())\<rparr>"

definition ex_booth_value :: "booth \<Rightarrow> json option" where
  "ex_booth_value b = Some (JObj [(''name'', JStr (bth_name b)), (''state'', JStr (booth_state_to_str (bth_state b)))])"

definition ex_reg_value :: "registration \<Rightarrow> json option" where
  "ex_reg_value r = Some (JObj [(''state'', JStr (registration_state_to_str (rgn_state r)))])"

definition ex_booth_put :: update_booth_dto where
  "ex_booth_put = \<lparr>bthu_event_id = 2, bthu_booth_category_id = 3, bthu_name = ''A1'', bthu_state = Booth_Unavailable,
     bthu_partner_id = None, bthu_contact_name = None, bthu_contact_email = None, bthu_contact_phone = None,
     bthu_sale_order_line_id = None, bthu_is_paid = False\<rparr>"

theorem put_cannot_move_the_state_witness:
  "''state_field_verbs_only'' \<in> vi_code ` set (go_refuse (booth_row_rules ex_ops ex_booth_value
     \<lparr>wc_kind = Write_Update, wc_before = Some ex_booth_row,
      wc_after = Some (booth_apply_update ex_booth_put ex_booth_row), wc_transition = None\<rparr>))"
proof -
  have "bthu_state ex_booth_put \<noteq> bth_state ex_booth_row"
    by (simp add: ex_booth_put_def ex_booth_row_def booth_new_def)
  then show ?thesis
    using put_cannot_move_the_state [of ex_ops ex_reg_value ex_booth_value]
    by (simp add: ex_ops_def ex_reg_value_def ex_booth_value_def obj_field_def)
qed

section \<open>The transition routes\<close>

text \<open>Both machines read every stored state and allow every transition from it.\<close>

lemma registration_machine_total:
  "\<exists>s. regsm_state_from_str (registration_state_to_str st) = Inr s \<and> regsm_can_transition (regsm_from_state s) t"
  by (cases st) (simp_all add: regsm_transition_total regsm_state_from_str_def codec_reads)

lemma booth_machine_total:
  "\<exists>s. boothsm_state_from_str (booth_state_to_str st) = Inr s \<and> boothsm_can_transition (boothsm_from_state s) t"
  by (cases st; cases t)
    (simp_all add: boothsm_state_from_str_def codec_reads boothsm_can_transition_def boothsm_can_def boothsm_from_state_def)

definition allowed_caller :: "'p permission_check \<Rightarrow> bool \<Rightarrow> string \<Rightarrow> string \<Rightarrow> bool" where
  "allowed_caller auth waived entity name \<longleftrightarrow>
     (\<exists>permit. auth = Some permit \<and> (waived \<or> permit (entity @ '':'' @ name) [''event:'' @ name] = Inr ()))"

lemma transition_handler_effect:
  assumes "\<And>st. \<exists>s. parse (state_text st) = Inr s \<and> can s"
  shows "snd (transition_handler entity title state_text parse can response name to_text svc auth waived i w) =
    (if allowed_caller auth waived entity name \<and> (\<exists>row. cs_get svc i w = Inr (Some row))
     then snd (cs_update svc (Some name) i [(''state'', JStr to_text)] w) else w)"
proof (cases "allowed_caller auth waived entity name \<and> (\<exists>row. cs_get svc i w = Inr (Some row))")
  case True
  then obtain permit row where "auth = Some permit" "waived \<or> permit (entity @ '':'' @ name) [''event:'' @ name] = Inr ()"
    "cs_get svc i w = Inr (Some row)" by (auto simp: allowed_caller_def)
  moreover obtain s where "parse (state_text row) = Inr s" "can s" using assms by blast
  ultimately show ?thesis using True
    by (auto simp: transition_handler_def split: option.split sum.split prod.split)
next
  case False
  then show ?thesis
    by (auto simp: transition_handler_def allowed_caller_def split: option.splits sum.splits)
qed

lemma registration_handler_effect:
  "snd (transition_handler entity title (\<lambda>e. registration_state_to_str (rgn_state e)) regsm_state_from_str
       (\<lambda>s. regsm_can_transition (regsm_from_state s) t) response name to_text svc auth waived i w) =
    (if allowed_caller auth waived entity name \<and> (\<exists>row. cs_get svc i w = Inr (Some row))
     then snd (cs_update svc (Some name) i [(''state'', JStr to_text)] w) else w)"
  by (rule transition_handler_effect) (rule registration_machine_total)

lemma booth_handler_effect:
  "snd (transition_handler entity title (\<lambda>e. booth_state_to_str (bth_state e)) boothsm_state_from_str
       (\<lambda>s. boothsm_can_transition (boothsm_from_state s) t) response name to_text svc auth waived i w) =
    (if allowed_caller auth waived entity name \<and> (\<exists>row. cs_get svc i w = Inr (Some row))
     then snd (cs_update svc (Some name) i [(''state'', JStr to_text)] w) else w)"
  by (rule transition_handler_effect) (rule booth_machine_total)

text \<open>
  C36. What the generated transition routes do to the stored rows: for an authenticated caller whose
  permission holds or is waived, and a row that exists, exactly one update of the state to the
  verb's target, from whatever state; for anyone else, nothing. In particular the confirm route of
  a registration asks for no seat and the confirm route of a booth for no booking.
\<close>

theorem transition_routes_write_the_state_only:
  assumes "(h, name, to_text) \<in>
      {(registration_set_draft_transition, ''set_draft'', ''draft''), (registration_confirm_transition, ''confirm'', ''open''),
       (registration_set_done_transition, ''set_done'', ''done''), (registration_cancel_transition, ''cancel'', ''cancel'')}"
    and "(hb, bname, bto) \<in>
      {(booth_confirm_transition, ''confirm'', ''unavailable''), (booth_release_transition, ''release'', ''available'')}"
  shows "snd (h svc auth waived i w) =
      (if allowed_caller auth waived ''registration'' name \<and> (\<exists>row. cs_get svc i w = Inr (Some row))
       then snd (cs_update svc (Some name) i [(''state'', JStr to_text)] w) else w) \<and>
    snd (hb bsvc auth waived i v) =
      (if allowed_caller auth waived ''booth'' bname \<and> (\<exists>row. cs_get bsvc i v = Inr (Some row))
       then snd (cs_update bsvc (Some bname) i [(''state'', JStr bto)] v) else v)"
proof
  show "snd (h svc auth waived i w) =
      (if allowed_caller auth waived ''registration'' name \<and> (\<exists>row. cs_get svc i w = Inr (Some row))
       then snd (cs_update svc (Some name) i [(''state'', JStr to_text)] w) else w)"
    using assms(1)
    by (auto simp: registration_handler_effect registration_set_draft_transition_def registration_confirm_transition_def
        registration_set_done_transition_def registration_cancel_transition_def)
  show "snd (hb bsvc auth waived i v) =
      (if allowed_caller auth waived ''booth'' bname \<and> (\<exists>row. cs_get bsvc i v = Inr (Some row))
       then snd (cs_update bsvc (Some bname) i [(''state'', JStr bto)] v) else v)"
    using assms(2)
    by (auto simp: booth_handler_effect booth_confirm_transition_def booth_release_transition_def)
qed

text \<open>A service of one booth, whose update is the list of the states written.\<close>

definition ex_service :: "(json list, booth) crud_service" where
  "ex_service = \<lparr>cs_get = (\<lambda>_ _. Inr (Some ex_booth_row)),
     cs_update = (\<lambda>_ _ fields w. (Inr (Some ex_booth_row), w @ map snd fields))\<rparr>"

definition ex_reg_service :: "(json list, registration) crud_service" where
  "ex_reg_service = \<lparr>cs_get = (\<lambda>_ _. Inr None), cs_update = (\<lambda>_ _ fields w. (Inr None, w @ map snd fields))\<rparr>"

theorem transition_routes_write_the_state_only_witness:
  "snd (booth_confirm_transition ex_service (Some (\<lambda>_ _. Inl ())) True ''1'' []) = [JStr ''unavailable''] \<and>
   snd (booth_confirm_transition ex_service (Some (\<lambda>_ _. Inl ())) False ''1'' []) = []"
proof -
  note t = transition_routes_write_the_state_only [of registration_cancel_transition "''cancel''" "''cancel''"
      booth_confirm_transition "''confirm''" "''unavailable''" ex_reg_service "Some (\<lambda>_ _. Inl ())" _ "''1''" "[]" ex_service "[]"]
  show ?thesis using t [of True] t [of False] by (simp add: ex_service_def allowed_caller_def)
qed

section \<open>Pages\<close>

text \<open>
  The flags of a list response: although the page count goes through double precision, below
  \<open>2 ^ 53\<close> rows and away from the saturated count a page has a successor exactly when rows are
  left after it, and a predecessor exactly when it is not the first.
\<close>

lemma page_flags_are_exact:
  assumes "rows < 2 ^ 53" and "0 < per_page" and "per_page < 2 ^ 32" and "p < 2 ^ 32 - 1"
  shows "(pg_has_next (registration_list items rows p per_page) \<longleftrightarrow> p * per_page < rows) \<and>
    (pg_has_prev (registration_list items rows p per_page) \<longleftrightarrow> 1 < p)"
  using page_count_le_iff [OF assms] by (auto simp: registration_list_def new_page_def Let_def)

lemma page_flags_are_exact_witness:
  "pg_has_next (registration_list [] 41 2 20) \<and> \<not> pg_has_next (registration_list [] 41 3 20)"
  using page_flags_are_exact [of 41 20 2 "[]"] page_flags_are_exact [of 41 20 3 "[]"] by simp

lemma unat_ucast_64: "unat (ucast (x :: 32 word) :: 64 word) = unat x"
proof -
  have "unat x < 2 ^ 64" using unsigned_less [of x, where ?'a = nat] by simp
  then show ?thesis by (simp add: unsigned_ucast_eq take_bit_nat_eq_self)
qed

lemma unat_page_offset:
  "unat (page_offset params) = ((unat (pp_page params) - 1) * unat (pp_per_page params)) mod 2 ^ 32"
proof (cases "pp_page params = 0")
  case False
  then have "unat (pp_page params - 1) = unat (pp_page params) - 1" by (rule unat_minus_one)
  then show ?thesis
    using False by (simp add: page_offset_def unat_ucast_64 unat_word_ariths)
qed (simp add: page_offset_def)

text \<open>
  The offset of a list query wraps: the product of the pages before and the page size is taken
  at 32 bits and only then widened, so the offset is the true one modulo \<open>2 ^ 32\<close>, and a page far
  enough back reads the rows of the first page.
\<close>

lemma list_offsets_wrap:
  "unat (event_offset params) = ((unat (pp_page params) - 1) * unat (pp_per_page params)) mod 2 ^ 32 \<and>
   registration_offset \<lparr>pp_page = 2 ^ 31 + 1, pp_per_page = 2\<rparr> = 0"
proof
  show "unat (event_offset params) = ((unat (pp_page params) - 1) * unat (pp_per_page params)) mod 2 ^ 32"
    by (simp add: event_offset_def unat_page_offset)
  have "page_offset \<lparr>pp_page = 2 ^ 31 + 1, pp_per_page = 2\<rparr> = 0" by (simp add: page_offset_def)
  then show "registration_offset \<lparr>pp_page = 2 ^ 31 + 1, pp_per_page = 2\<rparr> = 0"
    by (simp add: registration_offset_def)
qed

end
