(* ===== verification/Accessors.thy ===== *)
theory Accessors
  imports BoothEntities EventEntities MailEntities LeadEntities RegistrationEntities
begin

text \<open>
  What every entity offers besides its own fields, \<open>domain/entity/*.rs\<close>: its strongly typed id
  with its text, its accessors over the audit metadata, its type name, and the persistence hooks
  the generic repository calls. The hooks of the twenty-five entities satisfy one contract,
  \<open>persistent\<close>. Reading and printing a uuid is the third-party crate's: arguments.
\<close>

section \<open>Typed ids\<close>

text \<open>An id is a uuid under the type of its entity, so ids of different entities do not mix.\<close>

datatype 'e typed_id = Typed_Id (untyped: uuid)

definition id_to_str :: "(uuid \<Rightarrow> string) \<Rightarrow> 'e typed_id \<Rightarrow> string" where
  "id_to_str print_uuid i = print_uuid (untyped i)"

definition id_from_str :: "(string \<Rightarrow> 'x + uuid) \<Rightarrow> string \<Rightarrow> 'x + 'e typed_id" where
  "id_from_str parse_uuid s = (case parse_uuid s of Inl x \<Rightarrow> Inl x | Inr u \<Rightarrow> Inr (Typed_Id u))"

section \<open>Accessors\<close>

text \<open>What the accessors of an entity return.\<close>

record 'e entity_view =
  vw_id :: uuid
  vw_typed_id :: "'e typed_id"
  vw_created_at :: "timestamp option"
  vw_updated_at :: "timestamp option"
  vw_is_deleted :: bool
  vw_is_active :: bool
  vw_deleted_at :: "timestamp option"
  vw_created_by :: "uuid option"
  vw_updated_by :: "uuid option"
  vw_deleted_by :: "uuid option"

definition view_of :: "uuid \<Rightarrow> audit_metadata \<Rightarrow> 'e entity_view" where
  "view_of i m =
     \<lparr>vw_id = i, vw_typed_id = Typed_Id i, vw_created_at = am_created_at m, vw_updated_at = am_updated_at m,
      vw_is_deleted = (am_deleted_at m \<noteq> None), vw_is_active = (am_deleted_at m = None),
      vw_deleted_at = am_deleted_at m, vw_created_by = am_created_by m, vw_updated_by = am_updated_by m,
      vw_deleted_by = am_deleted_by m\<rparr>"

section \<open>The contract of the persistence hooks\<close>

locale persistent =
  fixes persist :: "entity_env \<Rightarrow> persist_call \<Rightarrow> 'e \<Rightarrow> 'e"
    and ident :: "'e \<Rightarrow> uuid"
    and metadata :: "'e \<Rightarrow> audit_metadata"
    and with_metadata :: "(audit_metadata \<Rightarrow> audit_metadata) \<Rightarrow> 'e \<Rightarrow> 'e"
  assumes created: "persist env (Set_Created_At ts) e = with_metadata (am_created_at_update (\<lambda>_. Some ts)) e"
    and updated: "persist env (Set_Updated_At ts) e = with_metadata (am_updated_at_update (\<lambda>_. Some ts)) e"
    and deleted: "persist env (Set_Deleted_At dt) e = with_metadata (am_deleted_at_update (\<lambda>_. dt)) e"
    and renamed: "en_uuid env i = Some u \<Longrightarrow> ident (persist env (Set_Entity_Id i) e) = u"
    and misnamed: "en_uuid env i = None \<Longrightarrow> persist env (Set_Entity_Id i) e = e"
    and metadata_with: "metadata (with_metadata f e) = f (metadata e)"
    and ident_with: "ident (with_metadata f e) = ident e"
    and with_twice: "with_metadata f (with_metadata g e) = with_metadata (\<lambda>m. f (g m)) e"
    and with_same: "f (metadata e) = metadata e \<Longrightarrow> with_metadata f e = e"
    and renamed_metadata: "metadata (persist env (Set_Entity_Id i) e) = metadata e"
begin

lemma delete_then_restore:
  assumes "vw_is_active (view_of (ident e) (metadata e) :: 'e entity_view)"
  shows "persist env (Set_Deleted_At None) (persist env (Set_Deleted_At (Some ts)) e) = e"
  using assms by (simp add: deleted with_twice with_same view_of_def)

lemma deleted_view:
  "vw_is_deleted (view_of (ident e') (metadata e') :: 'e entity_view) \<and> vw_id (view_of (ident e') (metadata e') :: 'e entity_view) = ident e"
  if "e' = persist env (Set_Deleted_At (Some ts)) e"
  unfolding that by (simp add: deleted metadata_with ident_with view_of_def)

text \<open>Only the id hook moves the id, and the three timestamp hooks do not get in each other's way.\<close>

lemma hooks_keep_ident:
  "(\<forall>i. call \<noteq> Set_Entity_Id i) \<Longrightarrow> ident (persist env call e) = ident e"
  by (cases call) (simp_all add: created updated deleted ident_with)

lemma hooks_commute:
  "persist env (Set_Created_At a) (persist env (Set_Updated_At b) e) =
     persist env (Set_Updated_At b) (persist env (Set_Created_At a) e)"
  "persist env (Set_Updated_At b) (persist env (Set_Deleted_At c) e) =
     persist env (Set_Deleted_At c) (persist env (Set_Updated_At b) e)"
  unfolding created updated deleted with_twice by (rule arg_cong2 [where f = with_metadata]; simp add: fun_eq_iff)+

lemma active_xor_deleted: "vw_is_active (view_of (ident e) (metadata e) :: 'e entity_view) \<longleftrightarrow>
    \<not> vw_is_deleted (view_of (ident e) (metadata e) :: 'e entity_view)"
  by (simp add: view_of_def)

end

section \<open>\<open>BoothCategory\<close>\<close>

type_synonym booth_category_id = "booth_category typed_id"

definition booth_category_id_to_str :: "(uuid \<Rightarrow> string) \<Rightarrow> booth_category_id \<Rightarrow> string" where
  "booth_category_id_to_str = id_to_str"

definition booth_category_id_from_str :: "(string \<Rightarrow> 'x + uuid) \<Rightarrow> string \<Rightarrow> 'x + booth_category_id" where
  "booth_category_id_from_str = id_from_str"

definition booth_category_accessors :: "booth_category \<Rightarrow> booth_category entity_view" where
  "booth_category_accessors e = view_of (bct_id e) (bct_metadata e)"

definition booth_category_entity_type :: string where
  "booth_category_entity_type = ''BoothCategory''"

interpretation booth_category_persisted: persistent booth_category_persist bct_id bct_metadata bct_metadata_update
  by unfold_locales (simp_all split: option.split)

section \<open>\<open>Booth\<close>\<close>

type_synonym booth_id = "booth typed_id"

definition booth_id_to_str :: "(uuid \<Rightarrow> string) \<Rightarrow> booth_id \<Rightarrow> string" where
  "booth_id_to_str = id_to_str"

definition booth_id_from_str :: "(string \<Rightarrow> 'x + uuid) \<Rightarrow> string \<Rightarrow> 'x + booth_id" where
  "booth_id_from_str = id_from_str"

definition booth_accessors :: "booth \<Rightarrow> booth entity_view" where
  "booth_accessors e = view_of (bth_id e) (bth_metadata e)"

definition booth_entity_type :: string where
  "booth_entity_type = ''Booth''"

interpretation booth_persisted: persistent booth_persist bth_id bth_metadata bth_metadata_update
  by unfold_locales (simp_all split: option.split)

section \<open>\<open>TypeBooth\<close>\<close>

type_synonym type_booth_id = "type_booth typed_id"

definition type_booth_id_to_str :: "(uuid \<Rightarrow> string) \<Rightarrow> type_booth_id \<Rightarrow> string" where
  "type_booth_id_to_str = id_to_str"

definition type_booth_id_from_str :: "(string \<Rightarrow> 'x + uuid) \<Rightarrow> string \<Rightarrow> 'x + type_booth_id" where
  "type_booth_id_from_str = id_from_str"

definition type_booth_accessors :: "type_booth \<Rightarrow> type_booth entity_view" where
  "type_booth_accessors e = view_of (tbt_id e) (tbt_metadata e)"

definition type_booth_entity_type :: string where
  "type_booth_entity_type = ''TypeBooth''"

interpretation type_booth_persisted: persistent type_booth_persist tbt_id tbt_metadata tbt_metadata_update
  by unfold_locales (simp_all split: option.split)

section \<open>\<open>BoothBooking\<close>\<close>

type_synonym booth_booking_id = "booth_booking typed_id"

definition booth_booking_id_to_str :: "(uuid \<Rightarrow> string) \<Rightarrow> booth_booking_id \<Rightarrow> string" where
  "booth_booking_id_to_str = id_to_str"

definition booth_booking_id_from_str :: "(string \<Rightarrow> 'x + uuid) \<Rightarrow> string \<Rightarrow> 'x + booth_booking_id" where
  "booth_booking_id_from_str = id_from_str"

definition booth_booking_accessors :: "booth_booking \<Rightarrow> booth_booking entity_view" where
  "booth_booking_accessors e = view_of (bbk_id e) (bbk_metadata e)"

definition booth_booking_entity_type :: string where
  "booth_booking_entity_type = ''BoothBooking''"

interpretation booth_booking_persisted: persistent booth_booking_persist bbk_id bbk_metadata bbk_metadata_update
  by unfold_locales (simp_all split: option.split)

section \<open>\<open>Event\<close>\<close>

type_synonym event_id = "event typed_id"

definition event_id_to_str :: "(uuid \<Rightarrow> string) \<Rightarrow> event_id \<Rightarrow> string" where
  "event_id_to_str = id_to_str"

definition event_id_from_str :: "(string \<Rightarrow> 'x + uuid) \<Rightarrow> string \<Rightarrow> 'x + event_id" where
  "event_id_from_str = id_from_str"

definition event_accessors :: "event \<Rightarrow> event entity_view" where
  "event_accessors e = view_of (evt_id e) (evt_metadata e)"

definition event_entity_type :: string where
  "event_entity_type = ''Event''"

interpretation event_persisted: persistent event_persist evt_id evt_metadata evt_metadata_update
  by unfold_locales (simp_all split: option.split)

section \<open>\<open>EventType\<close>\<close>

type_synonym event_type_id = "event_type typed_id"

definition event_type_id_to_str :: "(uuid \<Rightarrow> string) \<Rightarrow> event_type_id \<Rightarrow> string" where
  "event_type_id_to_str = id_to_str"

definition event_type_id_from_str :: "(string \<Rightarrow> 'x + uuid) \<Rightarrow> string \<Rightarrow> 'x + event_type_id" where
  "event_type_id_from_str = id_from_str"

definition event_type_accessors :: "event_type \<Rightarrow> event_type entity_view" where
  "event_type_accessors e = view_of (ety_id e) (ety_metadata e)"

definition event_type_entity_type :: string where
  "event_type_entity_type = ''EventType''"

interpretation event_type_persisted: persistent event_type_persist ety_id ety_metadata ety_metadata_update
  by unfold_locales (simp_all split: option.split)

section \<open>\<open>Stage\<close>\<close>

type_synonym stage_id = "stage typed_id"

definition stage_id_to_str :: "(uuid \<Rightarrow> string) \<Rightarrow> stage_id \<Rightarrow> string" where
  "stage_id_to_str = id_to_str"

definition stage_id_from_str :: "(string \<Rightarrow> 'x + uuid) \<Rightarrow> string \<Rightarrow> 'x + stage_id" where
  "stage_id_from_str = id_from_str"

definition stage_accessors :: "stage \<Rightarrow> stage entity_view" where
  "stage_accessors e = view_of (stg_id e) (stg_metadata e)"

definition stage_entity_type :: string where
  "stage_entity_type = ''Stage''"

interpretation stage_persisted: persistent stage_persist stg_id stg_metadata stg_metadata_update
  by unfold_locales (simp_all split: option.split)

section \<open>\<open>TagCategory\<close>\<close>

type_synonym tag_category_id = "tag_category typed_id"

definition tag_category_id_to_str :: "(uuid \<Rightarrow> string) \<Rightarrow> tag_category_id \<Rightarrow> string" where
  "tag_category_id_to_str = id_to_str"

definition tag_category_id_from_str :: "(string \<Rightarrow> 'x + uuid) \<Rightarrow> string \<Rightarrow> 'x + tag_category_id" where
  "tag_category_id_from_str = id_from_str"

definition tag_category_accessors :: "tag_category \<Rightarrow> tag_category entity_view" where
  "tag_category_accessors e = view_of (tct_id e) (tct_metadata e)"

definition tag_category_entity_type :: string where
  "tag_category_entity_type = ''TagCategory''"

interpretation tag_category_persisted: persistent tag_category_persist tct_id tct_metadata tct_metadata_update
  by unfold_locales (simp_all split: option.split)

section \<open>\<open>Tag\<close>\<close>

type_synonym tag_id = "tag typed_id"

definition tag_id_to_str :: "(uuid \<Rightarrow> string) \<Rightarrow> tag_id \<Rightarrow> string" where
  "tag_id_to_str = id_to_str"

definition tag_id_from_str :: "(string \<Rightarrow> 'x + uuid) \<Rightarrow> string \<Rightarrow> 'x + tag_id" where
  "tag_id_from_str = id_from_str"

definition tag_accessors :: "tag \<Rightarrow> tag entity_view" where
  "tag_accessors e = view_of (tgg_id e) (tgg_metadata e)"

definition tag_entity_type :: string where
  "tag_entity_type = ''Tag''"

interpretation tag_persisted: persistent tag_persist tgg_id tgg_metadata tgg_metadata_update
  by unfold_locales (simp_all split: option.split)

section \<open>\<open>Slot\<close>\<close>

type_synonym slot_id = "slot typed_id"

definition slot_id_to_str :: "(uuid \<Rightarrow> string) \<Rightarrow> slot_id \<Rightarrow> string" where
  "slot_id_to_str = id_to_str"

definition slot_id_from_str :: "(string \<Rightarrow> 'x + uuid) \<Rightarrow> string \<Rightarrow> 'x + slot_id" where
  "slot_id_from_str = id_from_str"

definition slot_accessors :: "slot \<Rightarrow> slot entity_view" where
  "slot_accessors e = view_of (slt_id e) (slt_metadata e)"

definition slot_entity_type :: string where
  "slot_entity_type = ''Slot''"

interpretation slot_persisted: persistent slot_persist slt_id slt_metadata slt_metadata_update
  by unfold_locales (simp_all split: option.split)

section \<open>\<open>Ticket\<close>\<close>

type_synonym ticket_id = "ticket typed_id"

definition ticket_id_to_str :: "(uuid \<Rightarrow> string) \<Rightarrow> ticket_id \<Rightarrow> string" where
  "ticket_id_to_str = id_to_str"

definition ticket_id_from_str :: "(string \<Rightarrow> 'x + uuid) \<Rightarrow> string \<Rightarrow> 'x + ticket_id" where
  "ticket_id_from_str = id_from_str"

definition ticket_accessors :: "ticket \<Rightarrow> ticket entity_view" where
  "ticket_accessors e = view_of (tkt_id e) (tkt_metadata e)"

definition ticket_entity_type :: string where
  "ticket_entity_type = ''Ticket''"

interpretation ticket_persisted: persistent ticket_persist tkt_id tkt_metadata tkt_metadata_update
  by unfold_locales (simp_all split: option.split)

section \<open>\<open>Mail\<close>\<close>

type_synonym mail_id = "mail typed_id"

definition mail_id_to_str :: "(uuid \<Rightarrow> string) \<Rightarrow> mail_id \<Rightarrow> string" where
  "mail_id_to_str = id_to_str"

definition mail_id_from_str :: "(string \<Rightarrow> 'x + uuid) \<Rightarrow> string \<Rightarrow> 'x + mail_id" where
  "mail_id_from_str = id_from_str"

definition mail_accessors :: "mail \<Rightarrow> mail entity_view" where
  "mail_accessors e = view_of (mal_id e) (mal_metadata e)"

definition mail_entity_type :: string where
  "mail_entity_type = ''Mail''"

interpretation mail_persisted: persistent mail_persist mal_id mal_metadata mal_metadata_update
  by unfold_locales (simp_all split: option.split)

section \<open>\<open>MailRegistration\<close>\<close>

type_synonym mail_registration_id = "mail_registration typed_id"

definition mail_registration_id_to_str :: "(uuid \<Rightarrow> string) \<Rightarrow> mail_registration_id \<Rightarrow> string" where
  "mail_registration_id_to_str = id_to_str"

definition mail_registration_id_from_str :: "(string \<Rightarrow> 'x + uuid) \<Rightarrow> string \<Rightarrow> 'x + mail_registration_id" where
  "mail_registration_id_from_str = id_from_str"

definition mail_registration_accessors :: "mail_registration \<Rightarrow> mail_registration entity_view" where
  "mail_registration_accessors e = view_of (mrg_id e) (mrg_metadata e)"

definition mail_registration_entity_type :: string where
  "mail_registration_entity_type = ''MailRegistration''"

interpretation mail_registration_persisted: persistent mail_registration_persist mrg_id mrg_metadata mrg_metadata_update
  by unfold_locales (simp_all split: option.split)

section \<open>\<open>MailSlot\<close>\<close>

type_synonym mail_slot_id = "mail_slot typed_id"

definition mail_slot_id_to_str :: "(uuid \<Rightarrow> string) \<Rightarrow> mail_slot_id \<Rightarrow> string" where
  "mail_slot_id_to_str = id_to_str"

definition mail_slot_id_from_str :: "(string \<Rightarrow> 'x + uuid) \<Rightarrow> string \<Rightarrow> 'x + mail_slot_id" where
  "mail_slot_id_from_str = id_from_str"

definition mail_slot_accessors :: "mail_slot \<Rightarrow> mail_slot entity_view" where
  "mail_slot_accessors e = view_of (msl_id e) (msl_metadata e)"

definition mail_slot_entity_type :: string where
  "mail_slot_entity_type = ''MailSlot''"

interpretation mail_slot_persisted: persistent mail_slot_persist msl_id msl_metadata msl_metadata_update
  by unfold_locales (simp_all split: option.split)

section \<open>\<open>TypeMail\<close>\<close>

type_synonym type_mail_id = "type_mail typed_id"

definition type_mail_id_to_str :: "(uuid \<Rightarrow> string) \<Rightarrow> type_mail_id \<Rightarrow> string" where
  "type_mail_id_to_str = id_to_str"

definition type_mail_id_from_str :: "(string \<Rightarrow> 'x + uuid) \<Rightarrow> string \<Rightarrow> 'x + type_mail_id" where
  "type_mail_id_from_str = id_from_str"

definition type_mail_accessors :: "type_mail \<Rightarrow> type_mail entity_view" where
  "type_mail_accessors e = view_of (tml_id e) (tml_metadata e)"

definition type_mail_entity_type :: string where
  "type_mail_entity_type = ''TypeMail''"

interpretation type_mail_persisted: persistent type_mail_persist tml_id tml_metadata tml_metadata_update
  by unfold_locales (simp_all split: option.split)

section \<open>\<open>LeadProvenance\<close>\<close>

type_synonym lead_provenance_id = "lead_provenance typed_id"

definition lead_provenance_id_to_str :: "(uuid \<Rightarrow> string) \<Rightarrow> lead_provenance_id \<Rightarrow> string" where
  "lead_provenance_id_to_str = id_to_str"

definition lead_provenance_id_from_str :: "(string \<Rightarrow> 'x + uuid) \<Rightarrow> string \<Rightarrow> 'x + lead_provenance_id" where
  "lead_provenance_id_from_str = id_from_str"

definition lead_provenance_accessors :: "lead_provenance \<Rightarrow> lead_provenance entity_view" where
  "lead_provenance_accessors e = view_of (lpv_id e) (lpv_metadata e)"

definition lead_provenance_entity_type :: string where
  "lead_provenance_entity_type = ''LeadProvenance''"

interpretation lead_provenance_persisted: persistent lead_provenance_persist lpv_id lpv_metadata lpv_metadata_update
  by unfold_locales (simp_all split: option.split)

section \<open>\<open>LeadProvenanceRegistration\<close>\<close>

type_synonym lead_provenance_registration_id = "lead_provenance_registration typed_id"

definition lead_provenance_registration_id_to_str :: "(uuid \<Rightarrow> string) \<Rightarrow> lead_provenance_registration_id \<Rightarrow> string" where
  "lead_provenance_registration_id_to_str = id_to_str"

definition lead_provenance_registration_id_from_str :: "(string \<Rightarrow> 'x + uuid) \<Rightarrow> string \<Rightarrow> 'x + lead_provenance_registration_id" where
  "lead_provenance_registration_id_from_str = id_from_str"

definition lead_provenance_registration_accessors :: "lead_provenance_registration \<Rightarrow> lead_provenance_registration entity_view" where
  "lead_provenance_registration_accessors e = view_of (lpr_id e) (lpr_metadata e)"

definition lead_provenance_registration_entity_type :: string where
  "lead_provenance_registration_entity_type = ''LeadProvenanceRegistration''"

interpretation lead_provenance_registration_persisted: persistent lead_provenance_registration_persist lpr_id lpr_metadata lpr_metadata_update
  by unfold_locales (simp_all split: option.split)

section \<open>\<open>LeadRequest\<close>\<close>

type_synonym lead_request_id = "lead_request typed_id"

definition lead_request_id_to_str :: "(uuid \<Rightarrow> string) \<Rightarrow> lead_request_id \<Rightarrow> string" where
  "lead_request_id_to_str = id_to_str"

definition lead_request_id_from_str :: "(string \<Rightarrow> 'x + uuid) \<Rightarrow> string \<Rightarrow> 'x + lead_request_id" where
  "lead_request_id_from_str = id_from_str"

definition lead_request_accessors :: "lead_request \<Rightarrow> lead_request entity_view" where
  "lead_request_accessors e = view_of (lqt_id e) (lqt_metadata e)"

definition lead_request_entity_type :: string where
  "lead_request_entity_type = ''LeadRequest''"

interpretation lead_request_persisted: persistent lead_request_persist lqt_id lqt_metadata lqt_metadata_update
  by unfold_locales (simp_all split: option.split)

section \<open>\<open>LeadRule\<close>\<close>

type_synonym lead_rule_id = "lead_rule typed_id"

definition lead_rule_id_to_str :: "(uuid \<Rightarrow> string) \<Rightarrow> lead_rule_id \<Rightarrow> string" where
  "lead_rule_id_to_str = id_to_str"

definition lead_rule_id_from_str :: "(string \<Rightarrow> 'x + uuid) \<Rightarrow> string \<Rightarrow> 'x + lead_rule_id" where
  "lead_rule_id_from_str = id_from_str"

definition lead_rule_accessors :: "lead_rule \<Rightarrow> lead_rule entity_view" where
  "lead_rule_accessors e = view_of (lru_id e) (lru_metadata e)"

definition lead_rule_entity_type :: string where
  "lead_rule_entity_type = ''LeadRule''"

interpretation lead_rule_persisted: persistent lead_rule_persist lru_id lru_metadata lru_metadata_update
  by unfold_locales (simp_all split: option.split)

section \<open>\<open>LeadRulePredicate\<close>\<close>

type_synonym lead_rule_predicate_id = "lead_rule_predicate typed_id"

definition lead_rule_predicate_id_to_str :: "(uuid \<Rightarrow> string) \<Rightarrow> lead_rule_predicate_id \<Rightarrow> string" where
  "lead_rule_predicate_id_to_str = id_to_str"

definition lead_rule_predicate_id_from_str :: "(string \<Rightarrow> 'x + uuid) \<Rightarrow> string \<Rightarrow> 'x + lead_rule_predicate_id" where
  "lead_rule_predicate_id_from_str = id_from_str"

definition lead_rule_predicate_accessors :: "lead_rule_predicate \<Rightarrow> lead_rule_predicate entity_view" where
  "lead_rule_predicate_accessors e = view_of (lrp_id e) (lrp_metadata e)"

definition lead_rule_predicate_entity_type :: string where
  "lead_rule_predicate_entity_type = ''LeadRulePredicate''"

interpretation lead_rule_predicate_persisted: persistent lead_rule_predicate_persist lrp_id lrp_metadata lrp_metadata_update
  by unfold_locales (simp_all split: option.split)

section \<open>\<open>Registration\<close>\<close>

type_synonym registration_id = "registration typed_id"

definition registration_id_to_str :: "(uuid \<Rightarrow> string) \<Rightarrow> registration_id \<Rightarrow> string" where
  "registration_id_to_str = id_to_str"

definition registration_id_from_str :: "(string \<Rightarrow> 'x + uuid) \<Rightarrow> string \<Rightarrow> 'x + registration_id" where
  "registration_id_from_str = id_from_str"

definition registration_accessors :: "registration \<Rightarrow> registration entity_view" where
  "registration_accessors e = view_of (rgn_id e) (rgn_metadata e)"

definition registration_entity_type :: string where
  "registration_entity_type = ''Registration''"

interpretation registration_persisted: persistent registration_persist rgn_id rgn_metadata rgn_metadata_update
  by unfold_locales (simp_all split: option.split)

section \<open>\<open>RegistrationAnswer\<close>\<close>

type_synonym registration_answer_id = "registration_answer typed_id"

definition registration_answer_id_to_str :: "(uuid \<Rightarrow> string) \<Rightarrow> registration_answer_id \<Rightarrow> string" where
  "registration_answer_id_to_str = id_to_str"

definition registration_answer_id_from_str :: "(string \<Rightarrow> 'x + uuid) \<Rightarrow> string \<Rightarrow> 'x + registration_answer_id" where
  "registration_answer_id_from_str = id_from_str"

definition registration_answer_accessors :: "registration_answer \<Rightarrow> registration_answer entity_view" where
  "registration_answer_accessors e = view_of (ran_id e) (ran_metadata e)"

definition registration_answer_entity_type :: string where
  "registration_answer_entity_type = ''RegistrationAnswer''"

interpretation registration_answer_persisted: persistent registration_answer_persist ran_id ran_metadata ran_metadata_update
  by unfold_locales (simp_all split: option.split)

section \<open>\<open>RegistrationQuestion\<close>\<close>

type_synonym registration_question_id = "registration_question typed_id"

definition registration_question_id_to_str :: "(uuid \<Rightarrow> string) \<Rightarrow> registration_question_id \<Rightarrow> string" where
  "registration_question_id_to_str = id_to_str"

definition registration_question_id_from_str :: "(string \<Rightarrow> 'x + uuid) \<Rightarrow> string \<Rightarrow> 'x + registration_question_id" where
  "registration_question_id_from_str = id_from_str"

definition registration_question_accessors :: "registration_question \<Rightarrow> registration_question entity_view" where
  "registration_question_accessors e = view_of (rqn_id e) (rqn_metadata e)"

definition registration_question_entity_type :: string where
  "registration_question_entity_type = ''RegistrationQuestion''"

interpretation registration_question_persisted: persistent registration_question_persist rqn_id rqn_metadata rqn_metadata_update
  by unfold_locales (simp_all split: option.split)

section \<open>\<open>Question\<close>\<close>

type_synonym question_id = "question typed_id"

definition question_id_to_str :: "(uuid \<Rightarrow> string) \<Rightarrow> question_id \<Rightarrow> string" where
  "question_id_to_str = id_to_str"

definition question_id_from_str :: "(string \<Rightarrow> 'x + uuid) \<Rightarrow> string \<Rightarrow> 'x + question_id" where
  "question_id_from_str = id_from_str"

definition question_accessors :: "question \<Rightarrow> question entity_view" where
  "question_accessors e = view_of (qst_id e) (qst_metadata e)"

definition question_entity_type :: string where
  "question_entity_type = ''Question''"

interpretation question_persisted: persistent question_persist qst_id qst_metadata qst_metadata_update
  by unfold_locales (simp_all split: option.split)

section \<open>\<open>QuestionAnswer\<close>\<close>

type_synonym question_answer_id = "question_answer typed_id"

definition question_answer_id_to_str :: "(uuid \<Rightarrow> string) \<Rightarrow> question_answer_id \<Rightarrow> string" where
  "question_answer_id_to_str = id_to_str"

definition question_answer_id_from_str :: "(string \<Rightarrow> 'x + uuid) \<Rightarrow> string \<Rightarrow> 'x + question_answer_id" where
  "question_answer_id_from_str = id_from_str"

definition question_answer_accessors :: "question_answer \<Rightarrow> question_answer entity_view" where
  "question_answer_accessors e = view_of (qan_id e) (qan_metadata e)"

definition question_answer_entity_type :: string where
  "question_answer_entity_type = ''QuestionAnswer''"

interpretation question_answer_persisted: persistent question_answer_persist qan_id qan_metadata qan_metadata_update
  by unfold_locales (simp_all split: option.split)

section \<open>Entities together\<close>

text \<open>
  Deleting a row softly and restoring it through the hooks of the generic repository gives the
  row back unchanged when it was active: every field, the rest of its audit metadata included. In
  between the entity counts as deleted under its own id.
\<close>

lemma soft_delete_is_undone_by_restore:
  assumes "vw_is_active (event_accessors ev)" and "vw_is_active (registration_accessors r)"
    and "vw_is_active (booth_accessors b)" and "vw_is_active (mail_accessors m)" and "vw_is_active (lead_rule_accessors lr)"
  shows "event_persist env (Set_Deleted_At None) (event_persist env (Set_Deleted_At (Some ts)) ev) = ev \<and>
    registration_persist env (Set_Deleted_At None) (registration_persist env (Set_Deleted_At (Some ts)) r) = r \<and>
    booth_persist env (Set_Deleted_At None) (booth_persist env (Set_Deleted_At (Some ts)) b) = b \<and>
    mail_persist env (Set_Deleted_At None) (mail_persist env (Set_Deleted_At (Some ts)) m) = m \<and>
    lead_rule_persist env (Set_Deleted_At None) (lead_rule_persist env (Set_Deleted_At (Some ts)) lr) = lr \<and>
    vw_is_deleted (registration_accessors (registration_persist env (Set_Deleted_At (Some ts)) r)) \<and>
    vw_id (registration_accessors (registration_persist env (Set_Deleted_At (Some ts)) r)) = rgn_id r"
  using assms registration_persisted.deleted_view [OF refl, of env ts r]
  by (simp add: event_persisted.delete_then_restore registration_persisted.delete_then_restore
      booth_persisted.delete_then_restore mail_persisted.delete_then_restore lead_rule_persisted.delete_then_restore
      event_accessors_def registration_accessors_def booth_accessors_def mail_accessors_def lead_rule_accessors_def del: event_persist.simps registration_persist.simps booth_persist.simps mail_persist.simps lead_rule_persist.simps)

definition ex_hook_env :: entity_env where
  "ex_hook_env = \<lparr>en_uuid = (\<lambda>_. None), en_time = (\<lambda>_. None), en_decimal = (\<lambda>_. None)\<rparr>"

definition ex_event_entity :: event where
  "ex_event_entity = event_new 1 ''Fair'' 2 Kanban_Normal 1000 2000 ''UTC'' False 0 True 10 Badge_A6 True"

definition ex_registration_entity :: registration where
  "ex_registration_entity = registration_new 3 1 ''Ada'' ''ada'' Reg_Open True ''b3''"

definition ex_booth_entity :: booth where
  "ex_booth_entity = booth_new 4 1 5 ''A1'' Booth_Available False"

definition ex_mail_entity :: mail where
  "ex_mail_entity = mail_new 6 1 2 Unit_Days Interval_BeforeEvent Channel_Mail False"

definition ex_rule_entity :: lead_rule where
  "ex_rule_entity = lead_rule_new 7 ''all'' Basis_Attendee True False False True"

lemmas ex_entity_defs = ex_event_entity_def ex_registration_entity_def ex_booth_entity_def ex_mail_entity_def
  ex_rule_entity_def event_new_def registration_new_def booth_new_def mail_new_def lead_rule_new_def
  event_accessors_def registration_accessors_def booth_accessors_def mail_accessors_def lead_rule_accessors_def
  view_of_def metadata_default_def

lemma soft_delete_is_undone_by_restore_witness:
  "event_persist ex_hook_env (Set_Deleted_At None) (event_persist ex_hook_env (Set_Deleted_At (Some 9)) ex_event_entity) = ex_event_entity \<and>
   registration_persist ex_hook_env (Set_Deleted_At None)
     (registration_persist ex_hook_env (Set_Deleted_At (Some 9)) ex_registration_entity) = ex_registration_entity \<and>
   booth_persist ex_hook_env (Set_Deleted_At None) (booth_persist ex_hook_env (Set_Deleted_At (Some 9)) ex_booth_entity) = ex_booth_entity \<and>
   mail_persist ex_hook_env (Set_Deleted_At None) (mail_persist ex_hook_env (Set_Deleted_At (Some 9)) ex_mail_entity) = ex_mail_entity \<and>
   lead_rule_persist ex_hook_env (Set_Deleted_At None)
     (lead_rule_persist ex_hook_env (Set_Deleted_At (Some 9)) ex_rule_entity) = ex_rule_entity \<and>
   vw_is_deleted (registration_accessors (registration_persist ex_hook_env (Set_Deleted_At (Some 9)) ex_registration_entity)) \<and>
   vw_id (registration_accessors (registration_persist ex_hook_env (Set_Deleted_At (Some 9)) ex_registration_entity)) =
     rgn_id ex_registration_entity"
  by (rule soft_delete_is_undone_by_restore; simp only: ex_entity_defs; simp)

end
