(* ===== verification/Exports.thy ===== *)
theory Exports
  imports Accessors Metadata
begin

text \<open>
  The types the module exports to others, \<open>exports/types.rs\<close> and \<open>exports/events.rs\<close>: for each
  entity an id, a data transfer object, a summary, a reference, and the three events that announce
  its creation, update and deletion.
\<close>

section \<open>Ids\<close>

datatype 'e export_id = Export_Id (inner_id: uuid)

text \<open>A reference carries an id; an event the id, the object it is about, and when it occurred.\<close>

datatype 'i export_ref = Export_Ref (ref_id: 'i)

datatype ('i, 'd) export_event =
    Created_Event 'i 'd timestamp
  | Updated_Event 'i 'd timestamp
  | Deleted_Event 'i timestamp

section \<open>\<open>BoothCategory\<close>\<close>

type_synonym booth_category_export_id = "booth_category export_id"

definition booth_category_export_id_new :: "uuid \<Rightarrow> booth_category_export_id" where
  "booth_category_export_id_new = Export_Id"

definition booth_category_export_id_into_inner :: "booth_category_export_id \<Rightarrow> uuid" where
  "booth_category_export_id_into_inner = inner_id"

record booth_category_export =
  bctx_id :: booth_category_export_id
  bctx_name :: string
  bctx_description :: "string option"
  bctx_product_id :: "uuid option"
  bctx_price :: "decimal option"
  bctx_metadata :: json

definition booth_category_export_fields :: "(string \<times> string) list" where
  "booth_category_export_fields =
     [(''id'', ''BoothCategoryId''), (''name'', ''String''),
      (''description'', ''Option<String>''), (''product_id'', ''Option<Uuid>''),
      (''price'', ''Option<Decimal>''), (''metadata'', ''serde_json::Value'')]"

record booth_category_export_summary =
  bctxs_id :: booth_category_export_id
  bctxs_name :: string

definition booth_category_export_summary_fields :: "(string \<times> string) list" where
  "booth_category_export_summary_fields =
     [(''id'', ''BoothCategoryId''), (''name'', ''String'')]"

type_synonym booth_category_export_ref = "booth_category_export_id export_ref"

type_synonym booth_category_export_event = "(booth_category_export_id, booth_category_export) export_event"

section \<open>\<open>Booth\<close>\<close>

type_synonym booth_export_id = "booth export_id"

definition booth_export_id_new :: "uuid \<Rightarrow> booth_export_id" where
  "booth_export_id_new = Export_Id"

definition booth_export_id_into_inner :: "booth_export_id \<Rightarrow> uuid" where
  "booth_export_id_into_inner = inner_id"

record booth_export =
  bthx_id :: booth_export_id
  bthx_event_id :: uuid
  bthx_booth_category_id :: uuid
  bthx_name :: string
  bthx_state :: event_booth_state
  bthx_partner_id :: "uuid option"
  bthx_contact_name :: "string option"
  bthx_contact_email :: "string option"
  bthx_contact_phone :: "string option"
  bthx_sale_order_line_id :: "uuid option"
  bthx_is_paid :: bool
  bthx_metadata :: json

definition booth_export_fields :: "(string \<times> string) list" where
  "booth_export_fields =
     [(''id'', ''BoothId''), (''event_id'', ''Uuid''), (''booth_category_id'', ''Uuid''),
      (''name'', ''String''), (''state'', ''EventBoothState''),
      (''partner_id'', ''Option<Uuid>''), (''contact_name'', ''Option<String>''),
      (''contact_email'', ''Option<String>''), (''contact_phone'', ''Option<String>''),
      (''sale_order_line_id'', ''Option<Uuid>''), (''is_paid'', ''bool''),
      (''metadata'', ''serde_json::Value'')]"

record booth_export_summary =
  bthxs_id :: booth_export_id
  bthxs_name :: string
  bthxs_contact_name :: "string option"

definition booth_export_summary_fields :: "(string \<times> string) list" where
  "booth_export_summary_fields =
     [(''id'', ''BoothId''), (''name'', ''String''), (''contact_name'', ''Option<String>'')]"

type_synonym booth_export_ref = "booth_export_id export_ref"

type_synonym booth_export_event = "(booth_export_id, booth_export) export_event"

section \<open>\<open>TypeBooth\<close>\<close>

type_synonym type_booth_export_id = "type_booth export_id"

definition type_booth_export_id_new :: "uuid \<Rightarrow> type_booth_export_id" where
  "type_booth_export_id_new = Export_Id"

definition type_booth_export_id_into_inner :: "type_booth_export_id \<Rightarrow> uuid" where
  "type_booth_export_id_into_inner = inner_id"

record type_booth_export =
  tbtx_id :: type_booth_export_id
  tbtx_event_type_id :: uuid
  tbtx_booth_category_id :: uuid
  tbtx_name :: string
  tbtx_metadata :: json

definition type_booth_export_fields :: "(string \<times> string) list" where
  "type_booth_export_fields =
     [(''id'', ''TypeBoothId''), (''event_type_id'', ''Uuid''),
      (''booth_category_id'', ''Uuid''), (''name'', ''String''),
      (''metadata'', ''serde_json::Value'')]"

record type_booth_export_summary =
  tbtxs_id :: type_booth_export_id
  tbtxs_name :: string

definition type_booth_export_summary_fields :: "(string \<times> string) list" where
  "type_booth_export_summary_fields =
     [(''id'', ''TypeBoothId''), (''name'', ''String'')]"

type_synonym type_booth_export_ref = "type_booth_export_id export_ref"

type_synonym type_booth_export_event = "(type_booth_export_id, type_booth_export) export_event"

section \<open>\<open>BoothBooking\<close>\<close>

type_synonym booth_booking_export_id = "booth_booking export_id"

definition booth_booking_export_id_new :: "uuid \<Rightarrow> booth_booking_export_id" where
  "booth_booking_export_id_new = Export_Id"

definition booth_booking_export_id_into_inner :: "booth_booking_export_id \<Rightarrow> uuid" where
  "booth_booking_export_id_into_inner = inner_id"

record booth_booking_export =
  bbkx_id :: booth_booking_export_id
  bbkx_event_booth_id :: uuid
  bbkx_sale_order_line_id :: "uuid option"
  bbkx_status :: event_booth_booking_status
  bbkx_partner_id :: "uuid option"
  bbkx_contact_name :: "string option"
  bbkx_contact_email :: "string option"
  bbkx_contact_phone :: "string option"
  bbkx_metadata :: json

definition booth_booking_export_fields :: "(string \<times> string) list" where
  "booth_booking_export_fields =
     [(''id'', ''BoothBookingId''), (''event_booth_id'', ''Uuid''),
      (''sale_order_line_id'', ''Option<Uuid>''), (''status'', ''EventBoothBookingStatus''),
      (''partner_id'', ''Option<Uuid>''), (''contact_name'', ''Option<String>''),
      (''contact_email'', ''Option<String>''), (''contact_phone'', ''Option<String>''),
      (''metadata'', ''serde_json::Value'')]"

record booth_booking_export_summary =
  bbkxs_id :: booth_booking_export_id
  bbkxs_status :: event_booth_booking_status
  bbkxs_contact_name :: "string option"

definition booth_booking_export_summary_fields :: "(string \<times> string) list" where
  "booth_booking_export_summary_fields =
     [(''id'', ''BoothBookingId''), (''status'', ''EventBoothBookingStatus''),
      (''contact_name'', ''Option<String>'')]"

type_synonym booth_booking_export_ref = "booth_booking_export_id export_ref"

type_synonym booth_booking_export_event = "(booth_booking_export_id, booth_booking_export) export_event"

section \<open>\<open>Event\<close>\<close>

type_synonym event_export_id = "event export_id"

definition event_export_id_new :: "uuid \<Rightarrow> event_export_id" where
  "event_export_id_new = Export_Id"

definition event_export_id_into_inner :: "event_export_id \<Rightarrow> uuid" where
  "event_export_id_into_inner = inner_id"

record event_export =
  evtx_id :: event_export_id
  evtx_name :: string
  evtx_event_type_id :: "uuid option"
  evtx_stage_id :: uuid
  evtx_kanban_state :: event_kanban_state
  evtx_date_begin :: timestamp
  evtx_date_end :: timestamp
  evtx_date_tz :: string
  evtx_is_multi_slots :: bool
  evtx_event_slot_count :: int
  evtx_seats_limited :: bool
  evtx_seats_max :: int
  evtx_address_id :: "uuid option"
  evtx_organizer_id :: "uuid option"
  evtx_user_id :: "uuid option"
  evtx_event_url :: "string option"
  evtx_badge_format :: event_badge_format
  evtx_is_published :: bool
  evtx_date_publish :: "timestamp option"
  evtx_metadata :: json

definition event_export_fields :: "(string \<times> string) list" where
  "event_export_fields =
     [(''id'', ''EventId''), (''name'', ''String''), (''event_type_id'', ''Option<Uuid>''),
      (''stage_id'', ''Uuid''), (''kanban_state'', ''EventKanbanState''),
      (''date_begin'', ''DateTime<Utc>''), (''date_end'', ''DateTime<Utc>''),
      (''date_tz'', ''String''), (''is_multi_slots'', ''bool''),
      (''event_slot_count'', ''i32''), (''seats_limited'', ''bool''), (''seats_max'', ''i32''),
      (''address_id'', ''Option<Uuid>''), (''organizer_id'', ''Option<Uuid>''),
      (''user_id'', ''Option<Uuid>''), (''event_url'', ''Option<String>''),
      (''badge_format'', ''EventBadgeFormat''), (''is_published'', ''bool''),
      (''date_publish'', ''Option<DateTime<Utc>>''), (''metadata'', ''serde_json::Value'')]"

record event_export_summary =
  evtxs_id :: event_export_id
  evtxs_name :: string

definition event_export_summary_fields :: "(string \<times> string) list" where
  "event_export_summary_fields =
     [(''id'', ''EventId''), (''name'', ''String'')]"

type_synonym event_export_ref = "event_export_id export_ref"

type_synonym event_export_event = "(event_export_id, event_export) export_event"

section \<open>\<open>EventType\<close>\<close>

type_synonym event_type_export_id = "event_type export_id"

definition event_type_export_id_new :: "uuid \<Rightarrow> event_type_export_id" where
  "event_type_export_id_new = Export_Id"

definition event_type_export_id_into_inner :: "event_type_export_id \<Rightarrow> uuid" where
  "event_type_export_id_into_inner = inner_id"

record event_type_export =
  etyx_id :: event_type_export_id
  etyx_name :: string
  etyx_description :: "string option"
  etyx_seats_limited :: bool
  etyx_seats_max :: int
  etyx_default_date_tz :: string
  etyx_is_multi_slots :: bool
  etyx_metadata :: json

definition event_type_export_fields :: "(string \<times> string) list" where
  "event_type_export_fields =
     [(''id'', ''EventTypeId''), (''name'', ''String''), (''description'', ''Option<String>''),
      (''seats_limited'', ''bool''), (''seats_max'', ''i32''),
      (''default_date_tz'', ''String''), (''is_multi_slots'', ''bool''),
      (''metadata'', ''serde_json::Value'')]"

record event_type_export_summary =
  etyxs_id :: event_type_export_id
  etyxs_name :: string

definition event_type_export_summary_fields :: "(string \<times> string) list" where
  "event_type_export_summary_fields =
     [(''id'', ''EventTypeId''), (''name'', ''String'')]"

type_synonym event_type_export_ref = "event_type_export_id export_ref"

type_synonym event_type_export_event = "(event_type_export_id, event_type_export) export_event"

section \<open>\<open>Stage\<close>\<close>

type_synonym stage_export_id = "stage export_id"

definition stage_export_id_new :: "uuid \<Rightarrow> stage_export_id" where
  "stage_export_id_new = Export_Id"

definition stage_export_id_into_inner :: "stage_export_id \<Rightarrow> uuid" where
  "stage_export_id_into_inner = inner_id"

record stage_export =
  stgx_id :: stage_export_id
  stgx_name :: string
  stgx_sequence :: int
  stgx_fold :: bool
  stgx_pipe_end :: bool
  stgx_metadata :: json

definition stage_export_fields :: "(string \<times> string) list" where
  "stage_export_fields =
     [(''id'', ''StageId''), (''name'', ''String''), (''sequence'', ''i32''),
      (''fold'', ''bool''), (''pipe_end'', ''bool''), (''metadata'', ''serde_json::Value'')]"

record stage_export_summary =
  stgxs_id :: stage_export_id
  stgxs_name :: string

definition stage_export_summary_fields :: "(string \<times> string) list" where
  "stage_export_summary_fields =
     [(''id'', ''StageId''), (''name'', ''String'')]"

type_synonym stage_export_ref = "stage_export_id export_ref"

type_synonym stage_export_event = "(stage_export_id, stage_export) export_event"

section \<open>\<open>TagCategory\<close>\<close>

type_synonym tag_category_export_id = "tag_category export_id"

definition tag_category_export_id_new :: "uuid \<Rightarrow> tag_category_export_id" where
  "tag_category_export_id_new = Export_Id"

definition tag_category_export_id_into_inner :: "tag_category_export_id \<Rightarrow> uuid" where
  "tag_category_export_id_into_inner = inner_id"

record tag_category_export =
  tctx_id :: tag_category_export_id
  tctx_name :: string
  tctx_metadata :: json

definition tag_category_export_fields :: "(string \<times> string) list" where
  "tag_category_export_fields =
     [(''id'', ''TagCategoryId''), (''name'', ''String''), (''metadata'', ''serde_json::Value'')]"

record tag_category_export_summary =
  tctxs_id :: tag_category_export_id
  tctxs_name :: string

definition tag_category_export_summary_fields :: "(string \<times> string) list" where
  "tag_category_export_summary_fields =
     [(''id'', ''TagCategoryId''), (''name'', ''String'')]"

type_synonym tag_category_export_ref = "tag_category_export_id export_ref"

type_synonym tag_category_export_event = "(tag_category_export_id, tag_category_export) export_event"

section \<open>\<open>Tag\<close>\<close>

type_synonym tag_export_id = "tag export_id"

definition tag_export_id_new :: "uuid \<Rightarrow> tag_export_id" where
  "tag_export_id_new = Export_Id"

definition tag_export_id_into_inner :: "tag_export_id \<Rightarrow> uuid" where
  "tag_export_id_into_inner = inner_id"

record tag_export =
  tggx_id :: tag_export_id
  tggx_name :: string
  tggx_category_id :: "uuid option"
  tggx_color :: "string option"
  tggx_metadata :: json

definition tag_export_fields :: "(string \<times> string) list" where
  "tag_export_fields =
     [(''id'', ''TagId''), (''name'', ''String''), (''category_id'', ''Option<Uuid>''),
      (''color'', ''Option<String>''), (''metadata'', ''serde_json::Value'')]"

record tag_export_summary =
  tggxs_id :: tag_export_id
  tggxs_name :: string

definition tag_export_summary_fields :: "(string \<times> string) list" where
  "tag_export_summary_fields =
     [(''id'', ''TagId''), (''name'', ''String'')]"

type_synonym tag_export_ref = "tag_export_id export_ref"

type_synonym tag_export_event = "(tag_export_id, tag_export) export_event"

section \<open>\<open>Slot\<close>\<close>

type_synonym slot_export_id = "slot export_id"

definition slot_export_id_new :: "uuid \<Rightarrow> slot_export_id" where
  "slot_export_id_new = Export_Id"

definition slot_export_id_into_inner :: "slot_export_id \<Rightarrow> uuid" where
  "slot_export_id_into_inner = inner_id"

record slot_export =
  sltx_id :: slot_export_id
  sltx_event_id :: uuid
  sltx_name :: string
  sltx_date_begin :: timestamp
  sltx_date_end :: "timestamp option"
  sltx_metadata :: json

definition slot_export_fields :: "(string \<times> string) list" where
  "slot_export_fields =
     [(''id'', ''SlotId''), (''event_id'', ''Uuid''), (''name'', ''String''),
      (''date_begin'', ''DateTime<Utc>''), (''date_end'', ''Option<DateTime<Utc>>''),
      (''metadata'', ''serde_json::Value'')]"

record slot_export_summary =
  sltxs_id :: slot_export_id
  sltxs_name :: string

definition slot_export_summary_fields :: "(string \<times> string) list" where
  "slot_export_summary_fields =
     [(''id'', ''SlotId''), (''name'', ''String'')]"

type_synonym slot_export_ref = "slot_export_id export_ref"

type_synonym slot_export_event = "(slot_export_id, slot_export) export_event"

section \<open>\<open>Ticket\<close>\<close>

type_synonym ticket_export_id = "ticket export_id"

definition ticket_export_id_new :: "uuid \<Rightarrow> ticket_export_id" where
  "ticket_export_id_new = Export_Id"

definition ticket_export_id_into_inner :: "ticket_export_id \<Rightarrow> uuid" where
  "ticket_export_id_into_inner = inner_id"

record ticket_export =
  tktx_id :: ticket_export_id
  tktx_event_id :: uuid
  tktx_name :: string
  tktx_seats_max :: int
  tktx_seats_max_per_order :: int
  tktx_start_sale_datetime :: "timestamp option"
  tktx_end_sale_datetime :: "timestamp option"
  tktx_product_id :: "uuid option"
  tktx_metadata :: json

definition ticket_export_fields :: "(string \<times> string) list" where
  "ticket_export_fields =
     [(''id'', ''TicketId''), (''event_id'', ''Uuid''), (''name'', ''String''),
      (''seats_max'', ''i32''), (''seats_max_per_order'', ''i32''),
      (''start_sale_datetime'', ''Option<DateTime<Utc>>''),
      (''end_sale_datetime'', ''Option<DateTime<Utc>>''), (''product_id'', ''Option<Uuid>''),
      (''metadata'', ''serde_json::Value'')]"

record ticket_export_summary =
  tktxs_id :: ticket_export_id
  tktxs_name :: string

definition ticket_export_summary_fields :: "(string \<times> string) list" where
  "ticket_export_summary_fields =
     [(''id'', ''TicketId''), (''name'', ''String'')]"

type_synonym ticket_export_ref = "ticket_export_id export_ref"

type_synonym ticket_export_event = "(ticket_export_id, ticket_export) export_event"

section \<open>\<open>Mail\<close>\<close>

type_synonym mail_export_id = "mail export_id"

definition mail_export_id_new :: "uuid \<Rightarrow> mail_export_id" where
  "mail_export_id_new = Export_Id"

definition mail_export_id_into_inner :: "mail_export_id \<Rightarrow> uuid" where
  "mail_export_id_into_inner = inner_id"

record mail_export =
  malx_id :: mail_export_id
  malx_event_id :: uuid
  malx_interval_nbr :: int
  malx_interval_unit :: event_interval_unit
  malx_interval_kind :: event_interval_kind
  malx_notification_channel :: event_notification_channel
  malx_scheduled_date :: "timestamp option"
  malx_mail_done :: bool
  malx_last_registration_id :: "uuid option"
  malx_template_ref :: "uuid option"
  malx_template_kind :: "string option"
  malx_error_datetime :: "timestamp option"
  malx_error_kind :: "event_mail_error_kind option"
  malx_metadata :: json

definition mail_export_fields :: "(string \<times> string) list" where
  "mail_export_fields =
     [(''id'', ''MailId''), (''event_id'', ''Uuid''), (''interval_nbr'', ''i32''),
      (''interval_unit'', ''EventIntervalUnit''), (''interval_kind'', ''EventIntervalKind''),
      (''notification_channel'', ''EventNotificationChannel''),
      (''scheduled_date'', ''Option<DateTime<Utc>>''), (''mail_done'', ''bool''),
      (''last_registration_id'', ''Option<Uuid>''), (''template_ref'', ''Option<Uuid>''),
      (''template_kind'', ''Option<String>''), (''error_datetime'', ''Option<DateTime<Utc>>''),
      (''error_kind'', ''Option<EventMailErrorKind>''), (''metadata'', ''serde_json::Value'')]"

record mail_export_summary =
  malxs_id :: mail_export_id

definition mail_export_summary_fields :: "(string \<times> string) list" where
  "mail_export_summary_fields =
     [(''id'', ''MailId'')]"

type_synonym mail_export_ref = "mail_export_id export_ref"

type_synonym mail_export_event = "(mail_export_id, mail_export) export_event"

section \<open>\<open>MailRegistration\<close>\<close>

type_synonym mail_registration_export_id = "mail_registration export_id"

definition mail_registration_export_id_new :: "uuid \<Rightarrow> mail_registration_export_id" where
  "mail_registration_export_id_new = Export_Id"

definition mail_registration_export_id_into_inner :: "mail_registration_export_id \<Rightarrow> uuid" where
  "mail_registration_export_id_into_inner = inner_id"

record mail_registration_export =
  mrgx_id :: mail_registration_export_id
  mrgx_scheduler_id :: uuid
  mrgx_registration_id :: uuid
  mrgx_scheduled_date :: "timestamp option"
  mrgx_mail_sent :: bool
  mrgx_outcome :: "string option"
  mrgx_metadata :: json

definition mail_registration_export_fields :: "(string \<times> string) list" where
  "mail_registration_export_fields =
     [(''id'', ''MailRegistrationId''), (''scheduler_id'', ''Uuid''),
      (''registration_id'', ''Uuid''), (''scheduled_date'', ''Option<DateTime<Utc>>''),
      (''mail_sent'', ''bool''), (''outcome'', ''Option<String>''),
      (''metadata'', ''serde_json::Value'')]"

record mail_registration_export_summary =
  mrgxs_id :: mail_registration_export_id

definition mail_registration_export_summary_fields :: "(string \<times> string) list" where
  "mail_registration_export_summary_fields =
     [(''id'', ''MailRegistrationId'')]"

type_synonym mail_registration_export_ref = "mail_registration_export_id export_ref"

type_synonym mail_registration_export_event = "(mail_registration_export_id, mail_registration_export) export_event"

section \<open>\<open>MailSlot\<close>\<close>

type_synonym mail_slot_export_id = "mail_slot export_id"

definition mail_slot_export_id_new :: "uuid \<Rightarrow> mail_slot_export_id" where
  "mail_slot_export_id_new = Export_Id"

definition mail_slot_export_id_into_inner :: "mail_slot_export_id \<Rightarrow> uuid" where
  "mail_slot_export_id_into_inner = inner_id"

record mail_slot_export =
  mslx_id :: mail_slot_export_id
  mslx_scheduler_id :: uuid
  mslx_slot_id :: uuid
  mslx_scheduled_date :: "timestamp option"
  mslx_mail_done :: bool
  mslx_last_registration_id :: "uuid option"
  mslx_metadata :: json

definition mail_slot_export_fields :: "(string \<times> string) list" where
  "mail_slot_export_fields =
     [(''id'', ''MailSlotId''), (''scheduler_id'', ''Uuid''), (''slot_id'', ''Uuid''),
      (''scheduled_date'', ''Option<DateTime<Utc>>''), (''mail_done'', ''bool''),
      (''last_registration_id'', ''Option<Uuid>''), (''metadata'', ''serde_json::Value'')]"

record mail_slot_export_summary =
  mslxs_id :: mail_slot_export_id

definition mail_slot_export_summary_fields :: "(string \<times> string) list" where
  "mail_slot_export_summary_fields =
     [(''id'', ''MailSlotId'')]"

type_synonym mail_slot_export_ref = "mail_slot_export_id export_ref"

type_synonym mail_slot_export_event = "(mail_slot_export_id, mail_slot_export) export_event"

section \<open>\<open>TypeMail\<close>\<close>

type_synonym type_mail_export_id = "type_mail export_id"

definition type_mail_export_id_new :: "uuid \<Rightarrow> type_mail_export_id" where
  "type_mail_export_id_new = Export_Id"

definition type_mail_export_id_into_inner :: "type_mail_export_id \<Rightarrow> uuid" where
  "type_mail_export_id_into_inner = inner_id"

record type_mail_export =
  tmlx_id :: type_mail_export_id
  tmlx_event_type_id :: uuid
  tmlx_interval_nbr :: int
  tmlx_interval_unit :: event_interval_unit
  tmlx_interval_kind :: event_interval_kind
  tmlx_notification_channel :: event_notification_channel
  tmlx_template_ref :: "uuid option"
  tmlx_template_kind :: "string option"
  tmlx_metadata :: json

definition type_mail_export_fields :: "(string \<times> string) list" where
  "type_mail_export_fields =
     [(''id'', ''TypeMailId''), (''event_type_id'', ''Uuid''), (''interval_nbr'', ''i32''),
      (''interval_unit'', ''EventIntervalUnit''), (''interval_kind'', ''EventIntervalKind''),
      (''notification_channel'', ''EventNotificationChannel''),
      (''template_ref'', ''Option<Uuid>''), (''template_kind'', ''Option<String>''),
      (''metadata'', ''serde_json::Value'')]"

record type_mail_export_summary =
  tmlxs_id :: type_mail_export_id

definition type_mail_export_summary_fields :: "(string \<times> string) list" where
  "type_mail_export_summary_fields =
     [(''id'', ''TypeMailId'')]"

type_synonym type_mail_export_ref = "type_mail_export_id export_ref"

type_synonym type_mail_export_event = "(type_mail_export_id, type_mail_export) export_event"

section \<open>\<open>LeadProvenance\<close>\<close>

type_synonym lead_provenance_export_id = "lead_provenance export_id"

definition lead_provenance_export_id_new :: "uuid \<Rightarrow> lead_provenance_export_id" where
  "lead_provenance_export_id_new = Export_Id"

definition lead_provenance_export_id_into_inner :: "lead_provenance_export_id \<Rightarrow> uuid" where
  "lead_provenance_export_id_into_inner = inner_id"

record lead_provenance_export =
  lpvx_id :: lead_provenance_export_id
  lpvx_rule_id :: uuid
  lpvx_event_id :: uuid
  lpvx_lead_id :: "uuid option"
  lpvx_group_key :: string
  lpvx_grouping :: event_lead_grouping
  lpvx_metadata :: json

definition lead_provenance_export_fields :: "(string \<times> string) list" where
  "lead_provenance_export_fields =
     [(''id'', ''LeadProvenanceId''), (''rule_id'', ''Uuid''), (''event_id'', ''Uuid''),
      (''lead_id'', ''Option<Uuid>''), (''group_key'', ''String''),
      (''grouping'', ''EventLeadGrouping''), (''metadata'', ''serde_json::Value'')]"

record lead_provenance_export_summary =
  lpvxs_id :: lead_provenance_export_id

definition lead_provenance_export_summary_fields :: "(string \<times> string) list" where
  "lead_provenance_export_summary_fields =
     [(''id'', ''LeadProvenanceId'')]"

type_synonym lead_provenance_export_ref = "lead_provenance_export_id export_ref"

type_synonym lead_provenance_export_event = "(lead_provenance_export_id, lead_provenance_export) export_event"

section \<open>\<open>LeadProvenanceRegistration\<close>\<close>

type_synonym lead_provenance_registration_export_id = "lead_provenance_registration export_id"

definition lead_provenance_registration_export_id_new :: "uuid \<Rightarrow> lead_provenance_registration_export_id" where
  "lead_provenance_registration_export_id_new = Export_Id"

definition lead_provenance_registration_export_id_into_inner :: "lead_provenance_registration_export_id \<Rightarrow> uuid" where
  "lead_provenance_registration_export_id_into_inner = inner_id"

record lead_provenance_registration_export =
  lprx_id :: lead_provenance_registration_export_id
  lprx_provenance_id :: uuid
  lprx_registration_id :: uuid
  lprx_metadata :: json

definition lead_provenance_registration_export_fields :: "(string \<times> string) list" where
  "lead_provenance_registration_export_fields =
     [(''id'', ''LeadProvenanceRegistrationId''), (''provenance_id'', ''Uuid''),
      (''registration_id'', ''Uuid''), (''metadata'', ''serde_json::Value'')]"

record lead_provenance_registration_export_summary =
  lprxs_id :: lead_provenance_registration_export_id

definition lead_provenance_registration_export_summary_fields :: "(string \<times> string) list" where
  "lead_provenance_registration_export_summary_fields =
     [(''id'', ''LeadProvenanceRegistrationId'')]"

type_synonym lead_provenance_registration_export_ref = "lead_provenance_registration_export_id export_ref"

type_synonym lead_provenance_registration_export_event = "(lead_provenance_registration_export_id, lead_provenance_registration_export) export_event"

section \<open>\<open>LeadRequest\<close>\<close>

type_synonym lead_request_export_id = "lead_request export_id"

definition lead_request_export_id_new :: "uuid \<Rightarrow> lead_request_export_id" where
  "lead_request_export_id_new = Export_Id"

definition lead_request_export_id_into_inner :: "lead_request_export_id \<Rightarrow> uuid" where
  "lead_request_export_id_into_inner = inner_id"

record lead_request_export =
  lqtx_id :: lead_request_export_id
  lqtx_event_id :: uuid
  lqtx_done :: bool
  lqtx_error_detail :: "string option"
  lqtx_claimed_at :: "timestamp option"
  lqtx_metadata :: json

definition lead_request_export_fields :: "(string \<times> string) list" where
  "lead_request_export_fields =
     [(''id'', ''LeadRequestId''), (''event_id'', ''Uuid''), (''done'', ''bool''),
      (''error_detail'', ''Option<String>''), (''claimed_at'', ''Option<DateTime<Utc>>''),
      (''metadata'', ''serde_json::Value'')]"

record lead_request_export_summary =
  lqtxs_id :: lead_request_export_id

definition lead_request_export_summary_fields :: "(string \<times> string) list" where
  "lead_request_export_summary_fields =
     [(''id'', ''LeadRequestId'')]"

type_synonym lead_request_export_ref = "lead_request_export_id export_ref"

type_synonym lead_request_export_event = "(lead_request_export_id, lead_request_export) export_event"

section \<open>\<open>LeadRule\<close>\<close>

type_synonym lead_rule_export_id = "lead_rule export_id"

definition lead_rule_export_id_new :: "uuid \<Rightarrow> lead_rule_export_id" where
  "lead_rule_export_id_new = Export_Id"

definition lead_rule_export_id_into_inner :: "lead_rule_export_id \<Rightarrow> uuid" where
  "lead_rule_export_id_into_inner = inner_id"

record lead_rule_export =
  lrux_id :: lead_rule_export_id
  lrux_name :: string
  lrux_event_id :: "uuid option"
  lrux_basis :: event_lead_basis
  lrux_on_create :: bool
  lrux_on_confirm :: bool
  lrux_on_done :: bool
  lrux_active :: bool
  lrux_metadata :: json

definition lead_rule_export_fields :: "(string \<times> string) list" where
  "lead_rule_export_fields =
     [(''id'', ''LeadRuleId''), (''name'', ''String''), (''event_id'', ''Option<Uuid>''),
      (''basis'', ''EventLeadBasis''), (''on_create'', ''bool''), (''on_confirm'', ''bool''),
      (''on_done'', ''bool''), (''active'', ''bool''), (''metadata'', ''serde_json::Value'')]"

record lead_rule_export_summary =
  lruxs_id :: lead_rule_export_id
  lruxs_name :: string

definition lead_rule_export_summary_fields :: "(string \<times> string) list" where
  "lead_rule_export_summary_fields =
     [(''id'', ''LeadRuleId''), (''name'', ''String'')]"

type_synonym lead_rule_export_ref = "lead_rule_export_id export_ref"

type_synonym lead_rule_export_event = "(lead_rule_export_id, lead_rule_export) export_event"

section \<open>\<open>LeadRulePredicate\<close>\<close>

type_synonym lead_rule_predicate_export_id = "lead_rule_predicate export_id"

definition lead_rule_predicate_export_id_new :: "uuid \<Rightarrow> lead_rule_predicate_export_id" where
  "lead_rule_predicate_export_id_new = Export_Id"

definition lead_rule_predicate_export_id_into_inner :: "lead_rule_predicate_export_id \<Rightarrow> uuid" where
  "lead_rule_predicate_export_id_into_inner = inner_id"

record lead_rule_predicate_export =
  lrpx_id :: lead_rule_predicate_export_id
  lrpx_rule_id :: uuid
  lrpx_axis :: event_lead_predicate_axis
  lrpx_question_id :: "uuid option"
  lrpx_value_ids :: json
  lrpx_metadata :: json

definition lead_rule_predicate_export_fields :: "(string \<times> string) list" where
  "lead_rule_predicate_export_fields =
     [(''id'', ''LeadRulePredicateId''), (''rule_id'', ''Uuid''),
      (''axis'', ''EventLeadPredicateAxis''), (''question_id'', ''Option<Uuid>''),
      (''value_ids'', ''serde_json::Value''), (''metadata'', ''serde_json::Value'')]"

record lead_rule_predicate_export_summary =
  lrpxs_id :: lead_rule_predicate_export_id

definition lead_rule_predicate_export_summary_fields :: "(string \<times> string) list" where
  "lead_rule_predicate_export_summary_fields =
     [(''id'', ''LeadRulePredicateId'')]"

type_synonym lead_rule_predicate_export_ref = "lead_rule_predicate_export_id export_ref"

type_synonym lead_rule_predicate_export_event = "(lead_rule_predicate_export_id, lead_rule_predicate_export) export_event"

section \<open>\<open>Registration\<close>\<close>

type_synonym registration_export_id = "registration export_id"

definition registration_export_id_new :: "uuid \<Rightarrow> registration_export_id" where
  "registration_export_id_new = Export_Id"

definition registration_export_id_into_inner :: "registration_export_id \<Rightarrow> uuid" where
  "registration_export_id_into_inner = inner_id"

record registration_export =
  rgnx_id :: registration_export_id
  rgnx_event_id :: uuid
  rgnx_event_slot_id :: "uuid option"
  rgnx_event_ticket_id :: "uuid option"
  rgnx_name :: string
  rgnx_email :: string
  rgnx_phone :: "string option"
  rgnx_company_name :: "string option"
  rgnx_partner_id :: "uuid option"
  rgnx_state :: event_registration_state
  rgnx_date_closed :: "timestamp option"
  rgnx_sale_order_id :: "uuid option"
  rgnx_sale_order_state :: "event_sale_order_state option"
  rgnx_sale_status :: "event_sale_status option"
  rgnx_active :: bool
  rgnx_barcode :: string
  rgnx_metadata :: json

definition registration_export_fields :: "(string \<times> string) list" where
  "registration_export_fields =
     [(''id'', ''RegistrationId''), (''event_id'', ''Uuid''),
      (''event_slot_id'', ''Option<Uuid>''), (''event_ticket_id'', ''Option<Uuid>''),
      (''name'', ''String''), (''email'', ''String''), (''phone'', ''Option<String>''),
      (''company_name'', ''Option<String>''), (''partner_id'', ''Option<Uuid>''),
      (''state'', ''EventRegistrationState''), (''date_closed'', ''Option<DateTime<Utc>>''),
      (''sale_order_id'', ''Option<Uuid>''),
      (''sale_order_state'', ''Option<EventSaleOrderState>''),
      (''sale_status'', ''Option<EventSaleStatus>''), (''active'', ''bool''),
      (''barcode'', ''String''), (''metadata'', ''serde_json::Value'')]"

record registration_export_summary =
  rgnxs_id :: registration_export_id
  rgnxs_name :: string
  rgnxs_email :: string
  rgnxs_company_name :: "string option"

definition registration_export_summary_fields :: "(string \<times> string) list" where
  "registration_export_summary_fields =
     [(''id'', ''RegistrationId''), (''name'', ''String''), (''email'', ''String''),
      (''company_name'', ''Option<String>'')]"

type_synonym registration_export_ref = "registration_export_id export_ref"

type_synonym registration_export_event = "(registration_export_id, registration_export) export_event"

section \<open>\<open>RegistrationAnswer\<close>\<close>

type_synonym registration_answer_export_id = "registration_answer export_id"

definition registration_answer_export_id_new :: "uuid \<Rightarrow> registration_answer_export_id" where
  "registration_answer_export_id_new = Export_Id"

definition registration_answer_export_id_into_inner :: "registration_answer_export_id \<Rightarrow> uuid" where
  "registration_answer_export_id_into_inner = inner_id"

record registration_answer_export =
  ranx_id :: registration_answer_export_id
  ranx_registration_id :: uuid
  ranx_question_id :: uuid
  ranx_value_text :: "string option"
  ranx_value_answer_id :: "uuid option"
  ranx_metadata :: json

definition registration_answer_export_fields :: "(string \<times> string) list" where
  "registration_answer_export_fields =
     [(''id'', ''RegistrationAnswerId''), (''registration_id'', ''Uuid''),
      (''question_id'', ''Uuid''), (''value_text'', ''Option<String>''),
      (''value_answer_id'', ''Option<Uuid>''), (''metadata'', ''serde_json::Value'')]"

record registration_answer_export_summary =
  ranxs_id :: registration_answer_export_id

definition registration_answer_export_summary_fields :: "(string \<times> string) list" where
  "registration_answer_export_summary_fields =
     [(''id'', ''RegistrationAnswerId'')]"

type_synonym registration_answer_export_ref = "registration_answer_export_id export_ref"

type_synonym registration_answer_export_event = "(registration_answer_export_id, registration_answer_export) export_event"

section \<open>\<open>RegistrationQuestion\<close>\<close>

type_synonym registration_question_export_id = "registration_question export_id"

definition registration_question_export_id_new :: "uuid \<Rightarrow> registration_question_export_id" where
  "registration_question_export_id_new = Export_Id"

definition registration_question_export_id_into_inner :: "registration_question_export_id \<Rightarrow> uuid" where
  "registration_question_export_id_into_inner = inner_id"

record registration_question_export =
  rqnx_id :: registration_question_export_id
  rqnx_event_id :: "uuid option"
  rqnx_event_type_id :: "uuid option"
  rqnx_question_id :: uuid
  rqnx_sequence :: int
  rqnx_metadata :: json

definition registration_question_export_fields :: "(string \<times> string) list" where
  "registration_question_export_fields =
     [(''id'', ''RegistrationQuestionId''), (''event_id'', ''Option<Uuid>''),
      (''event_type_id'', ''Option<Uuid>''), (''question_id'', ''Uuid''),
      (''sequence'', ''i32''), (''metadata'', ''serde_json::Value'')]"

record registration_question_export_summary =
  rqnxs_id :: registration_question_export_id

definition registration_question_export_summary_fields :: "(string \<times> string) list" where
  "registration_question_export_summary_fields =
     [(''id'', ''RegistrationQuestionId'')]"

type_synonym registration_question_export_ref = "registration_question_export_id export_ref"

type_synonym registration_question_export_event = "(registration_question_export_id, registration_question_export) export_event"

section \<open>\<open>Question\<close>\<close>

type_synonym question_export_id = "question export_id"

definition question_export_id_new :: "uuid \<Rightarrow> question_export_id" where
  "question_export_id_new = Export_Id"

definition question_export_id_into_inner :: "question_export_id \<Rightarrow> uuid" where
  "question_export_id_into_inner = inner_id"

record question_export =
  qstx_id :: question_export_id
  qstx_question :: string
  qstx_question_kind :: event_question_kind
  qstx_is_default :: bool
  qstx_is_reusable :: bool
  qstx_once_per_order :: bool
  qstx_metadata :: json

definition question_export_fields :: "(string \<times> string) list" where
  "question_export_fields =
     [(''id'', ''QuestionId''), (''question'', ''String''),
      (''question_kind'', ''EventQuestionKind''), (''is_default'', ''bool''),
      (''is_reusable'', ''bool''), (''once_per_order'', ''bool''),
      (''metadata'', ''serde_json::Value'')]"

record question_export_summary =
  qstxs_id :: question_export_id

definition question_export_summary_fields :: "(string \<times> string) list" where
  "question_export_summary_fields =
     [(''id'', ''QuestionId'')]"

type_synonym question_export_ref = "question_export_id export_ref"

type_synonym question_export_event = "(question_export_id, question_export) export_event"

section \<open>\<open>QuestionAnswer\<close>\<close>

type_synonym question_answer_export_id = "question_answer export_id"

definition question_answer_export_id_new :: "uuid \<Rightarrow> question_answer_export_id" where
  "question_answer_export_id_new = Export_Id"

definition question_answer_export_id_into_inner :: "question_answer_export_id \<Rightarrow> uuid" where
  "question_answer_export_id_into_inner = inner_id"

record question_answer_export =
  qanx_id :: question_answer_export_id
  qanx_question_id :: uuid
  qanx_name :: string
  qanx_sequence :: int
  qanx_metadata :: json

definition question_answer_export_fields :: "(string \<times> string) list" where
  "question_answer_export_fields =
     [(''id'', ''QuestionAnswerId''), (''question_id'', ''Uuid''), (''name'', ''String''),
      (''sequence'', ''i32''), (''metadata'', ''serde_json::Value'')]"

record question_answer_export_summary =
  qanxs_id :: question_answer_export_id
  qanxs_name :: string

definition question_answer_export_summary_fields :: "(string \<times> string) list" where
  "question_answer_export_summary_fields =
     [(''id'', ''QuestionAnswerId''), (''name'', ''String'')]"

type_synonym question_answer_export_ref = "question_answer_export_id export_ref"

type_synonym question_answer_export_event = "(question_answer_export_id, question_answer_export) export_event"

section \<open>The exported contract\<close>

text \<open>An exported field's type for an entity's: the id is typed, the audit metadata is plain JSON.\<close>

definition exported_type :: "string \<Rightarrow> string \<times> string \<Rightarrow> string \<times> string" where
  "exported_type name = (\<lambda>(f, ty).
     if f = ''id'' then (f, name @ ''Id'')
     else if ty = ''AuditMetadata'' then (f, ''serde_json::Value'')
     else (f, ty))"

datatype export_contract =
  export_contract (xc_name: string) (xc_fields: "(string \<times> string) list") (xc_export: "(string \<times> string) list")
    (xc_summary: "(string \<times> string) list")

definition export_contracts :: "export_contract list" where
  "export_contracts =
     [export_contract booth_category_entity_type booth_category_fields booth_category_export_fields booth_category_export_summary_fields,
      export_contract booth_entity_type booth_fields booth_export_fields booth_export_summary_fields,
      export_contract type_booth_entity_type type_booth_fields type_booth_export_fields type_booth_export_summary_fields,
      export_contract booth_booking_entity_type booth_booking_fields booth_booking_export_fields booth_booking_export_summary_fields,
      export_contract event_entity_type event_fields event_export_fields event_export_summary_fields,
      export_contract event_type_entity_type event_type_fields event_type_export_fields event_type_export_summary_fields,
      export_contract stage_entity_type stage_fields stage_export_fields stage_export_summary_fields,
      export_contract tag_category_entity_type tag_category_fields tag_category_export_fields tag_category_export_summary_fields,
      export_contract tag_entity_type tag_fields tag_export_fields tag_export_summary_fields,
      export_contract slot_entity_type slot_fields slot_export_fields slot_export_summary_fields,
      export_contract ticket_entity_type ticket_fields ticket_export_fields ticket_export_summary_fields,
      export_contract mail_entity_type mail_fields mail_export_fields mail_export_summary_fields,
      export_contract mail_registration_entity_type mail_registration_fields mail_registration_export_fields mail_registration_export_summary_fields,
      export_contract mail_slot_entity_type mail_slot_fields mail_slot_export_fields mail_slot_export_summary_fields,
      export_contract type_mail_entity_type type_mail_fields type_mail_export_fields type_mail_export_summary_fields,
      export_contract lead_provenance_entity_type lead_provenance_fields lead_provenance_export_fields lead_provenance_export_summary_fields,
      export_contract lead_provenance_registration_entity_type lead_provenance_registration_fields lead_provenance_registration_export_fields lead_provenance_registration_export_summary_fields,
      export_contract lead_request_entity_type lead_request_fields lead_request_export_fields lead_request_export_summary_fields,
      export_contract lead_rule_entity_type lead_rule_fields lead_rule_export_fields lead_rule_export_summary_fields,
      export_contract lead_rule_predicate_entity_type lead_rule_predicate_fields lead_rule_predicate_export_fields lead_rule_predicate_export_summary_fields,
      export_contract registration_entity_type registration_fields registration_export_fields registration_export_summary_fields,
      export_contract registration_answer_entity_type registration_answer_fields registration_answer_export_fields registration_answer_export_summary_fields,
      export_contract registration_question_entity_type registration_question_fields registration_question_export_fields registration_question_export_summary_fields,
      export_contract question_entity_type question_fields question_export_fields question_export_summary_fields,
      export_contract question_answer_entity_type question_answer_fields question_answer_export_fields question_answer_export_summary_fields]"

definition honours_contract :: "export_contract \<Rightarrow> bool" where
  "honours_contract c \<longleftrightarrow>
     xc_export c = map (exported_type (xc_name c)) (xc_fields c) \<and>
     list_all (List.member (xc_export c)) (xc_summary c) \<and>
     xc_summary c \<noteq> [] \<and> hd (xc_summary c) = (''id'', xc_name c @ ''Id'')"

lemma booth_category_contract: "honours_contract (export_contract booth_category_entity_type booth_category_fields booth_category_export_fields booth_category_export_summary_fields)"
  by (simp add: honours_contract_def exported_type_def booth_category_entity_type_def booth_category_fields_def booth_category_export_fields_def booth_category_export_summary_fields_def)

lemma booth_contract: "honours_contract (export_contract booth_entity_type booth_fields booth_export_fields booth_export_summary_fields)"
  by (simp add: honours_contract_def exported_type_def booth_entity_type_def booth_fields_def booth_export_fields_def booth_export_summary_fields_def)

lemma type_booth_contract: "honours_contract (export_contract type_booth_entity_type type_booth_fields type_booth_export_fields type_booth_export_summary_fields)"
  by (simp add: honours_contract_def exported_type_def type_booth_entity_type_def type_booth_fields_def type_booth_export_fields_def type_booth_export_summary_fields_def)

lemma booth_booking_contract: "honours_contract (export_contract booth_booking_entity_type booth_booking_fields booth_booking_export_fields booth_booking_export_summary_fields)"
  by (simp add: honours_contract_def exported_type_def booth_booking_entity_type_def booth_booking_fields_def booth_booking_export_fields_def booth_booking_export_summary_fields_def)

lemma event_contract: "honours_contract (export_contract event_entity_type event_fields event_export_fields event_export_summary_fields)"
  by (simp add: honours_contract_def exported_type_def event_entity_type_def event_fields_def event_export_fields_def event_export_summary_fields_def)

lemma event_type_contract: "honours_contract (export_contract event_type_entity_type event_type_fields event_type_export_fields event_type_export_summary_fields)"
  by (simp add: honours_contract_def exported_type_def event_type_entity_type_def event_type_fields_def event_type_export_fields_def event_type_export_summary_fields_def)

lemma stage_contract: "honours_contract (export_contract stage_entity_type stage_fields stage_export_fields stage_export_summary_fields)"
  by (simp add: honours_contract_def exported_type_def stage_entity_type_def stage_fields_def stage_export_fields_def stage_export_summary_fields_def)

lemma tag_category_contract: "honours_contract (export_contract tag_category_entity_type tag_category_fields tag_category_export_fields tag_category_export_summary_fields)"
  by (simp add: honours_contract_def exported_type_def tag_category_entity_type_def tag_category_fields_def tag_category_export_fields_def tag_category_export_summary_fields_def)

lemma tag_contract: "honours_contract (export_contract tag_entity_type tag_fields tag_export_fields tag_export_summary_fields)"
  by (simp add: honours_contract_def exported_type_def tag_entity_type_def tag_fields_def tag_export_fields_def tag_export_summary_fields_def)

lemma slot_contract: "honours_contract (export_contract slot_entity_type slot_fields slot_export_fields slot_export_summary_fields)"
  by (simp add: honours_contract_def exported_type_def slot_entity_type_def slot_fields_def slot_export_fields_def slot_export_summary_fields_def)

lemma ticket_contract: "honours_contract (export_contract ticket_entity_type ticket_fields ticket_export_fields ticket_export_summary_fields)"
  by (simp add: honours_contract_def exported_type_def ticket_entity_type_def ticket_fields_def ticket_export_fields_def ticket_export_summary_fields_def)

lemma mail_contract: "honours_contract (export_contract mail_entity_type mail_fields mail_export_fields mail_export_summary_fields)"
  by (simp add: honours_contract_def exported_type_def mail_entity_type_def mail_fields_def mail_export_fields_def mail_export_summary_fields_def)

lemma mail_registration_contract: "honours_contract (export_contract mail_registration_entity_type mail_registration_fields mail_registration_export_fields mail_registration_export_summary_fields)"
  by (simp add: honours_contract_def exported_type_def mail_registration_entity_type_def mail_registration_fields_def mail_registration_export_fields_def mail_registration_export_summary_fields_def)

lemma mail_slot_contract: "honours_contract (export_contract mail_slot_entity_type mail_slot_fields mail_slot_export_fields mail_slot_export_summary_fields)"
  by (simp add: honours_contract_def exported_type_def mail_slot_entity_type_def mail_slot_fields_def mail_slot_export_fields_def mail_slot_export_summary_fields_def)

lemma type_mail_contract: "honours_contract (export_contract type_mail_entity_type type_mail_fields type_mail_export_fields type_mail_export_summary_fields)"
  by (simp add: honours_contract_def exported_type_def type_mail_entity_type_def type_mail_fields_def type_mail_export_fields_def type_mail_export_summary_fields_def)

lemma lead_provenance_contract: "honours_contract (export_contract lead_provenance_entity_type lead_provenance_fields lead_provenance_export_fields lead_provenance_export_summary_fields)"
  by (simp add: honours_contract_def exported_type_def lead_provenance_entity_type_def lead_provenance_fields_def lead_provenance_export_fields_def lead_provenance_export_summary_fields_def)

lemma lead_provenance_registration_contract: "honours_contract (export_contract lead_provenance_registration_entity_type lead_provenance_registration_fields lead_provenance_registration_export_fields lead_provenance_registration_export_summary_fields)"
  by (simp add: honours_contract_def exported_type_def lead_provenance_registration_entity_type_def lead_provenance_registration_fields_def lead_provenance_registration_export_fields_def lead_provenance_registration_export_summary_fields_def)

lemma lead_request_contract: "honours_contract (export_contract lead_request_entity_type lead_request_fields lead_request_export_fields lead_request_export_summary_fields)"
  by (simp add: honours_contract_def exported_type_def lead_request_entity_type_def lead_request_fields_def lead_request_export_fields_def lead_request_export_summary_fields_def)

lemma lead_rule_contract: "honours_contract (export_contract lead_rule_entity_type lead_rule_fields lead_rule_export_fields lead_rule_export_summary_fields)"
  by (simp add: honours_contract_def exported_type_def lead_rule_entity_type_def lead_rule_fields_def lead_rule_export_fields_def lead_rule_export_summary_fields_def)

lemma lead_rule_predicate_contract: "honours_contract (export_contract lead_rule_predicate_entity_type lead_rule_predicate_fields lead_rule_predicate_export_fields lead_rule_predicate_export_summary_fields)"
  by (simp add: honours_contract_def exported_type_def lead_rule_predicate_entity_type_def lead_rule_predicate_fields_def lead_rule_predicate_export_fields_def lead_rule_predicate_export_summary_fields_def)

lemma registration_contract: "honours_contract (export_contract registration_entity_type registration_fields registration_export_fields registration_export_summary_fields)"
  by (simp add: honours_contract_def exported_type_def registration_entity_type_def registration_fields_def registration_export_fields_def registration_export_summary_fields_def)

lemma registration_answer_contract: "honours_contract (export_contract registration_answer_entity_type registration_answer_fields registration_answer_export_fields registration_answer_export_summary_fields)"
  by (simp add: honours_contract_def exported_type_def registration_answer_entity_type_def registration_answer_fields_def registration_answer_export_fields_def registration_answer_export_summary_fields_def)

lemma registration_question_contract: "honours_contract (export_contract registration_question_entity_type registration_question_fields registration_question_export_fields registration_question_export_summary_fields)"
  by (simp add: honours_contract_def exported_type_def registration_question_entity_type_def registration_question_fields_def registration_question_export_fields_def registration_question_export_summary_fields_def)

lemma question_contract: "honours_contract (export_contract question_entity_type question_fields question_export_fields question_export_summary_fields)"
  by (simp add: honours_contract_def exported_type_def question_entity_type_def question_fields_def question_export_fields_def question_export_summary_fields_def)

lemma question_answer_contract: "honours_contract (export_contract question_answer_entity_type question_answer_fields question_answer_export_fields question_answer_export_summary_fields)"
  by (simp add: honours_contract_def exported_type_def question_answer_entity_type_def question_answer_fields_def question_answer_export_fields_def question_answer_export_summary_fields_def)

lemmas contracts = booth_category_contract booth_contract type_booth_contract booth_booking_contract
  event_contract event_type_contract stage_contract tag_category_contract tag_contract
  slot_contract ticket_contract mail_contract mail_registration_contract mail_slot_contract
  type_mail_contract lead_provenance_contract lead_provenance_registration_contract
  lead_request_contract lead_rule_contract lead_rule_predicate_contract registration_contract
  registration_answer_contract registration_question_contract question_contract
  question_answer_contract

text \<open>
  What the module exports mirrors its entities: each of the twenty-five exported objects has
  exactly the fields of its entity, in order and with their types, but for the id, which is typed,
  and the audit metadata, which is plain JSON; a summary is led by the id and has only fields of
  the object it summarises.
\<close>

lemma exports_mirror_entities: "list_all honours_contract export_contracts \<and> length export_contracts = 25"
  by (simp add: export_contracts_def contracts)

end
