(* ===== verification/Seeding.thy ===== *)
theory Seeding
  imports Metadata "HOL-Library.Multiset"
begin

text \<open>
  The seeders, \<open>seeders/*.rs\<close>, and the binary that runs them, \<open>bin/seeder.rs\<close>: what each seeder is
  called, when it runs, which table it fills, and the loop over all of them with its \<open>--force\<close>
  switch and its name filter. The database and the SQL of the seed files are outside the crate's
  Rust code: a store (\<open>seed_store\<close>) counts a table's rows, executes a seed file, empties a table.
\<close>

record ('x, 'w) seed_store =
  ss_count :: "string \<Rightarrow> 'w \<Rightarrow> 'x + int"
  ss_execute :: "string \<Rightarrow> 'w \<Rightarrow> 'x option \<times> 'w"
  ss_delete_all :: "string \<Rightarrow> 'w \<Rightarrow> 'x option \<times> 'w"

datatype seeder = seeder (sd_name: string) (sd_order: int) (sd_table: string) (sd_file: string)

definition seeder_should_run :: "('x, 'w) seed_store \<Rightarrow> seeder \<Rightarrow> 'w \<Rightarrow> 'x + bool" where
  "seeder_should_run st s w = (case ss_count st (sd_table s) w of Inl e \<Rightarrow> Inl e | Inr n \<Rightarrow> Inr (n = 0))"

definition seeder_run :: "('x, 'w) seed_store \<Rightarrow> seeder \<Rightarrow> 'w \<Rightarrow> 'x option \<times> 'w" where
  "seeder_run st s w = ss_execute st (sd_file s) w"

definition seeder_rollback :: "('x, 'w) seed_store \<Rightarrow> seeder \<Rightarrow> 'w \<Rightarrow> 'x option \<times> 'w" where
  "seeder_rollback st s w = ss_delete_all st (sd_table s) w"

section \<open>The seeders\<close>

definition booth_category_seeder :: seeder where
  "booth_category_seeder = seeder ''SeedBoothCategorySeeder'' 1 ''event.booth_categories'' ''booth_category_seed.sql''"

definition booth_seeder :: seeder where
  "booth_seeder = seeder ''SeedBoothSeeder'' 8 ''event.booths'' ''booth_seed.sql''"

definition type_booth_seeder :: seeder where
  "type_booth_seeder = seeder ''SeedTypeBoothSeeder'' 3 ''event.type_booths'' ''type_booth_seed.sql''"

definition booth_booking_seeder :: seeder where
  "booth_booking_seeder = seeder ''SeedBoothBookingSeeder'' 9 ''event.booth_bookings'' ''booth_booking_seed.sql''"

definition event_seeder :: seeder where
  "event_seeder = seeder ''SeedEventSeeder'' 7 ''event.events'' ''event_seed.sql''"

definition event_type_seeder :: seeder where
  "event_type_seeder = seeder ''SeedEventTypeSeeder'' 2 ''event.types'' ''event_type_seed.sql''"

definition stage_seeder :: seeder where
  "stage_seeder = seeder ''SeedStageSeeder'' 6 ''event.stages'' ''stage_seed.sql''"

definition tag_category_seeder :: seeder where
  "tag_category_seeder = seeder ''SeedTagCategorySeeder'' 18 ''event.tag_categories'' ''tag_category_seed.sql''"

definition tag_seeder :: seeder where
  "tag_seeder = seeder ''SeedTagSeeder'' 19 ''event.tags'' ''tag_seed.sql''"

definition slot_seeder :: seeder where
  "slot_seeder = seeder ''SeedSlotSeeder'' 16 ''event.slots'' ''slot_seed.sql''"

definition ticket_seeder :: seeder where
  "ticket_seeder = seeder ''SeedTicketSeeder'' 20 ''event.tickets'' ''ticket_seed.sql''"

definition mail_seeder :: seeder where
  "mail_seeder = seeder ''SeedMailSeeder'' 14 ''event.mails'' ''mail_seed.sql''"

definition mail_registration_seeder :: seeder where
  "mail_registration_seeder = seeder ''SeedMailRegistrationSeeder'' 23 ''event.mail_registrations'' ''mail_registration_seed.sql''"

definition mail_slot_seeder :: seeder where
  "mail_slot_seeder = seeder ''SeedMailSlotSeeder'' 17 ''event.mail_slots'' ''mail_slot_seed.sql''"

definition type_mail_seeder :: seeder where
  "type_mail_seeder = seeder ''SeedTypeMailSeeder'' 25 ''event.type_mails'' ''type_mail_seed.sql''"

definition lead_provenance_seeder :: seeder where
  "lead_provenance_seeder = seeder ''SeedLeadProvenanceSeeder'' 12 ''event.lead_provenances'' ''lead_provenance_seed.sql''"

definition lead_provenance_registration_seeder :: seeder where
  "lead_provenance_registration_seeder = seeder ''SeedLeadProvenanceRegistrationSeeder'' 22 ''event.lead_provenance_registrations'' ''lead_provenance_registration_seed.sql''"

definition lead_request_seeder :: seeder where
  "lead_request_seeder = seeder ''SeedLeadRequestSeeder'' 10 ''event.lead_requests'' ''lead_request_seed.sql''"

definition lead_rule_seeder :: seeder where
  "lead_rule_seeder = seeder ''SeedLeadRuleSeeder'' 11 ''event.lead_rules'' ''lead_rule_seed.sql''"

definition lead_rule_predicate_seeder :: seeder where
  "lead_rule_predicate_seeder = seeder ''SeedLeadRulePredicateSeeder'' 13 ''event.lead_rule_predicates'' ''lead_rule_predicate_seed.sql''"

definition registration_seeder :: seeder where
  "registration_seeder = seeder ''SeedRegistrationSeeder'' 21 ''event.registrations'' ''registration_seed.sql''"

definition registration_answer_seeder :: seeder where
  "registration_answer_seeder = seeder ''SeedRegistrationAnswerSeeder'' 24 ''event.registration_answers'' ''registration_answer_seed.sql''"

definition registration_question_seeder :: seeder where
  "registration_question_seeder = seeder ''SeedRegistrationQuestionSeeder'' 15 ''event.registration_questions'' ''registration_question_seed.sql''"

definition question_seeder :: seeder where
  "question_seeder = seeder ''SeedQuestionSeeder'' 4 ''event.questions'' ''question_seed.sql''"

definition question_answer_seeder :: seeder where
  "question_answer_seeder = seeder ''SeedQuestionAnswerSeeder'' 5 ''event.question_answers'' ''question_answer_seed.sql''"


lemmas seeder_defs = booth_category_seeder_def booth_seeder_def type_booth_seeder_def booth_booking_seeder_def
  event_seeder_def event_type_seeder_def stage_seeder_def tag_category_seeder_def tag_seeder_def
  slot_seeder_def ticket_seeder_def mail_seeder_def mail_registration_seeder_def
  mail_slot_seeder_def type_mail_seeder_def lead_provenance_seeder_def
  lead_provenance_registration_seeder_def lead_request_seeder_def lead_rule_seeder_def
  lead_rule_predicate_seeder_def registration_seeder_def registration_answer_seeder_def
  registration_question_seeder_def question_seeder_def question_answer_seeder_def

section \<open>The binary\<close>

text \<open>
  The command line: \<open>--force\<close> anywhere, and the first argument after the program's name that does
  not start with a dash is the filter.
\<close>

definition force_of :: "string list \<Rightarrow> bool" where
  "force_of args = List.member args ''--force''"

definition filter_of :: "string list \<Rightarrow> string option" where
  "filter_of args = List.find (\<lambda>a. \<not> (a \<noteq> [] \<and> hd a = CHR ''-'')) (drop 1 args)"

fun starts_with :: "string \<Rightarrow> string \<Rightarrow> bool" where
  "starts_with [] s \<longleftrightarrow> True"
| "starts_with (c # cs) [] \<longleftrightarrow> False"
| "starts_with (c # cs) (d # ds) \<longleftrightarrow> c = d \<and> starts_with cs ds"

fun text_contains :: "string \<Rightarrow> string \<Rightarrow> bool" where
  "text_contains [] f \<longleftrightarrow> starts_with f []"
| "text_contains (c # cs) f \<longleftrightarrow> starts_with f (c # cs) \<or> text_contains cs f"

definition registered_seeders :: "seeder list" where
  "registered_seeders =
     [booth_category_seeder, booth_seeder, type_booth_seeder, booth_booking_seeder,
      event_seeder, event_type_seeder, lead_provenance_seeder,
      lead_provenance_registration_seeder, lead_request_seeder, lead_rule_seeder,
      lead_rule_predicate_seeder, mail_seeder, mail_registration_seeder, mail_slot_seeder,
      question_seeder, question_answer_seeder, registration_question_seeder,
      registration_seeder, registration_answer_seeder, slot_seeder, stage_seeder,
      tag_category_seeder, tag_seeder, ticket_seeder, type_mail_seeder]"

text \<open>\<open>sort_by_key\<close> is stable, as \<open>sort_key\<close> is.\<close>

definition seeders_in_order :: "seeder list" where
  "seeders_in_order = sort_key sd_order registered_seeders"

text \<open>
  The loop: a seeder the filter leaves out is passed over; without \<open>--force\<close> a seeder runs only
  when its table is empty; the first error ends the loop.
\<close>

fun run_seeders :: "('x, 'w) seed_store \<Rightarrow> bool \<Rightarrow> string option \<Rightarrow> seeder list \<Rightarrow> 'w \<Rightarrow> 'x option \<times> 'w" where
  "run_seeders st force fltr [] w = (None, w)"
| "run_seeders st force fltr (s # ss) w =
     (if (case fltr of Some f \<Rightarrow> \<not> text_contains (sd_name s) f | None \<Rightarrow> False)
      then run_seeders st force fltr ss w
      else if force then
        (case seeder_run st s w of
           (Some e, w') \<Rightarrow> (Some e, w')
         | (None, w') \<Rightarrow> run_seeders st force fltr ss w')
      else
        (case seeder_should_run st s w of
           Inl e \<Rightarrow> (Some e, w)
         | Inr False \<Rightarrow> run_seeders st force fltr ss w
         | Inr True \<Rightarrow>
             (case seeder_run st s w of
                (Some e, w') \<Rightarrow> (Some e, w')
              | (None, w') \<Rightarrow> run_seeders st force fltr ss w')))"

definition seed_main :: "('x, 'w) seed_store \<Rightarrow> string list \<Rightarrow> 'w \<Rightarrow> 'x option \<times> 'w" where
  "seed_main st args w = run_seeders st (force_of args) (filter_of args) seeders_in_order w"

section \<open>The order\<close>

lemma seeders_in_order_explicit:
  "seeders_in_order =
     [booth_category_seeder, event_type_seeder, type_booth_seeder, question_seeder,
      question_answer_seeder, stage_seeder, event_seeder, booth_seeder, booth_booking_seeder,
      lead_request_seeder, lead_rule_seeder, lead_provenance_seeder, lead_rule_predicate_seeder,
      mail_seeder, registration_question_seeder, slot_seeder, mail_slot_seeder,
      tag_category_seeder, tag_seeder, ticket_seeder, registration_seeder,
      lead_provenance_registration_seeder, mail_registration_seeder, registration_answer_seeder,
      type_mail_seeder]"
  by (simp add: seeders_in_order_def registered_seeders_def seeder_defs)

text \<open>The tables an entity refers to, other than its own: its references and its relations.\<close>

definition referred_tables :: "entity_meta \<Rightarrow> string list" where
  "referred_tables m =
     filter (\<lambda>t. t \<noteq> em_table m)
       (map (\<lambda>(c, t, k). t) (em_references m) @ map (\<lambda>(n, t, k). ''event.'' @ t) (em_relations m))"

text \<open>The place of a table in the run: the order of its seeder.\<close>

definition table_order :: "(string \<times> int) list" where
  "table_order = map (\<lambda>s. (sd_table s, sd_order s)) seeders_in_order"

definition seeded_after_references :: "entity_meta \<Rightarrow> bool" where
  "seeded_after_references m =
     (case map_of table_order (em_table m) of
        None \<Rightarrow> False
      | Some place \<Rightarrow> list_all (\<lambda>t. case map_of table_order t of None \<Rightarrow> False | Some p \<Rightarrow> p < place) (referred_tables m))"

lemma table_order_explicit:
  "table_order =
     [(''event.booth_categories'', 1), (''event.types'', 2), (''event.type_booths'', 3),
      (''event.questions'', 4), (''event.question_answers'', 5), (''event.stages'', 6),
      (''event.events'', 7), (''event.booths'', 8), (''event.booth_bookings'', 9),
      (''event.lead_requests'', 10), (''event.lead_rules'', 11),
      (''event.lead_provenances'', 12), (''event.lead_rule_predicates'', 13),
      (''event.mails'', 14), (''event.registration_questions'', 15), (''event.slots'', 16),
      (''event.mail_slots'', 17), (''event.tag_categories'', 18), (''event.tags'', 19),
      (''event.tickets'', 20), (''event.registrations'', 21),
      (''event.lead_provenance_registrations'', 22), (''event.mail_registrations'', 23),
      (''event.registration_answers'', 24), (''event.type_mails'', 25)]"
  by (simp add: table_order_def seeders_in_order_explicit seeder_defs)

lemma table_places:
  "map_of table_order ''event.booth_categories'' = Some 1"
  "map_of table_order ''event.types'' = Some 2"
  "map_of table_order ''event.type_booths'' = Some 3"
  "map_of table_order ''event.questions'' = Some 4"
  "map_of table_order ''event.question_answers'' = Some 5"
  "map_of table_order ''event.stages'' = Some 6"
  "map_of table_order ''event.events'' = Some 7"
  "map_of table_order ''event.booths'' = Some 8"
  "map_of table_order ''event.booth_bookings'' = Some 9"
  "map_of table_order ''event.lead_requests'' = Some 10"
  "map_of table_order ''event.lead_rules'' = Some 11"
  "map_of table_order ''event.lead_provenances'' = Some 12"
  "map_of table_order ''event.lead_rule_predicates'' = Some 13"
  "map_of table_order ''event.mails'' = Some 14"
  "map_of table_order ''event.registration_questions'' = Some 15"
  "map_of table_order ''event.slots'' = Some 16"
  "map_of table_order ''event.mail_slots'' = Some 17"
  "map_of table_order ''event.tag_categories'' = Some 18"
  "map_of table_order ''event.tags'' = Some 19"
  "map_of table_order ''event.tickets'' = Some 20"
  "map_of table_order ''event.registrations'' = Some 21"
  "map_of table_order ''event.lead_provenance_registrations'' = Some 22"
  "map_of table_order ''event.mail_registrations'' = Some 23"
  "map_of table_order ''event.registration_answers'' = Some 24"
  "map_of table_order ''event.type_mails'' = Some 25"
  by (simp_all add: table_order_explicit)

lemma booth_category_seeded_after_references: "seeded_after_references booth_category_meta"
  by (simp add: seeded_after_references_def table_places referred_tables_def
      booth_category_meta_def booth_category_table_def)

lemma booth_seeded_after_references: "seeded_after_references booth_meta"
  by (simp add: seeded_after_references_def table_places referred_tables_def
      booth_meta_def booth_table_def booth_references_def booth_relations_def)

lemma type_booth_seeded_after_references: "seeded_after_references type_booth_meta"
  by (simp add: seeded_after_references_def table_places referred_tables_def
      type_booth_meta_def type_booth_table_def type_booth_references_def
      type_booth_relations_def)

lemma booth_booking_seeded_after_references: "seeded_after_references booth_booking_meta"
  by (simp add: seeded_after_references_def table_places referred_tables_def
      booth_booking_meta_def booth_booking_table_def booth_booking_references_def
      booth_booking_relations_def)

lemma event_seeded_after_references: "seeded_after_references event_meta"
  by (simp add: seeded_after_references_def table_places referred_tables_def
      event_meta_def event_table_def event_references_def event_relations_def)

lemma event_type_seeded_after_references: "seeded_after_references event_type_meta"
  by (simp add: seeded_after_references_def table_places referred_tables_def
      event_type_meta_def event_type_table_def)

lemma stage_seeded_after_references: "seeded_after_references stage_meta"
  by (simp add: seeded_after_references_def table_places referred_tables_def
      stage_meta_def stage_table_def)

lemma tag_category_seeded_after_references: "seeded_after_references tag_category_meta"
  by (simp add: seeded_after_references_def table_places referred_tables_def
      tag_category_meta_def tag_category_table_def)

lemma tag_seeded_after_references: "seeded_after_references tag_meta"
  by (simp add: seeded_after_references_def table_places referred_tables_def
      tag_meta_def tag_table_def tag_references_def tag_relations_def)

lemma slot_seeded_after_references: "seeded_after_references slot_meta"
  by (simp add: seeded_after_references_def table_places referred_tables_def
      slot_meta_def slot_table_def slot_references_def slot_relations_def)

lemma ticket_seeded_after_references: "seeded_after_references ticket_meta"
  by (simp add: seeded_after_references_def table_places referred_tables_def
      ticket_meta_def ticket_table_def ticket_references_def ticket_relations_def)

lemma mail_seeded_after_references: "seeded_after_references mail_meta"
  by (simp add: seeded_after_references_def table_places referred_tables_def
      mail_meta_def mail_table_def mail_relations_def)

lemma mail_registration_seeded_after_references: "seeded_after_references mail_registration_meta"
  by (simp add: seeded_after_references_def table_places referred_tables_def
      mail_registration_meta_def mail_registration_table_def mail_registration_references_def
      mail_registration_relations_def)

lemma mail_slot_seeded_after_references: "seeded_after_references mail_slot_meta"
  by (simp add: seeded_after_references_def table_places referred_tables_def
      mail_slot_meta_def mail_slot_table_def mail_slot_references_def mail_slot_relations_def)

lemma type_mail_seeded_after_references: "seeded_after_references type_mail_meta"
  by (simp add: seeded_after_references_def table_places referred_tables_def
      type_mail_meta_def type_mail_table_def type_mail_relations_def)

lemma lead_provenance_seeded_after_references: "seeded_after_references lead_provenance_meta"
  by (simp add: seeded_after_references_def table_places referred_tables_def
      lead_provenance_meta_def lead_provenance_table_def lead_provenance_references_def
      lead_provenance_relations_def)

lemma lead_provenance_registration_seeded_after_references: "seeded_after_references lead_provenance_registration_meta"
  by (simp add: seeded_after_references_def table_places referred_tables_def
      lead_provenance_registration_meta_def lead_provenance_registration_table_def
      lead_provenance_registration_references_def lead_provenance_registration_relations_def)

lemma lead_request_seeded_after_references: "seeded_after_references lead_request_meta"
  by (simp add: seeded_after_references_def table_places referred_tables_def
      lead_request_meta_def lead_request_table_def lead_request_references_def
      lead_request_relations_def)

lemma lead_rule_seeded_after_references: "seeded_after_references lead_rule_meta"
  by (simp add: seeded_after_references_def table_places referred_tables_def
      lead_rule_meta_def lead_rule_table_def lead_rule_references_def lead_rule_relations_def)

lemma lead_rule_predicate_seeded_after_references: "seeded_after_references lead_rule_predicate_meta"
  by (simp add: seeded_after_references_def table_places referred_tables_def
      lead_rule_predicate_meta_def lead_rule_predicate_table_def
      lead_rule_predicate_references_def lead_rule_predicate_relations_def)

lemma registration_seeded_after_references: "seeded_after_references registration_meta"
  by (simp add: seeded_after_references_def table_places referred_tables_def
      registration_meta_def registration_table_def registration_references_def
      registration_relations_def)

lemma registration_answer_seeded_after_references: "seeded_after_references registration_answer_meta"
  by (simp add: seeded_after_references_def table_places referred_tables_def
      registration_answer_meta_def registration_answer_table_def
      registration_answer_references_def registration_answer_relations_def)

lemma registration_question_seeded_after_references: "seeded_after_references registration_question_meta"
  by (simp add: seeded_after_references_def table_places referred_tables_def
      registration_question_meta_def registration_question_table_def
      registration_question_references_def registration_question_relations_def)

lemma question_seeded_after_references: "seeded_after_references question_meta"
  by (simp add: seeded_after_references_def table_places referred_tables_def
      question_meta_def question_table_def)

lemma question_answer_seeded_after_references: "seeded_after_references question_answer_meta"
  by (simp add: seeded_after_references_def table_places referred_tables_def
      question_answer_meta_def question_answer_table_def question_answer_references_def
      question_answer_relations_def)

lemmas seeded_first = booth_category_seeded_after_references booth_seeded_after_references
  type_booth_seeded_after_references booth_booking_seeded_after_references
  event_seeded_after_references event_type_seeded_after_references stage_seeded_after_references
  tag_category_seeded_after_references tag_seeded_after_references slot_seeded_after_references
  ticket_seeded_after_references mail_seeded_after_references
  mail_registration_seeded_after_references mail_slot_seeded_after_references
  type_mail_seeded_after_references lead_provenance_seeded_after_references
  lead_provenance_registration_seeded_after_references lead_request_seeded_after_references
  lead_rule_seeded_after_references lead_rule_predicate_seeded_after_references
  registration_seeded_after_references registration_answer_seeded_after_references
  registration_question_seeded_after_references question_seeded_after_references
  question_answer_seeded_after_references


text \<open>
  The binary runs every seeder of the module once, and in an order in which a table is filled
  only after every other table its entity refers to.
\<close>

lemma references_are_seeded_first:
  "mset seeders_in_order = mset registered_seeders \<and> sorted_wrt (<) (map sd_order seeders_in_order) \<and>
   distinct (map sd_table seeders_in_order) \<and>
   list_all seeded_after_references registry"
proof (intro conjI)
  show "mset seeders_in_order = mset registered_seeders" by (simp add: seeders_in_order_def)
  show "sorted_wrt (<) (map sd_order seeders_in_order)"
    unfolding seeders_in_order_explicit by (simp add: seeder_defs)
  show "distinct (map sd_table seeders_in_order)"
    unfolding seeders_in_order_explicit by (simp add: seeder_defs)
  show "list_all seeded_after_references registry" by (simp add: registry_def seeded_first)
qed

section \<open>Running twice\<close>

definition filled :: "('x, 'w) seed_store \<Rightarrow> string \<Rightarrow> 'w \<Rightarrow> bool" where
  "filled st t w \<longleftrightarrow> (case ss_count st t w of Inr n \<Rightarrow> n \<noteq> 0 | Inl _ \<Rightarrow> False)"

definition selected :: "string option \<Rightarrow> seeder \<Rightarrow> bool" where
  "selected fltr s \<longleftrightarrow> (case fltr of Some f \<Rightarrow> text_contains (sd_name s) f | None \<Rightarrow> True)"

lemma filled_should_run: "filled st (sd_table s) w \<Longrightarrow> seeder_should_run st s w = Inr False"
  by (auto simp: filled_def seeder_should_run_def split: sum.splits)

lemma run_seeders_unforced:
  "run_seeders st False fltr (s # ss) w =
     (if \<not> selected fltr s then run_seeders st False fltr ss w
      else (case seeder_should_run st s w of
         Inl e \<Rightarrow> (Some e, w)
       | Inr False \<Rightarrow> run_seeders st False fltr ss w
       | Inr True \<Rightarrow> (case seeder_run st s w of
            (Some e, w') \<Rightarrow> (Some e, w')
          | (None, w') \<Rightarrow> run_seeders st False fltr ss w')))"
  by (simp add: selected_def split: option.split)

lemma run_of_filled:
  "list_all (\<lambda>s. selected fltr s \<longrightarrow> filled st (sd_table s) w) ss \<Longrightarrow> run_seeders st False fltr ss w = (None, w)"
  by (induction ss) (auto simp: run_seeders_unforced filled_should_run simp del: run_seeders.simps(2))

lemma run_fills:
  assumes "\<And>s w w'. s \<in> set ss \<Longrightarrow> ss_execute st (sd_file s) w = (None, w') \<Longrightarrow>
      filled st (sd_table s) w' \<and> (\<forall>t. filled st t w \<longrightarrow> filled st t w')"
    and "run_seeders st False fltr ss w = (None, w')"
  shows "list_all (\<lambda>s. selected fltr s \<longrightarrow> filled st (sd_table s) w') ss \<and> (\<forall>t. filled st t w \<longrightarrow> filled st t w')"
  using assms
proof (induction ss arbitrary: w)
  case (Cons s ss)
  have fills: "ss_execute st (sd_file s) v = (None, v') \<Longrightarrow>
      filled st (sd_table s) v' \<and> (\<forall>t. filled st t v \<longrightarrow> filled st t v')" for v v'
    by (rule Cons.prems(1)) simp
  have IH: "run_seeders st False fltr ss v = (None, w') \<Longrightarrow>
      list_all (\<lambda>s. selected fltr s \<longrightarrow> filled st (sd_table s) w') ss \<and> (\<forall>t. filled st t v \<longrightarrow> filled st t w')" for v
    by (rule Cons.IH) (use Cons.prems(1) in auto)
  show ?case
  proof (cases "selected fltr s")
    case False
    then show ?thesis using IH [of w] Cons.prems(2)
      by (simp add: run_seeders_unforced del: run_seeders.simps(2))
  next
    case sel: True
    show ?thesis
    proof (cases "seeder_should_run st s w")
      case (Inr b)
      show ?thesis
      proof (cases b)
        case False
        then have "filled st (sd_table s) w" using Inr
          by (auto simp: filled_def seeder_should_run_def split: sum.splits)
        then show ?thesis using IH [of w] Cons.prems(2) Inr False sel
          by (auto simp: run_seeders_unforced simp del: run_seeders.simps(2))
      next
        case True
        then obtain w1 where w1: "ss_execute st (sd_file s) w = (None, w1)" "run_seeders st False fltr ss w1 = (None, w')"
          using Cons.prems(2) Inr sel
          by (auto simp: run_seeders_unforced seeder_run_def simp del: run_seeders.simps(2) split: prod.splits option.splits)
        then show ?thesis using fills [OF w1(1)] IH [OF w1(2)] by auto
      qed
    next
      case (Inl e)
      then show ?thesis using Cons.prems(2) sel by (simp add: run_seeders_unforced del: run_seeders.simps(2))
    qed
  qed
qed simp

text \<open>
  Running the binary a second time changes nothing: after a run without \<open>--force\<close> that ended
  well, with or without a filter, the same run ends well at once, as long as a seed file leaves its
  own table non-empty and empties no other.
\<close>

lemma seeding_twice_is_seeding_once:
  assumes files: "\<And>s w w'. s \<in> set registered_seeders \<Longrightarrow> ss_execute st (sd_file s) w = (None, w') \<Longrightarrow>
      filled st (sd_table s) w' \<and> (\<forall>t. filled st t w \<longrightarrow> filled st t w')"
    and first: "seed_main st args w = (None, w')" and "\<not> force_of args"
  shows "seed_main st args w' = (None, w')"
proof -
  have "list_all (\<lambda>s. selected (filter_of args) s \<longrightarrow> filled st (sd_table s) w') seeders_in_order"
    using run_fills [of seeders_in_order st "filter_of args" w w'] files first assms(3)
    by (simp add: seed_main_def seeders_in_order_def)
  then show ?thesis using assms(3) by (simp add: seed_main_def run_of_filled)
qed

text \<open>A store of the tables that hold rows: a seed file fills the table it is named after.\<close>

definition ex_store :: "(unit, string list) seed_store" where
  "ex_store = \<lparr>ss_count = (\<lambda>t w. Inr (if List.member w t then 1 else 0)),
     ss_execute = (\<lambda>f w. (None, map sd_table (filter (\<lambda>s. sd_file s = f) registered_seeders) @ w)),
     ss_delete_all = (\<lambda>t w. (None, filter (\<lambda>u. u \<noteq> t) w))\<rparr>"

lemma seeding_twice_is_seeding_once_witness:
  "seed_main ex_store [''seeder'', ''BoothCategory''] [] = (None, [''event.booth_categories'']) \<and>
   seed_main ex_store [''seeder'', ''BoothCategory''] [''event.booth_categories''] = (None, [''event.booth_categories''])"
proof -
  have first: "seed_main ex_store [''seeder'', ''BoothCategory''] [] = (None, [''event.booth_categories''])"
    unfolding seed_main_def seeders_in_order_explicit
    by (simp add: force_of_def filter_of_def seeder_defs seeder_should_run_def seeder_run_def ex_store_def registered_seeders_def)
  have "seed_main ex_store [''seeder'', ''BoothCategory''] [''event.booth_categories''] = (None, [''event.booth_categories''])"
    by (rule seeding_twice_is_seeding_once [OF _ first]) (auto simp: ex_store_def filled_def force_of_def)
  with first show ?thesis by simp
qed


end
