(* ===== verification/Interleaving.thy ===== *)
theory Interleaving
  imports Seats
begin

text \<open>
  Overlapping seat transactions. The transactions of \<open>seat_repository.rs\<close> are taken apart at their
  statements: each takes the row locks its \<open>FOR UPDATE\<close> and \<open>UPDATE\<close> statements take, reads what is
  committed at that moment, and publishes its writes when it commits, which releases its locks. Any
  number of them run at once, in any order of statements; one that wants a locked row waits.
\<close>

section \<open>One transaction\<close>

text \<open>
  How far a transaction has come. A register locks the event row, checks slot and ticket, counts,
  inserts; a state verb stages its row, and locks the event row and counts only if it takes a seat.
  The slot row a register locks belongs to the event it has locked, so it is never contested.
\<close>

datatype seat_phase =
    Begun
  | Event_Locked event_rec
  | Slot_Checked event_rec "uuid option"
  | Ticket_Checked event_rec "uuid option"
  | Seat_Counted event_rec "uuid option"
  | Row_Staged reg_rec event_registration_state
  | Row_Event_Locked reg_rec event_registration_state event_rec
  | Seat_Cleared reg_rec event_registration_state "event_rec option"
  | Finished "event_error option"

definition register_advance ::
    "seat_env \<Rightarrow> register_cmd \<Rightarrow> sale_link option \<Rightarrow> seat_phase \<Rightarrow> db \<Rightarrow> seat_phase \<times> db" where
  "register_advance env cmd link p d =
     (case p of
        Begun \<Rightarrow>
          (case event_by_id (rc_event_id cmd) d of
             None \<Rightarrow> (Finished (Some EventNotFound), d)
           | Some e \<Rightarrow> if ev_kanban e = Kanban_Cancel then (Finished (Some cancelled_event_refusal), d)
                       else (Event_Locked e, d))
      | Event_Locked e \<Rightarrow>
          (case resolve_slot cmd e d of
             Inl x \<Rightarrow> (Finished (Some x), d)
           | Inr slot \<Rightarrow> (Slot_Checked e slot, d))
      | Slot_Checked e slot \<Rightarrow>
          (case check_ticket (se_clock env) cmd d of
             Inl x \<Rightarrow> (Finished (Some x), d)
           | Inr _ \<Rightarrow> (Ticket_Checked e slot, d))
      | Ticket_Checked e slot \<Rightarrow>
          if seats_full e (seats_taken (rc_event_id cmd) slot d)
          then (Finished (Some (EventSeatsExhausted (rc_event_id cmd))), d)
          else (Seat_Counted e slot, d)
      | Seat_Counted e slot \<Rightarrow>
          (case bind_r (new_registration env cmd link e slot) (\<lambda>r.
                bind_r (insert_registration (se_checks env) r d) (\<lambda>d'. Inr (after_insert env cmd link r d'))) of
             Inl x \<Rightarrow> (Finished (Some x), d)
           | Inr d' \<Rightarrow> (Finished None, d'))
      | _ \<Rightarrow> (p, d))"

definition transition_advance ::
    "seat_env \<Rightarrow> uuid \<Rightarrow> string \<Rightarrow> uuid option \<Rightarrow> seat_phase \<Rightarrow> db \<Rightarrow> seat_phase \<times> db" where
  "transition_advance env i to_text actor p d =
     (case p of
        Begun \<Rightarrow>
          (case registration_by_id i d of
             None \<Rightarrow> (Finished (Some RegistrationNotFound), d)
           | Some r \<Rightarrow>
               (case cast_reg_state to_text of
                  Inl x \<Rightarrow> (Finished (Some x), d)
                | Inr after \<Rightarrow>
                    if takes_seat (rg_state r) after (rg_active r) then (Row_Staged r after, d)
                    else (Seat_Cleared r after None, d)))
      | Row_Staged r after \<Rightarrow>
          (case event_by_id (rg_event_id r) d of
             None \<Rightarrow> (Finished (Some EventNotFound), d)
           | Some e \<Rightarrow> (Row_Event_Locked r after e, d))
      | Row_Event_Locked r after e \<Rightarrow>
          if seats_full e (seats_taken_by_others (rg_event_id r) (rg_slot_id r) i d)
          then (Finished (Some (EventSeatsExhausted (rg_event_id r))), d)
          else (Seat_Cleared r after (Some e), d)
      | Seat_Cleared r after held \<Rightarrow>
          (Finished None,
           transition_audit actor i (rg_state r) after
             (transition_arms env r (rg_state r) after
               (d\<lparr>registrations := upd_rows (\<lambda>x. rg_id x = i) (set_state (se_now env) after) (registrations d)\<rparr>)))
      | _ \<Rightarrow> (p, d))"

text \<open>The identity fill is one statement on the pool.\<close>

fun advance :: "seat_verb \<Rightarrow> seat_phase \<Rightarrow> db \<Rightarrow> seat_phase \<times> db" where
  "advance (Verb_Register env cmd) p d = register_advance env cmd None p d"
| "advance (Verb_Register_Linked env cmd link) p d = register_advance env cmd (Some link) p d"
| "advance (Verb_Transition env i t actor) p d = transition_advance env i t actor p d"
| "advance (Verb_Sync env i pt n ph c actor) p d =
     (if p = Begun then
        (case sync_from_partner env i pt n ph c actor d of
           Inl x \<Rightarrow> (Finished (Some x), d)
         | Inr (_, d') \<Rightarrow> (Finished None, d'))
      else (p, d))"

section \<open>Locks\<close>

fun held_event :: "seat_phase \<Rightarrow> uuid option" where
  "held_event (Event_Locked e) = Some (ev_id e)"
| "held_event (Slot_Checked e _) = Some (ev_id e)"
| "held_event (Ticket_Checked e _) = Some (ev_id e)"
| "held_event (Seat_Counted e _) = Some (ev_id e)"
| "held_event (Row_Event_Locked _ _ e) = Some (ev_id e)"
| "held_event (Seat_Cleared _ _ (Some e)) = Some (ev_id e)"
| "held_event _ = None"

fun held_row :: "seat_phase \<Rightarrow> uuid option" where
  "held_row (Row_Staged r _) = Some (rg_id r)"
| "held_row (Row_Event_Locked r _ _) = Some (rg_id r)"
| "held_row (Seat_Cleared r _ _) = Some (rg_id r)"
| "held_row _ = None"

text \<open>The event row and the registration row the next statement locks.\<close>

fun wanted_event :: "seat_verb \<Rightarrow> seat_phase \<Rightarrow> uuid option" where
  "wanted_event (Verb_Register env cmd) Begun = Some (rc_event_id cmd)"
| "wanted_event (Verb_Register_Linked env cmd link) Begun = Some (rc_event_id cmd)"
| "wanted_event _ (Row_Staged r _) = Some (rg_event_id r)"
| "wanted_event _ _ = None"

fun wanted_row :: "seat_verb \<Rightarrow> seat_phase \<Rightarrow> uuid option" where
  "wanted_row (Verb_Transition env i t actor) Begun = Some i"
| "wanted_row (Verb_Sync env i pt n ph c actor) Begun = Some i"
| "wanted_row _ _ = None"

fun unfinished :: "seat_phase \<Rightarrow> bool" where
  "unfinished (Finished _) \<longleftrightarrow> False"
| "unfinished _ \<longleftrightarrow> True"

definition apart :: "uuid option \<Rightarrow> uuid option \<Rightarrow> bool" where
  "apart x y \<longleftrightarrow> x = None \<or> y = None \<or> x \<noteq> y"

section \<open>Any number of transactions\<close>

record seat_system =
  committed :: db
  calls :: "(seat_verb \<times> seat_phase) list"

definition start :: "seat_verb list \<Rightarrow> db \<Rightarrow> seat_system" where
  "start vs d = \<lparr>committed = d, calls = map (\<lambda>v. (v, Begun)) vs\<rparr>"

definition verb_at :: "seat_system \<Rightarrow> nat \<Rightarrow> seat_verb" where
  "verb_at s k = fst (calls s ! k)"

definition phase_at :: "seat_system \<Rightarrow> nat \<Rightarrow> seat_phase" where
  "phase_at s k = snd (calls s ! k)"

text \<open>A transaction can run its next statement when nobody else holds a row the statement locks.\<close>

definition runnable :: "nat \<Rightarrow> seat_system \<Rightarrow> bool" where
  "runnable k s \<longleftrightarrow>
     k < length (calls s) \<and> unfinished (phase_at s k) \<and>
     list_all (\<lambda>j. j = k \<or>
       apart (held_event (phase_at s j)) (wanted_event (verb_at s k) (phase_at s k)) \<and>
       apart (held_row (phase_at s j)) (wanted_row (verb_at s k) (phase_at s k))) [0..<length (calls s)]"

definition run_statement :: "nat \<Rightarrow> seat_system \<Rightarrow> seat_system" where
  "run_statement k s =
     (let (p, d) = advance (verb_at s k) (phase_at s k) (committed s)
      in \<lparr>committed = d, calls = (calls s)[k := (verb_at s k, p)]\<rparr>)"

inductive statement_step :: "seat_system \<Rightarrow> seat_system \<Rightarrow> bool" where
  statement: "runnable k s \<Longrightarrow> statement_step s (run_statement k s)"

inductive_cases statement_stepE: "statement_step s s'"

text \<open>A schedule names the transaction that runs next; one that has to wait is passed over.\<close>

fun run_schedule :: "nat list \<Rightarrow> seat_system \<Rightarrow> seat_system" where
  "run_schedule [] s = s"
| "run_schedule (k # ks) s = run_schedule ks (if runnable k s then run_statement k s else s)"

lemma run_schedule_reaches: "statement_step\<^sup>*\<^sup>* s (run_schedule ks s)"
proof (induction ks arbitrary: s)
  case (Cons k ks)
  show ?case
  proof (cases "runnable k s")
    case True
    then have "statement_step s (run_statement k s)" by (rule statement)
    also have "statement_step\<^sup>*\<^sup>* (run_statement k s) (run_schedule ks (run_statement k s))" by (rule Cons.IH)
    finally show ?thesis using True by simp
  qed (simp add: Cons.IH)
qed simp

section \<open>What a transaction knows\<close>

text \<open>What a transaction has read stays true of the committed database while it holds its locks.\<close>

definition register_knows :: "seat_env \<Rightarrow> register_cmd \<Rightarrow> seat_phase \<Rightarrow> db \<Rightarrow> bool" where
  "register_knows env cmd p d =
     (let open_event = (\<lambda>e. event_by_id (rc_event_id cmd) d = Some e \<and> ev_kanban e \<noteq> Kanban_Cancel)
      in case p of
           Event_Locked e \<Rightarrow> open_event e
         | Slot_Checked e slot \<Rightarrow> open_event e \<and> resolve_slot cmd e d = Inr slot
         | Ticket_Checked e slot \<Rightarrow>
             open_event e \<and> resolve_slot cmd e d = Inr slot \<and> check_ticket (se_clock env) cmd d = Inr ()
         | Seat_Counted e slot \<Rightarrow>
             open_event e \<and> resolve_slot cmd e d = Inr slot \<and> check_ticket (se_clock env) cmd d = Inr () \<and>
             \<not> seats_full e (seats_taken (rc_event_id cmd) slot d)
         | Begun \<Rightarrow> True
         | Finished _ \<Rightarrow> True
         | _ \<Rightarrow> False)"

definition transition_knows :: "uuid \<Rightarrow> string \<Rightarrow> seat_phase \<Rightarrow> db \<Rightarrow> bool" where
  "transition_knows i to_text p d =
     (let row = (\<lambda>r after. registration_by_id i d = Some r \<and> cast_reg_state to_text = Inr after)
      in case p of
           Row_Staged r after \<Rightarrow> row r after \<and> takes_seat (rg_state r) after (rg_active r)
         | Row_Event_Locked r after e \<Rightarrow>
             row r after \<and> takes_seat (rg_state r) after (rg_active r) \<and> event_by_id (rg_event_id r) d = Some e
         | Seat_Cleared r after held \<Rightarrow>
             row r after \<and>
             (case held of
                None \<Rightarrow> \<not> takes_seat (rg_state r) after (rg_active r)
              | Some e \<Rightarrow> event_by_id (rg_event_id r) d = Some e \<and>
                  \<not> seats_full e (seats_taken_by_others (rg_event_id r) (rg_slot_id r) i d))
         | Begun \<Rightarrow> True
         | Finished _ \<Rightarrow> True
         | _ \<Rightarrow> False)"

fun knows :: "seat_verb \<Rightarrow> seat_phase \<Rightarrow> db \<Rightarrow> bool" where
  "knows (Verb_Register env cmd) p d \<longleftrightarrow> register_knows env cmd p d"
| "knows (Verb_Register_Linked env cmd link) p d \<longleftrightarrow> register_knows env cmd p d"
| "knows (Verb_Transition env i t actor) p d \<longleftrightarrow> transition_knows i t p d"
| "knows (Verb_Sync env i pt n ph c actor) p d \<longleftrightarrow> p = Begun \<or> (\<exists>o1. p = Finished o1)"

text \<open>
  What a commit may do to the others: to rows it holds no lock on it does nothing, and under an
  event whose row it has not locked it takes no seat.
\<close>

definition commit_frame :: "uuid option \<Rightarrow> uuid option \<Rightarrow> db \<Rightarrow> db \<Rightarrow> bool" where
  "commit_frame event row d d' \<longleftrightarrow>
     events d' = events d \<and> slots d' = slots d \<and> tickets d' = tickets d \<and>
     (\<forall>i r. apart row (Some i) \<longrightarrow> registration_by_id i d = Some r \<longrightarrow> registration_by_id i d' = Some r) \<and>
     (\<forall>e slot. apart event (Some e) \<longrightarrow> seats_taken e slot d' \<le> seats_taken e slot d) \<and>
     (\<forall>e slot i. apart event (Some e) \<longrightarrow> seats_taken_by_others e slot i d' \<le> seats_taken_by_others e slot i d)"

lemma commit_frame_refl [simp]: "commit_frame event row d d"
  by (simp add: commit_frame_def)

lemma seats_full_antimono: "taken' \<le> taken \<Longrightarrow> seats_full e taken' \<Longrightarrow> seats_full e taken"
  by (auto simp: seats_full_def)

lemma event_by_id_id: "event_by_id i d = Some e \<Longrightarrow> ev_id e = i"
  using event_by_id_in by blast

lemma knows_stable:
  assumes "commit_frame event row d d'" and "knows v p d"
    and "apart event (held_event p)" and "apart row (held_row p)"
  shows "knows v p d'"
proof -
  have same: "event_by_id i d' = event_by_id i d" "resolve_slot cmd e d' = resolve_slot cmd e d"
    "check_ticket c cmd d' = check_ticket c cmd d" for i cmd e c
    using assms(1) by (simp_all add: commit_frame_def event_by_id_def resolve_slot_def check_ticket_def cong: option.case_cong)
  have row': "registration_by_id i d = Some r \<Longrightarrow> apart row (Some i) \<Longrightarrow> registration_by_id i d' = Some r" for i r
    using assms(1) by (simp add: commit_frame_def)
  have room: "seats_full x (seats_taken i slot d)"
    if "seats_full x (seats_taken i slot d')" "event_by_id i d = Some x" "apart event (Some (ev_id x))" for x i slot
    using assms(1) that seats_full_antimono event_by_id_id [OF that(2)] unfolding commit_frame_def by blast
  have others: "seats_full x (seats_taken_by_others i slot k d)"
    if "seats_full x (seats_taken_by_others i slot k d')" "event_by_id i d = Some x" "apart event (Some (ev_id x))"
    for x i slot k
    using assms(1) that seats_full_antimono event_by_id_id [OF that(2)] unfolding commit_frame_def by blast
  have reg: "register_knows env cmd p d \<Longrightarrow> register_knows env cmd p d'" for env cmd
    using assms(3) by (cases p) (auto simp: register_knows_def Let_def same dest: room)
  have tran: "transition_knows i t p d \<Longrightarrow> transition_knows i t p d'" for i t
    using assms(3,4) registration_by_id_in
    by (cases p) (auto simp: transition_knows_def Let_def same split: option.splits intro: row' dest: others)
  show ?thesis using assms(2) reg tran by (cases v) auto
qed

section \<open>What a commit does\<close>

lemma find_upd_other:
  assumes "\<And>x. x \<in> set t \<Longrightarrow> p (if q x then f x else x) = p x" and "\<And>x. x \<in> set t \<Longrightarrow> p x \<Longrightarrow> \<not> q x"
  shows "find p (upd_rows q f t) = find p t"
  using assms by (induction t) (auto simp: upd_rows_def)

lemma commit_frame_rows:
  assumes same: "events d' = events d" "slots d' = slots d" "tickets d' = tickets d"
    and upd: "registrations d' = upd_rows q f (registrations d)"
    and key: "\<And>x. x \<in> set (registrations d) \<Longrightarrow> q x \<Longrightarrow> row = Some (rg_id x)"
    and ids: "\<And>x. rg_id (f x) = rg_id x"
    and seats: "\<And>x e slot. x \<in> set (registrations d) \<Longrightarrow> q x \<Longrightarrow> apart event (Some e) \<Longrightarrow>
      in_scope e slot (f x) \<Longrightarrow> holds_seat (f x) \<Longrightarrow> in_scope e slot x \<and> holds_seat x"
  shows "commit_frame event row d d'"
  unfolding commit_frame_def same
proof (intro conjI allI impI refl)
  fix i r assume free: "apart row (Some i)" and r: "registration_by_id i d = Some r"
  have "find (\<lambda>x. rg_id x = i) (upd_rows q f (registrations d)) = find (\<lambda>x. rg_id x = i) (registrations d)"
    using free key ids by (intro find_upd_other) (auto simp: apart_def)
  with r show "registration_by_id i d' = Some r" by (simp add: registration_by_id_def upd)
next
  fix e slot assume "apart event (Some e)"
  then show "seats_taken e slot d' \<le> seats_taken e slot d"
    unfolding seats_taken_def upd count_rows_upd using seats by (intro count_rows_mono) (auto split: if_splits)
next
  fix e slot i assume "apart event (Some e)"
  then show "seats_taken_by_others e slot i d' \<le> seats_taken_by_others e slot i d"
    unfolding seats_taken_by_others_def upd count_rows_upd using seats ids by (intro count_rows_mono) (auto split: if_splits)
qed

lemma commit_frame_insert:
  assumes same: "events d' = events d" "slots d' = slots d" "tickets d' = tickets d"
    and app: "registrations d' = registrations d @ [r]"
  shows "commit_frame (Some (rg_event_id r)) row d d'"
proof -
  have "in_scope e slot r \<Longrightarrow> rg_event_id r = e" for e slot by (simp add: in_scope_def)
  then have no: "apart (Some (rg_event_id r)) (Some e) \<Longrightarrow> \<not> in_scope e slot r" for e slot by (auto simp: apart_def)
  have find: "find p t = Some x \<Longrightarrow> find p (t @ [r]) = Some x" for p t and x :: reg_rec by (induction t) auto
  show ?thesis
    using no find
    by (simp add: commit_frame_def same app registration_by_id_def seats_taken_def seats_taken_by_others_def
        table_simps)
qed

lemma register_commit:
  assumes know: "register_knows env cmd (Seat_Counted e slot) d"
    and step: "register_advance env cmd link (Seat_Counted e slot) d = (Finished None, d')"
  shows "\<exists>r. register_core env cmd link d = Inr (r, d')" and "commit_frame (Some (ev_id e)) row d d'"
proof -
  from step obtain r d1 where r: "new_registration env cmd link e slot = Inr r"
    and d1: "insert_registration (se_checks env) r d = Inr d1" and d': "d' = after_insert env cmd link r d1"
    by (auto simp: register_advance_def result_simps split: sum.splits)
  from know r d1 d' have core: "register_core env cmd link d = Inr (r, d')"
    by (simp add: register_core_def register_knows_def Let_def)
  then show "\<exists>r. register_core env cmd link d = Inr (r, d')" by blast
  have "ev_id e = rg_event_id r"
    using know event_by_id_id new_registration_fields(2) [OF r] by (auto simp: register_knows_def Let_def)
  then show "commit_frame (Some (ev_id e)) row d d'"
    using commit_frame_insert [of d' d r] register_core_frame [OF core] register_core_registrations [OF core] by simp
qed

lemma by_others_staged:
  assumes "\<And>x. rg_id (f x) = rg_id x"
  shows "seats_taken_by_others e slot i (d\<lparr>registrations := upd_rows (\<lambda>x. rg_id x = i) f (registrations d)\<rparr>) =
    seats_taken_by_others e slot i d"
  using assms by (simp add: seats_taken_by_others_def count_rows_upd) (rule count_rows_cong, auto)

lemma transition_commit:
  assumes know: "transition_knows i t (Seat_Cleared r after held) d" and keys: "keys_ok d"
    and step: "transition_advance env i t actor (Seat_Cleared r after held) d = (Finished None, d')"
  shows "\<exists>o1. transition env i t actor d = Inr (o1, d')"
    and "commit_frame (map_option ev_id held) (Some i) d d'"
proof -
  have row: "registration_by_id i d = Some r" "cast_reg_state t = Inr after"
    using know by (simp_all add: transition_knows_def Let_def)
  have i: "rg_id r = i" "r \<in> set (registrations d)" using registration_by_id_in [OF row(1)] by simp_all
  let ?staged = "d\<lparr>registrations := upd_rows (\<lambda>x. rg_id x = i) (set_state (se_now env) after) (registrations d)\<rparr>"
  have d': "d' = transition_audit actor i (rg_state r) after (transition_arms env r (rg_state r) after ?staged)"
    using step by (simp add: transition_advance_def)
  have ev: "event_by_id k ?staged = event_by_id k d" for k by (simp add: event_by_id_def)
  have "takes_seat (rg_state r) after (rg_active r) \<Longrightarrow> seat_head r ?staged = Inr ()"
    using know i by (auto simp: transition_knows_def Let_def seat_head_def ev by_others_staged result_simps split: option.splits)
  then have tr: "transition env i t actor d = Inr ((rg_state r, after, rg_active r), d')"
    using row by (simp add: transition_def Let_def d')
  then show "\<exists>o1. transition env i t actor d = Inr (o1, d')" by blast
  show "commit_frame (map_option ev_id held) (Some i) d d'"
  proof (rule commit_frame_rows)
    show "registrations d' = upd_rows (\<lambda>x. rg_id x = i) (set_state (se_now env) after) (registrations d)"
      using transition_registrations [OF tr] .
    fix x e slot
    assume x: "x \<in> set (registrations d)" "rg_id x = i" and free: "apart (map_option ev_id held) (Some e)"
      and new: "in_scope e slot (set_state (se_now env) after x)" "holds_seat (set_state (se_now env) after x)"
    have "x = r" using key_unique [OF keys_okD(2) [OF keys]] x i by blast
    moreover have "held = None"
    proof (cases held)
      case (Some h)
      then have "ev_id h = rg_event_id r" using know event_by_id_id by (auto simp: transition_knows_def Let_def)
      then show ?thesis using free new(1) Some \<open>x = r\<close> by (auto simp: apart_def in_scope_def)
    qed
    then have "\<not> takes_seat (rg_state r) after (rg_active r)" using know by (simp add: transition_knows_def Let_def)
    ultimately show "in_scope e slot x \<and> holds_seat x"
      using new by (cases "rg_state r") (auto simp: takes_seat_def holds_seat_def)
  qed (use transition_frame [OF tr] in simp_all)
qed

lemma sync_commit:
  assumes "sync_from_partner env i pt n ph c actor d = Inr (r, d')"
  shows "commit_frame None (Some i) d d'"
proof (rule commit_frame_rows)
  show "registrations d' = upd_rows (\<lambda>x. rg_id x = i \<and> rg_active x) (sync_row pt ph c) (registrations d)"
    using sync_from_partnerD [OF assms] by simp
qed (use assms in \<open>auto simp: sync_from_partner_def result_simps Let_def split: if_splits\<close>)

section \<open>One statement\<close>

text \<open>The statements a transaction still has to run, at most.\<close>

fun remaining :: "seat_phase \<Rightarrow> nat" where
  "remaining Begun = 5"
| "remaining (Event_Locked _) = 4"
| "remaining (Slot_Checked _ _) = 3"
| "remaining (Ticket_Checked _ _) = 2"
| "remaining (Seat_Counted _ _) = 1"
| "remaining (Row_Staged _ _) = 3"
| "remaining (Row_Event_Locked _ _ _) = 2"
| "remaining (Seat_Cleared _ _ _) = 1"
| "remaining (Finished _) = 0"

definition locked_row :: "seat_verb \<Rightarrow> seat_phase \<Rightarrow> uuid option" where
  "locked_row v p = (if held_row p = None then wanted_row v p else held_row p)"

text \<open>
  What one statement does: the transaction knows what it needs for the next one, it has at most the
  locks it had or asked for, only its last statement writes, and that is its verb run alone.
\<close>

definition good_statement :: "seat_verb \<Rightarrow> seat_phase \<Rightarrow> db \<Rightarrow> seat_phase \<Rightarrow> db \<Rightarrow> bool" where
  "good_statement v p d p' d' \<longleftrightarrow>
     knows v p' d' \<and> commit_frame (held_event p) (locked_row v p) d d' \<and>
     held_event p' \<in> {None, held_event p, wanted_event v p} \<and>
     held_row p' \<in> {None, held_row p, wanted_row v p} \<and>
     (if p' = Finished None then seat_step v d = Inr d' else d' = d) \<and>
     remaining p' < remaining p"

lemma register_statement:
  assumes v: "v = (case link of None \<Rightarrow> Verb_Register env cmd | Some l \<Rightarrow> Verb_Register_Linked env cmd l)"
    and know: "register_knows env cmd p d" and un: "unfinished p"
    and step: "register_advance env cmd link p d = (p', d')"
  shows "good_statement v p d p' d'"
proof (cases p)
  case Begun
  then show ?thesis using step v
    by (auto simp: good_statement_def register_advance_def register_knows_def Let_def
        split: option.splits if_splits dest: event_by_id_id)
next
  case (Event_Locked e)
  then show ?thesis using step v know
    by (auto simp: good_statement_def register_advance_def register_knows_def Let_def split: option.splits sum.splits)
next
  case (Slot_Checked e slot)
  then show ?thesis using step v know
    by (auto simp: good_statement_def register_advance_def register_knows_def Let_def split: option.splits sum.splits)
next
  case (Ticket_Checked e slot)
  then show ?thesis using step v know
    by (auto simp: good_statement_def register_advance_def register_knows_def Let_def split: option.splits if_splits)
next
  case (Seat_Counted e slot)
  show ?thesis
  proof (cases "p' = Finished None")
    case True
    note commit = register_commit [OF know [unfolded Seat_Counted] step [unfolded Seat_Counted True]]
    obtain r where core: "register_core env cmd link d = Inr (r, d')" using commit(1) by blast
    have run: "seat_step v d = Inr d'"
      using core v by (cases link) (simp_all add: register_def register_sale_linked_def)
    have know': "knows v p' d'" using v True by (cases link) (simp_all add: register_knows_def)
    show ?thesis using commit(2) run know' True Seat_Counted by (simp add: good_statement_def)
  next
    case False
    then show ?thesis using step v Seat_Counted
      by (auto simp: good_statement_def register_advance_def register_knows_def split: option.splits sum.splits)
  qed
qed (use know un in \<open>simp_all add: register_knows_def\<close>)

lemma transition_statement:
  assumes v: "v = Verb_Transition env i t actor" and keys: "keys_ok d"
    and know: "transition_knows i t p d" and un: "unfinished p"
    and step: "transition_advance env i t actor p d = (p', d')"
  shows "good_statement v p d p' d'"
proof (cases p)
  case Begun
  then show ?thesis using step v registration_by_id_in
    by (fastforce simp: good_statement_def transition_advance_def transition_knows_def Let_def
        split: option.splits if_splits sum.splits)
next
  case (Row_Staged r after)
  then show ?thesis using step v know
    by (auto simp: good_statement_def transition_advance_def transition_knows_def Let_def
        split: option.splits dest: event_by_id_id)
next
  case (Row_Event_Locked r after e)
  then show ?thesis using step v know
    by (auto simp: good_statement_def transition_advance_def transition_knows_def Let_def split: if_splits)
next
  case (Seat_Cleared r after held)
  then have p': "p' = Finished None" using step by (simp add: transition_advance_def)
  note commit = transition_commit [OF know [unfolded Seat_Cleared] keys step [unfolded Seat_Cleared p']]
  have "held_event p = map_option ev_id held" using Seat_Cleared by (cases held) simp_all
  moreover have "rg_id r = i"
    using know registration_by_id_in by (auto simp: Seat_Cleared transition_knows_def Let_def)
  moreover have "seat_step v d = Inr d'" using commit(1) v by auto
  ultimately show ?thesis using commit(2) p' v Seat_Cleared
    by (simp add: good_statement_def locked_row_def transition_knows_def)
qed (use know un in \<open>simp_all add: transition_knows_def\<close>)

lemma sync_statement:
  assumes v: "v = Verb_Sync env i pt n ph c actor" and "advance v Begun d = (p', d')"
  shows "good_statement v Begun d p' d'"
  using assms sync_commit by (auto simp: good_statement_def locked_row_def split: sum.splits)

lemma good_advance:
  assumes "knows v p d" and "keys_ok d" and "unfinished p" and "advance v p d = (p', d')"
  shows "good_statement v p d p' d'"
proof (cases v)
  case (Verb_Register env cmd)
  then show ?thesis using assms register_statement [of v env cmd None p d p' d'] by simp
next
  case (Verb_Register_Linked env cmd link)
  then show ?thesis using assms register_statement [of v env cmd "Some link" p d p' d'] by simp
next
  case (Verb_Transition env i t actor)
  then show ?thesis using assms transition_statement [of v env i t actor d p p' d'] by simp
next
  case (Verb_Sync env i pt n ph c actor)
  then show ?thesis using assms sync_statement [of v env i pt n ph c actor d p' d'] by auto
qed

section \<open>The whole system\<close>

fun run_all :: "seat_verb list \<Rightarrow> db \<Rightarrow> event_error + db" where
  "run_all [] d = Inr d"
| "run_all (v # vs) d = bind_r (seat_step v d) (run_all vs)"

lemma run_all_append: "run_all (vs @ ws) d = bind_r (run_all vs d) (run_all ws)"
proof (induction vs arbitrary: d)
  case (Cons v vs)
  then show ?case by (cases "seat_step v d") simp_all
qed simp

lemma run_all_verbs: "run_all vs d = Inr d' \<Longrightarrow> run_verbs seat_step vs d = d'"
  by (induction vs arbitrary: d) (auto simp: result_simps)

lemma seat_step_keys:
  assumes "seat_step v d = Inr d'" and "keys_ok d"
  shows "keys_ok d'"
proof (cases v)
  case (Verb_Sync env i p n ph c actor)
  with assms(1) obtain r where "sync_from_partner env i p n ph c actor d = Inr (r, d')" by (auto simp: result_simps)
  note sync = sync_from_partnerD [OF this]
  show ?thesis using assms(2) by (simp add: keys_ok_def sync map_upd_rows)
qed (use assms in \<open>auto simp: result_simps register_def register_sale_linked_def intro: register_core_keys transition_keys\<close>)

lemma seat_step_events: "seat_step v d = Inr d' \<Longrightarrow> events d' = events d"
  by (cases v) (auto simp: result_simps register_def register_sale_linked_def
      dest: register_core_frame(1) transition_frame(1) sync_from_partnerD(2))

lemma seat_admissible_events: "events d' = events d \<Longrightarrow> seat_admissible v d' = seat_admissible v d"
  by (cases v) (simp_all add: no_stray_slot_def event_by_id_def)

lemma run_all_keeps:
  assumes "run_all vs d = Inr d'" and "seat_inv d" and "\<forall>v \<in> set vs. seat_admissible v d"
  shows "seat_inv d'"
  using assms
proof (induction vs arbitrary: d)
  case (Cons v vs)
  from Cons.prems(1) obtain d1 where d1: "seat_step v d = Inr d1" "run_all vs d1 = Inr d'" by (auto simp: result_simps)
  then have "seat_inv d1" using Cons.prems seats.keeps [of v d d1] by simp
  moreover have "\<forall>w \<in> set vs. seat_admissible w d1"
    using Cons.prems(3) seat_admissible_events [OF seat_step_events [OF d1(1)]] by simp
  ultimately show ?case using Cons.IH [OF d1(2)] by simp
qed simp

definition done_calls :: "seat_system \<Rightarrow> nat set" where
  "done_calls s = {k. k < length (calls s) \<and> phase_at s k = Finished None}"

definition locks_apart :: "seat_system \<Rightarrow> bool" where
  "locks_apart s \<longleftrightarrow>
     (\<forall>j < length (calls s). \<forall>k < length (calls s). j \<noteq> k \<longrightarrow>
        apart (held_event (phase_at s j)) (held_event (phase_at s k)) \<and>
        apart (held_row (phase_at s j)) (held_row (phase_at s k)))"

definition consistent :: "seat_verb list \<Rightarrow> db \<Rightarrow> seat_system \<Rightarrow> bool" where
  "consistent vs d0 s \<longleftrightarrow>
     map fst (calls s) = vs \<and> keys_ok (committed s) \<and> locks_apart s \<and>
     (\<forall>k < length (calls s). knows (verb_at s k) (phase_at s k) (committed s)) \<and>
     (\<exists>ks. distinct ks \<and> set ks = done_calls s \<and> run_all (map ((!) vs) ks) d0 = Inr (committed s))"

lemma knows_begun: "knows v Begun d"
  by (cases v) (simp_all add: register_knows_def transition_knows_def)

lemma consistent_start: "keys_ok d \<Longrightarrow> consistent vs d (start vs d)"
  by (auto simp: consistent_def start_def locks_apart_def done_calls_def phase_at_def verb_at_def knows_begun
      apart_def comp_def intro: exI [of _ "[]"])

lemma apart_sym: "apart x y \<longleftrightarrow> apart y x"
  by (auto simp: apart_def)

lemma apart_None [simp]: "apart None y" "apart x None"
  by (simp_all add: apart_def)

lemma run_statement_at:
  assumes "advance (verb_at s k) (phase_at s k) (committed s) = (p, d)" and "k < length (calls s)"
  shows "committed (run_statement k s) = d" "length (calls (run_statement k s)) = length (calls s)"
    "map fst (calls (run_statement k s)) = map fst (calls s)"
    "verb_at (run_statement k s) j = verb_at s j"
    "phase_at (run_statement k s) j = (if j = k then p else phase_at s j)"
proof -
  have eq: "run_statement k s = \<lparr>committed = d, calls = (calls s)[k := (verb_at s k, p)]\<rparr>"
    using assms(1) by (simp add: run_statement_def)
  show "committed (run_statement k s) = d" "length (calls (run_statement k s)) = length (calls s)"
    by (simp_all add: eq)
  show "map fst (calls (run_statement k s)) = map fst (calls s)"
    using assms(2) by (simp add: eq map_update verb_at_def) (metis length_map list_update_id nth_map)
  show "verb_at (run_statement k s) j = verb_at s j" "phase_at (run_statement k s) j = (if j = k then p else phase_at s j)"
    using assms(2) by (simp_all add: eq verb_at_def phase_at_def nth_list_update)
qed

lemma runnable_apart:
  assumes "runnable k s" and "j < length (calls s)" and "j \<noteq> k"
  shows "apart (held_event (phase_at s j)) (wanted_event (verb_at s k) (phase_at s k))"
    and "apart (held_row (phase_at s j)) (wanted_row (verb_at s k) (phase_at s k))"
  using assms by (auto simp: runnable_def list_all_iff)

lemma consistent_statement:
  assumes ok: "consistent vs d0 s" and run: "runnable k s"
  shows "consistent vs d0 (run_statement k s)"
    and "good_statement (verb_at s k) (phase_at s k) (committed s)
      (phase_at (run_statement k s) k) (committed (run_statement k s))"
proof -
  obtain p d where adv: "advance (verb_at s k) (phase_at s k) (committed s) = (p, d)" by fastforce
  have k: "k < length (calls s)" "unfinished (phase_at s k)" using run by (simp_all add: runnable_def)
  note at = run_statement_at [OF adv k(1)]
  have len: "length vs = length (calls s)" using ok by (auto simp: consistent_def)
  have good: "good_statement (verb_at s k) (phase_at s k) (committed s) p d"
    using good_advance [OF _ _ k(2) adv] ok k(1) by (simp add: consistent_def)
  then show "good_statement (verb_at s k) (phase_at s k) (committed s)
      (phase_at (run_statement k s) k) (committed (run_statement k s))" by (simp add: at)
  have others: "apart (held_event p) (held_event (phase_at s j)) \<and> apart (held_row p) (held_row (phase_at s j)) \<and>
      apart (held_event (phase_at s k)) (held_event (phase_at s j)) \<and>
      apart (locked_row (verb_at s k) (phase_at s k)) (held_row (phase_at s j))"
    if j: "j < length (calls s)" "j \<noteq> k" for j
  proof -
    have "apart (held_event (phase_at s k)) (held_event (phase_at s j))"
      "apart (held_row (phase_at s k)) (held_row (phase_at s j))"
      using ok j k(1) by (auto simp: consistent_def locks_apart_def)
    then show ?thesis using good runnable_apart [OF run j] apart_sym
      by (auto simp: good_statement_def locked_row_def)
  qed
  have keys: "keys_ok d"
    using good ok seat_step_keys by (auto simp: good_statement_def consistent_def split: if_splits)
  have knows: "knows (verb_at s j) (if j = k then p else phase_at s j) d" if "j < length (calls s)" for j
    using good others [OF that] ok that knows_stable [of "held_event (phase_at s k)" "locked_row (verb_at s k) (phase_at s k)"]
    by (auto simp: good_statement_def consistent_def)
  have "locks_apart (run_statement k s)"
    using ok others apart_sym unfolding locks_apart_def consistent_def at by (auto split: if_splits)
  moreover have "\<exists>ks. distinct ks \<and> set ks = done_calls (run_statement k s) \<and> run_all (map ((!) vs) ks) d0 = Inr d"
  proof -
    obtain ks where ks: "distinct ks" "set ks = done_calls s" "run_all (map ((!) vs) ks) d0 = Inr (committed s)"
      using ok by (auto simp: consistent_def)
    have new: "k \<notin> done_calls s" using k(2) by (auto simp: done_calls_def)
    have dc: "done_calls (run_statement k s) = (if p = Finished None then insert k (done_calls s) else done_calls s)"
      using k new by (auto simp: done_calls_def at split: if_splits)
    show ?thesis
    proof (cases "p = Finished None")
      case True
      have "vs ! k = verb_at s k" using ok k(1) by (auto simp: consistent_def verb_at_def)
      then have "run_all (map ((!) vs) (ks @ [k])) d0 = Inr d"
        using ks good True by (simp add: run_all_append good_statement_def)
      moreover have "distinct (ks @ [k])" "set (ks @ [k]) = done_calls (run_statement k s)"
        using ks new True by (auto simp: dc)
      ultimately show ?thesis by blast
    next
      case False
      then show ?thesis using ks good by (auto simp: dc good_statement_def)
    qed
  qed
  ultimately show "consistent vs d0 (run_statement k s)"
    using ok keys knows by (simp add: consistent_def at)
qed

lemma consistent_reached:
  assumes "statement_step\<^sup>*\<^sup>* (start vs d) s" and "keys_ok d"
  shows "consistent vs d s"
  using assms(1)
proof (induction rule: rtranclp_induct)
  case (step s s')
  then show ?case by (elim statement_stepE) (simp add: consistent_statement)
qed (rule consistent_start [OF assms(2)])

section \<open>Progress\<close>

definition work :: "seat_system \<Rightarrow> nat" where
  "work s = sum_list (map (\<lambda>c. remaining (snd c)) (calls s))"

lemma work_start: "work (start vs d) = 5 * length vs"
  by (induction vs) (simp_all add: work_def start_def)

lemma work_decreases:
  assumes "consistent vs d0 s" and run: "runnable k s"
  shows "Suc (work (run_statement k s)) \<le> work s"
proof -
  obtain p d where adv: "advance (verb_at s k) (phase_at s k) (committed s) = (p, d)" by fastforce
  have k: "k < length (calls s)" using run by (simp add: runnable_def)
  have less: "remaining p < remaining (phase_at s k)"
    using consistent_statement(2) [OF assms] by (simp add: good_statement_def run_statement_at [OF adv k])
  have "work (run_statement k s) = sum_list ((map (\<lambda>c. remaining (snd c)) (calls s))[k := remaining p])"
    by (simp add: work_def run_statement_def adv map_update)
  also have "\<dots> = work s + remaining p - remaining (phase_at s k)"
    using k by (simp add: sum_list_update work_def phase_at_def)
  moreover have "remaining (phase_at s k) \<le> work s"
    using k member_le_sum_list [of "remaining (phase_at s k)" "map (\<lambda>c. remaining (snd c)) (calls s)"]
    by (simp add: work_def phase_at_def)
  ultimately show ?thesis using less by simp
qed

text \<open>A transaction that holds an event row waits for nothing, so somebody can always go on.\<close>

lemma holder_wants_nothing:
  "held_event p \<noteq> None \<Longrightarrow> wanted_event v p = None \<and> wanted_row v p = None"
  by (cases "(v, p)" rule: wanted_event.cases; cases v; cases p) auto

lemma somebody_can_run:
  assumes "k < length (calls s)" and "unfinished (phase_at s k)"
  shows "\<exists>j. runnable j s"
proof (cases "\<exists>j < length (calls s). held_event (phase_at s j) \<noteq> None")
  case True
  then obtain j where j: "j < length (calls s)" "held_event (phase_at s j) \<noteq> None" by blast
  then have "unfinished (phase_at s j)" by (cases "phase_at s j") auto
  then have "runnable j s"
    using j holder_wants_nothing [OF j(2), of "verb_at s j"] by (simp add: runnable_def list_all_iff)
  then show ?thesis ..
next
  case free: False
  show ?thesis
  proof (cases "\<exists>j < length (calls s). unfinished (phase_at s j) \<and> phase_at s j \<noteq> Begun")
    case True
    then obtain j where j: "j < length (calls s)" "unfinished (phase_at s j)" "phase_at s j \<noteq> Begun" by blast
    then have "wanted_row (verb_at s j) (phase_at s j) = None"
      by (cases "phase_at s j"; cases "verb_at s j") simp_all
    then have "runnable j s" using j free by (auto simp: runnable_def list_all_iff)
    then show ?thesis ..
  next
    case False
    have "held_row (phase_at s j) = None" if "j < length (calls s)" for j
    proof -
      have "phase_at s j = Begun \<or> \<not> unfinished (phase_at s j)" using False that by blast
      then show ?thesis by (cases "phase_at s j") simp_all
    qed
    then have "runnable k s" using assms free by (auto simp: runnable_def list_all_iff)
    then show ?thesis ..
  qed
qed

lemma work_bound:
  assumes "(statement_step ^^ n) (start vs d) s" and "keys_ok d"
  shows "n + work s \<le> 5 * length vs"
  using assms(1)
proof (induction n arbitrary: s)
  case (Suc n)
  then obtain s1 where s1: "(statement_step ^^ n) (start vs d) s1" "statement_step s1 s" by auto
  then have "consistent vs d s1" using consistent_reached [OF _ assms(2)] relpowp_imp_rtranclp by fast
  then have "Suc (work s) \<le> work s1" using s1(2) work_decreases by (elim statement_stepE) auto
  then show ?case using Suc.IH [OF s1(1)] by simp
qed (simp add: work_start)

section \<open>Properties of overlapping transactions\<close>

text \<open>Two registers race for the one seat of an event while a third transaction frees it.\<close>

definition ex_race :: "seat_verb list" where
  "ex_race = [Verb_Register (ex_env 3) (ex_cmd 1 None None), Verb_Register (ex_env 4) (ex_cmd 1 None None)]"

definition ex_race_end :: seat_system where
  "ex_race_end = run_schedule [0, 1, 0, 0, 0, 0, 1, 1, 1, 1] (start ex_race ex_db)"

lemma ex_race_outcome:
  "phase_at ex_race_end 0 = Finished None \<and> phase_at ex_race_end 1 = Finished (Some (EventSeatsExhausted 1))"
  by (simp add: ex_race_end_def ex_race_def start_def runnable_def run_statement_def phase_at_def verb_at_def apart_def
      register_advance_def seat_eval after_insert_def Let_def frame_simps upt_rec)

lemma ex_race_reached: "statement_step\<^sup>*\<^sup>* (start ex_race ex_db) ex_race_end"
  unfolding ex_race_end_def by (rule run_schedule_reaches)

lemma ex_race_inv: "seat_inv ex_db"
  by (auto simp: seat_inv_def keys_ok_def slots_fit_def within_capacity_def seats_taken_def count_rows_def ex_defs)

lemma ex_race_keys: "keys_ok ex_db"
  using ex_race_inv by (simp add: seat_inv_def)



text \<open>
  C4. Seats are not oversold by overlapping transactions: from a database within its limits whose
  rows name a slot exactly where their event has slots, and with commands that do the same, every
  committed database of every interleaving is within its limits.
\<close>

theorem overlapping_transactions_keep_capacity:
  assumes reach: "statement_step\<^sup>*\<^sup>* (start vs d) s" and inv: "seat_inv d"
    and adm: "\<forall>v \<in> set vs. seat_admissible v d"
  shows "within_capacity (committed s)"
proof -
  have keys: "keys_ok d" using inv by (simp add: seat_inv_def)
  from consistent_reached [OF reach keys] obtain ks where ks: "set ks = done_calls s"
    "run_all (map ((!) vs) ks) d = Inr (committed s)" "map fst (calls s) = vs" by (auto simp: consistent_def)
  have len: "length (calls s) = length vs" using ks(3) by auto
  then have "\<forall>v \<in> set (map ((!) vs) ks). seat_admissible v d" using ks(1) adm by (auto simp: done_calls_def)
  then have "seat_inv (committed s)" using run_all_keeps ks(2) inv by blast
  then show ?thesis by (simp add: seat_inv_def)
qed

theorem overlapping_transactions_keep_capacity_witness:
  "within_capacity (committed ex_race_end)"
proof -
  have "\<forall>v \<in> set ex_race. seat_admissible v ex_db" by (simp add: ex_race_def ex_cmd_def no_stray_slot_def split: option.split)
  then show ?thesis by (rule overlapping_transactions_keep_capacity [OF ex_race_reached ex_race_inv])
qed



end
