(* ===== verification/BoothOverlap.thy ===== *)
theory BoothOverlap
  imports Booths
begin

text \<open>
  Overlapping booth transactions: the transactions of \<open>booth_command_repository.rs\<close> taken apart at
  their statements. A statement waits for the rows it locks; it reads what is committed when it
  runs; writes are published by the commit, which releases the locks. A \<open>DELETE\<close> of several rows
  and a count next to a row lock fix their rows when the statement starts and act when they have the
  locks, so they are two phases. The declared row checks pass and the system is the actor, as in
  \<open>booth_step\<close>.
\<close>

section \<open>One transaction\<close>

datatype booth_phase =
    Booth_Begun
  | Intent_Booth booth_rec
  | Intent_Checked booth_rec
  | Confirm_Locked booking_rec booth_rec
  | Confirm_Flipped booking_rec booth_rec
  | Release_Seen "uuid list"
  | Release_Deleted "uuid list"
  | Delete_Counted int
  | Delete_Locked booth_rec
  | Booth_Finished "event_error option"

definition refuse :: "event_error \<Rightarrow> db \<Rightarrow> booth_phase \<times> db" where
  "refuse e d = (Booth_Finished (Some e), d)"

definition commit_booth :: "db \<Rightarrow> booth_phase \<times> db" where
  "commit_booth d = (Booth_Finished None, d)"

definition booking_fk :: event_error where
  "booking_fk = Database ''fk_booth_bookings_event_booth_id''"

text \<open>The booth's event is read, then the order line is checked, without a lock; then the insert.\<close>

definition intent_advance :: "uuid \<Rightarrow> uuid \<Rightarrow> booking_input \<Rightarrow> booth_phase \<Rightarrow> db \<Rightarrow> booth_phase \<times> db" where
  "intent_advance fresh booth input p d =
     (case p of
        Booth_Begun \<Rightarrow>
          (case booth_by_id booth d of
             None \<Rightarrow> refuse (BoothNotFound booth) d
           | Some b \<Rightarrow> (Intent_Booth b, d))
      | Intent_Booth b \<Rightarrow>
          (case bi_line_id input of
             None \<Rightarrow> (Intent_Checked b, d)
           | Some line \<Rightarrow> if crosses_events line (bo_event_id b) d
                          then refuse (BoothBookingLineCrossEvent line) d else (Intent_Checked b, d))
      | Intent_Checked b \<Rightarrow>
          (let bb = \<lparr>bb_id = fresh, bb_booth_id = booth, bb_line_id = bi_line_id input,
                     bb_status = Booking_Pending, bb_partner_id = bi_partner_id input,
                     bb_contact_name = bi_contact_name input, bb_contact_email = bi_contact_email input,
                     bb_contact_phone = bi_contact_phone input\<rparr> in
           if \<not> booking_unique_ok bb d then refuse (BoothAlreadyConfirmed booth) d
           else if booth_by_id booth d = None then refuse booking_fk d
           else commit_booth (record_audit ''booth_booking_created'' None ''booth'' (Some booth)
                  (JObj [(''booking_id'', JId fresh), (''status'', JStr ''pending'')])
                  (d\<lparr>bookings := bookings d @ [bb]\<rparr>)))
      | _ \<Rightarrow> (p, d))"

text \<open>The lock of booking and booth with the pre-check, the flip against the index, the booth's writes.\<close>

definition confirm_advance :: "uuid \<Rightarrow> booth_phase \<Rightarrow> db \<Rightarrow> booth_phase \<times> db" where
  "confirm_advance i p d =
     (case p of
        Booth_Begun \<Rightarrow>
          (case booking_by_id i d of
             None \<Rightarrow> refuse (BoothBookingNotFound i) d
           | Some bb \<Rightarrow>
               (case booth_by_id (bb_booth_id bb) d of
                  None \<Rightarrow> refuse (BoothBookingNotFound i) d
                | Some b \<Rightarrow> if bo_state b = Booth_Available then (Confirm_Locked bb b, d)
                            else refuse (BoothAlreadyConfirmed (bb_booth_id bb)) d))
      | Confirm_Locked bb b \<Rightarrow>
          if bb_status bb \<noteq> Booking_Pending then refuse (Database ''no rows returned'') d
          else if exists_row (confirmed_on (bb_booth_id bb)) (bookings d)
          then refuse (BoothAlreadyConfirmed (bb_booth_id bb)) d
          else (Confirm_Flipped bb b, d)
      | Confirm_Flipped bb b \<Rightarrow>
          commit_booth (record_audit ''booth_confirmed'' None ''booth'' (Some (bb_booth_id bb))
            (JObj [(''booking_id'', JId i)])
            (d\<lparr>bookings := upd_rows (\<lambda>x. bb_id x = i) (\<lambda>x. x\<lparr>bb_status := Booking_Confirmed\<rparr>) (bookings d),
               booths := upd_rows (\<lambda>x. bo_id x = bb_booth_id bb) (confirm_booth_row bb) (booths d)\<rparr>))
      | _ \<Rightarrow> (p, d))"

text \<open>The bookings are deleted first; the booth is locked by the update after that.\<close>

definition release_advance :: "uuid \<Rightarrow> booth_phase \<Rightarrow> db \<Rightarrow> booth_phase \<times> db" where
  "release_advance i p d =
     (case p of
        Booth_Begun \<Rightarrow> (Release_Seen (map bb_id (sel_rows (\<lambda>bb. bb_booth_id bb = i) (bookings d))), d)
      | Release_Seen ids \<Rightarrow>
          (Release_Deleted (filter (\<lambda>k. exists_row (\<lambda>bb. bb_id bb = k \<and> bb_booth_id bb = i) (bookings d)) ids), d)
      | Release_Deleted ids \<Rightarrow>
          if exists_row (\<lambda>b. bo_id b = i \<and> bo_state b = Booth_Unavailable) (booths d)
          then commit_booth (record_audit ''booth_released'' None ''booth'' (Some i) (JObj [(''verb'', JStr ''release'')])
                 (d\<lparr>bookings := del_rows (\<lambda>bb. bb_id bb \<in> set ids) (bookings d),
                    booths := upd_rows (\<lambda>x. bo_id x = i \<and> bo_state x = Booth_Unavailable)
                                (\<lambda>x. x\<lparr>bo_state := Booth_Available\<rparr>) (booths d)\<rparr>))
          else refuse (BoothNotFound i) d
      | _ \<Rightarrow> (p, d))"

text \<open>The count comes from the snapshot of the locking read; the foreign key is the wall behind it.\<close>

definition delete_advance :: "uuid \<Rightarrow> booth_phase \<Rightarrow> db \<Rightarrow> booth_phase \<times> db" where
  "delete_advance i p d =
     (case p of
        Booth_Begun \<Rightarrow> (Delete_Counted (count_rows (\<lambda>bb. bb_booth_id bb = i) (bookings d)), d)
      | Delete_Counted n \<Rightarrow>
          (case booth_by_id i d of
             None \<Rightarrow> refuse (BoothNotFound i) d
           | Some b \<Rightarrow> if bo_line_id b \<noteq> None then refuse (BoothDeleteRefusedSaleLinked i) d
                       else if n > 0 then refuse (bookings_exist n) d else (Delete_Locked b, d))
      | Delete_Locked b \<Rightarrow>
          if exists_row (\<lambda>bb. bb_booth_id bb = i) (bookings d) then refuse booking_fk d
          else commit_booth (record_audit ''booth_deleted'' None ''booth'' (Some i) (JObj [])
                 (d\<lparr>booths := del_rows (\<lambda>x. bo_id x = i) (booths d)\<rparr>))
      | _ \<Rightarrow> (p, d))"

text \<open>The other verbs are one statement.\<close>

definition single_advance :: "booth_verb \<Rightarrow> booth_phase \<Rightarrow> db \<Rightarrow> booth_phase \<times> db" where
  "single_advance v p d =
     (if p = Booth_Begun then (case booth_step v d of Inl e \<Rightarrow> refuse e d | Inr d' \<Rightarrow> commit_booth d') else (p, d))"

fun booth_advance :: "booth_verb \<Rightarrow> booth_phase \<Rightarrow> db \<Rightarrow> booth_phase \<times> db" where
  "booth_advance (Create_Booking fresh booth input) p d = intent_advance fresh booth input p d"
| "booth_advance (Confirm_Booking i) p d = confirm_advance i p d"
| "booth_advance (Release_Booth i) p d = release_advance i p d"
| "booth_advance (Delete_Booth i) p d = delete_advance i p d"
| "booth_advance v p d = single_advance v p d"

section \<open>Locks\<close>

fun held_booths :: "booth_phase \<Rightarrow> uuid set" where
  "held_booths (Confirm_Locked bb b) = {bb_booth_id bb}"
| "held_booths (Confirm_Flipped bb b) = {bb_booth_id bb}"
| "held_booths (Delete_Locked b) = {bo_id b}"
| "held_booths _ = {}"

fun held_bookings :: "booth_phase \<Rightarrow> uuid set" where
  "held_bookings (Confirm_Locked bb b) = {bb_id bb}"
| "held_bookings (Confirm_Flipped bb b) = {bb_id bb}"
| "held_bookings (Release_Deleted ids) = set ids"
| "held_bookings _ = {}"

text \<open>The rows the next statement locks; an insert of a booking locks its booth for the foreign key.\<close>

fun wanted_booths :: "booth_verb \<Rightarrow> booth_phase \<Rightarrow> db \<Rightarrow> uuid set" where
  "wanted_booths (Confirm_Booking i) Booth_Begun d =
     (case booking_by_id i d of None \<Rightarrow> {} | Some bb \<Rightarrow> {bb_booth_id bb})"
| "wanted_booths (Create_Booking fresh booth input) (Intent_Checked _) d = {booth}"
| "wanted_booths (Release_Booth i) (Release_Deleted _) d = {i}"
| "wanted_booths (Delete_Booth i) (Delete_Counted _) d = {i}"
| "wanted_booths (Patch_Booth i p) Booth_Begun d = {i}"
| "wanted_booths (Mark_Paid ls) Booth_Begun d =
     set (map bo_id (filter (\<lambda>b. case bo_line_id b of Some l \<Rightarrow> l \<in> set ls | None \<Rightarrow> False) (booths d)))"
| "wanted_booths _ _ d = {}"

fun wanted_bookings :: "booth_verb \<Rightarrow> booth_phase \<Rightarrow> uuid set" where
  "wanted_bookings (Confirm_Booking i) Booth_Begun = {i}"
| "wanted_bookings (Release_Booth i) (Release_Seen ids) = set ids"
| "wanted_bookings (Delete_Booking i) Booth_Begun = {i}"
| "wanted_bookings _ _ = {}"

fun open_phase :: "booth_phase \<Rightarrow> bool" where
  "open_phase (Booth_Finished _) \<longleftrightarrow> False"
| "open_phase _ \<longleftrightarrow> True"

section \<open>Any number of transactions\<close>

record booth_system =
  bs_db :: db
  bs_calls :: "(booth_verb \<times> booth_phase) list"

definition booth_start :: "booth_verb list \<Rightarrow> db \<Rightarrow> booth_system" where
  "booth_start vs d = \<lparr>bs_db = d, bs_calls = map (\<lambda>v. (v, Booth_Begun)) vs\<rparr>"

definition booth_runnable :: "nat \<Rightarrow> booth_system \<Rightarrow> bool" where
  "booth_runnable k s \<longleftrightarrow>
     k < length (bs_calls s) \<and>
     (case bs_calls s ! k of
        (v, p) \<Rightarrow> open_phase p \<and>
          list_all (\<lambda>j. j = k \<or>
            held_booths (snd (bs_calls s ! j)) \<inter> wanted_booths v p (bs_db s) = {} \<and>
            held_bookings (snd (bs_calls s ! j)) \<inter> wanted_bookings v p = {}) [0..<length (bs_calls s)])"

definition booth_statement :: "nat \<Rightarrow> booth_system \<Rightarrow> booth_system" where
  "booth_statement k s =
     (case bs_calls s ! k of
        (v, p) \<Rightarrow>
          (case booth_advance v p (bs_db s) of
             (p', d) \<Rightarrow> \<lparr>bs_db = d, bs_calls = (bs_calls s)[k := (v, p')]\<rparr>))"

inductive booth_statement_step :: "booth_system \<Rightarrow> booth_system \<Rightarrow> bool" where
  run: "booth_runnable k s \<Longrightarrow> booth_statement_step s (booth_statement k s)"

inductive_cases booth_statement_stepE: "booth_statement_step s s'"

fun booth_schedule :: "nat list \<Rightarrow> booth_system \<Rightarrow> booth_system" where
  "booth_schedule [] s = s"
| "booth_schedule (k # ks) s = booth_schedule ks (if booth_runnable k s then booth_statement k s else s)"

lemma booth_schedule_reaches: "booth_statement_step\<^sup>*\<^sup>* s (booth_schedule ks s)"
proof (induction ks arbitrary: s)
  case (Cons k ks)
  show ?case
    using Cons.IH [of s] Cons.IH [of "booth_statement k s"] run [of k s]
    by (auto intro: converse_rtranclp_into_rtranclp)
qed simp

section \<open>What holds of every committed database\<close>

text \<open>
  Keys, no orphan booking, at most one confirmed booking per booth, and no unavailable booth
  without one. It is what is left of \<open>booth_inv\<close>: an available booth may have a confirmed booking
  and an order line may book booths of two events, see the end of the theory.
\<close>

definition exclusive_wall :: "db \<Rightarrow> bool" where
  "exclusive_wall d \<longleftrightarrow>
     distinct (map bo_id (booths d)) \<and> distinct (map bb_id (bookings d)) \<and>
     (\<forall>x \<in> set (bookings d). bb_booth_id x \<in> bo_id ` set (booths d)) \<and>
     (\<forall>x \<in> set (bookings d). \<forall>y \<in> set (bookings d). bb_status x = Booking_Confirmed \<and>
        bb_status y = Booking_Confirmed \<and> bb_booth_id x = bb_booth_id y \<longrightarrow> bb_id x = bb_id y) \<and>
     (\<forall>b \<in> set (booths d). bo_state b = Booth_Unavailable \<longrightarrow> (\<exists>x \<in> set (bookings d). confirmed_on (bo_id b) x))"

lemma exclusive_wallI:
  assumes "distinct (map bo_id (booths d))" and "distinct (map bb_id (bookings d))"
    and "\<And>x. x \<in> set (bookings d) \<Longrightarrow> bb_booth_id x \<in> bo_id ` set (booths d)"
    and "\<And>x y. x \<in> set (bookings d) \<Longrightarrow> y \<in> set (bookings d) \<Longrightarrow> confirmed_on (bb_booth_id y) x \<Longrightarrow>
      bb_status y = Booking_Confirmed \<Longrightarrow> bb_id x = bb_id y"
    and "\<And>b. b \<in> set (booths d) \<Longrightarrow> bo_state b = Booth_Unavailable \<Longrightarrow> \<exists>x \<in> set (bookings d). confirmed_on (bo_id b) x"
  shows "exclusive_wall d"
  using assms unfolding exclusive_wall_def confirmed_on_def by blast

lemma exclusive_wallD:
  assumes "exclusive_wall d"
  shows "distinct (map bo_id (booths d))" "distinct (map bb_id (bookings d))"
    "\<And>x. x \<in> set (bookings d) \<Longrightarrow> bb_booth_id x \<in> bo_id ` set (booths d)"
    "\<And>x y i. x \<in> set (bookings d) \<Longrightarrow> y \<in> set (bookings d) \<Longrightarrow> confirmed_on i x \<Longrightarrow> confirmed_on i y \<Longrightarrow> bb_id x = bb_id y"
    "\<And>b. b \<in> set (booths d) \<Longrightarrow> bo_state b = Booth_Unavailable \<Longrightarrow> \<exists>x \<in> set (bookings d). confirmed_on (bo_id b) x"
proof -
  show "\<And>x y i. x \<in> set (bookings d) \<Longrightarrow> y \<in> set (bookings d) \<Longrightarrow> confirmed_on i x \<Longrightarrow> confirmed_on i y \<Longrightarrow> bb_id x = bb_id y"
    using assms unfolding exclusive_wall_def confirmed_on_def by metis
qed (use assms in \<open>auto simp: exclusive_wall_def\<close>)

lemma booth_inv_wall: assumes inv: "booth_inv d" shows "exclusive_wall d"
proof (rule exclusive_wallI)
  fix x y assume "x \<in> set (bookings d)" "y \<in> set (bookings d)" "confirmed_on (bb_booth_id y) x"
    "bb_status y = Booking_Confirmed"
  then show "bb_id x = bb_id y" using booth_inv_exclusive [OF inv, of y "bb_booth_id y"] by (auto simp: confirmed_on_def)
next
  fix b assume "b \<in> set (booths d)" "bo_state b = Booth_Unavailable"
  then have "0 < count_rows (confirmed_on (bo_id b)) (bookings d)" using booth_invD(4) [OF inv] by simp
  then show "\<exists>x \<in> set (bookings d). confirmed_on (bo_id b) x" by (auto simp: count_rows_pos_iff)
qed (use booth_invD [OF inv] in auto)

text \<open>What a transaction has read stays true while it holds its locks.\<close>

fun booth_knows :: "booth_verb \<Rightarrow> booth_phase \<Rightarrow> db \<Rightarrow> bool" where
  "booth_knows (Confirm_Booking i) (Confirm_Locked bb b) d \<longleftrightarrow> bb \<in> set (bookings d) \<and> bb_id bb = i"
| "booth_knows (Confirm_Booking i) (Confirm_Flipped bb b) d \<longleftrightarrow>
     bb \<in> set (bookings d) \<and> bb_id bb = i \<and> (\<forall>x \<in> set (bookings d). \<not> confirmed_on (bb_booth_id bb) x)"
| "booth_knows (Release_Booth i) (Release_Deleted ids) d \<longleftrightarrow>
     (\<forall>k \<in> set ids. \<exists>x \<in> set (bookings d). bb_id x = k \<and> bb_booth_id x = i)"
| "booth_knows v p d \<longleftrightarrow> True"

text \<open>
  What a statement leaves alone: booths it has not locked, bookings it has not locked, and the
  absence of confirmed bookings on booths it has not locked.
\<close>

definition others_keep :: "uuid set \<Rightarrow> uuid set \<Rightarrow> db \<Rightarrow> db \<Rightarrow> bool" where
  "others_keep B K d d' \<longleftrightarrow>
     (\<forall>x \<in> set (bookings d). bb_id x \<notin> K \<longrightarrow> x \<in> set (bookings d')) \<and>
     (\<forall>x \<in> set (bookings d'). bb_status x = Booking_Confirmed \<and> bb_booth_id x \<notin> B \<longrightarrow> x \<in> set (bookings d))"

lemma others_keep_refl [simp]: "others_keep B K d d"
  by (simp add: others_keep_def)

lemma others_keep_bookings: "bookings d' = bookings d \<Longrightarrow> others_keep B K d d'"
  by (simp add: others_keep_def)

lemma booth_knows_stable:
  assumes knows: "booth_knows v p d" and keep: "others_keep B K d d'"
    and held: "held_booths p \<inter> B = {}" "held_bookings p \<inter> K = {}"
  shows "booth_knows v p d'"
proof (cases "(v, p, d)" rule: booth_knows.cases)
  case (1 i bb b _)
  then show ?thesis using knows keep held by (auto simp: others_keep_def)
next
  case (2 i bb b _)
  then have bb: "bb \<in> set (bookings d)" "bb_id bb = i" "\<forall>x \<in> set (bookings d). \<not> confirmed_on (bb_booth_id bb) x"
    and out: "bb_booth_id bb \<notin> B" "bb_id bb \<notin> K" using knows held by auto
  then have "bb \<in> set (bookings d')" using keep by (auto simp: others_keep_def)
  moreover have "\<not> confirmed_on (bb_booth_id bb) x" if "x \<in> set (bookings d')" for x
    using keep bb(3) out(1) that by (auto simp: others_keep_def confirmed_on_def)
  ultimately show ?thesis using 2 bb(2) by simp
next
  case (3 i ids _)
  then have mine: "\<exists>x \<in> set (bookings d). bb_id x = k \<and> bb_booth_id x = i" and "k \<notin> K" if "k \<in> set ids" for k
    using knows held that by auto
  then have "\<exists>x \<in> set (bookings d'). bb_id x = k \<and> bb_booth_id x = i" if "k \<in> set ids" for k
    using keep that unfolding others_keep_def by metis
  then show ?thesis using 3 by simp
qed (use knows in simp_all)

text \<open>What one statement does, for each kind of transaction.\<close>

definition sound_statement :: "booth_verb \<Rightarrow> booth_phase \<Rightarrow> db \<Rightarrow> booth_phase \<Rightarrow> db \<Rightarrow> bool" where
  "sound_statement v p d p' d' \<longleftrightarrow>
     exclusive_wall d' \<and> booth_knows v p' d' \<and>
     others_keep (held_booths p \<union> wanted_booths v p d) (held_bookings p \<union> wanted_bookings v p) d d' \<and>
     held_booths p' \<subseteq> held_booths p \<union> wanted_booths v p d \<and>
     held_bookings p' \<subseteq> held_bookings p \<union> wanted_bookings v p"

lemma sound_read:
  assumes "exclusive_wall d" and "d' = d" and "booth_knows v p' d" and "held_booths p' \<subseteq> held_booths p \<union> wanted_booths v p d"
    and "held_bookings p' \<subseteq> held_bookings p \<union> wanted_bookings v p"
  shows "sound_statement v p d p' d'"
  using assms by (simp add: sound_statement_def)

lemma exclusive_wall_same:
  "booths d' = booths d \<Longrightarrow> bookings d' = bookings d \<Longrightarrow> exclusive_wall d' \<longleftrightarrow> exclusive_wall d"
  by (simp add: exclusive_wall_def)

lemma audit_tables [simp]:
  "booths (record_audit a b c e f d) = booths d" "bookings (record_audit a b c e f d) = bookings d"
  by (simp_all add: record_audit_def)

lemma wall_more_bookings:
  assumes wall: "exclusive_wall d" and "bookings d' = bookings d @ [bb]" and "booths d' = booths d"
    and "bb_id bb \<notin> bb_id ` set (bookings d)" and "bb_status bb = Booking_Pending"
    and "bb_booth_id bb \<in> bo_id ` set (booths d)"
  shows "exclusive_wall d'"
proof (rule exclusive_wallI)
  fix x y assume "x \<in> set (bookings d')" "y \<in> set (bookings d')" "confirmed_on (bb_booth_id y) x"
    "bb_status y = Booking_Confirmed"
  then show "bb_id x = bb_id y" using exclusive_wallD(4) [OF wall, of x y "bb_booth_id y"] assms(2,5)
    by (auto simp: confirmed_on_def)
qed (use exclusive_wallD [OF wall] assms in auto)

lemma wall_booths_updated:
  assumes wall: "exclusive_wall d" and same: "bookings d' = bookings d" and upd: "booths d' = upd_rows q f (booths d)"
    and f: "\<And>b. bo_id (f b) = bo_id b" "\<And>b. bo_state (f b) = bo_state b"
  shows "exclusive_wall d'"
proof (rule exclusive_wallI)
  have "map bo_id (booths d') = map bo_id (booths d)" by (simp add: upd map_upd_rows f)
  then show "distinct (map bo_id (booths d'))" and
    "\<And>x. x \<in> set (bookings d') \<Longrightarrow> bb_booth_id x \<in> bo_id ` set (booths d')"
    using exclusive_wallD(1,3) [OF wall] same by (simp, metis list.set_map)
  fix b assume "b \<in> set (booths d')" "bo_state b = Booth_Unavailable"
  then obtain c where "c \<in> set (booths d)" "bo_id c = bo_id b" "bo_state c = Booth_Unavailable"
    by (auto simp: upd in_upd_rows_iff f split: if_splits)
  then show "\<exists>x \<in> set (bookings d'). confirmed_on (bo_id b) x" using exclusive_wallD(5) [OF wall] same by metis
next
  fix x y assume "x \<in> set (bookings d')" "y \<in> set (bookings d')" "confirmed_on (bb_booth_id y) x"
    "bb_status y = Booking_Confirmed"
  then show "bb_id x = bb_id y" using exclusive_wallD(4) [OF wall, of x y "bb_booth_id y"] same
    by (simp add: confirmed_on_def)
qed (use exclusive_wallD(2) [OF wall] same in simp)

lemma intent_sound:
  assumes wall: "exclusive_wall d" and step: "booth_advance (Create_Booking fresh booth input) p d = (p', d')"
  shows "sound_statement (Create_Booking fresh booth input) p d p' d'"
proof (cases p)
  case (Intent_Checked b)
  let ?bb = "\<lparr>bb_id = fresh, bb_booth_id = booth, bb_line_id = bi_line_id input, bb_status = Booking_Pending,
    bb_partner_id = bi_partner_id input, bb_contact_name = bi_contact_name input,
    bb_contact_email = bi_contact_email input, bb_contact_phone = bi_contact_phone input\<rparr>"
  show ?thesis
  proof (cases "booking_unique_ok ?bb d \<and> booth_by_id booth d \<noteq> None")
    case True
    with step Intent_Checked have p': "p' = Booth_Finished None" and
      new: "bookings d' = bookings d @ [?bb]" "booths d' = booths d"
      by (auto simp: intent_advance_def Let_def commit_booth_def)
    have "fresh \<notin> bb_id ` set (bookings d)" using True by (auto simp: booking_unique_ok_def exists_row_iff)
    moreover have "booth \<in> bo_id ` set (booths d)" using True booth_by_id_in by fastforce
    ultimately have "exclusive_wall d'" by (intro wall_more_bookings [OF wall new]) simp_all
    then show ?thesis by (simp add: sound_statement_def p' Intent_Checked others_keep_def new)
  next
    case False
    with step wall Intent_Checked show ?thesis
      by (auto simp: intent_advance_def Let_def refuse_def sound_statement_def split: if_splits)
  qed
qed (use wall step in \<open>auto intro!: sound_read simp: intent_advance_def refuse_def split: option.splits if_splits\<close>)

lemma confirm_sound:
  assumes wall: "exclusive_wall d" and knows: "booth_knows (Confirm_Booking i) p d"
    and step: "booth_advance (Confirm_Booking i) p d = (p', d')"
  shows "sound_statement (Confirm_Booking i) p d p' d'"
proof (cases p)
  case (Confirm_Flipped bb b)
  with knows have bb: "bb \<in> set (bookings d)" "bb_id bb = i"
    and none: "\<And>x. x \<in> set (bookings d) \<Longrightarrow> \<not> confirmed_on (bb_booth_id bb) x" by auto
  have the_bb: "x = bb" if "x \<in> set (bookings d)" "bb_id x = i" for x
    using key_unique [OF exclusive_wallD(2) [OF wall] that(1) bb(1)] that bb by simp
  let ?flip = "\<lambda>x. x\<lparr>bb_status := Booking_Confirmed\<rparr>"
  from step Confirm_Flipped have p': "p' = Booth_Finished None"
    and books: "bookings d' = upd_rows (\<lambda>x. bb_id x = i) ?flip (bookings d)"
    and bths: "booths d' = upd_rows (\<lambda>x. bo_id x = bb_booth_id bb) (confirm_booth_row bb) (booths d)"
    by (auto simp: confirm_advance_def commit_booth_def)
  have ids: "map bo_id (booths d') = map bo_id (booths d)" "map bb_id (bookings d') = map bb_id (bookings d)"
    by (simp_all add: books bths map_upd_rows)
  then have img: "bo_id ` set (booths d') = bo_id ` set (booths d)" by (metis list.set_map)
  have old: "x = ?flip bb \<or> x \<in> set (bookings d) \<and> bb_id x \<noteq> i" if "x \<in> set (bookings d')" for x
    using that the_bb by (auto simp: books in_upd_rows_iff split: if_splits)
  have "exclusive_wall d'"
  proof (rule exclusive_wallI)
    fix x assume "x \<in> set (bookings d')"
    from old [OF this] show "bb_booth_id x \<in> bo_id ` set (booths d')"
      using exclusive_wallD(3) [OF wall] bb(1) by (auto simp: img)
  next
    fix x y assume "x \<in> set (bookings d')" "y \<in> set (bookings d')" "confirmed_on (bb_booth_id y) x"
      "bb_status y = Booking_Confirmed"
    then show "bb_id x = bb_id y"
      using old [of x] old [of y] none [of x] none [of y] exclusive_wallD(4) [OF wall, of x y "bb_booth_id y"]
      by (auto simp: confirmed_on_def)
  next
    fix c assume c: "c \<in> set (booths d')" "bo_state c = Booth_Unavailable"
    show "\<exists>x \<in> set (bookings d'). confirmed_on (bo_id c) x"
    proof (cases "bo_id c = bb_booth_id bb")
      case True
      have "?flip bb \<in> set (bookings d')" using bb by (auto simp: books in_upd_rows_iff)
      moreover have "confirmed_on (bo_id c) (?flip bb)" using True by (simp add: confirmed_on_def)
      ultimately show ?thesis by blast
    next
      case False
      with c have "c \<in> set (booths d)" by (auto simp: bths in_upd_rows_iff split: if_splits)
      then obtain x where x: "x \<in> set (bookings d)" "confirmed_on (bo_id c) x" using exclusive_wallD(5) [OF wall] c(2) by blast
      then have "x \<in> set (bookings d')" using the_bb [of x] none [OF bb(1)] False
        by (auto simp: books in_upd_rows_iff confirmed_on_def)
      with x(2) show ?thesis by blast
    qed
  qed (use exclusive_wallD(1,2) [OF wall] ids in auto)
  moreover have "others_keep {bb_booth_id bb} {i} d d'"
    unfolding others_keep_def
  proof (intro conjI ballI impI)
    fix x assume "x \<in> set (bookings d)" "bb_id x \<notin> {i}"
    then show "x \<in> set (bookings d')" unfolding books in_upd_rows_iff by auto
  next
    fix x assume "x \<in> set (bookings d')" "bb_status x = Booking_Confirmed \<and> bb_booth_id x \<notin> {bb_booth_id bb}"
    then show "x \<in> set (bookings d)" using old [of x] by auto
  qed
  ultimately show ?thesis by (simp add: sound_statement_def p' Confirm_Flipped bb)
next
  case Booth_Begun
  then show ?thesis using wall step
    by (auto intro!: sound_read simp: confirm_advance_def refuse_def split: option.splits if_splits
        dest: booking_by_id_in)
qed (use wall step knows in
    \<open>auto intro!: sound_read simp: confirm_advance_def refuse_def exists_row_iff split: if_splits\<close>)

lemma release_sound:
  assumes wall: "exclusive_wall d" and knows: "booth_knows (Release_Booth i) p d"
    and step: "booth_advance (Release_Booth i) p d = (p', d')"
  shows "sound_statement (Release_Booth i) p d p' d'"
proof (cases p)
  case (Release_Deleted ids)
  show ?thesis
  proof (cases "exists_row (\<lambda>b. bo_id b = i \<and> bo_state b = Booth_Unavailable) (booths d)")
    case True
    let ?free = "\<lambda>x. x\<lparr>bo_state := Booth_Available\<rparr>"
    from True step Release_Deleted have p': "p' = Booth_Finished None"
      and books: "bookings d' = del_rows (\<lambda>bb. bb_id bb \<in> set ids) (bookings d)"
      and bths: "booths d' = upd_rows (\<lambda>x. bo_id x = i \<and> bo_state x = Booth_Unavailable) ?free (booths d)"
      by (auto simp: release_advance_def commit_booth_def)
    have mine: "bb_booth_id x = i" if "x \<in> set (bookings d)" "bb_id x \<in> set ids" for x
      using knows Release_Deleted that key_unique [OF exclusive_wallD(2) [OF wall]] by fastforce
    have map: "map bo_id (booths d') = map bo_id (booths d)" by (simp add: bths map_upd_rows)
    then have img: "bo_id ` set (booths d') = bo_id ` set (booths d)" by (metis list.set_map)
    have "exclusive_wall d'"
    proof (rule exclusive_wallI)
      show "distinct (map bb_id (bookings d'))"
        using exclusive_wallD(2) [OF wall] by (simp add: books del_rows_def distinct_map_filter)
      fix b assume b: "b \<in> set (booths d')" "bo_state b = Booth_Unavailable"
      from b(1) obtain r where r: "r \<in> set (booths d)"
        "b = (if bo_id r = i \<and> bo_state r = Booth_Unavailable then ?free r else r)"
        unfolding bths in_upd_rows_iff by blast
      with b(2) have "b \<in> set (booths d)" "bo_id b \<noteq> i" by (simp_all split: if_splits)
      with exclusive_wallD(5) [OF wall] b(2) obtain x where x: "x \<in> set (bookings d)" "confirmed_on (bo_id b) x" by blast
      then have "x \<in> set (bookings d')" using mine [of x] \<open>bo_id b \<noteq> i\<close>
        by (auto simp: books in_del_rows_iff confirmed_on_def)
      with x(2) show "\<exists>x \<in> set (bookings d'). confirmed_on (bo_id b) x" by blast
    next
      fix x y assume "x \<in> set (bookings d')" "y \<in> set (bookings d')" "confirmed_on (bb_booth_id y) x"
        "bb_status y = Booking_Confirmed"
      then show "bb_id x = bb_id y" using exclusive_wallD(4) [OF wall, of x y "bb_booth_id y"]
        by (auto simp: books in_del_rows_iff confirmed_on_def)
    qed (use exclusive_wallD(1,3) [OF wall] map img in \<open>auto simp: books in_del_rows_iff\<close>)
    then show ?thesis
      by (auto simp: sound_statement_def p' Release_Deleted others_keep_def books in_del_rows_iff)
  next
    case False
    with step Release_Deleted wall show ?thesis
      by (auto simp: release_advance_def refuse_def sound_statement_def)
  qed
qed (use wall step in \<open>auto intro!: sound_read simp: release_advance_def exists_row_iff\<close>)

lemma delete_sound:
  assumes wall: "exclusive_wall d" and step: "booth_advance (Delete_Booth i) p d = (p', d')"
  shows "sound_statement (Delete_Booth i) p d p' d'"
proof (cases p)
  case (Delete_Locked b)
  show ?thesis
  proof (cases "exists_row (\<lambda>bb. bb_booth_id bb = i) (bookings d)")
    case True
    with step Delete_Locked wall show ?thesis by (auto simp: delete_advance_def refuse_def sound_statement_def)
  next
    case False
    with step Delete_Locked have p': "p' = Booth_Finished None" and
      new: "bookings d' = bookings d" "booths d' = del_rows (\<lambda>x. bo_id x = i) (booths d)"
      by (auto simp: delete_advance_def commit_booth_def)
    have no: "bb_booth_id x \<noteq> i" if "x \<in> set (bookings d)" for x using False that by (auto simp: exists_row_iff)
    have "exclusive_wall d'"
    proof (rule exclusive_wallI)
      show "distinct (map bo_id (booths d'))"
        using exclusive_wallD(1) [OF wall] by (simp add: new del_rows_def distinct_map_filter)
      fix x assume "x \<in> set (bookings d')"
      then show "bb_booth_id x \<in> bo_id ` set (booths d')"
        using exclusive_wallD(3) [OF wall] no by (fastforce simp: new in_del_rows_iff image_iff)
    next
      fix x y assume "x \<in> set (bookings d')" "y \<in> set (bookings d')" "confirmed_on (bb_booth_id y) x"
        "bb_status y = Booking_Confirmed"
      then show "bb_id x = bb_id y" using exclusive_wallD(4) [OF wall, of x y "bb_booth_id y"]
        by (auto simp: new confirmed_on_def)
    qed (use exclusive_wallD [OF wall] in \<open>auto simp: new in_del_rows_iff\<close>)
    then show ?thesis by (simp add: sound_statement_def p' others_keep_bookings new)
  qed
qed (use wall step in \<open>auto intro!: sound_read simp: delete_advance_def refuse_def
       split: option.splits if_splits dest: booth_by_id_in\<close>)


lemma single_sound:
  assumes wall: "exclusive_wall d" and step: "single_advance v p d = (p', d')"
    and v: "booth_advance v p d = single_advance v p d" "\<And>q. booth_knows v q d'"
    and ok: "\<And>e. booth_step v d = Inr e \<Longrightarrow>
      exclusive_wall e \<and> others_keep (wanted_booths v Booth_Begun d) (wanted_bookings v Booth_Begun) d e"
  shows "sound_statement v p d p' d'"
proof (cases "p = Booth_Begun \<and> \<not> isl (booth_step v d)")
  case True
  then obtain e where "booth_step v d = Inr e" by (cases "booth_step v d") auto
  with step True have "p' = Booth_Finished None" "d' = e" by (simp_all add: single_advance_def commit_booth_def)
  with ok [OF \<open>booth_step v d = Inr e\<close>] True v(2) show ?thesis by (simp add: sound_statement_def)
next
  case False
  then have "d' = d \<and> (p' = p \<or> (\<exists>e. p' = Booth_Finished (Some e)))"
    using step by (auto simp: single_advance_def refuse_def split: sum.splits if_splits)
  then show ?thesis using wall v(2) by (auto intro!: sound_read)
qed

lemma create_booth_keeps:
  assumes "exclusive_wall d" and "booth_step (Create_Booth i e c n) d = Inr d'"
  shows "exclusive_wall d' \<and> bookings d' = bookings d"
proof -
  from assms(2) obtain b where new: "booths d' = booths d @ [b]" "bookings d' = bookings d" "bo_id b = i"
    "bo_state b = Booth_Available" "i \<notin> bo_id ` set (booths d)"
    by (auto simp: create_booth_def Let_def result_simps exists_key_iff split: if_splits)
  have "exclusive_wall d'"
  proof (rule exclusive_wallI)
    fix x y assume "x \<in> set (bookings d')" "y \<in> set (bookings d')" "confirmed_on (bb_booth_id y) x"
      "bb_status y = Booking_Confirmed"
    then show "bb_id x = bb_id y" using exclusive_wallD(4) [OF assms(1), of x y "bb_booth_id y"] new(2)
      by (simp add: confirmed_on_def)
  qed (use exclusive_wallD [OF assms(1)] new in auto)
  with new(2) show ?thesis by simp
qed

lemma delete_booking_keeps:
  assumes wall: "exclusive_wall d" and "booth_step (Delete_Booking i) d = Inr d'"
  shows "exclusive_wall d' \<and> others_keep {} {i} d d'"
proof -
  from assms(2) have new: "booths d' = booths d"
    "bookings d' = del_rows (\<lambda>bb. bb_id bb = i \<and> bb_status bb = Booking_Pending) (bookings d)"
    by (auto simp: delete_booking_def result_simps split: if_splits)
  have "exclusive_wall d'"
  proof (rule exclusive_wallI)
    show "distinct (map bb_id (bookings d'))"
      using exclusive_wallD(2) [OF wall] by (simp add: new del_rows_def distinct_map_filter)
    fix b assume "b \<in> set (booths d')" "bo_state b = Booth_Unavailable"
    then obtain x where x: "x \<in> set (bookings d)" "confirmed_on (bo_id b) x"
      using exclusive_wallD(5) [OF wall] new(1) by auto
    then have "x \<in> set (bookings d')" by (simp add: new in_del_rows_iff confirmed_on_def)
    with x(2) show "\<exists>x \<in> set (bookings d'). confirmed_on (bo_id b) x" by blast
  next
    fix x y assume "x \<in> set (bookings d')" "y \<in> set (bookings d')" "confirmed_on (bb_booth_id y) x"
      "bb_status y = Booking_Confirmed"
    then show "bb_id x = bb_id y" using exclusive_wallD(4) [OF wall, of x y "bb_booth_id y"]
      by (simp add: new in_del_rows_iff confirmed_on_def)
  qed (use exclusive_wallD(1,3) [OF wall] in \<open>simp_all add: new in_del_rows_iff\<close>)
  then show ?thesis by (auto simp: others_keep_def new in_del_rows_iff)
qed

lemma patch_keeps:
  assumes "exclusive_wall d" and "booth_step (Patch_Booth i q) d = Inr d'"
  shows "exclusive_wall d' \<and> bookings d' = bookings d"
proof -
  from assms(2) obtain b where "patch_booth (\<lambda>_. True) i q None d = Inr (b, d')" by (auto simp: result_simps)
  from patch_boothD [OF this] wall_booths_updated [OF assms(1)] show ?thesis by simp
qed

lemma paid_keeps:
  assumes "exclusive_wall d" and "booth_step (Mark_Paid ls) d = Inr d'"
  shows "exclusive_wall d' \<and> bookings d' = bookings d"
proof -
  from assms(2) have d': "d' = snd (mark_booths_paid ls d)" by simp
  show ?thesis unfolding d'
    by (rule conjI [OF wall_booths_updated [OF assms(1) mark_booths_paid_booths(2,1)] mark_booths_paid_booths(2)]) simp_all
qed

lemma booth_advance_sound:
  assumes "exclusive_wall d" and "booth_knows v p d" and "booth_advance v p d = (p', d')"
  shows "sound_statement v p d p' d'"
proof (cases v)
  case (Create_Booking fresh booth input)
  show ?thesis using intent_sound assms unfolding Create_Booking by blast
next
  case (Confirm_Booking i)
  show ?thesis using confirm_sound assms unfolding Confirm_Booking by blast
next
  case (Release_Booth i)
  show ?thesis using release_sound assms unfolding Release_Booth by blast
next
  case (Delete_Booth i)
  show ?thesis using delete_sound assms unfolding Delete_Booth by blast
next
  case (Create_Booth i e c n)
  show ?thesis unfolding Create_Booth
    by (rule single_sound [OF assms(1)])
      (use assms(3) Create_Booth create_booth_keeps [OF assms(1), of i e c n] in \<open>auto simp del: booth_step.simps intro: others_keep_bookings\<close>)
next
  case (Patch_Booth i q)
  show ?thesis unfolding Patch_Booth
    by (rule single_sound [OF assms(1)])
      (use assms(3) Patch_Booth patch_keeps [OF assms(1), of i q] in \<open>auto simp del: booth_step.simps intro: others_keep_bookings\<close>)
next
  case (Delete_Booking i)
  show ?thesis unfolding Delete_Booking
    by (rule single_sound [OF assms(1)])
      (use assms(3) Delete_Booking delete_booking_keeps [OF assms(1), of i] in \<open>auto simp del: booth_step.simps\<close>)
next
  case (Mark_Paid ls)
  show ?thesis unfolding Mark_Paid
    by (rule single_sound [OF assms(1)])
      (use assms(3) Mark_Paid paid_keeps [OF assms(1), of ls] in \<open>auto simp del: booth_step.simps intro: others_keep_bookings\<close>)
qed

section \<open>Any interleaving\<close>

definition booths_consistent :: "booth_system \<Rightarrow> bool" where
  "booths_consistent s \<longleftrightarrow>
     exclusive_wall (bs_db s) \<and>
     (\<forall>k < length (bs_calls s). booth_knows (fst (bs_calls s ! k)) (snd (bs_calls s ! k)) (bs_db s)) \<and>
     (\<forall>j < length (bs_calls s). \<forall>k < length (bs_calls s). j \<noteq> k \<longrightarrow>
        held_booths (snd (bs_calls s ! j)) \<inter> held_booths (snd (bs_calls s ! k)) = {} \<and>
        held_bookings (snd (bs_calls s ! j)) \<inter> held_bookings (snd (bs_calls s ! k)) = {})"

lemma consistent_booth_start: "exclusive_wall d \<Longrightarrow> booths_consistent (booth_start vs d)"
proof -
  have "booth_knows v Booth_Begun d" for v by (cases v) simp_all
  then show "exclusive_wall d \<Longrightarrow> booths_consistent (booth_start vs d)"
    by (simp add: booths_consistent_def booth_start_def)
qed

lemma consistent_booth_statement:
  assumes ok: "booths_consistent s" and run: "booth_runnable k s"
  shows "booths_consistent (booth_statement k s)"
proof -
  obtain v p where vp: "bs_calls s ! k = (v, p)" by (cases "bs_calls s ! k")
  obtain p' d' where step: "booth_advance v p (bs_db s) = (p', d')" by (cases "booth_advance v p (bs_db s)")
  have k: "k < length (bs_calls s)" using run by (simp add: booth_runnable_def)
  let ?n = "length (bs_calls s)"
  define ph where "ph j = snd (bs_calls s ! j)" for j
  have knows: "booth_knows (fst (bs_calls s ! j)) (ph j) (bs_db s)" if "j < ?n" for j
    using ok that by (simp add: booths_consistent_def ph_def)
  have apart: "held_booths (ph j) \<inter> held_booths (ph l) = {} \<and> held_bookings (ph j) \<inter> held_bookings (ph l) = {}"
    if "j < ?n" "l < ?n" "j \<noteq> l" for j l
    using ok that by (simp add: booths_consistent_def ph_def)
  have p: "ph k = p" by (simp add: ph_def vp)
  have free: "held_booths (ph j) \<inter> wanted_booths v p (bs_db s) = {} \<and> held_bookings (ph j) \<inter> wanted_bookings v p = {}"
    if "j < ?n" "j \<noteq> k" for j
    using run that by (auto simp: booth_runnable_def vp list_all_iff ph_def)
  have "booth_knows v p (bs_db s)" using knows [OF k] vp by (simp add: p)
  from booth_advance_sound [OF _ this step] ok have sound: "sound_statement v p (bs_db s) p' d'"
    by (simp add: booths_consistent_def)
  have others: "booth_knows (fst (bs_calls s ! j)) (ph j) d' \<and> held_booths (ph j) \<inter> held_booths p' = {} \<and>
      held_bookings (ph j) \<inter> held_bookings p' = {}" if "j < ?n" "j \<noteq> k" for j
  proof -
    have booth: "held_booths (ph j) \<inter> (held_booths p \<union> wanted_booths v p (bs_db s)) = {}"
      and book: "held_bookings (ph j) \<inter> (held_bookings p \<union> wanted_bookings v p) = {}"
      using free [OF that] apart [OF that(1) k that(2)] by (auto simp: p)
    with sound show ?thesis
      using booth_knows_stable [OF knows [OF that(1)] _ booth book] unfolding sound_statement_def by blast
  qed
  have new: "bs_calls (booth_statement k s) ! j = (if j = k then (v, p') else bs_calls s ! j)" if "j < ?n" for j
    using that k by (simp add: booth_statement_def vp step nth_list_update)
  have db: "bs_db (booth_statement k s) = d'" and len: "length (bs_calls (booth_statement k s)) = ?n"
    by (simp_all add: booth_statement_def vp step)
  show ?thesis
    unfolding booths_consistent_def db len
  proof (intro conjI allI impI)
    show "exclusive_wall d'" using sound by (simp add: sound_statement_def)
    fix j assume j: "j < ?n"
    show "booth_knows (fst (bs_calls (booth_statement k s) ! j)) (snd (bs_calls (booth_statement k s) ! j)) d'"
      using others [OF j] sound by (simp add: new [OF j] sound_statement_def ph_def)
    fix l assume l: "l < ?n" "j \<noteq> l"
    show "held_booths (snd (bs_calls (booth_statement k s) ! j)) \<inter> held_booths (snd (bs_calls (booth_statement k s) ! l)) = {}"
      "held_bookings (snd (bs_calls (booth_statement k s) ! j)) \<inter> held_bookings (snd (bs_calls (booth_statement k s) ! l)) = {}"
      using others [OF j] others [OF l(1)] apart [OF j l] l by (auto simp: new [OF j] new [OF l(1)] ph_def)
  qed
qed

lemma booths_consistent_reached:
  assumes "booth_statement_step\<^sup>*\<^sup>* (booth_start vs d) s" and "exclusive_wall d"
  shows "booths_consistent s"
  using assms(1)
proof (induction rule: rtranclp_induct)
  case base
  show ?case using consistent_booth_start assms(2) .
next
  case (step s t)
  then show ?case by (auto elim: booth_statement_stepE intro: consistent_booth_statement)
qed

text \<open>
  C6. The exclusivity wall holds under overlap: in whatever order the statements of any number of
  booth and booking transactions run, every committed database has at most one confirmed booking per
  booth, no booking without its booth, and no unavailable booth without a confirmed booking.
\<close>

theorem overlapping_confirms_keep_the_wall:
  assumes "booth_statement_step\<^sup>*\<^sup>* (booth_start vs d) s" and "booth_inv d"
  shows "(\<forall>x \<in> set (bookings (bs_db s)). \<forall>y \<in> set (bookings (bs_db s)).
      bb_status x = Booking_Confirmed \<and> bb_status y = Booking_Confirmed \<and> bb_booth_id x = bb_booth_id y \<longrightarrow> x = y) \<and>
    (\<forall>x \<in> set (bookings (bs_db s)). \<exists>b \<in> set (booths (bs_db s)). bo_id b = bb_booth_id x) \<and>
    (\<forall>b \<in> set (booths (bs_db s)). bo_state b = Booth_Unavailable \<longrightarrow>
       (\<exists>x \<in> set (bookings (bs_db s)). bb_booth_id x = bo_id b \<and> bb_status x = Booking_Confirmed))"
proof -
  have wall: "exclusive_wall (bs_db s)"
    using booths_consistent_reached [OF assms(1) booth_inv_wall [OF assms(2)]] by (simp add: booths_consistent_def)
  have "x = y" if "x \<in> set (bookings (bs_db s))" "y \<in> set (bookings (bs_db s))" "bb_status x = Booking_Confirmed"
    "bb_status y = Booking_Confirmed" "bb_booth_id x = bb_booth_id y" for x y
    using exclusive_wallD(4) [OF wall that(1,2), of "bb_booth_id y"] that key_unique [OF exclusive_wallD(2) [OF wall] that(1,2)]
    by (simp add: confirmed_on_def)
  then show ?thesis using exclusive_wallD(3,5) [OF wall] by (fastforce simp: confirmed_on_def)
qed


lemmas overlap_eval = booth_start_def booth_runnable_def booth_statement_def intent_advance_def confirm_advance_def
  release_advance_def refuse_def commit_booth_def booth_by_id_def booking_by_id_def
  exists_row_def sel_rows_def del_rows_def upd_rows_def crosses_events_def booking_unique_ok_def confirmed_on_def
  confirm_booth_row_def record_audit_def Let_def upt_rec ex_db_def ex_booth_def ex_booking_def empty_db_def

definition ex_confirms :: booth_system where
  "ex_confirms = booth_schedule [0, 1, 0, 0, 1] (booth_start [Confirm_Booking 85, Confirm_Booking 86] ex_db)"

lemma ex_confirms_outcome:
  "map snd (bs_calls ex_confirms) = [Booth_Finished None, Booth_Finished (Some (BoothAlreadyConfirmed 80))]"
  "ex_booking 85 80 (Some 95) Booking_Confirmed \<in> set (bookings (bs_db ex_confirms))"
  by (simp_all add: ex_confirms_def overlap_eval)


theorem overlapping_confirms_keep_the_wall_witness:
  "map snd (bs_calls ex_confirms) = [Booth_Finished None, Booth_Finished (Some (BoothAlreadyConfirmed 80))] \<and>
   ex_booking 85 80 (Some 95) Booking_Confirmed \<in> set (bookings (bs_db ex_confirms)) \<and>
   ex_booking 86 80 None Booking_Confirmed \<notin> set (bookings (bs_db ex_confirms))"
proof -
  have "booth_statement_step\<^sup>*\<^sup>* (booth_start [Confirm_Booking 85, Confirm_Booking 86] ex_db) ex_confirms"
    unfolding ex_confirms_def by (rule booth_schedule_reaches)
  note wall = overlapping_confirms_keep_the_wall [OF this ex_booth_inv, THEN conjunct1]
  have "ex_booking 86 80 None Booking_Confirmed \<notin> set (bookings (bs_db ex_confirms))"
  proof
    assume "ex_booking 86 80 None Booking_Confirmed \<in> set (bookings (bs_db ex_confirms))"
    from bspec [OF bspec [OF wall ex_confirms_outcome(2)] this] show False by (simp add: ex_booking_def)
  qed
  with ex_confirms_outcome show ?thesis by simp
qed

section \<open>What overlap breaks\<close>

text \<open>
  A booth that is available and has a confirmed booking: no verb ever changes that again. The
  confirm is refused by the index, the release and the withdrawal by their guards, the delete by the
  count.
\<close>

definition stranded :: "uuid \<Rightarrow> db \<Rightarrow> bool" where
  "stranded i d \<longleftrightarrow>
     distinct (map bo_id (booths d)) \<and>
     (\<exists>b \<in> set (booths d). bo_id b = i \<and> bo_state b = Booth_Available) \<and>
     (\<exists>x \<in> set (bookings d). confirmed_on i x)"

lemma stranded_refuses:
  assumes "stranded i d"
  shows "\<not> (\<exists>k actor bb b d'. confirm_booking checks k actor d = Inr ((bb, b), d') \<and> bb_booth_id bb = i)"
    "release_booth i actor d = Inl (BoothNotFound i)" "isl (delete_booth i actor d)"
proof -
  from assms obtain b x where b: "distinct (map bo_id (booths d))" "b \<in> set (booths d)" "bo_id b = i"
    "bo_state b = Booth_Available" and x: "x \<in> set (bookings d)" "confirmed_on i x" by (auto simp: stranded_def)
  show "\<not> (\<exists>k actor bb b d'. confirm_booking checks k actor d = Inr ((bb, b), d') \<and> bb_booth_id bb = i)"
    using x by (auto elim!: confirm_bookingE)
  have "find (\<lambda>b. bo_id b = i \<and> bo_state b = Booth_Unavailable) (booths d) = None"
    using key_unique [OF b(1) _ b(2)] b(3,4) by (fastforce simp: find_None_iff')
  then show "release_booth i actor d = Inl (BoothNotFound i)" by (simp add: release_booth_def)
  have "0 < count_rows (\<lambda>bb. bb_booth_id bb = i) (bookings d)"
    using x by (auto simp: count_rows_pos_iff confirmed_on_def)
  then show "isl (delete_booth i actor d)" by (cases "booth_by_id i d") (auto simp: delete_booth_def Let_def)
qed

lemma stranded_booths:
  assumes "stranded i d" and "booths d' = upd_rows q f (booths d)"
    and "\<And>b. bo_id (f b) = bo_id b" and "\<And>b. bo_id b = i \<Longrightarrow> q b \<Longrightarrow> bo_state (f b) = bo_state b"
    and "\<And>x. x \<in> set (bookings d) \<Longrightarrow> confirmed_on i x \<Longrightarrow> \<exists>y \<in> set (bookings d'). confirmed_on i y"
  shows "stranded i d'"
proof -
  have "map bo_id (booths d') = map bo_id (booths d)" by (simp add: assms(2,3) map_upd_rows)
  moreover from assms(1) obtain b where b: "b \<in> set (booths d)" "bo_id b = i" "bo_state b = Booth_Available"
    by (auto simp: stranded_def)
  then have "(if q b then f b else b) \<in> set (booths d')" unfolding assms(2) in_upd_rows_iff by blast
  moreover have "bo_id (if q b then f b else b) = i" "bo_state (if q b then f b else b) = Booth_Available"
    using b assms(3,4) by simp_all
  ultimately show ?thesis using assms(1,5) unfolding stranded_def by metis
qed

interpretation stranded: verb_invariant booth_step "\<lambda>_ _. True" "stranded i" for i
proof unfold_locales
  fix v d d' assume step: "booth_step v d = Inr d'" and inv: "stranded i d"
  show "stranded i d'"
  proof (cases v)
    case (Create_Booth j e c n)
    with step obtain b where "booths d' = booths d @ [b]" "bookings d' = bookings d" "bo_id b \<notin> bo_id ` set (booths d)"
      by (auto simp: create_booth_def Let_def result_simps exists_key_iff split: if_splits)
    then show ?thesis using inv by (auto simp: stranded_def)
  next
    case (Patch_Booth j q)
    with step obtain b where "patch_booth (\<lambda>_. True) j q None d = Inr (b, d')" by (auto simp: result_simps)
    from patch_boothD [OF this] show ?thesis
      by (intro stranded_booths [OF inv, where q = "\<lambda>x. bo_id x = j" and f = "patch_booth_row q"]) auto
  next
    case (Delete_Booth j)
    then have "j \<noteq> i" using step stranded_refuses(3) [OF inv, of None] by (cases "delete_booth i None d") auto
    moreover have "booths d' = del_rows (\<lambda>x. bo_id x = j) (booths d)" "bookings d' = bookings d"
      using step Delete_Booth by (auto simp: delete_booth_def Let_def result_simps split: if_splits)
    ultimately show ?thesis using inv by (auto simp: stranded_def in_del_rows_iff del_rows_def distinct_map_filter)
  next
    case (Create_Booking k b input)
    with step obtain bb where "booths d' = booths d" "bookings d' = bookings d @ [bb]"
      by (auto simp: create_booking_def Let_def result_simps split: if_splits)
    then show ?thesis using inv by (auto simp: stranded_def)
  next
    case (Confirm_Booking k)
    with step obtain bb' b' where ok: "confirm_booking (\<lambda>_. True) k None d = Inr ((bb', b'), d')" by (auto simp: result_simps)
    with stranded_refuses(1) [OF inv, of "\<lambda>_. True"] have other: "bb_booth_id bb' \<noteq> i" by blast
    from ok obtain bb where bb: "bb' = bb\<lparr>bb_status := Booking_Confirmed\<rparr>"
      "bookings d' = upd_rows (\<lambda>x. bb_id x = k) (\<lambda>x. x\<lparr>bb_status := Booking_Confirmed\<rparr>) (bookings d)"
      "booths d' = upd_rows (\<lambda>x. bo_id x = bb_booth_id bb) (confirm_booth_row bb) (booths d)" by (elim confirm_bookingE)
    show ?thesis
    proof (rule stranded_booths [OF inv bb(3)])
      fix x assume "x \<in> set (bookings d)" "confirmed_on i x"
      then show "\<exists>y \<in> set (bookings d'). confirmed_on i y"
        by (intro bexI [of _ "if bb_id x = k then x\<lparr>bb_status := Booking_Confirmed\<rparr> else x"])
          (auto simp: bb(2) in_upd_rows_iff confirmed_on_def)
    qed (use other in \<open>simp_all add: bb(1)\<close>)
  next
    case (Release_Booth j)
    then have j: "j \<noteq> i" using step stranded_refuses(2) [OF inv, of None] by auto
    from step Release_Booth have bookings: "bookings d' = del_rows (\<lambda>bb. bb_booth_id bb = j) (bookings d)"
      and booths: "booths d' = upd_rows (\<lambda>x. bo_id x = j \<and> bo_state x = Booth_Unavailable)
        (\<lambda>x. x\<lparr>bo_state := Booth_Available\<rparr>) (booths d)"
      by (auto simp: release_booth_def result_simps)
    show ?thesis
      by (rule stranded_booths [OF inv booths]) (use j in \<open>auto simp: bookings in_del_rows_iff confirmed_on_def\<close>)
  next
    case (Delete_Booking k)
    with step have "booths d' = booths d"
      "bookings d' = del_rows (\<lambda>bb. bb_id bb = k \<and> bb_status bb = Booking_Pending) (bookings d)"
      by (auto simp: delete_booking_def result_simps split: if_splits)
    then show ?thesis using inv by (auto simp: stranded_def in_del_rows_iff confirmed_on_def)
  next
    case (Mark_Paid ls)
    with step have d': "d' = snd (mark_booths_paid ls d)" by simp
    show ?thesis unfolding d'
      by (rule stranded_booths [OF inv mark_booths_paid_booths(1)]) (auto simp: mark_booths_paid_booths(2))
  qed
qed

definition ex_intent :: "uuid option \<Rightarrow> booking_input" where
  "ex_intent line = \<lparr>bi_line_id = line, bi_partner_id = None, bi_contact_name = None, bi_contact_email = None, bi_contact_phone = None\<rparr>"

definition ex_stranding :: booth_system where
  "ex_stranding = booth_schedule [0, 0, 1, 1, 1, 2, 2, 2, 0]
     (booth_start [Release_Booth 80, Create_Booking 87 80 (ex_intent None), Confirm_Booking 87] ex_db)"

lemma ex_stranding_outcome:
  "map snd (bs_calls ex_stranding) = [Booth_Finished None, Booth_Finished None, Booth_Finished None]"
  "stranded 80 (bs_db ex_stranding)"
  by (simp_all add: ex_stranding_def ex_intent_def stranded_def overlap_eval)


definition ex_crossing :: booth_system where
  "ex_crossing = booth_schedule [0, 1, 0, 1, 0, 1]
     (booth_start [Create_Booking 87 80 (ex_intent (Some 99)), Create_Booking 88 81 (ex_intent (Some 99))] ex_db)"

text \<open>
  The rule that an order line books booths of one event is checked without a lock: two overlapping
  intents of one line on booths of two events both pass the check and are both committed, although
  one after the other the second is refused.
\<close>

lemma overlapping_intents_cross_events:
  "\<exists>s. booth_statement_step\<^sup>*\<^sup>*
      (booth_start [Create_Booking 87 80 (ex_intent (Some 99)), Create_Booking 88 81 (ex_intent (Some 99))] ex_db) s \<and>
    map snd (bs_calls s) = [Booth_Finished None, Booth_Finished None] \<and>
    line_event (bs_db s) 99 1 \<and> line_event (bs_db s) 99 2 \<and>
    booth_step (Create_Booking 88 81 (ex_intent (Some 99)))
      (run_verbs booth_step [Create_Booking 87 80 (ex_intent (Some 99))] ex_db) = Inl (BoothBookingLineCrossEvent 99)"
proof (intro exI conjI)
  show "booth_statement_step\<^sup>*\<^sup>*
      (booth_start [Create_Booking 87 80 (ex_intent (Some 99)), Create_Booking 88 81 (ex_intent (Some 99))] ex_db) ex_crossing"
    unfolding ex_crossing_def by (rule booth_schedule_reaches)
  show "map snd (bs_calls ex_crossing) = [Booth_Finished None, Booth_Finished None]"
    "line_event (bs_db ex_crossing) 99 1" "line_event (bs_db ex_crossing) 99 2"
    by (simp_all add: ex_crossing_def ex_intent_def line_event_def overlap_eval)
  show "booth_step (Create_Booking 88 81 (ex_intent (Some 99)))
      (run_verbs booth_step [Create_Booking 87 80 (ex_intent (Some 99))] ex_db) = Inl (BoothBookingLineCrossEvent 99)"
    by (simp add: create_booking_def ex_intent_def overlap_eval)
qed

end
