(* ===== verification/SaleOverlap.thy ===== *)
theory SaleOverlap
  imports SaleSeam
begin

text \<open>
  Overlapping deliveries: the transactions of \<open>sale_seam_repository.rs\<close>, with the routing guard of
  \<open>sale_seam_service.rs\<close> in front, taken apart at their statements. The claim inserts the inbox row,
  which makes a second claim of the same key wait until the first transaction ends; a mint locks the
  event row of every spec it has registered until then. Reads see what is committed, and the own
  writes of the transaction on top of it. A heal, a cancellation and a paid fact commit with the
  statement after the claim; their waiting for rows an open mint has armed is left out, as is a clash of
  two random row ids.
\<close>

section \<open>One delivery\<close>

text \<open>The rows a mint has inserted, each with the environment and command it was made from.\<close>

type_synonym minted_rows = "(seat_env \<times> register_cmd \<times> reg_rec) list"

datatype seam_phase =
    Fact_Begun
  | Fact_Routed
  | Fact_Claimed
  | Fact_Minting minted_rows "register_cmd list"
  | Fact_Finished "event_error + seam_outcome"

text \<open>What the transaction sees of its own mint: the inserts and their arms on top of a database.\<close>

definition mint_view :: "sale_link \<Rightarrow> minted_rows \<Rightarrow> db \<Rightarrow> db" where
  "mint_view link rows d =
     fold (\<lambda>(se, cmd, r) x. after_insert se cmd (Some link) r (x\<lparr>registrations := registrations x @ [r]\<rparr>)) rows d"

definition mint_env :: "seam_env \<Rightarrow> nat \<Rightarrow> seat_env" where
  "mint_env env k = (sv_seat env k)\<lparr>se_now := sv_now env\<rparr>"

definition finish_delivery :: "event_error + (seam_outcome \<times> db) \<Rightarrow> db \<Rightarrow> seam_phase \<times> db" where
  "finish_delivery res d =
     (case res of Inl e \<Rightarrow> (Fact_Finished (Inl e), d) | Inr (out, d') \<Rightarrow> (Fact_Finished (Inr out), d'))"

text \<open>The guards of the service, read from the pool before the transaction begins.\<close>

definition route_advance :: "seam_env \<Rightarrow> delivery \<Rightarrow> db \<Rightarrow> seam_phase" where
  "route_advance env v d =
     (case v of
        Order_Confirmed cmd \<Rightarrow>
          if oc_registrations cmd = [] then Fact_Finished (Inl nothing_to_mint)
          else (case find (\<lambda>s. multi_slot_flag (rs_event_id s) d \<and> rs_slot_id s = None) (oc_registrations cmd) of
                  Some s \<Rightarrow> Fact_Finished (Inl (slotless_refusal (sv_show env) (rs_event_id s)))
                | None \<Rightarrow> Fact_Routed)
      | _ \<Rightarrow> Fact_Routed)"

text \<open>After the claim: the count of linked rows decides, once, between the mint and the heal.\<close>

definition claimed_advance :: "seam_env \<Rightarrow> string \<Rightarrow> delivery \<Rightarrow> db \<Rightarrow> seam_phase \<times> db" where
  "claimed_advance env consumer v d =
     (case v of
        Order_Confirmed cmd \<Rightarrow>
          if count_rows (linked_to (oc_order_id cmd)) (registrations d) = 0
          then (Fact_Minting [] (map spec_command (oc_registrations cmd)), d)
          else finish_delivery (repo_order_confirmed env consumer (oc_delivery_id cmd) (oc_order_id cmd)
                 (oc_grand_total cmd) (map spec_command (oc_registrations cmd)) None d) d
      | _ \<Rightarrow> finish_delivery (deliver env consumer v d) d)"

text \<open>One spec through the seat head, or the commit when no spec is left.\<close>

definition mint_advance ::
    "seam_env \<Rightarrow> string \<Rightarrow> order_confirmed \<Rightarrow> minted_rows \<Rightarrow> register_cmd list \<Rightarrow> db \<Rightarrow> seam_phase \<times> db" where
  "mint_advance env consumer cmd rows specs d =
     (let free = grand_total_is_zero (oc_grand_total cmd); link = mint_link free (oc_order_id cmd);
          mine = mint_view link rows (snd (claim consumer
                   (claim_key (sv_show env) ''confirmed'' (oc_delivery_id cmd) (oc_order_id cmd)) d))
      in case specs of
           [] \<Rightarrow> (Fact_Finished (Inr (applied (length rows) 0)),
                  seam_audit ''sale_seam_confirmed'' None (oc_order_id cmd)
                    (JObj [(''verb'', JStr ''mint''), (''free'', JBool free),
                           (''minted'', JNum (int (length rows))),
                           (''sale_status'', JStr (sk_status link))]) mine)
         | spec # rest \<Rightarrow>
             (case register_core (mint_env env (length rows)) spec (Some link) mine of
                Inl e \<Rightarrow> (Fact_Finished (Inl e), d)
              | Inr (r, _) \<Rightarrow> (Fact_Minting (rows @ [(mint_env env (length rows), spec, r)]) rest, d)))"

fun seam_advance :: "seam_env \<Rightarrow> string \<Rightarrow> delivery \<Rightarrow> seam_phase \<Rightarrow> db \<Rightarrow> seam_phase \<times> db" where
  "seam_advance env consumer v Fact_Begun d = (route_advance env v d, d)"
| "seam_advance env consumer v Fact_Routed d =
     (if fst (claim consumer (inbox_key (sv_show env) v) d) then (Fact_Claimed, d)
      else (Fact_Finished (Inr already_applied), d))"
| "seam_advance env consumer v Fact_Claimed d = claimed_advance env consumer v d"
| "seam_advance env consumer (Order_Confirmed cmd) (Fact_Minting rows specs) d =
     mint_advance env consumer cmd rows specs d"
| "seam_advance env consumer v p d = (p, d)"

section \<open>Locks\<close>

fun open_delivery :: "seam_phase \<Rightarrow> bool" where
  "open_delivery (Fact_Finished _) \<longleftrightarrow> False"
| "open_delivery _ \<longleftrightarrow> True"

text \<open>The inbox key a transaction has inserted, and the one it is about to insert.\<close>

fun holds_key :: "seam_phase \<Rightarrow> bool" where
  "holds_key Fact_Claimed \<longleftrightarrow> True"
| "holds_key (Fact_Minting _ _) \<longleftrightarrow> True"
| "holds_key _ \<longleftrightarrow> False"

fun held_events :: "seam_phase \<Rightarrow> uuid set" where
  "held_events (Fact_Minting rows _) = set (map (\<lambda>(_, cmd, _). rc_event_id cmd) rows)"
| "held_events _ = {}"

fun wanted_events :: "seam_phase \<Rightarrow> uuid set" where
  "wanted_events (Fact_Minting _ (spec # _)) = {rc_event_id spec}"
| "wanted_events _ = {}"

section \<open>Any number of deliveries\<close>

record seam_system =
  sm_db :: db
  sm_calls :: "((seam_env \<times> delivery) \<times> seam_phase) list"

definition seam_start :: "(seam_env \<times> delivery) list \<Rightarrow> db \<Rightarrow> seam_system" where
  "seam_start vs d = \<lparr>sm_db = d, sm_calls = map (\<lambda>v. (v, Fact_Begun)) vs\<rparr>"

definition fact_key :: "seam_system \<Rightarrow> nat \<Rightarrow> string" where
  "fact_key s k = (case fst (sm_calls s ! k) of (env, v) \<Rightarrow> inbox_key (sv_show env) v)"

definition fact_phase :: "seam_system \<Rightarrow> nat \<Rightarrow> seam_phase" where
  "fact_phase s k = snd (sm_calls s ! k)"

definition seam_runnable :: "nat \<Rightarrow> seam_system \<Rightarrow> bool" where
  "seam_runnable k s \<longleftrightarrow>
     k < length (sm_calls s) \<and> open_delivery (fact_phase s k) \<and>
     list_all (\<lambda>j. j = k \<or>
       \<not> (holds_key (fact_phase s j) \<and> fact_phase s k = Fact_Routed \<and> fact_key s j = fact_key s k) \<and>
       held_events (fact_phase s j) \<inter> wanted_events (fact_phase s k) = {}) [0..<length (sm_calls s)]"

definition seam_statement :: "string \<Rightarrow> nat \<Rightarrow> seam_system \<Rightarrow> seam_system" where
  "seam_statement consumer k s =
     (case sm_calls s ! k of
        ((env, v), p) \<Rightarrow>
          (case seam_advance env consumer v p (sm_db s) of
             (p', d) \<Rightarrow> \<lparr>sm_db = d, sm_calls = (sm_calls s)[k := ((env, v), p')]\<rparr>))"

inductive seam_step :: "string \<Rightarrow> seam_system \<Rightarrow> seam_system \<Rightarrow> bool" for consumer where
  run_fact: "seam_runnable k s \<Longrightarrow> seam_step consumer s (seam_statement consumer k s)"

inductive_cases seam_stepE: "seam_step consumer s s'"

fun seam_schedule :: "string \<Rightarrow> nat list \<Rightarrow> seam_system \<Rightarrow> seam_system" where
  "seam_schedule consumer [] s = s"
| "seam_schedule consumer (k # ks) s =
     seam_schedule consumer ks (if seam_runnable k s then seam_statement consumer k s else s)"

lemma seam_schedule_reaches: "(seam_step consumer)\<^sup>*\<^sup>* s (seam_schedule consumer ks s)"
proof (induction ks arbitrary: s)
  case (Cons k ks)
  show ?case
    using Cons.IH [of s] Cons.IH [of "seam_statement consumer k s"] run_fact [of k s]
    by (auto intro: converse_rtranclp_into_rtranclp)
qed simp

section \<open>One statement and the inbox\<close>

definition took_effect :: "seam_phase \<Rightarrow> bool" where
  "took_effect p \<longleftrightarrow> (case p of Fact_Finished (Inr out) \<Rightarrow> \<not> so_already_applied out | _ \<Rightarrow> False)"

lemma took_effect_simps [simp]:
  "took_effect (Fact_Finished (Inr out)) \<longleftrightarrow> \<not> so_already_applied out"
  "\<not> took_effect (Fact_Finished (Inl e))" "\<not> took_effect Fact_Begun" "\<not> took_effect Fact_Routed"
  "\<not> took_effect Fact_Claimed" "\<not> took_effect (Fact_Minting rows specs)"
  by (simp_all add: took_effect_def)

lemma took_effectD: "took_effect p \<Longrightarrow> \<not> open_delivery p \<and> \<not> holds_key p"
  by (cases p) simp_all

lemma applied_fresh [simp]: "\<not> so_already_applied (applied n m)" "so_already_applied already_applied"
  by (simp_all add: applied_def already_applied_def)

lemma mint_view_frame [simp]: "seam_inbox (mint_view link rows d) = seam_inbox d"
  by (induction rows arbitrary: d) (auto simp: mint_view_def after_insert_def Let_def frame_simps)

text \<open>
  A transaction writes only where it ends by taking effect, which it does holding its key; a key
  is held from a claim that found it free.
\<close>

definition sound_fact :: "string \<Rightarrow> string \<Rightarrow> seam_phase \<Rightarrow> db \<Rightarrow> seam_phase \<Rightarrow> db \<Rightarrow> bool" where
  "sound_fact consumer key p d p' d' \<longleftrightarrow>
     (if took_effect p' then holds_key p \<and> seam_inbox d' = seam_inbox d @ [(consumer, key)] else d' = d) \<and>
     (holds_key p' \<longrightarrow> holds_key p \<or> p = Fact_Routed \<and> (consumer, key) \<notin> set (seam_inbox d))"

lemma deliver_takes_effect:
  assumes "deliver env consumer v d = Inr (out, d')" and "(consumer, inbox_key (sv_show env) v) \<notin> set (seam_inbox d)"
  shows "\<not> so_already_applied out \<and> seam_inbox d' = seam_inbox d @ [(consumer, inbox_key (sv_show env) v)]"
proof
  show "seam_inbox d' = seam_inbox d @ [(consumer, inbox_key (sv_show env) v)]"
    using deliver_inbox(2) [OF assms(1)] assms(2) by simp
  show "\<not> so_already_applied out"
    using assms by (cases v; auto simp: on_order_confirmed_def on_order_cancelled_def on_order_paid_def
      repo_order_confirmed_def repo_order_cancelled_def repo_order_paid_def heal_confirmed_def
      claim_cases Let_def case_prod_beta result_simps split: if_splits option.splits)
qed

lemma finish_sound:
  assumes "\<And>out d'. res = Inr (out, d') \<Longrightarrow> \<not> so_already_applied out \<and> seam_inbox d' = seam_inbox d @ [(consumer, key)]"
    and "finish_delivery res d = (p', d')" and "holds_key p"
  shows "sound_fact consumer key p d p' d'"
  using assms by (auto simp: finish_delivery_def sound_fact_def split: sum.splits prod.splits)

lemma heal_takes_effect:
  assumes "repo_order_confirmed env consumer k order total_text specs actor d = Inr (out, d')"
    and "(consumer, claim_key (sv_show env) ''confirmed'' k order) \<notin> set (seam_inbox d)"
  shows "\<not> so_already_applied out \<and>
    seam_inbox d' = seam_inbox d @ [(consumer, claim_key (sv_show env) ''confirmed'' k order)]"
  using assms by (auto simp: repo_order_confirmed_def heal_confirmed_def claim_cases Let_def case_prod_beta
      result_simps frame_simps split: if_splits dest!: mint_all_result)

lemma advance_sound:
  assumes step: "seam_advance env consumer v p d = (p', d')" and "open_delivery p"
    and free: "holds_key p \<Longrightarrow> (consumer, inbox_key (sv_show env) v) \<notin> set (seam_inbox d)"
  shows "sound_fact consumer (inbox_key (sv_show env) v) p d p' d'"
proof (cases p)
  case Fact_Begun
  then show ?thesis using step
    by (auto simp: route_advance_def sound_fact_def split: delivery.splits if_splits option.splits)
next
  case Fact_Routed
  then show ?thesis using step by (auto simp: claim_cases sound_fact_def split: if_splits)
next
  case Fact_Claimed
  then have key: "(consumer, inbox_key (sv_show env) v) \<notin> set (seam_inbox d)" using free by simp
  have alone: "finish_delivery (deliver env consumer v d) d = (p', d') \<Longrightarrow> ?thesis"
    by (rule finish_sound [OF deliver_takes_effect [OF _ key]]) (simp_all add: Fact_Claimed)
  show ?thesis
  proof (cases v)
    case (Order_Confirmed cmd)
    show ?thesis
    proof (cases "count_rows (linked_to (oc_order_id cmd)) (registrations d) = 0")
      case True
      then show ?thesis using step Fact_Claimed Order_Confirmed
        by (auto simp: claimed_advance_def sound_fact_def)
    next
      case False
      with step Fact_Claimed Order_Confirmed key show ?thesis
        by (intro finish_sound [of "repo_order_confirmed env consumer (oc_delivery_id cmd) (oc_order_id cmd)
              (oc_grand_total cmd) (map spec_command (oc_registrations cmd)) None d"])
          (auto simp: claimed_advance_def dest: heal_takes_effect)
    qed
  qed (use step Fact_Claimed alone in \<open>simp_all add: claimed_advance_def del: deliver.simps\<close>)
next
  case (Fact_Minting rows specs)
  then show ?thesis using step free
    by (cases v; cases specs) (auto simp: mint_advance_def sound_fact_def Let_def claim_cases seam_audit_frame
      split: sum.splits prod.splits)
qed (use assms(2) in simp)

section \<open>The system\<close>

lemma seam_statement_at:
  assumes "sm_calls s ! k = ((env, v), p)" and "seam_advance env consumer v p (sm_db s) = (p', d)"
    and "k < length (sm_calls s)"
  shows "sm_db (seam_statement consumer k s) = d"
    and "length (sm_calls (seam_statement consumer k s)) = length (sm_calls s)"
    and "fact_key (seam_statement consumer k s) j = fact_key s j"
    and "fact_phase (seam_statement consumer k s) j = (if j = k then p' else fact_phase s j)"
    and "map fst (sm_calls (seam_statement consumer k s)) = map fst (sm_calls s)"
proof -
  have eq: "seam_statement consumer k s = \<lparr>sm_db = d, sm_calls = (sm_calls s)[k := ((env, v), p')]\<rparr>"
    using assms by (simp add: seam_statement_def)
  show "sm_db (seam_statement consumer k s) = d"
    "length (sm_calls (seam_statement consumer k s)) = length (sm_calls s)"
    "fact_phase (seam_statement consumer k s) j = (if j = k then p' else fact_phase s j)"
    using assms(3) by (simp_all add: eq fact_phase_def nth_list_update)
  show fst: "map fst (sm_calls (seam_statement consumer k s)) = map fst (sm_calls s)"
    using assms(1,3) by (simp add: eq map_update) (metis fst_conv length_map list_update_id nth_map)
  show "fact_key (seam_statement consumer k s) j = fact_key s j"
    using assms(1,3) by (cases "j = k") (simp_all add: eq fact_key_def)
qed

text \<open>
  The inbox has grown by the keys of the deliveries that took effect, each once; who holds a key
  holds it alone, and it is not in the inbox.
\<close>

definition once_applied :: "string \<Rightarrow> (seam_env \<times> delivery) list \<Rightarrow> db \<Rightarrow> seam_system \<Rightarrow> bool" where
  "once_applied consumer vs d0 s \<longleftrightarrow>
     map fst (sm_calls s) = vs \<and>
     (\<forall>j < length vs. \<forall>i < length vs. i \<noteq> j \<and> holds_key (fact_phase s i) \<and> holds_key (fact_phase s j) \<longrightarrow>
        fact_key s i \<noteq> fact_key s j) \<and>
     (\<forall>j < length vs. holds_key (fact_phase s j) \<longrightarrow> (consumer, fact_key s j) \<notin> set (seam_inbox (sm_db s))) \<and>
     (\<exists>ks. distinct ks \<and> set ks = {k. k < length vs \<and> took_effect (fact_phase s k)} \<and>
        seam_inbox (sm_db s) = seam_inbox d0 @ map (\<lambda>k. (consumer, fact_key s k)) ks \<and>
        distinct (map (fact_key s) ks) \<and> (\<forall>k \<in> set ks. (consumer, fact_key s k) \<notin> set (seam_inbox d0)))"

lemma once_applied_start: "once_applied consumer vs d (seam_start vs d)"
  by (auto simp: once_applied_def seam_start_def fact_phase_def comp_def intro: exI [of _ "[]"])

lemma once_applied_statement:
  assumes ok: "once_applied consumer vs d0 s" and run: "seam_runnable k s"
  shows "once_applied consumer vs d0 (seam_statement consumer k s)"
proof -
  obtain env v p where call: "sm_calls s ! k = ((env, v), p)" by (metis prod.exhaust)
  obtain p' d where adv: "seam_advance env consumer v p (sm_db s) = (p', d)" by fastforce
  have len: "length (sm_calls s) = length vs" using ok by (auto simp: once_applied_def)
  have k: "k < length vs" "k < length (sm_calls s)" using run len by (simp_all add: seam_runnable_def)
  have p: "fact_phase s k = p" "fact_key s k = inbox_key (sv_show env) v" by (simp_all add: fact_phase_def fact_key_def call)
  note at = seam_statement_at [OF call adv k(2)]
  have "holds_key p \<Longrightarrow> (consumer, fact_key s k) \<notin> set (seam_inbox (sm_db s))"
    using ok k p by (auto simp: once_applied_def)
  then have sound: "sound_fact consumer (fact_key s k) p (sm_db s) p' d"
    using advance_sound [OF adv] run p by (simp add: seam_runnable_def)
  have wait: "fact_key s j \<noteq> fact_key s k" if "p = Fact_Routed" "j < length vs" "j \<noteq> k" "holds_key (fact_phase s j)" for j
    using run that p len by (auto simp: seam_runnable_def list_all_iff)
  have apart: "fact_key s j \<noteq> fact_key s k"
    if "holds_key p \<or> holds_key p'" "j < length vs" "j \<noteq> k" "holds_key (fact_phase s j)" for j
  proof (cases "holds_key p")
    case True
    then show ?thesis using ok that k p by (auto simp: once_applied_def)
  next
    case False
    then show ?thesis using sound that wait by (auto simp: sound_fact_def)
  qed
  obtain ks where ks: "distinct ks" "set ks = {k. k < length vs \<and> took_effect (fact_phase s k)}"
    "seam_inbox (sm_db s) = seam_inbox d0 @ map (\<lambda>k. (consumer, fact_key s k)) ks"
    "distinct (map (fact_key s) ks)" "\<forall>k \<in> set ks. (consumer, fact_key s k) \<notin> set (seam_inbox d0)"
    using ok by (auto simp: once_applied_def)
  have out: "(consumer, fact_key s j) \<notin> set (seam_inbox d)"
    if "j < length vs" "holds_key (if j = k then p' else fact_phase s j)" for j
  proof -
    have "took_effect p' \<Longrightarrow> j \<noteq> k" using that took_effectD by auto
    moreover have "j \<noteq> k \<Longrightarrow> (consumer, fact_key s j) \<notin> set (seam_inbox (sm_db s))"
      using ok that by (auto simp: once_applied_def)
    moreover have "j = k \<Longrightarrow> (consumer, fact_key s j) \<notin> set (seam_inbox (sm_db s))"
      using ok that k p sound by (auto simp: once_applied_def sound_fact_def)
    ultimately show ?thesis using sound apart [of j] that by (auto simp: sound_fact_def split: if_splits)
  qed
  have new: "k \<notin> set ks" using ks(2) run p took_effectD by (auto simp: seam_runnable_def)
  have effects: "{j. j < length vs \<and> took_effect (if j = k then p' else fact_phase s j)} =
      (if took_effect p' then insert k (set ks) else set ks)"
    using ks(2) new k by auto
  have "\<exists>ks. distinct ks \<and> set ks = {j. j < length vs \<and> took_effect (if j = k then p' else fact_phase s j)} \<and>
      seam_inbox d = seam_inbox d0 @ map (\<lambda>k. (consumer, fact_key s k)) ks \<and>
      distinct (map (fact_key s) ks) \<and> (\<forall>k \<in> set ks. (consumer, fact_key s k) \<notin> set (seam_inbox d0))"
  proof (cases "took_effect p'")
    case True
    then have "(consumer, fact_key s k) \<notin> set (seam_inbox (sm_db s))" "seam_inbox d = seam_inbox (sm_db s) @ [(consumer, fact_key s k)]"
      using sound ok k p by (auto simp: sound_fact_def once_applied_def)
    with ks new True show ?thesis by (intro exI [of _ "ks @ [k]"]) (auto simp: effects)
  next
    case False
    then show ?thesis using ks sound by (intro exI [of _ ks]) (auto simp: effects sound_fact_def)
  qed
  moreover have "fact_key s i \<noteq> fact_key s j"
    if "i \<noteq> j" "i < length vs" "j < length vs" "holds_key (if i = k then p' else fact_phase s i)"
      "holds_key (if j = k then p' else fact_phase s j)" for i j
  proof -
    consider "i = k" | "j = k" | "i \<noteq> k" "j \<noteq> k" by blast
    then show ?thesis
    proof cases
      case 1
      then show ?thesis using apart [of j] that by auto
    next
      case 2
      then show ?thesis using apart [of i] that by auto
    next
      case 3
      then show ?thesis using ok that by (auto simp: once_applied_def)
    qed
  qed
  ultimately show ?thesis using ok out unfolding once_applied_def at by blast
qed

lemma once_applied_reached:
  assumes "(seam_step consumer)\<^sup>*\<^sup>* (seam_start vs d) s"
  shows "once_applied consumer vs d s"
  using assms
proof (induction rule: rtranclp_induct)
  case (step s s')
  then show ?case by (auto elim!: seam_stepE intro: once_applied_statement)
qed (rule once_applied_start)

section \<open>The room of the events\<close>

text \<open>
  Facts that mint or cancel: the orders have no rows yet, their specs name a slot only where the event
  has slots, deliveries of one order carry one key, and no fact heals.
\<close>

definition minting_facts :: "(seam_env \<times> delivery) list \<Rightarrow> db \<Rightarrow> bool" where
  "minting_facts vs d \<longleftrightarrow>
     (\<forall>(env, v) \<in> set vs.
        case v of
          Order_Confirmed cmd \<Rightarrow>
            (\<forall>r \<in> set (registrations d). \<not> linked_to (oc_order_id cmd) r) \<and>
            (\<forall>spec \<in> set (oc_registrations cmd). no_stray_slot (spec_command spec) d) \<and>
            (\<forall>(env', v') \<in> set vs. \<forall>cmd'. v' = Order_Confirmed cmd' \<and> oc_order_id cmd' = oc_order_id cmd \<longrightarrow>
               inbox_key (sv_show env') v' = inbox_key (sv_show env) v)
        | Order_Cancelled key order \<Rightarrow> True
        | Order_Paid key order lines \<Rightarrow> False)"

lemma minting_factsD:
  assumes facts: "minting_facts vs d" and k: "k < length vs"
  shows "snd (vs ! k) \<noteq> Order_Paid key order lines"
    and "snd (vs ! k) = Order_Confirmed cmd \<Longrightarrow> r \<in> set (registrations d) \<Longrightarrow> \<not> linked_to (oc_order_id cmd) r"
    and "snd (vs ! k) = Order_Confirmed cmd \<Longrightarrow> spec \<in> set (oc_registrations cmd) \<Longrightarrow> no_stray_slot (spec_command spec) d"
    and "snd (vs ! k) = Order_Confirmed cmd \<Longrightarrow> j < length vs \<Longrightarrow> snd (vs ! j) = Order_Confirmed cmd' \<Longrightarrow>
      oc_order_id cmd' = oc_order_id cmd \<Longrightarrow>
      inbox_key (sv_show (fst (vs ! j))) (snd (vs ! j)) = inbox_key (sv_show (fst (vs ! k))) (snd (vs ! k))"
proof -
  note mem = bspec [OF facts [unfolded minting_facts_def] nth_mem [OF k]]
  show "snd (vs ! k) \<noteq> Order_Paid key order lines" using mem by (auto simp: case_prod_beta)
  show "snd (vs ! k) = Order_Confirmed cmd \<Longrightarrow> r \<in> set (registrations d) \<Longrightarrow> \<not> linked_to (oc_order_id cmd) r"
    "snd (vs ! k) = Order_Confirmed cmd \<Longrightarrow> spec \<in> set (oc_registrations cmd) \<Longrightarrow> no_stray_slot (spec_command spec) d"
    using mem by (auto simp: case_prod_beta)
  assume "snd (vs ! k) = Order_Confirmed cmd" "j < length vs" "snd (vs ! j) = Order_Confirmed cmd'"
    "oc_order_id cmd' = oc_order_id cmd"
  then show "inbox_key (sv_show (fst (vs ! j))) (snd (vs ! j)) = inbox_key (sv_show (fst (vs ! k))) (snd (vs ! k))"
    using mem nth_mem [of j vs] by (simp add: case_prod_beta)
qed

text \<open>The rows of a mint on top of a database; what its view adds beyond them does not count seats.\<close>

definition minted_row :: "seat_env \<times> register_cmd \<times> reg_rec \<Rightarrow> reg_rec" where
  "minted_row x = snd (snd x)"

definition with_rows :: "minted_rows \<Rightarrow> db \<Rightarrow> db" where
  "with_rows rows d = d\<lparr>registrations := registrations d @ map minted_row rows\<rparr>"

lemma mint_view_snoc:
  "mint_view link (rows @ [(se, cmd, r)]) d =
     after_insert se cmd (Some link) r ((mint_view link rows d)\<lparr>registrations := registrations (mint_view link rows d) @ [r]\<rparr>)"
  by (simp add: mint_view_def)

lemma mint_view_rows:
  "registrations (mint_view link rows d) = registrations (with_rows rows d)"
  "events (mint_view link rows d) = events d"
proof -
  have "registrations (mint_view link rows d) = registrations (with_rows rows d) \<and> events (mint_view link rows d) = events d"
  proof (induction rows rule: rev_induct)
    case (snoc x rows)
    then show ?case
      by (cases x) (simp add: mint_view_snoc minted_row_def with_rows_def after_insert_def Let_def frame_simps)
  qed (simp add: mint_view_def with_rows_def)
  then show "registrations (mint_view link rows d) = registrations (with_rows rows d)"
    "events (mint_view link rows d) = events d" by simp_all
qed

lemma room_inv_same:
  assumes "events d' = events d" and "registrations d' = registrations d"
  shows "room_inv d' \<longleftrightarrow> room_inv d"
  using assms by (simp add: room_inv_def slots_fit_def within_capacity_def seats_taken_def)

lemma room_inv_less:
  assumes inv: "room_inv d" and ev: "events d' = events d"
    and slots: "\<And>r. r \<in> set (registrations d') \<Longrightarrow> \<exists>x \<in> set (registrations d). rg_event_id x = rg_event_id r \<and> rg_slot_id x = rg_slot_id r"
    and seats: "\<And>e slot. seats_taken e slot d' \<le> seats_taken e slot d"
  shows "room_inv d'"
proof -
  have "slots_fit d'" using inv slots unfolding room_inv_def slots_fit_def ev by metis
  moreover have "within_capacity d'" using inv seats order_trans unfolding room_inv_def within_capacity_def ev by blast
  ultimately show ?thesis using inv by (simp add: room_inv_def ev)
qed

lemma with_rows_seats:
  "seats_taken e slot (with_rows rows d) =
     seats_taken e slot d + count_rows (\<lambda>r. in_scope e slot r \<and> holds_seat r) (map minted_row rows)"
  by (simp add: seats_taken_def with_rows_def table_simps)

text \<open>Two mints that hold different events fit together.\<close>

definition rows_of :: "uuid set \<Rightarrow> minted_rows \<Rightarrow> bool" where
  "rows_of E rows \<longleftrightarrow> (\<forall>x \<in> set rows. rg_event_id (minted_row x) \<in> E)"

lemma rows_of_no_seats:
  assumes "rows_of E rows" and "e \<notin> E"
  shows "count_rows (\<lambda>r. in_scope e slot r \<and> holds_seat r) (map minted_row rows) = 0"
proof -
  have "\<not> (\<exists>r \<in> set (map minted_row rows). in_scope e slot r \<and> holds_seat r)"
    using assms by (auto simp: rows_of_def in_scope_def)
  then show ?thesis using count_rows_pos_iff count_rows_nonneg by (metis (no_types, lifting) less_le)
qed

lemma room_inv_both:
  assumes mine: "room_inv (with_rows rows d)" and yours: "room_inv (with_rows rows' d)"
    and "rows_of E rows" and "rows_of E' rows'" and "E \<inter> E' = {}"
  shows "room_inv (with_rows rows' (with_rows rows d))"
proof -
  have "seats_taken e slot (with_rows rows' (with_rows rows d)) = seats_taken e slot (with_rows rows' d) \<or>
      seats_taken e slot (with_rows rows' (with_rows rows d)) = seats_taken e slot (with_rows rows d)" for e slot
    using rows_of_no_seats [OF assms(3), of e slot] rows_of_no_seats [OF assms(4), of e slot] assms(5)
    by (cases "e \<in> E") (auto simp: with_rows_seats)
  moreover have "events (with_rows rows' (with_rows rows d)) = events d" "events (with_rows rows d) = events d"
    "events (with_rows rows' d) = events d" by (simp_all add: with_rows_def)
  ultimately have "within_capacity (with_rows rows' (with_rows rows d))"
    using mine yours unfolding room_inv_def within_capacity_def by metis
  then show ?thesis using mine yours by (auto simp: room_inv_def slots_fit_def with_rows_def)
qed

text \<open>A cancelled order gives seats back.\<close>

lemma cancelled_rows:
  assumes "deliver env consumer (Order_Cancelled key order) d = Inr (out, d')"
  shows "events d' = events d" and "\<exists>q. registrations d' =
    upd_rows q (\<lambda>r. r\<lparr>rg_state := Reg_Cancel, rg_sale_order_state := Some SaleOrder_Cancel\<rparr>) (registrations d)"
proof -
  show "events d' = events d" using deliver_inbox(1) [OF assms] .
  have none: "registrations d = upd_rows (\<lambda>_. False) f (registrations d)" for f by (simp add: upd_rows_def)
  show "\<exists>q. registrations d' =
      upd_rows q (\<lambda>r. r\<lparr>rg_state := Reg_Cancel, rg_sale_order_state := Some SaleOrder_Cancel\<rparr>) (registrations d)"
    using assms none by (auto simp: on_order_cancelled_def repo_order_cancelled_def claim_cases Let_def case_prod_beta
      frame_simps split: if_splits)
qed

lemma room_inv_cancelled:
  assumes inv: "room_inv (with_rows rows d)" and ev: "events d' = events d"
    and regs: "registrations d' =
      upd_rows q (\<lambda>r. r\<lparr>rg_state := Reg_Cancel, rg_sale_order_state := Some SaleOrder_Cancel\<rparr>) (registrations d)"
  shows "room_inv (with_rows rows d')"
proof (rule room_inv_less [OF inv])
  fix e slot
  have "seats_taken e slot d' \<le> seats_taken e slot d"
    unfolding seats_taken_def regs count_rows_upd
    by (rule count_rows_mono) (auto simp: holds_seat_def in_scope_def split: if_splits option.splits)
  then show "seats_taken e slot (with_rows rows d') \<le> seats_taken e slot (with_rows rows d)"
    by (simp add: with_rows_seats)
qed (auto simp: with_rows_def ev regs in_upd_rows_iff split: if_splits)

text \<open>What a statement of a minting or cancelling fact can do.\<close>

lemma advance_shape:
  assumes step: "seam_advance env consumer v p d = (p', d')" and "open_delivery p"
    and mints: "(\<exists>rows specs. p = Fact_Minting rows specs) \<longrightarrow> (\<exists>cmd. v = Order_Confirmed cmd)"
    and first: "\<forall>cmd. p = Fact_Claimed \<and> v = Order_Confirmed cmd \<longrightarrow>
      count_rows (linked_to (oc_order_id cmd)) (registrations d) = 0"
    and paid: "\<forall>key order lines. v \<noteq> Order_Paid key order lines"
  obtains (read) "d' = d" "held_events p' = {}" "\<not> took_effect p'"
      "\<And>rows specs. p' = Fact_Minting rows specs \<Longrightarrow>
        rows = [] \<and> (\<exists>cmd. v = Order_Confirmed cmd \<and> specs = map spec_command (oc_registrations cmd))"
  | (mint) cmd rows spec specs se link r mine d1 where "v = Order_Confirmed cmd" "p = Fact_Minting rows (spec # specs)"
      "p' = Fact_Minting (rows @ [(se, spec, r)]) specs" "d' = d" "register_core se spec (Some link) mine = Inr (r, d1)"
      "sk_order_id link = oc_order_id cmd" "events mine = events d" "registrations mine = registrations (with_rows rows d)"
  | (commit) cmd rows where "v = Order_Confirmed cmd" "p = Fact_Minting rows []" "took_effect p'"
      "events d' = events d" "registrations d' = registrations (with_rows rows d)"
  | (cancel) key order q where "v = Order_Cancelled key order" "p = Fact_Claimed" "\<not> open_delivery p'"
      "events d' = events d" "registrations d' =
        upd_rows q (\<lambda>r. r\<lparr>rg_state := Reg_Cancel, rg_sale_order_state := Some SaleOrder_Cancel\<rparr>) (registrations d)"
proof (cases p)
  case Fact_Begun
  with step show ?thesis
    by (intro read) (auto simp: route_advance_def split: delivery.splits if_splits option.splits)
next
  case Fact_Routed
  with step show ?thesis by (intro read) (auto split: if_splits)
next
  case Fact_Claimed
  show ?thesis
  proof (cases v)
    case (Order_Confirmed cmd)
    with step Fact_Claimed first show ?thesis
      by (intro read) (auto simp: claimed_advance_def)
  next
    case (Order_Cancelled key order)
    show ?thesis
    proof (cases "deliver env consumer v d")
      case (Inl e)
      with step Fact_Claimed Order_Cancelled show ?thesis
        by (intro read) (auto simp: claimed_advance_def finish_delivery_def)
    next
      case (Inr res)
      then obtain out x where res: "deliver env consumer (Order_Cancelled key order) d = Inr (out, x)"
        using Order_Cancelled by (cases res) auto
      with step Fact_Claimed Order_Cancelled have "d' = x" "\<not> open_delivery p'"
        by (auto simp: claimed_advance_def finish_delivery_def simp del: deliver.simps)
      then show ?thesis using cancelled_rows [OF res] Fact_Claimed Order_Cancelled cancel by blast
    qed
  next
    case (Order_Paid key order lines)
    then show ?thesis using paid by blast
  qed
next
  case (Fact_Minting rows specs)
  then obtain cmd where v: "v = Order_Confirmed cmd" using mints by blast
  define link where "link = mint_link (grand_total_is_zero (oc_grand_total cmd)) (oc_order_id cmd)"
  define mine where "mine = mint_view link rows (snd (claim consumer
      (claim_key (sv_show env) ''confirmed'' (oc_delivery_id cmd) (oc_order_id cmd)) d))"
  have claimed: "events (snd (claim consumer key d)) = events d" "registrations (snd (claim consumer key d)) = registrations d" for key
    by (simp_all add: claim_cases)
  then have mine: "events mine = events d" "registrations mine = registrations (with_rows rows d)"
    by (simp_all add: mine_def mint_view_rows with_rows_def)
  note body = step [unfolded Fact_Minting v, simplified mint_advance_def seam_advance.simps Let_def,
      folded link_def, folded mine_def]
  show ?thesis
  proof (cases specs)
    case Nil
    with body have "took_effect p'" "events d' = events d" "registrations d' = registrations (with_rows rows d)"
      by (auto simp: seam_audit_frame mine)
    then show ?thesis using v Fact_Minting Nil commit by blast
  next
    case (Cons spec rest)
    show ?thesis
    proof (cases "register_core (mint_env env (length rows)) spec (Some link) mine")
      case (Inl e)
      with body Cons show ?thesis by (intro read) auto
    next
      case (Inr rd)
      then obtain r d1 where r: "register_core (mint_env env (length rows)) spec (Some link) mine = Inr (r, d1)" by (cases rd) auto
      with body Cons have "p' = Fact_Minting (rows @ [(mint_env env (length rows), spec, r)]) rest" "d' = d" by auto
      moreover have "sk_order_id link = oc_order_id cmd" by (simp add: link_def mint_link_def)
      ultimately show ?thesis using v Fact_Minting Cons r mine mint by blast
    qed
  qed
qed (use assms(2) in simp)

text \<open>
  The events keep their room, in the committed database and in what every open mint sees; no two mints
  hold an event; and an order has rows only once a delivery of it took effect, as many as its specs.
\<close>

definition mint_state :: "db \<Rightarrow> delivery \<Rightarrow> minted_rows \<Rightarrow> register_cmd list \<Rightarrow> bool" where
  "mint_state d v rows specs \<longleftrightarrow>
     room_inv (with_rows rows d) \<and> rows_of (held_events (Fact_Minting rows specs)) rows \<and>
     (\<exists>cmd. v = Order_Confirmed cmd \<and> set specs \<subseteq> spec_command ` set (oc_registrations cmd) \<and>
        length rows + length specs = length (oc_registrations cmd) \<and>
        (\<forall>x \<in> set rows. linked_to (oc_order_id cmd) (minted_row x)))"

definition confirms :: "uuid \<Rightarrow> delivery \<Rightarrow> bool" where
  "confirms order v \<longleftrightarrow> (\<exists>cmd. v = Order_Confirmed cmd \<and> oc_order_id cmd = order)"

definition room_kept :: "(seam_env \<times> delivery) list \<Rightarrow> db \<Rightarrow> seam_system \<Rightarrow> bool" where
  "room_kept vs d0 s \<longleftrightarrow>
     events (sm_db s) = events d0 \<and> room_inv (sm_db s) \<and>
     (\<forall>k < length vs. \<forall>rows specs. fact_phase s k = Fact_Minting rows specs \<longrightarrow>
        mint_state (sm_db s) (snd (vs ! k)) rows specs) \<and>
     (\<forall>j < length vs. \<forall>k < length vs. j \<noteq> k \<longrightarrow> held_events (fact_phase s j) \<inter> held_events (fact_phase s k) = {}) \<and>
     (\<forall>k < length vs. \<forall>cmd. snd (vs ! k) = Order_Confirmed cmd \<longrightarrow>
        (took_effect (fact_phase s k) \<longrightarrow>
           count_rows (linked_to (oc_order_id cmd)) (registrations (sm_db s)) = int (length (oc_registrations cmd))) \<and>
        (count_rows (linked_to (oc_order_id cmd)) (registrations (sm_db s)) \<noteq> 0 \<longrightarrow>
           (\<exists>j < length vs. took_effect (fact_phase s j) \<and> confirms (oc_order_id cmd) (snd (vs ! j)))))"

lemma room_kept_start:
  assumes "room_inv d" and "minting_facts vs d"
  shows "room_kept vs d (seam_start vs d)"
proof -
  have phase: "k < length vs \<Longrightarrow> fact_phase (seam_start vs d) k = Fact_Begun" for k
    by (simp add: fact_phase_def seam_start_def)
  have none: "count_rows (linked_to (oc_order_id cmd)) (registrations d) = 0"
    if "k < length vs" "snd (vs ! k) = Order_Confirmed cmd" for k cmd
  proof -
    have "\<forall>r \<in> set (registrations d). \<not> linked_to (oc_order_id cmd) r"
      using minting_factsD(2) [OF assms(2) that] by blast
    then show ?thesis using count_rows_pos_iff count_rows_nonneg by (metis (no_types, lifting) less_le)
  qed
  show ?thesis using assms(1) by (auto simp: room_kept_def phase none) (simp_all add: seam_start_def none)
qed

text \<open>Two deliveries of one order carry one key, so the second never gets past a claim the first has committed.\<close>

lemma unclaimed_order:
  assumes once: "once_applied consumer vs d0 s" and facts: "minting_facts vs d0"
    and k: "k < length vs" "holds_key (fact_phase s k)" and v: "snd (vs ! k) = Order_Confirmed cmd"
    and j: "j < length vs" "confirms (oc_order_id cmd) (snd (vs ! j))"
  shows "\<not> took_effect (fact_phase s j)"
proof
  assume effect: "took_effect (fact_phase s j)"
  obtain cmd' where v': "snd (vs ! j) = Order_Confirmed cmd'" "oc_order_id cmd' = oc_order_id cmd"
    using j(2) by (auto simp: confirms_def)
  have calls: "map fst (sm_calls s) = vs" using once by (simp add: once_applied_def)
  then have key: "fact_key s i = inbox_key (sv_show (fst (vs ! i))) (snd (vs ! i))" if "i < length vs" for i
    using that by (auto simp: fact_key_def case_prod_beta)
  have "inbox_key (sv_show (fst (vs ! j))) (snd (vs ! j)) = inbox_key (sv_show (fst (vs ! k))) (snd (vs ! k))"
    by (rule minting_factsD(4) [OF facts k(1) v j(1) v'])
  then have "fact_key s j = fact_key s k" using key j(1) k(1) by simp
  moreover have "(consumer, fact_key s j) \<in> set (seam_inbox (sm_db s))" using once j(1) effect by (auto simp: once_applied_def)
  ultimately show False using once k by (auto simp: once_applied_def)
qed

lemma unclaimed_rows:
  assumes "once_applied consumer vs d0 s" and "room_kept vs d0 s" and "minting_facts vs d0"
    and "k < length vs" "holds_key (fact_phase s k)" and "snd (vs ! k) = Order_Confirmed cmd"
  shows "count_rows (linked_to (oc_order_id cmd)) (registrations (sm_db s)) = 0"
  using unclaimed_order [OF assms(1,3-6)] assms(2,4,6) unfolding room_kept_def by blast

lemma admissible_spec:
  assumes "minting_facts vs d0" and "k < length vs" and "snd (vs ! k) = Order_Confirmed cmd"
    and "spec \<in> spec_command ` set (oc_registrations cmd)" and "events d = events d0"
  shows "no_stray_slot spec d"
proof -
  have "no_stray_slot spec d0" using minting_factsD(3) [OF assms(1-3)] assms(4) by auto
  then show ?thesis using assms(5) by (simp add: no_stray_slot_def event_by_id_def)
qed

text \<open>The invariant after one statement, from what it says about the committed rows and the running call.\<close>

lemma room_keptI:
  assumes room: "room_kept vs d0 s" and at: "\<And>j. fact_phase s' j = (if j = k then p' else fact_phase s j)"
    and ev: "events (sm_db s') = events d0" and rm: "room_inv (sm_db s')"
    and others: "\<And>j rows specs. j < length vs \<Longrightarrow> j \<noteq> k \<Longrightarrow> fact_phase s j = Fact_Minting rows specs \<Longrightarrow>
      mint_state (sm_db s') (snd (vs ! j)) rows specs"
    and mine: "\<And>rows specs. p' = Fact_Minting rows specs \<Longrightarrow> mint_state (sm_db s') (snd (vs ! k)) rows specs"
    and locks: "\<And>j. j < length vs \<Longrightarrow> j \<noteq> k \<Longrightarrow> held_events (fact_phase s j) \<inter> held_events p' = {}"
    and effect: "\<And>j cmd. j < length vs \<Longrightarrow> snd (vs ! j) = Order_Confirmed cmd \<Longrightarrow> took_effect (fact_phase s' j) \<Longrightarrow>
      count_rows (linked_to (oc_order_id cmd)) (registrations (sm_db s')) = int (length (oc_registrations cmd))"
    and rows: "\<And>j cmd. j < length vs \<Longrightarrow> snd (vs ! j) = Order_Confirmed cmd \<Longrightarrow>
      count_rows (linked_to (oc_order_id cmd)) (registrations (sm_db s')) \<noteq> 0 \<Longrightarrow>
      \<exists>i < length vs. took_effect (fact_phase s' i) \<and> confirms (oc_order_id cmd) (snd (vs ! i))"
  shows "room_kept vs d0 s'"
proof -
  have "mint_state (sm_db s') (snd (vs ! j)) rows specs"
    if "j < length vs" "fact_phase s' j = Fact_Minting rows specs" for j rows specs
    using that others [of j] mine by (cases "j = k") (auto simp: at)
  moreover have "held_events (fact_phase s' i) \<inter> held_events (fact_phase s' j) = {}"
    if "i < length vs" "j < length vs" "i \<noteq> j" for i j
    using that locks [of i] locks [of j] room by (auto simp: at room_kept_def Int_commute)
  ultimately show ?thesis using ev rm effect rows unfolding room_kept_def by blast
qed

lemma linked_rows_of_mint:
  assumes "mint_state d (Order_Confirmed cmd) rows specs"
  shows "count_rows (linked_to order) (map minted_row rows) = (if order = oc_order_id cmd then int (length rows) else 0)"
proof -
  have "\<forall>x \<in> set rows. linked_to (oc_order_id cmd) (minted_row x)" using assms by (auto simp: mint_state_def)
  then show ?thesis by (induction rows) (auto simp: table_simps linked_to_def)
qed

lemma mint_state_more:
  assumes old: "mint_state d (Order_Confirmed cmd) rows (spec # specs)" and ev: "events d = events d0"
    and reg: "register_core se spec (Some link) mine = Inr (r, d1)" and link: "sk_order_id link = oc_order_id cmd"
    and mine: "events mine = events d" "registrations mine = registrations (with_rows rows d)"
    and disc: "no_stray_slot spec d"
  shows "mint_state d (Order_Confirmed cmd) (rows @ [(se, spec, r)]) specs"
proof -
  obtain e slot where new: "new_registration se spec (Some link) e slot = Inr r" using reg by (elim register_coreE)
  note r = new_registration_fields(2,10) [OF new]
  have "room_inv mine" using old mine by (simp add: mint_state_def room_inv_same [of mine "with_rows rows d"] with_rows_def)
  then have "room_inv d1"
    by (rule register_core_room [OF reg]) (use disc in \<open>simp add: no_stray_slot_def event_by_id_def mine\<close>)
  moreover have "events d1 = events d" "registrations d1 = registrations (with_rows (rows @ [(se, spec, r)]) d)"
    using register_core_frame [OF reg] register_core_registrations [OF reg] mine by (simp_all add: with_rows_def minted_row_def)
  ultimately have "room_inv (with_rows (rows @ [(se, spec, r)]) d)"
    using room_inv_same [of d1 "with_rows (rows @ [(se, spec, r)]) d"] by (simp add: with_rows_def)
  then show ?thesis using old r link by (auto simp: mint_state_def rows_of_def minted_row_def linked_to_def)
qed

lemma room_kept_statement:
  assumes once: "once_applied consumer vs d0 s" and room: "room_kept vs d0 s" and facts: "minting_facts vs d0"
    and run: "seam_runnable k s"
  shows "room_kept vs d0 (seam_statement consumer k s)"
proof -
  obtain env v p where call: "sm_calls s ! k = ((env, v), p)" by (metis prod.exhaust)
  obtain p' d where adv: "seam_advance env consumer v p (sm_db s) = (p', d)" by fastforce
  have calls: "map fst (sm_calls s) = vs" using once by (simp add: once_applied_def)
  then have len: "length (sm_calls s) = length vs" by auto
  have k: "k < length vs" "k < length (sm_calls s)" "open_delivery p"
    using run len by (simp_all add: seam_runnable_def fact_phase_def call)
  have v: "snd (vs ! k) = v" using calls k(2) by (auto simp: call)
  have p: "fact_phase s k = p" by (simp add: fact_phase_def call)
  note at = seam_statement_at [OF call adv k(2)]
  have ev: "events (sm_db s) = events d0" and rm: "room_inv (sm_db s)" using room by (simp_all add: room_kept_def)
  have others: "mint_state (sm_db s) (snd (vs ! j)) rows specs"
    if "j < length vs" "fact_phase s j = Fact_Minting rows specs" for j rows specs
    using room that by (simp add: room_kept_def)
  have locks: "held_events (fact_phase s j) \<inter> held_events p = {}" if "j < length vs" "j \<noteq> k" for j
    using room k(1) that p unfolding room_kept_def by blast
  have effect: "count_rows (linked_to (oc_order_id cmd)) (registrations (sm_db s)) = int (length (oc_registrations cmd))"
    if "j < length vs" "snd (vs ! j) = Order_Confirmed cmd" "took_effect (fact_phase s j)" for j cmd
    using room that by (simp add: room_kept_def)
  have rows: "\<exists>i < length vs. took_effect (fact_phase s i) \<and> confirms (oc_order_id cmd) (snd (vs ! i))"
    if "j < length vs" "snd (vs ! j) = Order_Confirmed cmd" "count_rows (linked_to (oc_order_id cmd)) (registrations (sm_db s)) \<noteq> 0"
    for j cmd using room that unfolding room_kept_def by blast
  have not_k: "took_effect (fact_phase s j) \<Longrightarrow> j \<noteq> k" for j using k(3) p took_effectD by blast
  have keeps: "\<exists>i < length vs. took_effect (if i = k then q else fact_phase s i) \<and> confirms order (snd (vs ! i))"
    if "\<exists>i < length vs. took_effect (fact_phase s i) \<and> confirms order (snd (vs ! i))" for q order
    using that not_k by metis
  have mints: "(\<exists>rows specs. p = Fact_Minting rows specs) \<longrightarrow> (\<exists>cmd. v = Order_Confirmed cmd)"
    using others [OF k(1)] p v by (auto simp: mint_state_def)
  have first: "\<forall>cmd. p = Fact_Claimed \<and> v = Order_Confirmed cmd \<longrightarrow>
      count_rows (linked_to (oc_order_id cmd)) (registrations (sm_db s)) = 0"
    using unclaimed_rows [OF once room facts k(1)] p v by simp
  have paid: "\<forall>key order lines. v \<noteq> Order_Paid key order lines" using minting_factsD(1) [OF facts k(1)] v by simp
  show ?thesis
  proof (cases rule: advance_shape [OF adv k(3) mints first paid, case_names read mint commit cancel])
    case read
    then have same: "sm_db (seam_statement consumer k s) = sm_db s" using at by simp
    show ?thesis
    proof (rule room_keptI [OF room at(4)])
      fix specs rows assume "p' = Fact_Minting rows specs"
      with read(4) obtain cmd where "rows = []" "v = Order_Confirmed cmd" "specs = map spec_command (oc_registrations cmd)" by blast
      then show "mint_state (sm_db (seam_statement consumer k s)) (snd (vs ! k)) rows specs"
        using rm by (simp add: same v mint_state_def with_rows_def rows_of_def)
    qed (use ev rm others effect rows keeps read(2,3) in \<open>auto simp: same at(4) split: if_splits\<close>)
  next
    case (mint cmd rw spec specs se link r mine d1)
    then have same: "sm_db (seam_statement consumer k s) = sm_db s" using at by simp
    have old: "mint_state (sm_db s) (Order_Confirmed cmd) rw (spec # specs)" using others [OF k(1)] p mint(1,2) v by simp
    then have "spec \<in> spec_command ` set (oc_registrations cmd)" by (auto simp: mint_state_def)
    then have disc: "no_stray_slot spec (sm_db s)" using admissible_spec [OF facts k(1)] v mint(1) ev by simp
    have wait: "rc_event_id spec \<notin> held_events (fact_phase s j)" if "j < length vs" "j \<noteq> k" for j
      using run that p len mint(2) by (auto simp: seam_runnable_def list_all_iff)
    show ?thesis
    proof (rule room_keptI [OF room at(4)])
      fix specs' rows' assume "p' = Fact_Minting rows' specs'"
      then show "mint_state (sm_db (seam_statement consumer k s)) (snd (vs ! k)) rows' specs'"
        using mint_state_more [OF old ev mint(5-8) disc] mint(1,3) v by (simp add: same)
    next
      fix j assume "j < length vs" "j \<noteq> k"
      then show "held_events (fact_phase s j) \<inter> held_events p' = {}" using locks [of j] wait [of j] mint(2,3) by auto
    qed (use ev rm others effect rows keeps mint(3) in \<open>auto simp: same at(4) split: if_splits\<close>)
  next
    case (commit cmd rw)
    have old: "mint_state (sm_db s) (Order_Confirmed cmd) rw []" using others [OF k(1)] p commit(1,2) v by simp
    have regs: "registrations (sm_db (seam_statement consumer k s)) = registrations (sm_db s) @ map minted_row rw"
      and evs: "events (sm_db (seam_statement consumer k s)) = events (sm_db s)"
      using commit at by (simp_all add: with_rows_def)
    have view: "room_inv (with_rows rows (sm_db (seam_statement consumer k s))) \<longleftrightarrow> room_inv (with_rows rows (with_rows rw (sm_db s)))" for rows
      by (rule room_inv_same) (simp_all add: with_rows_def evs regs)
    have count: "count_rows (linked_to order) (registrations (sm_db (seam_statement consumer k s))) =
        count_rows (linked_to order) (registrations (sm_db s)) + (if order = oc_order_id cmd then int (length rw) else 0)" for order
      using linked_rows_of_mint [OF old] by (simp add: regs table_simps)
    have none: "count_rows (linked_to (oc_order_id cmd)) (registrations (sm_db s)) = 0"
      using unclaimed_rows [OF once room facts k(1)] p commit(1,2) v by simp
    have nobody: "\<not> took_effect (fact_phase s j)" if "j < length vs" "confirms (oc_order_id cmd) (snd (vs ! j))" for j
      using unclaimed_order [OF once facts k(1) _ _ that] p commit(1,2) v by simp
    have all: "length rw = length (oc_registrations cmd)" using old by (auto simp: mint_state_def)
    have held: "held_events p' = {}" "p' \<noteq> Fact_Minting rows specs" for rows specs
      using took_effectD [OF commit(3)] by (cases p'; simp)+
    show ?thesis
    proof (rule room_keptI [OF room at(4)])
      show "events (sm_db (seam_statement consumer k s)) = events d0" using ev evs by simp
      show "room_inv (sm_db (seam_statement consumer k s))"
        using view [of "[]"] old by (simp add: mint_state_def) (simp add: with_rows_def)
      fix j rows specs assume j: "j < length vs" "j \<noteq> k" "fact_phase s j = Fact_Minting rows specs"
      then have theirs: "mint_state (sm_db s) (snd (vs ! j)) rows specs" using others by blast
      have "held_events (Fact_Minting rows specs) \<inter> held_events (Fact_Minting rw []) = {}"
        using locks [OF j(1,2)] j(3) commit(2) by simp
      then have "room_inv (with_rows rows (with_rows rw (sm_db s)))"
        using room_inv_both [of rw "sm_db s" rows] old theirs by (auto simp: mint_state_def Int_commute)
      then show "mint_state (sm_db (seam_statement consumer k s)) (snd (vs ! j)) rows specs"
        using theirs view by (simp add: mint_state_def)
    next
      fix j cmd' assume j: "j < length vs" "snd (vs ! j) = Order_Confirmed cmd'" "took_effect (fact_phase (seam_statement consumer k s) j)"
      show "count_rows (linked_to (oc_order_id cmd')) (registrations (sm_db (seam_statement consumer k s))) = int (length (oc_registrations cmd'))"
      proof (cases "j = k")
        case True
        then show ?thesis using j(2) v commit(1) none all by (simp add: count)
      next
        case False
        then have "took_effect (fact_phase s j)" using j(3) by (simp add: at(4))
        moreover from this have "oc_order_id cmd' \<noteq> oc_order_id cmd" using nobody [OF j(1)] j(2) by (auto simp: confirms_def)
        ultimately show ?thesis using effect [OF j(1,2)] by (simp add: count)
      qed
    next
      fix j cmd' assume j: "j < length vs" "snd (vs ! j) = Order_Confirmed cmd'"
        "count_rows (linked_to (oc_order_id cmd')) (registrations (sm_db (seam_statement consumer k s))) \<noteq> 0"
      show "\<exists>i < length vs. took_effect (fact_phase (seam_statement consumer k s) i) \<and> confirms (oc_order_id cmd') (snd (vs ! i))"
      proof (cases "oc_order_id cmd' = oc_order_id cmd")
        case True
        then show ?thesis using k(1) commit(1,3) v by (auto simp: at(4) confirms_def)
      next
        case False
        then show ?thesis using rows [OF j(1,2)] j(3) keeps by (simp add: count at(4))
      qed
    qed (use held in simp_all)
  next
    case (cancel key order q)
    have regs: "registrations (sm_db (seam_statement consumer k s)) =
        upd_rows q (\<lambda>r. r\<lparr>rg_state := Reg_Cancel, rg_sale_order_state := Some SaleOrder_Cancel\<rparr>) (registrations (sm_db s))"
      and evs: "events (sm_db (seam_statement consumer k s)) = events (sm_db s)" using cancel at by simp_all
    have view: "room_inv (with_rows rows (sm_db (seam_statement consumer k s)))" if "room_inv (with_rows rows (sm_db s))" for rows
      by (rule room_inv_cancelled [OF that evs regs])
    have count: "count_rows (linked_to o1) (registrations (sm_db (seam_statement consumer k s))) = count_rows (linked_to o1) (registrations (sm_db s))" for o1
      unfolding regs count_rows_upd by (rule count_rows_cong) (simp add: linked_to_def)
    have held: "held_events p' = {}" "p' \<noteq> Fact_Minting rows specs" for rows specs
      using cancel(3) by (cases p'; simp)+
    show ?thesis
    proof (rule room_keptI [OF room at(4)])
      show "room_inv (sm_db (seam_statement consumer k s))" using view [of "[]"] rm by (simp add: with_rows_def)
    qed (use ev evs others effect rows keeps held view cancel(1) v in \<open>auto simp: count at(4) mint_state_def split: if_splits\<close>)
  qed
qed

lemma room_kept_reached:
  assumes "(seam_step consumer)\<^sup>*\<^sup>* (seam_start vs d) s" and "room_inv d" and "minting_facts vs d"
  shows "room_kept vs d s"
  using assms(1)
proof (induction rule: rtranclp_induct)
  case (step s s')
  then show ?case using once_applied_reached [of consumer vs d s] assms(3)
    by (auto elim!: seam_stepE intro: room_kept_statement)
qed (rule room_kept_start [OF assms(2,3)])

section \<open>A delivery alone\<close>

definition alone :: "seam_env \<Rightarrow> delivery \<Rightarrow> seam_phase \<Rightarrow> db \<Rightarrow> seam_system" where
  "alone env v p d = \<lparr>sm_db = d, sm_calls = [((env, v), p)]\<rparr>"

lemma alone_step:
  assumes "open_delivery p" and "seam_advance env consumer v p d = (p', d')"
  shows "seam_step consumer (alone env v p d) (alone env v p' d')"
proof -
  have "seam_runnable 0 (alone env v p d)"
    using assms(1) by (simp add: seam_runnable_def alone_def fact_phase_def)
  then have "seam_step consumer (alone env v p d) (seam_statement consumer 0 (alone env v p d))" by (rule run_fact)
  then show ?thesis using assms(2) by (simp add: seam_statement_def alone_def)
qed

lemma register_core_writes:
  "register_core se cmd (Some link) d = Inr (r, d') \<Longrightarrow>
     d' = after_insert se cmd (Some link) r (d\<lparr>registrations := registrations d @ [r]\<rparr>)"
  by (elim register_coreE) (simp add: insert_registration_iff)

text \<open>The mint statement by statement is the mint in one go.\<close>

definition mint_outcome :: "order_confirmed \<Rightarrow> event_error + (nat \<times> db) \<Rightarrow> event_error + (seam_outcome \<times> db)" where
  "mint_outcome cmd res =
     (let free = grand_total_is_zero (oc_grand_total cmd) in
      bind_r res (\<lambda>(touched, d). Inr (applied touched 0,
        seam_audit ''sale_seam_confirmed'' None (oc_order_id cmd)
          (JObj [(''verb'', JStr ''mint''), (''free'', JBool free), (''minted'', JNum (int touched)),
                 (''sale_status'', JStr (sk_status (mint_link free (oc_order_id cmd))))]) d)))"

lemma alone_mint:
  fixes env :: seam_env and cmd :: order_confirmed and consumer :: string
  defines "link \<equiv> mint_link (grand_total_is_zero (oc_grand_total cmd)) (oc_order_id cmd)"
    and "base d \<equiv> snd (claim consumer (claim_key (sv_show env) ''confirmed'' (oc_delivery_id cmd) (oc_order_id cmd)) d)"
  shows "finish_delivery (mint_outcome cmd (mint_all (mint_env env) (length rows) specs link (mint_view link rows (base d)))) d = (p', d') \<Longrightarrow>
    (seam_step consumer)\<^sup>*\<^sup>* (alone env (Order_Confirmed cmd) (Fact_Minting rows specs) d) (alone env (Order_Confirmed cmd) p' d')"
proof (induction specs arbitrary: rows)
  case Nil
  then have "seam_advance env consumer (Order_Confirmed cmd) (Fact_Minting rows []) d = (p', d')"
    by (simp add: mint_advance_def Let_def link_def base_def finish_delivery_def mint_outcome_def)
  then show ?case by (intro r_into_rtranclp alone_step) simp_all
next
  case (Cons spec specs)
  let ?mine = "mint_view link rows (base d)"
  show ?case
  proof (cases "register_core (mint_env env (length rows)) spec (Some link) ?mine")
    case (Inl e)
    with Cons.prems have "seam_advance env consumer (Order_Confirmed cmd) (Fact_Minting rows (spec # specs)) d = (p', d')"
      by (simp add: mint_advance_def Let_def link_def base_def finish_delivery_def mint_outcome_def)
    then show ?thesis by (intro r_into_rtranclp alone_step) simp_all
  next
    case (Inr rd)
    then obtain r d1 where r: "register_core (mint_env env (length rows)) spec (Some link) ?mine = Inr (r, d1)" by (cases rd) auto
    let ?rows = "rows @ [(mint_env env (length rows), spec, r)]"
    have "d1 = mint_view link ?rows (base d)" using register_core_writes [OF r] by (simp add: mint_view_snoc)
    then have "(seam_step consumer)\<^sup>*\<^sup>* (alone env (Order_Confirmed cmd) (Fact_Minting ?rows specs) d) (alone env (Order_Confirmed cmd) p' d')"
      using Cons.prems r by (intro Cons.IH) simp
    moreover have "seam_step consumer (alone env (Order_Confirmed cmd) (Fact_Minting rows (spec # specs)) d)
        (alone env (Order_Confirmed cmd) (Fact_Minting ?rows specs) d)"
      using r by (intro alone_step) (simp_all add: mint_advance_def Let_def link_def base_def)
    ultimately show ?thesis by (rule converse_rtranclp_into_rtranclp [rotated])
  qed
qed

lemma mint_env_fun: "mint_env env = (\<lambda>k. (sv_seat env k)\<lparr>se_now := sv_now env\<rparr>)"
  by (rule ext) (simp add: mint_env_def)

lemma alone_claimed:
  assumes fresh: "fst (claim consumer (inbox_key (sv_show env) v) d)" and routed: "route_advance env v d = Fact_Routed"
    and fin: "finish_delivery (deliver env consumer v d) d = (p', d')"
  shows "(seam_step consumer)\<^sup>*\<^sup>* (alone env v Fact_Claimed d) (alone env v p' d')"
proof (cases "\<exists>cmd. v = Order_Confirmed cmd \<and> count_rows (linked_to (oc_order_id cmd)) (registrations d) = 0")
  case True
  then obtain cmd where v: "v = Order_Confirmed cmd" and none: "count_rows (linked_to (oc_order_id cmd)) (registrations d) = 0"
    by blast
  have "deliver env consumer v d = mint_outcome cmd (mint_all (mint_env env) 0 (map spec_command (oc_registrations cmd))
      (mint_link (grand_total_is_zero (oc_grand_total cmd)) (oc_order_id cmd))
      (snd (claim consumer (claim_key (sv_show env) ''confirmed'' (oc_delivery_id cmd) (oc_order_id cmd)) d)))"
    using fresh routed none
    by (auto simp: v on_order_confirmed_def route_advance_def repo_order_confirmed_def mint_outcome_def mint_env_fun
        claim_cases Let_def split: if_splits option.splits)
  then have "(seam_step consumer)\<^sup>*\<^sup>* (alone env v (Fact_Minting [] (map spec_command (oc_registrations cmd))) d) (alone env v p' d')"
    using fin alone_mint [where rows = "[]" and env = env and cmd = cmd and consumer = consumer] by (simp add: v mint_view_def)
  moreover have "seam_step consumer (alone env v Fact_Claimed d)
      (alone env v (Fact_Minting [] (map spec_command (oc_registrations cmd))) d)"
    using none by (intro alone_step) (simp_all add: v claimed_advance_def)
  ultimately show ?thesis by (rule converse_rtranclp_into_rtranclp [rotated])
next
  case False
  have "seam_advance env consumer v Fact_Claimed d = (p', d')"
  proof (cases v)
    case (Order_Confirmed cmd)
    then have "deliver env consumer v d = repo_order_confirmed env consumer (oc_delivery_id cmd) (oc_order_id cmd)
        (oc_grand_total cmd) (map spec_command (oc_registrations cmd)) None d"
      using routed by (simp add: on_order_confirmed_def route_advance_def split: if_splits option.splits)
    then show ?thesis using False Order_Confirmed fin by (simp add: claimed_advance_def)
  qed (use fin in \<open>simp_all add: claimed_advance_def del: deliver.simps\<close>)
  then show ?thesis by (intro r_into_rtranclp alone_step) simp_all
qed

section \<open>Properties of overlapping deliveries\<close>


text \<open>An event with room for five and another, both of one shape.\<close>

definition ex_roomy :: db where
  "ex_roomy = ex_db\<lparr>events := [ex_event 1 False 5, ex_event 2 False 5]\<rparr>"

definition ex_fact :: "uuid \<Rightarrow> string \<Rightarrow> uuid list \<Rightarrow> delivery" where
  "ex_fact order k es = Order_Confirmed \<lparr>oc_delivery_id = Some k, oc_order_id = order, oc_grand_total = ''10.50'',
     oc_registrations = map (\<lambda>e. ex_spec\<lparr>rs_event_id := e\<rparr>) es\<rparr>"

definition ex_seam_from :: "nat \<Rightarrow> seam_env" where
  "ex_seam_from n = ex_seam\<lparr>sv_seat := (\<lambda>k. ex_env (n + k))\<rparr>"

text \<open>The same delivery twice at once, and two deliveries of one order at once.\<close>

definition ex_same :: "(seam_env \<times> delivery) list" where
  "ex_same = [(ex_seam_from 3, ex_fact 33 ''d1'' [1]), (ex_seam_from 5, ex_fact 33 ''d1'' [1])]"

definition ex_twice :: "(seam_env \<times> delivery) list" where
  "ex_twice = [(ex_seam_from 3, ex_fact 33 ''d1'' [1]), (ex_seam_from 5, ex_fact 33 ''d2'' [1])]"

text \<open>Two orders that name the same two events in opposite orders.\<close>

definition ex_crossed :: "(seam_env \<times> delivery) list" where
  "ex_crossed = [(ex_seam_from 3, ex_fact 33 ''d1'' [1, 2]), (ex_seam_from 5, ex_fact 34 ''d2'' [2, 1])]"

lemma ex_price: "grand_total_is_zero ''10.50'' \<longleftrightarrow> False"
  by (simp add: grand_total_is_zero_def parse_decimal_def parse_exponent_def strip_sign_def trim_def
      is_space_def is_digit_def digits_value_def)

lemma ex_barcodes: "mint_barcode [3, 0, 0, 0, 0, 0, 0, 0] \<noteq> mint_barcode [5, 0, 0, 0, 0, 0, 0, 0]"
  using mint_barcode_inj [of "[3, 0, 0, 0, 0, 0, 0, 0]" "[5, 0, 0, 0, 0, 0, 0, 0]"] by auto

lemmas seam_run_eval = seam_start_def seam_runnable_def seam_statement_def fact_phase_def fact_key_def
  route_advance_def claimed_advance_def mint_advance_def mint_view_def mint_env_def ex_fact_def ex_seam_from_def
  ex_roomy_def ex_price ex_barcodes seam_audit_frame after_insert_def

lemma ex_same_outcome:
  "\<exists>s. (seam_step ''c'')\<^sup>*\<^sup>* (seam_start ex_same ex_roomy) s \<and> fact_phase s 0 = Fact_Finished (Inr (applied 1 0)) \<and>
     fact_phase s 1 = Fact_Finished (Inr already_applied)"
proof (rule exI [of _ "seam_schedule ''c'' [0, 1, 0, 1, 0, 0, 0, 1, 1] (seam_start ex_same ex_roomy)"], intro conjI)
  show "(seam_step ''c'')\<^sup>*\<^sup>* (seam_start ex_same ex_roomy)
    (seam_schedule ''c'' [0, 1, 0, 1, 0, 0, 0, 1, 1] (seam_start ex_same ex_roomy))" by (rule seam_schedule_reaches)
qed (simp_all add: ex_same_def seam_run_eval seam_eval seat_eval frame_simps upt_rec)

text \<open>
  C9. Overlapping mints fit and happen once: whatever way confirmed and cancelled facts overlap,
  if the orders have no rows at the start, deliveries of one order carry one inbox key, and specs name
  a slot only where the event has slots, then no event ever exceeds its seats, and an order whose
  delivery took effect has exactly one row per attendee, redeliveries or not.
\<close>

theorem overlapping_mints_fit_and_happen_once:
  assumes reach: "(seam_step consumer)\<^sup>*\<^sup>* (seam_start vs d) s" and inv: "seat_inv d" and facts: "minting_facts vs d"
  shows "within_capacity (sm_db s) \<and>
    (\<forall>k < length vs. \<forall>cmd out. snd (vs ! k) = Order_Confirmed cmd \<and>
       fact_phase s k = Fact_Finished (Inr out) \<and> \<not> so_already_applied out \<longrightarrow>
       count_rows (linked_to (oc_order_id cmd)) (registrations (sm_db s)) = int (length (oc_registrations cmd)))"
proof -
  have kept: "room_kept vs d s"
    by (rule room_kept_reached [OF reach _ facts]) (use inv in \<open>simp add: seat_inv_room\<close>)
  then have "within_capacity (sm_db s)" by (simp add: room_kept_def room_inv_def)
  moreover have "took_effect (fact_phase s k)" if "fact_phase s k = Fact_Finished (Inr out)" "\<not> so_already_applied out" for k out
    using that by simp
  ultimately show ?thesis using kept unfolding room_kept_def by blast
qed

theorem overlapping_mints_fit_and_happen_once_witness:
  "\<exists>s. (seam_step ''c'')\<^sup>*\<^sup>* (seam_start ex_same ex_roomy) s \<and> within_capacity (sm_db s) \<and>
     fact_phase s 1 = Fact_Finished (Inr already_applied) \<and> count_rows (linked_to 33) (registrations (sm_db s)) = 1"
proof -
  obtain s where s: "(seam_step ''c'')\<^sup>*\<^sup>* (seam_start ex_same ex_roomy) s"
    and p: "fact_phase s 0 = Fact_Finished (Inr (applied 1 0))" "fact_phase s 1 = Fact_Finished (Inr already_applied)"
    using ex_same_outcome by blast
  have inv: "seat_inv ex_roomy"
    by (auto simp: seat_inv_def keys_ok_def slots_fit_def within_capacity_def seats_taken_def count_rows_def ex_roomy_def ex_defs)
  have facts: "minting_facts ex_same ex_roomy"
    by (simp add: minting_facts_def ex_same_def ex_fact_def ex_seam_from_def ex_spec_def ex_seam_def spec_command_def
        no_stray_slot_def claim_key_def event_by_id_def ex_roomy_def ex_defs)
  from overlapping_mints_fit_and_happen_once [OF s inv facts] have
    "within_capacity (sm_db s)" "count_rows (linked_to 33) (registrations (sm_db s)) = 1"
    using p(1) by (auto simp: ex_same_def ex_fact_def)
  with s p(2) show ?thesis by blast
qed

text \<open>
  C10. Exactly once under overlap: however the statements of any number of deliveries interleave, the
  inbox grows by exactly the keys of the deliveries that took effect, each key once and none that was
  there before, so of the deliveries of one fact, redeliveries at the same time included, at most
  one takes effect.
\<close>

theorem overlapping_deliveries_apply_once:
  assumes "(seam_step consumer)\<^sup>*\<^sup>* (seam_start vs d) s"
  shows "\<exists>ks. distinct ks \<and>
    set ks = {k. k < length vs \<and> (\<exists>out. fact_phase s k = Fact_Finished (Inr out) \<and> \<not> so_already_applied out)} \<and>
    seam_inbox (sm_db s) = seam_inbox d @ map (\<lambda>k. (consumer, inbox_key (sv_show (fst (vs ! k))) (snd (vs ! k)))) ks \<and>
    distinct (map (\<lambda>k. inbox_key (sv_show (fst (vs ! k))) (snd (vs ! k))) ks) \<and>
    (\<forall>k \<in> set ks. (consumer, inbox_key (sv_show (fst (vs ! k))) (snd (vs ! k))) \<notin> set (seam_inbox d))"
proof -
  have ok: "once_applied consumer vs d s" by (rule once_applied_reached [OF assms])
  then have calls: "map fst (sm_calls s) = vs" by (simp add: once_applied_def)
  then have key: "fact_key s k = inbox_key (sv_show (fst (vs ! k))) (snd (vs ! k))" if "k < length vs" for k
    using that by (auto simp: fact_key_def case_prod_beta)
  have effect: "took_effect p \<longleftrightarrow> (\<exists>out. p = Fact_Finished (Inr out) \<and> \<not> so_already_applied out)" for p
    by (auto simp: took_effect_def split: seam_phase.splits sum.splits)
  obtain ks where ks: "distinct ks" "set ks = {k. k < length vs \<and> took_effect (fact_phase s k)}"
    "seam_inbox (sm_db s) = seam_inbox d @ map (\<lambda>k. (consumer, fact_key s k)) ks"
    "distinct (map (fact_key s) ks)" "\<forall>k \<in> set ks. (consumer, fact_key s k) \<notin> set (seam_inbox d)"
    using ok by (auto simp: once_applied_def)
  have same: "map (\<lambda>k. (consumer, fact_key s k)) ks = map (\<lambda>k. (consumer, inbox_key (sv_show (fst (vs ! k))) (snd (vs ! k)))) ks"
    "map (fact_key s) ks = map (\<lambda>k. inbox_key (sv_show (fst (vs ! k))) (snd (vs ! k))) ks"
    using ks(2) key by auto
  show ?thesis
    using ks key by (intro exI [of _ ks]) (auto simp: effect same [symmetric])
qed

theorem overlapping_deliveries_apply_once_witness:
  "\<exists>s. (seam_step ''c'')\<^sup>*\<^sup>* (seam_start ex_same ex_roomy) s \<and>
     fact_phase s 1 = Fact_Finished (Inr already_applied) \<and> seam_inbox (sm_db s) = [(''c'', ''confirmed:d1'')]"
proof -
  obtain s where s: "(seam_step ''c'')\<^sup>*\<^sup>* (seam_start ex_same ex_roomy) s"
    and p: "fact_phase s 0 = Fact_Finished (Inr (applied 1 0))" "fact_phase s 1 = Fact_Finished (Inr already_applied)"
    using ex_same_outcome by blast
  have two: "length ex_same = 2" by (simp add: ex_same_def)
  from overlapping_deliveries_apply_once [OF s] obtain ks where ks: "distinct ks"
    "set ks = {k. k < length ex_same \<and> (\<exists>out. fact_phase s k = Fact_Finished (Inr out) \<and> \<not> so_already_applied out)}"
    "seam_inbox (sm_db s) = seam_inbox ex_roomy @
       map (\<lambda>k. (''c'', inbox_key (sv_show (fst (ex_same ! k))) (snd (ex_same ! k)))) ks" by blast
  have "k \<in> set ks \<longleftrightarrow> k = 0" for k
    unfolding ks(2) mem_Collect_eq two using p by (cases "k = 0"; cases "k = 1") (auto simp del: One_nat_def)
  then have "set ks = {0}" by blast
  then have "ks = [0]" using ks(1) by (cases ks rule: remdups_adj.cases) auto
  then have "seam_inbox (sm_db s) = [(''c'', ''confirmed:d1'')]"
    using ks(3) by (simp add: ex_same_def ex_fact_def claim_key_def ex_roomy_def ex_db_def empty_db_def)
  with s p(2) show ?thesis by blast
qed



end
