(* ===== verification/Tenancy.thy ===== *)
theory Tenancy
  imports Requests
begin

text \<open>
  Which database a call runs on: \<open>request_pool.rs\<close>, the two route trees of
  \<open>presentation/http/admin_routes.rs\<close> and \<open>presentation/http/public_routes.rs\<close> with the services
  they compose, and the resolution every repository makes. A pool is a value of a type parameter;
  the databases behind the pools are a function (\<open>pr_fleet\<close>). The throttle windows, the public
  routes' and the intake's, and the host ports belong to the process and are shared by every pool.
\<close>

section \<open>The request pool\<close>

text \<open>
  The task-local: \<open>None\<close> outside any scope. A call reads it, \<open>scope\<close> sets it for the inner call,
  and the middleware sets it to the pool the composer's router put into the request, if any.
\<close>

type_synonym 'p task_local = "'p option"

definition current :: "'p task_local \<Rightarrow> 'p option" where
  "current scope = scope"

definition bind_request_pool :: "'p option \<Rightarrow> ('p task_local \<Rightarrow> 'a) \<Rightarrow> 'p task_local \<Rightarrow> 'a" where
  "bind_request_pool extension next scope =
     (case extension of
        Some pool \<Rightarrow> next (Some pool)
      | None \<Rightarrow> next scope)"

definition with_pool_scope :: "'p \<Rightarrow> ('p task_local \<Rightarrow> 'a) \<Rightarrow> 'p task_local \<Rightarrow> 'a" where
  "with_pool_scope pool inner scope = inner (Some pool)"

text \<open>What every repository runs a statement on: the request's pool, else the one it was built over.\<close>

definition rpool :: "'p \<Rightarrow> 'p task_local \<Rightarrow> 'p" where
  "rpool own scope = (case current scope of Some pool \<Rightarrow> pool | None \<Rightarrow> own)"

section \<open>The process\<close>

record ('p, 'w) process =
  pr_ics_windows :: windows
  pr_intake_windows :: windows
  pr_ports :: 'w
  pr_fleet :: "'p \<Rightarrow> db"

text \<open>The services of the officer tree, each by the pool its repositories are built over.\<close>

record 'p admin_state =
  as_events :: 'p
  as_seats :: 'p
  as_registrations :: 'p
  as_scheduler :: 'p
  as_booths :: 'p
  as_lead_rules :: 'p
  as_leads :: 'p
  as_desk :: 'p

definition admin_state_new :: "'p \<Rightarrow> 'p admin_state" where
  "admin_state_new pool =
     \<lparr>as_events = pool, as_seats = pool, as_registrations = pool, as_scheduler = pool, as_booths = pool,
      as_lead_rules = pool, as_leads = pool, as_desk = pool\<rparr>"

record 'p public_state =
  ps_ics :: 'p
  ps_tickets :: 'p
  ps_intake :: 'p

definition public_state_new :: "'p \<Rightarrow> 'p public_state" where
  "public_state_new pool = \<lparr>ps_ics = pool, ps_tickets = pool, ps_intake = pool\<rparr>"

section \<open>The officer tree\<close>

text \<open>Every route with what it extracts from the request.\<close>

datatype officer_call =
    Get_Events "int option"
  | Post_Events json
  | Get_Event uuid
  | Patch_Event uuid json
  | Post_Publish uuid
  | Post_Unpublish uuid
  | Post_Event_Done uuid
  | Get_Seats uuid "uuid option"
  | Get_Registrations uuid "int option" "uuid option"
  | Post_Registrations json
  | Get_Registration uuid
  | Patch_Registration uuid json
  | Post_Confirm uuid
  | Post_Set_Draft uuid
  | Post_Set_Done uuid
  | Post_Cancel uuid
  | Post_Sync uuid json
  | Get_Mails "uuid option"
  | Post_Run_Mail uuid
  | Post_Run_Scheduler
  | Post_Sweep
  | Post_Desk string uuid
  | Get_Booths "uuid option" "int option"
  | Post_Booths json
  | Get_Booth uuid
  | Patch_Booth uuid json
  | Delete_Booth uuid
  | Post_Release uuid
  | Post_Mark_Paid json
  | Get_Bookings uuid
  | Post_Bookings uuid json
  | Get_Booking uuid
  | Delete_Booking uuid
  | Post_Confirm_Booking uuid
  | Get_Rules "int option"
  | Post_Rules json
  | Post_From_Answer json
  | Post_Relink json
  | Get_Rule uuid
  | Patch_Rule uuid json
  | Get_Lead_Request uuid
  | Post_Run_Leads
  | Post_Template_Deleted string uuid
  | Get_Linked_Products

datatype admin_answer =
    Event_Answer "event_rec answer"
  | Events_Answer "event_rec list answer"
  | Seats_Answer "seat_availability answer"
  | Registration_Answer "reg_rec answer"
  | Registrations_Answer "reg_rec list answer"
  | Mails_Answer "sched_row list answer"
  | Run_Answer "run_summary answer"
  | Sweep_Answer "(nat \<times> uuid list) answer"
  | Desk_Answer "(reg_rec \<times> event_registration_state \<times> event_registration_state) answer"
  | Booth_Answer "booth_rec answer"
  | Booths_Answer "booth_rec list answer"
  | Deleted_Answer "uuid answer"
  | Count_Answer "nat answer"
  | Booking_Answer "booking_rec answer"
  | Bookings_Answer "booking_rec list answer"
  | Confirmed_Answer "(booking_rec \<times> booth_rec) answer"
  | Rule_Answer "lead_rule_rec answer"
  | Rules_Answer "lead_rule_rec list answer"
  | Rule_View_Answer "(lead_rule_rec \<times> predicate_rec list \<times> (int \<times> int) \<times> (int \<times> int)) answer"
  | Lead_Request_Answer "lead_request_rec option answer"
  | Lead_Run_Answer "lead_summary answer"
  | Cascade_Answer "(int \<times> int) answer"
  | Products_Answer "uuid list answer"

text \<open>What the host brings: the environments of the verbs, the ports, the batch sizes, the collation.\<close>

record ('w, 'k) host =
  ho_admin :: admin_env
  ho_sched :: sched_env
  ho_ports :: "'w ports"
  ho_lead :: lead_env
  ho_sink :: "'w lead_sink"
  ho_batches :: "int \<times> int"
  ho_lead_batches :: "int \<times> int"
  ho_now :: timestamp
  ho_collate :: "string \<Rightarrow> 'k"

definition reads :: "('a \<Rightarrow> admin_answer) \<Rightarrow> 'a \<Rightarrow> 'w \<Rightarrow> db \<Rightarrow> (admin_answer \<times> 'w \<times> db) option" where
  "reads tag a w d = Some (tag a, w, d)"

definition writes :: "('a \<Rightarrow> admin_answer) \<Rightarrow> 'a \<times> db \<Rightarrow> 'w \<Rightarrow> (admin_answer \<times> 'w \<times> db) option" where
  "writes tag r w = Some (tag (fst r), w, snd r)"

definition runs ::
    "('a \<Rightarrow> admin_answer) \<Rightarrow> ('a \<times> 'w \<times> db) option \<Rightarrow> (admin_answer \<times> 'w \<times> db) option" where
  "runs tag r = map_option (\<lambda>(a, w, d). (tag a, w, d)) r"

fun officer_handler ::
    "('w, 'k::linorder) host \<Rightarrow> uuid option \<Rightarrow> officer_call \<Rightarrow> 'w \<Rightarrow> db \<Rightarrow> (admin_answer \<times> 'w \<times> db) option" where
  "officer_handler h actor (Get_Events limit) w d = reads Events_Answer (list_events_route limit d) w d"
| "officer_handler h actor (Post_Events body) w d = writes Event_Answer (create_event_route (ho_admin h) actor body d) w"
| "officer_handler h actor (Get_Event i) w d = reads Event_Answer (get_event_route i d) w d"
| "officer_handler h actor (Patch_Event i body) w d = writes Event_Answer (patch_event_route (ho_admin h) actor i body d) w"
| "officer_handler h actor (Post_Publish i) w d = writes Event_Answer (publish_event_route (ho_admin h) actor i d) w"
| "officer_handler h actor (Post_Unpublish i) w d = writes Event_Answer (unpublish_event_route (ho_admin h) actor i d) w"
| "officer_handler h actor (Post_Event_Done i) w d = writes Event_Answer (mark_done_event_route (ho_admin h) actor i d) w"
| "officer_handler h actor (Get_Seats i slot) w d = reads Seats_Answer (event_seats_route i slot d) w d"
| "officer_handler h actor (Get_Registrations e limit after) w d =
     reads Registrations_Answer (list_registrations_route e limit after d) w d"
| "officer_handler h actor (Post_Registrations body) w d =
     writes Registration_Answer (register_registration_route (ho_admin h) actor body d) w"
| "officer_handler h actor (Get_Registration i) w d = reads Registration_Answer (get_registration_route i d) w d"
| "officer_handler h actor (Patch_Registration i body) w d =
     writes Registration_Answer (patch_registration_route (ho_admin h) actor i body d) w"
| "officer_handler h actor (Post_Confirm i) w d =
     writes Registration_Answer (confirm_registration_route (ho_admin h) actor i d) w"
| "officer_handler h actor (Post_Set_Draft i) w d =
     writes Registration_Answer (set_draft_registration_route (ho_admin h) actor i d) w"
| "officer_handler h actor (Post_Set_Done i) w d =
     writes Registration_Answer (set_done_registration_route (ho_admin h) actor i d) w"
| "officer_handler h actor (Post_Cancel i) w d =
     writes Registration_Answer (cancel_registration_route (ho_admin h) actor i d) w"
| "officer_handler h actor (Post_Sync i body) w d =
     writes Registration_Answer (sync_from_partner_registration_route (ho_admin h) actor i body d) w"
| "officer_handler h actor (Get_Mails e) w d = reads Mails_Answer (list_mails_route e d) w d"
| "officer_handler h actor (Post_Run_Mail i) w d =
     runs Run_Answer (run_mail_route (ho_sched h) (ho_ports h) (fst (ho_batches h)) i w d)"
| "officer_handler h actor Post_Run_Scheduler w d =
     runs Run_Answer (run_scheduler_route (ho_sched h) (ho_ports h) (fst (ho_batches h)) (snd (ho_batches h)) w d)"
| "officer_handler h actor Post_Sweep w d = writes Sweep_Answer (run_sweep_route (ho_now h) d) w"
| "officer_handler h actor (Post_Desk barcode e) w d =
     writes Desk_Answer (desk_register_attendee_route (ho_admin h) actor barcode e d) w"
| "officer_handler h actor (Get_Booths e limit) w d = reads Booths_Answer (list_booths_route (ho_collate h) e limit d) w d"
| "officer_handler h actor (Post_Booths body) w d = writes Booth_Answer (create_booth_route (ho_admin h) actor body d) w"
| "officer_handler h actor (Get_Booth i) w d = reads Booth_Answer (get_booth_route i d) w d"
| "officer_handler h actor (Patch_Booth i body) w d = writes Booth_Answer (patch_booth_route (ho_admin h) actor i body d) w"
| "officer_handler h actor (Delete_Booth i) w d = writes Deleted_Answer (delete_booth_route actor i d) w"
| "officer_handler h actor (Post_Release i) w d = writes Booth_Answer (release_booth_route actor i d) w"
| "officer_handler h actor (Post_Mark_Paid body) w d = writes Count_Answer (mark_booths_paid_route (ho_admin h) body d) w"
| "officer_handler h actor (Get_Bookings b) w d = reads Bookings_Answer (list_booth_bookings_route b d) w d"
| "officer_handler h actor (Post_Bookings b body) w d =
     writes Booking_Answer (create_booth_booking_route (ho_admin h) actor b body d) w"
| "officer_handler h actor (Get_Booking i) w d = reads Booking_Answer (get_booth_booking_route i d) w d"
| "officer_handler h actor (Delete_Booking i) w d = writes Deleted_Answer (delete_booth_booking_route actor i d) w"
| "officer_handler h actor (Post_Confirm_Booking i) w d =
     writes Confirmed_Answer (confirm_booth_booking_route (ho_admin h) actor i d) w"
| "officer_handler h actor (Get_Rules limit) w d = reads Rules_Answer (list_lead_rules_route (ho_collate h) limit d) w d"
| "officer_handler h actor (Post_Rules body) w d = writes Rule_Answer (create_lead_rule_route (ho_admin h) actor body d) w"
| "officer_handler h actor (Post_From_Answer body) w d =
     writes Rule_Answer (lead_rule_from_answer_route (ho_admin h) actor body d) w"
| "officer_handler h actor (Post_Relink body) w d = writes Count_Answer (lead_rule_relink_route (ho_admin h) actor body d) w"
| "officer_handler h actor (Get_Rule i) w d = reads Rule_View_Answer (get_lead_rule_route i d) w d"
| "officer_handler h actor (Patch_Rule i body) w d = writes Rule_Answer (patch_lead_rule_route (ho_admin h) actor i body d) w"
| "officer_handler h actor (Get_Lead_Request e) w d = reads Lead_Request_Answer (get_lead_request_route e d) w d"
| "officer_handler h actor Post_Run_Leads w d =
     runs Lead_Run_Answer
       (run_lead_requests_route (ho_lead h) (ho_sink h) (fst (ho_lead_batches h)) (snd (ho_lead_batches h)) w d)"
| "officer_handler h actor (Post_Template_Deleted kind ref) w d =
     writes Cascade_Answer (on_template_deleted_route actor kind ref d) w"
| "officer_handler h actor Get_Linked_Products w d = reads Products_Answer (event_linked_products_route d) w d"

text \<open>The service a route's handler calls.\<close>

fun service_of :: "officer_call \<Rightarrow> 'p admin_state \<Rightarrow> 'p" where
  "service_of (Get_Events _) = as_events"
| "service_of (Post_Events _) = as_events"
| "service_of (Get_Event _) = as_events"
| "service_of (Patch_Event _ _) = as_events"
| "service_of (Post_Publish _) = as_events"
| "service_of (Post_Unpublish _) = as_events"
| "service_of (Post_Event_Done _) = as_events"
| "service_of (Get_Seats _ _) = as_seats"
| "service_of (Get_Registrations _ _ _) = as_registrations"
| "service_of (Post_Registrations _) = as_registrations"
| "service_of (Get_Registration _) = as_registrations"
| "service_of (Patch_Registration _ _) = as_registrations"
| "service_of (Post_Confirm _) = as_registrations"
| "service_of (Post_Set_Draft _) = as_registrations"
| "service_of (Post_Set_Done _) = as_registrations"
| "service_of (Post_Cancel _) = as_registrations"
| "service_of (Post_Sync _ _) = as_registrations"
| "service_of (Get_Mails _) = as_scheduler"
| "service_of (Post_Run_Mail _) = as_scheduler"
| "service_of Post_Run_Scheduler = as_scheduler"
| "service_of Post_Sweep = as_scheduler"
| "service_of (Post_Desk _ _) = as_desk"
| "service_of (Get_Booths _ _) = as_booths"
| "service_of (Post_Booths _) = as_booths"
| "service_of (Get_Booth _) = as_booths"
| "service_of (Patch_Booth _ _) = as_booths"
| "service_of (Delete_Booth _) = as_booths"
| "service_of (Post_Release _) = as_booths"
| "service_of (Post_Mark_Paid _) = as_booths"
| "service_of (Get_Bookings _) = as_booths"
| "service_of (Post_Bookings _ _) = as_booths"
| "service_of (Get_Booking _) = as_booths"
| "service_of (Delete_Booking _) = as_booths"
| "service_of (Post_Confirm_Booking _) = as_booths"
| "service_of (Get_Rules _) = as_lead_rules"
| "service_of (Post_Rules _) = as_lead_rules"
| "service_of (Post_From_Answer _) = as_lead_rules"
| "service_of (Post_Relink _) = as_lead_rules"
| "service_of (Get_Rule _) = as_lead_rules"
| "service_of (Patch_Rule _ _) = as_lead_rules"
| "service_of (Get_Lead_Request _) = as_leads"
| "service_of Post_Run_Leads = as_leads"
| "service_of (Post_Template_Deleted _ _) = as_scheduler"
| "service_of Get_Linked_Products = as_events"

text \<open>The tree: the handlers over their services, inside the layer that binds the request's pool.\<close>

definition officer_routes ::
    "('w, 'k::linorder) host \<Rightarrow> 'p admin_state \<Rightarrow> uuid option \<Rightarrow> officer_call \<Rightarrow> 'p task_local \<Rightarrow>
       ('p, 'w) process \<Rightarrow> (admin_answer \<times> ('p, 'w) process) option" where
  "officer_routes h st actor c scope s =
     (let p = rpool (service_of c st) scope in
      case officer_handler h actor c (pr_ports s) (pr_fleet s p) of
        None \<Rightarrow> None
      | Some (a, w, d) \<Rightarrow> Some (a, s\<lparr>pr_ports := w, pr_fleet := (pr_fleet s)(p := d)\<rparr>))"

definition event_admin_routes ::
    "('w, 'k::linorder) host \<Rightarrow> 'p admin_state \<Rightarrow> 'p option \<Rightarrow> uuid option \<Rightarrow> officer_call \<Rightarrow> 'p task_local \<Rightarrow>
       ('p, 'w) process \<Rightarrow> (admin_answer \<times> ('p, 'w) process) option" where
  "event_admin_routes h st extension actor c = bind_request_pool extension (officer_routes h st actor c)"

section \<open>The public trees\<close>

datatype public_call =
    Get_Calendar ics_env nat nat string "string option" "string option"
  | Get_Tickets cap_env timestamp string

datatype intake_call = Post_Intake throttles intake_request "string option" "string option"

datatype public_answer =
    Calendar_Answer "response + calendar_reply"
  | Tickets_Answer "response + (nat \<times> ticket_report)"
  | Intake_Answer "response + (nat \<times> reg_rec)"

text \<open>No layer binds a pool here: the pool in the request is not looked at.\<close>

fun event_public_routes ::
    "public_cfg \<Rightarrow> 'p public_state \<Rightarrow> 'p option \<Rightarrow> public_call \<Rightarrow> 'p task_local \<Rightarrow>
       ('p, 'w) process \<Rightarrow> public_answer \<times> ('p, 'w) process" where
  "event_public_routes cfg st extension (Get_Calendar env c1 c2 capability fwd sock) scope s =
     (case ics_handler cfg env c1 c2 capability fwd sock (pr_ics_windows s)
             (pr_fleet s (rpool (ps_ics st) scope)) of
        (a, w) \<Rightarrow> (Calendar_Answer a, s\<lparr>pr_ics_windows := w\<rparr>))"
| "event_public_routes cfg st extension (Get_Tickets env now capability) scope s =
     (Tickets_Answer (my_tickets_handler cfg env now capability (pr_fleet s (rpool (ps_tickets st) scope))), s)"

fun event_intake_routes ::
    "public_cfg \<Rightarrow> 'p public_state \<Rightarrow> 'p option \<Rightarrow> intake_call \<Rightarrow> 'p task_local \<Rightarrow>
       ('p, 'w) process \<Rightarrow> public_answer \<times> ('p, 'w) process" where
  "event_intake_routes cfg st extension (Post_Intake th q fwd sock) scope s =
     (let p = rpool (ps_intake st) scope in
      case intake_handler cfg th q fwd sock (pr_intake_windows s, pr_fleet s p) of
        (a, w, d) \<Rightarrow> (Intake_Answer a, s\<lparr>pr_intake_windows := w, pr_fleet := (pr_fleet s)(p := d)\<rparr>))"

section \<open>Calls in sequence\<close>

text \<open>
  A call with the pool the router put into its request. Some callers of the host wrap a call in a
  scope of their own.
\<close>

datatype tree_call =
    To_Officer "uuid option" officer_call
  | To_Public public_cfg public_call
  | To_Intake public_cfg intake_call

datatype 'p mounted = mounted (mt_scope: "'p option") (mt_extension: "'p option") (mt_call: "tree_call")

type_synonym any_answer = "admin_answer + public_answer"

definition answer_call ::
    "('w, 'k::linorder) host \<Rightarrow> 'p \<Rightarrow> 'p mounted \<Rightarrow> 'p task_local \<Rightarrow> ('p, 'w) process \<Rightarrow>
       (any_answer \<times> ('p, 'w) process) option" where
  "answer_call h own m scope s =
     (case mt_call m of
        To_Officer actor c \<Rightarrow>
          map_option (map_prod Inl id) (event_admin_routes h (admin_state_new own) (mt_extension m) actor c scope s)
      | To_Public cfg c \<Rightarrow>
          Some (map_prod Inr id (event_public_routes cfg (public_state_new own) (mt_extension m) c scope s))
      | To_Intake cfg c \<Rightarrow>
          Some (map_prod Inr id (event_intake_routes cfg (public_state_new own) (mt_extension m) c scope s)))"

definition serve_call ::
    "('w, 'k::linorder) host \<Rightarrow> 'p \<Rightarrow> 'p mounted \<Rightarrow> ('p, 'w) process \<Rightarrow> (any_answer \<times> ('p, 'w) process) option" where
  "serve_call h own m s =
     (case mt_scope m of
        Some pool \<Rightarrow> with_pool_scope pool (answer_call h own m) None s
      | None \<Rightarrow> answer_call h own m None s)"

text \<open>One call after the other; \<open>None\<close> when one of them never answers.\<close>

fun serve_calls ::
    "('w, 'k::linorder) host \<Rightarrow> 'p \<Rightarrow> 'p mounted list \<Rightarrow> ('p, 'w) process \<Rightarrow>
       (any_answer list \<times> ('p, 'w) process) option" where
  "serve_calls h own [] s = Some ([], s)"
| "serve_calls h own (m # ms) s =
     (case serve_call h own m s of
        None \<Rightarrow> None
      | Some (a, s') \<Rightarrow>
          (case serve_calls h own ms s' of
             None \<Rightarrow> None
           | Some (as, t) \<Rightarrow> Some (a # as, t)))"

section \<open>Which database a call is about\<close>

text \<open>
  The specification of the routing: an officer call goes to the pool of its request, a public call
  never does; without one, to the scope around it, else to the composed pool.
\<close>

definition tenant_of :: "'p \<Rightarrow> 'p mounted \<Rightarrow> 'p" where
  "tenant_of own m =
     (case (mt_call m, mt_extension m, mt_scope m) of
        (To_Officer _ _, Some pool, _) \<Rightarrow> pool
      | (_, _, Some pool) \<Rightarrow> pool
      | (_, _, None) \<Rightarrow> own)"

text \<open>The calls that use something the tenants share: the host ports, and each set of throttle windows.\<close>

fun uses_ports :: "tree_call \<Rightarrow> bool" where
  "uses_ports (To_Officer _ (Post_Run_Mail _)) = True"
| "uses_ports (To_Officer _ Post_Run_Scheduler) = True"
| "uses_ports (To_Officer _ Post_Run_Leads) = True"
| "uses_ports _ = False"

fun uses_ics_windows :: "tree_call \<Rightarrow> bool" where
  "uses_ics_windows (To_Public _ (Get_Calendar _ _ _ _ _ _)) = True"
| "uses_ics_windows _ = False"

fun uses_intake_windows :: "tree_call \<Rightarrow> bool" where
  "uses_intake_windows (To_Intake _ _) = True"
| "uses_intake_windows _ = False"

text \<open>A shared part is used by one side only: by calls of this tenant, or by calls of others.\<close>

definition one_sided :: "'p \<Rightarrow> (tree_call \<Rightarrow> bool) \<Rightarrow> 'p \<Rightarrow> 'p mounted list \<Rightarrow> bool" where
  "one_sided own uses p ms \<longleftrightarrow>
     (\<forall>m \<in> set ms. uses (mt_call m) \<longrightarrow> tenant_of own m = p) \<or>
     (\<forall>m \<in> set ms. uses (mt_call m) \<longrightarrow> tenant_of own m \<noteq> p)"

section \<open>A call where it goes\<close>

lemma service_of_new [simp]: "service_of c (admin_state_new own) = own"
  by (cases c) (simp_all add: admin_state_new_def)

lemma public_pools [simp]: "ps_ics (public_state_new own) = own" "ps_tickets (public_state_new own) = own"
    "ps_intake (public_state_new own) = own"
  by (simp_all add: public_state_new_def)

lemmas pool_simps = serve_call_def answer_call_def event_admin_routes_def officer_routes_def bind_request_pool_def
  with_pool_scope_def rpool_def current_def tenant_of_def Let_def

lemma serve_officer_call:
  assumes "mt_call m = To_Officer actor c"
  shows "serve_call h own m s =
    map_option (\<lambda>(a, w, d). (Inl a, s\<lparr>pr_ports := w, pr_fleet := (pr_fleet s)(tenant_of own m := d)\<rparr>))
      (officer_handler h actor c (pr_ports s) (pr_fleet s (tenant_of own m)))"
  using assms by (cases m; cases "mt_scope m"; cases "mt_extension m")
    (auto simp: pool_simps option.map_comp comp_def split: option.splits)

lemma serve_calendar_call:
  assumes "mt_call m = To_Public cfg (Get_Calendar env c1 c2 capability fwd sock)"
  shows "serve_call h own m s =
    (case ics_handler cfg env c1 c2 capability fwd sock (pr_ics_windows s) (pr_fleet s (tenant_of own m)) of
       (a, w) \<Rightarrow> Some (Inr (Calendar_Answer a), s\<lparr>pr_ics_windows := w\<rparr>))"
  using assms by (cases m; cases "mt_scope m"; cases "mt_extension m")
    (simp_all add: pool_simps split: prod.split)

lemma serve_tickets_call:
  assumes "mt_call m = To_Public cfg (Get_Tickets env now capability)"
  shows "serve_call h own m s =
    Some (Inr (Tickets_Answer (my_tickets_handler cfg env now capability (pr_fleet s (tenant_of own m)))), s)"
  using assms by (cases m; cases "mt_scope m"; cases "mt_extension m") (simp_all add: pool_simps)

lemma serve_intake_call:
  assumes "mt_call m = To_Intake cfg (Post_Intake th q fwd sock)"
  shows "serve_call h own m s =
    (case intake_handler cfg th q fwd sock (pr_intake_windows s, pr_fleet s (tenant_of own m)) of
       (a, w, d) \<Rightarrow> Some (Inr (Intake_Answer a),
         s\<lparr>pr_intake_windows := w, pr_fleet := (pr_fleet s)(tenant_of own m := d)\<rparr>))"
  using assms by (cases m; cases "mt_scope m"; cases "mt_extension m")
    (simp_all add: pool_simps split: prod.split)

text \<open>A route that does not run the ports answers alike whatever they are, and leaves them.\<close>

lemma handler_without_ports:
  assumes "\<not> uses_ports (To_Officer actor c)"
  obtains a d' where "\<And>w. officer_handler h actor c w d = Some (a, w, d')"
  using assms by (cases c) (auto simp: reads_def writes_def)

section \<open>Two processes that agree on one tenant\<close>

definition agree :: "'p \<Rightarrow> bool \<Rightarrow> bool \<Rightarrow> bool \<Rightarrow> ('p, 'w) process \<Rightarrow> ('p, 'w) process \<Rightarrow> bool" where
  "agree p ports ics door s t \<longleftrightarrow>
     pr_fleet s p = pr_fleet t p \<and> (ports \<longrightarrow> pr_ports s = pr_ports t) \<and>
     (ics \<longrightarrow> pr_ics_windows s = pr_ics_windows t) \<and> (door \<longrightarrow> pr_intake_windows s = pr_intake_windows t)"

definition sided :: "'p \<Rightarrow> bool \<Rightarrow> bool \<Rightarrow> bool \<Rightarrow> 'p \<Rightarrow> 'p mounted \<Rightarrow> bool" where
  "sided own ports ics door p m \<longleftrightarrow>
     (uses_ports (mt_call m) \<longrightarrow> (tenant_of own m = p \<longleftrightarrow> ports)) \<and>
     (uses_ics_windows (mt_call m) \<longrightarrow> (tenant_of own m = p \<longleftrightarrow> ics)) \<and>
     (uses_intake_windows (mt_call m) \<longrightarrow> (tenant_of own m = p \<longleftrightarrow> door))"

text \<open>A call of the tenant does the same in both; a call of another tenant does nothing to this one.\<close>

lemma own_call_agrees:
  assumes step: "serve_call h own m s = Some (a, s')" and p: "tenant_of own m = p"
    and sided: "sided own ports ics door p m" and agree: "agree p ports ics door s t"
  shows "\<exists>t'. serve_call h own m t = Some (a, t') \<and> agree p ports ics door s' t'"
proof (cases "mt_call m")
  case (To_Officer actor c)
  show ?thesis
  proof (cases "uses_ports (mt_call m)")
    case True
    then have "pr_ports s = pr_ports t" using sided p agree by (simp add: sided_def agree_def)
    then show ?thesis using step agree
      by (auto simp: serve_officer_call [OF To_Officer] p agree_def)
  next
    case False
    obtain b d' where "\<And>w. officer_handler h actor c w (pr_fleet s p) = Some (b, w, d')"
      using handler_without_ports False To_Officer by metis
    then show ?thesis using step agree
      by (auto simp: serve_officer_call [OF To_Officer] p agree_def)
  qed
next
  case (To_Public cfg c)
  show ?thesis
  proof (cases c)
    case (Get_Calendar env c1 c2 capability fwd sock)
    note call = To_Public [unfolded Get_Calendar]
    have "pr_ics_windows s = pr_ics_windows t" using sided p agree by (simp add: sided_def agree_def call)
    then show ?thesis using step agree
      by (auto simp: serve_calendar_call [OF call] p agree_def split: prod.splits)
  next
    case (Get_Tickets env now capability)
    note call = To_Public [unfolded Get_Tickets]
    show ?thesis using step agree by (auto simp: serve_tickets_call [OF call] p agree_def)
  qed
next
  case (To_Intake cfg c)
  obtain th q fwd sock where "c = Post_Intake th q fwd sock" by (cases c)
  note call = To_Intake [unfolded this]
  have "pr_intake_windows s = pr_intake_windows t" using sided p agree by (simp add: sided_def agree_def call)
  then show ?thesis using step agree
    by (auto simp: serve_intake_call [OF call] p agree_def split: prod.splits)
qed

lemma other_call_agrees:
  assumes step: "serve_call h own m s = Some (a, s')" and p: "tenant_of own m \<noteq> p"
    and sided: "sided own ports ics door p m" and agree: "agree p ports ics door s t"
  shows "agree p ports ics door s' t"
proof (cases "mt_call m")
  case (To_Officer actor c)
  show ?thesis
  proof (cases "uses_ports (mt_call m)")
    case True
    then have "\<not> ports" using sided p by (simp add: sided_def)
    then show ?thesis using step agree p by (auto simp: serve_officer_call [OF To_Officer] agree_def)
  next
    case False
    obtain b d' where "\<And>w. officer_handler h actor c w (pr_fleet s (tenant_of own m)) = Some (b, w, d')"
      using handler_without_ports False To_Officer by metis
    then show ?thesis using step agree p by (auto simp: serve_officer_call [OF To_Officer] agree_def)
  qed
next
  case (To_Public cfg c)
  show ?thesis
  proof (cases c)
    case (Get_Calendar env c1 c2 capability fwd sock)
    note call = To_Public [unfolded Get_Calendar]
    show ?thesis using step agree p sided
      by (auto simp: serve_calendar_call [OF call] agree_def sided_def call split: prod.splits)
  next
    case (Get_Tickets env now capability)
    note call = To_Public [unfolded Get_Tickets]
    show ?thesis using step agree by (auto simp: serve_tickets_call [OF call] agree_def)
  qed
next
  case (To_Intake cfg c)
  obtain th q fwd sock where "c = Post_Intake th q fwd sock" by (cases c)
  note call = To_Intake [unfolded this]
  show ?thesis using step agree p sided
    by (auto simp: serve_intake_call [OF call] agree_def sided_def call split: prod.splits)
qed

lemma calls_agree:
  assumes "serve_calls h own ms s = Some (as, s')" and "\<forall>m \<in> set ms. sided own ports ics door p m"
    and "agree p ports ics door s t"
  shows "\<exists>t'. serve_calls h own (filter (\<lambda>m. tenant_of own m = p) ms) t =
      Some (map snd (filter (\<lambda>(m, a). tenant_of own m = p) (zip ms as)), t') \<and> agree p ports ics door s' t'"
  using assms
proof (induction ms arbitrary: s t as)
  case Nil
  then show ?case by simp
next
  case (Cons m ms)
  from Cons.prems(1) obtain a u as' where step: "serve_call h own m s = Some (a, u)"
    and rest: "serve_calls h own ms u = Some (as', s')" and as: "as = a # as'" by (auto split: option.splits)
  have sided: "sided own ports ics door p m" using Cons.prems(2) by simp
  show ?case
  proof (cases "tenant_of own m = p")
    case True
    obtain t' where t': "serve_call h own m t = Some (a, t')" "agree p ports ics door u t'"
      using own_call_agrees [OF step True sided Cons.prems(3)] by blast
    from Cons.IH [OF rest _ t'(2)] Cons.prems(2) t'(1) True show ?thesis by (auto simp: as)
  next
    case False
    have "agree p ports ics door u t" by (rule other_call_agrees [OF step False sided Cons.prems(3)])
    from Cons.IH [OF rest _ this] Cons.prems(2) False show ?thesis by (auto simp: as)
  qed
qed

lemma one_sided_sides:
  assumes "one_sided own uses p ms"
  obtains b where "\<forall>m \<in> set ms. uses (mt_call m) \<longrightarrow> (tenant_of own m = p \<longleftrightarrow> b)"
  using assms unfolding one_sided_def by (metis (full_types))

text \<open>
  C7. Tenants do not see each other: of whatever officer, public and intake calls a process serves,
  the calls of one database get the answers they get when they are the only ones served, and leave
  the database they leave then, as long as the host ports and the throttle windows, which the
  process shares, are used on one side only. The pool in the request decides for the officer tree;
  for the public trees it does not, they run on the scope around them or the composed pool.
\<close>

theorem tenants_do_not_see_each_other:
  assumes "serve_calls h own ms s = Some (as, s')"
    and "one_sided own uses_ports p ms" and "one_sided own uses_ics_windows p ms"
    and "one_sided own uses_intake_windows p ms"
  shows "\<exists>t. serve_calls h own (filter (\<lambda>m. tenant_of own m = p) ms) s =
      Some (map snd (filter (\<lambda>(m, a). tenant_of own m = p) (zip ms as)), t) \<and> pr_fleet t p = pr_fleet s' p"
proof -
  obtain ports where ports: "\<forall>m \<in> set ms. uses_ports (mt_call m) \<longrightarrow> (tenant_of own m = p \<longleftrightarrow> ports)"
    by (rule one_sided_sides [OF assms(2)])
  obtain ics where ics: "\<forall>m \<in> set ms. uses_ics_windows (mt_call m) \<longrightarrow> (tenant_of own m = p \<longleftrightarrow> ics)"
    by (rule one_sided_sides [OF assms(3)])
  obtain door where door: "\<forall>m \<in> set ms. uses_intake_windows (mt_call m) \<longrightarrow> (tenant_of own m = p \<longleftrightarrow> door)"
    by (rule one_sided_sides [OF assms(4)])
  have "\<forall>m \<in> set ms. sided own ports ics door p m" using ports ics door by (simp add: sided_def)
  from calls_agree [OF assms(1) this, of s] show ?thesis by (auto simp: agree_def)
qed

text \<open>A process over three databases; the event is taken down in one of them and read in another.\<close>

definition ex_host :: "(unit, string) host" where
  "ex_host =
     \<lparr>ho_admin = ex_admin, ho_sched = ex_sched_env, ho_ports = unwired_ports, ho_lead = ex_lead_env,
      ho_sink = \<lparr>si_create = refusing_create, si_update = refusing_update\<rparr>,
      ho_batches = (50, 20), ho_lead_batches = (50, 20), ho_now = 500, ho_collate = id\<rparr>"

definition ex_process :: "(nat, unit) process" where
  "ex_process = \<lparr>pr_ics_windows = no_windows, pr_intake_windows = no_windows, pr_ports = (), pr_fleet = (\<lambda>_. ex_db)\<rparr>"

definition ex_calls :: "nat mounted list" where
  "ex_calls = [mounted None (Some 1) (To_Officer None (Post_Unpublish 1)),
     mounted None (Some 2) (To_Officer None (Get_Event 1))]"

theorem tenants_do_not_see_each_other_witness:
  "\<exists>t. serve_calls ex_host 0 [mounted None (Some 2) (To_Officer None (Get_Event 1))] ex_process =
     Some ([Inl (Event_Answer (Inr (200, ex_event 1 False 1)))], t) \<and> pr_fleet t 2 = ex_db"
proof -
  have tenants: "tenant_of 0 (ex_calls ! 0) = 1" "tenant_of 0 (ex_calls ! 1) = 2" by (simp_all add: ex_calls_def tenant_of_def)
  have read: "officer_handler ex_host None (Get_Event 1) w ex_db =
      Some (Event_Answer (Inr (200, ex_event 1 False 1)), w, ex_db)" for w
    by (simp add: reads_def get_event_route_def find_event_def event_by_id_def ex_db_def ex_event_def reply_def)
  obtain a d' where down: "officer_handler ex_host None (Post_Unpublish 1) w ex_db = Some (a, w, d')" for w
    using handler_without_ports [of None "Post_Unpublish 1" ex_host ex_db] by auto
  let ?s = "ex_process\<lparr>pr_fleet := (pr_fleet ex_process)(1 := d')\<rparr>"
  have run: "serve_calls ex_host 0 ex_calls ex_process =
      Some ([Inl a, Inl (Event_Answer (Inr (200, ex_event 1 False 1)))], ?s)"
    unfolding ex_calls_def
    by (simp del: officer_handler.simps One_nat_def add: serve_officer_call tenant_of_def down read ex_process_def fun_upd_idem)
  have "one_sided 0 uses_ports 2 ex_calls" "one_sided 0 uses_ics_windows 2 ex_calls"
    "one_sided 0 uses_intake_windows 2 ex_calls" by (simp_all add: one_sided_def ex_calls_def)
  from tenants_do_not_see_each_other [OF run this] show ?thesis
    by (simp del: serve_calls.simps add: ex_calls_def tenant_of_def ex_process_def)
qed

end
