(* ===== verification/Spec2Isabelle.thy ===== *)
theory Spec2Isabelle
  imports Prelude Enums EventError StateMachines Schema Examples Seats Events Desk SaleSeam Booths Scheduler Leads
    Walls Capability Ics Intake Public Admin Requests EntityBase Pages RowRules BoothEntities EventEntities MailEntities
    LeadEntities RegistrationEntities Metadata Handlers Crud Accessors Exports Seeding Interleaving
    BoothOverlap SaleOverlap Tenancy
begin

text \<open>
  A verification development of the events module (backbone-events): event management,
  registrations against seat limits, the sale seam, booths, the communication scheduler, lead
  generation, and the officer and public HTTP trees over them.

  The program. The hand-written core is a layer of services (\<open>src/src/application/service\<close>)
  over repositories that hold all SQL (\<open>src/src/infrastructure/persistence\<close>). Every verb is one
  PostgreSQL transaction: it locks the rows it decides on, checks guards in a fixed order, writes,
  appends an audit fact and commits; an error at any point rolls everything back. So each verb is a
  function from its arguments and the database to \<open>event_error + (result \<times> database)\<close>, and a
  sequence of verbs is a run of such functions. Beside it stands a generated layer: twenty-five
  entities with their DTOs, builders, write guards and repository metadata, the state machines, the
  enumerations, and CRUD handlers over a third-party generic service. The rest is glue.

  The theories, in the order of the code's layers.

  \<^item> \<open>Prelude\<close>: results, the SQL statement shapes on tables (select, update, delete, count,
    exists, limit, coalesce), text, and the interfaces \<open>enum_codec\<close> and \<open>verb_invariant\<close>.
  \<^item> \<open>Enums\<close>: the enumerations of \<open>domain/entity/*.rs\<close> with Display and FromStr, each an
    instance of \<open>enum_codec\<close>. \<open>EventError\<close>: \<open>event_error.rs\<close>, codes, statuses and texts.
    \<open>StateMachines\<close>: the generated \<open>domain/state_machine\<close> files behind one contract.
  \<^item> \<open>Schema\<close>: the tables and the database record, audit facts (\<open>audit.rs\<close>), row lookups, keys.
    \<open>Examples\<close>: the concrete rows the witnesses evaluate on.
  \<^item> \<open>Seats\<close>: \<open>seat_repository.rs\<close>, \<open>registration_service.rs\<close>, \<open>seat_service.rs\<close>: register, the
    state verb with its seat head, barcode mint, partner sync, availability.
  \<^item> \<open>Events\<close>: \<open>event_command_repository.rs\<close>, \<open>event_service.rs\<close>: create with the one template
    apply, the fenced patch, publish and unpublish, mark-done, reads.
  \<^item> \<open>Desk\<close>: \<open>desk_service.rs\<close>, the scan of a barcode at the door.
  \<^item> \<open>SaleSeam\<close>: \<open>sale_seam_repository.rs\<close>, \<open>sale_seam_service.rs\<close>: order confirmed, cancelled,
    paid, with the delivery inbox.
  \<^item> \<open>Booths\<close>: \<open>booth_command_repository.rs\<close>: booths, booking intents, confirm, release, paid.
  \<^item> \<open>Scheduler\<close>: \<open>scheduler_repository.rs\<close>, \<open>scheduler_service.rs\<close>, \<open>template_port.rs\<close>,
    \<open>sms_port.rs\<close>: claim, receipts, the run loop, completion, cascade, sweep.
  \<^item> \<open>Leads\<close>: \<open>lead_command_repository.rs\<close>, \<open>lead_command_service.rs\<close>,
    \<open>lead_generation_service.rs\<close>, \<open>lead_sink.rs\<close>: typed rules, the leased queue, the generation pass.
  \<^item> \<open>Walls\<close>: seat verbs and booth verbs interleaved over one database.
  \<^item> \<open>Capability\<close>: \<open>capability.rs\<close>, the signed tokens: the base64 codec on 8- and 32-bit words,
    the MAC message, mint, verify. \<open>Ics\<close>: \<open>ics_service.rs\<close>, escaping, folding, the calendar body
    and its gated read. \<open>Intake\<close>: \<open>intake_service.rs\<close>, the fixed-window throttle and the guarded
    register.
  \<^item> \<open>Public\<close>: \<open>my_tickets_service.rs\<close>, \<open>event_surface.rs\<close>, \<open>public_routes.rs\<close>: the ticket
    report, the exported surface, the caller's address and the public handlers.
  \<^item> \<open>Admin\<close>: \<open>admin_routes.rs\<close>, the JSON parse layer and every officer handler.
    \<open>Requests\<close>: officer requests and public intakes served in any order.
  \<^item> \<open>EntityBase\<close>: \<open>entity/mod.rs\<close>, the audit metadata, and what every generic patch shares, behind
    the interface \<open>patchable\<close>. \<open>Pages\<close>: page counts in double precision and offsets at 32 bits.
    \<open>BoothEntities\<close>, \<open>EventEntities\<close>, \<open>MailEntities\<close>, \<open>LeadEntities\<close>, \<open>RegistrationEntities\<close>: for
    each generated entity the struct, constructor, setters, patch, persistence hooks, repository
    metadata and builder (\<open>domain/entity\<close>), the filters and page of \<open>domain/repositories\<close>, and the
    DTOs with their conversions (\<open>presentation/dto\<close>).
  \<^item> \<open>RowRules\<close>: the write guards (\<open>*_service.rs\<close>, \<open>*_row_rules.rs\<close>). \<open>Metadata\<close>: the repository
    metadata of all entities side by side. \<open>Handlers\<close>: the generated REST handlers
    (\<open>presentation/http\<close>): the error answers, permissions and route groups of each entity, the
    authentication layer over them, and the routers \<open>lib.rs\<close> mounts. \<open>Crud\<close>: the transition
    handlers of \<open>registration_handler.rs\<close> and \<open>booth_handler.rs\<close>, and properties of the layer.
  \<^item> \<open>Accessors\<close>: the typed ids of the entities, their accessors over the audit metadata and the
    persistence hooks of all twenty-five behind the interface \<open>persistent\<close>. \<open>Exports\<close>: the DTOs,
    summaries, references and events of \<open>exports/types.rs\<close> and \<open>exports/events.rs\<close>.
  \<^item> \<open>Seeding\<close>: the seeders of \<open>src/seeders\<close> and the command of \<open>bin/seeder.rs\<close> that runs them.
  \<^item> \<open>Interleaving\<close>: seat transactions that overlap, one SQL statement at a time, with the row
    locks they take; a state of each transaction is the statement it stands at. \<open>BoothOverlap\<close> and
    \<open>SaleOverlap\<close>: the same for the booth transactions and for the deliveries of the sale seam.
  \<^item> \<open>Tenancy\<close>: \<open>request_pool.rs\<close>, the officer and public route trees with the services they
    compose, and the pool each call of a process runs on.
  \<^item> This theory: properties that span components.

  How state corresponds. A table is the list of its rows, in insertion order; a row is a record of
  the columns the hand-written SQL reads or writes; a uuid is a natural number ordered as
  PostgreSQL orders uuids; a timestamp is an integer of microseconds. \<open>now()\<close>, fresh uuids, random
  bytes and CHECK constraints the model does not spell out come from an environment argument of the
  verb. Every theory but \<open>Interleaving\<close>, \<open>BoothOverlap\<close> and \<open>SaleOverlap\<close> takes a verb as one step,
  where locks have no effect; those three run the statements of many transactions in any order, and
  \<open>Interleaving\<close> shows that for the seat verbs nothing more can happen than in the one-step view. A
  row that SKIP LOCKED hides is a row that is not in the table. Text collation is a sort key argument. The audit trail is the
  list of facts; a failing audit append is not modelled.

  What the lemmas show. Seats: one registration takes one seat, a full event refuses with the typed
  error, no run of seat verbs exceeds a limit as long as no slot is given for an event without
  slots (with one, it can), the arm rule of the mail and lead queues. Events: templates are applied
  once, a patch cannot touch the publication pair. Desk: one branch, at most one write. Sale seam:
  exactly-once, all-or-nothing mint, forward-only heals, which bypass the seat limit. Booths: one
  confirmed booking per booth over any run. Scheduler: the done flag is the receipt truth, exactly
  when the receipt walk returns, and when it runs for ever. Leads: the pass always returns, a
  completed request has drained its rules, the lease excludes other walkers, an arm during a walk
  is lost. Capability: a minted token reads back until it expires, what is accepted carries the
  MAC of its payload under the asked purpose, a token opens one door only. Ics: a reader recovers
  the event name from the body and no name writes a calendar line; ASCII lines fold at 75 octets,
  other lines may not. Intake: whatever the interleaving, one identity gets at most its budget of
  registrations in a window. Routes: fenced patches change nothing, patches keep the lifecycle
  columns, and any served sequence of requests keeps both walls. Generated layer: a generic patch
  does not depend on the order of its fields and moves neither state nor audit data, a full update
  that moves the state is refused by the guard, the transition handlers write the state only, page
  flags are exact below \<open>2 ^ 53\<close> rows, offsets wrap at 32 bits, and the column casts of all
  entities are complete but for the mail scheduler's; a generic write leaves the lifecycle columns
  alone, every protected router asks for a caller, and a soft delete is undone by a restore.
  Seeding: a table is seeded after the tables it refers to, and a second run inserts nothing.
  Overlap: any interleaving of seat transactions is a sequence of whole verbs, none exceeds the seat
  limit while it runs, and none deadlocks. Booth transactions that overlap keep one confirmed booking
  per booth, but a release can strand a booth and two intents can cross events. Deliveries that
  overlap take effect once per inbox key, and one alone is the verb of \<open>SaleSeam\<close>; while
  deliveries of one order carry one key, mints fit into their events and happen once, but with keys of
  their own an order can be minted twice, and two orders can block each other for good. Tenants: the
  calls of one database are answered as if no other call was served.

  Loops. The receipt walk is a \<open>partial_function\<close> in the option monad: \<open>None\<close> means the loop does
  not end, and \<open>walk_returns_iff\<close> decides when that is. The batch loop of a lead rule is one too,
  and \<open>lead_pass_returns\<close> shows that it always ends. Every other loop of the code runs over a finite
  list, or counts claims up to a cap, and is structural, so no fuel is used.

  Parameters. HMAC-SHA256, serde's JSON text, the text of uuids and timestamps, chrono's formats,
  the host ports (renderer, queues, lead sink), the derived parsers of the lead bodies, the
  operators of the row-rule crate, the derived serialisation of a row, the generic service
  behind the transition handlers, the authenticator and the served handler behind the
  authentication layer, and the store a seeder writes to are arguments; what a theorem needs of them (a text that parses back, a MAC that takes any key) is
  its hypothesis.

  Not modelled. The matching of a request to its route, path and query extraction, derived
  serialisation and the tagged unions that only exist for it, the generic service and repository
  of the backbone crates and the builder that makes the generic services from them, the company and
  organisation scope those crates bind to a transaction, the module lists and re-exports, and the
  overlap of event, scheduler and lead transactions with others.
\<close>

section \<open>The registration verbs and the generated machine\<close>

text \<open>The service verb of each transition of \<open>RegistrationStateStateMachine\<close>.\<close>

fun machine_verb :: "regsm_transition \<Rightarrow> seat_env \<Rightarrow> uuid \<Rightarrow> uuid option \<Rightarrow> db \<Rightarrow> event_error + (reg_rec \<times> db)" where
  "machine_verb RT_SetDraft = set_draft"
| "machine_verb RT_Confirm = confirm_reg"
| "machine_verb RT_SetDone = set_done"
| "machine_verb RT_Cancel = cancel_reg"

text \<open>A stored state as the machine reads it back from its text.\<close>

definition machine_reads :: "event_registration_state \<Rightarrow> regsm_state \<Rightarrow> bool" where
  "machine_reads s m \<longleftrightarrow> regsm_state_from_str (registration_state_to_str s) = Inr m"

lemma service_transitionE:
  assumes "service_transition env i t actor d = Inr (r, d')"
  obtains b a act where "transition env i t actor d = Inr ((b, a, act), d')" and "registration_by_id i d' = Some r"
  using assms by (auto simp: service_transition_def find_registration_def result_simps)

lemma machine_verb_transition:
  "machine_verb t env i actor d = service_transition env i (regsm_state_to_str (regsm_target_state t)) actor d"
  by (cases t) (simp_all add: set_draft_def confirm_reg_def set_done_def cancel_reg_def)

lemma regsm_reads:
  "regsm_state_from_str ''draft'' = Inr RS_Draft" "regsm_state_from_str ''open'' = Inr RS_Open"
  "regsm_state_from_str ''done'' = Inr RS_Done" "regsm_state_from_str ''cancel'' = Inr RS_Cancel"
  using regsm_state.round_trip by (metis regsm_state_to_str.simps)+

lemma cast_machine_label: "cast_reg_state (regsm_state_to_str m) = Inr s \<Longrightarrow> machine_reads s m"
  by (cases m) (auto simp: machine_reads_def regsm_reads)

lemma machine_reads_some: "\<exists>m. machine_reads s m"
  by (cases s) (simp_all add: machine_reads_def regsm_reads)

text \<open>
  C23. The registration verbs refine the generated state machine: whenever set_draft, confirm,
  set_done or cancel succeeds on a stored registration, the generated machine, started from the
  stored state's text, allows that transition and ends in the state the verb stored.
\<close>

theorem registration_verbs_follow_the_machine:
  assumes verb: "machine_verb t env i actor d = Inr (r, d')"
  shows "\<exists>r0 m m'. registration_by_id i d = Some r0 \<and> registration_by_id i d' = Some r \<and>
    machine_reads (rg_state r0) m \<and> machine_reads (rg_state r) m' \<and>
    regsm_transition_apply t (regsm_from_state m) = (Inr m', regsm_from_state m')"
proof -
  from verb obtain b a act where tr: "transition env i (regsm_state_to_str (regsm_target_state t)) actor d = Inr ((b, a, act), d')"
    and r: "registration_by_id i d' = Some r"
    unfolding machine_verb_transition by (elim service_transitionE)
  from tr obtain r0 where r0: "registration_by_id i d = Some r0"
    and cast: "cast_reg_state (regsm_state_to_str (regsm_target_state t)) = Inr a" by (elim transitionE)
  have rin: "r \<in> set (registrations d')" "rg_id r = i" using registration_by_id_in [OF r] by simp_all
  then obtain x where x: "r = (if rg_id x = i then set_state (se_now env) a x else x)"
    unfolding transition_registrations [OF tr] in_upd_rows_iff by blast
  with rin(2) have "rg_id x = i" by (cases "rg_id x = i") simp_all
  with x have "rg_state r = a" by (simp add: set_state_def)
  moreover obtain m where "machine_reads (rg_state r0) m" using machine_reads_some by blast
  moreover have "regsm_transition_apply t (regsm_from_state m) =
      (Inr (regsm_target_state t), regsm_from_state (regsm_target_state t))" for m
    by (simp add: regsm_transition_apply_def regsm_transition_total regsm_from_state_def)
  ultimately show ?thesis using r0 r cast_machine_label [OF cast] by blast
qed

theorem registration_verbs_follow_the_machine_witness:
  "\<exists>r d'. machine_verb RT_Cancel (ex_env 3) 5 None (ex_db_with [ex_reg 5 1 None Reg_Open]) = Inr (r, d') \<and>
     machine_reads (rg_state r) RS_Cancel"
proof -
  let ?d = "ex_db_with [ex_reg 5 1 None Reg_Open]"
  have "\<not> isl (machine_verb RT_Cancel (ex_env 3) 5 None ?d)"
    by (simp add: cancel_reg_def service_transition_def transition_def find_registration_def takes_seat_def registration_by_id_def
        Let_def set_state_def upd_rows_def transition_arms_def transition_audit_def arm_lead_queue_def seat_eval)
  then obtain r d' where ok: "machine_verb RT_Cancel (ex_env 3) 5 None ?d = Inr (r, d')" using isr_obtain2 by blast
  from registration_verbs_follow_the_machine [OF ok] obtain m m' where
    "machine_reads (rg_state r) m'" "regsm_transition_apply RT_Cancel (regsm_from_state m) = (Inr m', regsm_from_state m')"
    by blast
  then show ?thesis using ok by (auto simp: regsm_transition_apply_def regsm_transition_total)
qed

section \<open>The texts of the enumerations\<close>

text \<open>
  Every enumeration the module stores or sends is read back from its own text, so no value of
  any of the fifteen enumerations is lost or changed by writing it as text and parsing it again.
\<close>

lemma enumeration_texts_round_trip:
  "badge_format_from_str (badge_format_to_str a) = Inr a \<and>
   booth_booking_status_from_str (booth_booking_status_to_str b) = Inr b \<and>
   booth_state_from_str (booth_state_to_str c) = Inr c \<and>
   interval_kind_from_str (interval_kind_to_str e) = Inr e \<and>
   interval_unit_from_str (interval_unit_to_str f) = Inr f \<and>
   kanban_state_from_str (kanban_state_to_str g) = Inr g \<and>
   lead_basis_from_str (lead_basis_to_str h) = Inr h \<and>
   lead_grouping_from_str (lead_grouping_to_str i) = Inr i \<and>
   lead_predicate_axis_from_str (lead_predicate_axis_to_str j) = Inr j \<and>
   mail_error_kind_from_str (mail_error_kind_to_str k) = Inr k \<and>
   notification_channel_from_str (notification_channel_to_str l) = Inr l \<and>
   question_kind_from_str (question_kind_to_str m) = Inr m \<and>
   registration_state_from_str (registration_state_to_str n) = Inr n \<and>
   sale_order_state_from_str (sale_order_state_to_str q) = Inr q \<and>
   sale_status_from_str (sale_status_to_str r) = Inr r"
  by (intro conjI badge_format.round_trip booth_booking_status.round_trip booth_state.round_trip
      interval_kind.round_trip interval_unit.round_trip kanban_state.round_trip lead_basis.round_trip
      lead_grouping.round_trip lead_predicate_axis.round_trip mail_error_kind.round_trip
      notification_channel.round_trip question_kind.round_trip registration_state.round_trip
      sale_order_state.round_trip sale_status.round_trip)

end
